(* ===== verification/Nova_Errors.thy ===== *)
theory Nova_Errors
  imports Main
begin

text \<open>
  The error contract of \<open>app/core/errors.py\<close>: the business codes (an \<open>IntEnum\<close>, so a code is
  its integer), the default HTTP status table, the exception classes built by \<open>_error\<close>, one
  datatype per section of the source, and the status each class answers with. Exceptions that
  do not derive from \<open>AppError\<close> (the internal pricing error, the database's constraint
  violation) are the other constructors of \<open>exn\<close>.
\<close>

section \<open>Business codes\<close>

definition error_codes :: "(string \<times> int) list" where
  "error_codes =
    [(''OK'', 0),
     (''INTERNAL_ERROR'', 10000),
     (''VALIDATION_ERROR'', 10001),
     (''NOT_FOUND'', 10002),
     (''CONFLICT'', 10003),
     (''RATE_LIMITED'', 10004),
     (''METHOD_NOT_ALLOWED'', 10005),
     (''PAYLOAD_TOO_LARGE'', 10006),
     (''UNSUPPORTED_MEDIA_TYPE'', 10007),
     (''SERVICE_UNAVAILABLE'', 10008),
     (''DEPENDENCY_UNAVAILABLE'', 10009),
     (''IDEMPOTENCY_KEY_REQUIRED'', 10010),
     (''IDEMPOTENCY_KEY_REUSED_WITH_DIFFERENT_PAYLOAD'', 10011),
     (''IDEMPOTENCY_REQUEST_IN_PROGRESS'', 10012),
     (''UNAUTHENTICATED'', 20000),
     (''INVALID_CREDENTIALS'', 20001),
     (''TOKEN_EXPIRED'', 20002),
     (''TOKEN_INVALID'', 20003),
     (''REFRESH_TOKEN_REUSED'', 20004),
     (''SESSION_REVOKED'', 20005),
     (''ACCOUNT_LOCKED'', 20006),
     (''ACCOUNT_DISABLED'', 20007),
     (''FORBIDDEN'', 20008),
     (''INSUFFICIENT_PERMISSION'', 20009),
     (''DATA_SCOPE_VIOLATION'', 20010),
     (''CSRF_VALIDATION_FAILED'', 20011),
     (''MERCHANT_MISMATCH'', 20012),
     (''PRODUCT_NOT_FOUND'', 30000),
     (''PRODUCT_NOT_PUBLISHED'', 30001),
     (''SKU_NOT_FOUND'', 30002),
     (''SKU_NOT_AVAILABLE'', 30003),
     (''CATEGORY_NOT_FOUND'', 30004),
     (''BRAND_NOT_FOUND'', 30005),
     (''PRODUCT_ALREADY_PUBLISHED'', 30006),
     (''PRODUCT_STATE_INVALID'', 30007),
     (''IMAGE_UPLOAD_REJECTED'', 30008),
     (''INSUFFICIENT_STOCK'', 40000),
     (''INVENTORY_NOT_FOUND'', 40001),
     (''INVENTORY_CONFLICT_STALE_VERSION'', 40002),
     (''INVENTORY_ADJUSTMENT_INVALID'', 40003),
     (''WAREHOUSE_NOT_FOUND'', 40004),
     (''INVENTORY_MOVEMENT_DUPLICATE'', 40005),
     (''CART_NOT_FOUND'', 50000),
     (''CART_EMPTY'', 50001),
     (''CART_ITEM_NOT_FOUND'', 50002),
     (''ORDER_NOT_FOUND'', 50003),
     (''ORDER_STATE_INVALID'', 50004),
     (''ORDER_ALREADY_EXPIRED'', 50005),
     (''ORDER_AMOUNT_MISMATCH'', 50006),
     (''PRICE_CHANGED'', 50007),
     (''ADDRESS_NOT_FOUND'', 50008),
     (''ADDRESS_NOT_OWNED'', 50009),
     (''ORDER_NOT_CANCELLABLE'', 50010),
     (''ORDER_NOT_CONFIRMABLE'', 50011),
     (''PAYMENT_NOT_FOUND'', 60000),
     (''PAYMENT_ALREADY_PAID'', 60001),
     (''PAYMENT_AMOUNT_MISMATCH'', 60002),
     (''PAYMENT_CALLBACK_INVALID_SIGNATURE'', 60003),
     (''PAYMENT_CALLBACK_DUPLICATE'', 60004),
     (''PAYMENT_CHANNEL_UNSUPPORTED'', 60005),
     (''PAYMENT_MOCK_DISABLED'', 60006),
     (''PAYMENT_STATE_INVALID'', 60007),
     (''FULFILLMENT_NOT_FOUND'', 70000),
     (''FULFILLMENT_QUANTITY_EXCEEDS_ORDER'', 70001),
     (''FULFILLMENT_STATE_INVALID'', 70002),
     (''FULFILLMENT_ALREADY_SHIPPED'', 70003),
     (''AFTER_SALE_NOT_FOUND'', 80000),
     (''AFTER_SALE_NOT_ELIGIBLE'', 80001),
     (''AFTER_SALE_STATE_INVALID'', 80002),
     (''REFUND_NOT_FOUND'', 80003),
     (''REFUND_EXCEEDS_PAID_AMOUNT'', 80004),
     (''REFUND_EXCEEDS_ITEM_AMOUNT'', 80005),
     (''REFUND_AMOUNT_INVALID'', 80006),
     (''REFUND_ALREADY_COMPLETED'', 80007),
     (''PROMOTION_NOT_FOUND'', 90000),
     (''PROMOTION_CONFLICT'', 90001),
     (''PROMOTION_RULE_INVALID'', 90002),
     (''PROMOTION_PREVIEW_REQUIRED'', 90003),
     (''COUPON_NOT_FOUND'', 90004),
     (''COUPON_NOT_APPLICABLE'', 90005),
     (''COUPON_EXPIRED'', 90006),
     (''COUPON_ALREADY_USED'', 90007),
     (''COUPON_ALREADY_LOCKED'', 90008),
     (''COUPON_THRESHOLD_NOT_MET'', 90009),
     (''KNOWLEDGE_BASE_NOT_FOUND'', 100000),
     (''DOCUMENT_NOT_FOUND'', 100001),
     (''DOCUMENT_STATE_INVALID'', 100002),
     (''DOCUMENT_DUPLICATE'', 100003),
     (''DOCUMENT_PARSE_FAILED'', 100004),
     (''DOCUMENT_UNSUPPORTED_TYPE'', 100005),
     (''DOCUMENT_TOO_LARGE'', 100006),
     (''UPLOAD_SIGNATURE_MISMATCH'', 100007),
     (''PATH_TRAVERSAL_DETECTED'', 100008),
     (''RETRIEVAL_UNAVAILABLE'', 100009),
     (''INSUFFICIENT_EVIDENCE'', 100010),
     (''EMBEDDING_DIMENSION_MISMATCH'', 100011),
     (''AGENT_RUN_NOT_FOUND'', 110000),
     (''AGENT_BUDGET_EXCEEDED'', 110001),
     (''AGENT_TOOL_NOT_FOUND'', 110002),
     (''AGENT_TOOL_DISABLED'', 110003),
     (''AGENT_TOOL_NOT_ALLOWED_FOR_AGENT'', 110004),
     (''AGENT_TOOL_INPUT_INVALID'', 110005),
     (''AGENT_TOOL_OUTPUT_INVALID'', 110006),
     (''AGENT_ACTION_REQUIRES_APPROVAL'', 110007),
     (''AGENT_ACTION_BLOCKED_BY_RISK'', 110008),
     (''AGENT_GRAPH_VERSION_MISMATCH'', 110009),
     (''AGENT_REVALIDATION_FAILED'', 110010),
     (''AGENT_EXECUTION_RECEIPT_MISSING'', 110011),
     (''AGENT_PROMPT_INJECTION_DETECTED'', 110012),
     (''PENDING_ACTION_NOT_FOUND'', 120000),
     (''PENDING_ACTION_STATE_INVALID'', 120001),
     (''PENDING_ACTION_EXPIRED'', 120002),
     (''PENDING_ACTION_ALREADY_DECIDED'', 120003),
     (''PENDING_ACTION_PAYLOAD_CHANGED'', 120004),
     (''MCP_TOKEN_MISSING'', 120005),
     (''MCP_TOKEN_INVALID'', 120006),
     (''MCP_TOKEN_WRONG_ISSUER'', 120007),
     (''MCP_TOKEN_WRONG_AUDIENCE'', 120008),
     (''MCP_TOKEN_INSUFFICIENT_SCOPE'', 120009),
     (''MCP_ORIGIN_REJECTED'', 120010),
     (''MCP_TOOL_NOT_EXPOSED'', 120011),
     (''MCP_WRITE_NOT_PERMITTED'', 120012),
     (''OBJECT_NOT_FOUND'', 130000),
     (''OBJECT_STORAGE_UNAVAILABLE'', 130001),
     (''OBJECT_CHECKSUM_MISMATCH'', 130002),
     (''OBJECT_TOO_LARGE'', 130003),
     (''BUCKET_UNAVAILABLE'', 130004),
     (''AUDIT_WRITE_FAILED'', 140000),
     (''RATE_LIMIT_EXCEEDED'', 140001),
     (''FEATURE_DISABLED'', 140002)]"

definition default_http_status :: "(int \<times> int) list" where
  "default_http_status =
    [(0, 200),
     (10000, 500),
     (10001, 422),
     (10002, 404),
     (10003, 409),
     (10004, 429),
     (10008, 503),
     (20000, 401),
     (20008, 403),
     (10006, 413),
     (10007, 415),
     (40000, 409),
     (40002, 409),
     (50004, 409),
     (60004, 200),
     (80004, 409),
     (80005, 409),
     (90007, 409),
     (90008, 409),
     (100009, 503),
     (100010, 200),
     (110007, 202),
     (110008, 403),
     (120001, 409),
     (120005, 401),
     (120006, 401),
     (120009, 403),
     (120010, 403),
     (60000, 404),
     (60001, 409),
     (60002, 409),
     (60003, 400),
     (60005, 422),
     (60006, 403),
     (60007, 409),
     (70000, 404),
     (70001, 409),
     (70002, 409),
     (70003, 409),
     (80000, 404),
     (80001, 409),
     (80002, 409),
     (80003, 404),
     (80006, 422),
     (80007, 409),
     (130000, 404)]"

definition family_status :: "(int \<times> int) list" where
  "family_status =
    [(20, 400), (30, 400), (40, 409), (50, 409), (60, 400), (70, 409), (80, 409), (90, 409),
     (100, 422), (110, 409), (120, 409), (130, 503), (140, 429)]"

definition http_status_for :: "int \<Rightarrow> int" where
  "http_status_for code =
    (case map_of default_http_status code of
       Some s \<Rightarrow> s
     | None \<Rightarrow>
        (case map_of family_status (code div 1000) of
           Some s \<Rightarrow> s
         | None \<Rightarrow> if 10000 \<le> code \<and> code < 11000 then 400 else 500))"

section \<open>The exception classes\<close>

datatype common_error =
    ValidationError
  | NotFoundError
  | ConflictError
  | InternalError
  | ServiceUnavailableError
  | DependencyUnavailableError
  | DatabaseUnavailableError
  | RateLimitedError
  | PayloadTooLargeError
  | UnsupportedMediaTypeError

datatype idempotency_error =
    IdempotencyKeyRequiredError
  | IdempotencyPayloadMismatchError
  | IdempotencyInProgressError

datatype auth_error =
    AuthenticationError
  | InvalidCredentialsError
  | TokenExpiredError
  | TokenInvalidError
  | RefreshTokenReuseError
  | SessionRevokedError
  | AccountLockedError
  | AccountDisabledError
  | PermissionDeniedError
  | ForbiddenError
  | DataScopeViolationError
  | CsrfValidationError
  | MerchantMismatchError

datatype catalog_error =
    ProductNotFoundError
  | ProductNotPublishedError
  | SkuNotFoundError
  | SkuNotAvailableError
  | CategoryNotFoundError
  | BrandNotFoundError
  | ProductAlreadyPublishedError
  | ProductStateInvalidError
  | ImageUploadRejectedError

datatype inventory_error =
    InsufficientStockError
  | InventoryNotFoundError
  | InventoryVersionConflictError
  | WarehouseNotFoundError

datatype order_error =
    CartNotFoundError
  | CartEmptyError
  | OrderNotFoundError
  | OrderStateInvalidError
  | OrderExpiredError
  | OrderAmountMismatchError
  | PriceChangedError
  | AddressNotFoundError
  | OrderNotCancellableError
  | OrderNotConfirmableError

datatype payment_error =
    PaymentNotFoundError
  | PaymentAlreadyPaidError
  | PaymentAmountMismatchError
  | PaymentCallbackSignatureError
  | PaymentMockDisabledError
  | PaymentCallbackDuplicateError
  | PaymentStateInvalidError
  | PaymentChannelUnsupportedError

datatype fulfillment_error =
    FulfillmentNotFoundError
  | FulfillmentQuantityError
  | FulfillmentStateInvalidError
  | FulfillmentAlreadyShippedError

datatype after_sale_error =
    AfterSaleNotFoundError
  | AfterSaleNotEligibleError
  | RefundNotFoundError
  | RefundExceedsPaidError
  | RefundExceedsItemError
  | AfterSaleStateInvalidError
  | RefundAmountInvalidError
  | RefundAlreadyCompletedError

datatype marketing_error =
    PromotionNotFoundError
  | PromotionConflictError
  | PromotionPreviewRequiredError
  | CouponNotFoundError
  | CouponNotApplicableError
  | CouponExpiredError
  | CouponAlreadyUsedError
  | CouponAlreadyLockedError
  | CouponThresholdNotMetError

datatype knowledge_error =
    KnowledgeBaseNotFoundError
  | DocumentNotFoundError
  | DocumentStateInvalidError
  | DocumentUnsupportedTypeError
  | DocumentTooLargeError
  | UploadSignatureMismatchError
  | PathTraversalError
  | RetrievalUnavailableError
  | InsufficientEvidenceError
  | EmbeddingDimensionMismatchError

datatype agent_error =
    AgentRunNotFoundError
  | AgentBudgetExceededError
  | AgentToolNotFoundError
  | AgentToolDisabledError
  | AgentToolNotAllowedError
  | AgentToolInputError
  | AgentToolOutputError
  | AgentApprovalRequiredError
  | AgentBlockedByRiskError
  | AgentRevalidationFailedError
  | ExecutionReceiptMissingError
  | PromptInjectionDetectedError

datatype mcp_error =
    PendingActionNotFoundError
  | PendingActionStateInvalidError
  | PendingActionExpiredError
  | PendingActionAlreadyDecidedError
  | PendingActionPayloadChangedError
  | McpTokenMissingError
  | McpTokenInvalidError
  | McpTokenWrongIssuerError
  | McpTokenWrongAudienceError
  | McpInsufficientScopeError
  | McpOriginRejectedError
  | McpToolNotExposedError
  | McpWriteNotPermittedError

datatype storage_error =
    ObjectNotFoundError
  | ObjectStorageUnavailableError
  | ObjectChecksumMismatchError
  | ObjectTooLargeError

datatype app_error =
    Common common_error
  | Idempotency idempotency_error
  | Auth auth_error
  | Catalog catalog_error
  | Inventory_Err inventory_error
  | Order_Err order_error
  | Payment_Err payment_error
  | Fulfillment_Err fulfillment_error
  | After_Sale_Err after_sale_error
  | Marketing marketing_error
  | Knowledge knowledge_error
  | Agent agent_error
  | Mcp mcp_error
  | Storage storage_error

text \<open>What \<open>_error (name, code, http_status)\<close> binds into the class it builds.\<close>

record error_class =
  ec_default_message :: string
  ec_code :: int
  ec_http_status :: "int option"

definition mk_error :: "string \<Rightarrow> int \<Rightarrow> int option \<Rightarrow> error_class" where
  "mk_error name code status =
    \<lparr>ec_default_message = name, ec_code = code, ec_http_status = status\<rparr>"

primrec common_error_class :: "common_error \<Rightarrow> error_class" where
  "common_error_class ValidationError =
    mk_error ''Validation failed'' 10001 None"
| "common_error_class NotFoundError =
    mk_error ''Resource not found'' 10002 None"
| "common_error_class ConflictError =
    mk_error ''Conflicting state'' 10003 None"
| "common_error_class InternalError =
    mk_error ''Internal server error'' 10000 None"
| "common_error_class ServiceUnavailableError =
    mk_error ''Service temporarily unavailable'' 10008 None"
| "common_error_class DependencyUnavailableError =
    mk_error ''Downstream dependency unavailable'' 10009 None"
| "common_error_class DatabaseUnavailableError =
    mk_error ''Database is unavailable'' 10009 (Some 503)"
| "common_error_class RateLimitedError =
    mk_error ''Too many requests'' 10004 None"
| "common_error_class PayloadTooLargeError =
    mk_error ''Payload too large'' 10006 None"
| "common_error_class UnsupportedMediaTypeError =
    mk_error ''Unsupported media type'' 10007 None"

primrec idempotency_error_class :: "idempotency_error \<Rightarrow> error_class" where
  "idempotency_error_class IdempotencyKeyRequiredError =
    mk_error ''Idempotency-Key header is required'' 10010 None"
| "idempotency_error_class IdempotencyPayloadMismatchError =
    mk_error ''Idempotency-Key was reused with a different request body'' 10011 (Some 409)"
| "idempotency_error_class IdempotencyInProgressError =
    mk_error ''An identical request is still in progress'' 10012 (Some 409)"

primrec auth_error_class :: "auth_error \<Rightarrow> error_class" where
  "auth_error_class AuthenticationError =
    mk_error ''Authentication required'' 20000 (Some 401)"
| "auth_error_class InvalidCredentialsError =
    mk_error ''Invalid credentials'' 20001 (Some 401)"
| "auth_error_class TokenExpiredError =
    mk_error ''Token has expired'' 20002 (Some 401)"
| "auth_error_class TokenInvalidError =
    mk_error ''Token is invalid'' 20003 (Some 401)"
| "auth_error_class RefreshTokenReuseError =
    mk_error ''Refresh token reuse detected; the session family has been revoked'' 20004 (Some 401)"
| "auth_error_class SessionRevokedError =
    mk_error ''Session has been revoked'' 20005 (Some 401)"
| "auth_error_class AccountLockedError =
    mk_error ''Account is temporarily locked'' 20006 (Some 423)"
| "auth_error_class AccountDisabledError =
    mk_error ''Account is disabled'' 20007 (Some 403)"
| "auth_error_class PermissionDeniedError =
    mk_error ''Permission denied'' 20009 (Some 403)"
| "auth_error_class ForbiddenError =
    mk_error ''Forbidden'' 20008 (Some 403)"
| "auth_error_class DataScopeViolationError =
    mk_error ''Resource is outside the caller's data scope'' 20010 (Some 403)"
| "auth_error_class CsrfValidationError =
    mk_error ''CSRF validation failed'' 20011 (Some 403)"
| "auth_error_class MerchantMismatchError =
    mk_error ''Resource belongs to another merchant'' 20012 (Some 403)"

primrec catalog_error_class :: "catalog_error \<Rightarrow> error_class" where
  "catalog_error_class ProductNotFoundError =
    mk_error ''Product not found'' 30000 (Some 404)"
| "catalog_error_class ProductNotPublishedError =
    mk_error ''Product is not published'' 30001 (Some 409)"
| "catalog_error_class SkuNotFoundError =
    mk_error ''SKU not found'' 30002 (Some 404)"
| "catalog_error_class SkuNotAvailableError =
    mk_error ''SKU is not available for sale'' 30003 (Some 409)"
| "catalog_error_class CategoryNotFoundError =
    mk_error ''Category not found'' 30004 (Some 404)"
| "catalog_error_class BrandNotFoundError =
    mk_error ''Brand not found'' 30005 (Some 404)"
| "catalog_error_class ProductAlreadyPublishedError =
    mk_error ''Product is already published'' 30006 (Some 409)"
| "catalog_error_class ProductStateInvalidError =
    mk_error ''Product state does not allow this action'' 30007 (Some 409)"
| "catalog_error_class ImageUploadRejectedError =
    mk_error ''Product image was rejected'' 30008 (Some 400)"

primrec inventory_error_class :: "inventory_error \<Rightarrow> error_class" where
  "inventory_error_class InsufficientStockError =
    mk_error ''Insufficient available stock'' 40000 (Some 409)"
| "inventory_error_class InventoryNotFoundError =
    mk_error ''Inventory record not found'' 40001 (Some 404)"
| "inventory_error_class InventoryVersionConflictError =
    mk_error ''Inventory was modified concurrently; retry with fresh state'' 40002 (Some 409)"
| "inventory_error_class WarehouseNotFoundError =
    mk_error ''Warehouse not found'' 40004 (Some 404)"

primrec order_error_class :: "order_error \<Rightarrow> error_class" where
  "order_error_class CartNotFoundError =
    mk_error ''Cart not found'' 50000 (Some 404)"
| "order_error_class CartEmptyError =
    mk_error ''Cart is empty'' 50001 (Some 409)"
| "order_error_class OrderNotFoundError =
    mk_error ''Order not found'' 50003 (Some 404)"
| "order_error_class OrderStateInvalidError =
    mk_error ''Order is not in a state that allows this action'' 50004 (Some 409)"
| "order_error_class OrderExpiredError =
    mk_error ''Order has expired'' 50005 (Some 409)"
| "order_error_class OrderAmountMismatchError =
    mk_error ''Order amount does not equal the sum of its items'' 50006 (Some 500)"
| "order_error_class PriceChangedError =
    mk_error ''Price changed since it was last previewed'' 50007 (Some 409)"
| "order_error_class AddressNotFoundError =
    mk_error ''Address not found'' 50008 (Some 404)"
| "order_error_class OrderNotCancellableError =
    mk_error ''Order can no longer be cancelled'' 50010 (Some 409)"
| "order_error_class OrderNotConfirmableError =
    mk_error ''Order is not in a state where receipt can be confirmed'' 50011 (Some 409)"

primrec payment_error_class :: "payment_error \<Rightarrow> error_class" where
  "payment_error_class PaymentNotFoundError =
    mk_error ''Payment not found'' 60000 (Some 404)"
| "payment_error_class PaymentAlreadyPaidError =
    mk_error ''Order is already paid'' 60001 (Some 409)"
| "payment_error_class PaymentAmountMismatchError =
    mk_error ''Payment amount does not match the order'' 60002 (Some 409)"
| "payment_error_class PaymentCallbackSignatureError =
    mk_error ''Payment callback signature verification failed'' 60003 (Some 400)"
| "payment_error_class PaymentMockDisabledError =
    mk_error ''Mock payment is only available in dev/demo'' 60006 (Some 403)"
| "payment_error_class PaymentCallbackDuplicateError =
    mk_error ''Payment callback was already processed'' 60004 (Some 200)"
| "payment_error_class PaymentStateInvalidError =
    mk_error ''Payment is not in a state that allows this action'' 60007 (Some 409)"
| "payment_error_class PaymentChannelUnsupportedError =
    mk_error ''Payment channel is not supported by this deployment'' 60005 (Some 422)"

primrec fulfillment_error_class :: "fulfillment_error \<Rightarrow> error_class" where
  "fulfillment_error_class FulfillmentNotFoundError =
    mk_error ''Fulfillment not found'' 70000 (Some 404)"
| "fulfillment_error_class FulfillmentQuantityError =
    mk_error ''Shipment quantity exceeds the ordered quantity'' 70001 (Some 409)"
| "fulfillment_error_class FulfillmentStateInvalidError =
    mk_error ''Fulfillment is not in a state that allows this action'' 70002 (Some 409)"
| "fulfillment_error_class FulfillmentAlreadyShippedError =
    mk_error ''Fulfillment has already been shipped'' 70003 (Some 409)"

primrec after_sale_error_class :: "after_sale_error \<Rightarrow> error_class" where
  "after_sale_error_class AfterSaleNotFoundError =
    mk_error ''After-sale request not found'' 80000 (Some 404)"
| "after_sale_error_class AfterSaleNotEligibleError =
    mk_error ''Item is not eligible for after-sale'' 80001 (Some 409)"
| "after_sale_error_class RefundNotFoundError =
    mk_error ''Refund not found'' 80003 (Some 404)"
| "after_sale_error_class RefundExceedsPaidError =
    mk_error ''Refund would exceed the amount actually paid (INV-005)'' 80004 (Some 409)"
| "after_sale_error_class RefundExceedsItemError =
    mk_error ''Refund would exceed the item's paid amount'' 80005 (Some 409)"
| "after_sale_error_class AfterSaleStateInvalidError =
    mk_error ''After-sale request is not in a state that allows this action'' 80002 (Some 409)"
| "after_sale_error_class RefundAmountInvalidError =
    mk_error ''Refund amount is invalid'' 80006 (Some 422)"
| "after_sale_error_class RefundAlreadyCompletedError =
    mk_error ''Refund has already been completed'' 80007 (Some 409)"

primrec marketing_error_class :: "marketing_error \<Rightarrow> error_class" where
  "marketing_error_class PromotionNotFoundError =
    mk_error ''Promotion not found'' 90000 (Some 404)"
| "marketing_error_class PromotionConflictError =
    mk_error ''Promotion conflicts with an existing one'' 90001 (Some 409)"
| "marketing_error_class PromotionPreviewRequiredError =
    mk_error ''Promotion must be previewed before it is created'' 90003 (Some 409)"
| "marketing_error_class CouponNotFoundError =
    mk_error ''Coupon not found'' 90004 (Some 404)"
| "marketing_error_class CouponNotApplicableError =
    mk_error ''Coupon is not applicable to this order'' 90005 (Some 409)"
| "marketing_error_class CouponExpiredError =
    mk_error ''Coupon has expired'' 90006 (Some 409)"
| "marketing_error_class CouponAlreadyUsedError =
    mk_error ''Coupon has already been used'' 90007 (Some 409)"
| "marketing_error_class CouponAlreadyLockedError =
    mk_error ''Coupon is locked by another order'' 90008 (Some 409)"
| "marketing_error_class CouponThresholdNotMetError =
    mk_error ''Coupon threshold is not met'' 90009 (Some 409)"

primrec knowledge_error_class :: "knowledge_error \<Rightarrow> error_class" where
  "knowledge_error_class KnowledgeBaseNotFoundError =
    mk_error ''Knowledge base not found'' 100000 (Some 404)"
| "knowledge_error_class DocumentNotFoundError =
    mk_error ''Document not found'' 100001 (Some 404)"
| "knowledge_error_class DocumentStateInvalidError =
    mk_error ''Document is not in a valid state'' 100002 (Some 409)"
| "knowledge_error_class DocumentUnsupportedTypeError =
    mk_error ''Unsupported document type'' 100005 (Some 415)"
| "knowledge_error_class DocumentTooLargeError =
    mk_error ''Document exceeds the size limit'' 100006 (Some 413)"
| "knowledge_error_class UploadSignatureMismatchError =
    mk_error ''File content does not match its declared type'' 100007 (Some 415)"
| "knowledge_error_class PathTraversalError =
    mk_error ''Unsafe path detected'' 100008 (Some 400)"
| "knowledge_error_class RetrievalUnavailableError =
    mk_error ''Knowledge retrieval is currently unavailable; refusing to answer from memory'' 100009 (Some 503)"
| "knowledge_error_class InsufficientEvidenceError =
    mk_error ''Not enough evidence to answer'' 100010 None"
| "knowledge_error_class EmbeddingDimensionMismatchError =
    mk_error ''Embedding dimension does not match the vector collection'' 100011 (Some 500)"

primrec agent_error_class :: "agent_error \<Rightarrow> error_class" where
  "agent_error_class AgentRunNotFoundError =
    mk_error ''Agent run not found'' 110000 (Some 404)"
| "agent_error_class AgentBudgetExceededError =
    mk_error ''Agent exceeded its execution budget'' 110001 (Some 409)"
| "agent_error_class AgentToolNotFoundError =
    mk_error ''Unknown tool'' 110002 (Some 404)"
| "agent_error_class AgentToolDisabledError =
    mk_error ''Tool is disabled'' 110003 (Some 403)"
| "agent_error_class AgentToolNotAllowedError =
    mk_error ''Tool is not allowed for this agent'' 110004 (Some 403)"
| "agent_error_class AgentToolInputError =
    mk_error ''Tool input failed validation'' 110005 (Some 422)"
| "agent_error_class AgentToolOutputError =
    mk_error ''Tool output failed validation'' 110006 (Some 500)"
| "agent_error_class AgentApprovalRequiredError =
    mk_error ''This action requires human approval'' 110007 (Some 202)"
| "agent_error_class AgentBlockedByRiskError =
    mk_error ''Action blocked by the deterministic risk engine'' 110008 (Some 403)"
| "agent_error_class AgentRevalidationFailedError =
    mk_error ''Business facts changed between proposal and approval; the action was not executed'' 110010 (Some 409)"
| "agent_error_class ExecutionReceiptMissingError =
    mk_error ''A success claim requires an ExecutionReceipt'' 110011 (Some 500)"
| "agent_error_class PromptInjectionDetectedError =
    mk_error ''Request was rejected by the input guard'' 110012 (Some 400)"

primrec mcp_error_class :: "mcp_error \<Rightarrow> error_class" where
  "mcp_error_class PendingActionNotFoundError =
    mk_error ''Pending action not found'' 120000 (Some 404)"
| "mcp_error_class PendingActionStateInvalidError =
    mk_error ''Pending action is not awaiting a decision'' 120001 (Some 409)"
| "mcp_error_class PendingActionExpiredError =
    mk_error ''Pending action has expired'' 120002 (Some 410)"
| "mcp_error_class PendingActionAlreadyDecidedError =
    mk_error ''Pending action has already been decided'' 120003 (Some 409)"
| "mcp_error_class PendingActionPayloadChangedError =
    mk_error ''The underlying business state changed; re-preview before approving'' 120004 (Some 409)"
| "mcp_error_class McpTokenMissingError =
    mk_error ''Bearer token is required'' 120005 (Some 401)"
| "mcp_error_class McpTokenInvalidError =
    mk_error ''Bearer token is invalid'' 120006 (Some 401)"
| "mcp_error_class McpTokenWrongIssuerError =
    mk_error ''Token issuer is not trusted'' 120007 (Some 401)"
| "mcp_error_class McpTokenWrongAudienceError =
    mk_error ''Token audience does not include this resource'' 120008 (Some 401)"
| "mcp_error_class McpInsufficientScopeError =
    mk_error ''Token lacks the required scope'' 120009 (Some 403)"
| "mcp_error_class McpOriginRejectedError =
    mk_error ''Request origin is not allowed'' 120010 (Some 403)"
| "mcp_error_class McpToolNotExposedError =
    mk_error ''Tool is not exposed over MCP'' 120011 (Some 404)"
| "mcp_error_class McpWriteNotPermittedError =
    mk_error ''MCP does not expose write operations (spec section 92)'' 120012 (Some 403)"

primrec storage_error_class :: "storage_error \<Rightarrow> error_class" where
  "storage_error_class ObjectNotFoundError =
    mk_error ''Stored object not found'' 130000 (Some 404)"
| "storage_error_class ObjectStorageUnavailableError =
    mk_error ''Object storage is unavailable'' 130001 (Some 503)"
| "storage_error_class ObjectChecksumMismatchError =
    mk_error ''Stored object failed checksum verification'' 130002 (Some 409)"
| "storage_error_class ObjectTooLargeError =
    mk_error ''Uploaded object exceeds the size limit'' 130003 (Some 413)"

primrec error_class_of :: "app_error \<Rightarrow> error_class" where
  "error_class_of (Common e) = common_error_class e"
| "error_class_of (Idempotency e) = idempotency_error_class e"
| "error_class_of (Auth e) = auth_error_class e"
| "error_class_of (Catalog e) = catalog_error_class e"
| "error_class_of (Inventory_Err e) = inventory_error_class e"
| "error_class_of (Order_Err e) = order_error_class e"
| "error_class_of (Payment_Err e) = payment_error_class e"
| "error_class_of (Fulfillment_Err e) = fulfillment_error_class e"
| "error_class_of (After_Sale_Err e) = after_sale_error_class e"
| "error_class_of (Marketing e) = marketing_error_class e"
| "error_class_of (Knowledge e) = knowledge_error_class e"
| "error_class_of (Agent e) = agent_error_class e"
| "error_class_of (Mcp e) = mcp_error_class e"
| "error_class_of (Storage e) = storage_error_class e"

definition error_code :: "app_error \<Rightarrow> int" where
  "error_code e = ec_code (error_class_of e)"

text \<open>\<open>AppError.status_code\<close>: the class's own status, else the canonical one of its code.\<close>

definition status_code :: "app_error \<Rightarrow> int" where
  "status_code e =
    (case ec_http_status (error_class_of e) of
       Some s \<Rightarrow> s
     | None \<Rightarrow> http_status_for (error_code e))"

text \<open>
  Everything a modelled operation can raise: a client-facing \<open>AppError\<close>, the internal
  \<open>PricingInvariantError\<close> with its message, the driver's \<open>IntegrityError\<close> with the name of
  the table whose constraint fired, and any other Python exception by its class name.
\<close>

datatype exn =
    AppError app_error
  | PricingInvariantError string
  | IntegrityError string
  | PythonError string

text \<open>
  The handlers of \<open>register_exception_handlers\<close> for these: the HTTP status and the business
  code that leave in the envelope.
\<close>

fun handle_exception :: "exn \<Rightarrow> int \<times> int" where
  "handle_exception (AppError e) = (status_code e, error_code e)"
| "handle_exception (PricingInvariantError _) = (500, 10000)"
| "handle_exception (IntegrityError _) = (500, 10000)"
| "handle_exception (PythonError _) = (500, 10000)"

end
