(* ===== verification/Nova_Prelude.thy ===== *)
theory Nova_Prelude
  imports Nova_Errors "HOL-Library.Monad_Syntax"
begin

text \<open>
  Shared vocabulary: the result type of a call that may raise, its sequencing operators and
  their rules, checked traversals of lists, Python's dynamically typed arguments, and the
  generic list and dictionary lemmas the components use. \<open>rsimps\<close> collects the rewrite rules of
  the result operators, \<open>relims\<close> the elimination rules for a call that returned.
\<close>

named_theorems rsimps
named_theorems relims

section \<open>Calls that may raise\<close>

type_synonym 'a result = "exn + 'a"

abbreviation ok :: "'a \<Rightarrow> 'e + 'a" where
  "ok \<equiv> Inr"

abbreviation raise :: "'e \<Rightarrow> 'e + 'a" where
  "raise \<equiv> Inl"

abbreviation app_raise :: "app_error \<Rightarrow> exn + 'a" where
  "app_raise e \<equiv> Inl (AppError e)"

definition bindE :: "'e + 'a \<Rightarrow> ('a \<Rightarrow> 'e + 'b) \<Rightarrow> 'e + 'b" where
  "bindE m f = (case m of Inl e \<Rightarrow> Inl e | Inr x \<Rightarrow> f x)"

text \<open>\<open>if not cond: raise e\<close>, then the rest.\<close>

definition require :: "bool \<Rightarrow> 'e \<Rightarrow> 'e + 'b \<Rightarrow> 'e + 'b" where
  "require c e k = (if c then k else Inl e)"

fun mapE :: "('a \<Rightarrow> 'e + 'b) \<Rightarrow> 'a list \<Rightarrow> 'e + 'b list" where
  "mapE f [] = Inr []"
| "mapE f (x # xs) = bindE (f x) (\<lambda>y. bindE (mapE f xs) (\<lambda>ys. Inr (y # ys)))"

fun foldE :: "('s \<Rightarrow> 'a \<Rightarrow> 'e + 's) \<Rightarrow> 's \<Rightarrow> 'a list \<Rightarrow> 'e + 's" where
  "foldE f s [] = Inr s"
| "foldE f s (x # xs) = bindE (f s x) (\<lambda>s'. foldE f s' xs)"

definition is_ok :: "'e + 'a \<Rightarrow> bool" where
  "is_ok r = (case r of Inl _ \<Rightarrow> False | Inr _ \<Rightarrow> True)"

lemma is_ok_simps [simp]: "is_ok (Inr x)" "\<not> is_ok (Inl e)"
  by (simp_all add: is_ok_def)

lemma is_ok_ex: "is_ok r \<longleftrightarrow> (\<exists>x. r = Inr x)"
  by (cases r) simp_all

lemma bindE_Inl [simp, rsimps]: "bindE (Inl e) f = Inl e"
  by (simp add: bindE_def)

lemma bindE_Inr [simp, rsimps]: "bindE (Inr x) f = f x"
  by (simp add: bindE_def)

lemma bindE_eq_Inr [rsimps]: "bindE m f = Inr y \<longleftrightarrow> (\<exists>x. m = Inr x \<and> f x = Inr y)"
  by (cases m) auto

lemma bindE_eq_Inl [rsimps]:
  "bindE m f = Inl e \<longleftrightarrow> m = Inl e \<or> (\<exists>x. m = Inr x \<and> f x = Inl e)"
  by (cases m) auto

lemma bindE_cong [fundef_cong]:
  "m = m' \<Longrightarrow> (\<And>x. m' = Inr x \<Longrightarrow> f x = f' x) \<Longrightarrow> bindE m f = bindE m' f'"
  by (cases m') auto

lemma bindE_assoc: "bindE (bindE m f) g = bindE m (\<lambda>x. bindE (f x) g)"
  by (cases m) auto

lemma require_eq_Inr [rsimps]: "require c e k = Inr y \<longleftrightarrow> c \<and> k = Inr y"
  by (simp add: require_def)

lemma require_True [simp, rsimps]: "require True e k = k"
  by (simp add: require_def)

lemma require_False [simp, rsimps]: "require False e k = Inl e"
  by (simp add: require_def)

lemma require_cong [fundef_cong]:
  "c = c' \<Longrightarrow> e = e' \<Longrightarrow> (c' \<Longrightarrow> k = k') \<Longrightarrow> require c e k = require c' e' k'"
  by (simp add: require_def)

lemma bindE_InrE [relims]:
  assumes "bindE m f = Inr y"
  obtains x where "m = Inr x" and "f x = Inr y"
  using assms by (auto simp: bindE_eq_Inr)

lemma require_InrE [relims]:
  assumes "require c e k = Inr y"
  obtains c and "k = Inr y"
  using assms by (auto simp: require_eq_Inr)

subsection \<open>Checked traversals\<close>

lemma mapE_length: "mapE f xs = Inr ys \<Longrightarrow> length ys = length xs"
  by (induction xs arbitrary: ys) (auto simp: rsimps)

lemma mapE_eq_Inr_iff: "mapE f xs = Inr ys \<longleftrightarrow> list_all2 (\<lambda>x y. f x = Inr y) xs ys"
proof (induction xs arbitrary: ys)
  case Nil
  then show ?case by auto
next
  case (Cons x xs)
  then show ?case by (cases ys) (auto simp: rsimps)
qed

lemma mapE_Inr_map: "(\<And>x. x \<in> set xs \<Longrightarrow> f x = Inr (g x)) \<Longrightarrow> mapE f xs = Inr (map g xs)"
  by (induction xs) auto

lemma mapE_Inr_member: "mapE f xs = Inr ys \<Longrightarrow> y \<in> set ys \<Longrightarrow> \<exists>x \<in> set xs. f x = Inr y"
  by (fastforce simp: mapE_eq_Inr_iff list_all2_conv_all_nth in_set_conv_nth)

lemma mapE_Inr_each: "mapE f xs = Inr ys \<Longrightarrow> x \<in> set xs \<Longrightarrow> \<exists>y \<in> set ys. f x = Inr y"
  by (fastforce simp: mapE_eq_Inr_iff list_all2_conv_all_nth in_set_conv_nth)

lemma foldE_append: "foldE f s (xs @ ys) = bindE (foldE f s xs) (\<lambda>s'. foldE f s' ys)"
  by (induction xs arbitrary: s) (auto simp: bindE_assoc)

lemma foldE_invariant:
  assumes "foldE f s xs = Inr s'" and "P s"
    and "\<And>s x t. P s \<Longrightarrow> x \<in> set xs \<Longrightarrow> f s x = Inr t \<Longrightarrow> P t"
  shows "P s'"
  using assms
proof (induction xs arbitrary: s)
  case Nil
  then show ?case by simp
next
  case (Cons x xs)
  from Cons.prems(1) obtain t where t: "f s x = Inr t" and rest: "foldE f t xs = Inr s'"
    by (auto simp: rsimps)
  from Cons.prems(2,3) t have "P t" by (meson list.set_intros(1))
  with rest show ?case using Cons.prems(3) by (intro Cons.IH) auto
qed

section \<open>Dynamically typed arguments\<close>

text \<open>
  What a parameter annotated \<open>Any\<close> (or merely annotated) can hold at run time. A \<open>Decimal\<close> is a
  signed integer coefficient and the number of its fractional digits; \<open>PyOther\<close> carries the name
  of the type, which is all the code reads of it.
\<close>

datatype pyval =
    PyInt int
  | PyBool bool
  | PyDecimal int nat
  | PyStr string
  | PyOther string

fun py_type_name :: "pyval \<Rightarrow> string" where
  "py_type_name (PyInt _) = ''int''"
| "py_type_name (PyBool _) = ''bool''"
| "py_type_name (PyDecimal _ _) = ''Decimal''"
| "py_type_name (PyStr _) = ''str''"
| "py_type_name (PyOther n) = n"

section \<open>Lists and dictionaries\<close>

text \<open>
  A Python \<open>dict\<close> keeps insertion order and assignment to an existing key keeps its position; as
  an association list with distinct keys, \<open>dict_set\<close> is that assignment.
\<close>

fun dict_set :: "'k \<Rightarrow> 'v \<Rightarrow> ('k \<times> 'v) list \<Rightarrow> ('k \<times> 'v) list" where
  "dict_set k v [] = [(k, v)]"
| "dict_set k v ((k', v') # d) = (if k = k' then (k, v) # d else (k', v') # dict_set k v d)"

lemma map_of_dict_set [simp]: "map_of (dict_set k v d) = (map_of d)(k \<mapsto> v)"
  by (induction k v d rule: dict_set.induct) auto

lemma keys_dict_set:
  "map fst (dict_set k v d) = (if k \<in> fst ` set d then map fst d else map fst d @ [k])"
  by (induction k v d rule: dict_set.induct) auto

lemma distinct_dict_set: "distinct (map fst d) \<Longrightarrow> distinct (map fst (dict_set k v d))"
  by (auto simp: keys_dict_set)

lemma dict_set_new: "k \<notin> fst ` set d \<Longrightarrow> dict_set k v d = d @ [(k, v)]"
  by (induction k v d rule: dict_set.induct) auto

lemma sum_list_update_int:
  "i < length xs \<Longrightarrow> sum_list (xs[i := (v::int)]) = sum_list xs - xs ! i + v"
  by (induction xs arbitrary: i) (auto split: nat.splits)

lemma sum_list_map_le:
  "(\<And>x. x \<in> set xs \<Longrightarrow> (f x :: int) \<le> g x) \<Longrightarrow> sum_list (map f xs) \<le> sum_list (map g xs)"
  by (rule sum_list_mono)

lemma sum_list_nonneg_int: "(\<And>x. x \<in> set xs \<Longrightarrow> 0 \<le> (x::int)) \<Longrightarrow> 0 \<le> sum_list xs"
  by (rule sum_list_nonneg)

end
