(* ===== verification/Pricing_Values.thy ===== *)
theory Pricing_Values
  imports Nova_Prelude
begin

text \<open>
  The vocabularies and value objects of \<open>app/modules/pricing\<close>: \<open>enums.py\<close>,
  \<open>value_objects.py\<close> and \<open>shipping.py\<close>. Money is \<open>int\<close> (minor units), a rate is basis points. A
  record that exists both as it arrives and after validation takes the type of its numeric
  fields as a parameter: \<open>pyval priced_line\<close> is what a caller passes, \<open>int priced_line\<close> what
  \<open>_normalise_line\<close> returns. The opaque \<open>sku_snapshot\<close> document is its canonical text, the only
  operation on it being equality. The context of a \<open>PricingInvariantError\<close> is for logs and is
  left out; its message is kept.
\<close>

section \<open>Vocabularies\<close>

datatype promotion_type = DIRECT_DISCOUNT | PERCENT_DISCOUNT | FULL_REDUCTION

datatype coupon_type = FIXED_AMOUNT | COUPON_PERCENT_DISCOUNT

datatype pricing_warning =
    PROMOTION_SCOPE_NO_MATCH
  | PROMOTION_THRESHOLD_NOT_MET
  | COUPON_SCOPE_NO_MATCH
  | COUPON_THRESHOLD_NOT_MET

fun promotion_type_value :: "promotion_type \<Rightarrow> string" where
  "promotion_type_value DIRECT_DISCOUNT = ''DIRECT_DISCOUNT''"
| "promotion_type_value PERCENT_DISCOUNT = ''PERCENT_DISCOUNT''"
| "promotion_type_value FULL_REDUCTION = ''FULL_REDUCTION''"

fun coupon_type_value :: "coupon_type \<Rightarrow> string" where
  "coupon_type_value FIXED_AMOUNT = ''FIXED_AMOUNT''"
| "coupon_type_value COUPON_PERCENT_DISCOUNT = ''PERCENT_DISCOUNT''"

fun pricing_warning_value :: "pricing_warning \<Rightarrow> string" where
  "pricing_warning_value PROMOTION_SCOPE_NO_MATCH = ''PROMOTION_SCOPE_NO_MATCH''"
| "pricing_warning_value PROMOTION_THRESHOLD_NOT_MET = ''PROMOTION_THRESHOLD_NOT_MET''"
| "pricing_warning_value COUPON_SCOPE_NO_MATCH = ''COUPON_SCOPE_NO_MATCH''"
| "pricing_warning_value COUPON_THRESHOLD_NOT_MET = ''COUPON_THRESHOLD_NOT_MET''"

definition promotion_types :: "promotion_type list" where
  "promotion_types = [DIRECT_DISCOUNT, PERCENT_DISCOUNT, FULL_REDUCTION]"

definition coupon_types :: "coupon_type list" where
  "coupon_types = [FIXED_AMOUNT, COUPON_PERCENT_DISCOUNT]"

text \<open>\<open>PromotionType(value)\<close> and \<open>CouponType(value)\<close>: the member with that wire string.\<close>

definition promotion_type_of :: "string \<Rightarrow> promotion_type option" where
  "promotion_type_of s = find (\<lambda>t. promotion_type_value t = s) promotion_types"

definition coupon_type_of :: "string \<Rightarrow> coupon_type option" where
  "coupon_type_of s = find (\<lambda>t. coupon_type_value t = s) coupon_types"

definition promotion_warning_values :: "string set" where
  "promotion_warning_values =
    {pricing_warning_value PROMOTION_SCOPE_NO_MATCH,
     pricing_warning_value PROMOTION_THRESHOLD_NOT_MET}"

definition coupon_warning_values :: "string set" where
  "coupon_warning_values =
    {pricing_warning_value COUPON_SCOPE_NO_MATCH,
     pricing_warning_value COUPON_THRESHOLD_NOT_MET}"

definition max_discount_bps :: int where
  "max_discount_bps = 10000"

section \<open>Lines, allocations and priced carts\<close>

record 'n priced_line =
  pl_sku_id :: 'n
  pl_product_id :: 'n
  pl_product_name :: string
  pl_sku_name :: string
  pl_image_object_key :: "string option"
  pl_image_url :: "string option"
  pl_sku_snapshot :: "string option"
  pl_unit_price :: 'n
  pl_quantity :: 'n

record item_price =
  ip_line :: "int priced_line"
  ip_original_amount :: int

record discount_allocation =
  da_sku_id :: int
  da_amount :: int

text \<open>The mixin \<open>_PricedItemsView\<close> is the common prefix of the two aggregates.\<close>

record priced_items_view =
  pv_items :: "item_price list"
  pv_promotion_allocations :: "discount_allocation list"
  pv_coupon_allocations :: "discount_allocation list"
  pv_payable_amount :: int
  pv_original_amount :: int
  pv_promotion_discount_amount :: int
  pv_coupon_discount_amount :: int
  pv_shipping_amount :: int

record cart_price = priced_items_view +
  cp_warnings :: "string list"

record price_snapshot = priced_items_view +
  ps_promotion_ids :: "int list"
  ps_coupon_ids :: "int list"
  ps_shipping_policy :: string

abbreviation item_sku :: "item_price \<Rightarrow> int" where
  "item_sku i \<equiv> pl_sku_id (ip_line i)"

subsection \<open>The derived lookups of the mixin\<close>

fun amount_for :: "discount_allocation list \<Rightarrow> int \<Rightarrow> int result" where
  "amount_for [] sku = raise (PricingInvariantError ''no allocation recorded for this sku'')"
| "amount_for (a # as) sku = (if da_sku_id a = sku then ok (da_amount a) else amount_for as sku)"

fun item_for :: "item_price list \<Rightarrow> int \<Rightarrow> item_price result" where
  "item_for [] sku = raise (PricingInvariantError ''sku is not part of this priced cart'')"
| "item_for (i # is) sku = (if item_sku i = sku then ok i else item_for is sku)"

definition promotion_allocation :: "'a priced_items_view_scheme \<Rightarrow> int \<Rightarrow> int result" where
  "promotion_allocation v sku = amount_for (pv_promotion_allocations v) sku"

definition coupon_allocation :: "'a priced_items_view_scheme \<Rightarrow> int \<Rightarrow> int result" where
  "coupon_allocation v sku = amount_for (pv_coupon_allocations v) sku"

definition allocated_discount :: "'a priced_items_view_scheme \<Rightarrow> int \<Rightarrow> int result" where
  "allocated_discount v sku =
    bindE (promotion_allocation v sku) (\<lambda>p.
    bindE (coupon_allocation v sku) (\<lambda>c. ok (p + c)))"

definition item_payable_amount :: "'a priced_items_view_scheme \<Rightarrow> int \<Rightarrow> int result" where
  "item_payable_amount v sku =
    bindE (item_for (pv_items v) sku) (\<lambda>i.
    bindE (allocated_discount v sku) (\<lambda>d. ok (ip_original_amount i - d)))"

definition item_count :: "'a priced_items_view_scheme \<Rightarrow> int" where
  "item_count v = (\<Sum>i \<leftarrow> pv_items v. pl_quantity (ip_line i))"

definition total_discount_amount :: "cart_price \<Rightarrow> int" where
  "total_discount_amount c = pv_promotion_discount_amount c + pv_coupon_discount_amount c"

section \<open>Rules\<close>

text \<open>An enum argument: a member, its wire string, or a value of another type.\<close>

datatype 'e enum_arg = Member 'e | Wire string | NotEnum string

record ('n, 't) promotion_rule =
  pr_promotion_id :: 'n
  pr_promotion_type :: 't
  pr_threshold_amount :: 'n
  pr_discount_amount :: 'n
  pr_discount_bps :: 'n
  pr_reduction_amount :: 'n
  pr_max_discount_amount :: "'n option"
  pr_applicable_sku_ids :: "int set option"

record ('n, 't) coupon_rule =
  cr_coupon_id :: 'n
  cr_coupon_type :: 't
  cr_threshold_amount :: 'n
  cr_face_value_amount :: 'n
  cr_discount_bps :: 'n
  cr_max_discount_amount :: "'n option"
  cr_applicable_sku_ids :: "int set option"

type_synonym raw_promotion = "(pyval, promotion_type enum_arg) promotion_rule"
type_synonym raw_coupon = "(pyval, coupon_type enum_arg) coupon_rule"
type_synonym promotion = "(int, promotion_type) promotion_rule"
type_synonym coupon = "(int, coupon_type) coupon_rule"

text \<open>\<open>__post_init__\<close>: a plain collection becomes a frozenset, any other value is refused.\<close>

datatype scope_arg =
    ScopeNone
  | ScopeFrozen "int set"
  | ScopeSet "int set"
  | ScopeSeq "int list"
  | ScopeOther

fun normalise_scope :: "scope_arg \<Rightarrow> int set option result" where
  "normalise_scope ScopeNone = ok None"
| "normalise_scope (ScopeFrozen s) = ok (Some s)"
| "normalise_scope (ScopeSet s) = ok (Some s)"
| "normalise_scope (ScopeSeq xs) = ok (Some (set xs))"
| "normalise_scope ScopeOther =
    raise (PricingInvariantError ''applicable_sku_ids must be a frozenset of sku ids or None'')"

definition scope_covers :: "int set option \<Rightarrow> int \<Rightarrow> bool" where
  "scope_covers scope sku = (case scope of None \<Rightarrow> True | Some s \<Rightarrow> sku \<in> s)"

definition promotion_covers :: "('n, 't) promotion_rule \<Rightarrow> int \<Rightarrow> bool" where
  "promotion_covers r sku = scope_covers (pr_applicable_sku_ids r) sku"

definition coupon_covers :: "('n, 't) coupon_rule \<Rightarrow> int \<Rightarrow> bool" where
  "coupon_covers r sku = scope_covers (cr_applicable_sku_ids r) sku"

section \<open>Shipping policies\<close>

text \<open>The protocol \<open>ShippingPolicy\<close>: a name and what \<open>calculate\<close> answers for a priced cart.\<close>

record shipping_policy =
  sp_name :: string
  sp_calculate :: "cart_price \<Rightarrow> pyval"

definition free_shipping_policy :: shipping_policy where
  "free_shipping_policy = \<lparr>sp_name = ''FREE'', sp_calculate = (\<lambda>_. PyInt 0)\<rparr>"

definition default_shipping_policy :: shipping_policy where
  "default_shipping_policy = free_shipping_policy"

section \<open>Lemmas\<close>

lemma promotion_type_of_value [simp]: "promotion_type_of (promotion_type_value t) = Some t"
  by (cases t) (simp_all add: promotion_type_of_def promotion_types_def)

lemma coupon_type_of_value [simp]: "coupon_type_of (coupon_type_value t) = Some t"
  by (cases t) (simp_all add: coupon_type_of_def coupon_types_def)

lemma amount_for_map_of:
  "amount_for as sku =
    (case map_of (map (\<lambda>a. (da_sku_id a, da_amount a)) as) sku of
       None \<Rightarrow> raise (PricingInvariantError ''no allocation recorded for this sku'')
     | Some v \<Rightarrow> ok v)"
  by (induction as) auto

lemma item_for_member:
  "distinct (map item_sku is) \<Longrightarrow> i \<in> set is \<Longrightarrow> item_for is (item_sku i) = ok i"
  by (induction "is") auto

end
