(* ===== verification/Pricing_Allocation.thy ===== *)
theory Pricing_Allocation
  imports Pricing_Values
begin

text \<open>
  \<open>allocate_pro_rata\<close> of \<open>app/modules/pricing/allocation.py\<close>: the exact split of a discount over
  the lines of a cart. The validation loop, the floor shares and the backward hand-out of the
  remainder are the source's; the arguments are dynamically typed as they are there. The lemmas
  show that every accepted input gives shares that add up to the total, that the last branch
  (an undistributed remainder) is unreachable, and how a share relates to its weight.
\<close>

section \<open>The algorithm\<close>

definition check_total :: "pyval \<Rightarrow> int result" where
  "check_total total_arg =
    (case total_arg of
       PyInt t \<Rightarrow>
         if t < 0 then raise (PricingInvariantError ''total must not be negative'') else ok t
     | v \<Rightarrow> raise (PricingInvariantError
         (''total must be integer minor units, got '' @ py_type_name v)))"

definition check_weight :: "pyval \<Rightarrow> int result" where
  "check_weight weight =
    (case weight of
       PyInt w \<Rightarrow>
         if w < 0 then raise (PricingInvariantError ''weights must not be negative'') else ok w
     | v \<Rightarrow> raise (PricingInvariantError
         (''weights must be integer minor units, got '' @ py_type_name v)))"

text \<open>
  \<open>for index in range(len(counts) - 1, -1, -1)\<close>: the first argument is one more than the index
  about to be visited. The result is the shares and the remainder when the loop exits.
\<close>

fun hand_out :: "nat \<Rightarrow> int list \<Rightarrow> int list \<Rightarrow> int \<Rightarrow> int list \<times> int" where
  "hand_out 0 counts shares remainder = (shares, remainder)"
| "hand_out (Suc index) counts shares remainder =
    (if remainder = 0 then (shares, remainder)
     else if counts ! index = 0 then hand_out index counts shares remainder
     else hand_out index counts (shares[index := shares ! index + 1]) (remainder - 1))"

definition floor_shares :: "int \<Rightarrow> int list \<Rightarrow> int list" where
  "floor_shares t counts = map (\<lambda>w. t * w div sum_list counts) counts"

definition allocate_pro_rata :: "pyval \<Rightarrow> pyval list \<Rightarrow> int list result" where
  "allocate_pro_rata total_arg weights =
    bindE (check_total total_arg) (\<lambda>total.
    bindE (mapE check_weight weights) (\<lambda>counts.
      if total = 0 then ok (map (\<lambda>_. 0) counts)
      else if counts = [] then
        raise (PricingInvariantError ''cannot allocate a positive total with no weights'')
      else if sum_list counts = 0 then
        raise (PricingInvariantError
          ''cannot allocate a positive total when every weight is zero'')
      else
        let shares = floor_shares total counts;
            remainder = total - sum_list shares;
            (shares', remainder') = hand_out (length counts) counts shares remainder
        in if remainder' \<noteq> 0
           then raise (PricingInvariantError ''remainder could not be distributed'')
           else ok shares'))"

section \<open>The hand-out loop\<close>

text \<open>How many of the first \<open>k\<close> lines can receive a unit.\<close>

definition positives :: "nat \<Rightarrow> int list \<Rightarrow> int" where
  "positives k counts = int (length (filter (\<lambda>w. w \<noteq> 0) (take k counts)))"

lemma positives_Suc:
  "k < length counts \<Longrightarrow>
    positives (Suc k) counts = positives k counts + (if counts ! k = 0 then 0 else 1)"
  by (simp add: positives_def take_Suc_conv_app_nth)

lemma positives_nonneg: "0 \<le> positives k counts"
  by (simp add: positives_def)

lemma hand_out_length: "length (fst (hand_out k counts shares r)) = length shares"
  by (induction k counts shares r rule: hand_out.induct) simp_all

lemma hand_out_sum:
  "k \<le> length shares \<Longrightarrow>
    sum_list (fst (hand_out k counts shares r)) + snd (hand_out k counts shares r) =
    sum_list shares + r"
  by (induction k counts shares r rule: hand_out.induct) (simp_all add: sum_list_update_int)

lemma hand_out_remainder:
  "k \<le> length counts \<Longrightarrow> 0 \<le> r \<Longrightarrow>
    snd (hand_out k counts shares r) = max 0 (r - positives k counts)"
proof (induction k counts shares r rule: hand_out.induct)
  case (1 counts shares r)
  then show ?case by (simp add: positives_def)
next
  case (2 i counts shares r)
  then show ?case
    using positives_nonneg [of i counts] by (auto simp: positives_Suc max_def)
qed

lemma hand_out_zero [simp]: "hand_out k counts shares 0 = (shares, 0)"
  by (cases k) simp_all

text \<open>Each line gets one unit at most, and only a line with a positive weight gets it.\<close>

lemma hand_out_nth:
  assumes "j < length shares"
  shows "fst (hand_out k counts shares r) ! j = shares ! j \<or>
    j < k \<and> counts ! j \<noteq> 0 \<and> r \<noteq> 0 \<and> fst (hand_out k counts shares r) ! j = shares ! j + 1"
  using assms
proof (induction k counts shares r rule: hand_out.induct)
  case (1 counts shares r)
  then show ?case by simp
next
  case (2 i counts shares r)
  show ?case
  proof (cases "r = 0 \<or> counts ! i = 0")
    case True
    with 2 show ?thesis by (cases "r = 0") auto
  next
    case False
    let ?s = "shares[i := shares ! i + 1]"
    have "fst (hand_out i counts ?s (r - 1)) ! j = ?s ! j \<or>
      j < i \<and> counts ! j \<noteq> 0 \<and> r - 1 \<noteq> 0 \<and>
      fst (hand_out i counts ?s (r - 1)) ! j = ?s ! j + 1"
      using False 2 by simp
    with False 2(3) show ?thesis by (cases "j = i") auto
  qed
qed

section \<open>The floor shares\<close>

lemma floor_shares_length [simp]: "length (floor_shares t counts) = length counts"
  by (simp add: floor_shares_def)

lemma floor_shares_nonneg:
  "0 \<le> t \<Longrightarrow> list_all (\<lambda>w. 0 \<le> w) counts \<Longrightarrow> x \<in> set (floor_shares t counts) \<Longrightarrow> 0 \<le> x"
  by (auto simp: floor_shares_def list_all_iff sum_list_nonneg pos_imp_zdiv_nonneg_iff
      intro!: div_int_pos_iff [THEN iffD2])

text \<open>
  Scaled by the sum of the weights, what the floors lose is the sum of the division's rests.
\<close>

lemma floor_shares_rest:
  assumes "sum_list counts \<noteq> 0"
  shows "(t - sum_list (floor_shares t counts)) * sum_list counts =
    (\<Sum>w \<leftarrow> counts. t * w mod sum_list counts)"
proof -
  let ?W = "sum_list counts"
  have "(\<Sum>w \<leftarrow> counts. t * w mod ?W) = (\<Sum>w \<leftarrow> counts. t * w - t * w div ?W * ?W)"
    by (simp add: minus_div_mult_eq_mod)
  also have "\<dots> = (\<Sum>w \<leftarrow> counts. t * w) - (\<Sum>w \<leftarrow> counts. t * w div ?W * ?W)"
    by (simp add: sum_list_subtractf)
  also have "\<dots> = t * ?W - sum_list (floor_shares t counts) * ?W"
    by (simp add: floor_shares_def sum_list_const_mult sum_list_mult_const)
  finally show ?thesis by (simp add: left_diff_distrib)
qed

lemma rest_bound:
  assumes "0 < W" and "list_all (\<lambda>w. 0 \<le> w) counts"
  shows "0 \<le> (\<Sum>w \<leftarrow> counts. t * w mod W) \<and>
    (\<Sum>w \<leftarrow> counts. t * w mod W) \<le> positives (length counts) counts * (W - 1)"
  using assms(2)
proof (induction counts)
  case Nil
  then show ?case by (simp add: positives_def)
next
  case (Cons w counts)
  have "0 \<le> t * w mod W" and "t * w mod W \<le> W - 1"
    using assms(1) by (simp_all add: pos_mod_bound zle_diff1_eq)
  with Cons show ?case
    by (cases "w = 0") (auto simp: positives_def algebra_simps)
qed

lemma remainder_range:
  fixes t :: int
  assumes "0 < sum_list counts" and "list_all (\<lambda>w. 0 \<le> w) counts"
  defines "r \<equiv> t - sum_list (floor_shares t counts)"
  shows "0 \<le> r" and "r \<le> positives (length counts) counts"
proof -
  let ?W = "sum_list counts" and ?p = "positives (length counts) counts"
  have eq: "r * ?W = (\<Sum>w \<leftarrow> counts. t * w mod ?W)"
    using floor_shares_rest [of counts t] assms(1) by (simp add: r_def)
  then have lo: "0 \<le> r * ?W" and hi: "r * ?W \<le> ?p * (?W - 1)"
    using rest_bound [OF assms(1,2), of t] by simp_all
  show "0 \<le> r" using lo assms(1) by (simp add: zero_le_mult_iff)
  have "?p * (?W - 1) \<le> ?p * ?W" by (simp add: algebra_simps positives_nonneg)
  with hi have "r * ?W \<le> ?p * ?W" by linarith
  then show "r \<le> ?p" using assms(1) by simp
qed

section \<open>The allocation of integer inputs\<close>

lemma check_weights_map [simp]:
  "mapE check_weight (map PyInt ws) =
    (if list_all (\<lambda>w. 0 \<le> w) ws then ok ws
     else raise (PricingInvariantError ''weights must not be negative''))"
  by (induction ws) (auto simp: check_weight_def)

lemma sum_list_zero_weights:
  "list_all (\<lambda>w. 0 \<le> (w::int)) ws \<Longrightarrow> sum_list ws = 0 \<longleftrightarrow> (\<forall>w \<in> set ws. w = 0)"
  by (auto simp: list_all_iff sum_list_nonneg_eq_0_iff)

definition shares_of :: "int \<Rightarrow> int list \<Rightarrow> int list" where
  "shares_of t ws =
    (if t = 0 then map (\<lambda>_. 0) ws
     else fst (hand_out (length ws) ws (floor_shares t ws)
            (t - sum_list (floor_shares t ws))))"

text \<open>What the call answers, for integers: a refusal or the shares, never the last branch.\<close>

lemma allocate_pro_rata_int:
  assumes "0 \<le> t" and "list_all (\<lambda>w. 0 \<le> w) ws" and "t = 0 \<or> sum_list ws \<noteq> 0"
  shows "allocate_pro_rata (PyInt t) (map PyInt ws) = ok (shares_of t ws)"
proof (cases "t = 0")
  case True
  with assms show ?thesis by (simp add: allocate_pro_rata_def check_total_def shares_of_def)
next
  case False
  have W: "0 < sum_list ws"
    using assms False by (simp add: list_all_iff less_le sum_list_nonneg)
  let ?r = "t - sum_list (floor_shares t ws)"
  have "snd (hand_out (length ws) ws (floor_shares t ws) ?r) = 0"
    using remainder_range [OF W assms(2), of t] by (simp add: hand_out_remainder)
  moreover have "ws \<noteq> []" using W by auto
  ultimately show ?thesis
    using assms False W
    by (simp add: allocate_pro_rata_def check_total_def shares_of_def case_prod_beta Let_def)
qed

lemma shares_of_length [simp]: "length (shares_of t ws) = length ws"
  by (simp add: shares_of_def hand_out_length)

lemma shares_of_sum:
  assumes "list_all (\<lambda>w. 0 \<le> w) ws" and "t = 0 \<or> sum_list ws \<noteq> 0"
  shows "sum_list (shares_of t ws) = t"
proof (cases "t = 0")
  case True
  then show ?thesis by (simp add: shares_of_def)
next
  case False
  have W: "0 < sum_list ws"
    using assms False by (simp add: list_all_iff less_le sum_list_nonneg)
  let ?r = "t - sum_list (floor_shares t ws)"
  have "snd (hand_out (length ws) ws (floor_shares t ws) ?r) = 0"
    using remainder_range [OF W assms(1), of t] by (simp add: hand_out_remainder)
  then show ?thesis
    using False hand_out_sum [of "length ws" "floor_shares t ws" ws ?r] by (simp add: shares_of_def)
qed

text \<open>The share of a line is its exact proportion rounded down, or one unit more.\<close>

lemma shares_of_nth:
  assumes "t \<noteq> 0" and "j < length ws"
  shows "shares_of t ws ! j = t * ws ! j div sum_list ws \<or>
    ws ! j \<noteq> 0 \<and> t \<noteq> sum_list (floor_shares t ws) \<and>
    shares_of t ws ! j = t * ws ! j div sum_list ws + 1"
  using hand_out_nth [of j "floor_shares t ws" "length ws" ws "t - sum_list (floor_shares t ws)"]
    assms by (auto simp: shares_of_def floor_shares_def)

lemma shares_of_zero_weight:
  "j < length ws \<Longrightarrow> ws ! j = 0 \<Longrightarrow> shares_of t ws ! j = 0"
  using shares_of_nth [of t j ws] by (cases "t = 0") (auto simp: shares_of_def)

lemma shares_of_nonneg:
  assumes "0 \<le> t" and "list_all (\<lambda>w. 0 \<le> w) ws" and "j < length ws"
  shows "0 \<le> shares_of t ws ! j"
proof (cases "t = 0")
  case True
  with assms show ?thesis by (simp add: shares_of_def)
next
  case False
  have "0 \<le> t * ws ! j div sum_list ws"
    using assms by (auto simp: list_all_iff sum_list_nonneg
        intro!: div_int_pos_iff [THEN iffD2])
  with shares_of_nth [OF False assms(3)] show ?thesis by auto
qed

lemma floor_shares_full: "sum_list ws \<noteq> 0 \<Longrightarrow> floor_shares (sum_list ws) ws = ws"
  by (simp add: floor_shares_def)

text \<open>While the total does not exceed the sum of the weights, no line exceeds its weight.\<close>

lemma shares_of_le:
  assumes "0 \<le> t" and "list_all (\<lambda>w. 0 \<le> w) ws" and "t \<le> sum_list ws" and "j < length ws"
  shows "shares_of t ws ! j \<le> ws ! j"
proof (cases "t = 0")
  case True
  with assms show ?thesis by (simp add: shares_of_def list_all_length)
next
  case False
  let ?W = "sum_list ws" and ?w = "ws ! j"
  have w: "0 \<le> ?w" and W: "0 < ?W" using assms False by (auto simp: list_all_length)
  show ?thesis
  proof (cases "t = ?W")
    case True
    with W show ?thesis by (simp add: shares_of_def floor_shares_full)
  next
    case F: False
    show ?thesis
    proof (cases "?w = 0")
      case True
      with assms show ?thesis by (simp add: shares_of_zero_weight)
    next
      case nz: False
      with w F assms(3) have "t * ?w < ?w * ?W"
        by (simp add: mult.commute mult_strict_left_mono)
      moreover have "t * ?w div ?W * ?W \<le> t * ?w"
        using W by (simp add: minus_mod_eq_div_mult [symmetric])
      ultimately have "t * ?w div ?W * ?W < ?w * ?W" by linarith
      then have "t * ?w div ?W < ?w" using W by simp
      with shares_of_nth [OF False assms(4)] show ?thesis by auto
    qed
  qed
qed

text \<open>Whatever the call accepts are integers, and its answer is \<open>shares_of\<close>.\<close>

lemma check_weights_ok:
  "mapE check_weight vs = ok ws \<Longrightarrow> vs = map PyInt ws \<and> list_all (\<lambda>w. 0 \<le> w) ws"
  by (induction vs arbitrary: ws)
    (auto simp: bindE_eq_Inr check_weight_def split: pyval.splits if_splits)

lemma allocate_pro_rata_okE:
  assumes "allocate_pro_rata v vs = ok shares"
  obtains t ws where "v = PyInt t" and "vs = map PyInt ws" and "0 \<le> t"
    and "list_all (\<lambda>w. 0 \<le> w) ws" and "t = 0 \<or> sum_list ws \<noteq> 0" and "shares = shares_of t ws"
proof -
  obtain t ws where t: "check_total v = ok t" and ws: "mapE check_weight vs = ok ws"
    using assms by (auto simp: allocate_pro_rata_def bindE_eq_Inr)
  have v: "v = PyInt t" "0 \<le> t"
    using t by (auto simp: check_total_def split: pyval.splits if_splits)
  note vs = check_weights_ok [OF ws]
  have z: "t = 0 \<or> sum_list ws \<noteq> 0"
    using assms t ws by (auto simp: allocate_pro_rata_def split: if_splits)
  from vs assms v have "shares = shares_of t ws" by (simp add: allocate_pro_rata_int [OF _ _ z])
  with v vs z show ?thesis by (intro that) simp_all
qed

text \<open>
  The contract of the docstring, as one fact: everything the callers in the pricing service use.
\<close>

lemma allocate_pro_rata_contract:
  assumes "0 \<le> t" and "list_all (\<lambda>w. 0 \<le> w) ws" and "t \<le> sum_list ws"
  obtains shares where "allocate_pro_rata (PyInt t) (map PyInt ws) = ok shares"
    and "length shares = length ws" and "sum_list shares = t"
    and "\<And>j. j < length ws \<Longrightarrow> 0 \<le> shares ! j \<and> shares ! j \<le> ws ! j"
proof
  have z: "t = 0 \<or> sum_list ws \<noteq> 0" using assms by auto
  show "allocate_pro_rata (PyInt t) (map PyInt ws) = ok (shares_of t ws)"
    using assms(1,2) z by (rule allocate_pro_rata_int)
  show "sum_list (shares_of t ws) = t" using assms(2) z by (rule shares_of_sum)
  show "0 \<le> shares_of t ws ! j \<and> shares_of t ws ! j \<le> ws ! j" if "j < length ws" for j
    using shares_of_nonneg shares_of_le assms that by blast
qed simp

end
