(* ===== verification/Pricing_Service.thy ===== *)
theory Pricing_Service
  imports Pricing_Allocation
begin

text \<open>
  \<open>PricingService\<close> of \<open>app/modules/pricing/service.py\<close>, the single price authority: the coercions,
  the merge of duplicate lines, the promotion and coupon steps, shipping and the snapshot gate.
  \<open>cart_wf\<close> is the invariant of a priced cart (INV-006 among its clauses). The type test
  \<open>isinstance(line, PricedLine)\<close> and its two kin are the typing of the model.
\<close>

section \<open>Input coercion\<close>

definition coerce_minor :: "pyval \<Rightarrow> string \<Rightarrow> int result" where
  "coerce_minor v field =
    (case v of
       PyBool _ \<Rightarrow> raise (PricingInvariantError (field @ '' must be minor units, got a bool''))
     | PyInt i \<Rightarrow> ok i
     | PyDecimal m d \<Rightarrow>
         if m mod 10 ^ d \<noteq> 0
         then raise (PricingInvariantError (field @ '' must be a whole number of minor units''))
         else ok (m div 10 ^ d)
     | _ \<Rightarrow> raise (PricingInvariantError
         (field @ '' must be integer minor units, got '' @ py_type_name v)))"

definition coerce_bps :: "pyval \<Rightarrow> string \<Rightarrow> int result" where
  "coerce_bps v field =
    bindE (coerce_minor v field) (\<lambda>amount.
    require (0 \<le> amount \<and> amount \<le> max_discount_bps)
      (PricingInvariantError (field @ '' must be between 0 and 10000 basis points''))
    (ok amount))"

definition require_int :: "pyval \<Rightarrow> string \<Rightarrow> int result" where
  "require_int v field =
    (case v of
       PyInt i \<Rightarrow> ok i
     | _ \<Rightarrow> raise (PricingInvariantError
         (field @ '' must be an integer, got '' @ py_type_name v)))"

definition coerce_amount :: "pyval \<Rightarrow> string \<Rightarrow> int result" where
  "coerce_amount v field =
    bindE (coerce_minor v field) (\<lambda>amount.
    require (\<not> amount < 0) (PricingInvariantError (field @ '' must not be negative''))
    (ok amount))"

fun coerce_enum :: "'e enum_arg \<Rightarrow> (string \<Rightarrow> 'e option) \<Rightarrow> string \<Rightarrow> string \<Rightarrow> 'e result" where
  "coerce_enum (Member e) of_string type_name field = ok e"
| "coerce_enum (Wire s) of_string type_name field =
    (case of_string s of
       Some e \<Rightarrow> ok e
     | None \<Rightarrow> raise (PricingInvariantError (field @ '' is not a known value'')))"
| "coerce_enum (NotEnum n) of_string type_name field =
    raise (PricingInvariantError (field @ '' must be a '' @ type_name @ '', got '' @ n))"

definition coerce_amount_option :: "pyval option \<Rightarrow> string \<Rightarrow> int option result" where
  "coerce_amount_option v field =
    (case v of None \<Rightarrow> ok None | Some a \<Rightarrow> bindE (coerce_amount a field) (\<lambda>n. ok (Some n)))"

definition normalise_line :: "pyval priced_line \<Rightarrow> int priced_line result" where
  "normalise_line l =
    bindE (require_int (pl_sku_id l) ''sku_id'') (\<lambda>sku_id.
    bindE (require_int (pl_product_id l) ''product_id'') (\<lambda>product_id.
    bindE (require_int (pl_quantity l) ''quantity'') (\<lambda>quantity.
    bindE (coerce_minor (pl_unit_price l) ''unit_price'') (\<lambda>unit_price.
    require (\<not> quantity \<le> 0)
      (PricingInvariantError ''cart line quantity must be positive (contract section 14.2)'')
    (require (\<not> unit_price < 0)
      (PricingInvariantError ''cart line unit price must not be negative'')
    (ok \<lparr>pl_sku_id = sku_id, pl_product_id = product_id, pl_product_name = pl_product_name l,
         pl_sku_name = pl_sku_name l, pl_image_object_key = pl_image_object_key l,
         pl_image_url = pl_image_url l, pl_sku_snapshot = pl_sku_snapshot l,
         pl_unit_price = unit_price, pl_quantity = quantity\<rparr>))))))"

text \<open>A normalised line passed back in: \<open>calculate_item_price\<close> normalises again.\<close>

definition raw_line :: "int priced_line \<Rightarrow> pyval priced_line" where
  "raw_line l =
    \<lparr>pl_sku_id = PyInt (pl_sku_id l), pl_product_id = PyInt (pl_product_id l),
     pl_product_name = pl_product_name l, pl_sku_name = pl_sku_name l,
     pl_image_object_key = pl_image_object_key l, pl_image_url = pl_image_url l,
     pl_sku_snapshot = pl_sku_snapshot l, pl_unit_price = PyInt (pl_unit_price l),
     pl_quantity = PyInt (pl_quantity l)\<rparr>"

text \<open>The comparison over \<open>_SNAPSHOT_FIELDS\<close>.\<close>

definition same_snapshot :: "int priced_line \<Rightarrow> int priced_line \<Rightarrow> bool" where
  "same_snapshot a b \<longleftrightarrow>
    pl_product_id a = pl_product_id b \<and> pl_product_name a = pl_product_name b \<and>
    pl_sku_name a = pl_sku_name b \<and> pl_image_object_key a = pl_image_object_key b \<and>
    pl_image_url a = pl_image_url b \<and> pl_sku_snapshot a = pl_sku_snapshot b \<and>
    pl_unit_price a = pl_unit_price b"

definition merge_step ::
  "(int \<times> int priced_line) list \<Rightarrow> pyval priced_line \<Rightarrow> (int \<times> int priced_line) list result" where
  "merge_step merged raw =
    bindE (normalise_line raw) (\<lambda>line.
      case map_of merged (pl_sku_id line) of
        None \<Rightarrow> ok (dict_set (pl_sku_id line) line merged)
      | Some existing \<Rightarrow>
          require (same_snapshot existing line)
            (PricingInvariantError ''duplicate sku lines carry different snapshots'')
          (ok (dict_set (pl_sku_id line)
            (existing\<lparr>pl_quantity := pl_quantity existing + pl_quantity line\<rparr>) merged)))"

definition merge_lines :: "pyval priced_line list \<Rightarrow> int priced_line list result" where
  "merge_lines lines = bindE (foldE merge_step [] lines) (\<lambda>merged. ok (map snd merged))"

text \<open>\<open>_allocation_map\<close>: the first loop over the allocations, then the coverage loop.\<close>

definition allocation_step ::
  "item_price list \<Rightarrow> string \<Rightarrow> (int \<times> int) list \<Rightarrow> discount_allocation \<Rightarrow> (int \<times> int) list result"
where
  "allocation_step items label mapping a =
    bindE (require_int (PyInt (da_sku_id a)) (label @ '' allocation sku_id'')) (\<lambda>sku.
    bindE (coerce_minor (PyInt (da_amount a)) (label @ '' allocation amount'')) (\<lambda>amount.
    require (\<not> amount < 0)
      (PricingInvariantError (label @ '' allocation must not be negative''))
    (require (sku \<in> set (map item_sku items))
      (PricingInvariantError (label @ '' allocation refers to a line that is not in the cart''))
    (require (sku \<notin> fst ` set mapping)
      (PricingInvariantError (label @ '' allocation is recorded twice''))
    (ok (dict_set sku amount mapping))))))"

definition allocation_map ::
  "discount_allocation list \<Rightarrow> item_price list \<Rightarrow> string \<Rightarrow> (int \<times> int) list result" where
  "allocation_map allocations items label =
    bindE (foldE (allocation_step items label) [] allocations) (\<lambda>mapping.
    require (list_all (\<lambda>i. item_sku i \<in> fst ` set mapping) items)
      (PricingInvariantError (''no '' @ label @ '' allocation recorded for a cart line''))
    (ok mapping))"

text \<open>\<open>mapping[sku_id]\<close>; the key is present once \<open>_allocation_map\<close> has checked coverage.\<close>

definition mapping_at :: "(int \<times> int) list \<Rightarrow> int \<Rightarrow> int" where
  "mapping_at m sku = (case map_of m sku of Some v \<Rightarrow> v | None \<Rightarrow> 0)"

definition mk_allocations :: "item_price list \<Rightarrow> int list \<Rightarrow> discount_allocation list" where
  "mk_allocations items shares =
    map (\<lambda>(i, amount). \<lparr>da_sku_id = item_sku i, da_amount = amount\<rparr>) (zip items shares)"

definition zero_allocations :: "item_price list \<Rightarrow> discount_allocation list" where
  "zero_allocations items = map (\<lambda>i. \<lparr>da_sku_id = item_sku i, da_amount = 0\<rparr>) items"

definition normalise_promotion :: "raw_promotion \<Rightarrow> promotion result" where
  "normalise_promotion r =
    bindE (require_int (pr_promotion_id r) ''promotion_id'') (\<lambda>pid.
    bindE (coerce_enum (pr_promotion_type r) promotion_type_of ''PromotionType''
      ''promotion_type'') (\<lambda>ptype.
    bindE (coerce_amount (pr_threshold_amount r) ''threshold_amount'') (\<lambda>threshold.
    bindE (coerce_amount (pr_discount_amount r) ''discount_amount'') (\<lambda>discount.
    bindE (coerce_bps (pr_discount_bps r) ''discount_bps'') (\<lambda>bps.
    bindE (coerce_amount (pr_reduction_amount r) ''reduction_amount'') (\<lambda>reduction.
    bindE (coerce_amount_option (pr_max_discount_amount r) ''max_discount_amount'') (\<lambda>cap.
    ok \<lparr>pr_promotion_id = pid, pr_promotion_type = ptype, pr_threshold_amount = threshold,
        pr_discount_amount = discount, pr_discount_bps = bps, pr_reduction_amount = reduction,
        pr_max_discount_amount = cap, pr_applicable_sku_ids = pr_applicable_sku_ids r\<rparr>)))))))"

definition normalise_coupon :: "raw_coupon \<Rightarrow> coupon result" where
  "normalise_coupon r =
    bindE (require_int (cr_coupon_id r) ''coupon_id'') (\<lambda>cid.
    bindE (coerce_enum (cr_coupon_type r) coupon_type_of ''CouponType'' ''coupon_type'') (\<lambda>ctype.
    bindE (coerce_amount (cr_threshold_amount r) ''threshold_amount'') (\<lambda>threshold.
    bindE (coerce_amount (cr_face_value_amount r) ''face_value_amount'') (\<lambda>face.
    bindE (coerce_bps (cr_discount_bps r) ''discount_bps'') (\<lambda>bps.
    bindE (coerce_amount_option (cr_max_discount_amount r) ''max_discount_amount'') (\<lambda>cap.
    ok \<lparr>cr_coupon_id = cid, cr_coupon_type = ctype, cr_threshold_amount = threshold,
        cr_face_value_amount = face, cr_discount_bps = bps,
        cr_max_discount_amount = cap, cr_applicable_sku_ids = cr_applicable_sku_ids r\<rparr>))))))"

section \<open>The service\<close>

definition calculate_item_price :: "pyval priced_line \<Rightarrow> item_price result" where
  "calculate_item_price l =
    bindE (normalise_line l) (\<lambda>n.
    ok \<lparr>ip_line = n, ip_original_amount = pl_unit_price n * pl_quantity n\<rparr>)"

definition apply_cap :: "int option \<Rightarrow> int \<Rightarrow> int" where
  "apply_cap cap amount = (case cap of None \<Rightarrow> amount | Some c \<Rightarrow> min amount c)"

definition promotion_amount :: "promotion \<Rightarrow> item_price list \<Rightarrow> bool list \<Rightarrow> int \<Rightarrow> int" where
  "promotion_amount rule items eligible eligible_original =
    (case pr_promotion_type rule of
       DIRECT_DISCOUNT \<Rightarrow>
         pr_discount_amount rule *
           (\<Sum>(i, e) \<leftarrow> zip items eligible. if e then pl_quantity (ip_line i) else 0)
     | PERCENT_DISCOUNT \<Rightarrow>
         apply_cap (pr_max_discount_amount rule)
           (eligible_original * pr_discount_bps rule div max_discount_bps)
     | FULL_REDUCTION \<Rightarrow>
         apply_cap (pr_max_discount_amount rule) (pr_reduction_amount rule))"

definition coupon_amount :: "coupon \<Rightarrow> int \<Rightarrow> int" where
  "coupon_amount rule remaining_total =
    (case cr_coupon_type rule of
       FIXED_AMOUNT \<Rightarrow> cr_face_value_amount rule
     | COUPON_PERCENT_DISCOUNT \<Rightarrow>
         apply_cap (cr_max_discount_amount rule)
           (remaining_total * cr_discount_bps rule div max_discount_bps))"

definition item_remainder :: "(int \<times> int) list \<Rightarrow> (int \<times> int) list \<Rightarrow> item_price \<Rightarrow> int" where
  "item_remainder promotion_map coupon_map i =
    ip_original_amount i - mapping_at promotion_map (item_sku i) -
    mapping_at coupon_map (item_sku i)"

definition negative_item :: exn where
  "negative_item = PricingInvariantError
    ''item payable_amount would be negative (PHASE4_DESIGN section 11)''"

definition repriced ::
  "cart_price \<Rightarrow> int option \<Rightarrow> discount_allocation list option \<Rightarrow> int option \<Rightarrow>
   discount_allocation list option \<Rightarrow> int option \<Rightarrow> string list option \<Rightarrow> cart_price result"
where
  "repriced cart promo promo_allocs coup coup_allocs shipping_arg warnings =
    (let promo_total = case_option (pv_promotion_discount_amount cart) id promo;
         promo_allocations = case_option (pv_promotion_allocations cart) id promo_allocs;
         coupon_total = case_option (pv_coupon_discount_amount cart) id coup;
         coupon_allocations = case_option (pv_coupon_allocations cart) id coup_allocs;
         shipping = case_option (pv_shipping_amount cart) id shipping_arg
     in
     bindE (allocation_map promo_allocations (pv_items cart) ''promotion'') (\<lambda>promotion_map.
     bindE (allocation_map coupon_allocations (pv_items cart) ''coupon'') (\<lambda>coupon_map.
     require (list_all (\<lambda>i. \<not> item_remainder promotion_map coupon_map i < 0) (pv_items cart))
       negative_item
     (ok (cart\<lparr>pv_promotion_discount_amount := promo_total,
               pv_promotion_allocations := promo_allocations,
               pv_coupon_discount_amount := coupon_total,
               pv_coupon_allocations := coupon_allocations,
               pv_shipping_amount := shipping,
               pv_payable_amount :=
                 pv_original_amount cart - promo_total - coupon_total + shipping,
               cp_warnings := case_option (cp_warnings cart) id warnings\<rparr>)))))"

definition promotion_discount ::
  "promotion \<Rightarrow> item_price list \<Rightarrow> string list \<Rightarrow> int \<times> string list" where
  "promotion_discount rule items kept =
    (let eligible = map (\<lambda>i. promotion_covers rule (item_sku i)) items;
         eligible_original =
           (\<Sum>(i, e) \<leftarrow> zip items eligible. if e then ip_original_amount i else 0)
     in
     if \<not> list_ex id eligible \<or> eligible_original = 0
     then (0, kept @ [pricing_warning_value PROMOTION_SCOPE_NO_MATCH])
     else if pr_promotion_type rule = FULL_REDUCTION \<and>
             eligible_original < pr_threshold_amount rule
     then (0, kept @ [pricing_warning_value PROMOTION_THRESHOLD_NOT_MET])
     else (min (promotion_amount rule items eligible eligible_original) eligible_original, kept))"

definition apply_promotion :: "cart_price \<Rightarrow> raw_promotion \<Rightarrow> cart_price result" where
  "apply_promotion cart raw =
    bindE (normalise_promotion raw) (\<lambda>rule.
    let items = pv_items cart;
        kept = filter (\<lambda>w. w \<notin> promotion_warning_values) (cp_warnings cart);
        (discount, warnings) = promotion_discount rule items kept;
        weights = map (\<lambda>i. if promotion_covers rule (item_sku i)
                           then ip_original_amount i else 0) items
    in
    bindE (allocate_pro_rata (PyInt discount) (map PyInt weights)) (\<lambda>shares.
    repriced cart (Some discount) (Some (mk_allocations items shares)) None None None
      (Some warnings)))"

definition coupon_discount ::
  "coupon \<Rightarrow> item_price list \<Rightarrow> int list \<Rightarrow> string list \<Rightarrow> int \<times> string list" where
  "coupon_discount rule items weights kept =
    (let eligible = map (\<lambda>i. coupon_covers rule (item_sku i)) items;
         eligible_original =
           (\<Sum>(i, e) \<leftarrow> zip items eligible. if e then ip_original_amount i else 0);
         remaining_total = sum_list weights
     in
     if \<not> list_ex id eligible \<or> remaining_total = 0
     then (0, kept @ [pricing_warning_value COUPON_SCOPE_NO_MATCH])
     else if eligible_original < cr_threshold_amount rule
     then (0, kept @ [pricing_warning_value COUPON_THRESHOLD_NOT_MET])
     else (min (coupon_amount rule remaining_total) remaining_total, kept))"

definition coupon_weight :: "coupon \<Rightarrow> (int \<times> int) list \<Rightarrow> item_price \<Rightarrow> int result" where
  "coupon_weight rule promotion_map i =
    (if \<not> coupon_covers rule (item_sku i) then ok 0
     else
       let remaining = ip_original_amount i - mapping_at promotion_map (item_sku i)
       in require (\<not> remaining < 0)
            (PricingInvariantError ''promotion allocation exceeds the line it was allocated to'')
          (ok remaining))"

definition apply_coupon :: "cart_price \<Rightarrow> raw_coupon \<Rightarrow> cart_price result" where
  "apply_coupon cart raw =
    bindE (normalise_coupon raw) (\<lambda>rule.
    let items = pv_items cart in
    bindE (allocation_map (pv_promotion_allocations cart) items ''promotion'') (\<lambda>promotion_map.
    bindE (mapE (coupon_weight rule promotion_map) items) (\<lambda>weights.
    let kept = filter (\<lambda>w. w \<notin> coupon_warning_values) (cp_warnings cart);
        (discount, warnings) = coupon_discount rule items weights kept
    in
    bindE (allocate_pro_rata (PyInt discount) (map PyInt weights)) (\<lambda>shares.
    repriced cart None None (Some discount) (Some (mk_allocations items shares)) None
      (Some warnings)))))"

definition calculate_shipping :: "cart_price \<Rightarrow> shipping_policy option \<Rightarrow> int result" where
  "calculate_shipping cart policy =
    (let resolved = case_option default_shipping_policy id policy in
     bindE (coerce_minor (sp_calculate resolved cart) ''shipping amount'') (\<lambda>amount.
     require (\<not> amount < 0)
       (PricingInvariantError ''shipping policy returned a negative amount'')
     (ok amount)))"

definition calculate_cart_price ::
  "pyval priced_line list \<Rightarrow> raw_promotion option \<Rightarrow> raw_coupon option \<Rightarrow>
   shipping_policy option \<Rightarrow> cart_price result" where
  "calculate_cart_price lines promotion_arg coupon_arg policy =
    bindE (merge_lines lines) (\<lambda>merged.
    bindE (mapE calculate_item_price (map raw_line merged)) (\<lambda>items.
    let original = (\<Sum>i \<leftarrow> items. ip_original_amount i);
        cart = \<lparr>pv_items = items, pv_promotion_allocations = zero_allocations items,
                pv_coupon_allocations = zero_allocations items, pv_payable_amount = original,
                pv_original_amount = original, pv_promotion_discount_amount = 0,
                pv_coupon_discount_amount = 0, pv_shipping_amount = 0, cp_warnings = []\<rparr>
    in
    bindE (case promotion_arg of None \<Rightarrow> ok cart | Some p \<Rightarrow> apply_promotion cart p) (\<lambda>cart.
    bindE (case coupon_arg of None \<Rightarrow> ok cart | Some c \<Rightarrow> apply_coupon cart c) (\<lambda>cart.
    bindE (calculate_shipping cart policy) (\<lambda>shipping.
    if shipping \<noteq> 0 then repriced cart None None None None (Some shipping) None
    else ok cart)))))"

definition build_price_snapshot ::
  "cart_price \<Rightarrow> pyval list \<Rightarrow> pyval list \<Rightarrow> string \<Rightarrow> price_snapshot result" where
  "build_price_snapshot cart promotion_ids coupon_ids shipping_label =
    require (\<not> pv_shipping_amount cart \<noteq> 0)
      (PricingInvariantError
        ''a non-zero shipping_amount has no per-item home and would break INV-006'')
    (require (\<not> (\<Sum>i \<leftarrow> pv_items cart. ip_original_amount i) \<noteq> pv_original_amount cart)
      (PricingInvariantError ''cart.original_amount is not the sum of its item amounts'')
    (bindE (allocation_map (pv_promotion_allocations cart) (pv_items cart) ''promotion'')
      (\<lambda>promotion_map.
    bindE (allocation_map (pv_coupon_allocations cart) (pv_items cart) ''coupon'')
      (\<lambda>coupon_map.
    require (\<not> sum_list (map snd promotion_map) \<noteq> pv_promotion_discount_amount cart)
      (PricingInvariantError ''promotion allocations do not sum to the order promotion discount'')
    (require (\<not> sum_list (map snd coupon_map) \<noteq> pv_coupon_discount_amount cart)
      (PricingInvariantError ''coupon allocations do not sum to the order coupon discount'')
    (require (list_all (\<lambda>i. \<not> item_remainder promotion_map coupon_map i < 0) (pv_items cart))
      negative_item
    (require (\<not> (\<Sum>i \<leftarrow> pv_items cart. item_remainder promotion_map coupon_map i) \<noteq>
        pv_payable_amount cart)
      (PricingInvariantError
        ''INV-006 violated: sum(item.payable_amount) != order.payable_amount'')
    (bindE (mapE (\<lambda>v. require_int v ''promotion_id'') promotion_ids) (\<lambda>pids.
    bindE (mapE (\<lambda>v. require_int v ''coupon_id'') coupon_ids) (\<lambda>cids.
    ok \<lparr>pv_items = pv_items cart,
        pv_promotion_allocations = pv_promotion_allocations cart,
        pv_coupon_allocations = pv_coupon_allocations cart,
        pv_payable_amount = pv_payable_amount cart,
        pv_original_amount = pv_original_amount cart,
        pv_promotion_discount_amount = pv_promotion_discount_amount cart,
        pv_coupon_discount_amount = pv_coupon_discount_amount cart,
        pv_shipping_amount = pv_shipping_amount cart,
        ps_promotion_ids = pids, ps_coupon_ids = cids,
        ps_shipping_policy = shipping_label\<rparr>))))))))))"

end
