(* ===== verification/Pricing_Invariants.thy ===== *)
theory Pricing_Invariants
  imports Pricing_Service
begin

text \<open>
  The correctness of the price authority. \<open>cart_wf\<close> says that a priced cart is consistent (one
  line per SKU, allocations in cart order that add up to the order's discounts, no negative item,
  the payable of contract 14.4); every step keeps it and a validated request is always priced.
  The locale \<open>exact_allocation\<close> is what the service relies on in \<open>allocate_pro_rata\<close>.
\<close>

section \<open>The invariant of a priced cart\<close>

definition alloc_pairs :: "discount_allocation list \<Rightarrow> (int \<times> int) list" where
  "alloc_pairs as = map (\<lambda>a. (da_sku_id a, da_amount a)) as"

definition line_wf :: "int priced_line \<Rightarrow> bool" where
  "line_wf l \<longleftrightarrow> 0 < pl_quantity l \<and> 0 \<le> pl_unit_price l"

definition item_wf :: "item_price \<Rightarrow> bool" where
  "item_wf i \<longleftrightarrow> line_wf (ip_line i) \<and>
    ip_original_amount i = pl_unit_price (ip_line i) * pl_quantity (ip_line i)"

definition allocs_cover :: "discount_allocation list \<Rightarrow> item_price list \<Rightarrow> bool" where
  "allocs_cover as items \<longleftrightarrow>
    map da_sku_id as = map item_sku items \<and> list_all (\<lambda>a. 0 \<le> da_amount a) as"

definition priced_view_wf :: "'a priced_items_view_scheme \<Rightarrow> bool" where
  "priced_view_wf v \<longleftrightarrow>
    distinct (map item_sku (pv_items v)) \<and> list_all item_wf (pv_items v) \<and>
    allocs_cover (pv_promotion_allocations v) (pv_items v) \<and>
    allocs_cover (pv_coupon_allocations v) (pv_items v) \<and>
    pv_original_amount v = (\<Sum>i \<leftarrow> pv_items v. ip_original_amount i) \<and>
    pv_promotion_discount_amount v = (\<Sum>a \<leftarrow> pv_promotion_allocations v. da_amount a) \<and>
    pv_coupon_discount_amount v = (\<Sum>a \<leftarrow> pv_coupon_allocations v. da_amount a) \<and>
    list_all (\<lambda>i. 0 \<le> item_remainder (alloc_pairs (pv_promotion_allocations v))
      (alloc_pairs (pv_coupon_allocations v)) i) (pv_items v) \<and>
    0 \<le> pv_shipping_amount v \<and>
    pv_payable_amount v = pv_original_amount v - pv_promotion_discount_amount v -
      pv_coupon_discount_amount v + pv_shipping_amount v"

section \<open>Allocation maps\<close>

lemma fst_alloc_pairs [simp]: "map fst (alloc_pairs as) = map da_sku_id as"
  by (simp add: alloc_pairs_def comp_def)

lemma snd_alloc_pairs [simp]: "map snd (alloc_pairs as) = map da_amount as"
  by (simp add: alloc_pairs_def comp_def)

lemma fold_allocation_step:
  assumes "distinct (map fst m @ map da_sku_id as)"
    and "set (map da_sku_id as) \<subseteq> set (map item_sku items)"
    and "list_all (\<lambda>a. 0 \<le> da_amount a) as"
  shows "foldE (allocation_step items label) m as = ok (m @ alloc_pairs as)"
  using assms
proof (induction as arbitrary: m)
  case Nil
  then show ?case by (simp add: alloc_pairs_def)
next
  case (Cons a as)
  then have new: "da_sku_id a \<notin> fst ` set m" by (auto simp: image_iff)
  have "allocation_step items label m a = ok (m @ [(da_sku_id a, da_amount a)])"
    using Cons.prems new
    by (simp add: allocation_step_def require_int_def coerce_minor_def dict_set_new)
  moreover have "foldE (allocation_step items label) (m @ [(da_sku_id a, da_amount a)]) as =
      ok ((m @ [(da_sku_id a, da_amount a)]) @ alloc_pairs as)"
    using Cons.prems by (intro Cons.IH) auto
  ultimately show ?case by (simp add: alloc_pairs_def)
qed

lemma allocation_map_cover:
  assumes "allocs_cover as items" and "distinct (map item_sku items)"
  shows "allocation_map as items label = ok (alloc_pairs as)"
proof -
  have keys: "map da_sku_id as = map item_sku items" and pos: "list_all (\<lambda>a. 0 \<le> da_amount a) as"
    using assms(1) by (simp_all add: allocs_cover_def)
  have "foldE (allocation_step items label) [] as = ok (alloc_pairs as)"
    using fold_allocation_step [of "[]" as items label] keys pos assms(2) by simp
  moreover have "set (map item_sku items) = fst ` set (alloc_pairs as)"
    using keys fst_alloc_pairs [of as] by (metis list.set_map)
  then have "list_all (\<lambda>i. item_sku i \<in> fst ` set (alloc_pairs as)) items"
    by (auto simp: list_all_iff)
  ultimately show ?thesis by (simp add: allocation_map_def)
qed

lemma mapping_at_pairs:
  assumes "distinct (map da_sku_id as)"
  shows "map (\<lambda>a. mapping_at (alloc_pairs as) (da_sku_id a)) as = map da_amount as"
proof (rule map_cong [OF refl])
  fix a assume "a \<in> set as"
  then have "(da_sku_id a, da_amount a) \<in> set (alloc_pairs as)"
    by (auto simp: alloc_pairs_def)
  moreover have "distinct (map fst (alloc_pairs as))" using assms by simp
  ultimately show "mapping_at (alloc_pairs as) (da_sku_id a) = da_amount a"
    by (simp add: mapping_at_def)
qed

lemma mapping_at_cover:
  assumes "allocs_cover as items" and "distinct (map item_sku items)"
  shows "map (\<lambda>i. mapping_at (alloc_pairs as) (item_sku i)) items = map da_amount as"
proof -
  have keys: "map da_sku_id as = map item_sku items" using assms(1) by (simp add: allocs_cover_def)
  have "map (\<lambda>i. mapping_at (alloc_pairs as) (item_sku i)) items =
      map (mapping_at (alloc_pairs as)) (map item_sku items)" by simp
  also have "\<dots> = map (\<lambda>a. mapping_at (alloc_pairs as) (da_sku_id a)) as"
    by (simp add: keys [symmetric])
  also have "\<dots> = map da_amount as" using keys assms(2) by (simp add: mapping_at_pairs)
  finally show ?thesis .
qed

lemma sum_item_remainder:
  assumes "allocs_cover ps items" and "allocs_cover cs items" and "distinct (map item_sku items)"
  shows "(\<Sum>i \<leftarrow> items. item_remainder (alloc_pairs ps) (alloc_pairs cs) i) =
    (\<Sum>i \<leftarrow> items. ip_original_amount i) - (\<Sum>a \<leftarrow> ps. da_amount a) - (\<Sum>a \<leftarrow> cs. da_amount a)"
  using mapping_at_cover [OF assms(1,3)] mapping_at_cover [OF assms(2,3)]
  by (simp add: item_remainder_def sum_list_subtractf)

lemma map_sku_mk_allocations [simp]:
  "length shares = length items \<Longrightarrow> map da_sku_id (mk_allocations items shares) = map item_sku items"
  by (induction shares items rule: list_induct2) (simp_all add: mk_allocations_def)

lemma map_amount_mk_allocations [simp]:
  "length shares = length items \<Longrightarrow> map da_amount (mk_allocations items shares) = shares"
  by (induction shares items rule: list_induct2) (simp_all add: mk_allocations_def)

lemma mk_allocations_cover:
  assumes "length shares = length items" and "\<And>j. j < length items \<Longrightarrow> 0 \<le> shares ! j"
  shows "allocs_cover (mk_allocations items shares) items"
proof -
  have "list_all (\<lambda>x. 0 \<le> x) (map da_amount (mk_allocations items shares))"
    using assms by (simp add: list_all_length)
  then have "list_all (\<lambda>a. 0 \<le> da_amount a) (mk_allocations items shares)"
    unfolding list.pred_map comp_def .
  then show ?thesis using assms(1) by (simp add: allocs_cover_def)
qed

lemma zero_allocations_cover: "allocs_cover (zero_allocations items) items"
  by (simp add: allocs_cover_def zero_allocations_def list_all_iff comp_def)

lemma sum_zero_allocations [simp]: "(\<Sum>a \<leftarrow> zero_allocations items. da_amount a) = 0"
  by (simp add: zero_allocations_def comp_def)

lemma item_wf_original: "item_wf i \<Longrightarrow> 0 \<le> ip_original_amount i"
  by (simp add: item_wf_def line_wf_def)

section \<open>Rebuilding a cart\<close>

lemma repriced_eq:
  assumes "distinct (map item_sku (pv_items cart))"
    and "allocs_cover (case_option (pv_promotion_allocations cart) id ps) (pv_items cart)"
    and "allocs_cover (case_option (pv_coupon_allocations cart) id cs) (pv_items cart)"
  shows "repriced cart p ps c cs s w =
    require (list_all (\<lambda>i. 0 \<le> item_remainder
        (alloc_pairs (case_option (pv_promotion_allocations cart) id ps))
        (alloc_pairs (case_option (pv_coupon_allocations cart) id cs)) i) (pv_items cart))
      negative_item
    (ok (cart\<lparr>pv_promotion_discount_amount :=
                case_option (pv_promotion_discount_amount cart) id p,
              pv_promotion_allocations := case_option (pv_promotion_allocations cart) id ps,
              pv_coupon_discount_amount := case_option (pv_coupon_discount_amount cart) id c,
              pv_coupon_allocations := case_option (pv_coupon_allocations cart) id cs,
              pv_shipping_amount := case_option (pv_shipping_amount cart) id s,
              pv_payable_amount := pv_original_amount cart -
                case_option (pv_promotion_discount_amount cart) id p -
                case_option (pv_coupon_discount_amount cart) id c +
                case_option (pv_shipping_amount cart) id s,
              cp_warnings := case_option (cp_warnings cart) id w\<rparr>))"
  using assms by (simp add: repriced_def Let_def allocation_map_cover not_less)

text \<open>Whatever the new parts are, a rebuilt cart is consistent when the parts are.\<close>

lemma repriced_wf:
  assumes "priced_view_wf cart" and "repriced cart p ps c cs s w = ok cart'"
    and "allocs_cover (case_option (pv_promotion_allocations cart) id ps) (pv_items cart)"
    and "allocs_cover (case_option (pv_coupon_allocations cart) id cs) (pv_items cart)"
    and "case_option (pv_promotion_discount_amount cart) id p =
      (\<Sum>a \<leftarrow> case_option (pv_promotion_allocations cart) id ps. da_amount a)"
    and "case_option (pv_coupon_discount_amount cart) id c =
      (\<Sum>a \<leftarrow> case_option (pv_coupon_allocations cart) id cs. da_amount a)"
    and "0 \<le> case_option (pv_shipping_amount cart) id s"
  shows "priced_view_wf cart'"
proof -
  have d: "distinct (map item_sku (pv_items cart))" using assms(1) by (simp add: priced_view_wf_def)
  show ?thesis
    using assms unfolding repriced_eq [OF d assms(3,4)]
    by (auto simp: priced_view_wf_def require_eq_Inr)
qed

section \<open>The allocation interface\<close>

text \<open>
  What \<open>PricingService\<close> relies on: a split of a discount that the weights can bear exists, adds up
  exactly and stays within the weights.
\<close>

locale exact_allocation =
  fixes allocate :: "pyval \<Rightarrow> pyval list \<Rightarrow> int list result"
  assumes allocate_ok: "0 \<le> t \<Longrightarrow> list_all (\<lambda>w. 0 \<le> w) ws \<Longrightarrow> t \<le> sum_list ws \<Longrightarrow>
    \<exists>shares. allocate (PyInt t) (map PyInt ws) = ok shares \<and> length shares = length ws \<and>
      sum_list shares = t \<and> (\<forall>j < length ws. 0 \<le> shares ! j \<and> shares ! j \<le> ws ! j)"
begin

lemma allocated:
  assumes "allocate (PyInt t) (map PyInt (map f items)) = ok shares"
    and "0 \<le> t" and "\<forall>i \<in> set items. 0 \<le> f i" and "t \<le> sum_list (map f items)"
  shows "length shares = length items" and "allocs_cover (mk_allocations items shares) items"
    and "(\<Sum>a \<leftarrow> mk_allocations items shares. da_amount a) = t"
    and "distinct (map item_sku items) \<Longrightarrow> i \<in> set items \<Longrightarrow>
      mapping_at (alloc_pairs (mk_allocations items shares)) (item_sku i) \<le> f i"
proof -
  have "\<exists>shares'. allocate (PyInt t) (map PyInt (map f items)) = ok shares' \<and>
      length shares' = length (map f items) \<and> sum_list shares' = t \<and>
      (\<forall>j < length (map f items). 0 \<le> shares' ! j \<and> shares' ! j \<le> map f items ! j)"
    using assms(2,3,4) by (intro allocate_ok) (auto simp: list_all_iff)
  with assms(1) have len: "length shares = length items" and sum: "sum_list shares = t"
    and le: "\<And>j. j < length items \<Longrightarrow> 0 \<le> shares ! j \<and> shares ! j \<le> f (items ! j)"
    by auto
  show "length shares = length items" by (rule len)
  show cover: "allocs_cover (mk_allocations items shares) items"
    using len le by (intro mk_allocations_cover) auto
  show "(\<Sum>a \<leftarrow> mk_allocations items shares. da_amount a) = t" using len sum by simp
  assume d: "distinct (map item_sku items)" and "i \<in> set items"
  then obtain j where j: "j < length items" "i = items ! j" by (auto simp: in_set_conv_nth)
  have "map (\<lambda>i. mapping_at (alloc_pairs (mk_allocations items shares)) (item_sku i)) items = shares"
    using mapping_at_cover [OF cover d] len by simp
  then have "mapping_at (alloc_pairs (mk_allocations items shares)) (item_sku i) = shares ! j"
    using j by (metis nth_map)
  with le j show "mapping_at (alloc_pairs (mk_allocations items shares)) (item_sku i) \<le> f i" by simp
qed

lemma allocates:
  assumes "0 \<le> t" and "\<forall>i \<in> set items. 0 \<le> f i" and "t \<le> sum_list (map f items)"
  obtains shares where "allocate (PyInt t) (map PyInt (map f items)) = ok shares"
  using allocate_ok [of t "map f items"] assms by (auto simp: list_all_iff)

end

interpretation pro_rata: exact_allocation allocate_pro_rata
proof unfold_locales
  fix t :: int and ws :: "int list"
  assume "0 \<le> t" and "list_all (\<lambda>w. 0 \<le> w) ws" and "t \<le> sum_list ws"
  from allocate_pro_rata_contract [OF this] show "\<exists>shares.
      allocate_pro_rata (PyInt t) (map PyInt ws) = ok shares \<and> length shares = length ws \<and>
      sum_list shares = t \<and> (\<forall>j < length ws. 0 \<le> shares ! j \<and> shares ! j \<le> ws ! j)"
    by metis
qed

section \<open>The promotion step\<close>

lemma sum_eligible:
  "(\<Sum>(i, e) \<leftarrow> zip items (map P items). if e then f i else 0) =
    (\<Sum>i \<leftarrow> items. if P i then f i else (0::int))"
  by (induction items) auto

lemma apply_cap_nonneg: "0 \<le> a \<Longrightarrow> case_option True (\<lambda>c. 0 \<le> c) cap \<Longrightarrow> 0 \<le> apply_cap cap a"
  by (auto simp: apply_cap_def split: option.splits)

definition promotion_rule_wf :: "promotion \<Rightarrow> bool" where
  "promotion_rule_wf r \<longleftrightarrow> 0 \<le> pr_threshold_amount r \<and> 0 \<le> pr_discount_amount r \<and>
    0 \<le> pr_discount_bps r \<and> pr_discount_bps r \<le> max_discount_bps \<and>
    0 \<le> pr_reduction_amount r \<and> case_option True (\<lambda>c. 0 \<le> c) (pr_max_discount_amount r)"

definition coupon_rule_wf :: "coupon \<Rightarrow> bool" where
  "coupon_rule_wf r \<longleftrightarrow> 0 \<le> cr_threshold_amount r \<and> 0 \<le> cr_face_value_amount r \<and>
    0 \<le> cr_discount_bps r \<and> cr_discount_bps r \<le> max_discount_bps \<and>
    case_option True (\<lambda>c. 0 \<le> c) (cr_max_discount_amount r)"

lemma coerce_amount_nonneg: "coerce_amount v f = ok a \<Longrightarrow> 0 \<le> a"
  by (auto simp: coerce_amount_def rsimps)

lemma coerce_bps_range: "coerce_bps v f = ok a \<Longrightarrow> 0 \<le> a \<and> a \<le> max_discount_bps"
  by (auto simp: coerce_bps_def rsimps)

lemma coerce_amount_option_nonneg:
  "coerce_amount_option v f = ok a \<Longrightarrow> case_option True (\<lambda>c. 0 \<le> c) a"
  by (auto simp: coerce_amount_option_def rsimps dest: coerce_amount_nonneg split: option.splits)

lemmas coerced = coerce_amount_nonneg coerce_bps_range coerce_amount_option_nonneg

lemma normalise_promotion_wf: "normalise_promotion raw = ok r \<Longrightarrow> promotion_rule_wf r"
  by (auto simp: normalise_promotion_def promotion_rule_wf_def bindE_eq_Inr dest!: coerced)

lemma normalise_coupon_wf: "normalise_coupon raw = ok r \<Longrightarrow> coupon_rule_wf r"
  by (auto simp: normalise_coupon_def coupon_rule_wf_def bindE_eq_Inr dest!: coerced)

lemma promotion_amount_nonneg:
  assumes "promotion_rule_wf r" and "list_all item_wf items" and "0 \<le> orig"
  shows "0 \<le> promotion_amount r items (map P items) orig"
proof -
  have "0 \<le> (\<Sum>i \<leftarrow> items. if P i then pl_quantity (ip_line i) else 0)"
    using assms(2) by (intro sum_list_nonneg) (auto simp: list_all_iff item_wf_def line_wf_def)
  then show ?thesis
    using assms by (auto simp: promotion_amount_def promotion_rule_wf_def max_discount_bps_def
        sum_eligible pos_imp_zdiv_nonneg_iff split: promotion_type.splits intro!: apply_cap_nonneg)
qed

definition promotion_weight :: "promotion \<Rightarrow> item_price \<Rightarrow> int" where
  "promotion_weight r i = (if promotion_covers r (item_sku i) then ip_original_amount i else 0)"

lemma sum_promotion_weight_nonneg:
  "list_all item_wf items \<Longrightarrow> 0 \<le> (\<Sum>i \<leftarrow> items. promotion_weight r i)"
  by (intro sum_list_nonneg) (auto simp: promotion_weight_def list_all_iff item_wf_original)

text \<open>The discount lies between zero and the eligible original amount, on every branch.\<close>

lemma promotion_discount_range:
  assumes "promotion_rule_wf r" and "list_all item_wf items"
  shows "0 \<le> fst (promotion_discount r items kept)"
    and "fst (promotion_discount r items kept) \<le> (\<Sum>i \<leftarrow> items. promotion_weight r i)"
proof -
  have e: "(\<Sum>(i, e) \<leftarrow> zip items (map (\<lambda>i. promotion_covers r (item_sku i)) items).
      if e then ip_original_amount i else 0) = (\<Sum>i \<leftarrow> items. promotion_weight r i)"
    by (simp add: sum_eligible promotion_weight_def)
  have n: "0 \<le> (\<Sum>i \<leftarrow> items. promotion_weight r i)"
    using assms(2) by (rule sum_promotion_weight_nonneg)
  then show "0 \<le> fst (promotion_discount r items kept)"
    and "fst (promotion_discount r items kept) \<le> (\<Sum>i \<leftarrow> items. promotion_weight r i)"
    using promotion_amount_nonneg [OF assms n]
    by (auto simp: promotion_discount_def Let_def e)
qed

text \<open>The shares and the rebuilt cart of a promotion, with every intermediate value named.\<close>

lemma apply_promotion_cases:
  assumes "priced_view_wf cart" and "normalise_promotion raw = ok r"
  obtains discount warnings shares where
    "0 \<le> discount" and "discount \<le> (\<Sum>i \<leftarrow> pv_items cart. promotion_weight r i)"
    and "promotion_discount r (pv_items cart)
      (filter (\<lambda>w. w \<notin> promotion_warning_values) (cp_warnings cart)) = (discount, warnings)"
    and "allocate_pro_rata (PyInt discount) (map PyInt (map (promotion_weight r) (pv_items cart))) =
      ok shares"
    and "apply_promotion cart raw = repriced cart (Some discount)
      (Some (mk_allocations (pv_items cart) shares)) None None None (Some warnings)"
proof -
  have items: "list_all item_wf (pv_items cart)" using assms(1) by (simp add: priced_view_wf_def)
  obtain d w where dw: "promotion_discount r (pv_items cart)
      (filter (\<lambda>w. w \<notin> promotion_warning_values) (cp_warnings cart)) = (d, w)"
    by (cases "promotion_discount r (pv_items cart)
      (filter (\<lambda>w. w \<notin> promotion_warning_values) (cp_warnings cart))")
  note range = promotion_discount_range [OF normalise_promotion_wf [OF assms(2)] items]
  have lo: "0 \<le> d" and hi: "d \<le> (\<Sum>i \<leftarrow> pv_items cart. promotion_weight r i)"
    using range dw by (metis fst_conv)+
  have "\<forall>i \<in> set (pv_items cart). 0 \<le> promotion_weight r i"
    using items by (auto simp: promotion_weight_def list_all_iff item_wf_original)
  from pro_rata.allocates [OF lo this hi] obtain shares where
    s: "allocate_pro_rata (PyInt d) (map PyInt (map (promotion_weight r) (pv_items cart))) =
      ok shares" .
  have "apply_promotion cart raw = repriced cart (Some d)
      (Some (mk_allocations (pv_items cart) shares)) None None None (Some w)"
    using s dw by (simp add: apply_promotion_def assms(2) promotion_weight_def comp_def)
  with lo hi dw s show ?thesis by (rule that)
qed

lemma apply_promotion_wf:
  assumes wf: "priced_view_wf cart" and "apply_promotion cart raw = ok cart'"
  shows "priced_view_wf cart'"
proof -
  obtain r where r: "normalise_promotion raw = ok r"
    using assms(2) by (auto simp: apply_promotion_def bindE_eq_Inr)
  have items: "list_all item_wf (pv_items cart)" using wf by (simp add: priced_view_wf_def)
  from apply_promotion_cases [OF wf r] obtain d w shares where
    d: "0 \<le> d" "d \<le> (\<Sum>i \<leftarrow> pv_items cart. promotion_weight r i)"
    and s: "allocate_pro_rata (PyInt d) (map PyInt (map (promotion_weight r) (pv_items cart))) =
      ok shares"
    and eq: "apply_promotion cart raw = repriced cart (Some d)
      (Some (mk_allocations (pv_items cart) shares)) None None None (Some w)" by blast
  have nn: "\<forall>i \<in> set (pv_items cart). 0 \<le> promotion_weight r i"
    using items by (auto simp: promotion_weight_def list_all_iff item_wf_original)
  note a = pro_rata.allocated [OF s d(1) nn d(2)]
  show ?thesis
    by (rule repriced_wf [OF wf assms(2) [unfolded eq]])
      (use wf a in \<open>simp_all add: priced_view_wf_def\<close>)
qed

text \<open>Without a coupon on the cart a valid promotion is always applied.\<close>

lemma apply_promotion_ok:
  assumes wf: "priced_view_wf cart" and r: "normalise_promotion raw = ok r"
    and zero: "pv_coupon_allocations cart = zero_allocations (pv_items cart)"
  shows "is_ok (apply_promotion cart raw)"
proof -
  have items: "list_all item_wf (pv_items cart)"
    and dist: "distinct (map item_sku (pv_items cart))" using wf by (simp_all add: priced_view_wf_def)
  from apply_promotion_cases [OF wf r] obtain d w shares where
    d: "0 \<le> d" "d \<le> (\<Sum>i \<leftarrow> pv_items cart. promotion_weight r i)"
    and s: "allocate_pro_rata (PyInt d) (map PyInt (map (promotion_weight r) (pv_items cart))) =
      ok shares"
    and eq: "apply_promotion cart raw = repriced cart (Some d)
      (Some (mk_allocations (pv_items cart) shares)) None None None (Some w)" by blast
  have nn: "\<forall>i \<in> set (pv_items cart). 0 \<le> promotion_weight r i"
    using items by (auto simp: promotion_weight_def list_all_iff item_wf_original)
  note a = pro_rata.allocated [OF s d(1) nn d(2)]
  have "mapping_at (alloc_pairs (zero_allocations (pv_items cart))) (item_sku i) = 0"
    if "i \<in> set (pv_items cart)" for i
    using mapping_at_cover [OF zero_allocations_cover dist] that
    by (auto simp: zero_allocations_def comp_def map_eq_conv dest: map_eq_conv [THEN iffD1])
  moreover have "promotion_weight r i \<le> ip_original_amount i" if "i \<in> set (pv_items cart)" for i
    using items that by (auto simp: promotion_weight_def list_all_iff item_wf_original)
  ultimately have "list_all (\<lambda>i. 0 \<le> item_remainder
      (alloc_pairs (mk_allocations (pv_items cart) shares))
      (alloc_pairs (zero_allocations (pv_items cart))) i) (pv_items cart)"
    using a(4) [OF dist] by (fastforce simp: list_all_iff item_remainder_def)
  then show ?thesis
    using repriced_eq [OF dist] a(2) zero_allocations_cover by (simp add: eq zero)
qed

section \<open>The coupon step\<close>

lemma mapping_at_nonneg: "allocs_cover as items \<Longrightarrow> 0 \<le> mapping_at (alloc_pairs as) sku"
  by (auto simp: mapping_at_def allocs_cover_def list_all_iff alloc_pairs_def
      split: option.splits dest!: map_of_SomeD)

definition coupon_remaining :: "coupon \<Rightarrow> discount_allocation list \<Rightarrow> item_price \<Rightarrow> int" where
  "coupon_remaining r ps i =
    (if coupon_covers r (item_sku i)
     then ip_original_amount i - mapping_at (alloc_pairs ps) (item_sku i) else 0)"

lemma wf_item_covered:
  assumes "priced_view_wf cart" and "i \<in> set (pv_items cart)"
  shows "0 \<le> ip_original_amount i - mapping_at (alloc_pairs (pv_promotion_allocations cart)) (item_sku i)"
proof -
  have "0 \<le> item_remainder (alloc_pairs (pv_promotion_allocations cart))
      (alloc_pairs (pv_coupon_allocations cart)) i"
    using assms by (simp add: priced_view_wf_def list_all_iff)
  moreover have "0 \<le> mapping_at (alloc_pairs (pv_coupon_allocations cart)) (item_sku i)"
    using assms(1) by (intro mapping_at_nonneg [of _ "pv_items cart"]) (simp add: priced_view_wf_def)
  ultimately show ?thesis by (simp add: item_remainder_def)
qed

lemma coupon_remaining_nonneg:
  assumes "priced_view_wf cart"
  shows "\<forall>i \<in> set (pv_items cart). 0 \<le> coupon_remaining r (pv_promotion_allocations cart) i"
  using wf_item_covered [OF assms] by (simp add: coupon_remaining_def)

lemma coupon_weights:
  assumes "priced_view_wf cart"
  shows "mapE (coupon_weight r (alloc_pairs (pv_promotion_allocations cart))) (pv_items cart) =
    ok (map (coupon_remaining r (pv_promotion_allocations cart)) (pv_items cart))"
  using wf_item_covered [OF assms]
  by (intro mapE_Inr_map) (simp add: coupon_weight_def coupon_remaining_def Let_def not_less)

lemma coupon_amount_nonneg: "coupon_rule_wf r \<Longrightarrow> 0 \<le> rest \<Longrightarrow> 0 \<le> coupon_amount r rest"
  by (auto simp: coupon_amount_def coupon_rule_wf_def max_discount_bps_def pos_imp_zdiv_nonneg_iff
      split: coupon_type.splits intro!: apply_cap_nonneg)

lemma coupon_discount_range:
  assumes "coupon_rule_wf r" and "0 \<le> sum_list weights"
  shows "0 \<le> fst (coupon_discount r items weights kept)"
    and "fst (coupon_discount r items weights kept) \<le> sum_list weights"
  using coupon_amount_nonneg [OF assms] assms(2) by (auto simp: coupon_discount_def Let_def)

lemma apply_coupon_cases:
  assumes wf: "priced_view_wf cart" and r: "normalise_coupon raw = ok r"
  obtains discount warnings shares where
    "0 \<le> discount"
    and "discount \<le> (\<Sum>i \<leftarrow> pv_items cart. coupon_remaining r (pv_promotion_allocations cart) i)"
    and "coupon_discount r (pv_items cart)
      (map (coupon_remaining r (pv_promotion_allocations cart)) (pv_items cart))
      (filter (\<lambda>w. w \<notin> coupon_warning_values) (cp_warnings cart)) = (discount, warnings)"
    and "allocate_pro_rata (PyInt discount)
      (map PyInt (map (coupon_remaining r (pv_promotion_allocations cart)) (pv_items cart))) =
      ok shares"
    and "apply_coupon cart raw = repriced cart None None (Some discount)
      (Some (mk_allocations (pv_items cart) shares)) None (Some warnings)"
proof -
  let ?ws = "map (coupon_remaining r (pv_promotion_allocations cart)) (pv_items cart)"
  let ?kept = "filter (\<lambda>w. w \<notin> coupon_warning_values) (cp_warnings cart)"
  obtain d w where dw: "coupon_discount r (pv_items cart) ?ws ?kept = (d, w)"
    by (cases "coupon_discount r (pv_items cart) ?ws ?kept")
  have "0 \<le> sum_list ?ws" using coupon_remaining_nonneg [OF wf] by (intro sum_list_nonneg) auto
  note range = coupon_discount_range [OF normalise_coupon_wf [OF r] this]
  have lo: "0 \<le> d" and hi: "d \<le> sum_list ?ws" using range dw by (metis fst_conv)+
  from pro_rata.allocates [OF lo coupon_remaining_nonneg [OF wf] hi] obtain shares where
    s: "allocate_pro_rata (PyInt d) (map PyInt ?ws) = ok shares" .
  have "allocation_map (pv_promotion_allocations cart) (pv_items cart) ''promotion'' =
      ok (alloc_pairs (pv_promotion_allocations cart))"
    using wf by (intro allocation_map_cover) (simp_all add: priced_view_wf_def)
  then have "apply_coupon cart raw = repriced cart None None (Some d)
      (Some (mk_allocations (pv_items cart) shares)) None (Some w)"
    using s dw by (simp add: apply_coupon_def r coupon_weights [OF wf])
  with lo hi dw s show ?thesis by (rule that)
qed

text \<open>A valid coupon is always applied to a consistent cart, and leaves it consistent.\<close>

lemma apply_coupon_ok:
  assumes wf: "priced_view_wf cart" and r: "normalise_coupon raw = ok r"
  obtains cart' where "apply_coupon cart raw = ok cart'" and "priced_view_wf cart'"
proof -
  let ?f = "coupon_remaining r (pv_promotion_allocations cart)"
  have dist: "distinct (map item_sku (pv_items cart))"
    and promo: "allocs_cover (pv_promotion_allocations cart) (pv_items cart)"
    using wf by (simp_all add: priced_view_wf_def)
  from apply_coupon_cases [OF wf r] obtain d w shares where
    d: "0 \<le> d" "d \<le> (\<Sum>i \<leftarrow> pv_items cart. ?f i)"
    and s: "allocate_pro_rata (PyInt d) (map PyInt (map ?f (pv_items cart))) = ok shares"
    and eq: "apply_coupon cart raw = repriced cart None None (Some d)
      (Some (mk_allocations (pv_items cart) shares)) None (Some w)" by blast
  note a = pro_rata.allocated [OF s d(1) coupon_remaining_nonneg [OF wf] d(2)]
  have "list_all (\<lambda>i. 0 \<le> item_remainder (alloc_pairs (pv_promotion_allocations cart))
      (alloc_pairs (mk_allocations (pv_items cart) shares)) i) (pv_items cart)"
    using a(4) [OF dist] wf_item_covered [OF wf]
    by (fastforce simp: list_all_iff item_remainder_def coupon_remaining_def split: if_splits)
  then obtain cart' where ok': "apply_coupon cart raw = ok cart'"
    using repriced_eq [OF dist] a(2) promo by (simp add: eq)
  then have "priced_view_wf cart'"
    by (intro repriced_wf [OF wf ok' [unfolded eq]])
      (use wf a in \<open>simp_all add: priced_view_wf_def\<close>)
  with ok' show ?thesis by (rule that)
qed

lemma apply_coupon_wf:
  assumes "priced_view_wf cart" and "apply_coupon cart raw = ok cart'"
  shows "priced_view_wf cart'"
proof -
  obtain r where "normalise_coupon raw = ok r"
    using assms(2) by (auto simp: apply_coupon_def bindE_eq_Inr)
  from apply_coupon_ok [OF assms(1) this] assms(2) show ?thesis by auto
qed

section \<open>Merging duplicate lines\<close>

definition first_seen :: "'k list \<Rightarrow> 'k list" where
  "first_seen ks = foldl (\<lambda>seen k. if k \<in> set seen then seen else seen @ [k]) [] ks"

abbreviation line_amount :: "int priced_line \<Rightarrow> int" where
  "line_amount l \<equiv> pl_unit_price l * pl_quantity l"

definition units_of :: "int \<Rightarrow> int priced_line list \<Rightarrow> int" where
  "units_of sku ls = (\<Sum>l \<leftarrow> ls. if pl_sku_id l = sku then pl_quantity l else 0)"

lemma sum_dict_set:
  fixes f :: "'v \<Rightarrow> int"
  shows "distinct (map fst d) \<Longrightarrow>
    sum_list (map (f \<circ> snd) (dict_set k v d)) =
    sum_list (map (f \<circ> snd) d) - (case map_of d k of None \<Rightarrow> 0 | Some old \<Rightarrow> f old) + f v"
proof (induction k v d rule: dict_set.induct)
  case (2 k v k' v' d)
  then show ?case by (auto split: option.splits dest: map_of_SomeD)
qed simp

lemma normalise_line_wf: "normalise_line raw = ok l \<Longrightarrow> line_wf l"
  by (auto simp: normalise_line_def line_wf_def rsimps)

lemma normalise_raw_line [simp]: "line_wf l \<Longrightarrow> normalise_line (raw_line l) = ok l"
  by (simp add: normalise_line_def raw_line_def require_int_def coerce_minor_def line_wf_def)

text \<open>What the dictionary holds after the lines whose normal forms are \<open>ns\<close>.\<close>

definition merge_inv :: "(int \<times> int priced_line) list \<Rightarrow> int priced_line list \<Rightarrow> bool" where
  "merge_inv m ns \<longleftrightarrow>
    distinct (map fst m) \<and> (\<forall>(k, l) \<in> set m. pl_sku_id l = k \<and> line_wf l) \<and>
    map fst m = first_seen (map pl_sku_id ns) \<and>
    (\<forall>sku. units_of sku (map snd m) = units_of sku ns) \<and>
    (\<Sum>l \<leftarrow> map snd m. line_amount l) = (\<Sum>l \<leftarrow> ns. line_amount l)"

lemma first_seen_snoc:
  "first_seen (ks @ [k]) = (if k \<in> set (first_seen ks) then first_seen ks else first_seen ks @ [k])"
  by (simp add: first_seen_def)

lemma set_dict_set: "set (dict_set k v d) \<subseteq> insert (k, v) (set d)"
  by (induction k v d rule: dict_set.induct) auto

lemma merge_inv_set:
  assumes inv: "merge_inv m ns" and n: "line_wf n" "pl_sku_id n = k"
    and v: "line_wf v" "pl_sku_id v = k"
    and amount: "line_amount v = line_amount n + case_option 0 line_amount (map_of m k)"
    and units: "pl_quantity v = pl_quantity n + case_option 0 pl_quantity (map_of m k)"
  shows "merge_inv (dict_set k v m) (ns @ [n])"
proof -
  have d: "distinct (map fst m)" and keys: "map fst m = first_seen (map pl_sku_id ns)"
    and wf: "\<forall>(k, l) \<in> set m. pl_sku_id l = k \<and> line_wf l"
    and un: "\<And>sku. units_of sku (map snd m) = units_of sku ns"
    and am: "(\<Sum>l \<leftarrow> map snd m. line_amount l) = (\<Sum>l \<leftarrow> ns. line_amount l)"
    using inv unfolding merge_inv_def by blast+
  have old: "pl_sku_id l = k" if "map_of m k = Some l" for l
    using wf that by (auto dest: map_of_SomeD)
  have "map fst (dict_set k v m) = first_seen (map pl_sku_id (ns @ [n]))"
    using keys n(2) by (simp add: keys_dict_set first_seen_snoc del: set_map flip: set_map)
  moreover have "units_of sku (map snd (dict_set k v m)) = units_of sku (ns @ [n])" for sku
    using un [of sku] n(2) v(2) units old
    by (auto simp: units_of_def sum_dict_set [OF d] split: option.splits)
  moreover have "(\<Sum>l \<leftarrow> map snd (dict_set k v m). line_amount l) =
      (\<Sum>l \<leftarrow> ns @ [n]. line_amount l)"
    using am amount by (simp add: sum_dict_set [OF d] split: option.splits)
  moreover have "\<forall>(k, l) \<in> set (dict_set k v m). pl_sku_id l = k \<and> line_wf l"
    using wf v set_dict_set [of k v m] by auto
  ultimately show ?thesis
    using distinct_dict_set [OF d, of k v] by (simp add: merge_inv_def)
qed

lemma merge_step_inv:
  assumes "merge_inv m ns" and "merge_step m raw = ok m'"
  obtains n where "normalise_line raw = ok n" and "merge_inv m' (ns @ [n])"
proof -
  obtain n where n: "normalise_line raw = ok n"
    using assms(2) by (auto simp: merge_step_def bindE_eq_Inr)
  have wf: "\<forall>(k, l) \<in> set m. pl_sku_id l = k \<and> line_wf l"
    using assms(1) by (simp add: merge_inv_def)
  note nwf = normalise_line_wf [OF n]
  have "merge_inv m' (ns @ [n])"
  proof (cases "map_of m (pl_sku_id n)")
    case None
    then have "m' = dict_set (pl_sku_id n) n m" using assms(2) n by (simp add: merge_step_def)
    with None show ?thesis using assms(1) nwf by (auto intro!: merge_inv_set)
  next
    case (Some e)
    then have e: "pl_sku_id e = pl_sku_id n" "line_wf e" using wf by (auto dest: map_of_SomeD)
    have same: "same_snapshot e n"
      and m': "m' = dict_set (pl_sku_id n)
        (e\<lparr>pl_quantity := pl_quantity e + pl_quantity n\<rparr>) m"
      using assms(2) n Some by (auto simp: merge_step_def require_eq_Inr)
    show ?thesis unfolding m'
      by (rule merge_inv_set [OF assms(1) nwf refl])
        (use e same nwf Some in
          \<open>simp_all add: line_wf_def same_snapshot_def algebra_simps\<close>)
  qed
  with n show ?thesis by (rule that)
qed

lemma fold_merge_inv:
  "merge_inv m ns \<Longrightarrow> foldE merge_step m raws = ok m' \<Longrightarrow>
    \<exists>ns'. mapE normalise_line raws = ok ns' \<and> merge_inv m' (ns @ ns')"
proof (induction raws arbitrary: m ns)
  case Nil
  then show ?case by simp
next
  case (Cons raw raws)
  from Cons.prems(2) obtain m1 where m1: "merge_step m raw = ok m1"
    and rest: "foldE merge_step m1 raws = ok m'" by (auto simp: rsimps)
  from merge_step_inv [OF Cons.prems(1) m1] obtain n where
    n: "normalise_line raw = ok n" and inv: "merge_inv m1 (ns @ [n])" .
  from Cons.IH [OF inv rest] show ?case by (auto simp: n)
qed

lemma merge_lines_inv:
  assumes "merge_lines raws = ok ms"
  obtains ns where "mapE normalise_line raws = ok ns"
    and "map pl_sku_id ms = first_seen (map pl_sku_id ns)" and "distinct (map pl_sku_id ms)"
    and "list_all line_wf ms" and "\<And>sku. units_of sku ms = units_of sku ns"
    and "(\<Sum>l \<leftarrow> ms. line_amount l) = (\<Sum>l \<leftarrow> ns. line_amount l)"
proof -
  obtain m where m: "foldE merge_step [] raws = ok m" and ms: "ms = map snd m"
    using assms by (auto simp: merge_lines_def rsimps)
  have "merge_inv [] []" by (simp add: merge_inv_def first_seen_def)
  from fold_merge_inv [OF this m] obtain ns where
    ns: "mapE normalise_line raws = ok ns" and inv: "merge_inv m ns" by auto
  have lines: "\<forall>(k, l) \<in> set m. pl_sku_id l = k \<and> line_wf l" using inv unfolding merge_inv_def by blast
  then have "map pl_sku_id ms = map fst m" by (auto simp: ms)
  moreover have "list_all line_wf ms" using lines by (auto simp: ms list_all_iff)
  moreover have "distinct (map fst m)" and "map fst m = first_seen (map pl_sku_id ns)"
    and "\<And>sku. units_of sku (map snd m) = units_of sku ns"
    and "(\<Sum>l \<leftarrow> map snd m. line_amount l) = (\<Sum>l \<leftarrow> ns. line_amount l)"
    using inv unfolding merge_inv_def by blast+
  ultimately show ?thesis
    by (intro that [OF ns]) (simp_all only: ms)
qed

section \<open>Pricing a cart\<close>

definition initial_cart :: "int priced_line list \<Rightarrow> cart_price" where
  "initial_cart ms =
    (let items = map (\<lambda>l. \<lparr>ip_line = l, ip_original_amount = line_amount l\<rparr>) ms;
         original = (\<Sum>i \<leftarrow> items. ip_original_amount i)
     in \<lparr>pv_items = items, pv_promotion_allocations = zero_allocations items,
         pv_coupon_allocations = zero_allocations items, pv_payable_amount = original,
         pv_original_amount = original, pv_promotion_discount_amount = 0,
         pv_coupon_discount_amount = 0, pv_shipping_amount = 0, cp_warnings = []\<rparr>)"

lemma zero_mapping [simp]: "mapping_at (alloc_pairs (zero_allocations items)) sku = 0"
  by (induction items) (auto simp: mapping_at_def alloc_pairs_def zero_allocations_def)

lemma initial_cart_wf:
  "distinct (map pl_sku_id ms) \<Longrightarrow> list_all line_wf ms \<Longrightarrow> priced_view_wf (initial_cart ms)"
  by (auto simp: priced_view_wf_def initial_cart_def Let_def comp_def zero_allocations_cover
      item_wf_def list_all_iff item_remainder_def line_wf_def
      less_imp_le intro!: mult_nonneg_nonneg)

lemma price_merged_lines:
  "list_all line_wf ms \<Longrightarrow> mapE calculate_item_price (map raw_line ms) =
    ok (map (\<lambda>l. \<lparr>ip_line = l, ip_original_amount = line_amount l\<rparr>) ms)"
  by (induction ms) (simp_all add: calculate_item_price_def)

lemma calculate_cart_price_merged:
  assumes "merge_lines lines = ok ms"
  shows "calculate_cart_price lines p c policy =
    bindE (case p of None \<Rightarrow> ok (initial_cart ms) | Some r \<Rightarrow> apply_promotion (initial_cart ms) r) (\<lambda>cart.
    bindE (case c of None \<Rightarrow> ok cart | Some r \<Rightarrow> apply_coupon cart r) (\<lambda>cart.
    bindE (calculate_shipping cart policy) (\<lambda>s.
    if s \<noteq> 0 then repriced cart None None None None (Some s) None else ok cart)))"
proof -
  from assms have "list_all line_wf ms" by (elim merge_lines_inv)
  note items = price_merged_lines [OF this]
  show ?thesis
    unfolding calculate_cart_price_def initial_cart_def Let_def assms bindE_Inr items by (rule refl)
qed

lemma calculate_shipping_nonneg: "calculate_shipping cart policy = ok s \<Longrightarrow> 0 \<le> s"
  by (auto simp: calculate_shipping_def Let_def rsimps)

lemma free_shipping [simp]: "calculate_shipping cart None = ok 0"
  by (simp add: calculate_shipping_def default_shipping_policy_def free_shipping_policy_def
      coerce_minor_def)

lemma initial_cart_zero:
  "pv_coupon_allocations (initial_cart ms) = zero_allocations (pv_items (initial_cart ms))"
  by (simp add: initial_cart_def Let_def)

text \<open>Every priced cart is consistent, whatever the rules and the shipping policy.\<close>

lemma priced_cart_wf:
  assumes "calculate_cart_price lines p c policy = ok cart"
  shows "priced_view_wf cart"
proof -
  obtain ms where ms: "merge_lines lines = ok ms"
    using assms by (auto simp: calculate_cart_price_def bindE_eq_Inr)
  then have wf0: "priced_view_wf (initial_cart ms)"
    by (elim merge_lines_inv) (rule initial_cart_wf)
  from assms [unfolded calculate_cart_price_merged [OF ms]] obtain c1 c2 s where
    c1: "(case p of None \<Rightarrow> ok (initial_cart ms) | Some r \<Rightarrow> apply_promotion (initial_cart ms) r) = ok c1"
    and c2: "(case c of None \<Rightarrow> ok c1 | Some r \<Rightarrow> apply_coupon c1 r) = ok c2"
    and s: "calculate_shipping c2 policy = ok s"
    and last: "(if s \<noteq> 0 then repriced c2 None None None None (Some s) None else ok c2) = ok cart"
    by (auto simp: bindE_eq_Inr)
  from c1 wf0 have wf1: "priced_view_wf c1" by (auto split: option.splits dest: apply_promotion_wf)
  from c2 wf1 have wf2: "priced_view_wf c2" by (auto split: option.splits dest: apply_coupon_wf)
  show ?thesis
  proof (cases "s = 0")
    case True
    with last wf2 show ?thesis by simp
  next
    case False
    with last have r: "repriced c2 None None None None (Some s) None = ok cart" by simp
    show ?thesis
      by (rule repriced_wf [OF wf2 r])
        (use wf2 calculate_shipping_nonneg [OF s] in \<open>simp_all add: priced_view_wf_def\<close>)
  qed
qed

definition rule_accepted :: "('r \<Rightarrow> 'a result) \<Rightarrow> 'r option \<Rightarrow> bool" where
  "rule_accepted normalise r = (case r of None \<Rightarrow> True | Some raw \<Rightarrow> is_ok (normalise raw))"

lemma calculate_cart_price_ok:
  assumes ms: "merge_lines lines = ok ms"
    and p: "rule_accepted normalise_promotion p" and c: "rule_accepted normalise_coupon c"
  shows "is_ok (calculate_cart_price lines p c None)"
proof -
  have wf0: "priced_view_wf (initial_cart ms)"
    using ms by (elim merge_lines_inv) (rule initial_cart_wf)
  obtain c1 where c1: "(case p of None \<Rightarrow> ok (initial_cart ms)
      | Some r \<Rightarrow> apply_promotion (initial_cart ms) r) = ok c1" and wf1: "priced_view_wf c1"
  proof (cases p)
    case None
    with wf0 that show ?thesis by simp
  next
    case (Some raw)
    with p obtain r where "normalise_promotion raw = ok r" by (auto simp: rule_accepted_def is_ok_ex)
    from apply_promotion_ok [OF wf0 this initial_cart_zero] obtain c1 where
      "apply_promotion (initial_cart ms) raw = ok c1" by (auto simp: is_ok_ex)
    with Some that apply_promotion_wf [OF wf0 this] show ?thesis by simp
  qed
  obtain c2 where c2: "(case c of None \<Rightarrow> ok c1 | Some r \<Rightarrow> apply_coupon c1 r) = ok c2"
  proof (cases c)
    case None
    with that show ?thesis by simp
  next
    case (Some raw)
    with c obtain r where "normalise_coupon raw = ok r" by (auto simp: rule_accepted_def is_ok_ex)
    from apply_coupon_ok [OF wf1 this] Some that show ?thesis by auto
  qed
  show ?thesis by (simp add: calculate_cart_price_merged [OF ms] c1 c2)
qed

lemma calculate_cart_price_ok_iff:
  "is_ok (calculate_cart_price lines p c None) \<longleftrightarrow>
    is_ok (merge_lines lines) \<and> rule_accepted normalise_promotion p \<and>
    rule_accepted normalise_coupon c"
proof
  assume "is_ok (calculate_cart_price lines p c None)"
  then show "is_ok (merge_lines lines) \<and> rule_accepted normalise_promotion p \<and>
      rule_accepted normalise_coupon c"
    by (auto simp: calculate_cart_price_def bindE_eq_Inr is_ok_ex rule_accepted_def
        apply_promotion_def apply_coupon_def Let_def split: option.splits)
qed (auto simp: is_ok_ex [of "merge_lines lines"] intro: calculate_cart_price_ok)

section \<open>The snapshot gate\<close>

lemma require_ints_ok [simp]: "mapE (\<lambda>v. require_int v f) (map PyInt ids) = ok ids"
  by (induction ids) (simp_all add: require_int_def)

lemma build_price_snapshot_ok:
  assumes wf: "priced_view_wf cart" and free: "pv_shipping_amount cart = 0"
  obtains snap where
    "build_price_snapshot cart (map PyInt pids) (map PyInt cids) label = ok snap"
    and "priced_view_wf snap" and "pv_items snap = pv_items cart"
    and "pv_payable_amount snap = pv_payable_amount cart" and "pv_shipping_amount snap = 0"
proof -
  have d: "distinct (map item_sku (pv_items cart))"
    and p: "allocs_cover (pv_promotion_allocations cart) (pv_items cart)"
    and c: "allocs_cover (pv_coupon_allocations cart) (pv_items cart)"
    using wf by (simp_all add: priced_view_wf_def)
  have "is_ok (build_price_snapshot cart (map PyInt pids) (map PyInt cids) label)"
    using wf free sum_item_remainder [OF p c d]
    by (simp add: build_price_snapshot_def allocation_map_cover [OF p d]
        allocation_map_cover [OF c d] priced_view_wf_def not_less)
  then obtain snap where s: "build_price_snapshot cart (map PyInt pids) (map PyInt cids) label = ok snap"
    by (auto simp: is_ok_ex)
  have "priced_view_wf snap \<and> pv_items snap = pv_items cart \<and>
      pv_payable_amount snap = pv_payable_amount cart \<and> pv_shipping_amount snap = 0"
    using s wf free
    by (auto simp: build_price_snapshot_def bindE_eq_Inr require_eq_Inr priced_view_wf_def)
  with s show ?thesis by (blast intro: that)
qed

lemma amount_for_member:
  assumes "sku \<in> set (map da_sku_id as)"
  shows "amount_for as sku = ok (mapping_at (alloc_pairs as) sku)"
proof -
  have "sku \<in> fst ` set (alloc_pairs as)" using assms by (auto simp: alloc_pairs_def image_image)
  then have "map_of (alloc_pairs as) sku \<noteq> None" by (simp add: map_of_eq_None_iff)
  then show ?thesis
    by (auto simp: amount_for_map_of mapping_at_def alloc_pairs_def split: option.splits)
qed

lemma item_payable_amount_eq:
  assumes "distinct (map item_sku (pv_items v))" and "i \<in> set (pv_items v)"
    and "set (map item_sku (pv_items v)) \<subseteq> set (map da_sku_id (pv_promotion_allocations v))"
    and "set (map item_sku (pv_items v)) \<subseteq> set (map da_sku_id (pv_coupon_allocations v))"
  shows "item_payable_amount v (item_sku i) = ok (item_remainder
      (alloc_pairs (pv_promotion_allocations v)) (alloc_pairs (pv_coupon_allocations v)) i)"
proof -
  have sku: "item_sku i \<in> set (map item_sku (pv_items v))" using assms(2) by simp
  show ?thesis
    using amount_for_member [OF subsetD [OF assms(3) sku]]
      amount_for_member [OF subsetD [OF assms(4) sku]]
    by (simp add: item_payable_amount_def item_for_member [OF assms(1,2)] allocated_discount_def
        promotion_allocation_def coupon_allocation_def item_remainder_def)
qed

text \<open>The per-line reads of a consistent view, all of them: what \<open>order_items\<close> is written from.\<close>

lemma item_payables:
  assumes wf: "priced_view_wf v"
  shows "mapE (\<lambda>i. item_payable_amount v (item_sku i)) (pv_items v) =
    ok (map (item_remainder (alloc_pairs (pv_promotion_allocations v))
      (alloc_pairs (pv_coupon_allocations v))) (pv_items v))"
proof (rule mapE_Inr_map)
  fix i assume i: "i \<in> set (pv_items v)"
  have d: "distinct (map item_sku (pv_items v))"
    and p: "map da_sku_id (pv_promotion_allocations v) = map item_sku (pv_items v)"
    and c: "map da_sku_id (pv_coupon_allocations v) = map item_sku (pv_items v)"
    using wf by (simp_all add: priced_view_wf_def allocs_cover_def)
  show "item_payable_amount v (item_sku i) = ok (item_remainder
      (alloc_pairs (pv_promotion_allocations v)) (alloc_pairs (pv_coupon_allocations v)) i)"
    using d i by (rule item_payable_amount_eq) (simp_all only: p c order_refl)
qed

lemma payables_sum:
  assumes wf: "priced_view_wf v" and free: "pv_shipping_amount v = 0"
  obtains ps where "mapE (\<lambda>i. item_payable_amount v (item_sku i)) (pv_items v) = ok ps"
    and "sum_list ps = pv_payable_amount v" and "list_all (\<lambda>x. 0 \<le> x) ps"
proof
  show "mapE (\<lambda>i. item_payable_amount v (item_sku i)) (pv_items v) =
    ok (map (item_remainder (alloc_pairs (pv_promotion_allocations v))
      (alloc_pairs (pv_coupon_allocations v))) (pv_items v))"
    by (rule item_payables [OF wf])
qed (use wf free sum_item_remainder in \<open>auto simp: priced_view_wf_def list.pred_map comp_def\<close>)

lemma fold_allocation_step_ok:
  "foldE (allocation_step items label) m as = ok m' \<Longrightarrow> m' = m @ alloc_pairs as"
proof (induction as arbitrary: m)
  case (Cons a as)
  then obtain m1 where s: "allocation_step items label m a = ok m1"
    and rest: "foldE (allocation_step items label) m1 as = ok m'" by (auto simp: rsimps)
  have "m1 = m @ [(da_sku_id a, da_amount a)]"
    using s by (auto simp: allocation_step_def require_int_def coerce_minor_def require_eq_Inr
        dict_set_new)
  with Cons.IH [OF rest] show ?case by (simp add: alloc_pairs_def)
qed (simp add: alloc_pairs_def)

lemma allocation_map_okD:
  assumes "allocation_map as items label = ok m"
  shows "m = alloc_pairs as" and "set (map item_sku items) \<subseteq> set (map da_sku_id as)"
proof -
  obtain m' where f: "foldE (allocation_step items label) [] as = ok m'"
    and c: "list_all (\<lambda>i. item_sku i \<in> fst ` set m') items" and m: "m = m'"
    using assms by (auto simp: allocation_map_def rsimps)
  from fold_allocation_step_ok [OF f] have m': "m' = alloc_pairs as" by simp
  with m show "m = alloc_pairs as" by simp
  show "set (map item_sku items) \<subseteq> set (map da_sku_id as)"
    using c unfolding m' by (auto simp: list_all_iff alloc_pairs_def image_image)
qed

text \<open>
  The gate alone: a snapshot it lets through satisfies INV-006, wherever the cart came from.
\<close>

lemma build_price_snapshot_sound:
  assumes s: "build_price_snapshot cart pids cids label = ok snap"
    and d: "distinct (map item_sku (pv_items cart))"
  obtains ps where "mapE (\<lambda>i. item_payable_amount snap (item_sku i)) (pv_items snap) = ok ps"
    and "sum_list ps = pv_payable_amount snap" and "list_all (\<lambda>x. 0 \<le> x) ps"
    and "pv_shipping_amount snap = 0"
proof -
  obtain pm cm where pm: "allocation_map (pv_promotion_allocations cart) (pv_items cart) ''promotion'' = ok pm"
    and cm: "allocation_map (pv_coupon_allocations cart) (pv_items cart) ''coupon'' = ok cm"
    and nn: "list_all (\<lambda>i. 0 \<le> item_remainder pm cm i) (pv_items cart)"
    and sum: "(\<Sum>i \<leftarrow> pv_items cart. item_remainder pm cm i) = pv_payable_amount cart"
    and same: "pv_items snap = pv_items cart" "pv_payable_amount snap = pv_payable_amount cart"
      "pv_promotion_allocations snap = pv_promotion_allocations cart"
      "pv_coupon_allocations snap = pv_coupon_allocations cart" "pv_shipping_amount snap = 0"
    using s by (auto simp: build_price_snapshot_def bindE_eq_Inr require_eq_Inr not_less)
  note p = allocation_map_okD [OF pm] and c = allocation_map_okD [OF cm]
  have "mapE (\<lambda>i. item_payable_amount snap (item_sku i)) (pv_items snap) =
      ok (map (item_remainder pm cm) (pv_items snap))"
    using d p c by (intro mapE_Inr_map) (simp add: item_payable_amount_eq same)
  with nn sum same show ?thesis by (intro that) (auto simp: list.pred_map comp_def)
qed

lemma repriced_shipping:
  "repriced cart p ps c cs None w = ok cart' \<Longrightarrow> pv_shipping_amount cart' = pv_shipping_amount cart"
  by (auto simp: repriced_def Let_def bindE_eq_Inr require_eq_Inr)

lemma free_cart_shipping:
  assumes "calculate_cart_price lines p c None = ok cart"
  shows "pv_shipping_amount cart = 0"
proof -
  obtain ms where ms: "merge_lines lines = ok ms"
    using assms by (auto simp: calculate_cart_price_def bindE_eq_Inr)
  have "pv_shipping_amount (initial_cart ms) = 0" by (simp add: initial_cart_def Let_def)
  then show ?thesis
    using assms by (auto simp: calculate_cart_price_merged [OF ms] bindE_eq_Inr apply_promotion_def
        apply_coupon_def Let_def case_prod_beta split: option.splits dest!: repriced_shipping)
qed

lemma repriced_items:
  "repriced cart p ps c cs s w = ok cart' \<Longrightarrow>
    pv_items cart' = pv_items cart \<and> pv_original_amount cart' = pv_original_amount cart"
  by (auto simp: repriced_def Let_def bindE_eq_Inr require_eq_Inr)

lemma calculate_cart_price_items:
  assumes "calculate_cart_price lines p c policy = ok cart" and ms: "merge_lines lines = ok ms"
  shows "map ip_line (pv_items cart) = ms"
    and "pv_original_amount cart = (\<Sum>l \<leftarrow> ms. line_amount l)"
proof -
  have "pv_items cart = pv_items (initial_cart ms) \<and>
      pv_original_amount cart = pv_original_amount (initial_cart ms)"
    using assms(1) by (auto simp: calculate_cart_price_merged [OF ms] bindE_eq_Inr apply_promotion_def
        apply_coupon_def Let_def case_prod_beta
        split: option.splits if_splits dest!: repriced_items)
  then show "map ip_line (pv_items cart) = ms"
    and "pv_original_amount cart = (\<Sum>l \<leftarrow> ms. line_amount l)"
    by (simp_all add: initial_cart_def Let_def comp_def)
qed

end
