(* ===== verification/Pricing_Properties.thy ===== *)
theory Pricing_Properties
  imports Pricing_Invariants
begin

text \<open>
  What the price authority promises, as theorems about the calls the rest of the backend makes:
  \<open>allocate_pro_rata\<close>, \<open>calculate_cart_price\<close> and \<open>build_price_snapshot\<close>; and the concrete
  carts on which each is exercised.
\<close>

section \<open>A worked example\<close>

definition sample_line :: "int \<Rightarrow> int \<Rightarrow> int \<Rightarrow> pyval priced_line" where
  "sample_line sku price qty =
    \<lparr>pl_sku_id = PyInt sku, pl_product_id = PyInt 7, pl_product_name = ''Lamp'',
     pl_sku_name = ''Lamp'', pl_image_object_key = None, pl_image_url = None,
     pl_sku_snapshot = None, pl_unit_price = PyInt price, pl_quantity = PyInt qty\<rparr>"

definition sample_lines :: "pyval priced_line list" where
  "sample_lines = [sample_line 1 333 1, sample_line 2 1000 2, sample_line 1 333 2]"

text \<open>Ten per cent off, at most 250; then 101 off the rest of the first SKU.\<close>

definition sample_promotion :: raw_promotion where
  "sample_promotion =
    \<lparr>pr_promotion_id = PyInt 5, pr_promotion_type = Wire ''PERCENT_DISCOUNT'',
     pr_threshold_amount = PyInt 0, pr_discount_amount = PyInt 0, pr_discount_bps = PyInt 1000,
     pr_reduction_amount = PyInt 0, pr_max_discount_amount = Some (PyInt 250),
     pr_applicable_sku_ids = None\<rparr>"

definition sample_coupon :: raw_coupon where
  "sample_coupon =
    \<lparr>cr_coupon_id = PyInt 9, cr_coupon_type = Member FIXED_AMOUNT,
     cr_threshold_amount = PyInt 500, cr_face_value_amount = PyInt 101,
     cr_discount_bps = PyInt 0, cr_max_discount_amount = None,
     cr_applicable_sku_ids = Some {1}\<rparr>"

lemma sample_lines_merge: "is_ok (merge_lines sample_lines)"
  by code_simp

lemma sample_rules_accepted:
  "rule_accepted normalise_promotion (Some sample_promotion)"
  "rule_accepted normalise_coupon (Some sample_coupon)"
  by code_simp+

lemma sample_cart: "\<exists>cart. calculate_cart_price sample_lines (Some sample_promotion)
    (Some sample_coupon) None = ok cart"
  using sample_lines_merge sample_rules_accepted calculate_cart_price_ok_iff
  by (metis is_ok_ex)

section \<open>The exact split\<close>

text \<open>
  C16: \<open>allocate_pro_rata\<close> never loses or invents a minor unit. Whatever it accepts are integers;
  the shares are one per weight, add up to the total, are the exact proportion rounded down or
  one unit more, are zero where the weight is zero, and never exceed their weight while the
  total does not exceed the sum of the weights.
\<close>

theorem allocation_exact:
  assumes "allocate_pro_rata v vs = ok shares"
  shows "\<exists>t ws. v = PyInt t \<and> vs = map PyInt ws \<and> 0 \<le> t \<and> length shares = length ws \<and>
    sum_list shares = t \<and>
    (\<forall>j < length ws. 0 \<le> shares ! j \<and> (ws ! j = 0 \<longrightarrow> shares ! j = 0) \<and>
      shares ! j - t * ws ! j div sum_list ws \<in> {0, 1} \<and>
      (t \<le> sum_list ws \<longrightarrow> shares ! j \<le> ws ! j))"
proof -
  obtain t ws where v: "v = PyInt t" and vs: "vs = map PyInt ws" and t: "0 \<le> t"
    and ws: "list_all (\<lambda>w. 0 \<le> w) ws" and z: "t = 0 \<or> sum_list ws \<noteq> 0"
    and shares: "shares = shares_of t ws"
    using assms by (rule allocate_pro_rata_okE)
  have near: "shares_of t ws ! j - t * ws ! j div sum_list ws \<in> {0, 1}" if "j < length ws" for j
    using shares_of_nth [OF _ that, of t] that by (cases "t = 0") (auto simp: shares_of_def)
  show ?thesis
    using v vs t near shares_of_sum [OF ws z] shares_of_nonneg [OF t ws] shares_of_zero_weight
      shares_of_le [OF t ws] shares by (intro exI [of _ t] exI [of _ ws]) simp
qed

lemma sample_allocation:
  "allocate_pro_rata (PyInt 100) (map PyInt [1, 0, 1, 1]) = ok [33, 0, 33, 34]"
  by code_simp

theorem allocation_exact_witness:
  "\<exists>t ws. PyInt 100 = PyInt t \<and> map PyInt [1, 0, 1, 1] = map PyInt ws \<and>
    length [33, 0, 33, 34 :: int] = length ws \<and> sum_list [33, 0, 33, 34] = t"
  using allocation_exact [OF sample_allocation] by blast

text \<open>
  Which integer inputs the split accepts: a total that is not negative over weights that are
  not negative, unless the total is positive and there is no positive weight to carry it. In
  particular the refusal ``remainder could not be distributed'' never happens.
\<close>

theorem allocation_accepts:
  "is_ok (allocate_pro_rata (PyInt t) (map PyInt ws)) \<longleftrightarrow>
    0 \<le> t \<and> list_all (\<lambda>w. 0 \<le> w) ws \<and> \<not> (0 < t \<and> sum_list ws = 0)"
  by (auto simp: is_ok_ex allocate_pro_rata_int inj_map_eq_map [of PyInt] inj_def
      elim!: allocate_pro_rata_okE)

section \<open>Pricing a cart\<close>

text \<open>
  Every cart that \<open>calculate_cart_price\<close> returns is consistent: one line per SKU, each with
  the amount of its units, allocations in line order that are not negative and add up to the
  order's two discounts, no line driven below zero, and the payable amount of contract 14.4.
\<close>

theorem priced_cart_consistent:
  assumes "calculate_cart_price lines promotion_arg coupon_arg policy = ok cart"
  shows "priced_view_wf cart"
  using assms by (rule priced_cart_wf)

theorem priced_cart_consistent_witness:
  "\<exists>cart. calculate_cart_price sample_lines (Some sample_promotion) (Some sample_coupon) None =
    ok cart \<and> priced_view_wf cart"
  using sample_cart priced_cart_consistent by blast

text \<open>
  Pricing is total on validated input. Under the default shipping policy the call returns a
  cart exactly when the lines and the two rules pass their own validation; none of the internal
  invariant errors of the allocation, promotion, coupon or repricing steps can be raised.
\<close>

theorem pricing_accepts:
  "is_ok (calculate_cart_price lines promotion_arg coupon_arg None) \<longleftrightarrow>
    is_ok (merge_lines lines) \<and> rule_accepted normalise_promotion promotion_arg \<and>
    rule_accepted normalise_coupon coupon_arg"
  by (rule calculate_cart_price_ok_iff)

text \<open>
  Duplicate lines are merged without changing what is bought. The result has each SKU once,
  in the order of first appearance; the units of every SKU and the amount of the whole cart are
  those of the lines as they came, and pricing keeps these lines and this amount.
\<close>

theorem merge_preserves_purchase:
  assumes "calculate_cart_price lines promotion_arg coupon_arg policy = ok cart"
  shows "\<exists>ns. mapE normalise_line lines = ok ns \<and>
    map item_sku (pv_items cart) = first_seen (map pl_sku_id ns) \<and>
    distinct (map item_sku (pv_items cart)) \<and>
    (\<forall>sku. units_of sku (map ip_line (pv_items cart)) = units_of sku ns) \<and>
    pv_original_amount cart = (\<Sum>l \<leftarrow> ns. pl_unit_price l * pl_quantity l)"
proof -
  obtain ms where ms: "merge_lines lines = ok ms"
    using assms by (auto simp: calculate_cart_price_def bindE_eq_Inr)
  note cart = calculate_cart_price_items [OF assms ms]
  obtain ns where ns: "mapE normalise_line lines = ok ns"
    and keys: "map pl_sku_id ms = first_seen (map pl_sku_id ns)" and d: "distinct (map pl_sku_id ms)"
    and units: "\<And>sku. units_of sku ms = units_of sku ns"
    and amount: "(\<Sum>l \<leftarrow> ms. line_amount l) = (\<Sum>l \<leftarrow> ns. line_amount l)"
    using ms by (rule merge_lines_inv) (rule that)
  have skus: "map item_sku (pv_items cart) = map pl_sku_id ms"
    unfolding cart(1) [symmetric] by simp
  show ?thesis
    by (rule exI [of _ ns]) (simp only: ns skus keys d [unfolded keys] units amount cart simp_thms)
qed

theorem merge_preserves_purchase_witness:
  "\<exists>(cart :: cart_price) ns. mapE normalise_line sample_lines = ok ns \<and>
    map item_sku (pv_items cart) = first_seen (map pl_sku_id ns) \<and>
    pv_original_amount cart = (\<Sum>l \<leftarrow> ns. pl_unit_price l * pl_quantity l)"
proof -
  obtain cart where "calculate_cart_price sample_lines (Some sample_promotion)
      (Some sample_coupon) None = ok cart" using sample_cart ..
  from merge_preserves_purchase [OF this] show ?thesis by blast
qed

section \<open>The checkout price, end to end\<close>

text \<open>
  C1: INV-006 from the lines to the rows of the order. A cart priced with free shipping always
  passes the snapshot gate, the snapshot keeps the payable amount, every per-item payable can be
  read from it, none is negative, and they add up to what the order is to be paid.
\<close>

theorem checkout_adds_up:
  assumes "calculate_cart_price lines promotion_arg coupon_arg None = ok cart"
  shows "\<exists>snap ps.
    build_price_snapshot cart (map PyInt promotion_ids) (map PyInt coupon_ids) label = ok snap \<and>
    pv_payable_amount snap = pv_payable_amount cart \<and>
    mapE (\<lambda>i. item_payable_amount snap (item_sku i)) (pv_items snap) = ok ps \<and>
    sum_list ps = pv_payable_amount snap \<and> list_all (\<lambda>x. 0 \<le> x) ps"
proof -
  obtain snap where s: "build_price_snapshot cart (map PyInt promotion_ids) (map PyInt coupon_ids)
      label = ok snap" and wf: "priced_view_wf snap"
    and same: "pv_payable_amount snap = pv_payable_amount cart" and free: "pv_shipping_amount snap = 0"
    using build_price_snapshot_ok [OF priced_cart_wf [OF assms] free_cart_shipping [OF assms]] .
  from payables_sum [OF wf free] s same show ?thesis by metis
qed

theorem checkout_adds_up_witness:
  "\<exists>cart snap ps.
    calculate_cart_price sample_lines (Some sample_promotion) (Some sample_coupon) None = ok cart \<and>
    build_price_snapshot cart (map PyInt [5]) (map PyInt [9]) ''FREE'' = ok snap \<and>
    mapE (\<lambda>i. item_payable_amount snap (item_sku i)) (pv_items snap) = ok ps \<and>
    sum_list ps = pv_payable_amount snap"
  using sample_cart checkout_adds_up by metis

text \<open>
  The gate does not trust its argument. Any cart with one line per SKU that it lets through,
  wherever it came from, satisfies INV-006: the per-item payables exist, are not negative and
  add up to the payable amount of the snapshot, which carries no shipping charge.
\<close>

theorem snapshot_gate_sound:
  assumes "build_price_snapshot cart promotion_ids coupon_ids label = ok snap"
    and "distinct (map item_sku (pv_items cart))"
  shows "\<exists>ps. mapE (\<lambda>i. item_payable_amount snap (item_sku i)) (pv_items snap) = ok ps \<and>
    sum_list ps = pv_payable_amount snap \<and> list_all (\<lambda>x. 0 \<le> x) ps \<and>
    pv_shipping_amount snap = 0"
  using build_price_snapshot_sound [OF assms] by metis

definition empty_cart :: cart_price where
  "empty_cart = initial_cart []"

theorem snapshot_gate_sound_witness:
  "\<exists>snap ps. build_price_snapshot empty_cart [] [] ''FREE'' = ok snap \<and>
    mapE (\<lambda>i. item_payable_amount snap (item_sku i)) (pv_items snap) = ok ps \<and>
    sum_list ps = pv_payable_amount snap"
proof -
  obtain snap where "build_price_snapshot empty_cart [] [] ''FREE'' = ok snap"
    by (simp add: build_price_snapshot_def empty_cart_def initial_cart_def allocation_map_def
        zero_allocations_def)
  then show ?thesis using snapshot_gate_sound [of empty_cart "[]" "[]" "''FREE''" snap]
    by (auto simp: empty_cart_def initial_cart_def)
qed

end
