(* ===== verification/Inventory.thy ===== *)
theory Inventory
  imports Nova_Prelude
begin

text \<open>
  Stock: \<open>app/modules/inventory\<close>. The state is the three tables the service writes
  (\<open>warehouses\<close>, \<open>inventories\<close>, \<open>inventory_movements\<close>) and the clock \<open>utc_now\<close> reads; the later
  components extend this record with their own tables. An operation takes the state of its
  transaction and returns its result with the new state; a call that raises carries no state,
  because the caller's transaction is rolled back. A flush writes the changed row and the movement
  together and checks the \<open>CHECK\<close> and \<open>UNIQUE\<close> constraints of both (\<open>flush_movement\<close>); column
  widths are not modelled.
\<close>

section \<open>Vocabularies\<close>

datatype movement_type =
    PURCHASE_IN
  | ORDER_LOCK
  | ORDER_RELEASE
  | ORDER_DEDUCT
  | RETURN_IN
  | MANUAL_ADJUST
  | DAMAGED_OUT

fun movement_type_value :: "movement_type \<Rightarrow> string" where
  "movement_type_value PURCHASE_IN = ''PURCHASE_IN''"
| "movement_type_value ORDER_LOCK = ''ORDER_LOCK''"
| "movement_type_value ORDER_RELEASE = ''ORDER_RELEASE''"
| "movement_type_value ORDER_DEDUCT = ''ORDER_DEDUCT''"
| "movement_type_value RETURN_IN = ''RETURN_IN''"
| "movement_type_value MANUAL_ADJUST = ''MANUAL_ADJUST''"
| "movement_type_value DAMAGED_OUT = ''DAMAGED_OUT''"

definition affects_available :: "movement_type \<Rightarrow> bool" where
  "affects_available t \<longleftrightarrow>
    t \<in> {PURCHASE_IN, ORDER_LOCK, ORDER_RELEASE, ORDER_DEDUCT, RETURN_IN, MANUAL_ADJUST, DAMAGED_OUT}"

definition is_operator_initiated :: "movement_type \<Rightarrow> bool" where
  "is_operator_initiated t \<longleftrightarrow> t \<in> {MANUAL_ADJUST, DAMAGED_OUT}"

datatype operator_type = SYSTEM | CUSTOMER | STAFF | AGENT | MCP | WORKER

datatype reference_type =
  REF_ORDER | REF_ORDER_ITEM | REF_AFTER_SALE | REF_PURCHASE_ORDER | REF_MANUAL | REF_RECONCILIATION

section \<open>Tables\<close>

record warehouse =
  wh_id :: int
  wh_merchant_id :: int
  wh_code :: string
  wh_active :: bool
  wh_is_default :: bool

record inventory =
  inv_id :: int
  inv_merchant_id :: int
  inv_warehouse_id :: int
  inv_sku_id :: int
  available_qty :: int
  locked_qty :: int
  safety_stock :: int
  total_in_qty :: int
  total_out_qty :: int
  inv_version :: int
  last_movement_at :: "int option"

record movement =
  mv_id :: nat
  mv_warehouse_id :: int
  mv_sku_id :: int
  mv_type :: movement_type
  delta_available :: int
  delta_locked :: int
  before_available :: int
  after_available :: int
  before_locked :: int
  after_locked :: int
  mv_reference_type :: reference_type
  mv_reference_id :: "int option"
  mv_operator_type :: operator_type
  mv_operator_id :: "int option"
  mv_idempotency_key :: string
  mv_reason :: "string option"

record stock_db =
  db_now :: int
  warehouses :: "warehouse list"
  inventories :: "inventory list"
  movements :: "movement list"

definition sellable_qty :: "inventory \<Rightarrow> int" where
  "sellable_qty i = max (available_qty i - safety_stock i) 0"

definition on_hand_qty :: "inventory \<Rightarrow> int" where
  "on_hand_qty i = available_qty i + locked_qty i"

definition can_reserve :: "inventory \<Rightarrow> int \<Rightarrow> bool" where
  "can_reserve i quantity \<longleftrightarrow> quantity > 0 \<and> sellable_qty i \<ge> quantity"

text \<open>The \<open>CHECK\<close> constraints of the two tables.\<close>

definition inventory_checks :: "inventory \<Rightarrow> bool" where
  "inventory_checks i \<longleftrightarrow> 0 \<le> available_qty i \<and> 0 \<le> locked_qty i \<and> 0 \<le> safety_stock i"

definition movement_checks :: "movement \<Rightarrow> bool" where
  "movement_checks m \<longleftrightarrow>
    0 \<le> after_available m \<and> 0 \<le> after_locked m \<and> 0 \<le> before_available m \<and> 0 \<le> before_locked m \<and>
    delta_available m = after_available m - before_available m \<and>
    delta_locked m = after_locked m - before_locked m"

definition net_stock_change :: "movement \<Rightarrow> int" where
  "net_stock_change m = delta_available m + delta_locked m"

section \<open>Queries\<close>

definition warehouse_get :: "'a stock_db_scheme \<Rightarrow> int \<Rightarrow> warehouse option" where
  "warehouse_get db wid = find (\<lambda>w. wh_id w = wid) (warehouses db)"

definition by_id :: "warehouse list \<Rightarrow> warehouse option" where
  "by_id ws = (case sort_key wh_id ws of [] \<Rightarrow> None | w # _ \<Rightarrow> Some w)"

definition get_default :: "'a stock_db_scheme \<Rightarrow> int option \<Rightarrow> warehouse option" where
  "get_default db merchant =
    (let active = filter (\<lambda>w. wh_active w \<and> (case merchant of None \<Rightarrow> True
                   | Some m \<Rightarrow> wh_merchant_id w = m)) (warehouses db)
     in case by_id (filter wh_is_default active) of
          Some w \<Rightarrow> Some w
        | None \<Rightarrow> by_id active)"

definition get_by_sku :: "'a stock_db_scheme \<Rightarrow> int \<Rightarrow> int option \<Rightarrow> inventory option" where
  "get_by_sku db sku warehouse_arg =
    (case sort_key inv_warehouse_id
        (filter (\<lambda>i. inv_sku_id i = sku \<and> (case warehouse_arg of None \<Rightarrow> True
          | Some w \<Rightarrow> inv_warehouse_id i = w)) (inventories db)) of
       [] \<Rightarrow> None
     | i # _ \<Rightarrow> Some i)"

definition at_position :: "int \<Rightarrow> int \<Rightarrow> inventory \<Rightarrow> bool" where
  "at_position wid sku i \<longleftrightarrow> inv_warehouse_id i = wid \<and> inv_sku_id i = sku"

definition lock_for_update :: "'a stock_db_scheme \<Rightarrow> int \<Rightarrow> int \<Rightarrow> inventory option" where
  "lock_for_update db wid sku = find (at_position wid sku) (inventories db)"

definition lock_many_for_update ::
  "'a stock_db_scheme \<Rightarrow> int \<Rightarrow> int list \<Rightarrow> (int \<times> inventory) list" where
  "lock_many_for_update db wid skus =
    List.map_filter (\<lambda>sku. map_option (Pair sku) (lock_for_update db wid sku))
      (sorted_list_of_set (set skus))"

definition find_movement_by_idempotency_key ::
  "'a stock_db_scheme \<Rightarrow> string \<Rightarrow> movement option" where
  "find_movement_by_idempotency_key db key = find (\<lambda>m. mv_idempotency_key m = key) (movements db)"

definition position_movements :: "'a stock_db_scheme \<Rightarrow> int \<Rightarrow> int \<Rightarrow> movement list" where
  "position_movements db wid sku =
    filter (\<lambda>m. mv_warehouse_id m = wid \<and> mv_sku_id m = sku) (movements db)"

definition movement_signature :: "'a stock_db_scheme \<Rightarrow> int \<Rightarrow> int \<Rightarrow> int \<times> int" where
  "movement_signature db wid sku =
    (\<Sum>m \<leftarrow> position_movements db wid sku. delta_available m,
     \<Sum>m \<leftarrow> position_movements db wid sku. delta_locked m)"

text \<open>Newest first, at most \<open>limit\<close>; ids grow with the ledger.\<close>

definition movements_for ::
  "'a stock_db_scheme \<Rightarrow> int \<Rightarrow> int \<Rightarrow> movement_type option \<Rightarrow> nat \<Rightarrow> movement list" where
  "movements_for db wid sku type_arg limit =
    take limit (rev (sort_key mv_id (filter (\<lambda>m. case type_arg of None \<Rightarrow> True
      | Some t \<Rightarrow> mv_type m = t) (position_movements db wid sku))))"

section \<open>The ledger write\<close>

record stock_call =
  sc_sku_id :: int
  sc_quantity :: int
  sc_idempotency_key :: string
  sc_warehouse_id :: "int option"
  sc_reference_type :: reference_type
  sc_reference_id :: "int option"
  sc_operator_type :: operator_type
  sc_operator_id :: "int option"
  sc_reason :: "string option"

record reservation_result =
  rr_sku_id :: int
  rr_quantity :: int
  rr_movement_id :: nat
  rr_available_after :: int
  rr_locked_after :: int
  rr_replayed :: bool

text \<open>\<open>InventoryMovement.build\<close>: the deltas are derived from the two rows.\<close>

definition build_movement ::
  "nat \<Rightarrow> inventory \<Rightarrow> inventory \<Rightarrow> movement_type \<Rightarrow> stock_call \<Rightarrow> movement" where
  "build_movement mid before after t c =
    \<lparr>mv_id = mid, mv_warehouse_id = inv_warehouse_id after, mv_sku_id = inv_sku_id after,
     mv_type = t,
     delta_available = available_qty after - available_qty before,
     delta_locked = locked_qty after - locked_qty before,
     before_available = available_qty before, after_available = available_qty after,
     before_locked = locked_qty before, after_locked = locked_qty after,
     mv_reference_type = sc_reference_type c, mv_reference_id = sc_reference_id c,
     mv_operator_type = sc_operator_type c, mv_operator_id = sc_operator_id c,
     mv_idempotency_key = sc_idempotency_key c, mv_reason = sc_reason c\<rparr>"

definition put_inventory :: "inventory \<Rightarrow> 'a stock_db_scheme \<Rightarrow> 'a stock_db_scheme" where
  "put_inventory i db = db\<lparr>inventories :=
    map (\<lambda>j. if at_position (inv_warehouse_id i) (inv_sku_id i) j then i else j) (inventories db)\<rparr>"

definition flush_movement ::
  "'a stock_db_scheme \<Rightarrow> inventory \<Rightarrow> movement \<Rightarrow> 'a stock_db_scheme result" where
  "flush_movement db after m =
    (if inventory_checks after \<and> movement_checks m \<and>
        find_movement_by_idempotency_key db (mv_idempotency_key m) = None
     then ok ((put_inventory after db)\<lparr>movements := movements db @ [m]\<rparr>)
     else raise (IntegrityError ''inventory_movements''))"

text \<open>\<open>_append\<close>: a constraint that fires becomes the version conflict.\<close>

definition append_ledger ::
  "'a stock_db_scheme \<Rightarrow> inventory \<Rightarrow> inventory \<Rightarrow> movement_type \<Rightarrow> stock_call \<Rightarrow>
   (nat \<times> inventory \<times> 'a stock_db_scheme) result" where
  "append_ledger db before after t c =
    (let mid = Suc (length (movements db)) in
     case flush_movement db after (build_movement mid before after t c) of
       Inl _ \<Rightarrow> app_raise (Inventory_Err InventoryVersionConflictError)
     | Inr db' \<Rightarrow>
        let touched = after\<lparr>last_movement_at := Some (db_now db)\<rparr>
        in ok (mid, touched, put_inventory touched db'))"

definition resolve_warehouse ::
  "'a stock_db_scheme \<Rightarrow> int option \<Rightarrow> int option \<Rightarrow> warehouse result" where
  "resolve_warehouse db warehouse_arg merchant =
    (case (case warehouse_arg of Some w \<Rightarrow> warehouse_get db w | None \<Rightarrow> get_default db merchant) of
       None \<Rightarrow> app_raise (Inventory_Err WarehouseNotFoundError)
     | Some w \<Rightarrow> ok w)"

definition replayed_result ::
  "'a stock_db_scheme \<Rightarrow> stock_call \<Rightarrow> movement \<Rightarrow> reservation_result" where
  "replayed_result db c existing =
    (let row = get_by_sku db (sc_sku_id c) (Some (mv_warehouse_id existing)) in
     \<lparr>rr_sku_id = sc_sku_id c, rr_quantity = sc_quantity c, rr_movement_id = mv_id existing,
      rr_available_after = (case row of Some i \<Rightarrow> available_qty i
                            | None \<Rightarrow> after_available existing),
      rr_locked_after = (case row of Some i \<Rightarrow> locked_qty i | None \<Rightarrow> after_locked existing),
      rr_replayed = True\<rparr>)"

definition fresh_result :: "stock_call \<Rightarrow> nat \<Rightarrow> inventory \<Rightarrow> reservation_result" where
  "fresh_result c mid i =
    \<lparr>rr_sku_id = sc_sku_id c, rr_quantity = sc_quantity c, rr_movement_id = mid,
     rr_available_after = available_qty i, rr_locked_after = locked_qty i, rr_replayed = False\<rparr>"

section \<open>Stock changes\<close>

type_synonym 'a stock_op =
  "'a stock_db_scheme \<Rightarrow> stock_call \<Rightarrow> (reservation_result \<times> 'a stock_db_scheme) result"

definition reserve :: "'a stock_op" where
  "reserve db c =
    require (\<not> sc_quantity c \<le> 0) (AppError (Common ValidationError))
    (require (sc_idempotency_key c \<noteq> []) (AppError (Common ValidationError))
    (case find_movement_by_idempotency_key db (sc_idempotency_key c) of
       Some existing \<Rightarrow> ok (replayed_result db c existing, db)
     | None \<Rightarrow>
        bindE (resolve_warehouse db (sc_warehouse_id c) None) (\<lambda>w.
        case lock_for_update db (wh_id w) (sc_sku_id c) of
          None \<Rightarrow> app_raise (Inventory_Err InventoryNotFoundError)
        | Some row \<Rightarrow>
            require (can_reserve row (sc_quantity c))
              (AppError (Inventory_Err InsufficientStockError))
            (let row' = row\<lparr>available_qty := available_qty row - sc_quantity c,
                            locked_qty := locked_qty row + sc_quantity c,
                            inv_version := inv_version row + 1\<rparr>
             in bindE (append_ledger db row row' ORDER_LOCK (c\<lparr>sc_reason := None\<rparr>))
                  (\<lambda>(mid, i, db'). ok (fresh_result c mid i, db'))))))"

definition release :: "'a stock_op" where
  "release db c =
    require (\<not> sc_quantity c \<le> 0) (AppError (Common ValidationError))
    (case find_movement_by_idempotency_key db (sc_idempotency_key c) of
       Some existing \<Rightarrow> ok (replayed_result db c existing, db)
     | None \<Rightarrow>
        bindE (resolve_warehouse db (sc_warehouse_id c) None) (\<lambda>w.
        case lock_for_update db (wh_id w) (sc_sku_id c) of
          None \<Rightarrow> app_raise (Inventory_Err InventoryNotFoundError)
        | Some row \<Rightarrow>
            require (\<not> locked_qty row < sc_quantity c) (AppError (Common ValidationError))
            (let row' = row\<lparr>available_qty := available_qty row + sc_quantity c,
                            locked_qty := locked_qty row - sc_quantity c,
                            inv_version := inv_version row + 1\<rparr>
             in bindE (append_ledger db row row' ORDER_RELEASE c)
                  (\<lambda>(mid, i, db'). ok (fresh_result c mid i, db')))))"

definition deduct :: "'a stock_op" where
  "deduct db c =
    require (\<not> sc_quantity c \<le> 0) (AppError (Common ValidationError))
    (case find_movement_by_idempotency_key db (sc_idempotency_key c) of
       Some existing \<Rightarrow> ok (replayed_result db c existing, db)
     | None \<Rightarrow>
        bindE (resolve_warehouse db (sc_warehouse_id c) None) (\<lambda>w.
        case lock_for_update db (wh_id w) (sc_sku_id c) of
          None \<Rightarrow> app_raise (Inventory_Err InventoryNotFoundError)
        | Some row \<Rightarrow>
            require (\<not> locked_qty row < sc_quantity c) (AppError (Common ValidationError))
            (let row' = row\<lparr>locked_qty := locked_qty row - sc_quantity c,
                            total_out_qty := total_out_qty row + sc_quantity c,
                            inv_version := inv_version row + 1\<rparr>
             in bindE (append_ledger db row row' ORDER_DEDUCT (c\<lparr>sc_reason := None\<rparr>))
                  (\<lambda>(mid, i, db'). ok (fresh_result c mid i, db')))))"

definition return_in :: "'a stock_op" where
  "return_in db c =
    require (\<not> sc_quantity c \<le> 0) (AppError (Common ValidationError))
    (case find_movement_by_idempotency_key db (sc_idempotency_key c) of
       Some existing \<Rightarrow> ok (replayed_result db c existing, db)
     | None \<Rightarrow>
        bindE (resolve_warehouse db (sc_warehouse_id c) None) (\<lambda>w.
        case lock_for_update db (wh_id w) (sc_sku_id c) of
          None \<Rightarrow> app_raise (Inventory_Err InventoryNotFoundError)
        | Some row \<Rightarrow>
            let row' = row\<lparr>available_qty := available_qty row + sc_quantity c,
                           total_in_qty := total_in_qty row + sc_quantity c,
                           inv_version := inv_version row + 1\<rparr>
            in bindE (append_ledger db row row' RETURN_IN c)
                 (\<lambda>(mid, i, db'). ok (fresh_result c mid i, db'))))"

section \<open>Adjustments\<close>

record adjustment_preview =
  ap_sku_id :: int
  ap_warehouse_id :: int
  ap_current_available :: int
  ap_current_locked :: int
  ap_current_version :: int
  ap_proposed_delta :: int
  ap_resulting_available :: int
  ap_refused :: bool
  ap_below_safety :: bool

text \<open>The two warnings of the preview are its two flags.\<close>

definition preview_adjustment ::
  "'a stock_db_scheme \<Rightarrow> int \<Rightarrow> int \<Rightarrow> int option \<Rightarrow> adjustment_preview result" where
  "preview_adjustment db sku delta warehouse_arg =
    bindE (resolve_warehouse db warehouse_arg None) (\<lambda>w.
    case get_by_sku db sku (Some (wh_id w)) of
      None \<Rightarrow> app_raise (Inventory_Err InventoryNotFoundError)
    | Some row \<Rightarrow>
        let resulting = available_qty row + delta in
        ok \<lparr>ap_sku_id = sku, ap_warehouse_id = wh_id w, ap_current_available = available_qty row,
            ap_current_locked = locked_qty row, ap_current_version = inv_version row,
            ap_proposed_delta = delta, ap_resulting_available = resulting,
            ap_refused = (resulting < 0), ap_below_safety = (resulting < safety_stock row)\<rparr>)"

text \<open>\<open>sc_quantity\<close> of the call is \<open>delta_available\<close>; the reference is set by the code.\<close>

definition adjust ::
  "'a stock_db_scheme \<Rightarrow> stock_call \<Rightarrow> int \<Rightarrow> movement_type \<Rightarrow>
   (inventory \<times> 'a stock_db_scheme) result" where
  "adjust db c version t =
    require (\<not> sc_quantity c = 0) (AppError (Common ValidationError))
    (case find_movement_by_idempotency_key db (sc_idempotency_key c) of
       Some existing \<Rightarrow>
        (case get_by_sku db (sc_sku_id c) (Some (mv_warehouse_id existing)) of
           None \<Rightarrow> app_raise (Inventory_Err InventoryNotFoundError)
         | Some row \<Rightarrow> ok (row, db))
     | None \<Rightarrow>
        bindE (resolve_warehouse db (sc_warehouse_id c) None) (\<lambda>w.
        case lock_for_update db (wh_id w) (sc_sku_id c) of
          None \<Rightarrow> app_raise (Inventory_Err InventoryNotFoundError)
        | Some row \<Rightarrow>
            require (\<not> inv_version row \<noteq> version)
              (AppError (Inventory_Err InventoryVersionConflictError))
            (let resulting = available_qty row + sc_quantity c in
             require (\<not> resulting < 0) (AppError (Common ValidationError))
             (let row' = row\<lparr>available_qty := resulting, inv_version := inv_version row + 1,
                             total_in_qty := (if sc_quantity c > 0
                               then total_in_qty row + sc_quantity c else total_in_qty row)\<rparr>
              in bindE (append_ledger db row row' t
                    (c\<lparr>sc_reference_type := REF_MANUAL, sc_reference_id := None\<rparr>))
                   (\<lambda>(mid, i, db'). ok (i, db'))))))"

section \<open>Console reads and reconciliation\<close>

definition position_for :: "'a stock_db_scheme \<Rightarrow> int \<Rightarrow> int option \<Rightarrow> inventory result" where
  "position_for db sku warehouse_arg =
    (case get_by_sku db sku warehouse_arg of
       None \<Rightarrow> app_raise (Inventory_Err InventoryNotFoundError)
     | Some row \<Rightarrow> ok row)"

definition movements_page ::
  "'a stock_db_scheme \<Rightarrow> int \<Rightarrow> nat \<Rightarrow> nat \<Rightarrow> movement_type option \<Rightarrow> movement list result" where
  "movements_page db sku page page_size type_arg =
    bindE (position_for db sku None) (\<lambda>row.
    let rows = movements_for db (inv_warehouse_id row) sku type_arg (page_size * page)
    in ok (take page_size rows))"

definition verify_ledger :: "'a stock_db_scheme \<Rightarrow> int \<Rightarrow> int \<Rightarrow> (bool \<times> int list) result" where
  "verify_ledger db wid sku =
    (case get_by_sku db sku (Some wid) of
       None \<Rightarrow> app_raise (Inventory_Err InventoryNotFoundError)
     | Some row \<Rightarrow>
        let (net_available, net_locked) = movement_signature db wid sku in
        ok (net_available = available_qty row \<and> net_locked = locked_qty row,
            [net_available, available_qty row, net_locked, locked_qty row]))"

definition verify_ledger_for_sku :: "'a stock_db_scheme \<Rightarrow> int \<Rightarrow> (bool \<times> int list) result" where
  "verify_ledger_for_sku db sku =
    bindE (position_for db sku None) (\<lambda>row. verify_ledger db (inv_warehouse_id row) sku)"

text \<open>
  The console's list: merchant and low-stock filters; the text search is the set of SKU ids its
  subquery selects.
\<close>

definition list_inventory ::
  "'a stock_db_scheme \<Rightarrow> int option \<Rightarrow> int set option \<Rightarrow> bool \<Rightarrow> nat \<Rightarrow> nat \<Rightarrow>
   inventory list \<times> nat" where
  "list_inventory db merchant search low_stock_only offset limit =
    (let rows = filter (\<lambda>i.
           (case merchant of None \<Rightarrow> True | Some m \<Rightarrow> inv_merchant_id i = m) \<and>
           (low_stock_only \<longrightarrow> available_qty i \<le> safety_stock i) \<and>
           (case search of None \<Rightarrow> True | Some skus \<Rightarrow> inv_sku_id i \<in> skus)) (inventories db)
     in (take limit (drop offset (sort_key available_qty (rev (sort_key inv_id rows)))),
         length rows))"

definition positions_page ::
  "'a stock_db_scheme \<Rightarrow> int option \<Rightarrow> nat \<Rightarrow> nat \<Rightarrow> int set option \<Rightarrow> bool \<Rightarrow>
   inventory list \<times> nat" where
  "positions_page db merchant page page_size search low_stock_only =
    list_inventory db merchant search low_stock_only ((page - 1) * page_size) page_size"

definition list_positions ::
  "'a stock_db_scheme \<Rightarrow> int option \<Rightarrow> int set option \<Rightarrow> bool \<Rightarrow> nat \<Rightarrow> nat \<Rightarrow>
   (inventory list \<times> nat) result" where
  "list_positions db merchant search low_stock_only offset limit =
    (case merchant of
       None \<Rightarrow> app_raise (Auth PermissionDeniedError)
     | Some m \<Rightarrow> ok (list_inventory db (Some m) search low_stock_only offset limit))"

end
