(* ===== verification/Inventory_Ledger.thy ===== *)
theory Inventory_Ledger
  imports Inventory
begin

text \<open>
  The correctness of the stock ledger. \<open>stock_wf\<close> is INV-001, INV-002, INV-003 and INV-007 as one
  predicate over the tables; \<open>ledger_write\<close> is what one accepted stock change does to them. The
  locale \<open>keyed_stock_op\<close> is the contract the four keyed operations share, from which exactly-once
  application and the invariant follow once for all of them; \<open>stock_step\<close> is the component as a
  transition system.
\<close>

section \<open>The invariant\<close>

definition explained :: "'a stock_db_scheme \<Rightarrow> inventory \<Rightarrow> bool" where
  "explained db i \<longleftrightarrow>
    movement_signature db (inv_warehouse_id i) (inv_sku_id i) = (available_qty i, locked_qty i)"

abbreviation position :: "inventory \<Rightarrow> int \<times> int" where
  "position i \<equiv> (inv_warehouse_id i, inv_sku_id i)"

definition stock_wf :: "'a stock_db_scheme \<Rightarrow> bool" where
  "stock_wf db \<longleftrightarrow>
    distinct (map position (inventories db)) \<and> list_all inventory_checks (inventories db) \<and>
    list_all movement_checks (movements db) \<and> distinct (map mv_idempotency_key (movements db)) \<and>
    list_all (explained db) (inventories db)"

definition recorded :: "'a stock_db_scheme \<Rightarrow> string \<Rightarrow> bool" where
  "recorded db key \<longleftrightarrow> key \<in> mv_idempotency_key ` set (movements db)"

lemma find_movement_None [simp]:
  "find_movement_by_idempotency_key db key = None \<longleftrightarrow> \<not> recorded db key"
  by (auto simp: find_movement_by_idempotency_key_def recorded_def find_None_iff)

lemma find_unrecorded [simp]:
  "\<not> recorded db key \<Longrightarrow> find_movement_by_idempotency_key db key = None"
  by simp

lemma find_movement_Some:
  "find_movement_by_idempotency_key db key = Some m \<Longrightarrow>
    m \<in> set (movements db) \<and> mv_idempotency_key m = key"
  by (auto simp: find_movement_by_idempotency_key_def find_Some_iff)

lemma find_prefix: "x \<in> set xs \<Longrightarrow> P x \<Longrightarrow> find P (xs @ ys) = find P xs"
  by (induction xs) auto

lemma find_append_None: "\<forall>x \<in> set xs. \<not> P x \<Longrightarrow> find P (xs @ ys) = find P ys"
  by (induction xs) auto

lemma find_movement_append:
  "recorded db key \<Longrightarrow> movements db' = movements db @ ms \<Longrightarrow>
    find_movement_by_idempotency_key db' key = find_movement_by_idempotency_key db key"
  by (auto simp: find_movement_by_idempotency_key_def recorded_def intro!: find_prefix)

lemma lock_for_update_Some:
  "lock_for_update db wid sku = Some i \<Longrightarrow>
    i \<in> set (inventories db) \<and> inv_warehouse_id i = wid \<and> inv_sku_id i = sku"
  by (auto simp: lock_for_update_def find_Some_iff at_position_def)

lemma by_position:
  "distinct (map position is) \<Longrightarrow> i \<in> set is \<Longrightarrow>
    filter (\<lambda>j. inv_sku_id j = inv_sku_id i \<and> inv_warehouse_id j = inv_warehouse_id i) is = [i]"
  by (induction "is") (auto simp: filter_empty_conv image_iff)

lemma get_by_sku_row:
  "stock_wf db \<Longrightarrow> i \<in> set (inventories db) \<Longrightarrow>
    get_by_sku db (inv_sku_id i) (Some (inv_warehouse_id i)) = Some i"
  by (simp add: get_by_sku_def by_position stock_wf_def)

lemma get_by_sku_Some:
  assumes "get_by_sku db sku w = Some i"
  shows "i \<in> set (inventories db)" and "inv_sku_id i = sku"
    and "\<And>wid. w = Some wid \<Longrightarrow> inv_warehouse_id i = wid"
proof -
  let ?P = "\<lambda>i. inv_sku_id i = sku \<and> (case w of None \<Rightarrow> True | Some w \<Rightarrow> inv_warehouse_id i = w)"
  obtain rest where "sort_key inv_warehouse_id (filter ?P (inventories db)) = i # rest"
    using assms by (auto simp: get_by_sku_def split: list.splits)
  then have "i \<in> set (sort_key inv_warehouse_id (filter ?P (inventories db)))"
    by (metis list.set_intros(1))
  then show "i \<in> set (inventories db)" and "inv_sku_id i = sku"
    and "\<And>wid. w = Some wid \<Longrightarrow> inv_warehouse_id i = wid" by auto
qed

section \<open>One write\<close>

definition ledger_write ::
  "'a stock_db_scheme \<Rightarrow> inventory \<Rightarrow> inventory \<Rightarrow> movement_type \<Rightarrow> stock_call \<Rightarrow> 'a stock_db_scheme"
where
  "ledger_write db before after t c =
    (put_inventory (after\<lparr>last_movement_at := Some (db_now db)\<rparr>) db)
      \<lparr>movements := movements db @ [build_movement (Suc (length (movements db))) before after t c]\<rparr>"

lemma movements_ledger_write [simp]:
  "movements (ledger_write db before after t c) =
    movements db @ [build_movement (Suc (length (movements db))) before after t c]"
  by (simp add: ledger_write_def)

lemma recorded_ledger_write [simp]:
  "recorded (ledger_write db before after t c) key \<longleftrightarrow>
    recorded db key \<or> key = sc_idempotency_key c"
  by (auto simp: recorded_def build_movement_def)

lemma find_ledger_write:
  "\<not> recorded db (sc_idempotency_key c) \<Longrightarrow>
    find_movement_by_idempotency_key (ledger_write db before after t c) (sc_idempotency_key c) =
    Some (build_movement (Suc (length (movements db))) before after t c)"
  unfolding find_movement_by_idempotency_key_def movements_ledger_write
  by (subst find_append_None) (auto simp: recorded_def build_movement_def image_iff)

lemma warehouses_ledger_write [simp]:
  "warehouses (ledger_write db before after t c) = warehouses db"
  "db_now (ledger_write db before after t c) = db_now db"
  by (simp_all add: ledger_write_def put_inventory_def)

lemma inventories_ledger_write:
  "inventories (ledger_write db before after t c) =
    map (\<lambda>j. if position j = position after
             then after\<lparr>last_movement_at := Some (db_now db)\<rparr> else j) (inventories db)"
  by (auto simp: ledger_write_def put_inventory_def at_position_def)

lemma positions_ledger_write [simp]:
  "map position (inventories (ledger_write db before after t c)) = map position (inventories db)"
  by (auto simp: inventories_ledger_write)

text \<open>The row that a write leaves at a position.\<close>

lemma signature_ledger_write:
  "movement_signature (ledger_write db before after t c) wid sku =
    (let (a, l) = movement_signature db wid sku in
     if position after = (wid, sku)
     then (a + (available_qty after - available_qty before), l + (locked_qty after - locked_qty before))
     else (a, l))"
  by (simp add: movement_signature_def position_movements_def build_movement_def)

lemma explained_ledger_write:
  assumes "explained db before" and "position after = position before"
    and "i \<in> set (inventories (ledger_write db before after t c))"
    and "list_all (explained db) (inventories db)"
  shows "explained (ledger_write db before after t c) i"
  using assms
  by (auto simp: inventories_ledger_write explained_def signature_ledger_write list_all_iff
      split: if_splits)

lemma stock_wf_ledger_write:
  assumes wf: "stock_wf db" and row: "before \<in> set (inventories db)"
    and pos: "position after = position before" and ok: "inventory_checks after"
    and new: "\<not> recorded db (sc_idempotency_key c)"
  shows "stock_wf (ledger_write db before after t c)"
proof -
  have b: "inventory_checks before" "explained db before"
    using wf row by (auto simp: stock_wf_def list_all_iff)
  have "list_all (explained (ledger_write db before after t c))
      (inventories (ledger_write db before after t c))"
    using wf explained_ledger_write [OF b(2) pos] by (auto simp: list_all_iff stock_wf_def)
  moreover have "list_all inventory_checks (inventories (ledger_write db before after t c))"
    using wf ok by (auto simp: inventories_ledger_write stock_wf_def list_all_iff inventory_checks_def)
  moreover have "movement_checks (build_movement k before after t c)" for k
    using b(1) ok by (simp add: movement_checks_def build_movement_def inventory_checks_def)
  ultimately show ?thesis
    using wf new by (auto simp: stock_wf_def recorded_def build_movement_def)
qed

lemma put_put:
  "position i = position j \<Longrightarrow> put_inventory i (put_inventory j db) = put_inventory i db"
  by (auto simp: put_inventory_def at_position_def)

lemma put_movements [simp]:
  "put_inventory i (db\<lparr>movements := ms\<rparr>) = (put_inventory i db)\<lparr>movements := ms\<rparr>"
  by (simp add: put_inventory_def)

text \<open>Inside the invariant, no constraint can fire on a key that is new.\<close>

lemma append_ledger_ok:
  assumes wf: "stock_wf db" and row: "before \<in> set (inventories db)"
    and pos: "position after = position before" and ok: "inventory_checks after"
    and new: "\<not> recorded db (sc_idempotency_key c)"
  shows "append_ledger db before after t c =
    Inr (Suc (length (movements db)), after\<lparr>last_movement_at := Some (db_now db)\<rparr>,
      ledger_write db before after t c)"
proof -
  let ?m = "build_movement (Suc (length (movements db))) before after t c"
  have "inventory_checks before" using wf row by (auto simp: stock_wf_def list_all_iff)
  then have "movement_checks ?m"
    using ok by (simp add: movement_checks_def build_movement_def inventory_checks_def)
  moreover have "mv_idempotency_key ?m = sc_idempotency_key c" by (simp add: build_movement_def)
  ultimately have "flush_movement db after ?m = ok ((put_inventory after db)\<lparr>movements := movements db @ [?m]\<rparr>)"
    using ok new by (simp add: flush_movement_def)
  then show ?thesis
    by (simp add: append_ledger_def Let_def put_put ledger_write_def)
qed

section \<open>The four keyed operations\<close>

definition reserved_row :: "inventory \<Rightarrow> int \<Rightarrow> inventory" where
  "reserved_row i q = i\<lparr>available_qty := available_qty i - q, locked_qty := locked_qty i + q,
    inv_version := inv_version i + 1\<rparr>"

definition released_row :: "inventory \<Rightarrow> int \<Rightarrow> inventory" where
  "released_row i q = i\<lparr>available_qty := available_qty i + q, locked_qty := locked_qty i - q,
    inv_version := inv_version i + 1\<rparr>"

definition deducted_row :: "inventory \<Rightarrow> int \<Rightarrow> inventory" where
  "deducted_row i q = i\<lparr>locked_qty := locked_qty i - q, total_out_qty := total_out_qty i + q,
    inv_version := inv_version i + 1\<rparr>"

definition returned_row :: "inventory \<Rightarrow> int \<Rightarrow> inventory" where
  "returned_row i q = i\<lparr>available_qty := available_qty i + q, total_in_qty := total_in_qty i + q,
    inv_version := inv_version i + 1\<rparr>"

lemmas row_changes = reserved_row_def released_row_def deducted_row_def returned_row_def

lemma position_row_changes [simp]:
  "inv_warehouse_id (reserved_row i q) = inv_warehouse_id i" "inv_sku_id (reserved_row i q) = inv_sku_id i"
  "inv_warehouse_id (released_row i q) = inv_warehouse_id i" "inv_sku_id (released_row i q) = inv_sku_id i"
  "inv_warehouse_id (deducted_row i q) = inv_warehouse_id i" "inv_sku_id (deducted_row i q) = inv_sku_id i"
  "inv_warehouse_id (returned_row i q) = inv_warehouse_id i" "inv_sku_id (returned_row i q) = inv_sku_id i"
  by (simp_all add: row_changes)

abbreviation unexplained :: "stock_call \<Rightarrow> stock_call" where
  "unexplained c \<equiv> c\<lparr>sc_reason := None\<rparr>"

text \<open>What an accepted change answers and leaves, given the row it locked.\<close>

definition accepted ::
  "'a stock_db_scheme \<Rightarrow> stock_call \<Rightarrow> inventory \<Rightarrow> inventory \<Rightarrow> movement_type \<Rightarrow> stock_call \<Rightarrow>
   reservation_result \<times> 'a stock_db_scheme" where
  "accepted db c before after t noted =
    (fresh_result c (Suc (length (movements db))) after, ledger_write db before after t noted)"

lemma fresh_result_touched [simp]:
  "fresh_result c mid (i\<lparr>last_movement_at := t\<rparr>) = fresh_result c mid i"
  by (simp add: fresh_result_def)

text \<open>
  The operations in the invariant, without the constraint that cannot fire: \<open>gate\<close> is the
  condition of the operation on the locked row.
\<close>

definition keyed_op ::
  "(inventory \<Rightarrow> int \<Rightarrow> bool) \<Rightarrow> app_error \<Rightarrow> (inventory \<Rightarrow> int \<Rightarrow> inventory) \<Rightarrow> movement_type \<Rightarrow>
   (stock_call \<Rightarrow> stock_call) \<Rightarrow> 'a stock_op" where
  "keyed_op gate refusal after t noted db c =
    (case find_movement_by_idempotency_key db (sc_idempotency_key c) of
       Some m \<Rightarrow> ok (replayed_result db c m, db)
     | None \<Rightarrow>
        bindE (resolve_warehouse db (sc_warehouse_id c) None) (\<lambda>w.
        case lock_for_update db (wh_id w) (sc_sku_id c) of
          None \<Rightarrow> app_raise (Inventory_Err InventoryNotFoundError)
        | Some row \<Rightarrow>
            if gate row (sc_quantity c)
            then ok (accepted db c row (after row (sc_quantity c)) t (noted c))
            else app_raise refusal))"

lemma row_checks: "stock_wf db \<Longrightarrow> row \<in> set (inventories db) \<Longrightarrow> inventory_checks row"
  by (auto simp: stock_wf_def list_all_iff)

lemma append_accepted:
  assumes "stock_wf db" and "lock_for_update db wid sku = Some row"
    and "position row' = position row" and "inventory_checks row'"
    and "\<not> recorded db (sc_idempotency_key n)"
  shows "bindE (append_ledger db row row' t n) (\<lambda>(mid, i, db'). ok (fresh_result c mid i, db')) =
    ok (accepted db c row row' t n)"
  using append_ledger_ok [OF assms(1) _ assms(3-5)] lock_for_update_Some [OF assms(2)]
  by (simp add: accepted_def)

lemma keyed_opI:
  assumes "\<And>wid row. find_movement_by_idempotency_key db (sc_idempotency_key c) = None \<Longrightarrow>
      lock_for_update db wid (sc_sku_id c) = Some row \<Longrightarrow>
      body row = (if gate row (sc_quantity c)
        then ok (accepted db c row (after row (sc_quantity c)) t (noted c)) else app_raise refusal)"
  shows "(case find_movement_by_idempotency_key db (sc_idempotency_key c) of
      Some m \<Rightarrow> ok (replayed_result db c m, db)
    | None \<Rightarrow> bindE (resolve_warehouse db (sc_warehouse_id c) None) (\<lambda>w.
        case lock_for_update db (wh_id w) (sc_sku_id c) of
          None \<Rightarrow> app_raise (Inventory_Err InventoryNotFoundError)
        | Some row \<Rightarrow> body row)) = keyed_op gate refusal after t noted db c"
  using assms unfolding keyed_op_def
  by (auto split: option.splits intro!: bindE_cong simp del: find_movement_None)

lemma reserve_eq:
  assumes wf: "stock_wf db" and "0 < sc_quantity c" and "sc_idempotency_key c \<noteq> []"
  shows "reserve db c = keyed_op (\<lambda>i q. q \<le> available_qty i - safety_stock i)
      (Inventory_Err InsufficientStockError) reserved_row ORDER_LOCK unexplained db c"
proof -
  have checks: "inventory_checks (reserved_row row q)"
    if "lock_for_update db wid sku = Some row" "q \<le> available_qty row - safety_stock row" "0 < q"
    for row wid sku q
    using row_checks [OF wf] lock_for_update_Some [OF that(1)] that(2,3)
    by (force simp: inventory_checks_def reserved_row_def)
  show ?thesis
    using assms
    by (auto simp: reserve_def Let_def reserved_row_def [symmetric] require_def can_reserve_def
        sellable_qty_def le_max_iff_disj intro!: keyed_opI append_accepted checks)
qed

lemma release_eq:
  assumes wf: "stock_wf db" and "0 < sc_quantity c"
  shows "release db c = keyed_op (\<lambda>i q. q \<le> locked_qty i) (Common ValidationError)
      released_row ORDER_RELEASE id db c"
proof -
  have checks: "inventory_checks (released_row row q)"
    if "lock_for_update db wid sku = Some row" "q \<le> locked_qty row" "0 < q" for row wid sku q
    using row_checks [OF wf] lock_for_update_Some [OF that(1)] that(2,3)
    by (force simp: inventory_checks_def released_row_def)
  show ?thesis
    using assms
    by (auto simp: release_def Let_def released_row_def [symmetric] require_def not_less
        intro!: keyed_opI append_accepted checks)
qed

lemma deduct_eq:
  assumes wf: "stock_wf db" and "0 < sc_quantity c"
  shows "deduct db c = keyed_op (\<lambda>i q. q \<le> locked_qty i) (Common ValidationError)
      deducted_row ORDER_DEDUCT unexplained db c"
proof -
  have checks: "inventory_checks (deducted_row row q)"
    if "lock_for_update db wid sku = Some row" "q \<le> locked_qty row" "0 < q" for row wid sku q
    using row_checks [OF wf] lock_for_update_Some [OF that(1)] that(2,3)
    by (force simp: inventory_checks_def deducted_row_def)
  show ?thesis
    using assms
    by (auto simp: deduct_def Let_def deducted_row_def [symmetric] require_def not_less
        intro!: keyed_opI append_accepted checks)
qed

lemma return_in_eq:
  assumes wf: "stock_wf db" and "0 < sc_quantity c"
  shows "return_in db c = keyed_op (\<lambda>i q. True) (Common ValidationError)
      returned_row RETURN_IN id db c"
proof -
  have checks: "inventory_checks (returned_row row q)"
    if "lock_for_update db wid sku = Some row" "0 < q" for row wid sku q
    using row_checks [OF wf] lock_for_update_Some [OF that(1)] that(2)
    by (force simp: inventory_checks_def returned_row_def)
  show ?thesis
    using assms
    by (auto simp: return_in_def Let_def returned_row_def [symmetric] require_def
        intro!: keyed_opI append_accepted checks)
qed

lemma positive_quantity:
  "reserve db c = ok x \<Longrightarrow> 0 < sc_quantity c \<and> sc_idempotency_key c \<noteq> []"
  "release db c = ok x \<Longrightarrow> 0 < sc_quantity c" "deduct db c = ok x \<Longrightarrow> 0 < sc_quantity c"
  "return_in db c = ok x \<Longrightarrow> 0 < sc_quantity c"
  by (auto simp: reserve_def release_def deduct_def return_in_def require_eq_Inr)

section \<open>The contract of a keyed stock operation\<close>

text \<open>
  What the order, payment and refund workflows rely on when they name a stock change by a key. A
  call that returns either finds its key in the ledger and changes nothing, or locks a row, passes
  the gate and writes exactly one movement under the key.
\<close>

locale keyed_stock_op =
  fixes op :: "'a stock_op" and after :: "inventory \<Rightarrow> int \<Rightarrow> inventory"
    and kind :: movement_type and noted :: "stock_call \<Rightarrow> stock_call"
  assumes after_position: "position (after i q) = position i"
    and noted_key: "sc_idempotency_key (noted c) = sc_idempotency_key c"
    and replays: "0 < sc_quantity c \<Longrightarrow> sc_idempotency_key c \<noteq> [] \<Longrightarrow>
      find_movement_by_idempotency_key db (sc_idempotency_key c) = Some m \<Longrightarrow>
      op db c = ok (replayed_result db c m, db)"
    and returns: "stock_wf db \<Longrightarrow> op db c = ok (r, db') \<Longrightarrow> 0 < sc_quantity c \<and>
      ((\<exists>m. find_movement_by_idempotency_key db (sc_idempotency_key c) = Some m \<and>
          r = replayed_result db c m \<and> db' = db) \<or>
       (\<exists>row. lock_for_update db (inv_warehouse_id row) (sc_sku_id c) = Some row \<and>
          \<not> recorded db (sc_idempotency_key c) \<and> inventory_checks (after row (sc_quantity c)) \<and>
          (r, db') = accepted db c row (after row (sc_quantity c)) kind (noted c)))"
begin

lemma wf:
  assumes "stock_wf db" and "op db c = ok (r, db')"
  shows "stock_wf db'"
  using returns [OF assms] assms(1) after_position noted_key
  by (auto simp: accepted_def dest!: lock_for_update_Some intro!: stock_wf_ledger_write)

lemma recorded_after:
  assumes "stock_wf db" and "op db c = ok (r, db')"
  shows "recorded db' k \<longleftrightarrow> recorded db k \<or> k = sc_idempotency_key c"
  using returns [OF assms] noted_key by (auto simp: accepted_def) (metis find_movement_None option.distinct(1))+

lemma appends:
  assumes "stock_wf db" and "op db c = ok (r, db')"
  obtains ms where "movements db' = movements db @ ms" and "length ms \<le> 1"
    and "rr_replayed r \<longleftrightarrow> ms = []"
  using returns [OF assms]
  by (elim conjE disjE exE) (force simp: accepted_def replayed_result_def fresh_result_def Let_def)+

text \<open>Once a call has returned, the same call changes nothing, however the ledger has grown.\<close>

lemma exactly_once:
  assumes wf: "stock_wf db" and first: "op db c = ok (r, db')"
    and later: "movements db'' = movements db' @ ms" and key: "sc_idempotency_key c \<noteq> []"
  obtains r' where "op db'' c = ok (r', db'')" and "rr_replayed r'"
    and "rr_movement_id r' = rr_movement_id r"
proof -
  let ?key = "sc_idempotency_key c"
  have q: "0 < sc_quantity c" using returns [OF wf first] ..
  have "recorded db' ?key" using recorded_after [OF wf first] by simp
  then obtain m where m: "find_movement_by_idempotency_key db' ?key = Some m"
    using find_movement_None by blast
  then have m'': "find_movement_by_idempotency_key db'' ?key = Some m"
    using find_movement_append [OF \<open>recorded db' ?key\<close> later] by simp
  have "mv_id m = rr_movement_id r"
    using returns [OF wf first]
  proof (elim conjE disjE exE)
    fix row
    assume "\<not> recorded db ?key"
      and "(r, db') = accepted db c row (after row (sc_quantity c)) kind (noted c)"
    then show ?thesis
      using m find_ledger_write [of db "noted c"]
      by (auto simp: accepted_def noted_key fresh_result_def build_movement_def)
  qed (use m in \<open>auto simp: replayed_result_def Let_def\<close>)
  then show ?thesis
    by (intro that [OF replays [OF q key m'']]) (simp_all add: replayed_result_def Let_def)
qed

end

lemma keyed_op_returns:
  assumes "keyed_op gate refusal after t noted db c = ok (r, db')" and "0 < sc_quantity c"
    and checked: "\<And>wid row. lock_for_update db wid (sc_sku_id c) = Some row \<Longrightarrow>
      gate row (sc_quantity c) \<Longrightarrow> inventory_checks (after row (sc_quantity c))"
  shows "0 < sc_quantity c \<and>
    ((\<exists>m. find_movement_by_idempotency_key db (sc_idempotency_key c) = Some m \<and>
        r = replayed_result db c m \<and> db' = db) \<or>
     (\<exists>row. lock_for_update db (inv_warehouse_id row) (sc_sku_id c) = Some row \<and>
        \<not> recorded db (sc_idempotency_key c) \<and> inventory_checks (after row (sc_quantity c)) \<and>
        (r, db') = accepted db c row (after row (sc_quantity c)) t (noted c)))"
proof (cases "find_movement_by_idempotency_key db (sc_idempotency_key c)")
  case None
  then obtain w :: warehouse where "(case lock_for_update db (wh_id w) (sc_sku_id c) of
        None \<Rightarrow> app_raise (Inventory_Err InventoryNotFoundError)
      | Some row \<Rightarrow> if gate row (sc_quantity c)
          then ok (accepted db c row (after row (sc_quantity c)) t (noted c)) else app_raise refusal) =
      ok (r, db')"
    using assms(1) by (auto simp: keyed_op_def bindE_eq_Inr simp del: find_movement_None)
  then obtain row where row: "lock_for_update db (wh_id w) (sc_sku_id c) = Some row"
    and "gate row (sc_quantity c)"
    and "(r, db') = accepted db c row (after row (sc_quantity c)) t (noted c)"
    by (auto split: option.splits if_splits)
  moreover from lock_for_update_Some [OF row] have "wh_id w = inv_warehouse_id row" by simp
  ultimately show ?thesis using assms(2) None checked [OF row] by auto
next
  case (Some m)
  with assms(1,2) show ?thesis by (auto simp: keyed_op_def)
qed

lemma checked_rows:
  assumes "stock_wf db" and "lock_for_update db wid sku = Some row" and "0 < q"
  shows "q \<le> available_qty row - safety_stock row \<Longrightarrow> inventory_checks (reserved_row row q)"
    and "q \<le> locked_qty row \<Longrightarrow> inventory_checks (released_row row q)"
    and "q \<le> locked_qty row \<Longrightarrow> inventory_checks (deducted_row row q)"
    and "inventory_checks (returned_row row q)"
  using row_checks [OF assms(1)] lock_for_update_Some [OF assms(2)] assms(3)
  by (force simp: inventory_checks_def row_changes)+

interpretation reserving: keyed_stock_op reserve reserved_row ORDER_LOCK unexplained
proof unfold_locales
  fix db :: "'a stock_db_scheme" and c r db'
  assume wf: "stock_wf db" and r: "reserve db c = ok (r, db')"
  note q = positive_quantity(1) [OF r]
  note k = r [unfolded reserve_eq [OF wf conjunct1 [OF q] conjunct2 [OF q]]]
  show "0 < sc_quantity c \<and> ((\<exists>m. find_movement_by_idempotency_key db (sc_idempotency_key c) = Some m \<and>
          r = replayed_result db c m \<and> db' = db) \<or>
       (\<exists>row. lock_for_update db (inv_warehouse_id row) (sc_sku_id c) = Some row \<and>
          \<not> recorded db (sc_idempotency_key c) \<and> inventory_checks (reserved_row row (sc_quantity c)) \<and>
          (r, db') = accepted db c row (reserved_row row (sc_quantity c)) ORDER_LOCK (unexplained c)))"
    by (rule keyed_op_returns [OF k conjunct1 [OF q]]) (rule checked_rows(1) [OF wf _ conjunct1 [OF q]])
qed (auto simp: reserve_def)

interpretation releasing: keyed_stock_op release released_row ORDER_RELEASE id
proof unfold_locales
  fix db :: "'a stock_db_scheme" and c r db'
  assume wf: "stock_wf db" and r: "release db c = ok (r, db')"
  note q = positive_quantity(2) [OF r]
  note k = r [unfolded release_eq [OF wf q]]
  show "0 < sc_quantity c \<and> ((\<exists>m. find_movement_by_idempotency_key db (sc_idempotency_key c) = Some m \<and>
          r = replayed_result db c m \<and> db' = db) \<or>
       (\<exists>row. lock_for_update db (inv_warehouse_id row) (sc_sku_id c) = Some row \<and>
          \<not> recorded db (sc_idempotency_key c) \<and> inventory_checks (released_row row (sc_quantity c)) \<and>
          (r, db') = accepted db c row (released_row row (sc_quantity c)) ORDER_RELEASE (id c)))"
    by (rule keyed_op_returns [OF k q]) (rule checked_rows(2) [OF wf _ q])
qed (auto simp: release_def)

interpretation deducting: keyed_stock_op deduct deducted_row ORDER_DEDUCT unexplained
proof unfold_locales
  fix db :: "'a stock_db_scheme" and c r db'
  assume wf: "stock_wf db" and r: "deduct db c = ok (r, db')"
  note q = positive_quantity(3) [OF r]
  note k = r [unfolded deduct_eq [OF wf q]]
  show "0 < sc_quantity c \<and> ((\<exists>m. find_movement_by_idempotency_key db (sc_idempotency_key c) = Some m \<and>
          r = replayed_result db c m \<and> db' = db) \<or>
       (\<exists>row. lock_for_update db (inv_warehouse_id row) (sc_sku_id c) = Some row \<and>
          \<not> recorded db (sc_idempotency_key c) \<and> inventory_checks (deducted_row row (sc_quantity c)) \<and>
          (r, db') = accepted db c row (deducted_row row (sc_quantity c)) ORDER_DEDUCT (unexplained c)))"
    by (rule keyed_op_returns [OF k q]) (rule checked_rows(3) [OF wf _ q])
qed (auto simp: deduct_def)

interpretation returning: keyed_stock_op return_in returned_row RETURN_IN id
proof unfold_locales
  fix db :: "'a stock_db_scheme" and c r db'
  assume wf: "stock_wf db" and r: "return_in db c = ok (r, db')"
  note q = positive_quantity(4) [OF r]
  note k = r [unfolded return_in_eq [OF wf q]]
  show "0 < sc_quantity c \<and> ((\<exists>m. find_movement_by_idempotency_key db (sc_idempotency_key c) = Some m \<and>
          r = replayed_result db c m \<and> db' = db) \<or>
       (\<exists>row. lock_for_update db (inv_warehouse_id row) (sc_sku_id c) = Some row \<and>
          \<not> recorded db (sc_idempotency_key c) \<and> inventory_checks (returned_row row (sc_quantity c)) \<and>
          (r, db') = accepted db c row (returned_row row (sc_quantity c)) RETURN_IN (id c)))"
    by (rule keyed_op_returns [OF k q]) (rule checked_rows(4) [OF wf _ q])
qed (auto simp: return_in_def)

section \<open>Adjustments\<close>

lemma adjust_returns:
  assumes wf: "stock_wf db" and a: "adjust db c version t = ok (i, db')"
  obtains "recorded db (sc_idempotency_key c)" and "db' = db"
  | row row' noted where "row \<in> set (inventories db)" and "inv_version row = version"
    and "row' = row\<lparr>available_qty := available_qty row + sc_quantity c,
      inv_version := inv_version row + 1,
      total_in_qty := (if sc_quantity c > 0 then total_in_qty row + sc_quantity c else total_in_qty row)\<rparr>"
    and "\<not> recorded db (sc_idempotency_key c)" and "inventory_checks row'"
    and "sc_idempotency_key noted = sc_idempotency_key c" and "inv_sku_id row = sc_sku_id c"
    and "i = row'\<lparr>last_movement_at := Some (db_now db)\<rparr>" and "db' = ledger_write db row row' t noted"
proof (cases "recorded db (sc_idempotency_key c)")
  case True
  with a have "db' = db"
    by (auto simp: adjust_def require_eq_Inr split: option.splits)
  with True that show ?thesis by blast
next
  case False
  let ?r = "\<lambda>row. row\<lparr>available_qty := available_qty row + sc_quantity c,
    inv_version := inv_version row + 1,
    total_in_qty := (if sc_quantity c > 0 then total_in_qty row + sc_quantity c else total_in_qty row)\<rparr>"
  let ?c = "c\<lparr>sc_reference_type := REF_MANUAL, sc_reference_id := None\<rparr>"
  from False have f: "find_movement_by_idempotency_key db (sc_idempotency_key c) = None" by simp
  from a obtain w :: warehouse where w: "(case lock_for_update db (wh_id w) (sc_sku_id c) of
      None \<Rightarrow> app_raise (Inventory_Err InventoryNotFoundError)
    | Some row \<Rightarrow> require (\<not> inv_version row \<noteq> version)
        (AppError (Inventory_Err InventoryVersionConflictError))
        (require (\<not> available_qty row + sc_quantity c < 0) (AppError (Common ValidationError))
          (bindE (append_ledger db row (?r row) t ?c) (\<lambda>(mid, i, db'). ok (i, db'))))) = ok (i, db')"
    unfolding adjust_def f Let_def by (auto simp: require_eq_Inr bindE_eq_Inr)
  then obtain row where row: "lock_for_update db (wh_id w) (sc_sku_id c) = Some row"
    by (cases "lock_for_update db (wh_id w) (sc_sku_id c)") auto
  from w [unfolded row option.case] have v: "inv_version row = version" and n: "0 \<le> available_qty row + sc_quantity c"
    and app: "bindE (append_ledger db row (?r row) t ?c) (\<lambda>(mid, i, db'). ok (i, db')) = ok (i, db')"
    unfolding require_eq_Inr not_less not_not by blast+
  note mem = lock_for_update_Some [OF row]
  have checks: "inventory_checks row" using row_checks [OF wf] mem by blast
  have new: "inventory_checks (?r row)" using checks n by (simp add: inventory_checks_def)
  have "append_ledger db row (?r row) t ?c = ok (Suc (length (movements db)),
      (?r row)\<lparr>last_movement_at := Some (db_now db)\<rparr>, ledger_write db row (?r row) t ?c)"
    using mem False by (intro append_ledger_ok [OF wf _ _ new]) simp_all
  with app have "i = (?r row)\<lparr>last_movement_at := Some (db_now db)\<rparr>"
    and "db' = ledger_write db row (?r row) t ?c" by simp_all
  with mem v False new show ?thesis by (intro that(2) [of row "?r row" ?c]) simp_all
qed

text \<open>The same, when the row the call locks is known.\<close>

lemma adjust_at:
  assumes "stock_wf db" and "adjust db c version t = ok (i, db1)"
    and "\<not> recorded db (sc_idempotency_key c)"
    and "resolve_warehouse db (sc_warehouse_id c) None = ok w"
    and "lock_for_update db (wh_id w) (sc_sku_id c) = Some row"
  obtains row' noted where "db1 = ledger_write db row row' t noted" and "position row' = position row"
    and "inv_version row = version" and "inv_version row' = version + 1"
    and "row' = row\<lparr>available_qty := available_qty row + sc_quantity c,
      inv_version := inv_version row + 1, total_in_qty := total_in_qty row + max 0 (sc_quantity c)\<rparr>"
    and "i = row'\<lparr>last_movement_at := Some (db_now db)\<rparr>"
proof -
  let ?row' = "row\<lparr>available_qty := available_qty row + sc_quantity c,
      inv_version := inv_version row + 1, total_in_qty := total_in_qty row + max 0 (sc_quantity c)\<rparr>"
  let ?c = "c\<lparr>sc_reference_type := REF_MANUAL, sc_reference_id := None\<rparr>"
  have m: "(if 0 < sc_quantity c then total_in_qty row + sc_quantity c else total_in_qty row) =
      total_in_qty row + max 0 (sc_quantity c)" by simp
  have run: "bindE (append_ledger db row ?row' t ?c) (\<lambda>(mid, i, db'). ok (i, db')) = ok (i, db1)"
    and v: "inv_version row = version" and n: "0 \<le> available_qty row + sc_quantity c"
    using assms(2) unfolding adjust_def find_unrecorded [OF assms(3)] option.case assms(4) bindE_Inr
      assms(5) m Let_def require_eq_Inr not_less not_not by blast+
  note mem = lock_for_update_Some [OF assms(5)]
  have "inventory_checks ?row'"
    using row_checks [OF assms(1)] mem n by (auto simp: inventory_checks_def)
  then have "append_ledger db row ?row' t ?c = ok (Suc (length (movements db)),
      ?row'\<lparr>last_movement_at := Some (db_now db)\<rparr>, ledger_write db row ?row' t ?c)"
    using mem assms(3) by (intro append_ledger_ok [OF assms(1)]) simp_all
  with run have "i = ?row'\<lparr>last_movement_at := Some (db_now db)\<rparr>"
    and "db1 = ledger_write db row ?row' t ?c" by simp_all
  with v show ?thesis by (intro that [of ?row' ?c]) simp_all
qed

lemma adjust_wf:
  assumes "stock_wf db" and "adjust db c version t = ok (i, db')"
  shows "stock_wf db'"
  by (rule adjust_returns [OF assms]) (use assms(1) in \<open>auto intro!: stock_wf_ledger_write\<close>)

section \<open>The component as a transition system\<close>

text \<open>
  Every committed change of the stock tables: the five operations, and time passing. A call that
  raises is rolled back and is no step.
\<close>

inductive stock_step :: "'a stock_db_scheme \<Rightarrow> 'a stock_db_scheme \<Rightarrow> bool" where
  step_reserve: "reserve db c = ok (r, db') \<Longrightarrow> stock_step db db'"
| step_release: "release db c = ok (r, db') \<Longrightarrow> stock_step db db'"
| step_deduct: "deduct db c = ok (r, db') \<Longrightarrow> stock_step db db'"
| step_return: "return_in db c = ok (r, db') \<Longrightarrow> stock_step db db'"
| step_adjust: "adjust db c version t = ok (i, db') \<Longrightarrow> stock_step db db'"
| step_time: "stock_step db (db\<lparr>db_now := t\<rparr>)"

inductive stock_reachable :: "'a stock_db_scheme \<Rightarrow> 'a stock_db_scheme \<Rightarrow> bool" where
  reach_refl: "stock_reachable db db"
| reach_step: "stock_reachable db db' \<Longrightarrow> stock_step db' db'' \<Longrightarrow> stock_reachable db db''"

inductive_cases stock_stepE: "stock_step db db'"

text \<open>A shop before its first movement: every position empty, nothing in the ledger.\<close>

definition opening_state :: "'a stock_db_scheme \<Rightarrow> bool" where
  "opening_state db \<longleftrightarrow> distinct (map position (inventories db)) \<and> movements db = [] \<and>
    list_all (\<lambda>i. available_qty i = 0 \<and> locked_qty i = 0 \<and> 0 \<le> safety_stock i) (inventories db)"

lemma opening_wf: "opening_state db \<Longrightarrow> stock_wf db"
  by (auto simp: opening_state_def stock_wf_def list_all_iff inventory_checks_def explained_def
      movement_signature_def position_movements_def)

lemma stock_wf_time: "stock_wf (db\<lparr>db_now := t\<rparr>) \<longleftrightarrow> stock_wf db"
  by (simp add: stock_wf_def explained_def [abs_def] movement_signature_def position_movements_def)

lemmas keyed_wf = reserving.wf releasing.wf deducting.wf returning.wf adjust_wf

lemma stock_step_wf: "stock_step db db' \<Longrightarrow> stock_wf db \<Longrightarrow> stock_wf db'"
  by (induction rule: stock_step.induct) (auto intro: keyed_wf simp: stock_wf_time)

lemma stock_reachable_wf: "stock_reachable db db' \<Longrightarrow> stock_wf db \<Longrightarrow> stock_wf db'"
  by (induction rule: stock_reachable.induct) (auto intro: stock_step_wf)

lemma adjust_appends:
  assumes "stock_wf db" and "adjust db c version t = ok (i, db')"
  shows "\<exists>ms. movements db' = movements db @ ms"
  by (rule adjust_returns [OF assms]) auto

lemma stock_step_appends:
  assumes "stock_step db db'" and "stock_wf db"
  shows "\<exists>ms. movements db' = movements db @ ms"
  using assms
proof cases
  case (step_reserve c r)
  with assms(2) show ?thesis by (meson reserving.appends)
next
  case (step_release c r)
  with assms(2) show ?thesis by (meson releasing.appends)
next
  case (step_deduct c r)
  with assms(2) show ?thesis by (meson deducting.appends)
next
  case (step_return c r)
  with assms(2) show ?thesis by (meson returning.appends)
next
  case (step_adjust c v t i)
  with assms(2) show ?thesis by (meson adjust_appends)
qed auto

lemma stock_reachable_appends:
  "stock_reachable db db' \<Longrightarrow> stock_wf db \<Longrightarrow> \<exists>ms. movements db' = movements db @ ms"
proof (induction rule: stock_reachable.induct)
  case (reach_step db db' db'')
  from reach_step.IH reach_step.prems stock_reachable_wf [OF reach_step.hyps(1)]
    stock_step_appends [OF reach_step.hyps(2)]
  show ?case by (metis append_assoc)
qed auto

section \<open>Verification by the ledger\<close>

lemma get_by_sku_position:
  assumes "get_by_sku db sku (Some wid) = Some i"
  shows "i \<in> set (inventories db)" and "position i = (wid, sku)"
  using get_by_sku_Some [OF assms] by auto

lemma verify_ledger_wf:
  assumes "stock_wf db" and "verify_ledger db wid sku = ok (consistent, detail)"
  shows "consistent"
proof -
  obtain i where i: "get_by_sku db sku (Some wid) = Some i"
    using assms(2) by (auto simp: verify_ledger_def split: option.splits)
  with get_by_sku_position [OF i] assms show ?thesis
    by (auto simp: verify_ledger_def stock_wf_def list_all_iff explained_def)
qed

section \<open>Units of a position\<close>

lemma ledger_write_lookup:
  assumes "stock_wf db" and "lock_for_update db wid sku = Some row" and "position row' = position row"
  shows "lock_for_update (ledger_write db row row' t c) wid sku =
    Some (row'\<lparr>last_movement_at := Some (db_now db)\<rparr>)"
proof -
  have "find (at_position wid sku) (map (\<lambda>j. if position j = position row' then r else j) is) =
      (if find (at_position wid sku) is = None then None else Some r)"
    if "position row' = (wid, sku)" "position r = (wid, sku)" for r "is"
    using that by (induction "is") (auto simp: at_position_def)
  moreover have "position row = (wid, sku)" using lock_for_update_Some [OF assms(2)] by simp
  ultimately show ?thesis
    using assms(2,3) by (simp add: lock_for_update_def inventories_ledger_write)
qed

lemma ledger_write_elsewhere:
  assumes "position row' \<noteq> (wid, sku)"
  shows "lock_for_update (ledger_write db row row' t c) wid sku = lock_for_update db wid sku"
proof -
  have "find (at_position wid sku) (map (\<lambda>j. if position j = position row' then r else j) is) =
      find (at_position wid sku) is" if "position r = position row'" for r "is"
    using that assms by (induction "is") (auto simp: at_position_def)
  then show ?thesis by (simp add: lock_for_update_def inventories_ledger_write)
qed

lemma resolve_ledger_write [simp]:
  "resolve_warehouse (ledger_write db row row' t c) = resolve_warehouse db"
  by (intro ext) (simp add: resolve_warehouse_def warehouse_get_def get_default_def cong: option.case_cong)

text \<open>A keyed change of a row that passes the gate, seen from the position it changes.\<close>

lemma keyed_op_runs:
  assumes "stock_wf db" and "\<not> recorded db (sc_idempotency_key c)"
    and "resolve_warehouse db (sc_warehouse_id c) None = ok w"
    and "lock_for_update db (wh_id w) (sc_sku_id c) = Some row" and "gate row (sc_quantity c)"
    and "position (after row (sc_quantity c)) = position row"
  shows "keyed_op gate refusal after t noted db c =
      ok (accepted db c row (after row (sc_quantity c)) t (noted c))"
    and "lock_for_update (ledger_write db row (after row (sc_quantity c)) t (noted c)) (wh_id w)
      (sc_sku_id c) = Some ((after row (sc_quantity c))\<lparr>last_movement_at := Some (db_now db)\<rparr>)"
  using assms(2-5) ledger_write_lookup [OF assms(1,4,6)] by (simp_all add: keyed_op_def)

text \<open>
  The cumulative counters of a row minus its units on hand. The four keyed operations keep it.
\<close>

definition counter_drift :: "inventory \<Rightarrow> int" where
  "counter_drift i = total_in_qty i - total_out_qty i - on_hand_qty i"

lemma row_changes_drift [simp]:
  "counter_drift (reserved_row i q) = counter_drift i"
  "counter_drift (released_row i q) = counter_drift i"
  "counter_drift (deducted_row i q) = counter_drift i"
  "counter_drift (returned_row i q) = counter_drift i"
  by (simp_all add: counter_drift_def on_hand_qty_def row_changes)

end
