(* ===== verification/Inventory_Properties.thy ===== *)
theory Inventory_Properties
  imports Inventory_Ledger
begin

text \<open>
  What the stock component promises to the order, payment and refund workflows and to the console.
\<close>

section \<open>A small warehouse\<close>

definition sample_stock :: stock_db where
  "sample_stock =
    \<lparr>db_now = 100,
     warehouses = [\<lparr>wh_id = 1, wh_merchant_id = 1, wh_code = ''MAIN'', wh_active = True,
                    wh_is_default = True\<rparr>],
     inventories = [\<lparr>inv_id = 1, inv_merchant_id = 1, inv_warehouse_id = 1, inv_sku_id = 7,
                     available_qty = 0, locked_qty = 0, safety_stock = 2, total_in_qty = 0,
                     total_out_qty = 0, inv_version = 1, last_movement_at = None\<rparr>],
     movements = []\<rparr>"

definition sample_call :: "int \<Rightarrow> string \<Rightarrow> stock_call" where
  "sample_call q key =
    \<lparr>sc_sku_id = 7, sc_quantity = q, sc_idempotency_key = key, sc_warehouse_id = None,
     sc_reference_type = REF_ORDER, sc_reference_id = None, sc_operator_type = SYSTEM,
     sc_operator_id = None, sc_reason = None\<rparr>"

definition stocked :: stock_db where
  "stocked = (case adjust sample_stock (sample_call 10 ''in'') 1 PURCHASE_IN of
     Inr (_, db) \<Rightarrow> db | Inl _ \<Rightarrow> sample_stock)"

definition stocked_row :: inventory where
  "stocked_row = hd (inventories stocked)"

definition held :: "reservation_result \<times> stock_db" where
  "held = (case reserve stocked (sample_call 3 ''k'') of
     Inr x \<Rightarrow> x | Inl _ \<Rightarrow> (fresh_result (sample_call 3 ''k'') 0 stocked_row, stocked))"

lemma sample_opening: "opening_state sample_stock"
  by code_simp

lemma sample_adjust: "adjust sample_stock (sample_call 10 ''in'') 1 PURCHASE_IN =
    ok (stocked_row, stocked)"
  by code_simp

lemma sample_reserve: "reserve stocked (sample_call 3 ''k'') = ok (fst held, snd held)"
  by code_simp

lemma stocked_wf: "stock_wf stocked"
  using adjust_wf [OF opening_wf [OF sample_opening] sample_adjust] .

lemma stocked_lookup:
  "resolve_warehouse stocked None None = ok (hd (warehouses stocked))"
  "wh_id (hd (warehouses stocked)) = 1" "lock_for_update stocked 1 7 = Some stocked_row"
  "available_qty stocked_row = 10" "locked_qty stocked_row = 0" "safety_stock stocked_row = 2"
  "inv_version stocked_row = 2" "\<not> recorded stocked ''z''" "\<not> recorded (snd held) ''z''"
  "\<not> rr_replayed (fst held)"
  by code_simp+

lemma sample_call_sel [simp]:
  "sc_sku_id (sample_call q k) = 7" "sc_quantity (sample_call q k) = q"
  "sc_idempotency_key (sample_call q k) = k" "sc_warehouse_id (sample_call q k) = None"
  by (simp_all add: sample_call_def)

section \<open>Invariants\<close>

text \<open>
  C2: stock is never oversold, never applied twice and always explained. From an opening state,
  whatever operations follow, in any order and with any arguments, no quantity is negative
  (INV-001, INV-002), no two movements share a key (INV-003), every movement adds up, the
  movements of a position sum to its balance, and so the reconciliation never reports a
  mismatch (INV-007).
\<close>

theorem stock_always_explained:
  assumes "opening_state db" and "stock_reachable db db'"
  shows "stock_wf db' \<and>
    (\<forall>wid sku consistent detail. verify_ledger db' wid sku = ok (consistent, detail) \<longrightarrow> consistent)"
  using stock_reachable_wf [OF assms(2) opening_wf [OF assms(1)]] verify_ledger_wf by blast

theorem stock_always_explained_witness:
  "stock_wf (snd held) \<and> (\<exists>detail. verify_ledger (snd held) 1 7 = ok (True, detail))"
proof -
  have "stock_reachable sample_stock stocked"
    by (rule reach_step [OF reach_refl step_adjust [OF sample_adjust]])
  moreover have "stock_step stocked (snd held)" by (rule step_reserve [OF sample_reserve])
  ultimately have r: "stock_reachable sample_stock (snd held)" by (rule reach_step)
  have "is_ok (verify_ledger (snd held) 1 7)" by code_simp
  then obtain consistent detail where v: "verify_ledger (snd held) 1 7 = ok (consistent, detail)"
    by (cases "verify_ledger (snd held) 1 7") (auto simp: is_ok_def)
  note all = stock_always_explained [OF sample_opening r]
  with v have consistent by blast
  with v all show ?thesis by auto
qed

section \<open>Exactly once\<close>

text \<open>
  C13: a keyed stock change happens once. When one of the four operations has returned, the same
  call made again, however much later and whatever happened in between, returns the movement of
  the first call marked as replayed and leaves every table as it is.
\<close>

theorem stock_change_exactly_once:
  assumes "stock_wf db" and "op \<in> {reserve, release, deduct, return_in}"
    and "op db c = ok (r, db1)" and "stock_reachable db1 db2" and "sc_idempotency_key c \<noteq> []"
  shows "\<exists>r'. op db2 c = ok (r', db2) \<and> rr_replayed r' \<and> rr_movement_id r' = rr_movement_id r"
proof -
  have wf1: "stock_wf db1" using assms(1-3) keyed_wf by blast
  obtain ms where ms: "movements db2 = movements db1 @ ms"
    using stock_reachable_appends [OF assms(4) wf1] ..
  note once = reserving.exactly_once [OF assms(1) _ ms assms(5)]
    releasing.exactly_once [OF assms(1) _ ms assms(5)]
    deducting.exactly_once [OF assms(1) _ ms assms(5)]
    returning.exactly_once [OF assms(1) _ ms assms(5)]
  from assms(2,3) once show ?thesis by (elim insertE emptyE) (metis)+
qed

theorem stock_change_exactly_once_witness:
  "\<exists>r'. reserve (snd held) (sample_call 3 ''k'') = ok (r', snd held) \<and> rr_replayed r' \<and>
    rr_movement_id r' = rr_movement_id (fst held)"
  by (rule stock_change_exactly_once [where op = reserve, OF stocked_wf _ sample_reserve reach_refl])
    simp_all

section \<open>What a reservation does\<close>

text \<open>
  A reservation is decided by the row it locks and by nothing else. It succeeds exactly when
  the quantity fits above the safety stock; then the units move from available to locked, the
  other positions are untouched, and no constraint of the tables can refuse the write.
\<close>

theorem reserve_decides:
  assumes "stock_wf db" and "0 < sc_quantity c" and "sc_idempotency_key c \<noteq> []"
    and "\<not> recorded db (sc_idempotency_key c)" and "resolve_warehouse db (sc_warehouse_id c) None = ok w"
    and "lock_for_update db (wh_id w) (sc_sku_id c) = Some row"
  shows "if sc_quantity c \<le> available_qty row - safety_stock row
    then \<exists>r db' row'. reserve db c = ok (r, db') \<and> \<not> rr_replayed r \<and>
      lock_for_update db' (wh_id w) (sc_sku_id c) = Some row' \<and>
      available_qty row' = available_qty row - sc_quantity c \<and>
      locked_qty row' = locked_qty row + sc_quantity c \<and>
      (\<forall>wid sku. (wid, sku) \<noteq> (wh_id w, sc_sku_id c) \<longrightarrow>
        lock_for_update db' wid sku = lock_for_update db wid sku)
    else reserve db c = app_raise (Inventory_Err InsufficientStockError)"
proof (cases "sc_quantity c \<le> available_qty row - safety_stock row")
  case True
  let ?row' = "reserved_row row (sc_quantity c)"
  let ?db' = "ledger_write db row ?row' ORDER_LOCK (unexplained c)"
  note run = keyed_op_runs [OF assms(1,4,5,6), where
      gate = "\<lambda>i q. q \<le> available_qty i - safety_stock i" and after = reserved_row]
  have there: "lock_for_update ?db' wid sku = lock_for_update db wid sku"
    if "(wid, sku) \<noteq> (wh_id w, sc_sku_id c)" for wid sku
    using that lock_for_update_Some [OF assms(6)] by (intro ledger_write_elsewhere) auto
  have "reserve db c = ok (fresh_result c (Suc (length (movements db))) ?row', ?db')"
    unfolding reserve_eq [OF assms(1-3)] using run(1) True by (simp add: accepted_def)
  moreover have "lock_for_update ?db' (wh_id w) (sc_sku_id c) =
      Some (?row'\<lparr>last_movement_at := Some (db_now db)\<rparr>)"
    using run(2) True by simp
  ultimately show ?thesis
    using True there by (auto simp: fresh_result_def reserved_row_def)
next
  case False
  then show ?thesis
    using assms(4-6) unfolding reserve_eq [OF assms(1-3)] by (simp add: keyed_op_def)
qed

theorem reserve_decides_witness:
  "\<exists>r db' row'. reserve stocked (sample_call 8 ''z'') = ok (r, db') \<and> \<not> rr_replayed r \<and>
    lock_for_update db' 1 7 = Some row' \<and> available_qty row' = 2 \<and> locked_qty row' = 8"
  using reserve_decides [OF stocked_wf, of "sample_call 8 ''z''" "hd (warehouses stocked)" stocked_row]
  by (auto simp: stocked_lookup)

text \<open>
  What was reserved can be settled. After a reservation that was not a replay, a payment can
  always deduct and a cancellation can always release the same units under a key of its own; the
  release puts the row back to the balance from before the reservation, and the deduction leaves
  the units counted as gone.
\<close>

theorem reserved_units_settle:
  assumes "stock_wf db" and "reserve db c = ok (r, db1)" and "\<not> rr_replayed r"
    and "resolve_warehouse db (sc_warehouse_id c) None = ok w"
    and "lock_for_update db (wh_id w) (sc_sku_id c) = Some row"
    and "sc_sku_id d = sc_sku_id c" and "sc_quantity d = sc_quantity c"
    and "sc_warehouse_id d = sc_warehouse_id c" and "\<not> recorded db1 (sc_idempotency_key d)"
  shows "(\<exists>r2 db2 row2. release db1 d = ok (r2, db2) \<and>
      lock_for_update db2 (wh_id w) (sc_sku_id c) = Some row2 \<and>
      available_qty row2 = available_qty row \<and> locked_qty row2 = locked_qty row) \<and>
    (\<exists>r2 db2 row2. deduct db1 d = ok (r2, db2) \<and>
      lock_for_update db2 (wh_id w) (sc_sku_id c) = Some row2 \<and>
      available_qty row2 = available_qty row - sc_quantity c \<and> locked_qty row2 = locked_qty row \<and>
      total_out_qty row2 = total_out_qty row + sc_quantity c)"
proof -
  let ?q = "sc_quantity c"
  let ?row1 = "(reserved_row row ?q)\<lparr>last_movement_at := Some (db_now db)\<rparr>"
  have q: "0 < ?q" "sc_idempotency_key c \<noteq> []" using positive_quantity(1) [OF assms(2)] by auto
  have wf1: "stock_wf db1" by (rule reserving.wf [OF assms(1,2)])
  from assms(2-5) [unfolded reserve_eq [OF assms(1) q]]
  have db1: "db1 = ledger_write db row (reserved_row row ?q) ORDER_LOCK (unexplained c)"
    by (auto simp: keyed_op_def accepted_def replayed_result_def Let_def
        split: option.splits if_splits simp del: find_movement_None)
  have locked: "0 \<le> locked_qty row"
    using row_checks [OF assms(1)] lock_for_update_Some [OF assms(5)] by (auto simp: inventory_checks_def)
  have lock1: "lock_for_update db1 (wh_id w) (sc_sku_id d) = Some ?row1"
    unfolding db1 assms(6) by (rule ledger_write_lookup [OF assms(1,5)]) simp
  have res1: "resolve_warehouse db1 (sc_warehouse_id d) None = ok w"
    unfolding db1 using assms(4,8) by simp
  note run = keyed_op_runs [OF wf1 assms(9) res1 lock1, where gate = "\<lambda>i q. q \<le> locked_qty i"]
  have qd: "0 < sc_quantity d" and le: "sc_quantity d \<le> locked_qty ?row1"
    using q assms(7) locked by (simp_all add: reserved_row_def)
  have "release db1 d = ok (accepted db1 d ?row1 (released_row ?row1 (sc_quantity d)) ORDER_RELEASE (id d))"
    unfolding release_eq [OF wf1 qd] by (rule run(1) [OF le]) simp
  moreover note run(2) [OF le, of released_row ORDER_RELEASE id]
  moreover have "deduct db1 d =
      ok (accepted db1 d ?row1 (deducted_row ?row1 (sc_quantity d)) ORDER_DEDUCT (unexplained d))"
    unfolding deduct_eq [OF wf1 qd] by (rule run(1) [OF le]) simp
  moreover note run(2) [OF le, of deducted_row ORDER_DEDUCT unexplained]
  ultimately show ?thesis
    using assms(6,7) by (simp add: accepted_def) (simp add: row_changes)
qed

theorem reserved_units_settle_witness:
  "\<exists>r2 db2 row2. release (snd held) (sample_call 3 ''z'') = ok (r2, db2) \<and>
    lock_for_update db2 1 7 = Some row2 \<and> available_qty row2 = 10 \<and> locked_qty row2 = 0"
  using reserved_units_settle [OF stocked_wf sample_reserve, of "hd (warehouses stocked)" stocked_row
      "sample_call 3 ''z''"] by (simp add: stocked_lookup)

section \<open>Optimistic adjustments\<close>

text \<open>
  Of two operators who read the same version, one wins. Once an adjustment made with a
  version has been applied, an adjustment of the same position with that version and another key
  is refused with the version conflict, whatever its amount.
\<close>

theorem stale_adjustment_refused:
  assumes "stock_wf db" and "adjust db c version t = ok (i, db1)"
    and "\<not> recorded db (sc_idempotency_key c)" and "lock_for_update db (wh_id w) (sc_sku_id c) = Some row"
    and "resolve_warehouse db (sc_warehouse_id c) None = ok w"
    and "sc_sku_id d = sc_sku_id c" and "sc_warehouse_id d = sc_warehouse_id c"
    and "sc_quantity d \<noteq> 0" and "\<not> recorded db1 (sc_idempotency_key d)"
  shows "adjust db1 d version t' = app_raise (Inventory_Err InventoryVersionConflictError)"
proof -
  obtain row' noted where
    db1: "db1 = ledger_write db row row' t noted" and v: "inv_version row' = version + 1"
    and p: "position row' = position row" by (rule adjust_at [OF assms(1,2,3,5,4)]) (rule that)
  have "lock_for_update db1 (wh_id w) (sc_sku_id d) = Some (row'\<lparr>last_movement_at := Some (db_now db)\<rparr>)"
    unfolding db1 assms(6) by (rule ledger_write_lookup [OF assms(1,4) p])
  moreover have "resolve_warehouse db1 (sc_warehouse_id d) None = ok w"
    unfolding db1 assms(7) using assms(5) by simp
  moreover have "find_movement_by_idempotency_key db1 (sc_idempotency_key d) = None"
    using assms(9) by simp
  ultimately show ?thesis
    using assms(8) v unfolding adjust_def by (simp add: Let_def)
qed

theorem stale_adjustment_refused_witness:
  "adjust stocked (sample_call 4 ''z'') 1 MANUAL_ADJUST =
    app_raise (Inventory_Err InventoryVersionConflictError)"
proof (rule stale_adjustment_refused [OF opening_wf [OF sample_opening] sample_adjust])
  show "lock_for_update sample_stock (wh_id (hd (warehouses sample_stock)))
      (sc_sku_id (sample_call 10 ''in'')) = Some (hd (inventories sample_stock))"
    and "resolve_warehouse sample_stock (sc_warehouse_id (sample_call 10 ''in'')) None =
      ok (hd (warehouses sample_stock))"
    and "\<not> recorded sample_stock (sc_idempotency_key (sample_call 10 ''in''))"
    by code_simp+
qed (simp_all add: stocked_lookup)

text \<open>
  The cumulative counters do not explain the balance after a write-off. The four keyed
  operations keep the difference between the counters and the units on hand, an adjustment
  upwards does too, but an adjustment downwards moves it by the whole amount, since no counter
  records the units that left.
\<close>

theorem write_off_leaves_counters:
  assumes "stock_wf db" and "adjust db c version t = ok (i, db1)"
    and "\<not> recorded db (sc_idempotency_key c)" and "lock_for_update db (wh_id w) (sc_sku_id c) = Some row"
    and "resolve_warehouse db (sc_warehouse_id c) None = ok w"
  shows "counter_drift i = counter_drift row - min 0 (sc_quantity c)"
  by (rule adjust_at [OF assms(1,2,3,5,4)]) (simp add: counter_drift_def on_hand_qty_def)

theorem write_off_leaves_counters_witness:
  "\<exists>i db1. adjust stocked (sample_call (-4) ''z'') 2 DAMAGED_OUT = ok (i, db1) \<and>
    counter_drift stocked_row = 0 \<and> counter_drift i = 4"
proof -
  have "is_ok (adjust stocked (sample_call (-4) ''z'') 2 DAMAGED_OUT)" by code_simp
  then obtain i db1 where a: "adjust stocked (sample_call (-4) ''z'') 2 DAMAGED_OUT = ok (i, db1)"
    by (auto simp: is_ok_ex)
  have "counter_drift stocked_row = 0" by code_simp
  with write_off_leaves_counters [OF stocked_wf a, of "hd (warehouses stocked)" stocked_row] a
  show ?thesis by (simp add: stocked_lookup)
qed

section \<open>The console\<close>

text \<open>
  The ledger listing has no second page. Whatever page is asked for, the console receives
  the newest movements again: the repository is asked for more rows, and the slice taken from
  them starts at the newest.
\<close>

theorem movements_page_ignores_page:
  "movements_page db sku (Suc page) page_size type_arg = movements_page db sku 1 page_size type_arg"
  by (simp add: movements_page_def movements_for_def Let_def min_def)

end
