(* ===== verification/Inventory_Concurrency.thy ===== *)
theory Inventory_Concurrency
  imports Inventory_Ledger
begin

text \<open>
  Concurrent reservations. \<open>InventoryService.reserve\<close> runs in many transactions at once; between
  its key lookup, its \<open>SELECT ... FOR UPDATE\<close> and its write, other transactions commit. A thread
  is the phase it has reached, \<open>advance\<close> is its next atomic step (none while the row lock is
  taken by another thread), and a schedule is any list of thread numbers. The write and the commit
  that releases the lock are one step. The result is that every schedule has the effect of the
  sequential calls, in the order of their commits.
\<close>

section \<open>Threads\<close>

datatype phase =
    Idle
  | Looked int
  | Holding int inventory
  | Returned reservation_result
  | Refused exn

record 'd threads =
  committed :: 'd
  row_owner :: "int \<times> int \<Rightarrow> nat option"
  phase_of :: "nat \<Rightarrow> phase"

definition set_phase :: "nat \<Rightarrow> phase \<Rightarrow> 'd threads \<Rightarrow> 'd threads" where
  "set_phase t p s = s\<lparr>phase_of := (phase_of s)(t := p)\<rparr>"

definition commit_release :: "nat \<Rightarrow> int \<times> int \<Rightarrow> 'd \<Rightarrow> phase \<Rightarrow> 'd threads \<Rightarrow> 'd threads" where
  "commit_release t pos d p s =
    s\<lparr>committed := d, row_owner := (row_owner s)(pos := None), phase_of := (phase_of s)(t := p)\<rparr>"

text \<open>Up to the lookup of the key, on what is committed so far.\<close>

definition look :: "'a stock_db_scheme \<Rightarrow> stock_call \<Rightarrow> phase" where
  "look db c =
    (if sc_quantity c \<le> 0 \<or> sc_idempotency_key c = [] then Refused (AppError (Common ValidationError))
     else case find_movement_by_idempotency_key db (sc_idempotency_key c) of
       Some m \<Rightarrow> Returned (replayed_result db c m)
     | None \<Rightarrow> (case resolve_warehouse db (sc_warehouse_id c) None of
         Inl e \<Rightarrow> Refused e
       | Inr w \<Rightarrow> Looked (wh_id w)))"

text \<open>From the locked row to the end of the transaction.\<close>

definition decide :: "'a stock_db_scheme \<Rightarrow> stock_call \<Rightarrow> inventory \<Rightarrow> phase \<times> 'a stock_db_scheme" where
  "decide db c row =
    (if can_reserve row (sc_quantity c)
     then case append_ledger db row (row\<lparr>available_qty := available_qty row - sc_quantity c,
            locked_qty := locked_qty row + sc_quantity c, inv_version := inv_version row + 1\<rparr>)
            ORDER_LOCK (unexplained c) of
          Inl e \<Rightarrow> (Refused e, db)
        | Inr (mid, i, db') \<Rightarrow> (Returned (fresh_result c mid i), db')
     else (Refused (AppError (Inventory_Err InsufficientStockError)), db))"

definition advance ::
  "(nat \<Rightarrow> stock_call) \<Rightarrow> nat \<Rightarrow> 'a stock_db_scheme threads \<Rightarrow> 'a stock_db_scheme threads option" where
  "advance calls t s =
    (let c = calls t; db = committed s in
     case phase_of s t of
       Idle \<Rightarrow> Some (set_phase t (look db c) s)
     | Looked wid \<Rightarrow>
         (let pos = (wid, sc_sku_id c) in
          if row_owner s pos \<noteq> None then None
          else case lock_for_update db wid (sc_sku_id c) of
            None \<Rightarrow> Some (set_phase t (Refused (AppError (Inventory_Err InventoryNotFoundError))) s)
          | Some row \<Rightarrow>
              Some ((set_phase t (Holding wid row) s)\<lparr>row_owner := (row_owner s)(pos \<mapsto> t)\<rparr>))
     | Holding wid row \<Rightarrow>
         (let (p, db') = decide db c row in Some (commit_release t (wid, sc_sku_id c) db' p s))
     | _ \<Rightarrow> None)"

definition turn :: "(nat \<Rightarrow> stock_call) \<Rightarrow> 'a stock_db_scheme threads \<Rightarrow> nat \<Rightarrow> 'a stock_db_scheme threads" where
  "turn calls s t = (case advance calls t s of None \<Rightarrow> s | Some s' \<Rightarrow> s')"

definition schedule ::
  "(nat \<Rightarrow> stock_call) \<Rightarrow> nat list \<Rightarrow> 'a stock_db_scheme threads \<Rightarrow> 'a stock_db_scheme threads" where
  "schedule calls ts s = foldl (turn calls) s ts"

definition started :: "'d \<Rightarrow> 'd threads" where
  "started db = \<lparr>committed = db, row_owner = (\<lambda>_. None), phase_of = (\<lambda>_. Idle)\<rparr>"

definition won :: "phase \<Rightarrow> bool" where
  "won p \<longleftrightarrow> (case p of Returned r \<Rightarrow> \<not> rr_replayed r | _ \<Rightarrow> False)"

definition finished :: "phase \<Rightarrow> bool" where
  "finished p \<longleftrightarrow> (case p of Returned _ \<Rightarrow> True | Refused _ \<Rightarrow> True | _ \<Rightarrow> False)"

section \<open>The lock discipline\<close>

text \<open>
  The three ways a decision ends, on a committed state in which the row read is current: it is the
  sequential call, or another transaction has used the key since the lookup.
\<close>

lemma decide_cases:
  assumes wf: "stock_wf db" and row: "lock_for_update db wid (sc_sku_id c) = Some row"
    and q: "0 < sc_quantity c"
  obtains (reserved) "\<not> recorded db (sc_idempotency_key c)"
      "sc_quantity c \<le> available_qty row - safety_stock row"
      "decide db c row = (Returned (fresh_result c (Suc (length (movements db)))
         (reserved_row row (sc_quantity c))),
       ledger_write db row (reserved_row row (sc_quantity c)) ORDER_LOCK (unexplained c))"
    | (short) "\<not> sc_quantity c \<le> available_qty row - safety_stock row"
      "decide db c row = (Refused (AppError (Inventory_Err InsufficientStockError)), db)"
    | (taken) "recorded db (sc_idempotency_key c)"
      "decide db c row = (Refused (AppError (Inventory_Err InventoryVersionConflictError)), db)"
proof (cases "sc_quantity c \<le> available_qty row - safety_stock row")
  case False
  then have "\<not> can_reserve row (sc_quantity c)"
    using q by (simp add: can_reserve_def sellable_qty_def)
  with short False show ?thesis by (simp add: decide_def)
next
  case fits: True
  then have can: "can_reserve row (sc_quantity c)"
    using q by (simp add: can_reserve_def sellable_qty_def)
  let ?row' = "reserved_row row (sc_quantity c)"
  note mem = lock_for_update_Some [OF row]
  have checks: "inventory_checks ?row'" using checked_rows(1) [OF wf row q fits] .
  show ?thesis
  proof (cases "recorded db (sc_idempotency_key c)")
    case True
    then have "flush_movement db ?row' (build_movement k row ?row' ORDER_LOCK (unexplained c)) =
        raise (IntegrityError ''inventory_movements'')" for k
      by (auto simp: flush_movement_def build_movement_def)
    with True can taken show ?thesis
      by (simp add: decide_def append_ledger_def reserved_row_def [symmetric] Let_def)
  next
    case False
    with append_ledger_ok [OF wf, of row ?row' "unexplained c" ORDER_LOCK] mem checks can fits reserved
    show ?thesis by (simp add: decide_def reserved_row_def [symmetric])
  qed
qed

lemma reserve_runs:
  assumes "stock_wf db" and "0 < sc_quantity c" and "sc_idempotency_key c \<noteq> []"
    and "lock_for_update db wid (sc_sku_id c) = Some row"
    and "resolve_warehouse db (sc_warehouse_id c) None = ok w" and "wh_id w = wid"
    and "\<not> recorded db (sc_idempotency_key c)" and "sc_quantity c \<le> available_qty row - safety_stock row"
  shows "reserve db c = ok (fresh_result c (Suc (length (movements db))) (reserved_row row (sc_quantity c)),
    ledger_write db row (reserved_row row (sc_quantity c)) ORDER_LOCK (unexplained c))"
  unfolding reserve_eq [OF assms(1-3)] using assms(4-8) by (simp add: keyed_op_def accepted_def)

text \<open>
  The invariant of a run from \<open>db0\<close>: what is committed is reachable by sequential calls, a thread
  past its lookup has valid arguments, and a thread that holds a row owns its lock and has read
  what is still committed.
\<close>

definition past_lookup :: "'a stock_db_scheme \<Rightarrow> stock_call \<Rightarrow> int \<Rightarrow> bool" where
  "past_lookup db c wid \<longleftrightarrow> 0 < sc_quantity c \<and> sc_idempotency_key c \<noteq> [] \<and>
    (\<exists>w. resolve_warehouse db (sc_warehouse_id c) None = ok w \<and> wh_id w = wid)"

definition sound :: "(nat \<Rightarrow> stock_call) \<Rightarrow> 'a stock_db_scheme \<Rightarrow> 'a stock_db_scheme threads \<Rightarrow> bool" where
  "sound calls db0 s \<longleftrightarrow>
    stock_reachable db0 (committed s) \<and>
    resolve_warehouse (committed s) = resolve_warehouse db0 \<and>
    (\<forall>t wid. phase_of s t = Looked wid \<longrightarrow> past_lookup db0 (calls t) wid) \<and>
    (\<forall>t wid row. phase_of s t = Holding wid row \<longrightarrow> past_lookup db0 (calls t) wid \<and>
      row_owner s (wid, sc_sku_id (calls t)) = Some t \<and>
      lock_for_update (committed s) wid (sc_sku_id (calls t)) = Some row)"

lemma soundD:
  assumes "sound calls db0 s"
  shows "stock_reachable db0 (committed s)" and "resolve_warehouse (committed s) = resolve_warehouse db0"
    and "phase_of s t = Looked wid \<Longrightarrow> past_lookup db0 (calls t) wid"
    and "phase_of s t = Holding wid row \<Longrightarrow> past_lookup db0 (calls t) wid"
    and "phase_of s t = Holding wid row \<Longrightarrow> row_owner s (wid, sc_sku_id (calls t)) = Some t"
    and "phase_of s t = Holding wid row \<Longrightarrow>
      lock_for_update (committed s) wid (sc_sku_id (calls t)) = Some row"
  using assms by (auto simp: sound_def)

lemma look_cases:
  "look db c = Looked wid \<Longrightarrow> past_lookup db c wid"
  "look db c \<noteq> Holding wid row" "look db c \<noteq> Idle"
  by (auto simp: look_def past_lookup_def split: if_splits option.splits sum.splits)

lemma decide_phase: "fst (decide db c row) \<noteq> Looked wid" "fst (decide db c row) \<noteq> Holding wid r"
    "fst (decide db c row) \<noteq> Idle"
  by (auto simp: decide_def split: sum.splits prod.splits)

text \<open>A commit is the sequential call on the state it commits to, or changes nothing.\<close>

lemma decide_step:
  assumes "stock_wf db" and "resolve_warehouse db = resolve_warehouse db0"
    and "past_lookup db0 c wid" and "lock_for_update db wid (sc_sku_id c) = Some row"
    and "decide db c row = (p, db')"
  shows "(db' = db \<and> \<not> won p) \<or>
    (\<exists>r. reserve db c = ok (r, db') \<and> p = Returned r \<and> \<not> rr_replayed r)"
    and "resolve_warehouse db' = resolve_warehouse db"
    and "(w', k') \<noteq> (wid, sc_sku_id c) \<Longrightarrow> lock_for_update db' w' k' = lock_for_update db w' k'"
proof -
  have q: "0 < sc_quantity c" "sc_idempotency_key c \<noteq> []" using assms(3) by (auto simp: past_lookup_def)
  obtain w where w: "resolve_warehouse db (sc_warehouse_id c) None = ok w" "wh_id w = wid"
    using assms(2,3) by (auto simp: past_lookup_def)
  note pos = lock_for_update_Some [OF assms(4)]
  have all: "((db' = db \<and> \<not> won p) \<or>
      (\<exists>r. reserve db c = ok (r, db') \<and> p = Returned r \<and> \<not> rr_replayed r)) \<and>
    resolve_warehouse db' = resolve_warehouse db \<and>
    ((w', k') \<noteq> (wid, sc_sku_id c) \<longrightarrow> lock_for_update db' w' k' = lock_for_update db w' k')"
  proof (rule decide_cases [OF assms(1,4) q(1)])
    assume new: "\<not> recorded db (sc_idempotency_key c)"
      and fits: "sc_quantity c \<le> available_qty row - safety_stock row"
      and d: "decide db c row = (Returned (fresh_result c (Suc (length (movements db)))
          (reserved_row row (sc_quantity c))),
        ledger_write db row (reserved_row row (sc_quantity c)) ORDER_LOCK (unexplained c))"
    have "lock_for_update db' w' k' = lock_for_update db w' k'" if "(w', k') \<noteq> (wid, sc_sku_id c)"
      using that pos d assms(5) by (auto intro!: ledger_write_elsewhere)
    with d assms(5) reserve_runs [OF assms(1) q assms(4) w new fits] show ?thesis
      by (auto simp: fresh_result_def)
  qed (use assms(5) in \<open>auto simp: won_def\<close>)
  then show "(db' = db \<and> \<not> won p) \<or>
      (\<exists>r. reserve db c = ok (r, db') \<and> p = Returned r \<and> \<not> rr_replayed r)"
    and "resolve_warehouse db' = resolve_warehouse db"
    and "(w', k') \<noteq> (wid, sc_sku_id c) \<Longrightarrow> lock_for_update db' w' k' = lock_for_update db w' k'"
    by blast+
qed

lemma advance_sound:
  assumes "stock_wf db0" and inv: "sound calls db0 s" and adv: "advance calls t s = Some s'"
  shows "sound calls db0 s'"
proof (cases "phase_of s t")
  case Idle
  then have "s' = set_phase t (look (committed s) (calls t)) s"
    using adv by (simp add: advance_def Let_def)
  then show ?thesis
    using inv look_cases(1) [of "committed s" "calls t"]
    by (auto simp: sound_def set_phase_def look_cases(2) past_lookup_def)
next
  case (Looked wid)
  then show ?thesis
    using adv inv
    by (auto simp: advance_def Let_def sound_def set_phase_def split: if_splits option.splits)
      (metis option.distinct(1))
next
  case (Holding wid row)
  let ?c = "calls t"
  obtain p db' where d: "decide (committed s) ?c row = (p, db')" by force
  then have s': "s' = commit_release t (wid, sc_sku_id ?c) db' p s"
    using adv Holding by (simp add: advance_def Let_def)
  have wf: "stock_wf (committed s)"
    using stock_reachable_wf [OF soundD(1) [OF inv] assms(1)] .
  note at = soundD(4-6) [OF inv Holding]
  note step = decide_step [OF wf soundD(2) [OF inv] at(1,3) d]
  have "stock_reachable db0 db'"
    using step(1) soundD(1) [OF inv] by (blast intro: reach_step step_reserve)
  moreover have "resolve_warehouse db' = resolve_warehouse db0" using step(2) soundD(2) [OF inv] by simp
  moreover have "(wid', sc_sku_id (calls t')) \<noteq> (wid, sc_sku_id ?c)"
    if "phase_of s t' = Holding wid' row'" "t' \<noteq> t" for t' wid' row'
    using soundD(5) [OF inv that(1)] at(2) that(2) by auto
  ultimately show ?thesis
    using inv step(3) decide_phase [of "committed s" ?c row] d
    by (auto simp: s' sound_def commit_release_def)
qed (use adv in \<open>simp_all add: advance_def Let_def\<close>)

lemma turn_sound: "stock_wf db0 \<Longrightarrow> sound calls db0 s \<Longrightarrow> sound calls db0 (turn calls s t)"
  by (auto simp: turn_def split: option.splits intro: advance_sound)

lemma started_sound: "sound calls db (started db)"
  by (simp add: sound_def started_def reach_refl)

lemma schedule_sound: "stock_wf db0 \<Longrightarrow> sound calls db0 s \<Longrightarrow> sound calls db0 (schedule calls ts s)"
  by (induction ts arbitrary: s) (simp_all add: schedule_def turn_sound)

section \<open>Buyers of one position\<close>

text \<open>
  FG-09: \<open>n\<close> buyers, one unit each of the same SKU in the same warehouse, each with a key of its
  own that the ledger has not seen.
\<close>

definition buyers ::
  "nat \<Rightarrow> (nat \<Rightarrow> stock_call) \<Rightarrow> 'a stock_db_scheme \<Rightarrow> warehouse \<Rightarrow> int \<Rightarrow> inventory \<Rightarrow> bool" where
  "buyers n calls db w sku row \<longleftrightarrow>
    lock_for_update db (wh_id w) sku = Some row \<and>
    inj_on (\<lambda>t. sc_idempotency_key (calls t)) {..<n} \<and>
    (\<forall>t < n. sc_quantity (calls t) = 1 \<and> sc_sku_id (calls t) = sku \<and>
      resolve_warehouse db (sc_warehouse_id (calls t)) None = ok w \<and>
      sc_idempotency_key (calls t) \<noteq> [] \<and> \<not> recorded db (sc_idempotency_key (calls t)))"

definition winners :: "nat \<Rightarrow> 'd threads \<Rightarrow> nat set" where
  "winners n s = {t. t < n \<and> won (phase_of s t)}"

lemma finite_winners [simp]: "finite (winners n s)"
  by (simp add: winners_def)

text \<open>What is true of the position and of the buyers at every moment of a run.\<close>

definition tally ::
  "nat \<Rightarrow> (nat \<Rightarrow> stock_call) \<Rightarrow> 'a stock_db_scheme \<Rightarrow> warehouse \<Rightarrow> int \<Rightarrow> inventory \<Rightarrow>
   'a stock_db_scheme threads \<Rightarrow> bool" where
  "tally n calls db w sku row s \<longleftrightarrow>
    (\<exists>now. lock_for_update (committed s) (wh_id w) sku = Some now \<and>
      available_qty now = available_qty row - int (card (winners n s)) \<and>
      locked_qty now = locked_qty row + int (card (winners n s)) \<and>
      safety_stock now = safety_stock row) \<and>
    (winners n s \<noteq> {} \<longrightarrow>
      int (card (winners n s)) \<le> available_qty row - safety_stock row) \<and>
    (\<forall>k. recorded (committed s) k \<longrightarrow>
      recorded db k \<or> (\<exists>t \<in> winners n s. k = sc_idempotency_key (calls t))) \<and>
    (\<forall>t < n. finished (phase_of s t) \<longrightarrow> won (phase_of s t) \<or>
      phase_of s t = Refused (AppError (Inventory_Err InsufficientStockError)) \<and>
      available_qty row - safety_stock row \<le> int (card (winners n s)))"

lemma tallyE:
  assumes "tally n calls db w sku row s"
  obtains now where "lock_for_update (committed s) (wh_id w) sku = Some now"
    and "available_qty now = available_qty row - int (card (winners n s))"
    and "locked_qty now = locked_qty row + int (card (winners n s))"
    and "safety_stock now = safety_stock row"
    and "winners n s \<noteq> {} \<Longrightarrow> int (card (winners n s)) \<le> available_qty row - safety_stock row"
    and "\<And>k. recorded (committed s) k \<Longrightarrow>
      recorded db k \<or> (\<exists>t \<in> winners n s. k = sc_idempotency_key (calls t))"
    and "\<And>t. t < n \<Longrightarrow> finished (phase_of s t) \<Longrightarrow> won (phase_of s t) \<or>
      phase_of s t = Refused (AppError (Inventory_Err InsufficientStockError)) \<and>
      available_qty row - safety_stock row \<le> int (card (winners n s))"
  using assms unfolding tally_def by blast

lemma tally_same:
  assumes "tally n calls db w sku row s" and "committed s' = committed s"
    and "\<And>u. u \<noteq> t \<Longrightarrow> phase_of s' u = phase_of s u"
    and "\<not> won (phase_of s t)" and "\<not> won (phase_of s' t)"
    and "finished (phase_of s' t) \<Longrightarrow> t < n \<Longrightarrow>
      phase_of s' t = Refused (AppError (Inventory_Err InsufficientStockError)) \<and>
      available_qty row - safety_stock row \<le> int (card (winners n s))"
  shows "tally n calls db w sku row s'"
proof -
  have "won (phase_of s' u) = won (phase_of s u)" for u using assms(3-5) by (cases "u = t") auto
  then have "winners n s' = winners n s" by (simp add: winners_def)
  moreover have "won (phase_of s' u) \<or>
      phase_of s' u = Refused (AppError (Inventory_Err InsufficientStockError)) \<and>
      available_qty row - safety_stock row \<le> int (card (winners n s))"
    if "u < n" "finished (phase_of s' u)" for u
    using that assms(1,3,6) by (cases "u = t") (auto simp: tally_def)
  ultimately show ?thesis using assms(1,2) by (simp add: tally_def)
qed

lemma unused_key:
  assumes "buyers n calls db w sku row" and "tally n calls db w sku row s" and "t < n"
    and "\<not> won (phase_of s t)"
  shows "\<not> recorded (committed s) (sc_idempotency_key (calls t))"
proof
  assume "recorded (committed s) (sc_idempotency_key (calls t))"
  with assms(1,2,3) obtain u where "u \<in> winners n s" and
    "sc_idempotency_key (calls t) = sc_idempotency_key (calls u)"
    by (auto simp: tally_def buyers_def)
  with assms show False by (auto simp: buyers_def winners_def dest!: inj_onD)
qed

lemma won_simps [simp]:
  "\<not> won Idle" "\<not> won (Looked wid)" "\<not> won (Holding wid r)" "\<not> won (Refused e)"
  "\<not> finished Idle" "\<not> finished (Looked wid)" "\<not> finished (Holding wid r)" "finished (Refused e)"
  by (simp_all add: won_def finished_def)

lemma advance_tally_won:
  assumes b: "buyers n calls db w sku row" and wf: "stock_wf (committed s)"
    and tal: "tally n calls db w sku row s" and t: "t < n" and n: "\<not> won (phase_of s t)"
    and lock: "lock_for_update (committed s) (wh_id w) sku = Some now"
    and fits: "1 \<le> available_qty now - safety_stock now"
    and s': "s' = commit_release t (wh_id w, sku)
      (ledger_write (committed s) now (reserved_row now 1) ORDER_LOCK (unexplained (calls t)))
      (Returned r) s" and r: "\<not> rr_replayed r"
  shows "tally n calls db w sku row s'"
proof -
  let ?db' = "ledger_write (committed s) now (reserved_row now 1) ORDER_LOCK (unexplained (calls t))"
  have wins: "winners n s' = insert t (winners n s)"
    using t r by (auto simp: winners_def s' commit_release_def won_def)
  have "t \<notin> winners n s" using n by (simp add: winners_def)
  then have card: "card (winners n s') = Suc (card (winners n s))" by (simp add: wins)
  have lock': "lock_for_update ?db' (wh_id w) sku = Some ((reserved_row now 1)\<lparr>last_movement_at :=
      Some (db_now (committed s))\<rparr>)"
    by (rule ledger_write_lookup [OF wf lock]) simp
  from tal lock have now: "available_qty now = available_qty row - int (card (winners n s))"
      "locked_qty now = locked_qty row + int (card (winners n s))" "safety_stock now = safety_stock row"
    by (auto elim!: tallyE)
  have other: "won (phase_of s' u) \<or>
      phase_of s' u = Refused (AppError (Inventory_Err InsufficientStockError)) \<and>
      available_qty row - safety_stock row \<le> int (card (winners n s'))"
    if "u < n" "finished (phase_of s' u)" for u
  proof (cases "u = t")
    case True
    with r show ?thesis by (simp add: s' commit_release_def won_def)
  next
    case False
    then have "phase_of s' u = phase_of s u" by (simp add: s' commit_release_def)
    with tal that card show ?thesis by (auto elim!: tallyE)
  qed
  have keys: "recorded db k \<or> (\<exists>t \<in> winners n s'. k = sc_idempotency_key (calls t))"
    if "recorded ?db' k" for k
    using that tal wins by (auto elim!: tallyE)
  have "committed s' = ?db'" by (simp add: s' commit_release_def)
  with lock' now fits card other keys show ?thesis by (auto simp: tally_def reserved_row_def)
qed

lemma advance_tally:
  assumes b: "buyers n calls db w sku row" and wf: "stock_wf db" and inv: "sound calls db s"
    and tal: "tally n calls db w sku row s" and t: "t < n" and adv: "advance calls t s = Some s'"
  shows "tally n calls db w sku row s'"
proof -
  have c: "sc_quantity (calls t) = 1" "sc_sku_id (calls t) = sku" "sc_idempotency_key (calls t) \<noteq> []"
      "resolve_warehouse (committed s) (sc_warehouse_id (calls t)) None = ok w"
      "resolve_warehouse db (sc_warehouse_id (calls t)) None = ok w"
    using b t soundD(2) [OF inv] by (simp_all add: buyers_def)
  from tal obtain now where lock: "lock_for_update (committed s) (wh_id w) sku = Some now"
    and now: "available_qty now = available_qty row - int (card (winners n s))"
      "safety_stock now = safety_stock row" by (rule tallyE)
  have wfs: "stock_wf (committed s)" using stock_reachable_wf [OF soundD(1) [OF inv] wf] .
  have wid: "wid = wh_id w" if "past_lookup db (calls t) wid" for wid
    using that c(5) by (simp add: past_lookup_def)
  show ?thesis
  proof (cases "phase_of s t")
    case Idle
    with unused_key [OF b tal t] have "look (committed s) (calls t) = Looked (wh_id w)"
      using c by (simp add: look_def)
    with Idle adv show ?thesis
      by (intro tally_same [OF tal, of _ t]) (auto simp: advance_def Let_def set_phase_def)
  next
    case (Looked wid)
    with wid soundD(3) [OF inv Looked] have "wid = wh_id w" by simp
    with Looked adv lock c show ?thesis
      by (intro tally_same [OF tal, of _ t])
        (auto simp: advance_def Let_def set_phase_def split: if_splits)
  next
    case (Holding wid row')
    with wid soundD(4) [OF inv Holding] have w: "wid = wh_id w" by simp
    with soundD(6) [OF inv Holding] c lock have row': "row' = now" by simp
    have not: "\<not> won (phase_of s t)" using Holding by simp
    obtain p db' where d: "decide (committed s) (calls t) now = (p, db')" by force
    have s': "s' = commit_release t (wh_id w, sku) db' p s"
      using adv Holding d w row' c by (simp add: advance_def Let_def)
    have q: "0 < sc_quantity (calls t)" using c by simp
    have lock': "lock_for_update (committed s) (wh_id w) (sc_sku_id (calls t)) = Some now"
      using lock c by simp
    show ?thesis
    proof (rule decide_cases [OF wfs lock' q])
      assume fits: "sc_quantity (calls t) \<le> available_qty now - safety_stock now"
        and run: "decide (committed s) (calls t) now = (Returned (fresh_result (calls t)
          (Suc (length (movements (committed s)))) (reserved_row now (sc_quantity (calls t)))),
          ledger_write (committed s) now (reserved_row now (sc_quantity (calls t))) ORDER_LOCK
            (unexplained (calls t)))"
      show ?thesis
        by (rule advance_tally_won [OF b wfs tal t not lock])
          (use fits run d s' c in \<open>auto simp: fresh_result_def\<close>)
    next
      assume "\<not> sc_quantity (calls t) \<le> available_qty now - safety_stock now"
        and "decide (committed s) (calls t) now =
          (Refused (AppError (Inventory_Err InsufficientStockError)), committed s)"
      with d s' now c not show ?thesis
        by (intro tally_same [OF tal, of _ t]) (auto simp: commit_release_def)
    next
      assume "recorded (committed s) (sc_idempotency_key (calls t))"
      with unused_key [OF b tal t not] show ?thesis by simp
    qed
  qed (use adv in \<open>simp_all add: advance_def Let_def\<close>)
qed

lemma started_tally: "buyers n calls db w sku row \<Longrightarrow> tally n calls db w sku row (started db)"
  by (simp add: tally_def buyers_def winners_def started_def)

lemma schedule_tally:
  assumes b: "buyers n calls db w sku row" and wf: "stock_wf db"
  shows "sound calls db s \<Longrightarrow> tally n calls db w sku row s \<Longrightarrow> \<forall>t \<in> set ts. t < n \<Longrightarrow>
    tally n calls db w sku row (schedule calls ts s)"
proof (induction ts arbitrary: s)
  case (Cons t ts)
  then have "tally n calls db w sku row (turn calls s t)"
    using advance_tally [OF b wf] by (auto simp: turn_def split: option.splits)
  with Cons turn_sound [OF wf] show ?case by (simp add: schedule_def)
qed (simp add: schedule_def)

section \<open>Properties\<close>

text \<open>
  Cutting \<open>reserve\<close> into transaction steps is faithful. A thread that runs alone ends, after
  its three steps, with exactly the answer of the sequential call and leaves exactly its state,
  whatever the call and the tables.
\<close>

theorem solo_run_is_reserve:
  "(case reserve db (calls t) of
      Inr (r, db') \<Rightarrow> phase_of (schedule calls [t, t, t] (started db)) t = Returned r \<and>
        committed (schedule calls [t, t, t] (started db)) = db'
    | Inl e \<Rightarrow> phase_of (schedule calls [t, t, t] (started db)) t = Refused e \<and>
        committed (schedule calls [t, t, t] (started db)) = db)"
  by (simp add: reserve_def schedule_def turn_def advance_def Let_def look_def decide_def started_def
      set_phase_def commit_release_def require_def bindE_def
      split: option.splits sum.splits prod.splits)

text \<open>
  C17: every interleaving serialises. Whatever calls the threads make, on the same or on different
  rows, with shared or distinct keys, and however their steps are interleaved, what is committed
  is reachable by complete sequential calls, so all the invariants of the ledger hold at every
  moment.
\<close>

theorem interleavings_serialise:
  assumes "stock_wf db"
  shows "stock_reachable db (committed (schedule calls ts (started db))) \<and>
    stock_wf (committed (schedule calls ts (started db)))"
  using soundD(1) [OF schedule_sound [OF assms started_sound]] stock_reachable_wf assms by blast

text \<open>
  C3: twenty buyers, one unit (FG-09). Of \<open>n\<close> concurrent buyers of one unit each, under any
  interleaving that lets all of them finish, exactly as many succeed as there are units above the
  safety stock, every other one is told that the stock is insufficient, and the row has lost
  exactly the units that were sold.
\<close>

theorem concurrent_buyers_exact:
  assumes "stock_wf db" and "buyers n calls db w sku row" and "\<forall>t \<in> set ts. t < n"
    and "s = schedule calls ts (started db)" and "\<forall>t < n. finished (phase_of s t)"
  shows "int (card (winners n s)) = min (int n) (max 0 (available_qty row - safety_stock row)) \<and>
    (\<forall>t < n. t \<notin> winners n s \<longrightarrow>
      phase_of s t = Refused (AppError (Inventory_Err InsufficientStockError))) \<and>
    (\<exists>now. lock_for_update (committed s) (wh_id w) sku = Some now \<and>
      available_qty now = available_qty row - int (card (winners n s)) \<and>
      locked_qty now = locked_qty row + int (card (winners n s)))"
proof -
  let ?k = "int (card (winners n s))" and ?u = "available_qty row - safety_stock row"
  have tal: "tally n calls db w sku row s"
    unfolding assms(4)
    using schedule_tally [OF assms(2,1) started_sound started_tally [OF assms(2)] assms(3)] .
  have sub: "winners n s \<subseteq> {..<n}" by (auto simp: winners_def)
  have le: "?k \<le> int n" using card_mono [OF _ sub] by simp
  have exact: "?k = min (int n) (max 0 ?u)"
  proof (cases "winners n s = {..<n}")
    case True
    then have "?k = int n" by simp
    with tal True show ?thesis by (cases "n = 0") (auto elim!: tallyE)
  next
    case False
    with sub obtain t where "t < n" "t \<notin> winners n s" by auto
    with assms(5) tal have "?u \<le> ?k" by (auto elim!: tallyE simp: winners_def)
    moreover have "winners n s \<noteq> {} \<Longrightarrow> ?k \<le> ?u" using tal by (auto elim!: tallyE)
    ultimately show ?thesis using le by (cases "winners n s = {}") auto
  qed
  from tal assms(5) have "\<forall>t < n. t \<notin> winners n s \<longrightarrow>
      phase_of s t = Refused (AppError (Inventory_Err InsufficientStockError))"
    by (auto elim!: tallyE simp: winners_def)
  with exact tal show ?thesis by (auto elim!: tallyE)
qed

section \<open>Three buyers of two units\<close>

definition small_db :: stock_db where
  "small_db =
    \<lparr>db_now = 0,
     warehouses = [\<lparr>wh_id = 1, wh_merchant_id = 1, wh_code = ''MAIN'', wh_active = True,
                    wh_is_default = True\<rparr>],
     inventories = [\<lparr>inv_id = 1, inv_merchant_id = 1, inv_warehouse_id = 1, inv_sku_id = 7,
                     available_qty = 2, locked_qty = 0, safety_stock = 0, total_in_qty = 2,
                     total_out_qty = 0, inv_version = 2, last_movement_at = None\<rparr>],
     movements = [\<lparr>mv_id = 1, mv_warehouse_id = 1, mv_sku_id = 7, mv_type = PURCHASE_IN,
                   delta_available = 2, delta_locked = 0, before_available = 0, after_available = 2,
                   before_locked = 0, after_locked = 0, mv_reference_type = REF_MANUAL,
                   mv_reference_id = None, mv_operator_type = STAFF, mv_operator_id = None,
                   mv_idempotency_key = ''in'', mv_reason = None\<rparr>]\<rparr>"

definition buyer_call :: "nat \<Rightarrow> stock_call" where
  "buyer_call t =
    \<lparr>sc_sku_id = 7, sc_quantity = 1, sc_idempotency_key = replicate (Suc t) CHR ''b'',
     sc_warehouse_id = None, sc_reference_type = REF_ORDER, sc_reference_id = None,
     sc_operator_type = CUSTOMER, sc_operator_id = None, sc_reason = None\<rparr>"

definition small_schedule :: "nat list" where
  "small_schedule = [0, 1, 2, 1, 0, 2, 1, 2, 0, 0, 2, 0, 0]"

lemma small_wf: "stock_wf small_db"
  by code_simp

lemma small_buyers:
  "buyers 3 buyer_call small_db (hd (warehouses small_db)) 7 (hd (inventories small_db))"
proof -
  have "lock_for_update small_db (wh_id (hd (warehouses small_db))) 7 = Some (hd (inventories small_db))"
    and "resolve_warehouse small_db None None = ok (hd (warehouses small_db))" by code_simp+
  moreover have "\<not> recorded small_db (replicate (Suc t) CHR ''b'')" for t
    by (simp add: recorded_def small_db_def)
  ultimately show ?thesis
    unfolding buyers_def by (auto simp: buyer_call_def inj_on_def dest: arg_cong [where f = length])
qed

theorem interleavings_serialise_witness:
  "stock_wf (committed (schedule buyer_call small_schedule (started small_db)))"
  using interleavings_serialise [OF small_wf] by blast

theorem concurrent_buyers_exact_witness:
  "int (card (winners 3 (schedule buyer_call small_schedule (started small_db)))) = 2"
proof -
  let ?s = "schedule buyer_call small_schedule (started small_db)"
  have f: "list_all (\<lambda>t. finished (phase_of ?s t)) [0, 1, 2]" by code_simp
  have "finished (phase_of ?s t)" if "t < 3" for t
    using f that by (auto simp: less_Suc_eq eval_nat_numeral)
  then have f3: "\<forall>t < 3. finished (phase_of ?s t)" by blast
  have b3: "\<forall>t \<in> set small_schedule. t < 3" by code_simp
  have "available_qty (hd (inventories small_db)) - safety_stock (hd (inventories small_db)) = 2"
    by code_simp
  with concurrent_buyers_exact [OF small_wf small_buyers b3 refl f3]
  show ?thesis by (simp only: of_nat_numeral)
qed

end
