(* ===== verification/Identity_Access.thy ===== *)
theory Identity_Access
  imports Nova_Prelude
begin

text \<open>
  The authenticated caller: \<open>DataScope\<close> and \<open>Principal\<close> of \<open>app/modules/identity\<close>, against which
  every service authorises. Permission codes are the strings the code compares.
\<close>

datatype data_scope = Scope_NONE | Scope_SELF | Scope_MERCHANT | Scope_ALL

fun rank :: "data_scope \<Rightarrow> nat" where
  "rank Scope_NONE = 0"
| "rank Scope_SELF = 1"
| "rank Scope_MERCHANT = 2"
| "rank Scope_ALL = 3"

definition covers :: "data_scope \<Rightarrow> data_scope \<Rightarrow> bool" where
  "covers s other \<longleftrightarrow> rank s \<ge> rank other"

record principal =
  p_user_id :: int
  p_merchant_id :: "int option"
  p_permissions :: "string set"
  p_data_scope :: data_scope
  p_is_staff :: bool

definition has_permission :: "principal \<Rightarrow> string \<Rightarrow> bool" where
  "has_permission p permission \<longleftrightarrow> permission \<in> p_permissions p"

definition has_any_permission :: "principal \<Rightarrow> string set \<Rightarrow> bool" where
  "has_any_permission p permissions \<longleftrightarrow> p_permissions p \<inter> permissions \<noteq> {}"

text \<open>The guards return unit or raise.\<close>

definition require_permission :: "principal \<Rightarrow> string \<Rightarrow> unit result" where
  "require_permission p permission =
    (if has_permission p permission then ok () else app_raise (Auth PermissionDeniedError))"

definition assert_can_access_user :: "principal \<Rightarrow> int \<Rightarrow> int option \<Rightarrow> unit result" where
  "assert_can_access_user p owner_user_id owner_merchant_id =
    (case p_data_scope p of
       Scope_ALL \<Rightarrow> ok ()
     | Scope_SELF \<Rightarrow>
        if p_user_id p \<noteq> owner_user_id then app_raise (Auth DataScopeViolationError) else ok ()
     | Scope_MERCHANT \<Rightarrow>
        if p_merchant_id p = None \<or> owner_merchant_id = None \<or> p_merchant_id p \<noteq> owner_merchant_id
        then app_raise (Auth DataScopeViolationError) else ok ()
     | Scope_NONE \<Rightarrow> app_raise (Auth DataScopeViolationError))"

definition assert_can_access_merchant :: "principal \<Rightarrow> int option \<Rightarrow> unit result" where
  "assert_can_access_merchant p merchant_id =
    (case p_data_scope p of
       Scope_ALL \<Rightarrow> ok ()
     | Scope_MERCHANT \<Rightarrow>
        if p_merchant_id p = None \<or> merchant_id = None \<or> p_merchant_id p \<noteq> merchant_id
        then app_raise (Auth DataScopeViolationError) else ok ()
     | Scope_SELF \<Rightarrow> ok ()
     | Scope_NONE \<Rightarrow> app_raise (Auth DataScopeViolationError))"

text \<open>\<open>is_owner_of\<close>.\<close>

definition is_owner_of :: "principal \<Rightarrow> int \<Rightarrow> bool" where
  "is_owner_of p owner_user_id \<longleftrightarrow> p_user_id p = owner_user_id"

end
