(* ===== verification/Order_State.thy ===== *)
theory Order_State
  imports Nova_Prelude
begin

text \<open>
  The order state machine: the vocabularies of \<open>app/modules/order/enums.py\<close> and the guard of
  \<open>app/modules/order/state_machine.py\<close>. A status argument is an enum member or the text of a
  \<open>VARCHAR\<close> column. The lemmas show what each guard answers, that the table is acyclic with the
  two terminal states the module derives, and how the guard's runs look.
\<close>

section \<open>Vocabularies\<close>

datatype order_status = PENDING_PAYMENT | PROCESSING | COMPLETED | CANCELLED | CLOSED

datatype payment_status = UNPAID | PAYING | PAID | PARTIAL_REFUNDED | REFUNDED

datatype fulfillment_status = UNFULFILLED | PARTIAL_SHIPPED | SHIPPED | DELIVERED

datatype after_sale_status = AS_NONE | AS_PROCESSING | AS_PARTIAL_REFUNDED | AS_REFUNDED

fun order_status_value :: "order_status \<Rightarrow> string" where
  "order_status_value PENDING_PAYMENT = ''PENDING_PAYMENT''"
| "order_status_value PROCESSING = ''PROCESSING''"
| "order_status_value COMPLETED = ''COMPLETED''"
| "order_status_value CANCELLED = ''CANCELLED''"
| "order_status_value CLOSED = ''CLOSED''"

fun payment_status_value :: "payment_status \<Rightarrow> string" where
  "payment_status_value UNPAID = ''UNPAID''"
| "payment_status_value PAYING = ''PAYING''"
| "payment_status_value PAID = ''PAID''"
| "payment_status_value PARTIAL_REFUNDED = ''PARTIAL_REFUNDED''"
| "payment_status_value REFUNDED = ''REFUNDED''"

fun fulfillment_status_value :: "fulfillment_status \<Rightarrow> string" where
  "fulfillment_status_value UNFULFILLED = ''UNFULFILLED''"
| "fulfillment_status_value PARTIAL_SHIPPED = ''PARTIAL_SHIPPED''"
| "fulfillment_status_value SHIPPED = ''SHIPPED''"
| "fulfillment_status_value DELIVERED = ''DELIVERED''"

instantiation order_status :: enum
begin

definition enum_order_status :: "order_status list" where
  "enum_order_status = [PENDING_PAYMENT, PROCESSING, COMPLETED, CANCELLED, CLOSED]"

definition enum_all_order_status :: "(order_status \<Rightarrow> bool) \<Rightarrow> bool" where
  "enum_all_order_status P \<longleftrightarrow> list_all P enum_class.enum"

definition enum_ex_order_status :: "(order_status \<Rightarrow> bool) \<Rightarrow> bool" where
  "enum_ex_order_status P \<longleftrightarrow> list_ex P enum_class.enum"

instance
proof
  show "UNIV = set (enum_class.enum :: order_status list)"
    unfolding enum_order_status_def using order_status.exhaust by auto
  then show "enum_class.enum_all P \<longleftrightarrow> Ball UNIV P" "enum_class.enum_ex P \<longleftrightarrow> Bex UNIV P"
    for P :: "order_status \<Rightarrow> bool"
    by (simp_all add: enum_all_order_status_def enum_ex_order_status_def list_all_iff list_ex_iff)
qed (simp add: enum_order_status_def)

end

text \<open>\<open>OrderStatus(value)\<close>: the members in declaration order.\<close>

definition order_status_of :: "string \<Rightarrow> order_status option" where
  "order_status_of s = find (\<lambda>t. order_status_value t = s) enum_class.enum"

section \<open>The transition table\<close>

fun order_status_transitions :: "order_status \<Rightarrow> order_status set" where
  "order_status_transitions PENDING_PAYMENT = {PROCESSING, CANCELLED, CLOSED}"
| "order_status_transitions PROCESSING = {COMPLETED, CLOSED}"
| "order_status_transitions COMPLETED = {CLOSED}"
| "order_status_transitions CANCELLED = {}"
| "order_status_transitions CLOSED = {}"

datatype status_arg = Status order_status | Text string

fun coerce_status :: "status_arg \<Rightarrow> order_status option" where
  "coerce_status (Status s) = Some s"
| "coerce_status (Text t) = order_status_of t"

definition is_valid_transition :: "status_arg \<Rightarrow> status_arg \<Rightarrow> bool" where
  "is_valid_transition current target =
    (case (coerce_status current, coerce_status target) of
       (Some source, Some destination) \<Rightarrow> destination \<in> order_status_transitions source
     | _ \<Rightarrow> False)"

definition terminal_order_statuses :: "order_status set" where
  "terminal_order_statuses =
    set (filter (\<lambda>s. order_status_transitions s = {}) enum_class.enum)"

definition allowed_targets :: "status_arg \<Rightarrow> order_status set" where
  "allowed_targets status =
    (case coerce_status status of None \<Rightarrow> {} | Some current \<Rightarrow> order_status_transitions current)"

definition can_transition :: "status_arg \<Rightarrow> status_arg \<Rightarrow> bool" where
  "can_transition current target =
    (case coerce_status current of
       None \<Rightarrow> False
     | Some source \<Rightarrow>
        (case coerce_status target of
           None \<Rightarrow> False
         | Some destination \<Rightarrow> destination \<in> order_status_transitions source))"

definition is_terminal :: "status_arg \<Rightarrow> bool" where
  "is_terminal status =
    (case coerce_status status of None \<Rightarrow> False | Some s \<Rightarrow> s \<in> terminal_order_statuses)"

text \<open>\<open>error\<close> is the class the caller passes; \<open>None\<close> is the default, 50004.\<close>

definition assert_transition ::
  "status_arg \<Rightarrow> status_arg \<Rightarrow> order_error option \<Rightarrow> order_status result" where
  "assert_transition current target error =
    (let error_cls = AppError (Order_Err (case_option OrderStateInvalidError id error)) in
     case coerce_status current of
       None \<Rightarrow> raise error_cls
     | Some source \<Rightarrow>
        (case coerce_status target of
           None \<Rightarrow> raise error_cls
         | Some destination \<Rightarrow>
            if destination \<notin> order_status_transitions source then raise error_cls
            else ok destination))"

definition transition_to_cancelled :: "status_arg \<Rightarrow> order_status result" where
  "transition_to_cancelled current =
    assert_transition current (Status CANCELLED) (Some OrderNotCancellableError)"

definition transition_to_completed :: "status_arg \<Rightarrow> order_status result" where
  "transition_to_completed current =
    assert_transition current (Status COMPLETED) (Some OrderNotConfirmableError)"

text \<open>A row's column, as the guards receive it.\<close>

abbreviation column :: "order_status \<Rightarrow> status_arg" where
  "column s \<equiv> Text (order_status_value s)"

section \<open>Lemmas\<close>

lemma order_status_of_value [simp]: "order_status_of (order_status_value s) = Some s"
  by (cases s) (simp_all add: order_status_of_def enum_order_status_def)

lemma order_status_of_Some: "order_status_of t = Some s \<longleftrightarrow> t = order_status_value s"
proof
  assume "order_status_of t = Some s"
  then show "t = order_status_value s"
    by (auto simp: order_status_of_def find_Some_iff)
qed simp

lemma coerce_column [simp]: "coerce_status (column s) = Some s"
  by simp

lemma assert_transition_ok:
  "assert_transition current target error = ok d \<longleftrightarrow>
    (\<exists>s. coerce_status current = Some s \<and> coerce_status target = Some d \<and>
      d \<in> order_status_transitions s)"
  by (auto simp: assert_transition_def Let_def split: option.splits)

lemma transition_to_cancelled_ok [simp]:
  "transition_to_cancelled (column s) = ok d \<longleftrightarrow> s = PENDING_PAYMENT \<and> d = CANCELLED"
  unfolding transition_to_cancelled_def assert_transition_ok coerce_column
  by (cases s) auto

lemma transition_to_completed_ok [simp]:
  "transition_to_completed (column s) = ok d \<longleftrightarrow> s = PROCESSING \<and> d = COMPLETED"
  unfolding transition_to_completed_def assert_transition_ok coerce_column
  by (cases s) auto

section \<open>Runs of the machine\<close>

inductive order_run :: "order_status \<Rightarrow> order_status list \<Rightarrow> order_status \<Rightarrow> bool" where
  run_stop: "order_run s [] s"
| run_move: "assert_transition (Status s) t e = ok d \<Longrightarrow> order_run d ds r \<Longrightarrow> order_run s (d # ds) r"

inductive_cases order_run_moveE: "order_run s (d # ds) r"

fun remaining_moves :: "order_status \<Rightarrow> nat" where
  "remaining_moves PENDING_PAYMENT = 3"
| "remaining_moves PROCESSING = 2"
| "remaining_moves COMPLETED = 1"
| "remaining_moves CANCELLED = 0"
| "remaining_moves CLOSED = 0"

lemma transition_decreases: "d \<in> order_status_transitions s \<Longrightarrow> remaining_moves d < remaining_moves s"
  by (cases s) auto

lemma order_run_bound: "order_run s ds r \<Longrightarrow> length ds + remaining_moves r \<le> remaining_moves s"
proof (induction rule: order_run.induct)
  case (run_move s t e d ds r)
  then show ?case using transition_decreases [of d s] by (auto simp: assert_transition_ok)
qed simp

lemma order_run_terminal: "order_run s ds r \<Longrightarrow> s \<in> terminal_order_statuses \<Longrightarrow> ds = [] \<and> r = s"
  by (induction rule: order_run.induct)
    (auto simp: terminal_order_statuses_def assert_transition_ok)

section \<open>Properties\<close>

text \<open>
  The two endpoints answer with their own codes and nothing else. Cancelling is granted to a
  pending order only and refused with 50010 from every other state, known or unknown; confirming
  receipt is granted to a processing order only and refused with 50011.
\<close>

theorem endpoint_guards:
  "transition_to_cancelled current =
      (if coerce_status current = Some PENDING_PAYMENT then ok CANCELLED
       else app_raise (Order_Err OrderNotCancellableError)) \<and>
    transition_to_completed current =
      (if coerce_status current = Some PROCESSING then ok COMPLETED
       else app_raise (Order_Err OrderNotConfirmableError)) \<and>
    error_code (Order_Err OrderNotCancellableError) = 50010 \<and>
    error_code (Order_Err OrderNotConfirmableError) = 50011"
proof (intro conjI)
  have c: "CANCELLED \<in> order_status_transitions s \<longleftrightarrow> s = PENDING_PAYMENT"
    and d: "COMPLETED \<in> order_status_transitions s \<longleftrightarrow> s = PROCESSING" for s
    by (cases s; simp)+
  show "transition_to_cancelled current =
      (if coerce_status current = Some PENDING_PAYMENT then ok CANCELLED
       else app_raise (Order_Err OrderNotCancellableError))"
    by (cases "coerce_status current")
      (simp_all add: transition_to_cancelled_def assert_transition_def c)
  show "transition_to_completed current =
      (if coerce_status current = Some PROCESSING then ok COMPLETED
       else app_raise (Order_Err OrderNotConfirmableError))"
    by (cases "coerce_status current")
      (simp_all add: transition_to_completed_def assert_transition_def d)
qed code_simp+

text \<open>
  C40: an order's life is finite and has no way back. The terminal states derived from the table
  are CANCELLED and CLOSED, no run of the guard leaves them, no run from any state is longer than
  three moves, and none visits a state twice.
\<close>

theorem order_life_is_finite:
  "terminal_order_statuses = {CANCELLED, CLOSED} \<and>
    (\<forall>s ds r. order_run s ds r \<longrightarrow> length ds \<le> 3 \<and> distinct (s # ds) \<and>
      (s \<in> terminal_order_statuses \<longrightarrow> ds = []))"
proof -
  have "distinct (s # ds) \<and> (\<forall>d \<in> set ds. remaining_moves d < remaining_moves s)"
    if "order_run s ds r" for s ds r
    using that
  proof (induction rule: order_run.induct)
    case (run_move s t e d ds r)
    then have "remaining_moves d < remaining_moves s"
      by (auto simp: assert_transition_ok intro: transition_decreases)
    with run_move.IH show ?case by (auto intro: less_trans)
  qed simp
  moreover have "remaining_moves s \<le> 3" for s by (cases s) simp_all
  moreover have "terminal_order_statuses = {CANCELLED, CLOSED}" by code_simp
  ultimately show ?thesis
    using order_run_bound order_run_terminal by (metis add_leD1 le_trans)
qed

theorem order_life_is_finite_witness:
  "order_run PENDING_PAYMENT [PROCESSING, COMPLETED, CLOSED] CLOSED \<and>
    distinct [PENDING_PAYMENT, PROCESSING, COMPLETED, CLOSED]"
proof -
  have "order_run PENDING_PAYMENT [PROCESSING, COMPLETED, CLOSED] CLOSED"
    by (rule run_move [where t = "Status PROCESSING" and e = None], simp add: assert_transition_ok)
      (rule run_move [where t = "Status COMPLETED" and e = None], simp add: assert_transition_ok,
        rule run_move [where t = "Status CLOSED" and e = None], simp add: assert_transition_ok,
        rule run_stop)
  with order_life_is_finite show ?thesis by blast
qed

text \<open>
  The two spellings of the table agree, for members and for raw column text: \<open>can_transition\<close>
  and \<open>is_valid_transition\<close> say the same, both are membership in \<open>allowed_targets\<close>, and
  \<open>assert_transition\<close> accepts exactly what they allow, whatever error class it was given.
\<close>

theorem transition_queries_agree:
  "can_transition current target = is_valid_transition current target \<and>
    can_transition current target =
      (\<exists>d. coerce_status target = Some d \<and> d \<in> allowed_targets current) \<and>
    can_transition current target = is_ok (assert_transition current target error)"
  by (auto simp: can_transition_def is_valid_transition_def allowed_targets_def is_ok_ex
      assert_transition_def Let_def split: option.splits)

end
