(* ===== verification/Nova_Text.thy ===== *)
theory Nova_Text
  imports Nova_Prelude
begin

text \<open>
  The text the backend builds identifiers and idempotency keys from: \<open>str\<close> of an integer,
  zero-padded numbers, the \<open>%Y%m%d\<close> of a timestamp, and joined keys. A string is its UTF-8 bytes.
  The lemmas say when such a text determines what it was built from.
\<close>

section \<open>Integers\<close>

definition digit_char :: "nat \<Rightarrow> char" where
  "digit_char d = char_of (48 + d)"

fun nat_text :: "nat \<Rightarrow> string" where
  "nat_text n = (if n < 10 then [digit_char n] else nat_text (n div 10) @ [digit_char (n mod 10)])"

declare nat_text.simps [simp del]

text \<open>\<open>str(i)\<close>\<close>

definition int_text :: "int \<Rightarrow> string" where
  "int_text i = (if i < 0 then ''-'' @ nat_text (nat (- i)) else nat_text (nat i))"

text \<open>\<open>f"{n:06d}"\<close> for a number that is not negative.\<close>

definition pad_text :: "nat \<Rightarrow> nat \<Rightarrow> string" where
  "pad_text width n =
    (let t = nat_text n in replicate (width - length t) (digit_char 0) @ t)"

fun text_nat :: "string \<Rightarrow> nat" where
  "text_nat s = foldl (\<lambda>n c. 10 * n + (of_char c - 48)) 0 s"

definition is_digit :: "char \<Rightarrow> bool" where
  "is_digit c \<longleftrightarrow> (of_char c :: nat) \<in> {48..57}"

lemma of_digit_char [simp]: "d < 10 \<Longrightarrow> of_char (digit_char d) = 48 + d"
  by (simp add: digit_char_def of_char_of)

lemma is_digit_char [simp]: "d < 10 \<Longrightarrow> is_digit (digit_char d)"
  by (simp add: is_digit_def)

lemma text_nat_text [simp]: "text_nat (nat_text n) = n"
proof (induction n rule: nat_text.induct)
  case (1 n)
  show ?case
  proof (cases "n < 10")
    case True
    then show ?thesis by (simp add: nat_text.simps [of n])
  next
    case False
    with 1 have "text_nat (nat_text (n div 10)) = n div 10" by simp
    with False show ?thesis by (simp add: nat_text.simps [of n])
  qed
qed

lemma nat_text_inject [simp]: "nat_text m = nat_text n \<longleftrightarrow> m = n"
  by (metis text_nat_text)

lemma nat_text_digits: "list_all is_digit (nat_text n)"
  by (induction n rule: nat_text.induct) (subst nat_text.simps, simp)

lemma nat_text_nonempty [simp]: "nat_text n \<noteq> []"
  by (subst nat_text.simps) simp

lemma digit_not_minus: "is_digit c \<Longrightarrow> c \<noteq> CHR ''-''" "is_digit c \<Longrightarrow> c \<noteq> CHR '':''"
  by (auto simp: is_digit_def)

lemma nat_text_no_minus: "nat_text n \<noteq> CHR ''-'' # s"
  using nat_text_digits [of n] by (cases "nat_text n") (auto dest: digit_not_minus)

lemma int_text_inject [simp]: "int_text i = int_text j \<longleftrightarrow> i = j"
  using nat_text_no_minus nat_text_no_minus [symmetric]
  by (auto simp: int_text_def split: if_splits)

lemma int_text_no_colon: "CHR '':'' \<notin> set (int_text i)"
proof -
  have "CHR '':'' \<notin> set (nat_text n)" for n
    using nat_text_digits [of n] by (auto simp: list_all_iff is_digit_def)
  then show ?thesis by (simp add: int_text_def)
qed

lemma text_nat_zeros: "foldl (\<lambda>n c. 10 * n + (of_char c - 48)) (0::nat) (replicate k (digit_char 0)) = 0"
  by (induction k) simp_all

lemma pad_text_inject [simp]: "pad_text w m = pad_text w n \<longleftrightarrow> m = n"
proof -
  have "text_nat (pad_text w n) = n" for n
    using text_nat_text [of n] by (simp add: pad_text_def Let_def text_nat_zeros)
  then show ?thesis by metis
qed

section \<open>Joined keys\<close>

text \<open>\<open>f"{a}:{b}"\<close>\<close>

definition join_colon :: "string \<Rightarrow> string \<Rightarrow> string" where
  "join_colon a b = a @ '':'' @ b"

text \<open>The first part is determined when it has no colon, and so is the last.\<close>

lemma append_before_inject:
  assumes "a @ c # b = a' @ c # b'" and "c \<notin> set a" and "c \<notin> set a'"
  shows "a = a' \<and> b = b'"
  using assms
proof (induction a arbitrary: a')
  case Nil
  then show ?case by (cases a') auto
next
  case (Cons x a)
  then show ?case by (cases a') auto
qed

lemma append_after_inject:
  assumes "a @ c # b = a' @ c # b'" and "c \<notin> set b" and "c \<notin> set b'"
  shows "a = a' \<and> b = b'"
proof -
  have "rev b @ c # rev a = rev b' @ c # rev a'"
    using arg_cong [OF assms(1), of rev] by simp
  from append_before_inject [OF this] assms(2,3) show ?thesis by simp
qed

lemma join_colon_first:
  "CHR '':'' \<notin> set a \<Longrightarrow> CHR '':'' \<notin> set a' \<Longrightarrow>
    join_colon a b = join_colon a' b' \<longleftrightarrow> a = a' \<and> b = b'"
  by (auto simp: join_colon_def dest: append_before_inject)

lemma join_colon_last:
  "CHR '':'' \<notin> set b \<Longrightarrow> CHR '':'' \<notin> set b' \<Longrightarrow>
    join_colon a b = join_colon a' b' \<longleftrightarrow> a = a' \<and> b = b'"
  by (auto simp: join_colon_def dest: append_after_inject)

section \<open>Dates\<close>

text \<open>
  A timestamp is milliseconds since 1970-01-01T00:00Z. \<open>civil_from_days\<close> is the Gregorian calendar
  that \<open>datetime\<close> implements, by eras of 400 years that start on the first of March.
\<close>

definition ms_per_minute :: int where "ms_per_minute = 60000"

definition ms_per_day :: int where "ms_per_day = 86400000"

definition civil_from_days :: "int \<Rightarrow> int \<times> int \<times> int" where
  "civil_from_days days =
    (let z = days + 719468;
         era = z div 146097;
         doe = z mod 146097;
         yoe = (doe - doe div 1460 + doe div 36524 - doe div 146096) div 365;
         doy = doe - (365 * yoe + yoe div 4 - yoe div 100);
         mp = (5 * doy + 2) div 153;
         d = doy - (153 * mp + 2) div 5 + 1;
         m = (if mp < 10 then mp + 3 else mp - 9);
         y = yoe + era * 400 + (if m \<le> 2 then 1 else 0)
     in (y, m, d))"

text \<open>
  \<open>f"{now:%Y%m%d}"\<close>. A \<open>datetime\<close> lies in the years 1 to 9999; outside them there is no text.
\<close>

definition date_text :: "int \<Rightarrow> string" where
  "date_text now =
    (if - 62135596800000 \<le> now \<and> now < 253402300800000
     then (let (y, m, d) = civil_from_days (now div ms_per_day)
       in pad_text 4 (nat y) @ pad_text 2 (nat m) @ pad_text 2 (nat d))
     else [])"

text \<open>\<open>f"{PREFIX}{now:%Y%m%d}{id:06d}"\<close>: the public number of an order, a payment, a template.\<close>

definition public_no :: "string \<Rightarrow> int \<Rightarrow> nat \<Rightarrow> string" where
  "public_no prefix now n = prefix @ date_text now @ pad_text 6 n"

lemma public_no_inject: "public_no prefix now m = public_no prefix now n \<longleftrightarrow> m = n"
  by (simp add: public_no_def)

lemma date_text_example: "date_text 1790119867507 = ''20260922''"
  by code_simp

section \<open>Length and slices\<close>

text \<open>
  \<open>len(t)\<close> and \<open>t[:n]\<close> count characters: the bytes \<open>10xxxxxx\<close> continue the character before them.
\<close>

definition starts_char :: "char \<Rightarrow> bool" where
  "starts_char c \<longleftrightarrow> \<not> (128 \<le> (of_char c :: nat) \<and> (of_char c :: nat) < 192)"

definition char_count :: "string \<Rightarrow> nat" where
  "char_count t = length (filter starts_char t)"

fun clip :: "nat \<Rightarrow> string \<Rightarrow> string" where
  "clip n [] = []"
| "clip n (c # cs) =
    (if starts_char c then (case n of 0 \<Rightarrow> [] | Suc m \<Rightarrow> c # clip m cs) else c # clip n cs)"

lemma clip_id: "char_count t \<le> n \<Longrightarrow> clip n t = t"
  by (induction n t rule: clip.induct) (auto simp: char_count_def split: nat.splits)

lemma char_count_clip: "char_count (clip n t) = min n (char_count t)"
  by (induction n t rule: clip.induct) (auto simp: char_count_def split: nat.splits)

section \<open>Whitespace\<close>

text \<open>\<open>str.strip()\<close>, with the ASCII whitespace of \<open>str.isspace\<close>.\<close>

definition is_space :: "char \<Rightarrow> bool" where
  "is_space c \<longleftrightarrow> (let n = (of_char c :: nat) in 9 \<le> n \<and> n \<le> 13 \<or> 28 \<le> n \<and> n \<le> 32)"

definition strip_text :: "string \<Rightarrow> string" where
  "strip_text t = rev (dropWhile is_space (rev (dropWhile is_space t)))"

end
