(* ===== verification/Shop_Model.thy ===== *)
theory Shop_Model
  imports Identity_Access Inventory_Ledger Order_State Nova_Text Pricing_Service
begin

text \<open>
  The tables the order, marketing, payment and fulfillment modules share, as one record that
  extends the stock tables of \<open>Inventory\<close>. A table is the
  list of its rows in insertion order; an insert appends with a fresh id; a row lock is the row
  itself, since an operation is one transaction. Timestamps are milliseconds, and one operation
  reads \<open>utc_now\<close> once. Column widths are not modelled, nor the column \<open>updated_at\<close>, which every
  \<open>UPDATE\<close> stamps (\<open>onupdate\<close>) and no operation reads.
\<close>

section \<open>Rows and tables\<close>

definition fresh_id :: "('r \<Rightarrow> int) \<Rightarrow> 'r list \<Rightarrow> int" where
  "fresh_id key rows = foldr (\<lambda>r m. max (key r) m) rows 0 + 1"

definition row_of :: "('r \<Rightarrow> int) \<Rightarrow> 'r list \<Rightarrow> int \<Rightarrow> 'r option" where
  "row_of key rows i = find (\<lambda>r. key r = i) rows"

definition put_row :: "('r \<Rightarrow> int) \<Rightarrow> 'r \<Rightarrow> 'r list \<Rightarrow> 'r list" where
  "put_row key row rows = map (\<lambda>r. if key r = key row then row else r) rows"

section \<open>Catalogue and addresses\<close>

record product_sku =
  sk_id :: int
  sk_product_id :: int
  sk_name :: string
  sk_status :: string
  sk_price_amount :: int
  sk_attribute_snapshot :: "string option"
  sk_deleted_at :: "int option"
  sk_merchant_id :: "int option"
  sk_no :: string
  sk_code :: string
  sk_market_price_amount :: int
  sk_cost_amount :: int
  sk_purchase_limit :: int
  sk_sort_order :: int

record product =
  pd_id :: int
  pd_merchant_id :: "int option"
  pd_category_id :: "int option"
  pd_brand_id :: "int option"
  pd_name :: string
  pd_status :: string
  pd_deleted_at :: "int option"
  pd_no :: string
  pd_slug :: string
  pd_subtitle :: "string option"
  pd_description :: "string option"
  pd_published_at :: "int option"
  pd_unpublished_at :: "int option"
  pd_min_price :: int
  pd_max_price :: int
  pd_primary_image_object_key :: "string option"
  pd_sales_count :: int
  pd_sort_order :: int
  pd_created_at :: int

record product_image =
  im_id :: int
  im_product_id :: int
  im_role :: string
  im_sort_order :: int
  im_object_key :: string
  im_merchant_id :: "int option"
  im_bucket :: string
  im_checksum :: string
  im_content_type :: string
  im_size_bytes :: int
  im_alt_text :: "string option"

record user_address =
  ad_id :: int
  ad_user_id :: int
  ad_receiver_name :: string
  ad_receiver_phone :: string
  ad_province :: string
  ad_city :: string
  ad_district :: string
  ad_detail :: string
  ad_postal_code :: "string option"
  ad_deleted_at :: "int option"
  ad_merchant_id :: "int option"
  ad_tag :: string
  ad_is_default :: bool

record address_snapshot =
  as_receiver_name :: string
  as_receiver_phone :: string
  as_full_address :: string
  as_postal_code :: string
  as_province :: string
  as_city :: string
  as_district :: string
  as_detail :: string

section \<open>Marketing\<close>

record scope =
  scope_all_products :: bool
  scope_product_ids :: "int list"
  scope_category_ids :: "int list"
  scope_brand_ids :: "int list"

datatype campaign_status = Campaign_DRAFT | Campaign_ACTIVE | Campaign_ENDED

text \<open>\<open>rule_config\<close> is the JSON object of the amounts a promotion type uses.\<close>

record rule_config =
  rc_threshold_amount :: "int option"
  rc_discount_amount :: "int option"
  rc_discount_bps :: "int option"
  rc_reduction_amount :: "int option"
  rc_max_discount_amount :: "int option"

record promotion_row =
  pm_id :: int
  pm_merchant_id :: int
  pm_type :: promotion_type
  pm_status :: campaign_status
  pm_priority :: int
  pm_rule_config :: rule_config
  pm_scope :: scope
  pm_starts_at :: int
  pm_ends_at :: int
  pm_total_quota :: int
  pm_used_quota :: int
  pm_created_at :: int
  pm_promotion_no :: string
  pm_preview_token_hash :: string
  pm_name :: string
  pm_description :: "string option"
  pm_stackable :: bool

datatype validity_type = RELATIVE | ABSOLUTE

record coupon_template =
  ct_id :: int
  ct_merchant_id :: int
  ct_coupon_type :: coupon_type
  ct_status :: campaign_status
  ct_face_value_amount :: "int option"
  ct_discount_bps :: "int option"
  ct_threshold_amount :: int
  ct_max_discount_amount :: "int option"
  ct_total_quota :: int
  ct_issued_count :: int
  ct_per_user_limit :: int
  ct_validity_type :: validity_type
  ct_valid_days :: "int option"
  ct_valid_from :: "int option"
  ct_valid_to :: "int option"
  ct_applicable_scope :: scope
  ct_created_at :: int
  ct_template_no :: string
  ct_preview_token_hash :: string
  ct_name :: string

datatype coupon_status = Coupon_UNUSED | Coupon_LOCKED | Coupon_USED | Coupon_EXPIRED

record user_coupon =
  uc_id :: int
  uc_merchant_id :: int
  uc_template_id :: int
  uc_user_id :: int
  uc_status :: coupon_status
  uc_valid_from :: int
  uc_valid_to :: int
  uc_order_id :: "int option"
  uc_locked_at :: "int option"
  uc_used_at :: "int option"
  uc_created_at :: int

datatype coupon_action = Act_LOCK | Act_USE | Act_RELEASE

record coupon_usage_record =
  cu_merchant_id :: int
  cu_user_coupon_id :: int
  cu_order_id :: int
  cu_action :: coupon_action

section \<open>Orders\<close>

text \<open>The JSON column \<open>pricing_snapshot\<close>: the rules as resolved and the allocations per SKU.\<close>

record pricing_record =
  pn_promotion :: "raw_promotion option"
  pn_coupon :: "raw_coupon option"
  pn_shipping_policy :: string
  pn_promotion_allocations :: "(int \<times> int) list"
  pn_coupon_allocations :: "(int \<times> int) list"

record order =
  o_id :: int
  o_merchant_id :: int
  o_user_id :: int
  o_order_no :: string
  o_client_request_id :: string
  o_request_hash :: string
  o_order_status :: order_status
  o_payment_status :: payment_status
  o_fulfillment_status :: fulfillment_status
  o_after_sale_status :: after_sale_status
  o_original_amount :: int
  o_promotion_discount_amount :: int
  o_coupon_discount_amount :: int
  o_shipping_amount :: int
  o_payable_amount :: int
  o_paid_amount :: int
  o_refunded_amount :: int
  o_coupon_id :: "int option"
  o_promotion_id :: "int option"
  o_pricing_snapshot :: pricing_record
  o_address_id :: "int option"
  o_receiver_name :: string
  o_receiver_phone :: string
  o_address_snapshot :: address_snapshot
  o_remark :: "string option"
  o_cancel_reason :: "string option"
  o_item_count :: int
  o_first_item_name :: string
  o_expires_at :: "int option"
  o_paid_at :: "int option"
  o_completed_at :: "int option"
  o_cancelled_at :: "int option"
  o_closed_at :: "int option"
  o_created_at :: int
  o_version :: int

record order_item =
  oi_id :: int
  oi_order_id :: int
  oi_warehouse_id :: int
  oi_product_id :: int
  oi_sku_id :: int
  oi_product_name :: string
  oi_sku_name :: string
  oi_image_object_key :: "string option"
  oi_image_url :: "string option"
  oi_sku_snapshot :: "string option"
  oi_unit_price :: int
  oi_quantity :: int
  oi_original_amount :: int
  oi_promotion_discount_amount :: int
  oi_coupon_discount_amount :: int
  oi_allocated_discount_amount :: int
  oi_payable_amount :: int
  oi_refunded_amount :: int
  oi_after_sale_status :: after_sale_status

record status_log =
  sl_order_id :: int
  sl_order_no :: string
  sl_from_status :: "order_status option"
  sl_to_status :: order_status
  sl_reason :: "string option"
  sl_operator_type :: operator_type
  sl_operator_id :: "int option"
  sl_created_at :: int

section \<open>Idempotency, events, audit\<close>

datatype idempotency_status = Claim_IN_PROGRESS | Claim_COMPLETED | Claim_FAILED

text \<open>
  What a completed request remembers of its answer: an order's number, payable amount and creation
  time; a claim's number, its order's number, the amount asked for and the time.
\<close>

datatype response_snapshot =
    Order_Snapshot string int int
  | Claim_Snapshot string string int int

fun snapshot_order_no :: "response_snapshot \<Rightarrow> string" where
  "snapshot_order_no (Order_Snapshot order_no _ _) = order_no"
| "snapshot_order_no (Claim_Snapshot _ order_no _ _) = order_no"

record idempotency_record =
  ir_scope :: string
  ir_key :: string
  ir_request_hash :: string
  ir_status :: idempotency_status
  ir_response_code :: "int option"
  ir_response_snapshot :: "response_snapshot option"
  ir_resource_type :: "string option"
  ir_resource_id :: "int option"
  ir_expires_at :: "int option"

text \<open>The life of a customer's claim; the events name it.\<close>

datatype claim_status =
    Claim_is_PENDING | Claim_is_APPROVED | Claim_is_REJECTED | Claim_is_CANCELLED | Claim_is_COMPLETED

text \<open>The event vocabulary with the payload each builder of \<open>contract.py\<close> makes.\<close>

datatype event_type = Order_Created | Payment_Settled | Refund_Succeeded

datatype aggregate_type = Agg_Order | Agg_Payment | Agg_Refund | Agg_After_Sale

datatype event_payload =
    Order_Created_Payload string int int
  | Payment_Settled_Payload string string int string
  | Refund_Succeeded_Payload string int string string int int int payment_status after_sale_status
      claim_status

datatype outbox_status = Out_PENDING | Out_PUBLISHED | Out_FAILED | Out_DEAD

record outbox_message =
  ob_id :: int
  ob_event_type :: event_type
  ob_aggregate_type :: aggregate_type
  ob_aggregate_id :: int
  ob_idempotency_key :: string
  ob_payload :: event_payload
  ob_merchant_id :: "int option"
  ob_status :: outbox_status
  ob_attempt_count :: nat
  ob_next_retry_at :: "int option"
  ob_published_at :: "int option"
  ob_last_error :: "string option"

record audit_record =
  au_merchant_id :: "int option"
  au_actor_id :: "int option"
  au_actor_type :: string
  au_action :: string
  au_resource_type :: string
  au_resource_id :: int
  au_result :: string

section \<open>Payments and packages\<close>

text \<open>
  A JSON document as \<open>json.loads\<close> returns it. A float is the binary fraction \<open>n / 2 ^ k\<close> it denotes,
  or one of the three special values Python's decoder accepts.
\<close>

datatype json =
    JNull
  | JBool bool
  | JInt int
  | JFloat int nat
  | JInfinity bool
  | JNaN
  | JStr string
  | JList "json list"
  | JObj "(string \<times> json) list"

datatype payment_channel = MOCK | ALIPAY | WECHAT

datatype record_status =
    Pay_INITIATED | Pay_PAYING | Pay_SUCCESS | Pay_FAILED | Pay_CLOSED | Pay_REFUNDED
  | Pay_PARTIAL_REFUNDED

record payment =
  pay_id :: int
  pay_merchant_id :: int
  pay_payment_no :: string
  pay_order_id :: int
  pay_order_no :: string
  pay_user_id :: int
  pay_channel :: string
  pay_amount :: int
  pay_status :: record_status
  pay_external_transaction_no :: "string option"
  pay_idempotency_key :: string
  pay_client_request_id :: string
  pay_request_hash :: string
  pay_paid_amount :: int
  pay_refunded_amount :: int
  pay_expires_at :: "int option"
  pay_paid_at :: "int option"
  pay_closed_at :: "int option"
  pay_created_at :: int

datatype callback_status = Cb_RECEIVED | Cb_PROCESSED | Cb_FAILED | Cb_IGNORED

record payment_callback =
  pc_id :: int
  pc_provider :: string
  pc_event_id :: string
  pc_payment_no :: "string option"
  pc_order_no :: "string option"
  pc_merchant_id :: "int option"
  pc_payload_snapshot :: "json option"
  pc_signature_valid :: bool
  pc_process_status :: callback_status
  pc_process_error :: "string option"
  pc_event_type :: string
  pc_received_at :: int
  pc_processed_at :: "int option"
  pc_attempt_count :: int

datatype compensation_status =
    Cmp_PENDING | Cmp_PROCESSING | Cmp_SUCCEEDED | Cmp_FAILED | Cmp_RECONCILIATION_REQUIRED

record compensation_refund =
  cp_id :: int
  cp_merchant_id :: int
  cp_payment_id :: int
  cp_order_id :: int
  cp_callback_id :: "int option"
  cp_amount :: int
  cp_status :: compensation_status
  cp_provider_refund_no :: "string option"
  cp_failure_reason :: "string option"
  cp_created_at :: int

record fulfillment_item =
  fi_order_item_id :: int
  fi_sku_id :: int
  fi_product_name :: string
  fi_sku_name :: string
  fi_quantity :: int

record fulfillment =
  fu_id :: int
  fu_merchant_id :: int
  fu_fulfillment_no :: string
  fu_order_id :: int
  fu_order_no :: string
  fu_warehouse_id :: int
  fu_status :: fulfillment_status
  fu_carrier :: "string option"
  fu_tracking_no :: "string option"
  fu_package_count :: int
  fu_remark :: "string option"
  fu_shipped_at :: "int option"
  fu_delivered_at :: "int option"
  fu_created_at :: int
  fu_items :: "fulfillment_item list"

section \<open>After-sales\<close>

datatype after_sale_type = REFUND_ONLY | RETURN_REFUND

record after_sale_item =
  ai_order_item_id :: int
  ai_product_name :: string
  ai_sku_name :: string
  ai_quantity :: int

record after_sale =
  af_id :: int
  af_merchant_id :: int
  af_after_sale_no :: string
  af_order_id :: int
  af_order_no :: string
  af_user_id :: int
  af_type :: after_sale_type
  af_claim_status :: claim_status
  af_requested_amount :: int
  af_approved_amount :: int
  af_refunded_amount :: int
  af_reason :: string
  af_description :: "string option"
  af_evidence_urls :: "string list option"
  af_reject_reason :: "string option"
  af_processed_at :: "int option"
  af_completed_at :: "int option"
  af_idempotency_key :: string
  af_client_request_id :: string
  af_request_hash :: string
  af_created_at :: int
  af_items :: "after_sale_item list"

datatype refund_status = Refund_PENDING | Refund_SUCCEEDED | Refund_FAILED

record refund =
  rf_id :: int
  rf_merchant_id :: int
  rf_refund_no :: string
  rf_after_sale_id :: int
  rf_order_id :: int
  rf_order_no :: string
  rf_payment_id :: "int option"
  rf_user_id :: int
  rf_amount :: int
  rf_status :: refund_status
  rf_reason :: "string option"
  rf_operator_type :: operator_type
  rf_operator_id :: "int option"
  rf_idempotency_key :: string
  rf_request_hash :: string
  rf_completed_at :: "int option"
  rf_created_at :: int

section \<open>The shop\<close>

record shop = stock_db +
  skus :: "product_sku list"
  products :: "product list"
  images :: "product_image list"
  addresses :: "user_address list"
  promotions :: "promotion_row list"
  templates :: "coupon_template list"
  user_coupons :: "user_coupon list"
  coupon_usage :: "coupon_usage_record list"
  orders :: "order list"
  order_items :: "order_item list"
  status_logs :: "status_log list"
  idempotency :: "idempotency_record list"
  outbox :: "outbox_message list"
  audit_log :: "audit_record list"
  payments :: "payment list"
  payment_callbacks :: "payment_callback list"
  compensations :: "compensation_refund list"
  fulfillments :: "fulfillment list"
  after_sales :: "after_sale list"
  refunds :: "refund list"

text \<open>
  What an operation reads besides the tables: the settings, the \<open>uuid4\<close> placeholder and the digests
  \<open>hashlib.sha256\<close> and \<open>hmac\<close> (of a key and a message, in hexadecimal), of which nothing is assumed.
\<close>

record env =
  ev_sha256 :: "string \<Rightarrow> string"
  ev_hmac_sha256 :: "string \<Rightarrow> string \<Rightarrow> string"
  ev_uuid :: string
  ev_order_no_prefix :: string
  ev_payment_no_prefix :: string
  ev_fulfillment_no_prefix :: string
  ev_order_payment_timeout_minutes :: int
  ev_payment_enabled_channels :: "string set"
  ev_payment_callback_secret :: string
  ev_payment_provider_secrets :: "(string \<times> string) list"
  ev_payment_callback_max_skew_seconds :: int

end
