(* ===== verification/Shop_Repository.thy ===== *)
theory Shop_Repository
  imports Shop_Model
begin

text \<open>
  The repositories: what an insert, a flush and a query do to the tables of \<open>Shop_Model\<close>. An insert
  or an update evaluates the \<open>CHECK\<close> and \<open>UNIQUE\<close> constraints of its table and raises the driver's
  \<open>IntegrityError\<close> when one fires.
\<close>

section \<open>Orders\<close>

definition order_checks :: "order \<Rightarrow> bool" where
  "order_checks ord \<longleftrightarrow>
    o_payable_amount ord = o_original_amount ord - o_promotion_discount_amount ord
      - o_coupon_discount_amount ord + o_shipping_amount ord \<and>
    0 \<le> o_original_amount ord \<and> 0 \<le> o_promotion_discount_amount ord \<and>
    0 \<le> o_coupon_discount_amount ord \<and> 0 \<le> o_shipping_amount ord \<and> 0 \<le> o_payable_amount ord \<and>
    0 \<le> o_paid_amount ord \<and> 0 \<le> o_refunded_amount ord \<and>
    o_refunded_amount ord \<le> o_paid_amount ord"

definition order_item_checks :: "order_item \<Rightarrow> bool" where
  "order_item_checks i \<longleftrightarrow>
    0 < oi_quantity i \<and> 0 \<le> oi_original_amount i \<and> 0 \<le> oi_promotion_discount_amount i \<and>
    0 \<le> oi_coupon_discount_amount i \<and> 0 \<le> oi_allocated_discount_amount i \<and>
    0 \<le> oi_payable_amount i \<and> 0 \<le> oi_refunded_amount i \<and>
    oi_allocated_discount_amount i =
      oi_promotion_discount_amount i + oi_coupon_discount_amount i \<and>
    oi_payable_amount i = oi_original_amount i - oi_allocated_discount_amount i \<and>
    oi_refunded_amount i \<le> oi_payable_amount i"

text \<open>\<open>uq_orders_merchant_order_no\<close> and \<open>uq_orders_user_client_request\<close>.\<close>

definition order_clash :: "order \<Rightarrow> order \<Rightarrow> bool" where
  "order_clash a b \<longleftrightarrow>
    (o_merchant_id a = o_merchant_id b \<and> o_order_no a = o_order_no b) \<or>
    (o_user_id a = o_user_id b \<and> o_client_request_id a = o_client_request_id b)"

definition get_order :: "'a shop_scheme \<Rightarrow> int \<Rightarrow> order option" where
  "get_order s oid = row_of o_id (orders s) oid"

definition get_by_order_no ::
  "'a shop_scheme \<Rightarrow> string \<Rightarrow> int option \<Rightarrow> int option \<Rightarrow> order option" where
  "get_by_order_no s order_no merchant_id user_id =
    find (\<lambda>ord. o_order_no ord = order_no \<and>
      (case merchant_id of None \<Rightarrow> True | Some m \<Rightarrow> o_merchant_id ord = m) \<and>
      (case user_id of None \<Rightarrow> True | Some u \<Rightarrow> o_user_id ord = u)) (orders s)"

definition get_by_client_request_id :: "'a shop_scheme \<Rightarrow> int \<Rightarrow> string \<Rightarrow> order option" where
  "get_by_client_request_id s user_id client_request_id =
    find (\<lambda>ord. o_user_id ord = user_id \<and> o_client_request_id ord = client_request_id) (orders s)"

text \<open>The id of the row is the next one; \<open>add\<close> flushes.\<close>

definition add_order :: "'a shop_scheme \<Rightarrow> order \<Rightarrow> (order \<times> 'a shop_scheme) result" where
  "add_order s ord =
    (let row = ord\<lparr>o_id := fresh_id o_id (orders s)\<rparr> in
     if order_checks row \<and> \<not> list_ex (order_clash row) (orders s)
     then ok (row, s\<lparr>orders := orders s @ [row]\<rparr>)
     else raise (IntegrityError ''orders''))"

definition flush_order :: "'a shop_scheme \<Rightarrow> order \<Rightarrow> 'a shop_scheme result" where
  "flush_order s ord =
    (if order_checks ord \<and>
        \<not> list_ex (\<lambda>r. o_id r \<noteq> o_id ord \<and> order_clash ord r) (orders s)
     then ok (s\<lparr>orders := put_row o_id ord (orders s)\<rparr>)
     else raise (IntegrityError ''orders''))"

definition add_item :: "'a shop_scheme \<Rightarrow> order_item \<Rightarrow> (order_item \<times> 'a shop_scheme) result" where
  "add_item s i =
    (let row = i\<lparr>oi_id := fresh_id oi_id (order_items s)\<rparr> in
     if order_item_checks row \<and>
        \<not> list_ex (\<lambda>r. oi_order_id r = oi_order_id row \<and> oi_sku_id r = oi_sku_id row)
          (order_items s)
     then ok (row, s\<lparr>order_items := order_items s @ [row]\<rparr>)
     else raise (IntegrityError ''order_items''))"

definition items_for :: "'a shop_scheme \<Rightarrow> int \<Rightarrow> order_item list" where
  "items_for s oid = sort_key oi_id (filter (\<lambda>i. oi_order_id i = oid) (order_items s))"

definition touch_version :: "order \<Rightarrow> order" where
  "touch_version ord = ord\<lparr>o_version := o_version ord + 1\<rparr>"

definition append_status_log ::
  "'a shop_scheme \<Rightarrow> order \<Rightarrow> order_status option \<Rightarrow> order_status \<Rightarrow> operator_type \<Rightarrow>
   int option \<Rightarrow> string option \<Rightarrow> 'a shop_scheme" where
  "append_status_log s ord from_status to_status operator operator_id reason =
    s\<lparr>status_logs := status_logs s @
      [\<lparr>sl_order_id = o_id ord, sl_order_no = o_order_no ord, sl_from_status = from_status,
        sl_to_status = to_status, sl_reason = reason, sl_operator_type = operator,
        sl_operator_id = operator_id, sl_created_at = db_now s\<rparr>]\<rparr>"

definition list_for_order :: "'a shop_scheme \<Rightarrow> int \<Rightarrow> status_log list" where
  "list_for_order s oid =
    sort_key sl_created_at (filter (\<lambda>l. sl_order_id l = oid) (status_logs s))"

text \<open>
  \<open>_paginate\<close>: newest first, ties by descending id, with the unpaginated total. The page number
  is clamped at one.
\<close>

definition paginate_orders :: "order list \<Rightarrow> order_status option \<Rightarrow> int \<Rightarrow> nat \<Rightarrow> order list \<times> nat" where
  "paginate_orders rows status page page_size =
    (let rows = filter (\<lambda>ord. case status of None \<Rightarrow> True | Some st \<Rightarrow> o_order_status ord = st) rows
     in (take page_size (drop (nat (max (page - 1) 0) * page_size)
           (sort_key (\<lambda>ord. - o_created_at ord) (sort_key (\<lambda>ord. - o_id ord) rows))), length rows))"

definition list_customer_orders ::
  "'a shop_scheme \<Rightarrow> int \<Rightarrow> order_status option \<Rightarrow> int \<Rightarrow> nat \<Rightarrow> order list \<times> nat" where
  "list_customer_orders s user_id status page page_size =
    paginate_orders (filter (\<lambda>ord. o_user_id ord = user_id) (orders s)) status page page_size"

definition list_admin_orders ::
  "'a shop_scheme \<Rightarrow> int option \<Rightarrow> order_status option \<Rightarrow> payment_status option \<Rightarrow>
   fulfillment_status option \<Rightarrow> string option \<Rightarrow> int \<Rightarrow> nat \<Rightarrow> order list \<times> nat" where
  "list_admin_orders s merchant_id status paid fulfilled order_no page page_size =
    paginate_orders (filter (\<lambda>ord.
      (case merchant_id of None \<Rightarrow> True | Some m \<Rightarrow> o_merchant_id ord = m) \<and>
      (case paid of None \<Rightarrow> True | Some p \<Rightarrow> o_payment_status ord = p) \<and>
      (case fulfilled of None \<Rightarrow> True | Some f \<Rightarrow> o_fulfillment_status ord = f) \<and>
      (case order_no of None \<Rightarrow> True | Some n \<Rightarrow> o_order_no ord = n)) (orders s)) status page page_size"

section \<open>Idempotency claims\<close>

definition order_create_scope :: string where
  "order_create_scope = ''order:create''"

definition get_claim :: "'a shop_scheme \<Rightarrow> string \<Rightarrow> string \<Rightarrow> idempotency_record option" where
  "get_claim s scope_name key = find (\<lambda>r. ir_scope r = scope_name \<and> ir_key r = key) (idempotency s)"

text \<open>The insert is attempted; the unique index answers \<open>None\<close>. The savepoint confines it.\<close>

definition insert_in_progress ::
  "'a shop_scheme \<Rightarrow> string \<Rightarrow> string \<Rightarrow> string \<Rightarrow> string option \<Rightarrow> int option \<Rightarrow>
   (idempotency_record \<times> 'a shop_scheme) option" where
  "insert_in_progress s scope_name key request_hash resource_type expires_at =
    (case get_claim s scope_name key of
       Some _ \<Rightarrow> None
     | None \<Rightarrow>
        let r = \<lparr>ir_scope = scope_name, ir_key = key, ir_request_hash = request_hash,
                 ir_status = Claim_IN_PROGRESS, ir_response_code = None, ir_response_snapshot = None,
                 ir_resource_type = resource_type, ir_resource_id = None, ir_expires_at = expires_at\<rparr>
        in Some (r, s\<lparr>idempotency := idempotency s @ [r]\<rparr>))"

definition put_claim :: "idempotency_record \<Rightarrow> idempotency_record list \<Rightarrow> idempotency_record list" where
  "put_claim r = map (\<lambda>q. if ir_scope q = ir_scope r \<and> ir_key q = ir_key r then r else q)"

definition mark_completed ::
  "'a shop_scheme \<Rightarrow> idempotency_record \<Rightarrow> string \<Rightarrow> int \<Rightarrow> int \<Rightarrow> response_snapshot option \<Rightarrow>
   'a shop_scheme" where
  "mark_completed s r resource_type resource_id code snapshot =
    s\<lparr>idempotency := put_claim
      (r\<lparr>ir_status := Claim_COMPLETED, ir_resource_type := Some resource_type,
         ir_resource_id := Some resource_id, ir_response_code := Some code,
         ir_response_snapshot := snapshot\<rparr>) (idempotency s)\<rparr>"

definition mark_claim_failed ::
  "'a shop_scheme \<Rightarrow> idempotency_record \<Rightarrow> int option \<Rightarrow> response_snapshot option \<Rightarrow>
   'a shop_scheme" where
  "mark_claim_failed s r code snapshot =
    s\<lparr>idempotency := put_claim
      (r\<lparr>ir_status := Claim_FAILED, ir_response_code := code, ir_response_snapshot := snapshot\<rparr>)
      (idempotency s)\<rparr>"

section \<open>Outbox and audit\<close>

text \<open>
  \<open>OutboxWriter.enqueue\<close>: one row per event and aggregate; the row already queued is returned
  instead. The vocabulary check is the types, and the payload builders name no secret.
\<close>

definition enqueue ::
  "'a shop_scheme \<Rightarrow> event_type \<Rightarrow> aggregate_type \<Rightarrow> int \<Rightarrow> string \<Rightarrow> event_payload \<Rightarrow> int option \<Rightarrow>
   'a shop_scheme" where
  "enqueue s event aggregate aggregate_id key payload merchant_id =
    (if list_ex (\<lambda>m. ob_event_type m = event \<and> ob_aggregate_type m = aggregate \<and>
          ob_aggregate_id m = aggregate_id) (outbox s)
     then s
     else s\<lparr>outbox := outbox s @
       [\<lparr>ob_id = fresh_id ob_id (outbox s), ob_event_type = event, ob_aggregate_type = aggregate,
         ob_aggregate_id = aggregate_id, ob_idempotency_key = key, ob_payload = payload,
         ob_merchant_id = merchant_id, ob_status = Out_PENDING, ob_attempt_count = 0,
         ob_next_retry_at = None, ob_published_at = None, ob_last_error = None\<rparr>]\<rparr>)"

definition audit_record_row ::
  "'a shop_scheme \<Rightarrow> int option \<Rightarrow> int option \<Rightarrow> string \<Rightarrow> string \<Rightarrow> string \<Rightarrow> int \<Rightarrow> string \<Rightarrow>
   'a shop_scheme" where
  "audit_record_row s merchant_id actor_id actor_type action resource_type resource_id outcome =
    s\<lparr>audit_log := audit_log s @
      [\<lparr>au_merchant_id = merchant_id, au_actor_id = actor_id, au_actor_type = actor_type,
        au_action = action, au_resource_type = resource_type, au_resource_id = resource_id,
        au_result = outcome\<rparr>]\<rparr>"

section \<open>Addresses\<close>

definition get_owned :: "'a shop_scheme \<Rightarrow> int \<Rightarrow> int \<Rightarrow> user_address option" where
  "get_owned s address_id user_id =
    find (\<lambda>a. ad_id a = address_id \<and> ad_user_id a = user_id \<and> ad_deleted_at a = None) (addresses s)"

definition address_get :: "'a shop_scheme \<Rightarrow> int \<Rightarrow> int \<Rightarrow> user_address result" where
  "address_get s user_id address_id =
    (case get_owned s address_id user_id of
       None \<Rightarrow> app_raise (Order_Err AddressNotFoundError)
     | Some a \<Rightarrow> ok a)"

text \<open>\<open>to_snapshot\<close> with the four structured parts \<open>_snapshot_address\<close> adds.\<close>

definition snapshot_address :: "user_address \<Rightarrow> address_snapshot" where
  "snapshot_address a =
    \<lparr>as_receiver_name = ad_receiver_name a, as_receiver_phone = ad_receiver_phone a,
     as_full_address = ad_province a @ ad_city a @ ad_district a @ ad_detail a,
     as_postal_code = (case ad_postal_code a of None \<Rightarrow> [] | Some p \<Rightarrow> p),
     as_province = ad_province a, as_city = ad_city a, as_district = ad_district a,
     as_detail = ad_detail a\<rparr>"

section \<open>Lemmas\<close>

lemma fresh_id_greater: "r \<in> set rows \<Longrightarrow> key r < fresh_id key rows"
  by (induction rows) (auto simp: fresh_id_def)

lemma fresh_id_positive: "0 < fresh_id key rows"
  by (induction rows) (auto simp: fresh_id_def)

lemma fresh_id_new: "fresh_id key rows \<notin> key ` set rows"
  using fresh_id_greater by (metis image_iff less_irrefl)

lemma row_of_Some: "row_of key rows i = Some r \<Longrightarrow> r \<in> set rows \<and> key r = i"
  by (auto simp: row_of_def find_Some_iff)

lemma row_of_None [simp]: "row_of key rows i = None \<longleftrightarrow> i \<notin> key ` set rows"
  by (auto simp: row_of_def find_None_iff)

lemma row_of_distinct:
  "distinct (map key rows) \<Longrightarrow> r \<in> set rows \<Longrightarrow> row_of key rows (key r) = Some r"
  by (induction rows) (auto simp: row_of_def)

lemma keys_put_row [simp]: "map key (put_row key row rows) = map key rows"
  by (induction rows) (auto simp: put_row_def)

lemma set_put_row:
  "key row \<in> key ` set rows \<Longrightarrow>
    set (put_row key row rows) = insert row {r \<in> set rows. key r \<noteq> key row}"
  by (auto simp: put_row_def)

lemma put_row_idle: "key row \<notin> key ` set rows \<Longrightarrow> put_row key row rows = rows"
  by (induction rows) (auto simp: put_row_def)

lemma put_row_append [simp]: "put_row key row (xs @ ys) = put_row key row xs @ put_row key row ys"
  by (simp add: put_row_def)

lemma put_row_put_row [simp]:
  "key a = key b \<Longrightarrow> put_row key a (put_row key b rows) = put_row key a rows"
  by (induction rows) (auto simp: put_row_def)

lemma length_put_row [simp]: "length (put_row key row rows) = length rows"
  by (simp add: put_row_def)

lemma row_of_put_row:
  "row_of key (put_row key row rows) i =
    (if i = key row then (if i \<in> key ` set rows then Some row else None) else row_of key rows i)"
  by (induction rows) (auto simp: row_of_def put_row_def)

lemma map_put_row_same:
  assumes "distinct (map key rows)" and "r \<in> set rows" and "key r' = key r" and "f r' = f r"
  shows "map f (put_row key r' rows) = map f rows"
proof -
  have "f (if key x = key r' then r' else x) = f x" if "x \<in> set rows" for x
  proof (cases "key x = key r'")
    case True
    then have "x = r"
      using assms(1-3) that unfolding distinct_map by (auto dest: inj_onD)
    then show ?thesis using assms(4) True by simp
  qed simp
  then show ?thesis by (simp add: put_row_def)
qed

lemma find_SomeD: "find P xs = Some x \<Longrightarrow> x \<in> set xs \<and> P x"
  by (auto simp: find_Some_iff)

end
