(* ===== verification/Marketing.thy ===== *)
theory Marketing
  imports Shop_Repository "HOL-Library.Product_Lexorder"
begin

text \<open>
  \<open>app/modules/marketing\<close>: the choice of the promotion for a cart, and the coupon service with
  its whole order lifecycle (\<open>claim\<close>, \<open>resolve_for_cart\<close>, \<open>lock_for_order\<close>, \<open>mark_used\<close>, \<open>release\<close>)
  and the expiry batch. The JSON scopes and rule configurations are what the schemas accepted.
\<close>

section \<open>Constraints\<close>

definition promotion_checks :: "promotion_row \<Rightarrow> bool" where
  "promotion_checks p \<longleftrightarrow>
    0 \<le> pm_total_quota p \<and> 0 \<le> pm_used_quota p \<and> pm_used_quota p \<le> pm_total_quota p \<and>
    pm_starts_at p < pm_ends_at p"

text \<open>A check refuses a row only when it is false: what a NULL leaves unknown passes.\<close>

definition template_checks :: "coupon_template \<Rightarrow> bool" where
  "template_checks t \<longleftrightarrow>
    0 < ct_total_quota t \<and> 0 \<le> ct_issued_count t \<and> ct_issued_count t \<le> ct_total_quota t \<and>
    0 < ct_per_user_limit t \<and> 0 \<le> ct_threshold_amount t \<and>
    case_option True (\<lambda>m. 0 < m) (ct_max_discount_amount t) \<and>
    (case ct_coupon_type t of
       FIXED_AMOUNT \<Rightarrow> case_option True (\<lambda>v. 0 < v) (ct_face_value_amount t) \<and>
         ct_discount_bps t = None \<and> ct_max_discount_amount t = None
     | COUPON_PERCENT_DISCOUNT \<Rightarrow> ct_face_value_amount t = None \<and>
         case_option True (\<lambda>b. 1 \<le> b \<and> b \<le> 10000) (ct_discount_bps t)) \<and>
    (case ct_validity_type t of
       RELATIVE \<Rightarrow> case_option True (\<lambda>d. 0 < d) (ct_valid_days t) \<and>
         ct_valid_from t = None \<and> ct_valid_to t = None
     | ABSOLUTE \<Rightarrow> ct_valid_days t = None \<and>
         (case (ct_valid_from t, ct_valid_to t) of (Some a, Some b) \<Rightarrow> a < b | _ \<Rightarrow> True))"

definition user_coupon_checks :: "user_coupon \<Rightarrow> bool" where
  "user_coupon_checks c \<longleftrightarrow>
    uc_valid_from c < uc_valid_to c \<and>
    (if uc_status c \<in> {Coupon_UNUSED, Coupon_EXPIRED} then uc_order_id c = None
     else uc_order_id c \<noteq> None)"

definition flush_coupon :: "'a shop_scheme \<Rightarrow> user_coupon \<Rightarrow> 'a shop_scheme result" where
  "flush_coupon s c =
    (if user_coupon_checks c then ok (s\<lparr>user_coupons := put_row uc_id c (user_coupons s)\<rparr>)
     else raise (IntegrityError ''user_coupons''))"

definition add_usage :: "'a shop_scheme \<Rightarrow> order \<Rightarrow> user_coupon \<Rightarrow> coupon_action \<Rightarrow> 'a shop_scheme result"
where
  "add_usage s ord c action =
    (let r = \<lparr>cu_merchant_id = o_merchant_id ord, cu_user_coupon_id = uc_id c,
              cu_order_id = o_id ord, cu_action = action\<rparr> in
     if list_ex (\<lambda>q. cu_user_coupon_id q = uc_id c \<and> cu_order_id q = o_id ord \<and>
          cu_action q = action) (coupon_usage s)
     then raise (IntegrityError ''coupon_usage_records'')
     else ok (s\<lparr>coupon_usage := coupon_usage s @ [r]\<rparr>))"

section \<open>Scopes\<close>

text \<open>The join of the cart's SKUs with their products under one merchant.\<close>

definition sku_rows :: "'a shop_scheme \<Rightarrow> int set \<Rightarrow> int \<Rightarrow> (product_sku \<times> product) list" where
  "sku_rows s sku_ids merchant_id =
    concat (map (\<lambda>k. map (Pair k) (filter (\<lambda>p. pd_id p = sk_product_id k \<and>
        pd_merchant_id p = Some merchant_id) (products s)))
      (filter (\<lambda>k. sk_id k \<in> sku_ids) (skus s)))"

definition in_scope :: "scope \<Rightarrow> product \<Rightarrow> bool" where
  "in_scope sc p \<longleftrightarrow> scope_all_products sc \<or> pd_id p \<in> set (scope_product_ids sc) \<or>
    (case pd_category_id p of None \<Rightarrow> False | Some c \<Rightarrow> c \<in> set (scope_category_ids sc)) \<or>
    (case pd_brand_id p of None \<Rightarrow> False | Some b \<Rightarrow> b \<in> set (scope_brand_ids sc))"

definition eligible_skus :: "scope \<Rightarrow> (product_sku \<times> product) list \<Rightarrow> int set" where
  "eligible_skus sc rows = (\<lambda>(k, p). sk_id k) ` set (filter (\<lambda>(k, p). in_scope sc p) rows)"

section \<open>Promotions\<close>

definition promotion_rule_of :: "promotion_row \<Rightarrow> int set \<Rightarrow> raw_promotion" where
  "promotion_rule_of p eligible =
    (let c = pm_rule_config p; get = (\<lambda>v. PyInt (case_option 0 id v)) in
     \<lparr>pr_promotion_id = PyInt (pm_id p), pr_promotion_type = Member (pm_type p),
      pr_threshold_amount = get (rc_threshold_amount c),
      pr_discount_amount = get (rc_discount_amount c), pr_discount_bps = get (rc_discount_bps c),
      pr_reduction_amount = get (rc_reduction_amount c),
      pr_max_discount_amount = map_option PyInt (rc_max_discount_amount c),
      pr_applicable_sku_ids = Some eligible\<rparr>)"

definition promotion_live :: "int \<Rightarrow> promotion_row \<Rightarrow> bool" where
  "promotion_live now p \<longleftrightarrow> pm_status p = Campaign_ACTIVE \<and> pm_starts_at p \<le> now \<and>
    pm_ends_at p > now \<and> pm_used_quota p < pm_total_quota p"

definition promotion_candidate ::
  "(product_sku \<times> product) list \<Rightarrow> pyval priced_line list option \<Rightarrow> promotion_row \<Rightarrow>
   (int \<times> promotion_row) option result" where
  "promotion_candidate rows priced_lines p =
    (let eligible = eligible_skus (pm_scope p) rows in
     if eligible = {} then ok None
     else case priced_lines of
       None \<Rightarrow> ok (Some (0, p))
     | Some lines \<Rightarrow>
        bindE (calculate_cart_price lines (Some (promotion_rule_of p eligible)) None None)
          (\<lambda>cart. ok (Some (pv_promotion_discount_amount cart, p))))"

definition candidate_key :: "int \<times> promotion_row \<Rightarrow> int \<times> int \<times> int" where
  "candidate_key c = (fst c, pm_priority (snd c), - pm_id (snd c))"

text \<open>\<open>max(candidates, key=...)\<close>: the first of the greatest.\<close>

fun best_candidate :: "(int \<times> promotion_row) list \<Rightarrow> (int \<times> promotion_row) option" where
  "best_candidate [] = None"
| "best_candidate (c # cs) =
    (case best_candidate cs of
       None \<Rightarrow> Some c
     | Some d \<Rightarrow> if candidate_key c < candidate_key d then Some d else Some c)"

definition resolve_promotion ::
  "'a shop_scheme \<Rightarrow> int \<Rightarrow> int set \<Rightarrow> pyval priced_line list option \<Rightarrow>
   (raw_promotion \<times> promotion_row) option result" where
  "resolve_promotion s merchant_id sku_ids priced_lines =
    (if sku_ids = {} then ok None
     else
       let rows = sku_rows s sku_ids merchant_id;
           live = filter (\<lambda>p. pm_merchant_id p = merchant_id \<and> promotion_live (db_now s) p)
             (promotions s);
           ordered = sort_key (\<lambda>p. - pm_priority p) (sort_key pm_id live)
       in bindE (mapE (promotion_candidate rows priced_lines) ordered) (\<lambda>found.
          ok (map_option
            (\<lambda>(d, p). (promotion_rule_of p (eligible_skus (pm_scope p) rows), p))
            (best_candidate (List.map_filter id found)))))"

text \<open>The quota a created order takes: \<open>promotion_row.used_quota += 1\<close>, flushed.\<close>

definition use_promotion :: "'a shop_scheme \<Rightarrow> promotion_row \<Rightarrow> 'a shop_scheme result" where
  "use_promotion s p =
    (let p' = p\<lparr>pm_used_quota := pm_used_quota p + 1\<rparr> in
     if promotion_checks p' then ok (s\<lparr>promotions := put_row pm_id p' (promotions s)\<rparr>)
     else raise (IntegrityError ''promotions''))"

definition promotion_merchant :: "principal \<Rightarrow> bool \<Rightarrow> int result" where
  "promotion_merchant p write =
    bindE (require_permission p (if write then ''promotion:write'' else ''promotion:read'')) (\<lambda>_.
    case p_merchant_id p of None \<Rightarrow> app_raise (Auth PermissionDeniedError) | Some m \<Rightarrow> ok m)"

definition promotion_transition ::
  "'a shop_scheme \<Rightarrow> principal \<Rightarrow> int \<Rightarrow> bool \<Rightarrow> (promotion_row \<times> 'a shop_scheme) result" where
  "promotion_transition s who promotion_id publish =
    bindE (promotion_merchant who True) (\<lambda>merchant_id.
    case find (\<lambda>p. pm_id p = promotion_id \<and> pm_merchant_id p = merchant_id) (promotions s) of
      None \<Rightarrow> app_raise (Marketing PromotionNotFoundError)
    | Some p \<Rightarrow>
        let expected = (if publish then Campaign_DRAFT else Campaign_ACTIVE) in
        require (\<not> (pm_status p \<noteq> expected \<or> publish \<and> pm_ends_at p \<le> db_now s))
          (AppError (Marketing PromotionConflictError))
        (let p' = p\<lparr>pm_status := (if publish then Campaign_ACTIVE else Campaign_ENDED)\<rparr>
         in ok (p', s\<lparr>promotions := put_row pm_id p' (promotions s)\<rparr>)))"

definition promotion_list_active :: "'a shop_scheme \<Rightarrow> promotion_row list" where
  "promotion_list_active s =
    sort_key (\<lambda>p. - pm_priority p)
      (sort_key pm_id (filter (promotion_live (db_now s)) (promotions s)))"

definition promotion_list_admin ::
  "'a shop_scheme \<Rightarrow> principal \<Rightarrow> nat \<Rightarrow> nat \<Rightarrow> (promotion_row list \<times> nat) result" where
  "promotion_list_admin s who page page_size =
    bindE (promotion_merchant who False) (\<lambda>merchant_id.
    let rows = filter (\<lambda>p. pm_merchant_id p = merchant_id) (promotions s)
    in ok (take page_size (drop ((page - 1) * page_size)
         (sort_key (\<lambda>p. - pm_created_at p) (sort_key (\<lambda>p. - pm_id p) rows))), length rows))"

section \<open>Coupon templates\<close>

definition coupon_merchant :: "principal \<Rightarrow> bool \<Rightarrow> int result" where
  "coupon_merchant p write =
    bindE (require_permission p (if write then ''coupon:write'' else ''coupon:read'')) (\<lambda>_.
    case p_merchant_id p of None \<Rightarrow> app_raise (Auth PermissionDeniedError) | Some m \<Rightarrow> ok m)"

definition coupon_transition ::
  "'a shop_scheme \<Rightarrow> principal \<Rightarrow> int \<Rightarrow> bool \<Rightarrow> (coupon_template \<times> 'a shop_scheme) result" where
  "coupon_transition s who template_id publish =
    bindE (coupon_merchant who True) (\<lambda>merchant_id.
    case find (\<lambda>t. ct_id t = template_id \<and> ct_merchant_id t = merchant_id) (templates s) of
      None \<Rightarrow> app_raise (Marketing CouponNotFoundError)
    | Some t \<Rightarrow>
        require (\<not> ct_status t \<noteq> (if publish then Campaign_DRAFT else Campaign_ACTIVE))
          (AppError (Marketing PromotionConflictError))
        (require (\<not> (publish \<and> ct_validity_type t = ABSOLUTE \<and>
            (case ct_valid_to t of None \<Rightarrow> True | Some e \<Rightarrow> e \<le> db_now s)))
          (AppError (Marketing CouponExpiredError))
        (let t' = t\<lparr>ct_status := (if publish then Campaign_ACTIVE else Campaign_ENDED)\<rparr>
         in ok (t', s\<lparr>templates := put_row ct_id t' (templates s)\<rparr>))))"

text \<open>How many coupons of a template a customer holds, whatever their state.\<close>

definition owned_count :: "'a shop_scheme \<Rightarrow> int \<Rightarrow> int \<Rightarrow> int" where
  "owned_count s template_id user_id =
    int (length (filter (\<lambda>c. uc_template_id c = template_id \<and> uc_user_id c = user_id)
      (user_coupons s)))"

definition coupon_available ::
  "'a shop_scheme \<Rightarrow> principal \<Rightarrow> nat \<Rightarrow> nat \<Rightarrow> (coupon_template list \<times> nat) result" where
  "coupon_available s who page page_size =
    require (\<not> p_is_staff who) (AppError (Auth PermissionDeniedError))
    (let rows = filter (\<lambda>t. ct_status t = Campaign_ACTIVE \<and> ct_issued_count t < ct_total_quota t \<and>
           (ct_validity_type t = RELATIVE \<or>
            (case ct_valid_to t of None \<Rightarrow> False | Some e \<Rightarrow> e > db_now s)) \<and>
           owned_count s (ct_id t) (p_user_id who) < ct_per_user_limit t) (templates s)
     in ok (take page_size (drop ((page - 1) * page_size)
          (sort_key (\<lambda>t. - ct_created_at t) (sort_key (\<lambda>t. - ct_id t) rows))), length rows))"

definition coupon_mine :: "'a shop_scheme \<Rightarrow> principal \<Rightarrow> user_coupon list result" where
  "coupon_mine s who =
    require (\<not> p_is_staff who) (AppError (Auth PermissionDeniedError))
    (ok (sort_key (\<lambda>c. - uc_created_at c) (sort_key (\<lambda>c. - uc_id c)
      (filter (\<lambda>c. uc_user_id c = p_user_id who) (user_coupons s)))))"

text \<open>The validity window a claim writes: \<open>timedelta(days=valid_days)\<close> from now, or the template's.\<close>

definition claim_window :: "coupon_template \<Rightarrow> int \<Rightarrow> (int \<times> int) result" where
  "claim_window t now =
    (case ct_validity_type t of
       RELATIVE \<Rightarrow>
        (case ct_valid_days t of
           None \<Rightarrow> app_raise (Common ValidationError)
         | Some d \<Rightarrow> ok (now, now + d * ms_per_day))
     | ABSOLUTE \<Rightarrow>
        (case (ct_valid_from t, ct_valid_to t) of
           (Some a, Some b) \<Rightarrow>
             if b \<le> now then app_raise (Marketing CouponExpiredError) else ok (a, b)
         | _ \<Rightarrow> app_raise (Common ValidationError)))"

definition claim :: "'a shop_scheme \<Rightarrow> principal \<Rightarrow> int \<Rightarrow> (user_coupon \<times> 'a shop_scheme) result" where
  "claim s who template_id =
    require (\<not> p_is_staff who) (AppError (Auth PermissionDeniedError))
    (case row_of ct_id (templates s) template_id of
       None \<Rightarrow> app_raise (Marketing CouponNotFoundError)
     | Some t \<Rightarrow>
        require (ct_status t = Campaign_ACTIVE) (AppError (Marketing CouponNotFoundError))
        (require (\<not> ct_issued_count t \<ge> ct_total_quota t)
          (AppError (Marketing CouponNotApplicableError))
        (require (\<not> owned_count s (ct_id t) (p_user_id who) \<ge> ct_per_user_limit t)
          (AppError (Marketing CouponNotApplicableError))
        (bindE (claim_window t (db_now s)) (\<lambda>(starts, ends).
         let c = \<lparr>uc_id = fresh_id uc_id (user_coupons s), uc_merchant_id = ct_merchant_id t,
                  uc_template_id = ct_id t, uc_user_id = p_user_id who, uc_status = Coupon_UNUSED,
                  uc_valid_from = starts, uc_valid_to = ends, uc_order_id = None,
                  uc_locked_at = None, uc_used_at = None, uc_created_at = db_now s\<rparr>;
             t' = t\<lparr>ct_issued_count := ct_issued_count t + 1\<rparr>
         in if template_checks t' \<and> user_coupon_checks c
            then ok (c, s\<lparr>templates := put_row ct_id t' (templates s),
                          user_coupons := user_coupons s @ [c]\<rparr>)
            else raise (IntegrityError ''user_coupons''))))))"

section \<open>Coupons in an order\<close>

definition coupon_rule_of :: "coupon_template \<Rightarrow> int \<Rightarrow> int set \<Rightarrow> raw_coupon" where
  "coupon_rule_of t coupon_id sku_ids =
    \<lparr>cr_coupon_id = PyInt coupon_id, cr_coupon_type = Member (ct_coupon_type t),
     cr_threshold_amount = PyInt (ct_threshold_amount t),
     cr_face_value_amount = PyInt (case_option 0 id (ct_face_value_amount t)),
     cr_discount_bps = PyInt (case_option 0 id (ct_discount_bps t)),
     cr_max_discount_amount = map_option PyInt (ct_max_discount_amount t),
     cr_applicable_sku_ids = Some sku_ids\<rparr>"

definition require_applicable_discount :: "cart_price \<Rightarrow> unit result" where
  "require_applicable_discount cart =
    (if pv_coupon_discount_amount cart > 0 then ok ()
     else if pricing_warning_value COUPON_THRESHOLD_NOT_MET \<in> set (cp_warnings cart)
     then app_raise (Marketing CouponThresholdNotMetError)
     else app_raise (Marketing CouponNotApplicableError))"

definition owned_coupon :: "'a shop_scheme \<Rightarrow> int \<Rightarrow> int \<Rightarrow> int \<Rightarrow> user_coupon option" where
  "owned_coupon s coupon_id merchant_id user_id =
    find (\<lambda>c. uc_id c = coupon_id \<and> uc_user_id c = user_id \<and> uc_merchant_id c = merchant_id)
      (user_coupons s)"

definition resolve_coupon ::
  "'a shop_scheme \<Rightarrow> int \<Rightarrow> int \<Rightarrow> int \<Rightarrow> int set \<Rightarrow> (raw_coupon \<times> user_coupon) result" where
  "resolve_coupon s coupon_id user_id merchant_id sku_ids =
    (case owned_coupon s coupon_id merchant_id user_id of
       None \<Rightarrow> app_raise (Marketing CouponNotFoundError)
     | Some c \<Rightarrow>
       (case find (\<lambda>t. ct_id t = uc_template_id c \<and> ct_merchant_id t = merchant_id) (templates s) of
          None \<Rightarrow> app_raise (Marketing CouponNotFoundError)
        | Some t \<Rightarrow>
          require (\<not> uc_status c = Coupon_LOCKED) (AppError (Marketing CouponAlreadyLockedError))
          (require (\<not> uc_status c = Coupon_USED) (AppError (Marketing CouponAlreadyUsedError))
          (require (\<not> (uc_status c = Coupon_EXPIRED \<or> uc_valid_to c \<le> db_now s))
            (AppError (Marketing CouponExpiredError))
          (require (\<not> (uc_status c \<noteq> Coupon_UNUSED \<or> uc_valid_from c > db_now s))
            (AppError (Marketing CouponNotApplicableError))
          (let eligible = eligible_skus ((ct_applicable_scope t)\<lparr>scope_brand_ids := []\<rparr>)
                 (sku_rows s sku_ids merchant_id)
           in require (eligible \<noteq> {}) (AppError (Marketing CouponNotApplicableError))
             (ok (coupon_rule_of t (uc_id c) eligible, c))))))))"

definition lock_for_order ::
  "'a shop_scheme \<Rightarrow> user_coupon \<Rightarrow> order \<Rightarrow> 'a shop_scheme result" where
  "lock_for_order s c ord =
    require (\<not> (uc_merchant_id c \<noteq> o_merchant_id ord \<or> uc_user_id c \<noteq> o_user_id ord))
      (AppError (Marketing CouponNotFoundError))
    (require (\<not> (uc_status c \<noteq> Coupon_UNUSED \<or> uc_valid_to c \<le> db_now s))
      (AppError (Marketing CouponAlreadyLockedError))
    (bindE (flush_coupon s (c\<lparr>uc_status := Coupon_LOCKED, uc_order_id := Some (o_id ord),
        uc_locked_at := Some (db_now s)\<rparr>)) (\<lambda>s. add_usage s ord c Act_LOCK)))"

definition order_coupon :: "'a shop_scheme \<Rightarrow> order \<Rightarrow> int \<Rightarrow> user_coupon option" where
  "order_coupon s ord coupon_id = owned_coupon s coupon_id (o_merchant_id ord) (o_user_id ord)"

definition mark_used :: "'a shop_scheme \<Rightarrow> order \<Rightarrow> 'a shop_scheme result" where
  "mark_used s ord =
    (case o_coupon_id ord of
       None \<Rightarrow> ok s
     | Some coupon_id \<Rightarrow>
       (case order_coupon s ord coupon_id of
          None \<Rightarrow> ok s
        | Some c \<Rightarrow>
          if uc_status c \<in> {Coupon_UNUSED, Coupon_EXPIRED} \<and> uc_order_id c = None then ok s
          else
            require (\<not> (uc_status c \<noteq> Coupon_LOCKED \<or> uc_order_id c \<noteq> Some (o_id ord)))
              (AppError (Common ValidationError))
            (bindE (flush_coupon s (c\<lparr>uc_status := Coupon_USED, uc_used_at := Some (db_now s)\<rparr>))
              (\<lambda>s. add_usage s ord c Act_USE))))"

definition release_coupon :: "'a shop_scheme \<Rightarrow> order \<Rightarrow> 'a shop_scheme result" where
  "release_coupon s ord =
    (case o_coupon_id ord of
       None \<Rightarrow> ok s
     | Some coupon_id \<Rightarrow>
       (case order_coupon s ord coupon_id of
          None \<Rightarrow> app_raise (Common ValidationError)
        | Some c \<Rightarrow>
          require (\<not> (uc_status c \<noteq> Coupon_LOCKED \<or> uc_order_id c \<noteq> Some (o_id ord)))
            (AppError (Common ValidationError))
          (bindE (flush_coupon s
            (c\<lparr>uc_status := (if uc_valid_to c \<le> db_now s then Coupon_EXPIRED else Coupon_UNUSED),
               uc_order_id := None, uc_locked_at := None\<rparr>))
            (\<lambda>s. add_usage s ord c Act_RELEASE))))"

section \<open>Expiry\<close>

definition coupon_due :: "int \<Rightarrow> user_coupon \<Rightarrow> bool" where
  "coupon_due now c \<longleftrightarrow> uc_status c = Coupon_UNUSED \<and> uc_valid_to c \<le> now"

text \<open>A non-positive limit is a \<open>ValueError\<close> of the caller; the batch is what is left.\<close>

definition expire_due_coupons :: "'a shop_scheme \<Rightarrow> nat \<Rightarrow> nat \<times> 'a shop_scheme" where
  "expire_due_coupons s limit =
    (let batch = take limit (sort_key uc_valid_to (sort_key uc_id
           (filter (coupon_due (db_now s)) (user_coupons s))))
     in (length batch, s\<lparr>user_coupons :=
          fold (\<lambda>c. put_row uc_id (c\<lparr>uc_status := Coupon_EXPIRED\<rparr>)) batch (user_coupons s)\<rparr>))"

end
