(* ===== verification/Shop_Sample.thy ===== *)
theory Shop_Sample
  imports Marketing
begin

text \<open>
  A small concrete shop for the witnesses: one merchant with one warehouse, one product with two
  SKUs in stock, a promotion, a coupon template with one coupon issued, and one customer with an
  address. The digest of its environment is the identity.
\<close>

definition sample_movement :: "nat \<Rightarrow> int \<Rightarrow> int \<Rightarrow> string \<Rightarrow> movement" where
  "sample_movement i sku q key =
    \<lparr>mv_id = i, mv_warehouse_id = 1, mv_sku_id = sku, mv_type = PURCHASE_IN, delta_available = q,
     delta_locked = 0, before_available = 0, after_available = q, before_locked = 0,
     after_locked = 0, mv_reference_type = REF_MANUAL, mv_reference_id = None,
     mv_operator_type = STAFF, mv_operator_id = Some 2, mv_idempotency_key = key,
     mv_reason = None\<rparr>"

definition sample_inventory :: "int \<Rightarrow> int \<Rightarrow> int \<Rightarrow> inventory" where
  "sample_inventory i sku q =
    \<lparr>inv_id = i, inv_merchant_id = 1, inv_warehouse_id = 1, inv_sku_id = sku, available_qty = q,
     locked_qty = 0, safety_stock = 2, total_in_qty = q, total_out_qty = 0, inv_version = 2,
     last_movement_at = Some 0\<rparr>"

definition sample_sku :: "int \<Rightarrow> string \<Rightarrow> int \<Rightarrow> product_sku" where
  "sample_sku i name price =
    \<lparr>sk_id = i, sk_product_id = 5, sk_name = name, sk_status = ''ACTIVE'', sk_price_amount = price,
     sk_attribute_snapshot = None, sk_deleted_at = None, sk_merchant_id = Some 1,
     sk_no = ''S'' @ int_text i, sk_code = ''mug-'' @ int_text i, sk_market_price_amount = 0,
     sk_cost_amount = 0, sk_purchase_limit = 0, sk_sort_order = 0\<rparr>"

definition whole_shop :: scope where
  "whole_shop = \<lparr>scope_all_products = True, scope_product_ids = [], scope_category_ids = [],
    scope_brand_ids = []\<rparr>"

definition sample_promotion_row :: promotion_row where
  "sample_promotion_row =
    \<lparr>pm_id = 3, pm_merchant_id = 1, pm_type = PERCENT_DISCOUNT, pm_status = Campaign_ACTIVE,
     pm_priority = 100,
     pm_rule_config = \<lparr>rc_threshold_amount = None, rc_discount_amount = None,
       rc_discount_bps = Some 1000, rc_reduction_amount = None, rc_max_discount_amount = None\<rparr>,
     pm_scope = whole_shop, pm_starts_at = 0, pm_ends_at = 2000000000, pm_total_quota = 100,
     pm_used_quota = 0, pm_created_at = 0, pm_promotion_no = ''NVP19700101000003'',
     pm_preview_token_hash = ''p'', pm_name = ''Ten percent'', pm_description = None,
     pm_stackable = False\<rparr>"

definition sample_template :: coupon_template where
  "sample_template =
    \<lparr>ct_id = 4, ct_merchant_id = 1, ct_coupon_type = FIXED_AMOUNT, ct_status = Campaign_ACTIVE,
     ct_face_value_amount = Some 200, ct_discount_bps = None, ct_threshold_amount = 1000,
     ct_max_discount_amount = None, ct_total_quota = 10, ct_issued_count = 1,
     ct_per_user_limit = 2, ct_validity_type = RELATIVE, ct_valid_days = Some 1,
     ct_valid_from = None, ct_valid_to = None, ct_applicable_scope = whole_shop,
     ct_created_at = 0, ct_template_no = ''NVC19700101000004'', ct_preview_token_hash = ''c'',
     ct_name = ''Two off''\<rparr>"

definition sample_user_coupon :: user_coupon where
  "sample_user_coupon =
    \<lparr>uc_id = 1, uc_merchant_id = 1, uc_template_id = 4, uc_user_id = 9, uc_status = Coupon_UNUSED,
     uc_valid_from = 0, uc_valid_to = 86400000, uc_order_id = None, uc_locked_at = None,
     uc_used_at = None, uc_created_at = 0\<rparr>"

definition sample_address :: user_address where
  "sample_address =
    \<lparr>ad_id = 6, ad_user_id = 9, ad_receiver_name = ''Li Lei'', ad_receiver_phone = ''13800000000'',
     ad_province = ''Zhejiang'', ad_city = ''Hangzhou'', ad_district = ''Xihu'',
     ad_detail = ''1 Road'', ad_postal_code = None, ad_deleted_at = None,
     ad_merchant_id = None, ad_tag = ''HOME'', ad_is_default = True\<rparr>"

definition sample_shop :: shop where
  "sample_shop =
    \<lparr>db_now = 1000,
     warehouses = [\<lparr>wh_id = 1, wh_merchant_id = 1, wh_code = ''MAIN'', wh_active = True,
                    wh_is_default = True\<rparr>],
     inventories = [sample_inventory 1 7 10, sample_inventory 2 8 5],
     movements = [sample_movement 1 7 10 ''in-7'', sample_movement 2 8 5 ''in-8''],
     skus = [sample_sku 7 ''Red'' 1000, sample_sku 8 ''Blue'' 500],
     products = [\<lparr>pd_id = 5, pd_merchant_id = Some 1, pd_category_id = None, pd_brand_id = None,
                  pd_name = ''Mug'', pd_status = ''PUBLISHED'', pd_deleted_at = None, pd_no = ''P1'',
                  pd_slug = ''product-1'', pd_subtitle = None, pd_description = None,
                  pd_published_at = Some 0, pd_unpublished_at = None, pd_min_price = 500,
                  pd_max_price = 1000, pd_primary_image_object_key = None, pd_sales_count = 0,
                  pd_sort_order = 0, pd_created_at = 0\<rparr>],
     images = [], addresses = [sample_address], promotions = [sample_promotion_row],
     templates = [sample_template], user_coupons = [sample_user_coupon], coupon_usage = [],
     orders = [], order_items = [], status_logs = [], idempotency = [], outbox = [],
     audit_log = [], payments = [], payment_callbacks = [], compensations = [],
     fulfillments = [], after_sales = [], refunds = []\<rparr>"

definition sample_env :: env where
  "sample_env =
    \<lparr>ev_sha256 = (\<lambda>text. text), ev_hmac_sha256 = (\<lambda>key text. key @ text), ev_uuid = ''uuid'', ev_order_no_prefix = ''NV'',
     ev_payment_no_prefix = ''NVPAY'', ev_fulfillment_no_prefix = ''NVF'',
     ev_order_payment_timeout_minutes = 15, ev_payment_enabled_channels = {''MOCK''},
     ev_payment_callback_secret = ''secret'', ev_payment_provider_secrets = [],
     ev_payment_callback_max_skew_seconds = 300\<rparr>"

definition sample_customer :: principal where
  "sample_customer = \<lparr>p_user_id = 9, p_merchant_id = None, p_permissions = {},
    p_data_scope = Scope_SELF, p_is_staff = False\<rparr>"

definition order_of_coupon :: order where
  "order_of_coupon =
    \<lparr>o_id = 1, o_merchant_id = 1, o_user_id = 9, o_order_no = ''N1'', o_client_request_id = ''r'',
     o_request_hash = ''h'', o_order_status = PENDING_PAYMENT, o_payment_status = UNPAID,
     o_fulfillment_status = UNFULFILLED, o_after_sale_status = AS_NONE, o_original_amount = 1000,
     o_promotion_discount_amount = 0, o_coupon_discount_amount = 200, o_shipping_amount = 0,
     o_payable_amount = 800, o_paid_amount = 0, o_refunded_amount = 0, o_coupon_id = Some 1,
     o_promotion_id = None,
     o_pricing_snapshot = \<lparr>pn_promotion = None, pn_coupon = None, pn_shipping_policy = ''FREE'',
       pn_promotion_allocations = [], pn_coupon_allocations = []\<rparr>,
     o_address_id = Some 6, o_receiver_name = ''Li Lei'', o_receiver_phone = ''13800000000'',
     o_address_snapshot = snapshot_address sample_address, o_remark = None, o_cancel_reason = None,
     o_item_count = 1, o_first_item_name = ''Mug Red'', o_expires_at = Some 901000,
     o_paid_at = None, o_completed_at = None, o_cancelled_at = None, o_closed_at = None,
     o_created_at = 1000, o_version = 1\<rparr>"

definition sample_order_item :: order_item where
  "sample_order_item =
    \<lparr>oi_id = 1, oi_order_id = 1, oi_warehouse_id = 1, oi_product_id = 5, oi_sku_id = 7,
     oi_product_name = ''Mug'', oi_sku_name = ''Red'', oi_image_object_key = None,
     oi_image_url = None, oi_sku_snapshot = None, oi_unit_price = 1000, oi_quantity = 3,
     oi_original_amount = 3000, oi_promotion_discount_amount = 0, oi_coupon_discount_amount = 0,
     oi_allocated_discount_amount = 0, oi_payable_amount = 3000, oi_refunded_amount = 0,
     oi_after_sale_status = AS_NONE\<rparr>"

definition sample_payment :: payment where
  "sample_payment =
    \<lparr>pay_id = 1, pay_merchant_id = 1, pay_payment_no = ''P1'', pay_order_id = 1, pay_order_no = ''N1'',
     pay_user_id = 9, pay_channel = ''MOCK'', pay_amount = 800, pay_status = Pay_PAYING,
     pay_external_transaction_no = None, pay_idempotency_key = ''k'', pay_client_request_id = ''r'',
     pay_request_hash = ''h'', pay_paid_amount = 0, pay_refunded_amount = 0,
     pay_expires_at = Some 901000, pay_paid_at = None, pay_closed_at = None, pay_created_at = 1000\<rparr>"

lemma sample_shop_stock: "stock_wf sample_shop"
  by code_simp

end
