(* ===== verification/Shop_Facts.thy ===== *)
theory Shop_Facts
  imports Shop_Repository
begin

text \<open>
  Lemmas the properties of several components share: totals over a table when one row is written,
  dictionaries built from distinct keys, and joined lists.
\<close>

section \<open>Totals over a table\<close>

definition total :: "('r \<Rightarrow> int) \<Rightarrow> 'r list \<Rightarrow> int" where
  "total f rows = sum_list (map f rows)"

lemma total_simps [simp]:
  "total f [] = 0" "total f (r # rows) = f r + total f rows" "total f (xs @ ys) = total f xs + total f ys"
  by (simp_all add: total_def)

lemma total_put_row_absent: "key row \<notin> key ` set rows \<Longrightarrow> total f (put_row key row rows) = total f rows"
  by (simp add: put_row_idle)

lemma total_put_row:
  "distinct (map key rows) \<Longrightarrow> r \<in> set rows \<Longrightarrow> key r' = key r \<Longrightarrow>
    total f (put_row key r' rows) = total f rows - f r + f r'"
proof (induction rows)
  case Nil
  then show ?case by simp
next
  case (Cons x rows)
  show ?case
  proof (cases "x = r")
    case True
    with Cons.prems have "key r' \<notin> key ` set rows" by auto
    then have "total f (put_row key r' rows) = total f rows" by (rule total_put_row_absent)
    with True Cons.prems(3) show ?thesis by (simp add: put_row_def)
  next
    case False
    with Cons.prems have "r \<in> set rows" and "key x \<noteq> key r'" by auto
    with Cons show ?thesis by (simp add: put_row_def)
  qed
qed

lemma total_cong: "(\<And>r. r \<in> set rows \<Longrightarrow> f r = g r) \<Longrightarrow> total f rows = total g rows"
  by (induction rows) simp_all

lemma total_zero: "(\<And>r. r \<in> set rows \<Longrightarrow> f r = 0) \<Longrightarrow> total f rows = 0"
  by (induction rows) simp_all

lemma total_nonneg: "(\<And>r. r \<in> set rows \<Longrightarrow> 0 \<le> f r) \<Longrightarrow> 0 \<le> total f rows"
  by (induction rows) simp_all

lemma total_mono: "(\<And>r. r \<in> set rows \<Longrightarrow> f r \<le> g r) \<Longrightarrow> total f rows \<le> total g rows"
  by (induction rows) (simp_all add: add_mono)

lemma total_add: "total (\<lambda>r. f r + g r) rows = total f rows + total g rows"
  by (induction rows) simp_all

lemma total_member: "(\<And>r. r \<in> set rows \<Longrightarrow> 0 \<le> f r) \<Longrightarrow> r \<in> set rows \<Longrightarrow> f r \<le> total f rows"
proof (induction rows)
  case (Cons x rows)
  have "0 \<le> total f rows" using Cons.prems(1) by (intro total_nonneg) simp
  then show ?case using Cons by (cases "r = x") fastforce+
qed simp

lemma total_filter: "total f (filter P rows) = total (\<lambda>r. if P r then f r else 0) rows"
  by (induction rows) simp_all

lemma total_map: "total f (map g rows) = total (\<lambda>r. f (g r)) rows"
  by (induction rows) simp_all

lemma total_concat: "total f (concat rows) = total (total f) rows"
  by (induction rows) simp_all

lemma total_sort_key [simp]: "total f (sort_key k rows) = total f rows"
proof -
  have "total f (insort_key k x xs) = f x + total f xs" for x xs
    by (induction xs) simp_all
  then show ?thesis by (induction rows) simp_all
qed

section \<open>A batch of rows written back\<close>

lemma fold_put_rows:
  assumes "distinct (map key rows)" and "distinct (map key batch)" and "set batch \<subseteq> set rows"
    and "\<And>r. key (f r) = key r"
  shows "fold (\<lambda>r. put_row key (f r)) batch rows =
    map (\<lambda>r. if r \<in> set batch then f r else r) rows"
proof -
  have "fold (\<lambda>r. put_row key (f r)) batch (map g rows) =
      map (\<lambda>r. if r \<in> set batch then f r else g r) rows"
    if "\<And>r. r \<in> set rows \<Longrightarrow> key (g r) = key r" "distinct (map key batch)" "set batch \<subseteq> set rows" for g
    using that
  proof (induction batch arbitrary: g)
    case (Cons b batch)
    have inj: "key r = key b \<longleftrightarrow> r = b" if "r \<in> set rows" for r
      using assms(1) Cons.prems(3) that by (auto simp: distinct_map dest: inj_onD)
    have step: "put_row key (f b) (map g rows) = map (\<lambda>r. if r = b then f b else g r) rows"
      using inj Cons.prems(1) by (auto simp: put_row_def assms(4))
    have "fold (\<lambda>r. put_row key (f r)) batch (map (\<lambda>r. if r = b then f b else g r) rows) =
        map (\<lambda>r. if r \<in> set batch then f r else if r = b then f b else g r) rows"
      using Cons.prems by (intro Cons.IH) (auto simp: assms(4))
    then show ?case by (auto simp: step)
  qed simp
  from this [of "\<lambda>r. r"] assms show ?thesis by simp
qed

section \<open>Dictionaries from distinct keys\<close>

lemma fold_dict_set_new:
  "distinct (map fst kvs) \<Longrightarrow> fst ` set kvs \<inter> fst ` set d = {} \<Longrightarrow>
    fold (\<lambda>(k, v). dict_set k v) kvs d = d @ kvs"
proof (induction kvs arbitrary: d)
  case (Cons kv kvs)
  obtain k v where kv: "kv = (k, v)" by (cases kv)
  with Cons.prems have "dict_set k v d = d @ [(k, v)]" by (intro dict_set_new) auto
  with Cons.prems kv Cons.IH [of "d @ [(k, v)]"] show ?case by auto
qed simp

lemma same_row: "distinct (map key rows) \<Longrightarrow> a \<in> set rows \<Longrightarrow> b \<in> set rows \<Longrightarrow> key a = key b \<Longrightarrow> a = b"
  by (auto simp: distinct_map dest: inj_onD)

section \<open>Traversals\<close>

lemma foldE_map: "foldE f s (map g xs) = foldE (\<lambda>s x. f s (g x)) s xs"
  by (induction xs arbitrary: s) (auto intro!: bindE_cong)

lemma mapE_unit: "mapE f xs = ok us \<Longrightarrow> x \<in> set xs \<Longrightarrow> f x = ok ()"
  by (auto dest: mapE_Inr_each)

end
