(* ===== verification/Marketing_Properties.thy ===== *)
theory Marketing_Properties
  imports Shop_Sample Shop_Facts
begin

text \<open>
  Every coupon step as a relation on the tables, the invariant \<open>coupons_wf\<close> of the two coupon tables
  with its preservation, and the properties of the coupon lifecycle.
\<close>

section \<open>Steps\<close>

text \<open>
  What can happen to the coupon tables: a claim, a template transition, the three operations of an
  order, for any order row, the expiry batch, and the passing of time.
\<close>

inductive coupon_step :: "'a shop_scheme \<Rightarrow> 'a shop_scheme \<Rightarrow> bool" where
  step_claim: "claim s who tid = ok (c, s') \<Longrightarrow> coupon_step s s'"
| step_transition: "coupon_transition s who tid publish = ok (t, s') \<Longrightarrow> coupon_step s s'"
| step_lock: "c \<in> set (user_coupons s) \<Longrightarrow> lock_for_order s c ord = ok s' \<Longrightarrow> coupon_step s s'"
| step_use: "mark_used s ord = ok s' \<Longrightarrow> coupon_step s s'"
| step_release: "release_coupon s ord = ok s' \<Longrightarrow> coupon_step s s'"
| step_expire: "expire_due_coupons s limit = (n, s') \<Longrightarrow> coupon_step s s'"
| step_tick: "coupon_step s (s\<lparr>db_now := now\<rparr>)"

inductive coupon_run :: "'a shop_scheme \<Rightarrow> 'a shop_scheme \<Rightarrow> bool" where
  run_stop: "coupon_run s s"
| run_step: "coupon_run s t \<Longrightarrow> coupon_step t u \<Longrightarrow> coupon_run s u"

section \<open>The invariant\<close>

definition issued :: "'a shop_scheme \<Rightarrow> int \<Rightarrow> int" where
  "issued s tid = int (length (filter (\<lambda>c. uc_template_id c = tid) (user_coupons s)))"

definition quota_kept :: "'a shop_scheme \<Rightarrow> coupon_template \<Rightarrow> bool" where
  "quota_kept s t \<longleftrightarrow> issued s (ct_id t) = ct_issued_count t \<and>
    ct_issued_count t \<le> ct_total_quota t \<and>
    (\<forall>u. owned_count s (ct_id t) u \<le> ct_per_user_limit t)"

definition coupons_wf :: "'a shop_scheme \<Rightarrow> bool" where
  "coupons_wf s \<longleftrightarrow> distinct (map uc_id (user_coupons s)) \<and> distinct (map ct_id (templates s)) \<and>
    (\<forall>t \<in> set (templates s). quota_kept s t) \<and> (\<forall>c \<in> set (user_coupons s). user_coupon_checks c)"

text \<open>Whose coupon a row is; no step after the claim changes it.\<close>

definition ident :: "user_coupon \<Rightarrow> int \<times> int \<times> int" where
  "ident c = (uc_id c, uc_template_id c, uc_user_id c)"

definition quota :: "coupon_template \<Rightarrow> int \<times> int \<times> int \<times> int" where
  "quota t = (ct_id t, ct_issued_count t, ct_total_quota t, ct_per_user_limit t)"

lemma length_filter_via_map:
  "length (filter (P \<circ> f) xs) = length (filter P (map f xs))"
  by (simp add: filter_map)

lemma issued_ident: "issued s tid = int (length (filter (\<lambda>i. fst (snd i) = tid) (map ident (user_coupons s))))"
  unfolding issued_def length_filter_via_map [symmetric] by (simp add: ident_def comp_def)

lemma owned_ident: "owned_count s tid u =
    int (length (filter (\<lambda>i. fst (snd i) = tid \<and> snd (snd i) = u) (map ident (user_coupons s))))"
  unfolding owned_count_def length_filter_via_map [symmetric] by (simp add: ident_def comp_def)

lemma coupons_wf_same:
  assumes "coupons_wf s" and "map ident (user_coupons s') = map ident (user_coupons s)"
    and "map quota (templates s') = map quota (templates s)"
    and "\<forall>c \<in> set (user_coupons s'). user_coupon_checks c"
  shows "coupons_wf s'"
proof -
  have ids: "map uc_id (user_coupons s') = map uc_id (user_coupons s)"
    using arg_cong [OF assms(2), of "map fst"] by (simp add: ident_def comp_def)
  have tids: "map ct_id (templates s') = map ct_id (templates s)"
    using arg_cong [OF assms(3), of "map fst"] by (simp add: quota_def comp_def)
  have "quota_kept s' t'" if "t' \<in> set (templates s')" for t'
  proof -
    from that assms(3) have "quota t' \<in> quota ` set (templates s)"
      by (metis image_eqI list.set_map)
    then obtain t where "t \<in> set (templates s)" and "quota t = quota t'" by auto
    with assms(1) show ?thesis
      by (auto simp: coupons_wf_def quota_kept_def issued_ident owned_ident assms(2) quota_def)
  qed
  then show ?thesis using assms(1,4) ids tids by (simp add: coupons_wf_def)
qed

lemma flush_coupon_wf:
  assumes "coupons_wf s" and "c \<in> set (user_coupons s)" and "ident c' = ident c"
    and "flush_coupon s c' = ok s'"
  shows "coupons_wf s'"
proof (rule coupons_wf_same [OF assms(1)])
  have d: "distinct (map uc_id (user_coupons s))" using assms(1) by (simp add: coupons_wf_def)
  have id: "uc_id c' = uc_id c" using assms(3) by (simp add: ident_def)
  from assms(4) have s': "s' = s\<lparr>user_coupons := put_row uc_id c' (user_coupons s)\<rparr>"
    and chk: "user_coupon_checks c'" by (auto simp: flush_coupon_def split: if_splits)
  show "map ident (user_coupons s') = map ident (user_coupons s)"
    unfolding s' using map_put_row_same [OF d assms(2) id assms(3)] by simp
  show "map quota (templates s') = map quota (templates s)" by (simp add: s')
  show "\<forall>c \<in> set (user_coupons s'). user_coupon_checks c"
    using chk assms(1,2) id by (auto simp: s' coupons_wf_def set_put_row)
qed

lemma add_usage_wf [simp]: "add_usage s ord c a = ok s' \<Longrightarrow> coupons_wf s' = coupons_wf s"
  by (auto simp: add_usage_def Let_def coupons_wf_def quota_kept_def issued_def owned_count_def
      split: if_splits)

lemma owned_coupon_Some:
  "owned_coupon s i m u = Some c \<Longrightarrow>
    c \<in> set (user_coupons s) \<and> uc_id c = i \<and> uc_user_id c = u \<and> uc_merchant_id c = m"
  unfolding owned_coupon_def by (drule find_SomeD) simp

text \<open>The three operations of an order rewrite one row and note it, or do nothing.\<close>

definition rewritten :: "'a shop_scheme \<Rightarrow> user_coupon \<Rightarrow> user_coupon \<Rightarrow> order \<Rightarrow> coupon_action \<Rightarrow>
    'a shop_scheme \<Rightarrow> bool" where
  "rewritten s c c' ord a s' \<longleftrightarrow> c \<in> set (user_coupons s) \<and> ident c' = ident c \<and>
    bindE (flush_coupon s c') (\<lambda>s. add_usage s ord c a) = ok s'"

lemma lock_for_order_cases:
  assumes "lock_for_order s c ord = ok s'" and "c \<in> set (user_coupons s)"
  shows "rewritten s c (c\<lparr>uc_status := Coupon_LOCKED, uc_order_id := Some (o_id ord),
      uc_locked_at := Some (db_now s)\<rparr>) ord Act_LOCK s' \<and> uc_status c = Coupon_UNUSED"
  using assms by (auto simp: lock_for_order_def require_eq_Inr rewritten_def ident_def)

lemma mark_used_cases:
  assumes "mark_used s ord = ok s'"
  obtains "s' = s"
  | c coupon_id where "o_coupon_id ord = Some coupon_id" and "order_coupon s ord coupon_id = Some c"
      and "uc_status c = Coupon_LOCKED" and "uc_order_id c = Some (o_id ord)"
      and "rewritten s c (c\<lparr>uc_status := Coupon_USED, uc_used_at := Some (db_now s)\<rparr>) ord Act_USE s'"
  using assms
  by (auto simp: mark_used_def require_eq_Inr rewritten_def ident_def order_coupon_def
      split: option.splits if_splits dest: owned_coupon_Some)

lemma release_coupon_cases:
  assumes "release_coupon s ord = ok s'"
  obtains "s' = s"
  | c coupon_id where "o_coupon_id ord = Some coupon_id" and "order_coupon s ord coupon_id = Some c"
      and "uc_status c = Coupon_LOCKED" and "uc_order_id c = Some (o_id ord)"
      and "rewritten s c
        (c\<lparr>uc_status := (if uc_valid_to c \<le> db_now s then Coupon_EXPIRED else Coupon_UNUSED),
           uc_order_id := None, uc_locked_at := None\<rparr>) ord Act_RELEASE s'"
  using assms
  by (auto simp: release_coupon_def require_eq_Inr rewritten_def ident_def order_coupon_def
      split: option.splits dest: owned_coupon_Some)

lemma rewritten_wf:
  assumes "coupons_wf s" and "rewritten s c c' ord a s'"
  shows "coupons_wf s'"
proof -
  obtain t where t: "flush_coupon s c' = ok t" and u: "add_usage t ord c a = ok s'"
    using assms(2) by (auto simp: rewritten_def bindE_eq_Inr)
  have "coupons_wf t" using flush_coupon_wf [OF assms(1) _ _ t] assms(2) by (auto simp: rewritten_def)
  with add_usage_wf [OF u] show ?thesis by simp
qed

section \<open>Preservation\<close>

text \<open>What a granted claim did.\<close>

lemma claimE:
  assumes "claim s who tid = ok (c, s')"
  obtains t where "row_of ct_id (templates s) tid = Some t" and "ct_id t = tid"
    and "t \<in> set (templates s)" and "ct_issued_count t < ct_total_quota t"
    and "owned_count s tid (p_user_id who) < ct_per_user_limit t"
    and "user_coupon_checks c" and "uc_template_id c = tid" and "uc_user_id c = p_user_id who"
    and "uc_id c = fresh_id uc_id (user_coupons s)" and "uc_status c = Coupon_UNUSED"
    and "s' = s\<lparr>templates := put_row ct_id (t\<lparr>ct_issued_count := ct_issued_count t + 1\<rparr>) (templates s),
               user_coupons := user_coupons s @ [c]\<rparr>"
proof -
  from assms obtain t where t: "row_of ct_id (templates s) tid = Some t"
    by (auto simp: claim_def require_eq_Inr split: option.splits)
  note m = row_of_Some [OF t]
  show thesis
    using assms t m
    by (intro that [of t])
      (auto simp: claim_def require_eq_Inr bindE_eq_Inr Let_def split: if_splits prod.splits)
qed

lemma claim_wf:
  assumes "coupons_wf s" and "claim s who tid = ok (c, s')"
  shows "coupons_wf s'"
proof -
  obtain t where t: "ct_id t = tid" "t \<in> set (templates s)" "ct_issued_count t < ct_total_quota t"
    "owned_count s tid (p_user_id who) < ct_per_user_limit t"
    and c: "user_coupon_checks c" "uc_template_id c = tid" "uc_user_id c = p_user_id who"
      "uc_id c = fresh_id uc_id (user_coupons s)"
    and s': "s' = s\<lparr>templates := put_row ct_id (t\<lparr>ct_issued_count := ct_issued_count t + 1\<rparr>) (templates s),
               user_coupons := user_coupons s @ [c]\<rparr>"
    using assms(2) by (rule claimE) (rule that)
  note wf = assms(1) [unfolded coupons_wf_def]
  let ?t' = "t\<lparr>ct_issued_count := ct_issued_count t + 1\<rparr>"
  have rows: "set (templates s') = insert ?t' {r \<in> set (templates s). ct_id r \<noteq> tid}"
    using set_put_row [of ct_id ?t' "templates s"] t(1,2) by (auto simp: s')
  have count: "issued s' i = issued s i + (if i = tid then 1 else 0)" for i
    using c by (simp add: issued_def s')
  have owned: "owned_count s' i u = owned_count s i u +
      (if i = tid \<and> u = p_user_id who then 1 else 0)" for i u
    using c by (simp add: owned_count_def s')
  have kept: "quota_kept s r" if "r \<in> set (templates s)" for r using wf that by simp
  have "quota_kept s' r" if "r \<in> set (templates s')" for r
  proof (cases "ct_id r = tid")
    case True
    then have r: "r = ?t'" using that unfolding rows by simp
    show ?thesis
      using kept [OF t(2)] t by (auto simp: quota_kept_def count owned r)
  next
    case False
    then have "r \<in> set (templates s)" using that t(1) unfolding rows by auto
    from kept [OF this] False show ?thesis by (simp add: quota_kept_def count owned)
  qed
  then show ?thesis
    using wf c fresh_id_new [of uc_id "user_coupons s"] by (auto simp: coupons_wf_def s')
qed

lemma coupon_transitionE:
  assumes "coupon_transition s who tid publish = ok (t, s')"
  obtains r where "r \<in> set (templates s)"
    and "t = r\<lparr>ct_status := (if publish then Campaign_ACTIVE else Campaign_ENDED)\<rparr>"
    and "s' = s\<lparr>templates := put_row ct_id t (templates s)\<rparr>"
proof -
  obtain m where m: "coupon_merchant who True = ok m"
    using assms by (auto simp: coupon_transition_def bindE_eq_Inr)
  let ?found = "find (\<lambda>t. ct_id t = tid \<and> ct_merchant_id t = m) (templates s)"
  obtain r where "?found = Some r"
    using assms m by (cases ?found) (auto simp: coupon_transition_def)
  then show thesis
    using assms m find_SomeD [of _ "templates s" r]
    by (intro that [of r]) (auto simp: coupon_transition_def require_eq_Inr Let_def)
qed

lemma transition_wf:
  assumes "coupons_wf s" and "coupon_transition s who tid publish = ok (t, s')"
  shows "coupons_wf s'"
proof -
  obtain r where r: "r \<in> set (templates s)" and t: "quota t = quota r"
    and s': "s' = s\<lparr>templates := put_row ct_id t (templates s)\<rparr>"
    using assms(2) by (rule coupon_transitionE) (rule that, auto simp: quota_def)
  have d: "distinct (map ct_id (templates s))" using assms(1) by (simp add: coupons_wf_def)
  have "map quota (templates s') = map quota (templates s)"
    using map_put_row_same [OF d r, of t quota] t by (simp add: s' quota_def)
  then show ?thesis
    using assms(1) by (intro coupons_wf_same [OF assms(1)]) (auto simp: s' coupons_wf_def)
qed

text \<open>The expiry batch: rows due, each rewritten once.\<close>

definition expired_row :: "user_coupon \<Rightarrow> user_coupon" where
  "expired_row c = c\<lparr>uc_status := Coupon_EXPIRED\<rparr>"

lemma expired_row_same [simp]: "uc_id (expired_row c) = uc_id c" "ident (expired_row c) = ident c"
  by (simp_all add: expired_row_def ident_def)

lemma expired_checks: "user_coupon_checks c \<Longrightarrow> uc_status c = Coupon_UNUSED \<Longrightarrow>
    user_coupon_checks (expired_row c)"
  by (simp add: user_coupon_checks_def expired_row_def)

lemma expire_due_coupons_eq:
  assumes "distinct (map uc_id (user_coupons s))" and "expire_due_coupons s limit = (n, s')"
  shows "\<exists>batch. n = length batch \<and> distinct batch \<and>
    batch = take limit (sort_key uc_valid_to (sort_key uc_id
      (filter (coupon_due (db_now s)) (user_coupons s)))) \<and>
    s' = s\<lparr>user_coupons := map (\<lambda>c. if c \<in> set batch then expired_row c else c) (user_coupons s)\<rparr>"
proof -
  let ?due = "filter (coupon_due (db_now s)) (user_coupons s)"
  let ?batch = "take limit (sort_key uc_valid_to (sort_key uc_id ?due))"
  have "distinct (map uc_id ?due)" using assms(1) by (simp add: distinct_map_filter)
  then have "distinct (map uc_id (sort_key uc_valid_to (sort_key uc_id ?due)))"
    by (simp add: distinct_map)
  then have d: "distinct (map uc_id ?batch)"
    by (metis distinct_take take_map)
  have sub: "set ?batch \<subseteq> set (user_coupons s)"
    using set_take_subset [of limit "sort_key uc_valid_to (sort_key uc_id ?due)"] by auto
  have "fold (\<lambda>c. put_row uc_id (expired_row c)) ?batch (user_coupons s) =
      map (\<lambda>c. if c \<in> set ?batch then expired_row c else c) (user_coupons s)"
    by (rule fold_put_rows [OF assms(1) d sub]) simp
  then show ?thesis
    using assms(2) d by (auto simp: expire_due_coupons_def Let_def expired_row_def distinct_map)
qed

lemma expire_wf:
  assumes "coupons_wf s" and "expire_due_coupons s limit = (n, s')"
  shows "coupons_wf s'"
proof -
  from expire_due_coupons_eq [OF _ assms(2)] assms(1) obtain batch where
    b: "batch = take limit (sort_key uc_valid_to (sort_key uc_id
      (filter (coupon_due (db_now s)) (user_coupons s))))"
    and s': "s' = s\<lparr>user_coupons := map (\<lambda>c. if c \<in> set batch then expired_row c else c) (user_coupons s)\<rparr>"
    by (auto simp: coupons_wf_def)
  have due: "uc_status c = Coupon_UNUSED" if "c \<in> set batch" for c
    using that unfolding b by (auto simp: coupon_due_def dest!: in_set_takeD)
  show ?thesis
    using assms(1) due
    by (intro coupons_wf_same [OF assms(1)]) (auto simp: s' coupons_wf_def expired_checks)
qed

lemma coupon_step_wf: "coupon_step s s' \<Longrightarrow> coupons_wf s \<Longrightarrow> coupons_wf s'"
proof (induction rule: coupon_step.induct)
  case (step_lock c s ord s')
  with lock_for_order_cases rewritten_wf show ?case by blast
next
  case (step_use s ord s')
  then show ?case by (metis mark_used_cases rewritten_wf)
next
  case (step_release s ord s')
  then show ?case by (metis release_coupon_cases rewritten_wf)
next
  case (step_tick s now)
  then show ?case
    by (simp add: coupons_wf_def quota_kept_def issued_def owned_count_def)
qed (auto intro: claim_wf transition_wf expire_wf)

lemma coupon_run_wf: "coupon_run s s' \<Longrightarrow> coupons_wf s \<Longrightarrow> coupons_wf s'"
  by (induction rule: coupon_run.induct) (auto intro: coupon_step_wf)

section \<open>What a step leaves alone\<close>

text \<open>A used coupon: its row, and the number of its \<open>USE\<close> records.\<close>

definition uses :: "'a shop_scheme \<Rightarrow> int \<Rightarrow> nat" where
  "uses s i = length (filter (\<lambda>r. cu_user_coupon_id r = i \<and> cu_action r = Act_USE) (coupon_usage s))"

definition spent :: "'a shop_scheme \<Rightarrow> user_coupon \<Rightarrow> bool" where
  "spent s c \<longleftrightarrow> c \<in> set (user_coupons s) \<and> uc_status c = Coupon_USED"

lemma rewritten_spent:
  assumes "coupons_wf s" and "rewritten s c c' ord a s'" and "uc_status c \<noteq> Coupon_USED" and "spent s u"
  shows "spent s' u \<and> uses s' (uc_id u) = uses s (uc_id u)"
proof -
  have ne: "uc_id u \<noteq> uc_id c"
    using assms unfolding coupons_wf_def distinct_map spent_def rewritten_def by (auto dest: inj_onD)
  have id: "uc_id c' = uc_id c" using assms(2) by (simp add: rewritten_def ident_def)
  have "u \<in> set (user_coupons s')" "uses s' (uc_id u) = uses s (uc_id u)"
    using assms(2,4) ne id
    by (auto simp: rewritten_def flush_coupon_def add_usage_def bindE_eq_Inr Let_def spent_def uses_def
        set_put_row split: if_splits)
  then show ?thesis using assms(4) by (simp add: spent_def)
qed

lemma coupon_step_spent:
  "coupon_step s s' \<Longrightarrow> coupons_wf s \<Longrightarrow> spent s u \<Longrightarrow>
    spent s' u \<and> uses s' (uc_id u) = uses s (uc_id u)"
proof (induction rule: coupon_step.induct)
  case (step_claim s who tid c s')
  then show ?case by (elim claimE) (simp add: spent_def uses_def)
next
  case (step_transition s who tid publish t s')
  then show ?case by (elim coupon_transitionE) (simp add: spent_def uses_def)
next
  case (step_lock c s ord s')
  with lock_for_order_cases [of s c ord s'] show ?case by (intro rewritten_spent) auto
next
  case (step_use s ord s')
  from step_use.hyps show ?case
  proof (cases rule: mark_used_cases)
    case (2 c coupon_id)
    with rewritten_spent [OF step_use.prems(1) 2(5) _ step_use.prems(2)] show ?thesis by simp
  qed (use step_use.prems in simp)
next
  case (step_release s ord s')
  from step_release.hyps show ?case
  proof (cases rule: release_coupon_cases)
    case (2 c coupon_id)
    with rewritten_spent [OF step_release.prems(1) 2(5) _ step_release.prems(2)] show ?thesis by simp
  qed (use step_release.prems in simp)
next
  case (step_expire s limit n s')
  then have d: "distinct (map uc_id (user_coupons s))" by (simp add: coupons_wf_def)
  from expire_due_coupons_eq [OF this step_expire.hyps] obtain batch where
    b: "batch = take limit (sort_key uc_valid_to (sort_key uc_id
      (filter (coupon_due (db_now s)) (user_coupons s))))"
    and s': "s' = s\<lparr>user_coupons := map (\<lambda>c. if c \<in> set batch then expired_row c else c) (user_coupons s)\<rparr>"
    by blast
  have "u \<notin> set batch"
    using step_expire.prems(2) unfolding b by (auto simp: coupon_due_def spent_def dest!: in_set_takeD)
  then show ?case using step_expire.prems(2) by (force simp: s' spent_def uses_def)
next
  case (step_tick s now)
  then show ?case by (simp add: spent_def uses_def)
qed

section \<open>Properties\<close>

text \<open>
  C9: the quotas of a template hold. From a consistent state, after any sequence of claims,
  publications, order operations, expiry batches and clock changes, every template has issued
  exactly as many coupons as it counts, never more than its total quota, and no customer holds
  more of it than the per-user limit.
\<close>

theorem coupon_quotas_hold:
  assumes "coupons_wf s" and "coupon_run s s'" and "t \<in> set (templates s')"
  shows "issued s' (ct_id t) = ct_issued_count t \<and> ct_issued_count t \<le> ct_total_quota t \<and>
    (\<forall>user. owned_count s' (ct_id t) user \<le> ct_per_user_limit t)"
  using coupon_run_wf [OF assms(2,1)] assms(3) by (simp add: coupons_wf_def quota_kept_def)

text \<open>
  C15: a coupon is spent once. When a coupon has been used, no later step of any kind, for any
  order, changes its row again or records another use of it.
\<close>

theorem coupon_spent_once:
  assumes "coupon_run s s'" and "coupons_wf s" and "c \<in> set (user_coupons s)"
    and "uc_status c = Coupon_USED"
  shows "row_of uc_id (user_coupons s') (uc_id c) = Some c \<and> uses s' (uc_id c) = uses s (uc_id c)"
proof -
  have "spent s' c \<and> uses s' (uc_id c) = uses s (uc_id c)"
    using assms
  proof (induction rule: coupon_run.induct)
    case (run_stop s)
    then show ?case by (simp add: spent_def)
  next
    case (run_step s t u)
    have "spent t c" and "uses t (uc_id c) = uses s (uc_id c)" using run_step by blast+
    with coupon_step_spent [OF run_step.hyps(2) coupon_run_wf [OF run_step.hyps(1) run_step.prems(1)], of c]
    show ?case by simp
  qed
  moreover have "distinct (map uc_id (user_coupons s'))"
    using coupon_run_wf [OF assms(1,2)] by (simp add: coupons_wf_def)
  ultimately show ?thesis by (simp add: spent_def row_of_distinct)
qed

section \<open>A coupon and its order\<close>

lemma owned_coupon_member:
  assumes "distinct (map uc_id (user_coupons s))" and "c \<in> set (user_coupons s)"
  shows "owned_coupon s (uc_id c) (uc_merchant_id c) (uc_user_id c) = Some c"
proof -
  have "find (\<lambda>r. uc_id r = uc_id c \<and> uc_user_id r = uc_user_id c \<and> uc_merchant_id r = uc_merchant_id c) rows
      = Some c" if "distinct (map uc_id rows)" "c \<in> set rows" for rows
    using that by (induction rows) auto
  with assms show ?thesis by (simp add: owned_coupon_def)
qed

definition used_for :: "'a shop_scheme \<Rightarrow> user_coupon \<Rightarrow> order \<Rightarrow> coupon_action \<Rightarrow> bool" where
  "used_for s c ord a \<longleftrightarrow> list_ex (\<lambda>q. cu_user_coupon_id q = uc_id c \<and> cu_order_id q = o_id ord \<and>
    cu_action q = a) (coupon_usage s)"

text \<open>A rewrite that the constraints accept puts the new row in the place of the old one.\<close>

lemma rewrite_runs:
  assumes "distinct (map uc_id (user_coupons s))" and "c \<in> set (user_coupons s)"
    and "uc_id c' = uc_id c" and "user_coupon_checks c'" and "\<not> used_for s c ord a"
  shows "\<exists>s'. bindE (flush_coupon s c') (\<lambda>s. add_usage s ord c a) = ok s' \<and>
    c' \<in> set (user_coupons s') \<and> distinct (map uc_id (user_coupons s')) \<and> db_now s' = db_now s \<and>
    (\<forall>b. b \<noteq> a \<longrightarrow> used_for s' c ord b = used_for s c ord b)"
  using assms
  by (auto simp: flush_coupon_def add_usage_def Let_def used_for_def set_put_row)

text \<open>
  A locked coupon follows its order. After an order has locked a coupon, at any later moment
  a payment can use it and a cancellation can release it: released, the row is the one before the
  lock, or expired when its window has ended meanwhile; used, it can no longer be released.
\<close>

theorem locked_coupon_settles:
  assumes "coupons_wf s" and "c \<in> set (user_coupons s)" and "lock_for_order s c ord = ok s1"
    and "o_coupon_id ord = Some (uc_id c)" and "\<not> used_for s c ord Act_USE"
    and "\<not> used_for s c ord Act_RELEASE"
  shows "(\<exists>s2. release_coupon (s1\<lparr>db_now := now\<rparr>) ord = ok s2 \<and>
      row_of uc_id (user_coupons s2) (uc_id c) =
        Some (c\<lparr>uc_status := (if uc_valid_to c \<le> now then Coupon_EXPIRED else Coupon_UNUSED),
                uc_order_id := None, uc_locked_at := None\<rparr>)) \<and>
    (\<exists>s3. mark_used (s1\<lparr>db_now := now\<rparr>) ord = ok s3 \<and>
      row_of uc_id (user_coupons s3) (uc_id c) =
        Some (c\<lparr>uc_status := Coupon_USED, uc_order_id := Some (o_id ord),
                uc_locked_at := Some (db_now s), uc_used_at := Some now\<rparr>) \<and>
      release_coupon s3 ord = app_raise (Common ValidationError))"
proof -
  let ?l = "c\<lparr>uc_status := Coupon_LOCKED, uc_order_id := Some (o_id ord), uc_locked_at := Some (db_now s)\<rparr>"
  let ?r = "?l\<lparr>uc_status := (if uc_valid_to c \<le> now then Coupon_EXPIRED else Coupon_UNUSED),
      uc_order_id := None, uc_locked_at := None\<rparr>"
  let ?u = "?l\<lparr>uc_status := Coupon_USED, uc_used_at := Some now\<rparr>"
  let ?t = "s1\<lparr>db_now := now\<rparr>"
  have d: "distinct (map uc_id (user_coupons s))" and chk: "user_coupon_checks c"
    using assms(1,2) by (auto simp: coupons_wf_def)
  have mine: "uc_merchant_id c = o_merchant_id ord" "uc_user_id c = o_user_id ord"
    using assms(3) by (auto simp: lock_for_order_def require_eq_Inr)
  have run: "bindE (flush_coupon s ?l) (\<lambda>s. add_usage s ord c Act_LOCK) = ok s1"
    using lock_for_order_cases [OF assms(3,2)] by (simp add: rewritten_def)
  have "\<not> used_for s c ord Act_LOCK" using run
    by (auto simp: bindE_eq_Inr flush_coupon_def add_usage_def used_for_def Let_def split: if_splits)
  from rewrite_runs [OF d assms(2) _ _ this, of ?l] run chk
  have l: "?l \<in> set (user_coupons ?t)" and d1: "distinct (map uc_id (user_coupons ?t))"
    and free: "\<not> used_for ?t ?l ord Act_USE" "\<not> used_for ?t ?l ord Act_RELEASE"
    using assms(5,6) by (auto simp: user_coupon_checks_def used_for_def)
  have found: "order_coupon ?t ord (uc_id c) = Some ?l"
    using owned_coupon_member [OF d1 l] mine by (simp add: order_coupon_def)
  have checks: "user_coupon_checks ?r" "user_coupon_checks ?u"
    using chk by (auto simp: user_coupon_checks_def)
  obtain s2 where s2: "bindE (flush_coupon ?t ?r) (\<lambda>s. add_usage s ord ?l Act_RELEASE) = ok s2"
    and r: "?r \<in> set (user_coupons s2)" "distinct (map uc_id (user_coupons s2))"
    using rewrite_runs [OF d1 l _ checks(1) free(2)] by auto
  have "release_coupon ?t ord = ok s2"
    using s2 assms(4) found by (simp add: release_coupon_def require_def)
  moreover have "row_of uc_id (user_coupons s2) (uc_id c) = Some ?r"
    using row_of_distinct [OF r(2,1)] by simp
  moreover obtain s3 where s3: "bindE (flush_coupon ?t ?u) (\<lambda>s. add_usage s ord ?l Act_USE) = ok s3"
    and u: "?u \<in> set (user_coupons s3)" "distinct (map uc_id (user_coupons s3))"
    using rewrite_runs [OF d1 l _ checks(2) free(1)] by auto
  moreover have "mark_used ?t ord = ok s3"
    using s3 assms(4) found by (simp add: mark_used_def require_def)
  moreover have "row_of uc_id (user_coupons s3) (uc_id c) = Some ?u"
    using row_of_distinct [OF u(2,1)] by simp
  moreover have "order_coupon s3 ord (uc_id c) = Some ?u"
    using owned_coupon_member [OF u(2,1)] mine by (simp add: order_coupon_def)
  ultimately show ?thesis
    using assms(4) by (simp add: release_coupon_def require_def)
qed

section \<open>The best promotion\<close>

lemma best_candidate_max:
  "best_candidate cs = Some d \<Longrightarrow> d \<in> set cs \<and> (\<forall>c \<in> set cs. candidate_key c \<le> candidate_key d)"
proof (induction cs arbitrary: d)
  case (Cons c cs)
  show ?case
  proof (cases "best_candidate cs")
    case None
    then have "cs = []" by (cases cs) (auto split: option.splits if_splits)
    with Cons.prems show ?thesis by simp
  next
    case (Some e)
    with Cons.IH have e: "e \<in> set cs" "\<forall>c \<in> set cs. candidate_key c \<le> candidate_key e" by blast+
    show ?thesis
    proof (cases "candidate_key c < candidate_key e")
      case True
      with Some Cons.prems e show ?thesis by auto
    next
      case False
      with Some Cons.prems have "d = c" by simp
      with False e show ?thesis by auto
    qed
  qed
qed simp

lemma best_candidate_exists: "cs \<noteq> [] \<Longrightarrow> \<exists>d. best_candidate cs = Some d"
  by (cases cs) (auto split: option.splits)

definition covered_skus :: "'a shop_scheme \<Rightarrow> int \<Rightarrow> int set \<Rightarrow> promotion_row \<Rightarrow> int set" where
  "covered_skus s merchant sku_ids p = eligible_skus (pm_scope p) (sku_rows s sku_ids merchant)"

definition promotion_rival :: "'a shop_scheme \<Rightarrow> int \<Rightarrow> int set \<Rightarrow> promotion_row \<Rightarrow> bool" where
  "promotion_rival s merchant sku_ids p \<longleftrightarrow> p \<in> set (promotions s) \<and> pm_merchant_id p = merchant \<and>
    promotion_live (db_now s) p \<and> covered_skus s merchant sku_ids p \<noteq> {}"

text \<open>
  C19: the weaker discount never wins. When \<open>resolve_for_cart\<close> picks a promotion for a priced cart,
  it is a live one of the merchant that covers something in the cart, and pricing the cart with any
  other such promotion succeeds and gives no bigger discount; with an equal discount, no higher
  priority. It picks none only when no live promotion covers anything.
\<close>

theorem best_promotion_wins:
  assumes "resolve_promotion s merchant sku_ids (Some lines) = ok found" and "sku_ids \<noteq> {}"
  shows "case found of
      None \<Rightarrow> \<forall>q. \<not> promotion_rival s merchant sku_ids q
    | Some (rule, p) \<Rightarrow> promotion_rival s merchant sku_ids p \<and>
        rule = promotion_rule_of p (covered_skus s merchant sku_ids p) \<and>
        (\<exists>cart. calculate_cart_price lines (Some rule) None None = ok cart \<and>
          (\<forall>q. promotion_rival s merchant sku_ids q \<longrightarrow>
            (\<exists>other. calculate_cart_price lines
                (Some (promotion_rule_of q (covered_skus s merchant sku_ids q))) None None = ok other \<and>
              (pv_promotion_discount_amount other < pv_promotion_discount_amount cart \<or>
               pv_promotion_discount_amount other = pv_promotion_discount_amount cart \<and>
               pm_priority q \<le> pm_priority p))))"
proof -
  let ?rows = "sku_rows s sku_ids merchant"
  let ?covered = "covered_skus s merchant sku_ids"
  let ?live = "filter (\<lambda>p. pm_merchant_id p = merchant \<and> promotion_live (db_now s) p) (promotions s)"
  let ?ordered = "sort_key (\<lambda>p. - pm_priority p) (sort_key pm_id ?live)"
  obtain cs where cs: "mapE (promotion_candidate ?rows (Some lines)) ?ordered = ok cs"
    and found: "found = map_option (\<lambda>(d, p). (promotion_rule_of p (?covered p), p))
      (best_candidate (List.map_filter id cs))"
    using assms(1,2) by (auto simp: resolve_promotion_def bindE_eq_Inr Let_def covered_skus_def)
  have candidate: "promotion_candidate ?rows (Some lines) p = ok (Some (d, q)) \<longleftrightarrow>
      q = p \<and> ?covered p \<noteq> {} \<and> (\<exists>cart. calculate_cart_price lines
        (Some (promotion_rule_of p (?covered p))) None None = ok cart \<and>
        pv_promotion_discount_amount cart = d)" for p d q
    by (auto simp: promotion_candidate_def Let_def covered_skus_def bindE_eq_Inr)
  have each: "\<exists>c. promotion_candidate ?rows (Some lines) p = ok c \<and> c \<in> set cs" if "p \<in> set ?ordered" for p
    using mapE_Inr_each [OF cs that] by blast
  have priced: "\<exists>cart. calculate_cart_price lines (Some (promotion_rule_of q (?covered q))) None None = ok cart \<and>
      (pv_promotion_discount_amount cart, q) \<in> set (List.map_filter id cs)" if rival: "promotion_rival s merchant sku_ids q" for q
  proof -
    from rival have "q \<in> set ?ordered" by (simp add: promotion_rival_def)
    from each [OF this] obtain c where c: "promotion_candidate ?rows (Some lines) q = ok c" "c \<in> set cs" by blast
    then obtain d where "c = Some (d, q)"
      using rival by (auto simp: promotion_candidate_def Let_def promotion_rival_def covered_skus_def bindE_eq_Inr)
    then show ?thesis using c candidate [of q d q] by (force simp: map_filter_def)
  qed
  show ?thesis
  proof (cases "best_candidate (List.map_filter id cs)")
    case None
    then have "List.map_filter id cs = []" using best_candidate_exists by fastforce
    then show ?thesis using priced found None by fastforce
  next
    case (Some b)
    obtain d p where b: "b = (d, p)" by (cases b)
    note best = best_candidate_max [OF Some, unfolded b]
    from best have "Some (d, p) \<in> set cs" by (auto simp: map_filter_def)
    then obtain r where r: "r \<in> set ?ordered" "promotion_candidate ?rows (Some lines) r = ok (Some (d, p))"
      using mapE_Inr_member [OF cs] by blast
    from candidate [THEN iffD1, OF r(2)] obtain cart where p: "p = r" and cart: "calculate_cart_price lines
        (Some (promotion_rule_of p (?covered p))) None None = ok cart" "pv_promotion_discount_amount cart = d"
      and "?covered p \<noteq> {}" by (elim conjE exE) simp
    have "promotion_rival s merchant sku_ids p" using r(1) \<open>?covered p \<noteq> {}\<close> by (simp add: promotion_rival_def p)
    moreover have "\<exists>other. calculate_cart_price lines (Some (promotion_rule_of q (?covered q))) None None = ok other \<and>
        (pv_promotion_discount_amount other < d \<or>
         pv_promotion_discount_amount other = d \<and> pm_priority q \<le> pm_priority p)" if "promotion_rival s merchant sku_ids q" for q
    proof -
      from priced [OF that] obtain other where other: "calculate_cart_price lines
          (Some (promotion_rule_of q (?covered q))) None None = ok other"
        and "(pv_promotion_discount_amount other, q) \<in> set (List.map_filter id cs)" by blast
      with best have "candidate_key (pv_promotion_discount_amount other, q) \<le> candidate_key (d, p)" by blast
      then show ?thesis using other by (auto simp: candidate_key_def)
    qed
    ultimately show ?thesis using cart by (simp add: found Some b)
  qed
qed

section \<open>Witnesses\<close>

definition coupon_locked_shop :: shop where
  "coupon_locked_shop = projr (lock_for_order sample_shop sample_user_coupon order_of_coupon)"

definition coupon_used_shop :: shop where
  "coupon_used_shop = projr (mark_used coupon_locked_shop order_of_coupon)"

lemma sample_coupons_wf: "coupons_wf sample_shop"
proof -
  have "owned_count sample_shop 4 u \<le> 2" for u
    by (simp add: owned_count_def sample_shop_def)
  then show ?thesis
    by (simp add: coupons_wf_def quota_kept_def issued_def sample_shop_def sample_template_def
        sample_user_coupon_def user_coupon_checks_def)
qed

lemma sample_lock: "lock_for_order sample_shop sample_user_coupon order_of_coupon = ok coupon_locked_shop"
  by code_simp

lemma sample_use: "mark_used coupon_locked_shop order_of_coupon = ok coupon_used_shop"
  by code_simp

lemma sample_coupon_row: "sample_user_coupon \<in> set (user_coupons sample_shop)"
  by (simp add: sample_shop_def)

lemma sample_coupon_runs:
  "coupon_run sample_shop coupon_locked_shop" "coupon_run coupon_locked_shop coupon_used_shop"
  using run_step [OF run_stop step_lock [OF sample_coupon_row sample_lock]]
    run_step [OF run_stop step_use [OF sample_use]] by auto

theorem coupon_quotas_hold_witness:
  "issued coupon_locked_shop 4 = 1 \<and> ct_issued_count sample_template \<le> ct_total_quota sample_template"
proof -
  have "sample_template \<in> set (templates coupon_locked_shop)" by code_simp
  from coupon_quotas_hold [OF sample_coupons_wf sample_coupon_runs(1) this]
  show ?thesis by (simp add: sample_template_def)
qed

theorem coupon_spent_once_witness:
  "\<exists>c. row_of uc_id (user_coupons (coupon_used_shop\<lparr>db_now := 5\<rparr>)) 1 = Some c \<and>
    uc_status c = Coupon_USED \<and> uses (coupon_used_shop\<lparr>db_now := 5\<rparr>) 1 = uses coupon_used_shop 1"
proof -
  let ?c = "hd (user_coupons coupon_used_shop)"
  have c: "?c \<in> set (user_coupons coupon_used_shop)" "uc_status ?c = Coupon_USED" "uc_id ?c = 1"
    by code_simp+
  have "coupon_run coupon_used_shop (coupon_used_shop\<lparr>db_now := 5\<rparr>)"
    by (rule run_step [OF run_stop step_tick])
  moreover have "coupons_wf coupon_used_shop"
    using sample_coupon_runs sample_coupons_wf by (blast intro: coupon_run_wf)
  ultimately show ?thesis using coupon_spent_once c by metis
qed

theorem locked_coupon_settles_witness:
  "\<exists>s2 s3. release_coupon (coupon_locked_shop\<lparr>db_now := 90000000\<rparr>) order_of_coupon = ok s2 \<and>
    map uc_status (user_coupons s2) = [Coupon_EXPIRED] \<and>
    mark_used (coupon_locked_shop\<lparr>db_now := 90000000\<rparr>) order_of_coupon = ok s3 \<and>
    release_coupon s3 order_of_coupon = app_raise (Common ValidationError)"
proof -
  have "o_coupon_id order_of_coupon = Some (uc_id sample_user_coupon)"
    and "\<not> used_for sample_shop sample_user_coupon order_of_coupon Act_USE"
    and "\<not> used_for sample_shop sample_user_coupon order_of_coupon Act_RELEASE" by code_simp+
  note settle = locked_coupon_settles [OF sample_coupons_wf sample_coupon_row sample_lock this, of 90000000]
  moreover have "map (map uc_status \<circ> user_coupons) (case_sum (\<lambda>_. []) (\<lambda>s. [s])
      (release_coupon (coupon_locked_shop\<lparr>db_now := 90000000\<rparr>) order_of_coupon)) = [[Coupon_EXPIRED]]"
    by code_simp
  ultimately show ?thesis by auto
qed

definition cheap_line :: "pyval priced_line" where
  "cheap_line = \<lparr>pl_sku_id = PyInt 7, pl_product_id = PyInt 5, pl_product_name = ''Mug'',
    pl_sku_name = ''Red'', pl_image_object_key = None, pl_image_url = None, pl_sku_snapshot = None,
    pl_unit_price = PyInt 1000, pl_quantity = PyInt 2\<rparr>"

theorem best_promotion_wins_witness:
  "\<exists>rule p cart. resolve_promotion sample_shop 1 {7} (Some [cheap_line]) = ok (Some (rule, p)) \<and>
    promotion_rival sample_shop 1 {7} p \<and>
    calculate_cart_price [cheap_line] (Some rule) None None = ok cart"
proof -
  have "map_sum (\<lambda>_. ()) (map_option (\<lambda>(rule, p). pm_id p))
      (resolve_promotion sample_shop 1 {7} (Some [cheap_line])) = Inr (Some 3)" by code_simp
  then obtain rule p where r: "resolve_promotion sample_shop 1 {7} (Some [cheap_line]) = ok (Some (rule, p))"
    by (cases "resolve_promotion sample_shop 1 {7} (Some [cheap_line])") auto
  from best_promotion_wins [OF this] r show ?thesis by auto
qed

end
