(* ===== verification/Order_Create.thy ===== *)
theory Order_Create
  imports Marketing
begin

text \<open>
  \<open>CreateOrderWorkflow\<close> of \<open>app/modules/order/workflow.py\<close>, step by step, and the preview that
  shares its pricing. \<open>create_order\<close> is \<open>execute\<close>: a call that raises leaves the tables as they
  were, an \<open>IntegrityError\<close> is answered from the order its client request id already made.
\<close>

section \<open>Lines\<close>

record order_line_input =
  li_sku_id :: int
  li_quantity :: int

definition merge_order_step :: "(int \<times> int) list \<Rightarrow> order_line_input \<Rightarrow> (int \<times> int) list result" where
  "merge_order_step merged l =
    require (\<not> li_quantity l \<le> 0) (AppError (Common ValidationError))
    (ok (dict_set (li_sku_id l)
      (case_option 0 id (map_of merged (li_sku_id l)) + li_quantity l) merged))"

definition merge_order_lines :: "order_line_input list \<Rightarrow> order_line_input list result" where
  "merge_order_lines lines =
    bindE (foldE merge_order_step [] lines) (\<lambda>merged.
    require (merged \<noteq> []) (AppError (Common ValidationError))
    (ok (map (\<lambda>(sku, q). \<lparr>li_sku_id = sku, li_quantity = q\<rparr>) merged)))"

section \<open>The canonical request\<close>

text \<open>\<open>json.dumps\<close> with sorted keys, no spaces and \<open>ensure_ascii=False\<close>; a text is its UTF-8 bytes.\<close>

definition hex_digit :: "nat \<Rightarrow> char" where
  "hex_digit d = (if d < 10 then char_of (48 + d) else char_of (87 + d))"

definition json_char :: "char \<Rightarrow> string" where
  "json_char c =
    (let n = (of_char c :: nat) in
     if n = 34 then [CHR 0x5C, CHR 0x22]
     else if n = 92 then [CHR 0x5C, CHR 0x5C]
     else if n = 10 then [CHR 0x5C, CHR ''n'']
     else if n = 13 then [CHR 0x5C, CHR ''r'']
     else if n = 9 then [CHR 0x5C, CHR ''t'']
     else if n = 8 then [CHR 0x5C, CHR ''b'']
     else if n = 12 then [CHR 0x5C, CHR ''f'']
     else if n < 32 then [CHR 0x5C, CHR ''u'', CHR ''0'', CHR ''0'',
       hex_digit (n div 16), hex_digit (n mod 16)]
     else [c])"

definition json_string :: "string \<Rightarrow> string" where
  "json_string t = CHR 0x22 # concat (map json_char t) @ [CHR 0x22]"

definition json_int_option :: "int option \<Rightarrow> string" where
  "json_int_option v = (case v of None \<Rightarrow> ''null'' | Some i \<Rightarrow> int_text i)"

definition json_pair :: "int \<times> int \<Rightarrow> string" where
  "json_pair p = ''['' @ int_text (fst p) @ '','' @ int_text (snd p) @ '']''"

fun json_items :: "string list \<Rightarrow> string" where
  "json_items [] = ''[]''"
| "json_items [x] = ''['' @ x @ '']''"
| "json_items (x # xs) = ''['' @ x @ concat (map (\<lambda>y. '','' @ y) xs) @ '']''"

definition json_key :: "string \<Rightarrow> string" where
  "json_key k = json_string k @ '':''"

definition canonical_payload ::
  "int \<Rightarrow> order_line_input list \<Rightarrow> int option \<Rightarrow> int option \<Rightarrow> string option \<Rightarrow> string" where
  "canonical_payload user_id items address_id coupon_id remark =
    ''{'' @ json_key ''address_id'' @ json_int_option address_id @ '','' @
    json_key ''coupon_id'' @ json_int_option coupon_id @ '','' @
    json_key ''items'' @ json_items (map json_pair
      (sort (map (\<lambda>l. (li_sku_id l, li_quantity l)) items))) @ '','' @
    json_key ''remark'' @ json_string (case_option [] id remark) @ '','' @
    json_key ''user_id'' @ int_text user_id @ ''}''"

definition canonical_request_hash ::
  "env \<Rightarrow> int \<Rightarrow> order_line_input list \<Rightarrow> int option \<Rightarrow> int option \<Rightarrow> string option \<Rightarrow> string" where
  "canonical_request_hash ev user_id items address_id coupon_id remark =
    ev_sha256 ev (canonical_payload user_id items address_id coupon_id remark)"

definition order_lock_movement_key :: "int \<Rightarrow> string \<Rightarrow> int \<Rightarrow> string" where
  "order_lock_movement_key user_id client_request_id sku_id =
    join_colon (join_colon ''order-lock'' (join_colon (int_text user_id) client_request_id))
      (int_text sku_id)"

definition order_release_movement_key :: "string \<Rightarrow> int \<Rightarrow> string" where
  "order_release_movement_key order_no sku_id =
    join_colon (join_colon ''order-release'' order_no) (int_text sku_id)"

section \<open>Rules and attribution\<close>

record pricing_rules =
  ru_promotion :: "raw_promotion option"
  ru_coupon :: "raw_coupon option"

definition validate_coupon_input :: "int option \<Rightarrow> pricing_rules \<Rightarrow> unit result" where
  "validate_coupon_input coupon_id rules =
    (case coupon_id of
       None \<Rightarrow> ok ()
     | Some c \<Rightarrow>
       (case ru_coupon rules of
          None \<Rightarrow> app_raise (Marketing CouponNotFoundError)
        | Some r \<Rightarrow>
          if cr_coupon_id r \<noteq> PyInt c then app_raise (Common ValidationError) else ok ()))"

definition log_operator_type :: "principal \<Rightarrow> operator_type" where
  "log_operator_type p = (if p_is_staff p then STAFF else CUSTOMER)"

definition movement_operator :: "principal \<Rightarrow> operator_type \<times> int option" where
  "movement_operator p =
    (if p_is_staff p then (STAFF, Some (p_user_id p)) else (CUSTOMER, Some (p_user_id p)))"

section \<open>The live catalogue\<close>

definition live_sku :: "'a shop_scheme \<Rightarrow> int \<Rightarrow> product_sku option" where
  "live_sku s i = find (\<lambda>k. sk_id k = i \<and> sk_deleted_at k = None) (skus s)"

definition live_product :: "'a shop_scheme \<Rightarrow> int \<Rightarrow> product option" where
  "live_product s i = find (\<lambda>p. pd_id p = i \<and> pd_deleted_at p = None) (products s)"

text \<open>The dictionary keeps the last of the primary images in sort order.\<close>

definition primary_image :: "'a shop_scheme \<Rightarrow> int \<Rightarrow> product_image option" where
  "primary_image s product_id =
    (case rev (sort_key im_sort_order (sort_key im_id
        (filter (\<lambda>i. im_product_id i = product_id \<and> im_role i = ''PRIMARY'') (images s)))) of
       [] \<Rightarrow> None
     | i # _ \<Rightarrow> Some i)"

text \<open>One line of the loop: the priced line, with the merchant of its product.\<close>

definition load_line ::
  "'a shop_scheme \<Rightarrow> order_line_input \<Rightarrow> (pyval priced_line \<times> int option) result" where
  "load_line s l =
    (case live_sku s (li_sku_id l) of
       None \<Rightarrow> app_raise (Catalog SkuNotFoundError)
     | Some k \<Rightarrow>
        require (sk_status k = ''ACTIVE'') (AppError (Catalog SkuNotAvailableError))
        (case live_product s (sk_product_id k) of
           None \<Rightarrow> app_raise (Catalog ProductNotFoundError)
         | Some p \<Rightarrow>
            require (pd_status p = ''PUBLISHED'') (AppError (Catalog ProductNotPublishedError))
            (ok (\<lparr>pl_sku_id = PyInt (sk_id k), pl_product_id = PyInt (pd_id p),
                  pl_product_name = pd_name p, pl_sku_name = sk_name k,
                  pl_image_object_key = map_option im_object_key (primary_image s (pd_id p)),
                  pl_image_url = None, pl_sku_snapshot = sk_attribute_snapshot k,
                  pl_unit_price = PyInt (sk_price_amount k),
                  pl_quantity = PyInt (li_quantity l)\<rparr>, pd_merchant_id p))))"

definition load_priced_lines ::
  "'a shop_scheme \<Rightarrow> order_line_input list \<Rightarrow> (pyval priced_line list \<times> int) result" where
  "load_priced_lines s items =
    require (list_all (\<lambda>l. live_sku s (li_sku_id l) \<noteq> None) items) (AppError (Catalog SkuNotFoundError))
    (bindE (mapE (load_line s) items) (\<lambda>loaded.
     case remdups (List.map_filter snd loaded) of
       [merchant] \<Rightarrow> ok (map fst loaded, merchant)
     | _ \<Rightarrow> app_raise (Common ValidationError)))"

section \<open>Prices\<close>

definition sku_set :: "order_line_input list \<Rightarrow> int set" where
  "sku_set lines = li_sku_id ` set lines"

text \<open>The rules as step 4 resolves them, with the rows whose quota and state the order takes.\<close>

definition resolve_rules ::
  "'a shop_scheme \<Rightarrow> principal \<Rightarrow> int \<Rightarrow> order_line_input list \<Rightarrow> pyval priced_line list \<Rightarrow>
   int option \<Rightarrow> pricing_rules option \<Rightarrow>
   (pricing_rules \<times> promotion_row option \<times> user_coupon option) result" where
  "resolve_rules s who merchant lines priced coupon_id given =
    (case given of
       Some rules \<Rightarrow> ok (rules, None, None)
     | None \<Rightarrow>
        bindE (resolve_promotion s merchant (sku_set lines) (Some priced)) (\<lambda>promo.
        bindE (case coupon_id of
            None \<Rightarrow> ok None
          | Some c \<Rightarrow> bindE (resolve_coupon s c (p_user_id who) merchant (sku_set lines))
              (\<lambda>found. ok (Some found))) (\<lambda>coup.
        let rules = \<lparr>ru_promotion = map_option fst promo, ru_coupon = map_option fst coup\<rparr> in
        bindE (validate_coupon_input coupon_id rules) (\<lambda>_.
        ok (rules, map_option snd promo, map_option snd coup)))))"

definition validate_given_rules :: "int option \<Rightarrow> pricing_rules option \<Rightarrow> unit result" where
  "validate_given_rules coupon_id given =
    (case given of None \<Rightarrow> ok () | Some rules \<Rightarrow> validate_coupon_input coupon_id rules)"

definition price_cart ::
  "pyval priced_line list \<Rightarrow> pricing_rules \<Rightarrow> int option \<Rightarrow> cart_price result" where
  "price_cart priced rules coupon_id =
    bindE (calculate_cart_price priced (ru_promotion rules) (ru_coupon rules) None) (\<lambda>cart.
    bindE (if coupon_id \<noteq> None then require_applicable_discount cart else ok ()) (\<lambda>_. ok cart))"

text \<open>\<open>OrderService.preview\<close>: the same prices, nothing written.\<close>

definition preview ::
  "'a shop_scheme \<Rightarrow> principal \<Rightarrow> order_line_input list \<Rightarrow> int option \<Rightarrow> int option \<Rightarrow>
   pricing_rules option \<Rightarrow> cart_price result" where
  "preview s who items address_id coupon_id given =
    bindE (merge_order_lines items) (\<lambda>lines.
    bindE (case address_id of None \<Rightarrow> ok ()
        | Some a \<Rightarrow> bindE (address_get s (p_user_id who) a) (\<lambda>_. ok ())) (\<lambda>_.
    bindE (validate_given_rules coupon_id given) (\<lambda>_.
    bindE (load_priced_lines s lines) (\<lambda>(priced, merchant).
    bindE (resolve_rules s who merchant lines priced coupon_id given) (\<lambda>(rules, _, _).
    price_cart priced rules coupon_id)))))"

section \<open>Step 1: the claim\<close>

record create_request =
  cq_items :: "order_line_input list"
  cq_address_id :: int
  cq_client_request_id :: string
  cq_idempotency_key :: string
  cq_coupon_id :: "int option"
  cq_remark :: "string option"
  cq_pricing_rules :: "pricing_rules option"

definition idempotency_retention :: int where
  "idempotency_retention = 24 * 60 * ms_per_minute"

definition load_replayed_order :: "'a shop_scheme \<Rightarrow> idempotency_record \<Rightarrow> int \<Rightarrow> order result" where
  "load_replayed_order s existing user_id =
    (let by_id = (case ir_resource_id existing of None \<Rightarrow> None | Some i \<Rightarrow> get_order s i);
         found = (case by_id of Some ord \<Rightarrow> Some ord
           | None \<Rightarrow> (case ir_response_snapshot existing of None \<Rightarrow> None
               | Some snap \<Rightarrow>
                   if snapshot_order_no snap \<noteq> []
                   then get_by_order_no s (snapshot_order_no snap) None (Some user_id) else None))
     in case found of
          None \<Rightarrow> app_raise (Common InternalError)
        | Some ord \<Rightarrow>
            if o_user_id ord \<noteq> user_id then app_raise (Idempotency IdempotencyPayloadMismatchError)
            else ok ord)"

text \<open>\<open>Inl\<close> the order to replay, or \<open>Inr\<close> the claim with the state that holds it.\<close>

definition claim_or_replay ::
  "'a shop_scheme \<Rightarrow> string \<Rightarrow> string \<Rightarrow> int \<Rightarrow> (order + idempotency_record \<times> 'a shop_scheme) result" where
  "claim_or_replay s key request_hash user_id =
    (case insert_in_progress s order_create_scope key request_hash (Some ''ORDER'')
        (Some (db_now s + idempotency_retention)) of
       Some (record, s') \<Rightarrow> ok (Inr (record, s'))
     | None \<Rightarrow>
       (case get_claim s order_create_scope key of
          None \<Rightarrow> app_raise (Idempotency IdempotencyInProgressError)
        | Some existing \<Rightarrow>
          require (ir_status existing = Claim_COMPLETED) (AppError (Idempotency IdempotencyInProgressError))
          (require (\<not> ir_request_hash existing \<noteq> request_hash)
            (AppError (Idempotency IdempotencyPayloadMismatchError))
          (bindE (load_replayed_order s existing user_id) (\<lambda>ord. ok (Inl ord))))))"

section \<open>Steps 5 to 7: the rows\<close>

definition first_item_name :: "'a priced_items_view_scheme \<Rightarrow> string" where
  "first_item_name snap =
    (case pv_items snap of
       [] \<Rightarrow> []
     | i # _ \<Rightarrow> clip 200 (strip_text
         (pl_product_name (ip_line i) @ '' '' @ pl_sku_name (ip_line i))))"

definition pricing_snapshot_of :: "pricing_rules \<Rightarrow> price_snapshot \<Rightarrow> pricing_record" where
  "pricing_snapshot_of rules snap =
    \<lparr>pn_promotion = ru_promotion rules, pn_coupon = ru_coupon rules,
     pn_shipping_policy = ps_shipping_policy snap,
     pn_promotion_allocations =
       map (\<lambda>a. (da_sku_id a, da_amount a)) (pv_promotion_allocations snap),
     pn_coupon_allocations = map (\<lambda>a. (da_sku_id a, da_amount a)) (pv_coupon_allocations snap)\<rparr>"

definition new_order ::
  "env \<Rightarrow> int \<Rightarrow> principal \<Rightarrow> int \<Rightarrow> create_request \<Rightarrow> string \<Rightarrow> pricing_rules \<Rightarrow> price_snapshot \<Rightarrow>
   address_snapshot \<Rightarrow> order" where
  "new_order ev now who merchant q request_hash rules snap address =
    \<lparr>o_id = 0, o_merchant_id = merchant, o_user_id = p_user_id who, o_order_no = ev_uuid ev,
     o_client_request_id = cq_client_request_id q, o_request_hash = request_hash,
     o_order_status = PENDING_PAYMENT, o_payment_status = UNPAID,
     o_fulfillment_status = UNFULFILLED, o_after_sale_status = AS_NONE,
     o_original_amount = pv_original_amount snap,
     o_promotion_discount_amount = pv_promotion_discount_amount snap,
     o_coupon_discount_amount = pv_coupon_discount_amount snap,
     o_shipping_amount = pv_shipping_amount snap, o_payable_amount = pv_payable_amount snap,
     o_paid_amount = 0, o_refunded_amount = 0, o_coupon_id = cq_coupon_id q,
     o_promotion_id = (case ps_promotion_ids snap of [] \<Rightarrow> None | i # _ \<Rightarrow> Some i),
     o_pricing_snapshot = pricing_snapshot_of rules snap, o_address_id = Some (cq_address_id q),
     o_receiver_name = as_receiver_name address, o_receiver_phone = as_receiver_phone address,
     o_address_snapshot = address, o_remark = cq_remark q, o_cancel_reason = None,
     o_item_count = item_count snap, o_first_item_name = first_item_name snap,
     o_expires_at = Some (now + ev_order_payment_timeout_minutes ev * ms_per_minute),
     o_paid_at = None, o_completed_at = None, o_cancelled_at = None, o_closed_at = None,
     o_created_at = now, o_version = 1\<rparr>"

text \<open>Inserted under the placeholder, then stamped with its number.\<close>

definition insert_order :: "env \<Rightarrow> 'a shop_scheme \<Rightarrow> order \<Rightarrow> (order \<times> 'a shop_scheme) result" where
  "insert_order ev s draft =
    bindE (add_order s draft) (\<lambda>(row, s).
    let ord = row\<lparr>o_order_no := public_no (ev_order_no_prefix ev) (db_now s) (nat (o_id row))\<rparr> in
    bindE (flush_order s ord) (\<lambda>s. ok (ord, s)))"

definition reserve_call ::
  "principal \<Rightarrow> string \<Rightarrow> int \<Rightarrow> int \<Rightarrow> order_line_input \<Rightarrow> stock_call" where
  "reserve_call who client_request_id order_id wid l =
    \<lparr>sc_sku_id = li_sku_id l, sc_quantity = li_quantity l,
     sc_idempotency_key = order_lock_movement_key (p_user_id who) client_request_id (li_sku_id l),
     sc_warehouse_id = Some wid, sc_reference_type = REF_ORDER, sc_reference_id = Some order_id,
     sc_operator_type = fst (movement_operator who), sc_operator_id = snd (movement_operator who),
     sc_reason = None\<rparr>"

definition reserve_stock ::
  "'a shop_scheme \<Rightarrow> principal \<Rightarrow> order_line_input list \<Rightarrow> string \<Rightarrow> int \<Rightarrow> int \<Rightarrow>
   (int \<times> 'a shop_scheme) result" where
  "reserve_stock s who lines client_request_id order_id merchant =
    bindE (resolve_warehouse s None (Some merchant)) (\<lambda>w.
    bindE (foldE (\<lambda>s l. bindE (reserve s (reserve_call who client_request_id order_id (wh_id w) l))
        (\<lambda>(_, s). ok s)) s (sort_key li_sku_id lines)) (\<lambda>s. ok (wh_id w, s)))"

definition new_item :: "order \<Rightarrow> int \<Rightarrow> price_snapshot \<Rightarrow> item_price \<Rightarrow> order_item result" where
  "new_item ord wid snap i =
    (let l = ip_line i; sku = pl_sku_id l in
     bindE (promotion_allocation snap sku) (\<lambda>promotion.
     bindE (coupon_allocation snap sku) (\<lambda>coupon.
     bindE (allocated_discount snap sku) (\<lambda>allocated.
     bindE (item_payable_amount snap sku) (\<lambda>payable.
     ok \<lparr>oi_id = 0, oi_order_id = o_id ord, oi_warehouse_id = wid, oi_product_id = pl_product_id l,
         oi_sku_id = sku, oi_product_name = pl_product_name l, oi_sku_name = pl_sku_name l,
         oi_image_object_key = pl_image_object_key l, oi_image_url = pl_image_url l,
         oi_sku_snapshot = pl_sku_snapshot l, oi_unit_price = pl_unit_price l,
         oi_quantity = pl_quantity l, oi_original_amount = ip_original_amount i,
         oi_promotion_discount_amount = promotion, oi_coupon_discount_amount = coupon,
         oi_allocated_discount_amount = allocated, oi_payable_amount = payable,
         oi_refunded_amount = 0, oi_after_sale_status = AS_NONE\<rparr>)))))"

fun insert_items ::
  "'a shop_scheme \<Rightarrow> order \<Rightarrow> int \<Rightarrow> price_snapshot \<Rightarrow> item_price list \<Rightarrow>
   (order_item list \<times> 'a shop_scheme) result" where
  "insert_items s ord wid snap [] = ok ([], s)"
| "insert_items s ord wid snap (i # is) =
    bindE (new_item ord wid snap i) (\<lambda>draft.
    bindE (add_item s draft) (\<lambda>(row, s).
    bindE (insert_items s ord wid snap is) (\<lambda>(rows, s). ok (row # rows, s))))"

definition assert_invariants :: "order \<Rightarrow> order_item list \<Rightarrow> unit result" where
  "assert_invariants ord items =
    require (\<not> (\<Sum>i \<leftarrow> items. oi_payable_amount i) \<noteq> o_payable_amount ord)
      (AppError (Order_Err OrderAmountMismatchError))
    (require (\<not> (\<Sum>i \<leftarrow> items. oi_quantity i) \<noteq> o_item_count ord)
      (AppError (Order_Err OrderAmountMismatchError))
    (require (o_first_item_name ord \<noteq> [])
      (AppError (Order_Err OrderAmountMismatchError)) (ok ())))"

section \<open>The transaction\<close>

text \<open>Steps 2 to 4: everything up to the price snapshot; the state changes by the promotion quota.\<close>

definition price_order ::
  "'a shop_scheme \<Rightarrow> principal \<Rightarrow> create_request \<Rightarrow> order_line_input list \<Rightarrow>
   (address_snapshot \<times> int \<times> pricing_rules \<times> user_coupon option \<times> price_snapshot \<times>
    'a shop_scheme) result" where
  "price_order s who q lines =
    bindE (address_get s (p_user_id who) (cq_address_id q)) (\<lambda>address.
    bindE (validate_given_rules (cq_coupon_id q) (cq_pricing_rules q)) (\<lambda>_.
    bindE (load_priced_lines s lines) (\<lambda>(priced, merchant).
    bindE (resolve_rules s who merchant lines priced (cq_coupon_id q) (cq_pricing_rules q))
      (\<lambda>(rules, promotion, coupon).
    bindE (price_cart priced rules (cq_coupon_id q)) (\<lambda>cart.
    bindE (case promotion of None \<Rightarrow> ok s
        | Some p \<Rightarrow> if pv_promotion_discount_amount cart > 0 then use_promotion s p else ok s) (\<lambda>s.
    bindE (build_price_snapshot cart
        (case ru_promotion rules of None \<Rightarrow> [] | Some p \<Rightarrow> [pr_promotion_id p])
        (case ru_coupon rules of None \<Rightarrow> [] | Some c \<Rightarrow> [cr_coupon_id c]) ''FREE'') (\<lambda>snap.
    ok (snapshot_address address, merchant, rules, coupon, snap, s))))))))"

text \<open>Steps 5 to 9: the order, its coupon, its stock, its items, its log, the claim, the event.\<close>

definition place_order ::
  "env \<Rightarrow> 'a shop_scheme \<Rightarrow> principal \<Rightarrow> create_request \<Rightarrow> order_line_input list \<Rightarrow> string \<Rightarrow>
   idempotency_record \<Rightarrow> address_snapshot \<times> int \<times> pricing_rules \<times> user_coupon option \<times> price_snapshot \<Rightarrow>
   (order \<times> 'a shop_scheme) result" where
  "place_order ev s who q lines request_hash record priced =
    (let (address, merchant, rules, coupon, snap) = priced in
     bindE (insert_order ev s (new_order ev (db_now s) who merchant q request_hash rules snap address))
       (\<lambda>(ord, s).
     bindE (case coupon of None \<Rightarrow> ok s | Some c \<Rightarrow> lock_for_order s c ord) (\<lambda>s.
     bindE (reserve_stock s who lines (cq_client_request_id q) (o_id ord) merchant) (\<lambda>(wid, s).
     bindE (insert_items s ord wid snap (pv_items snap)) (\<lambda>(items, s).
     let s = append_status_log s ord None PENDING_PAYMENT (log_operator_type who)
           (Some (p_user_id who)) (Some ''order created'') in
     bindE (assert_invariants ord items) (\<lambda>_.
     let s = mark_completed s record ''ORDER'' (o_id ord) 0
           (Some (Order_Snapshot (o_order_no ord) (o_payable_amount ord) (o_created_at ord)));
         s = enqueue s Order_Created Agg_Order (o_id ord) (cq_idempotency_key q)
           (Order_Created_Payload (o_order_no ord) (o_payable_amount ord) (o_item_count ord))
           (Some (o_merchant_id ord))
     in ok (ord, s)))))))"

record create_order_result =
  cr_order :: order
  cr_replayed :: bool

definition create_body ::
  "env \<Rightarrow> 'a shop_scheme \<Rightarrow> principal \<Rightarrow> create_request \<Rightarrow> order_line_input list \<Rightarrow> string \<Rightarrow>
   (create_order_result \<times> 'a shop_scheme) result" where
  "create_body ev s who q lines request_hash =
    bindE (claim_or_replay s (cq_idempotency_key q) request_hash (p_user_id who)) (\<lambda>claimed.
    case claimed of
      Inl ord \<Rightarrow> ok (\<lparr>cr_order = ord, cr_replayed = True\<rparr>, s)
    | Inr (record, s) \<Rightarrow>
        bindE (price_order s who q lines) (\<lambda>(address, merchant, rules, coupon, snap, s).
        bindE (place_order ev s who q lines request_hash record (address, merchant, rules, coupon, snap))
          (\<lambda>(ord, s). ok (\<lparr>cr_order = ord, cr_replayed = False\<rparr>, s))))"

definition recover_from_client_request_id ::
  "'a shop_scheme \<Rightarrow> int \<Rightarrow> string \<Rightarrow> string \<Rightarrow> order option result" where
  "recover_from_client_request_id s user_id client_request_id request_hash =
    (case get_by_client_request_id s user_id client_request_id of
       None \<Rightarrow> ok None
     | Some ord \<Rightarrow>
        require (\<not> o_request_hash ord \<noteq> request_hash)
          (AppError (Idempotency IdempotencyPayloadMismatchError)) (ok (Some ord)))"

definition create_order ::
  "env \<Rightarrow> 'a shop_scheme \<Rightarrow> principal \<Rightarrow> create_request \<Rightarrow> (create_order_result \<times> 'a shop_scheme) result"
where
  "create_order ev s who q =
    require (cq_idempotency_key q \<noteq> []) (AppError (Idempotency IdempotencyKeyRequiredError))
    (bindE (merge_order_lines (cq_items q)) (\<lambda>lines.
     let request_hash = canonical_request_hash ev (p_user_id who) lines (Some (cq_address_id q))
           (cq_coupon_id q) (cq_remark q) in
     case create_body ev s who q lines request_hash of
       Inl (IntegrityError c) \<Rightarrow>
         bindE (recover_from_client_request_id s (p_user_id who) (cq_client_request_id q) request_hash)
           (\<lambda>found. case found of
              Some ord \<Rightarrow> ok (\<lparr>cr_order = ord, cr_replayed = True\<rparr>, s)
            | None \<Rightarrow> raise (IntegrityError c))
     | r \<Rightarrow> r))"

end
