(* ===== verification/Order_Codec.thy ===== *)
theory Order_Codec
  imports Order_Create "HOL-Library.Multiset"
begin

text \<open>
  What the texts of an order request determine. A \<open>prefix_code\<close> is an encoding that can be read off
  the front of any text; sequences and terminated forms of one are again such codes, so the
  canonical payload of a request determines every business input of it, and the ledger keys an
  order writes determine the order and the SKU.
\<close>

section \<open>Codes that can be read off the front\<close>

locale prefix_code =
  fixes enc :: "'a \<Rightarrow> string"
  assumes front: "enc x @ a = enc y @ b \<Longrightarrow> x = y \<and> a = b"
begin

lemma inject: "enc x = enc y \<longleftrightarrow> x = y"
  using front [of x "[]" y "[]"] by auto

lemma front_iff: "enc x @ a = enc y @ b \<longleftrightarrow> x = y \<and> a = b"
  using front by blast

end

locale stopped_code = prefix_code enc for enc :: "'a \<Rightarrow> string" +
  fixes stop :: char
  assumes nonempty: "enc x \<noteq> []" and starts: "hd (enc x) \<noteq> stop"
begin

text \<open>A sequence of codes, ended by a character that starts none of them.\<close>

lemma sequence:
  "concat (map enc xs) @ stop # a = concat (map enc ys) @ stop # b \<Longrightarrow> xs = ys \<and> a = b"
proof (induction xs arbitrary: ys)
  case Nil
  show ?case
  proof (cases ys)
    case Nil
    with Nil.prems show ?thesis by simp
  next
    case (Cons y zs)
    with Nil.prems have "hd (enc y) = stop"
      using nonempty [of y] by (cases "enc y") auto
    with starts show ?thesis by blast
  qed
next
  case (Cons x xs)
  show ?case
  proof (cases ys)
    case Nil
    with Cons.prems have "hd (enc x) = stop"
      using nonempty [of x] by (cases "enc x") auto
    with starts show ?thesis by blast
  next
    case (Cons y zs)
    with Cons.prems have "x = y" and "concat (map enc xs) @ stop # a = concat (map enc zs) @ stop # b"
      using front [of x "concat (map enc xs) @ stop # a" y "concat (map enc zs) @ stop # b"] by auto
    with Cons.IH [of zs] Cons show ?thesis by simp
  qed
qed

end

text \<open>A text without the stop character, followed by it.\<close>

lemma terminated_prefix_code:
  assumes "\<And>x. c \<notin> set (enc x)" and "inj enc"
  shows "prefix_code (\<lambda>x. enc x @ [c])"
proof
  fix x a y b
  assume "(enc x @ [c]) @ a = (enc y @ [c]) @ b"
  then have "enc x = enc y \<and> a = b" using assms(1) by (auto dest: append_before_inject)
  with assms(2) show "x = y \<and> a = b" by (auto dest: injD)
qed

section \<open>Texts\<close>

text \<open>The escape a character has, as the character after the backslash and what follows it.\<close>

definition escape :: "char \<Rightarrow> string option" where
  "escape c =
    (let n = (of_char c :: nat) in
     if n = 34 then Some [CHR 0x22] else if n = 92 then Some [CHR 0x5C]
     else if n = 10 then Some ''n'' else if n = 13 then Some ''r'' else if n = 9 then Some ''t''
     else if n = 8 then Some ''b'' else if n = 12 then Some ''f''
     else if n < 32 then Some [CHR ''u'', CHR ''0'', CHR ''0'', hex_digit (n div 16), hex_digit (n mod 16)]
     else None)"

lemma json_char_escape:
  "json_char c = (case escape c of None \<Rightarrow> [c] | Some e \<Rightarrow> CHR 0x5C # e)"
  by (simp add: json_char_def escape_def Let_def)

lemma escape_None: "escape c = None \<Longrightarrow> c \<noteq> CHR 0x5C \<and> c \<noteq> CHR 0x22"
  by (auto simp: escape_def Let_def split: if_splits)

definition hex_value :: "char \<Rightarrow> nat" where
  "hex_value c = (let n = of_char c in if n < 58 then n - 48 else n - 87)"

lemma hex_value_digit: "d < 16 \<Longrightarrow> hex_value (hex_digit d) = d"
  by (simp add: hex_value_def hex_digit_def of_char_of Let_def)

definition unescape :: "string \<Rightarrow> nat \<times> string" where
  "unescape t =
    (let c = hd t; r = tl t in
     if c = CHR ''u'' then (16 * hex_value (r ! 2) + hex_value (r ! 3), drop 4 r)
     else if c = CHR ''n'' then (10, r) else if c = CHR ''r'' then (13, r)
     else if c = CHR ''t'' then (9, r) else if c = CHR ''b'' then (8, r)
     else if c = CHR ''f'' then (12, r) else (of_char c, r))"

lemma unescape_escape:
  assumes "escape c = Some e"
  shows "unescape (e @ a) = (of_char c, a)"
proof -
  have d: "(of_char c :: nat) div 16 < 16" "(of_char c :: nat) mod 16 < 16"
    using nat_of_char_less_256 [of c] by (auto simp: less_mult_imp_div_less)
  have q: "(of_char c :: nat) = 34 \<Longrightarrow> CHR 0x22 = c" "(of_char c :: nat) = 92 \<Longrightarrow> CHR 0x5C = c"
    by (rule iffD1 [OF of_char_eq_iff [where 'a = nat]], simp)+
  show ?thesis
    using assms d by (auto simp: escape_def unescape_def Let_def hex_value_digit intro: q split: if_splits)
qed

lemma escape_front:
  assumes "escape c = Some e" and "escape d = Some f" and "e @ a = f @ b"
  shows "c = d \<and> a = b"
  using unescape_escape [OF assms(1), of a] unescape_escape [OF assms(2), of b] assms(3) by simp

interpretation json_char: stopped_code json_char "CHR 0x22"
proof
  fix x a y b
  assume "json_char x @ a = json_char y @ b"
  then show "x = y \<and> a = b"
    by (auto simp: json_char_escape dest: escape_None escape_front split: option.splits)
next
  show "json_char x \<noteq> []" "hd (json_char x) \<noteq> CHR 0x22" for x
    by (auto simp: json_char_escape dest: escape_None split: option.splits)
qed

interpretation json_string: prefix_code json_string
  by unfold_locales (auto simp: json_string_def dest: json_char.sequence)

lemma int_text_chars: "set (int_text i) \<subseteq> insert (CHR ''-'') {c. is_digit c}"
  using nat_text_digits by (auto simp: int_text_def list_all_iff)

lemma int_text_delimited:
  "CHR '','' \<notin> set (int_text i)" "CHR '']'' \<notin> set (int_text i)" "CHR ''}'' \<notin> set (int_text i)"
  using int_text_chars [of i] by (auto simp: is_digit_def)

lemma int_text_not_null: "int_text i \<noteq> ''null''"
  using int_text_chars [of i] by (auto simp: is_digit_def)

interpretation json_int_option: prefix_code "\<lambda>v. json_int_option v @ [CHR '','']"
proof (rule terminated_prefix_code)
  show "CHR '','' \<notin> set (json_int_option v)" for v
    by (simp add: json_int_option_def int_text_delimited split: option.split)
  show "inj json_int_option"
    by (rule injI)
      (auto simp: json_int_option_def int_text_not_null int_text_not_null [symmetric] split: option.splits)
qed

interpretation int_comma: prefix_code "\<lambda>i. int_text i @ [CHR '','']"
  by (rule terminated_prefix_code) (simp_all add: int_text_delimited inj_def)

interpretation int_bracket: prefix_code "\<lambda>i. int_text i @ [CHR '']'']"
  by (rule terminated_prefix_code) (simp_all add: int_text_delimited inj_def)

lemma json_pair_front: "json_pair p @ a = json_pair q @ b \<Longrightarrow> p = q \<and> a = b"
  using int_comma.front [of "fst p" "int_text (snd p) @ '']'' @ a" "fst q" "int_text (snd q) @ '']'' @ b"]
    int_bracket.front [of "snd p" a "snd q" b]
  by (auto simp: json_pair_def prod_eq_iff)

interpretation json_pair: prefix_code json_pair
  by unfold_locales (rule json_pair_front)

interpretation comma_pair: stopped_code "\<lambda>p. CHR '','' # json_pair p" "CHR '']''"
  by unfold_locales (auto dest: json_pair_front)

lemma json_items_Cons:
  "json_items (map json_pair (p # ps)) =
    CHR ''['' # json_pair p @ concat (map (\<lambda>p. CHR '','' # json_pair p) ps) @ '']''"
  by (cases ps) (simp_all add: comp_def)

interpretation json_pairs: prefix_code "\<lambda>ps. json_items (map json_pair ps)"
proof
  fix ps a qs b
  assume e: "json_items (map json_pair ps) @ a = json_items (map json_pair qs) @ b"
  show "ps = qs \<and> a = b"
  proof (cases ps)
    case Nil
    with e show ?thesis
      by (cases qs) (auto simp: json_items_Cons json_pair_def simp del: list.map(2))
  next
    case (Cons p ps')
    note ps = this
    show ?thesis
    proof (cases qs)
      case Nil
      with e ps show ?thesis
        by (auto simp: json_items_Cons json_pair_def simp del: list.map(2))
    next
      case (Cons q qs')
      with e ps have "json_pair p @ concat (map (\<lambda>p. CHR '','' # json_pair p) ps') @ CHR '']'' # a =
          json_pair q @ concat (map (\<lambda>p. CHR '','' # json_pair p) qs') @ CHR '']'' # b"
        by (simp add: json_items_Cons del: list.map(2))
      from json_pair_front [OF this] have "p = q" and
        "concat (map (\<lambda>p. CHR '','' # json_pair p) ps') @ CHR '']'' # a =
          concat (map (\<lambda>p. CHR '','' # json_pair p) qs') @ CHR '']'' # b"
        by auto
      with comma_pair.sequence [of ps' a qs' b] ps Cons show ?thesis by simp
    qed
  qed
qed

section \<open>Requests and keys\<close>

lemma sorted_pairs_eq: "sort xs = sort ys \<longleftrightarrow> mset xs = mset (ys :: (int \<times> int) list)"
  by (metis mset_sort properties_for_sort sorted_sort)

abbreviation lines_of :: "order_line_input list \<Rightarrow> (int \<times> int) list" where
  "lines_of items \<equiv> map (\<lambda>l. (li_sku_id l, li_quantity l)) items"

text \<open>
  The canonical payload determines the request. Two create requests have the same text under
  the digest exactly when the buyer, the address, the coupon and the remark (missing and empty
  alike) agree and the lines are the same up to their order.
\<close>

theorem canonical_payload_determines:
  "canonical_payload u items a c r = canonical_payload u' items' a' c' r' \<longleftrightarrow>
    u = u' \<and> mset (lines_of items) = mset (lines_of items') \<and> a = a' \<and> c = c' \<and>
    case_option [] id r = case_option [] id r'"
proof
  assume e: "canonical_payload u items a c r = canonical_payload u' items' a' c' r'"
  have tail: "json_items (map json_pair (sort (lines_of items))) @ '','' @ json_key ''remark'' @
      json_string (case_option [] id r) @ '','' @ json_key ''user_id'' @ int_text u @ ''}'' =
    json_items (map json_pair (sort (lines_of items'))) @ '','' @ json_key ''remark'' @
      json_string (case_option [] id r') @ '','' @ json_key ''user_id'' @ int_text u' @ ''}''
    \<and> a = a' \<and> c = c'"
    using e unfolding canonical_payload_def
    by (auto dest!: json_int_option.front [simplified])
  then have "sort (lines_of items) = sort (lines_of items')"
    and "json_string (case_option [] id r) @ '','' @ json_key ''user_id'' @ int_text u @ ''}'' =
      json_string (case_option [] id r') @ '','' @ json_key ''user_id'' @ int_text u' @ ''}''"
    by (auto dest!: json_pairs.front)
  moreover from this(2) have "case_option [] id r = case_option [] id r'" and "u = u'"
    by (auto dest!: json_string.front)
  ultimately show "u = u' \<and> mset (lines_of items) = mset (lines_of items') \<and> a = a' \<and> c = c' \<and>
      case_option [] id r = case_option [] id r'"
    using tail sorted_pairs_eq by blast
next
  assume "u = u' \<and> mset (lines_of items) = mset (lines_of items') \<and> a = a' \<and> c = c' \<and>
    case_option [] id r = case_option [] id r'"
  then show "canonical_payload u items a c r = canonical_payload u' items' a' c' r'"
    using sorted_pairs_eq [of "lines_of items" "lines_of items'"] by (simp add: canonical_payload_def)
qed

lemma lock_key_inject [simp]:
  "order_lock_movement_key u r k = order_lock_movement_key u' r' k' \<longleftrightarrow> u = u' \<and> r = r' \<and> k = k'"
  by (simp add: order_lock_movement_key_def join_colon_last int_text_no_colon)
    (auto simp: join_colon_first int_text_no_colon join_colon_def dest: append_before_inject)

lemma release_key_inject [simp]:
  "order_release_movement_key n k = order_release_movement_key n' k' \<longleftrightarrow> n = n' \<and> k = k'"
  by (simp add: order_release_movement_key_def join_colon_last int_text_no_colon)
    (auto simp: join_colon_def)

lemma lock_release_keys [simp]:
  "order_lock_movement_key u r k \<noteq> order_release_movement_key n k'"
  by (simp add: order_lock_movement_key_def order_release_movement_key_def join_colon_def)

end
