(* ===== verification/Order_Lifecycle.thy ===== *)
theory Order_Lifecycle
  imports Order_Create
begin

text \<open>
  What happens to an order after it was placed, in \<open>app/modules/order/service.py\<close> and
  \<open>reconciliation.py\<close>: cancellation, confirmation of receipt, the closing of expired orders, and
  the customer and console reads with their filters.
\<close>

section \<open>Payment attempts of an order\<close>

definition attempts_of :: "'a shop_scheme \<Rightarrow> int \<Rightarrow> payment list" where
  "attempts_of s order_id = sort_key pay_id (filter (\<lambda>p. pay_order_id p = order_id) (payments s))"

definition lock_attempts_for_order :: "'a shop_scheme \<Rightarrow> int \<Rightarrow> int \<Rightarrow> payment list" where
  "lock_attempts_for_order s order_id user_id =
    sort_key pay_id (filter (\<lambda>p. pay_order_id p = order_id \<and> pay_user_id p = user_id) (payments s))"

definition close_attempt :: "int \<Rightarrow> payment \<Rightarrow> payment" where
  "close_attempt now p =
    (if pay_status p \<in> {Pay_INITIATED, Pay_PAYING}
     then p\<lparr>pay_status := Pay_CLOSED, pay_closed_at := Some now\<rparr> else p)"

definition close_attempts :: "'a shop_scheme \<Rightarrow> payment list \<Rightarrow> 'a shop_scheme" where
  "close_attempts s attempts =
    s\<lparr>payments := fold (\<lambda>p. put_row pay_id (close_attempt (db_now s) p)) attempts (payments s)\<rparr>"

section \<open>Releasing the stock\<close>

definition release_call ::
  "operator_type \<times> int option \<Rightarrow> string \<Rightarrow> order \<Rightarrow> order_item \<Rightarrow> stock_call" where
  "release_call operator reason ord i =
    \<lparr>sc_sku_id = oi_sku_id i, sc_quantity = oi_quantity i,
     sc_idempotency_key = order_release_movement_key (o_order_no ord) (oi_sku_id i),
     sc_warehouse_id = Some (oi_warehouse_id i), sc_reference_type = REF_ORDER,
     sc_reference_id = Some (o_id ord), sc_operator_type = fst operator,
     sc_operator_id = snd operator, sc_reason = Some reason\<rparr>"

definition release_reserved_stock ::
  "'a shop_scheme \<Rightarrow> operator_type \<times> int option \<Rightarrow> string \<Rightarrow> order \<Rightarrow> 'a shop_scheme result" where
  "release_reserved_stock s operator reason ord =
    foldE (\<lambda>s i. bindE (release s (release_call operator reason ord i)) (\<lambda>(_, s). ok s)) s
      (sort_key oi_sku_id (items_for s (o_id ord)))"

section \<open>Customer transitions\<close>

definition default_cancel_reason :: string where
  "default_cancel_reason = ''cancelled by customer''"

definition cancelled_row :: "int \<Rightarrow> string option \<Rightarrow> order \<Rightarrow> order" where
  "cancelled_row now reason ord =
    ord\<lparr>o_order_status := CANCELLED,
        o_cancel_reason := Some (case reason of None \<Rightarrow> default_cancel_reason
          | Some [] \<Rightarrow> default_cancel_reason | Some r \<Rightarrow> r),
        o_cancelled_at := Some now, o_version := o_version ord + 1\<rparr>"

definition cancel ::
  "'a shop_scheme \<Rightarrow> principal \<Rightarrow> string \<Rightarrow> string option \<Rightarrow> (order \<times> 'a shop_scheme) result" where
  "cancel s who order_no reason =
    (case get_by_order_no s order_no None (Some (p_user_id who)) of
       None \<Rightarrow> app_raise (Order_Err OrderNotFoundError)
     | Some ord \<Rightarrow>
        let attempts = lock_attempts_for_order s (o_id ord) (p_user_id who) in
        require (\<not> o_order_status ord = CANCELLED) (AppError (Order_Err OrderNotCancellableError))
        (bindE (transition_to_cancelled (Status (o_order_status ord))) (\<lambda>_.
         bindE (release_coupon (close_attempts s attempts) ord) (\<lambda>s.
         bindE (release_reserved_stock s (movement_operator who) ''order cancelled'' ord) (\<lambda>s.
         let ord' = cancelled_row (db_now s) reason ord in
         bindE (flush_order s ord') (\<lambda>s.
         let s = append_status_log s ord' (Some PENDING_PAYMENT) CANCELLED (log_operator_type who)
               (Some (p_user_id who)) (o_cancel_reason ord');
             s = audit_record_row s (Some (o_merchant_id ord)) (Some (p_user_id who))
               (if p_is_staff who then ''STAFF'' else ''USER'') ''order.cancel'' ''ORDER'' (o_id ord)
               ''SUCCESS''
         in ok (ord', s)))))))"

definition confirm_receipt ::
  "'a shop_scheme \<Rightarrow> principal \<Rightarrow> string \<Rightarrow> (order \<times> 'a shop_scheme) result" where
  "confirm_receipt s who order_no =
    (case get_by_order_no s order_no None (Some (p_user_id who)) of
       None \<Rightarrow> app_raise (Order_Err OrderNotFoundError)
     | Some ord \<Rightarrow>
        bindE (transition_to_completed (Status (o_order_status ord))) (\<lambda>_.
        let ord' = ord\<lparr>o_order_status := COMPLETED, o_completed_at := Some (db_now s),
                       o_version := o_version ord + 1\<rparr> in
        bindE (flush_order s ord') (\<lambda>s.
        ok (ord', append_status_log s ord' (Some PROCESSING) COMPLETED (log_operator_type who)
          (Some (p_user_id who)) (Some ''receipt confirmed by customer'')))))"

section \<open>Expiry\<close>

definition expired_reason :: string where
  "expired_reason = ''payment window expired''"

definition order_due :: "'a shop_scheme \<Rightarrow> order \<Rightarrow> bool" where
  "order_due s ord \<longleftrightarrow>
    o_order_status ord = PENDING_PAYMENT \<and>
    (case o_expires_at ord of None \<Rightarrow> False | Some e \<Rightarrow> e \<le> db_now s) \<and>
    o_paid_amount ord = 0 \<and> o_payment_status ord \<in> {UNPAID, PAYING} \<and>
    \<not> list_ex (\<lambda>p. pay_status p = Pay_SUCCESS) (attempts_of s (o_id ord))"

definition closed_row :: "int \<Rightarrow> order \<Rightarrow> order" where
  "closed_row now ord =
    ord\<lparr>o_order_status := CLOSED, o_payment_status := UNPAID,
        o_cancel_reason := Some expired_reason, o_closed_at := Some now,
        o_version := o_version ord + 1\<rparr>"

definition close_expired_order ::
  "'a shop_scheme \<Rightarrow> int \<Rightarrow> (bool \<times> 'a shop_scheme) result" where
  "close_expired_order s order_id =
    (case get_order s order_id of
       None \<Rightarrow> ok (False, s)
     | Some ord \<Rightarrow>
        if \<not> order_due s ord then ok (False, s)
        else
          bindE (assert_transition (Status (o_order_status ord)) (Status CLOSED) None) (\<lambda>_.
          let attempts = attempts_of s order_id in
          bindE (release_coupon s ord) (\<lambda>s.
          bindE (release_reserved_stock s (WORKER, None) expired_reason ord) (\<lambda>s.
          let s = close_attempts s attempts; ord' = closed_row (db_now s) ord in
          bindE (flush_order s ord') (\<lambda>s.
          ok (True, append_status_log s ord' (Some PENDING_PAYMENT) CLOSED WORKER None
            (Some expired_reason)))))))"

text \<open>The scan, and each order in a transaction of its own; an exception ends the cycle there.\<close>

definition expired_order_ids :: "'a shop_scheme \<Rightarrow> nat \<Rightarrow> int list" where
  "expired_order_ids s limit =
    map o_id (take limit (sort_key (\<lambda>ord. case_option 0 id (o_expires_at ord)) (sort_key o_id
      (filter (\<lambda>ord. o_order_status ord = PENDING_PAYMENT \<and>
        (case o_expires_at ord of None \<Rightarrow> False | Some e \<Rightarrow> e \<le> db_now s)) (orders s)))))"

fun close_each :: "'a shop_scheme \<Rightarrow> int list \<Rightarrow> nat \<Rightarrow> nat result \<times> 'a shop_scheme" where
  "close_each s [] n = (ok n, s)"
| "close_each s (i # is) n =
    (case close_expired_order s i of
       Inl e \<Rightarrow> (Inl e, s)
     | Inr (closed, s') \<Rightarrow> close_each s' is (if closed then Suc n else n))"

definition run_expired_order_cycle :: "'a shop_scheme \<Rightarrow> nat \<Rightarrow> nat result \<times> 'a shop_scheme" where
  "run_expired_order_cycle s limit =
    (if limit = 0 then (raise (PythonError ''ValueError''), s)
     else close_each s (expired_order_ids s limit) 0)"

section \<open>Reads\<close>

definition get_customer_order :: "'a shop_scheme \<Rightarrow> principal \<Rightarrow> string \<Rightarrow> order result" where
  "get_customer_order s who order_no =
    (case get_by_order_no s order_no None (Some (p_user_id who)) of
       None \<Rightarrow> app_raise (Order_Err OrderNotFoundError)
     | Some ord \<Rightarrow> ok ord)"

definition merchant_filter :: "principal \<Rightarrow> int option result" where
  "merchant_filter who =
    (if p_data_scope who = Scope_ALL then ok None
     else case p_merchant_id who of
       None \<Rightarrow> app_raise (Auth PermissionDeniedError)
     | Some m \<Rightarrow> ok (Some m))"

definition get_admin_order :: "'a shop_scheme \<Rightarrow> principal \<Rightarrow> string \<Rightarrow> order result" where
  "get_admin_order s who order_no =
    bindE (require_permission who ''order:read'') (\<lambda>_.
    bindE (merchant_filter who) (\<lambda>m.
    case get_by_order_no s order_no m None of
      None \<Rightarrow> app_raise (Order_Err OrderNotFoundError)
    | Some ord \<Rightarrow> ok ord))"

text \<open>A filter outside its vocabulary is refused; \<open>values\<close> are the members with their texts.\<close>

definition validate_status_filter :: "('e \<times> string) list \<Rightarrow> string option \<Rightarrow> 'e option result" where
  "validate_status_filter values text_arg =
    (case text_arg of
       None \<Rightarrow> ok None
     | Some t \<Rightarrow>
       (case find (\<lambda>v. snd v = t) values of
          None \<Rightarrow> app_raise (Common ValidationError)
        | Some v \<Rightarrow> ok (Some (fst v))))"

definition order_statuses :: "(order_status \<times> string) list" where
  "order_statuses = map (\<lambda>st. (st, order_status_value st))
    [PENDING_PAYMENT, PROCESSING, COMPLETED, CANCELLED, CLOSED]"

definition payment_statuses :: "(payment_status \<times> string) list" where
  "payment_statuses = map (\<lambda>st. (st, payment_status_value st))
    [UNPAID, PAYING, PAID, PARTIAL_REFUNDED, REFUNDED]"

definition fulfillment_statuses :: "(fulfillment_status \<times> string) list" where
  "fulfillment_statuses = map (\<lambda>st. (st, fulfillment_status_value st))
    [UNFULFILLED, PARTIAL_SHIPPED, SHIPPED, DELIVERED]"

definition service_list_customer_orders ::
  "'a shop_scheme \<Rightarrow> principal \<Rightarrow> string option \<Rightarrow> int \<Rightarrow> nat \<Rightarrow> (order list \<times> nat) result" where
  "service_list_customer_orders s who status page page_size =
    bindE (validate_status_filter order_statuses status) (\<lambda>st.
    ok (list_customer_orders s (p_user_id who) st page page_size))"

definition service_list_admin_orders ::
  "'a shop_scheme \<Rightarrow> principal \<Rightarrow> string option \<Rightarrow> string option \<Rightarrow> string option \<Rightarrow> string option \<Rightarrow>
   int \<Rightarrow> nat \<Rightarrow> (order list \<times> nat) result" where
  "service_list_admin_orders s who status paid fulfilled order_no page page_size =
    bindE (require_permission who ''order:read'') (\<lambda>_.
    bindE (validate_status_filter order_statuses status) (\<lambda>st.
    bindE (validate_status_filter payment_statuses paid) (\<lambda>p.
    bindE (validate_status_filter fulfillment_statuses fulfilled) (\<lambda>f.
    require (\<not> (case order_no of None \<Rightarrow> False | Some n \<Rightarrow> strip_text n = []))
      (AppError (Common ValidationError))
    (bindE (merchant_filter who) (\<lambda>m.
     ok (list_admin_orders s m st p f order_no page page_size)))))))"

end
