(* ===== verification/Nova_Parse.thy ===== *)
theory Nova_Parse
  imports Nova_Text
begin

text \<open>
  Python's readers of numbers from text: \<open>int\<close> of a string and the constructor of \<open>Decimal\<close>, with
  the case conversions of ASCII text. The lemmas say that they read back what \<open>str\<close> writes.
\<close>

section \<open>Case\<close>

definition lower_char :: "char \<Rightarrow> char" where
  "lower_char c = (let n = (of_char c :: nat) in if 65 \<le> n \<and> n \<le> 90 then char_of (n + 32) else c)"

definition upper_char :: "char \<Rightarrow> char" where
  "upper_char c = (let n = (of_char c :: nat) in if 97 \<le> n \<and> n \<le> 122 then char_of (n - 32) else c)"

definition lower_text :: "string \<Rightarrow> string" where
  "lower_text = map lower_char"

definition upper_text :: "string \<Rightarrow> string" where
  "upper_text = map upper_char"

text \<open>\<open>str.isalnum\<close>; a byte of a longer UTF-8 sequence counts as a letter.\<close>

definition is_alnum :: "char \<Rightarrow> bool" where
  "is_alnum c \<longleftrightarrow> (let n = (of_char c :: nat) in
    48 \<le> n \<and> n \<le> 57 \<or> 65 \<le> n \<and> n \<le> 90 \<or> 97 \<le> n \<and> n \<le> 122 \<or> 128 \<le> n)"

definition is_ascii :: "char \<Rightarrow> bool" where
  "is_ascii c \<longleftrightarrow> (of_char c :: nat) < 128"

section \<open>\<open>int(text)\<close>\<close>

definition digits_int :: "string \<Rightarrow> int" where
  "digits_int = foldl (\<lambda>n c. 10 * n + int (of_char c - 48)) 0"

text \<open>An optional sign in front of the rest.\<close>

definition split_sign :: "string \<Rightarrow> int \<times> string" where
  "split_sign t = (case t of [] \<Rightarrow> (1, [])
    | c # r \<Rightarrow> if c = CHR ''-'' then (-1, r) else if c = CHR ''+'' then (1, r) else (1, t))"

text \<open>Digits with single underscores between them.\<close>

fun grouped_digits :: "string \<Rightarrow> string option" where
  "grouped_digits [] = None"
| "grouped_digits [c] = (if is_digit c then Some [c] else None)"
| "grouped_digits (c # d # r) =
    (if \<not> is_digit c then None
     else map_option (Cons c) (grouped_digits (if d = CHR ''_'' then r else d # r)))"

text \<open>\<open>None\<close> is the \<open>ValueError\<close>; more than 4300 digits are refused too.\<close>

definition py_int :: "string \<Rightarrow> int option" where
  "py_int t =
    (let (sign, r) = split_sign (strip_text t) in
     case grouped_digits r of
       None \<Rightarrow> None
     | Some ds \<Rightarrow> if length ds > 4300 then None else Some (sign * digits_int ds))"

section \<open>\<open>Decimal(text)\<close>\<close>

datatype py_decimal =
    Finite int int int
  | Infinite
  | Quiet_NaN
  | Signalling_NaN

text \<open>\<open>Finite sign coefficient exponent\<close>. The coefficient and exponent of digits with a point.\<close>

definition split_digits :: "string \<Rightarrow> string \<times> string" where
  "split_digits t = (takeWhile is_digit t, dropWhile is_digit t)"

definition read_exponent :: "string \<Rightarrow> int option" where
  "read_exponent t =
    (case t of
       [] \<Rightarrow> Some 0
     | c # r \<Rightarrow>
        if c \<noteq> CHR ''e'' then None
        else let (sign, ds) = split_sign r in
          if ds = [] \<or> \<not> list_all is_digit ds then None else Some (sign * digits_int ds))"

definition read_finite :: "int \<Rightarrow> string \<Rightarrow> py_decimal option" where
  "read_finite sign t =
    (let (whole, r) = split_digits t;
         (frac, rest) = (case r of [] \<Rightarrow> ([], [])
           | c # r' \<Rightarrow> if c = CHR ''.'' then split_digits r' else ([], r)) in
     if whole @ frac = [] then None
     else case read_exponent rest of
       None \<Rightarrow> None
     | Some e \<Rightarrow>
        let ex = e - int (length frac);
            significant = max 1 (length (dropWhile (\<lambda>c. c = CHR ''0'') (whole @ frac)));
            adjusted = ex + int significant - 1 in
        if adjusted > 999999999999999999 \<or> ex < -1999999999999999997 then None
        else Some (Finite sign (digits_int (whole @ frac)) ex))"

text \<open>\<open>None\<close> is the \<open>InvalidOperation\<close> of the constructor; it drops every underscore.\<close>

definition py_decimal_of :: "string \<Rightarrow> py_decimal option" where
  "py_decimal_of t =
    (let (sign, r) = split_sign (filter (\<lambda>c. c \<noteq> CHR ''_'') (strip_text t)); r = lower_text r in
     if r = ''inf'' \<or> r = ''infinity'' then Some Infinite
     else if take 3 r = ''nan'' then if list_all is_digit (drop 3 r) then Some Quiet_NaN else None
     else if take 4 r = ''snan'' then if list_all is_digit (drop 4 r) then Some Signalling_NaN else None
     else read_finite sign r)"

text \<open>The integer a finite decimal is, when it is one.\<close>

definition decimal_integer :: "int \<Rightarrow> int \<Rightarrow> int \<Rightarrow> int option" where
  "decimal_integer sign coeff ex =
    (if 0 \<le> ex then Some (sign * coeff * 10 ^ nat ex)
     else if coeff = 0 then Some 0
     else if coeff mod 10 ^ nat (- ex) = 0 then Some (sign * (coeff div 10 ^ nat (- ex)))
     else None)"

section \<open>Reading back what is written\<close>

lemma digits_int_text_nat: "digits_int ds = int (text_nat ds)"
proof -
  have "foldl (\<lambda>n c. 10 * n + int (of_char c - 48)) (int m) ds =
      int (foldl (\<lambda>n c. 10 * n + (of_char c - 48)) m ds)" for m
    by (induction ds arbitrary: m) (simp, metis (no_types, lifting) foldl_Cons of_nat_add of_nat_mult of_nat_numeral)
  from this [of 0] show ?thesis by (simp add: digits_int_def)
qed

lemma digits_int_nat_text [simp]: "digits_int (nat_text n) = int n"
  by (simp add: digits_int_text_nat del: text_nat.simps)

lemma digit_not_space: "is_digit c \<Longrightarrow> \<not> is_space c"
  by (auto simp: is_digit_def is_space_def Let_def)

lemma strip_text_id:
  assumes "t \<noteq> []" and "\<not> is_space (hd t)" and "\<not> is_space (last t)"
  shows "strip_text t = t"
proof -
  have "dropWhile is_space t = t" using assms(1,2) by (cases t) auto
  moreover have "dropWhile is_space (rev t) = rev t"
    using assms(1,3) by (cases t rule: rev_cases) auto
  ultimately show ?thesis by (simp add: strip_text_def)
qed

lemma nat_text_all_digits: "c \<in> set (nat_text n) \<Longrightarrow> is_digit c"
  using nat_text_digits by (auto simp: list_all_iff)

lemma int_text_ends:
  "int_text i \<noteq> []" "\<not> is_space (hd (int_text i))" "\<not> is_space (last (int_text i))"
proof -
  have h: "is_digit (hd (nat_text n))" "is_digit (last (nat_text n))" for n
    using nat_text_all_digits nat_text_nonempty hd_in_set last_in_set by blast+
  then show "int_text i \<noteq> []" "\<not> is_space (hd (int_text i))" "\<not> is_space (last (int_text i))"
    by (auto simp: int_text_def digit_not_space) (simp add: is_space_def)
qed

lemma strip_int_text [simp]: "strip_text (int_text i) = int_text i"
  by (rule strip_text_id [OF int_text_ends])

lemma split_sign_nat_text [simp]: "split_sign (nat_text n) = (1, nat_text n)"
proof (cases "nat_text n")
  case (Cons c r)
  then have "is_digit c" using nat_text_all_digits [of c n] by simp
  with Cons show ?thesis by (auto simp: split_sign_def is_digit_def)
qed simp

lemma split_sign_int_text:
  "split_sign (int_text i) = (if i < 0 then (-1, nat_text (nat (- i))) else (1, nat_text (nat i)))"
  by (auto simp: int_text_def) (simp add: split_sign_def)

lemma grouped_digits_all: "ds \<noteq> [] \<Longrightarrow> list_all is_digit ds \<Longrightarrow> grouped_digits ds = Some ds"
  by (induction ds rule: grouped_digits.induct) (auto simp: is_digit_def)

lemma py_int_text:
  assumes "length (int_text i) \<le> 4300"
  shows "py_int (int_text i) = Some i"
proof -
  have g: "grouped_digits (nat_text n) = Some (nat_text n)" for n
    by (rule grouped_digits_all [OF nat_text_nonempty nat_text_digits])
  show ?thesis
  proof (cases "i < 0")
    case True
    with assms show ?thesis by (simp add: py_int_def split_sign_int_text g del: text_nat.simps)
      (simp add: int_text_def del: text_nat.simps)
  next
    case False
    with assms show ?thesis by (simp add: py_int_def split_sign_int_text g del: text_nat.simps)
      (simp add: int_text_def del: text_nat.simps)
  qed
qed

lemma split_digits_all: "list_all is_digit t \<Longrightarrow> split_digits t = (t, [])"
  by (simp add: split_digits_def list_all_iff)

lemma lower_digits: "list_all is_digit t \<Longrightarrow> lower_text t = t"
  by (induction t) (auto simp: lower_text_def lower_char_def is_digit_def Let_def)

lemma no_underscore: "list_all is_digit t \<Longrightarrow> filter (\<lambda>c. c \<noteq> CHR ''_'') t = t"
  by (induction t) (auto simp: is_digit_def)

end
