(* ===== verification/Payment_Providers.thy ===== *)
theory Payment_Providers
  imports Shop_Model Nova_Parse
begin

text \<open>
  \<open>app/modules/payment/providers.py\<close>: what of a provider's body may be stored, who sent it, and
  which amount it names. Keys are read as ASCII; a byte of any other character counts as a letter.
\<close>

section \<open>Which keys are sensitive\<close>

definition sensitive_keys :: "string list" where
  "sensitive_keys =
    [''password'', ''passwd'', ''secret'', ''token'', ''authorization'', ''auth'', ''apikey'',
     ''sign'', ''signature'', ''privatekey'', ''cardno'', ''pan'', ''cvv'', ''cvv2'', ''cvc'',
     ''idcard'', ''bankaccount'', ''phone'', ''email'', ''key'']"

definition normalise_key :: "string \<Rightarrow> string" where
  "normalise_key k = filter is_alnum (lower_text k)"

definition is_sensitive_key :: "string \<Rightarrow> bool" where
  "is_sensitive_key k \<longleftrightarrow> normalise_key k \<in> set sensitive_keys"

definition payload_redacted :: string where
  "payload_redacted = ''***REDACTED***''"

definition max_depth :: nat where
  "max_depth = 8"

fun filter_payload :: "nat \<Rightarrow> json \<Rightarrow> json" where
  "filter_payload depth (JObj kvs) =
    (if depth > max_depth then JStr payload_redacted
     else JObj (map (\<lambda>(k, v). (k, if is_sensitive_key k then JStr payload_redacted
       else filter_payload (Suc depth) v)) kvs))"
| "filter_payload depth (JList vs) =
    (if depth > max_depth then JStr payload_redacted
     else JList (map (filter_payload (Suc depth)) vs))"
| "filter_payload depth v = (if depth > max_depth then JStr payload_redacted else v)"

definition filter_callback_payload :: "json \<Rightarrow> json" where
  "filter_callback_payload = filter_payload 0"

section \<open>Signatures\<close>

record callback_headers =
  ch_provider :: string
  ch_event_id :: string
  ch_timestamp :: string
  ch_signature :: string

datatype signature_reason =
    REASON_OK | MISSING_SECRET | MISSING_HEADER | TIMESTAMP_NOT_NUMERIC | TIMESTAMP_STALE
  | SIGNATURE_MISMATCH

record signature_verdict =
  sv_valid :: bool
  sv_reason :: signature_reason
  sv_skew_seconds :: "int option"

text \<open>An override that is blank is no secret; the shared secret is for providers without one.\<close>

definition callback_secret_for :: "env \<Rightarrow> string \<Rightarrow> string option" where
  "callback_secret_for ev provider =
    (if provider = [] then None
     else case map_of (ev_payment_provider_secrets ev) (upper_text provider) of
       Some s \<Rightarrow> if s = [] then None else Some s
     | None \<Rightarrow>
        if ev_payment_callback_secret ev = [] then None else Some (ev_payment_callback_secret ev))"

definition sign_body :: "env \<Rightarrow> string \<Rightarrow> string \<Rightarrow> string \<Rightarrow> string" where
  "sign_body ev secret timestamp raw_body = ev_hmac_sha256 ev secret (timestamp @ ''.'' @ raw_body)"

definition refused :: "signature_reason \<Rightarrow> int option \<Rightarrow> signature_verdict" where
  "refused reason skew = \<lparr>sv_valid = False, sv_reason = reason, sv_skew_seconds = skew\<rparr>"

text \<open>
  \<open>now\<close> is the clock in milliseconds; the skew is the whole seconds between it and the timestamp.
  \<open>hmac.compare_digest\<close> of two strings raises \<open>TypeError\<close> unless both are ASCII.
\<close>

definition verify_signature ::
  "env \<Rightarrow> string \<Rightarrow> callback_headers \<Rightarrow> string option \<Rightarrow> int \<Rightarrow> signature_verdict result" where
  "verify_signature ev raw_body h secret now =
    (case secret of
       None \<Rightarrow> ok (refused MISSING_SECRET None)
     | Some key \<Rightarrow>
       if key = [] then ok (refused MISSING_SECRET None)
       else if strip_text (ch_provider h) = [] \<or> strip_text (ch_event_id h) = [] \<or>
           strip_text (ch_timestamp h) = [] \<or> strip_text (ch_signature h) = []
       then ok (refused MISSING_HEADER None)
       else case py_int (ch_timestamp h) of
         None \<Rightarrow> ok (refused TIMESTAMP_NOT_NUMERIC None)
       | Some t \<Rightarrow>
         let skew = \<bar>now - 1000 * t\<bar> div 1000 in
         if skew > ev_payment_callback_max_skew_seconds ev then ok (refused TIMESTAMP_STALE (Some skew))
         else if \<not> list_all is_ascii (strip_text (ch_signature h))
         then raise (PythonError ''TypeError'')
         else if sign_body ev key (ch_timestamp h) raw_body \<noteq> strip_text (ch_signature h)
         then ok (refused SIGNATURE_MISMATCH (Some skew))
         else ok \<lparr>sv_valid = True, sv_reason = REASON_OK, sv_skew_seconds = Some skew\<rparr>)"

section \<open>Amounts\<close>

text \<open>
  The integer an amount names; \<open>int\<close> of an infinite value is an \<open>OverflowError\<close>, of a float that is
  not a number a \<open>ValueError\<close>, and a signalling decimal raises \<open>InvalidOperation\<close> when compared.
\<close>

definition parse_decimal_amount :: "string \<Rightarrow> int option result" where
  "parse_decimal_amount t =
    (case py_decimal_of t of
       None \<Rightarrow> ok None
     | Some d \<Rightarrow>
       (case d of
          Finite sign coeff ex \<Rightarrow> ok (decimal_integer sign coeff ex)
        | Infinite \<Rightarrow> raise (PythonError ''OverflowError'')
        | Quiet_NaN \<Rightarrow> ok None
        | Signalling_NaN \<Rightarrow> raise (PythonError ''InvalidOperation'')))"

definition parse_amount_minor :: "json option \<Rightarrow> int option result" where
  "parse_amount_minor value =
    (case value of
       None \<Rightarrow> ok None
     | Some v \<Rightarrow>
       (case v of
          JInt i \<Rightarrow> ok (Some i)
        | JStr t \<Rightarrow> if strip_text t = [] then ok None else parse_decimal_amount (strip_text t)
        | JFloat n k \<Rightarrow> ok (if n mod 2 ^ k = 0 then Some (n div 2 ^ k) else None)
        | JInfinity _ \<Rightarrow> raise (PythonError ''OverflowError'')
        | JNaN \<Rightarrow> raise (PythonError ''ValueError'')
        | _ \<Rightarrow> ok None))"

lemma parse_examples:
  "parse_amount_minor (Some (JStr ''1000'')) = ok (Some 1000)"
  "parse_amount_minor (Some (JStr '' 10.00E2 '')) = ok (Some 1000)"
  "parse_amount_minor (Some (JStr ''1000.5'')) = ok None"
  "parse_amount_minor (Some (JStr ''abc'')) = ok None"
  "parse_amount_minor (Some (JFloat 2001 1)) = ok None"
  "parse_amount_minor (Some (JBool True)) = ok None"
  by code_simp+

lemma sensitive_examples:
  "is_sensitive_key ''api_key''" "is_sensitive_key ''Card-No''" "\<not> is_sensitive_key ''sign_type''"
  "\<not> is_sensitive_key ''trade_no''"
  by code_simp+

end
