(* ===== verification/Payment_Service.thy ===== *)
theory Payment_Service
  imports Order_Lifecycle Payment_Providers
begin

text \<open>
  \<open>app/modules/payment/service.py\<close> and \<open>repository.py\<close>: payment attempts with their constraints, the
  creation of an attempt and its replays, the reads, and the callback rows.
\<close>

section \<open>Attempts\<close>

fun record_status_value :: "record_status \<Rightarrow> string" where
  "record_status_value Pay_INITIATED = ''INITIATED''"
| "record_status_value Pay_PAYING = ''PAYING''"
| "record_status_value Pay_SUCCESS = ''SUCCESS''"
| "record_status_value Pay_FAILED = ''FAILED''"
| "record_status_value Pay_CLOSED = ''CLOSED''"
| "record_status_value Pay_REFUNDED = ''REFUNDED''"
| "record_status_value Pay_PARTIAL_REFUNDED = ''PARTIAL_REFUNDED''"

definition payment_checks :: "payment \<Rightarrow> bool" where
  "payment_checks p \<longleftrightarrow>
    pay_channel p \<in> {''MOCK'', ''ALIPAY'', ''WECHAT''} \<and> pay_amount p > 0 \<and>
    pay_paid_amount p \<ge> 0 \<and> pay_refunded_amount p \<ge> 0 \<and> pay_refunded_amount p \<le> pay_paid_amount p"

text \<open>The three unique constraints.\<close>

definition payment_clash :: "payment \<Rightarrow> payment \<Rightarrow> bool" where
  "payment_clash a b \<longleftrightarrow>
    (pay_merchant_id a = pay_merchant_id b \<and>
      (pay_payment_no a = pay_payment_no b \<or> pay_idempotency_key a = pay_idempotency_key b)) \<or>
    (pay_user_id a = pay_user_id b \<and> pay_client_request_id a = pay_client_request_id b)"

definition flush_payment :: "'a shop_scheme \<Rightarrow> payment \<Rightarrow> 'a shop_scheme result" where
  "flush_payment s p =
    (if payment_checks p \<and> \<not> list_ex (\<lambda>r. pay_id r \<noteq> pay_id p \<and> payment_clash p r) (payments s)
     then ok (s\<lparr>payments := put_row pay_id p (payments s)\<rparr>)
     else raise (IntegrityError ''payments''))"

definition insert_payment :: "'a shop_scheme \<Rightarrow> payment \<Rightarrow> (payment \<times> 'a shop_scheme) result" where
  "insert_payment s draft =
    (let row = draft\<lparr>pay_id := fresh_id pay_id (payments s)\<rparr> in
     if payment_checks row \<and> \<not> list_ex (payment_clash row) (payments s)
     then ok (row, s\<lparr>payments := payments s @ [row]\<rparr>)
     else raise (IntegrityError ''payments''))"

definition get_payment :: "'a shop_scheme \<Rightarrow> int \<Rightarrow> payment option" where
  "get_payment s pid = row_of pay_id (payments s) pid"

definition get_by_payment_no :: "'a shop_scheme \<Rightarrow> string \<Rightarrow> payment option" where
  "get_by_payment_no s payment_no = find (\<lambda>p. pay_payment_no p = payment_no) (payments s)"

definition get_by_payment_no_for_update :: "'a shop_scheme \<Rightarrow> string \<Rightarrow> payment option" where
  "get_by_payment_no_for_update s payment_no =
    (case get_by_payment_no s payment_no of
       None \<Rightarrow> None
     | Some candidate \<Rightarrow>
        find (\<lambda>p. pay_payment_no p = payment_no)
          (lock_attempts_for_order s (pay_order_id candidate) (pay_user_id candidate)))"

definition payment_by_client_request_id :: "'a shop_scheme \<Rightarrow> int \<Rightarrow> string \<Rightarrow> payment option" where
  "payment_by_client_request_id s user_id client_request_id =
    find (\<lambda>p. pay_user_id p = user_id \<and> pay_client_request_id p = client_request_id) (payments s)"

definition payment_by_idempotency_key :: "'a shop_scheme \<Rightarrow> int \<Rightarrow> string \<Rightarrow> payment option" where
  "payment_by_idempotency_key s merchant_id key =
    find (\<lambda>p. pay_merchant_id p = merchant_id \<and> pay_idempotency_key p = key) (payments s)"

definition payment_refundable :: "payment \<Rightarrow> int" where
  "payment_refundable p = max (pay_paid_amount p - pay_refunded_amount p) 0"

definition record_success :: "int \<Rightarrow> string option \<Rightarrow> int \<Rightarrow> payment \<Rightarrow> payment" where
  "record_success paid_amount external_no paid_at p =
    p\<lparr>pay_status := Pay_SUCCESS, pay_paid_amount := paid_amount,
      pay_external_transaction_no := external_no, pay_paid_at := Some paid_at\<rparr>"

definition apply_refund :: "int \<Rightarrow> payment \<Rightarrow> payment" where
  "apply_refund amount p =
    (let total = pay_refunded_amount p + amount in
     p\<lparr>pay_refunded_amount := total,
       pay_status := (if total = pay_paid_amount p then Pay_REFUNDED
         else if total > 0 then Pay_PARTIAL_REFUNDED else pay_status p)\<rparr>)"

section \<open>Creating an attempt\<close>

text \<open>\<open>json.dumps\<close> of the three inputs with sorted keys.\<close>

definition canonical_payment_payload :: "int \<Rightarrow> string \<Rightarrow> string \<Rightarrow> string" where
  "canonical_payment_payload user_id order_no channel =
    ''{'' @ json_key ''channel'' @ json_string channel @ '','' @
    json_key ''order_no'' @ json_string order_no @ '','' @
    json_key ''user_id'' @ int_text user_id @ ''}''"

definition canonical_payment_request_hash :: "env \<Rightarrow> int \<Rightarrow> string \<Rightarrow> string \<Rightarrow> string" where
  "canonical_payment_request_hash ev user_id order_no channel =
    ev_sha256 ev (canonical_payment_payload user_id order_no channel)"

record payment_create_request =
  yq_order_no :: string
  yq_channel :: string
  yq_client_request_id :: string
  yq_idempotency_key :: string

definition resolve_conflict ::
  "'a shop_scheme \<Rightarrow> principal \<Rightarrow> payment_create_request \<Rightarrow> string \<Rightarrow> exn \<Rightarrow> payment result" where
  "resolve_conflict s who q request_hash original =
    (let existing = (case payment_by_client_request_id s (p_user_id who) (yq_client_request_id q) of
           Some p \<Rightarrow> Some p
         | None \<Rightarrow> (case p_merchant_id who of None \<Rightarrow> None
             | Some m \<Rightarrow> payment_by_idempotency_key s m (yq_idempotency_key q)))
     in case existing of
          None \<Rightarrow> raise original
        | Some p \<Rightarrow>
            require (\<not> pay_request_hash p \<noteq> request_hash)
              (AppError (Idempotency IdempotencyPayloadMismatchError)) (ok p))"

definition payment_draft ::
  "env \<Rightarrow> int \<Rightarrow> principal \<Rightarrow> order \<Rightarrow> payment_create_request \<Rightarrow> string \<Rightarrow> payment" where
  "payment_draft ev now who ord q request_hash =
    \<lparr>pay_id = 0, pay_merchant_id = o_merchant_id ord, pay_payment_no = ev_uuid ev,
     pay_order_id = o_id ord, pay_order_no = o_order_no ord, pay_user_id = p_user_id who,
     pay_channel = yq_channel q, pay_amount = o_payable_amount ord, pay_status = Pay_PAYING,
     pay_external_transaction_no = None, pay_idempotency_key = yq_idempotency_key q,
     pay_client_request_id = yq_client_request_id q, pay_request_hash = request_hash,
     pay_paid_amount = 0, pay_refunded_amount = 0, pay_expires_at = o_expires_at ord,
     pay_paid_at = None, pay_closed_at = None, pay_created_at = now\<rparr>"

definition mark_order_paying :: "'a shop_scheme \<Rightarrow> order \<Rightarrow> (order \<times> 'a shop_scheme) result" where
  "mark_order_paying s ord =
    (if o_payment_status ord \<noteq> UNPAID then ok (ord, s)
     else let ord' = touch_version (ord\<lparr>o_payment_status := PAYING\<rparr>)
       in bindE (flush_order s ord') (\<lambda>s. ok (ord', s)))"

text \<open>An \<open>IntegrityError\<close> of the insert rolls its savepoint back; the expiry check is inside it too.\<close>

definition insert_or_replay ::
  "env \<Rightarrow> 'a shop_scheme \<Rightarrow> principal \<Rightarrow> order \<Rightarrow> payment_create_request \<Rightarrow> string \<Rightarrow>
   (payment \<times> bool \<times> order \<times> 'a shop_scheme) result" where
  "insert_or_replay ev s who ord q request_hash =
    require (o_order_status ord = PENDING_PAYMENT) (AppError (Order_Err OrderStateInvalidError))
    (require (o_payment_status ord \<notin> {PAID, PARTIAL_REFUNDED, REFUNDED})
      (AppError (Payment_Err PaymentStateInvalidError))
    (case insert_payment s (payment_draft ev (db_now s) who ord q request_hash) of
       Inl e \<Rightarrow> bindE (resolve_conflict s who q request_hash e) (\<lambda>p. ok (p, True, ord, s))
     | Inr (row, s') \<Rightarrow>
        require (\<not> (case o_expires_at ord of None \<Rightarrow> False | Some e \<Rightarrow> e \<le> db_now s))
          (AppError (Order_Err OrderExpiredError))
        (let p = row\<lparr>pay_payment_no :=
               public_no (ev_payment_no_prefix ev) (db_now s) (nat (pay_id row))\<rparr>
         in bindE (flush_payment s' p) (\<lambda>s.
            bindE (mark_order_paying s ord) (\<lambda>(ord, s). ok (p, False, ord, s))))))"

record payment_create_result =
  yr_payment :: payment
  yr_replayed :: bool
  yr_order :: order

definition create_payment ::
  "env \<Rightarrow> 'a shop_scheme \<Rightarrow> principal \<Rightarrow> payment_create_request \<Rightarrow>
   (payment_create_result \<times> 'a shop_scheme) result" where
  "create_payment ev s who q =
    require (yq_idempotency_key q \<noteq> []) (AppError (Idempotency IdempotencyKeyRequiredError))
    (require (yq_channel q \<in> ev_payment_enabled_channels ev)
      (AppError (Payment_Err PaymentChannelUnsupportedError))
    (case get_by_order_no s (yq_order_no q) None (Some (p_user_id who)) of
       None \<Rightarrow> app_raise (Order_Err OrderNotFoundError)
     | Some ord \<Rightarrow>
        bindE (insert_or_replay ev s who ord q
            (canonical_payment_request_hash ev (p_user_id who) (o_order_no ord) (yq_channel q)))
          (\<lambda>(p, replayed, ord, s). ok (\<lparr>yr_payment = p, yr_replayed = replayed, yr_order = ord\<rparr>, s))))"

section \<open>Reads\<close>

definition get_customer_payment :: "'a shop_scheme \<Rightarrow> principal \<Rightarrow> int \<Rightarrow> payment result" where
  "get_customer_payment s who pid =
    (case get_payment s pid of
       None \<Rightarrow> app_raise (Payment_Err PaymentNotFoundError)
     | Some p \<Rightarrow>
        require (\<not> pay_user_id p \<noteq> p_user_id who) (AppError (Payment_Err PaymentNotFoundError)) (ok p))"

definition get_latest_for_order :: "'a shop_scheme \<Rightarrow> int \<Rightarrow> payment option" where
  "get_latest_for_order s oid =
    (case sort_key (\<lambda>p. - pay_created_at p) (sort_key (\<lambda>p. - pay_id p)
        (filter (\<lambda>p. pay_order_id p = oid) (payments s))) of
       [] \<Rightarrow> None | p # _ \<Rightarrow> Some p)"

definition get_payment_for_order :: "'a shop_scheme \<Rightarrow> principal \<Rightarrow> string \<Rightarrow> payment result" where
  "get_payment_for_order s who order_no =
    (case get_by_order_no s order_no None (Some (p_user_id who)) of
       None \<Rightarrow> app_raise (Order_Err OrderNotFoundError)
     | Some ord \<Rightarrow>
       (case get_latest_for_order s (o_id ord) of
          None \<Rightarrow> app_raise (Payment_Err PaymentNotFoundError)
        | Some p \<Rightarrow> ok p))"

definition list_admin_payments ::
  "'a shop_scheme \<Rightarrow> int option \<Rightarrow> record_status option \<Rightarrow> string option \<Rightarrow> string option \<Rightarrow> int \<Rightarrow> nat \<Rightarrow>
   payment list \<times> nat" where
  "list_admin_payments s merchant_id status order_no channel page page_size =
    (let rows = filter (\<lambda>p.
          (case merchant_id of None \<Rightarrow> True | Some m \<Rightarrow> pay_merchant_id p = m) \<and>
          (case status of None \<Rightarrow> True | Some x \<Rightarrow> pay_status p = x) \<and>
          (case order_no of None \<Rightarrow> True | Some n \<Rightarrow> pay_order_no p = n) \<and>
          (case channel of None \<Rightarrow> True | Some c \<Rightarrow> pay_channel p = c)) (payments s)
     in (take page_size (drop (nat (max (page - 1) 0) * page_size)
          (sort_key (\<lambda>p. - pay_created_at p) (sort_key (\<lambda>p. - pay_id p) rows))), length rows))"

section \<open>Callback rows\<close>

definition get_by_event :: "'a shop_scheme \<Rightarrow> string \<Rightarrow> string \<Rightarrow> payment_callback option" where
  "get_by_event s provider event_id =
    find (\<lambda>c. pc_provider c = provider \<and> pc_event_id c = event_id) (payment_callbacks s)"

text \<open>\<open>None\<close> when the unique index on provider and event answers.\<close>

definition insert_received ::
  "'a shop_scheme \<Rightarrow> string \<Rightarrow> string \<Rightarrow> string \<Rightarrow> bool \<Rightarrow>
   (payment_callback \<times> 'a shop_scheme) option" where
  "insert_received s provider event_id event signature_valid =
    (case get_by_event s provider event_id of
       Some _ \<Rightarrow> None
     | None \<Rightarrow>
        let c = \<lparr>pc_id = fresh_id pc_id (payment_callbacks s), pc_provider = provider,
                 pc_event_id = event_id, pc_payment_no = None, pc_order_no = None,
                 pc_merchant_id = None, pc_payload_snapshot = None,
                 pc_signature_valid = signature_valid, pc_process_status = Cb_RECEIVED,
                 pc_process_error = None, pc_event_type = event, pc_received_at = db_now s,
                 pc_processed_at = None, pc_attempt_count = 1\<rparr>
        in Some (c, s\<lparr>payment_callbacks := payment_callbacks s @ [c]\<rparr>))"

definition put_callback :: "'a shop_scheme \<Rightarrow> payment_callback \<Rightarrow> 'a shop_scheme" where
  "put_callback s c = s\<lparr>payment_callbacks := put_row pc_id c (payment_callbacks s)\<rparr>"

definition mark_processed :: "int \<Rightarrow> payment_callback \<Rightarrow> payment_callback" where
  "mark_processed now c =
    c\<lparr>pc_process_status := Cb_PROCESSED, pc_processed_at := Some now, pc_process_error := None\<rparr>"

definition mark_failed :: "int \<Rightarrow> string option \<Rightarrow> payment_callback \<Rightarrow> payment_callback" where
  "mark_failed now error c =
    c\<lparr>pc_process_status := Cb_FAILED, pc_process_error := map_option (clip 500) error,
      pc_processed_at := Some now\<rparr>"

definition mark_ignored :: "int \<Rightarrow> string option \<Rightarrow> payment_callback \<Rightarrow> payment_callback" where
  "mark_ignored now error c =
    c\<lparr>pc_process_status := Cb_IGNORED, pc_process_error := map_option (clip 500) error,
      pc_processed_at := Some now\<rparr>"

end
