(* ===== verification/Fulfillment.thy ===== *)
theory Fulfillment
  imports Order_Lifecycle
begin

text \<open>
  \<open>app/modules/fulfillment\<close>: the package a settled order owes, its shipment in one or more parcels,
  the residual package of a partial shipment, the roll-up onto the order, the reads, and the HTTP
  endpoint around the shipment. A package holds its lines in the order of their ids.
\<close>

section \<open>Vocabulary and constraints\<close>

definition carrier_codes :: "string list" where
  "carrier_codes = [''SF'', ''YTO'', ''JD'', ''ZTO'', ''STO'', ''YD'', ''EMS'', ''OTHER'']"

definition is_shipped :: "fulfillment \<Rightarrow> bool" where
  "is_shipped f \<longleftrightarrow> fu_status f \<in> {SHIPPED, DELIVERED}"

definition fulfillment_checks :: "fulfillment \<Rightarrow> bool" where
  "fulfillment_checks f \<longleftrightarrow>
    (case fu_carrier f of None \<Rightarrow> True | Some c \<Rightarrow> c \<in> set carrier_codes) \<and> fu_package_count f \<ge> 1 \<and>
    (is_shipped f \<longrightarrow> fu_carrier f \<noteq> None \<and> fu_tracking_no f \<noteq> None \<and> fu_shipped_at f \<noteq> None) \<and>
    (fu_delivered_at f = None \<or> fu_shipped_at f \<noteq> None)"

definition package_lines_checks :: "fulfillment_item list \<Rightarrow> bool" where
  "package_lines_checks is \<longleftrightarrow>
    distinct (map fi_order_item_id is) \<and> list_all (\<lambda>i. fi_quantity i > 0) is"

definition flush_package :: "'a shop_scheme \<Rightarrow> fulfillment \<Rightarrow> 'a shop_scheme result" where
  "flush_package s f =
    (if fulfillment_checks f \<and> package_lines_checks (fu_items f) \<and>
        \<not> list_ex (\<lambda>g. fu_id g \<noteq> fu_id f \<and> fu_merchant_id g = fu_merchant_id f \<and>
          fu_fulfillment_no g = fu_fulfillment_no f) (fulfillments s)
     then ok (s\<lparr>fulfillments := put_row fu_id f (fulfillments s)\<rparr>)
     else raise (IntegrityError ''fulfillments''))"

text \<open>Insert under a placeholder number, then stamp the number with the id.\<close>

definition add_package ::
  "env \<Rightarrow> 'a shop_scheme \<Rightarrow> fulfillment \<Rightarrow> (fulfillment \<times> 'a shop_scheme) result" where
  "add_package ev s draft =
    (let row = draft\<lparr>fu_id := fresh_id fu_id (fulfillments s)\<rparr> in
     bindE (flush_package (s\<lparr>fulfillments := fulfillments s @ [row]\<rparr>) row) (\<lambda>s.
     let f = row\<lparr>fu_fulfillment_no :=
           public_no (ev_fulfillment_no_prefix ev) (db_now s) (nat (fu_id row))\<rparr>
     in bindE (flush_package s f) (\<lambda>s. ok (f, s))))"

section \<open>Queries\<close>

definition get_package :: "'a shop_scheme \<Rightarrow> int \<Rightarrow> fulfillment option" where
  "get_package s fid = row_of fu_id (fulfillments s) fid"

definition packages_for_order :: "'a shop_scheme \<Rightarrow> int \<Rightarrow> fulfillment list" where
  "packages_for_order s oid =
    sort_key fu_created_at (sort_key fu_id (filter (\<lambda>f. fu_order_id f = oid) (fulfillments s)))"

definition package_sum :: "fulfillment list \<Rightarrow> int \<Rightarrow> int option" where
  "package_sum fs item =
    (let qs = concat (map (\<lambda>f. map fi_quantity (filter (\<lambda>i. fi_order_item_id i = item) (fu_items f))) fs)
     in if qs = [] then None else Some (sum_list qs))"

text \<open>The grouped sums; a line in no such package is absent.\<close>

definition shipped_quantities_for_order :: "'a shop_scheme \<Rightarrow> int \<Rightarrow> int \<Rightarrow> int option" where
  "shipped_quantities_for_order s oid =
    package_sum (filter (\<lambda>f. fu_order_id f = oid \<and> is_shipped f) (fulfillments s))"

definition planned_quantities_for_order :: "'a shop_scheme \<Rightarrow> int \<Rightarrow> int \<Rightarrow> int option" where
  "planned_quantities_for_order s oid =
    package_sum (filter (\<lambda>f. fu_order_id f = oid) (fulfillments s))"

definition dict_of :: "('k \<times> 'v) list \<Rightarrow> ('k \<times> 'v) list" where
  "dict_of kvs = fold (\<lambda>(k, v). dict_set k v) kvs []"

section \<open>The two pure rules\<close>

fun rollup :: "(int \<times> int) list \<Rightarrow> (int \<Rightarrow> int option) \<Rightarrow> bool \<Rightarrow> fulfillment_status" where
  "rollup [] shipped any = SHIPPED"
| "rollup ((item, ordered) # rest) shipped any =
    (let gone = case_option 0 id (shipped item); any = (any \<or> gone > 0) in
     if gone < ordered then (if any then PARTIAL_SHIPPED else UNFULFILLED)
     else rollup rest shipped any)"

definition compute_fulfillment_status ::
  "(int \<times> int) list \<Rightarrow> (int \<Rightarrow> int option) \<Rightarrow> fulfillment_status option \<Rightarrow> fulfillment_status" where
  "compute_fulfillment_status ordered shipped current =
    (if current = Some DELIVERED then DELIVERED
     else if ordered = [] then UNFULFILLED
     else rollup ordered shipped False)"

definition check_requested ::
  "(int \<Rightarrow> int option) \<Rightarrow> int \<times> int \<Rightarrow> unit result" where
  "check_requested package_lines r =
    (case package_lines (fst r) of
       None \<Rightarrow> app_raise (Common ValidationError)
     | Some carried \<Rightarrow> if snd r > carried then app_raise (Common ValidationError) else ok ())"

definition residual_of :: "(int \<times> int) list \<Rightarrow> (int \<times> int) list \<Rightarrow> (int \<times> int) list" where
  "residual_of package_lines requested =
    filter (\<lambda>l. snd l > 0)
      (map (\<lambda>(item, q). (item, q - case_option 0 id (map_of requested item))) package_lines)"

definition compute_residual ::
  "(int \<times> int) list \<Rightarrow> (int \<times> int) list \<Rightarrow> (int \<times> int) list result" where
  "compute_residual package_lines requested =
    bindE (mapE (check_requested (map_of package_lines)) requested) (\<lambda>_.
    ok (residual_of package_lines requested))"

section \<open>The shell\<close>

definition shell_line :: "order_item \<Rightarrow> fulfillment_item" where
  "shell_line i = \<lparr>fi_order_item_id = oi_id i, fi_sku_id = oi_sku_id i,
    fi_product_name = oi_product_name i, fi_sku_name = oi_sku_name i, fi_quantity = oi_quantity i\<rparr>"

definition package_draft ::
  "env \<Rightarrow> int \<Rightarrow> order \<Rightarrow> int \<Rightarrow> string option \<Rightarrow> fulfillment_item list \<Rightarrow> fulfillment" where
  "package_draft ev now ord wid remark lines =
    \<lparr>fu_id = 0, fu_merchant_id = o_merchant_id ord, fu_fulfillment_no = ev_uuid ev,
     fu_order_id = o_id ord, fu_order_no = o_order_no ord, fu_warehouse_id = wid,
     fu_status = UNFULFILLED, fu_carrier = None, fu_tracking_no = None, fu_package_count = 1,
     fu_remark = remark, fu_shipped_at = None, fu_delivered_at = None, fu_created_at = now,
     fu_items = lines\<rparr>"

definition unshipped_shell_for :: "'a shop_scheme \<Rightarrow> int \<Rightarrow> fulfillment option" where
  "unshipped_shell_for s oid = find (\<lambda>f. fu_status f = UNFULFILLED) (packages_for_order s oid)"

definition create_shell ::
  "env \<Rightarrow> 'a shop_scheme \<Rightarrow> order \<Rightarrow> order_item list \<Rightarrow> int \<Rightarrow> (fulfillment \<times> 'a shop_scheme) result" where
  "create_shell ev s ord items wid =
    require (items \<noteq> []) (AppError (Common ValidationError))
    (case unshipped_shell_for s (o_id ord) of
       Some f \<Rightarrow> ok (f, s)
     | None \<Rightarrow> add_package ev s (package_draft ev (db_now s) ord wid None (map shell_line items)))"

section \<open>Shipping\<close>

record ship_request =
  sq_carrier :: string
  sq_tracking_no :: string
  sq_item_quantities :: "(int \<times> int) list"

definition ship_permissions :: "string set" where
  "ship_permissions = {''fulfillment:ship'', ''order:admin''}"

definition read_permissions :: "string set" where
  "read_permissions = {''fulfillment:read'', ''order:read'', ''order:admin''}"

definition assert_console :: "principal \<Rightarrow> string set \<Rightarrow> unit result" where
  "assert_console who permissions =
    require (p_is_staff who) (AppError (Auth PermissionDeniedError))
    (require (has_any_permission who permissions) (AppError (Auth PermissionDeniedError)) (ok ()))"

text \<open>The request validator of \<open>ShipFulfillmentRequest\<close>.\<close>

definition ship_request_ok :: "ship_request \<Rightarrow> bool" where
  "ship_request_ok q \<longleftrightarrow>
    sq_carrier q \<in> set carrier_codes \<and> sq_tracking_no q \<noteq> [] \<and>
    strip_text (sq_tracking_no q) = sq_tracking_no q \<and>
    0 < length (sq_item_quantities q) \<and> length (sq_item_quantities q) \<le> 100 \<and>
    list_all (\<lambda>l. fst l > 0 \<and> snd l > 0) (sq_item_quantities q) \<and>
    distinct (map fst (sq_item_quantities q))"

definition resolve_locked_package ::
  "'a shop_scheme \<Rightarrow> principal \<Rightarrow> int \<Rightarrow> (fulfillment \<times> order) result" where
  "resolve_locked_package s who fid =
    (case get_package s fid of
       None \<Rightarrow> app_raise (Fulfillment_Err FulfillmentNotFoundError)
     | Some f \<Rightarrow>
        require (case p_merchant_id who of None \<Rightarrow> True | Some m \<Rightarrow> fu_merchant_id f = m)
          (AppError (Fulfillment_Err FulfillmentNotFoundError))
        (case get_order s (fu_order_id f) of
           None \<Rightarrow> app_raise (Order_Err OrderNotFoundError)
         | Some ord \<Rightarrow> ok (f, ord)))"

definition within_bounds ::
  "(int \<Rightarrow> int option) \<Rightarrow> (int \<Rightarrow> int option) \<Rightarrow> (int \<Rightarrow> int option) \<Rightarrow> int \<times> int \<Rightarrow> unit result" where
  "within_bounds package_lines ordered shipped r =
    (let err = app_raise (Fulfillment_Err FulfillmentQuantityError) in
     case package_lines (fst r) of
       None \<Rightarrow> err
     | Some carried \<Rightarrow>
       if snd r > carried then err
       else case ordered (fst r) of
         None \<Rightarrow> err
       | Some q \<Rightarrow> if case_option 0 id (shipped (fst r)) + snd r > q then err else ok ())"

definition ship_line :: "(int \<times> int) list \<Rightarrow> fulfillment_item \<Rightarrow> fulfillment_item option" where
  "ship_line requested i =
    (case map_of requested (fi_order_item_id i) of
       None \<Rightarrow> None
     | Some q \<Rightarrow> Some (i\<lparr>fi_quantity := q\<rparr>))"

text \<open>The line of the residual: named by what is left in the parcel, else by the order line.\<close>

definition residual_line ::
  "fulfillment_item list \<Rightarrow> order_item list \<Rightarrow> int \<times> int \<Rightarrow> fulfillment_item result" where
  "residual_line shipped items r =
    (case find (\<lambda>i. fi_order_item_id i = fst r) shipped of
       Some i \<Rightarrow> ok (i\<lparr>fi_quantity := snd r\<rparr>)
     | None \<Rightarrow>
       (case find (\<lambda>i. oi_id i = fst r) items of
          None \<Rightarrow> app_raise (Common ValidationError)
        | Some i \<Rightarrow> ok ((shell_line i)\<lparr>fi_quantity := snd r\<rparr>)))"

definition create_residual_package ::
  "env \<Rightarrow> 'a shop_scheme \<Rightarrow> order \<Rightarrow> int \<Rightarrow> (int \<times> int) list \<Rightarrow> fulfillment_item list \<Rightarrow>
   (fulfillment \<times> 'a shop_scheme) result" where
  "create_residual_package ev s ord wid residual shipped =
    bindE (mapE (residual_line shipped (items_for s (o_id ord))) residual) (\<lambda>lines.
    add_package ev s
      (package_draft ev (db_now s) ord wid (Some ''residual of a partial shipment'') lines))"

definition ordered_quantities :: "'a shop_scheme \<Rightarrow> int \<Rightarrow> (int \<times> int) list" where
  "ordered_quantities s oid = map (\<lambda>i. (oi_id i, oi_quantity i)) (items_for s oid)"

definition recompute_order_axis :: "'a shop_scheme \<Rightarrow> order \<Rightarrow> fulfillment_status" where
  "recompute_order_axis s ord =
    compute_fulfillment_status (ordered_quantities s (o_id ord))
      (shipped_quantities_for_order s (o_id ord)) (Some (o_fulfillment_status ord))"

definition ship ::
  "env \<Rightarrow> 'a shop_scheme \<Rightarrow> principal \<Rightarrow> int \<Rightarrow> ship_request \<Rightarrow> (fulfillment \<times> 'a shop_scheme) result" where
  "ship ev s who fid q =
    bindE (assert_console who ship_permissions) (\<lambda>_.
    bindE (resolve_locked_package s who fid) (\<lambda>(f, ord).
    require (\<not> is_shipped f) (AppError (Fulfillment_Err FulfillmentAlreadyShippedError))
    (let requested = dict_of (sq_item_quantities q);
         package_lines = map (\<lambda>i. (fi_order_item_id i, fi_quantity i)) (fu_items f) in
     require (package_lines \<noteq> []) (AppError (Fulfillment_Err FulfillmentQuantityError))
     (bindE (mapE (within_bounds (map_of package_lines)
         (map_of (ordered_quantities s (o_id ord))) (shipped_quantities_for_order s (o_id ord)))
         requested) (\<lambda>_.
      bindE (compute_residual package_lines requested) (\<lambda>residual.
      let stamped = f\<lparr>fu_carrier := Some (sq_carrier q), fu_tracking_no := Some (sq_tracking_no q),
            fu_shipped_at := Some (db_now s)\<rparr> in
      bindE (flush_package s stamped) (\<lambda>s.
      let parcel = stamped\<lparr>fu_items := List.map_filter (ship_line requested) (fu_items f)\<rparr> in
      bindE (flush_package s parcel) (\<lambda>s.
      require (fu_items parcel \<noteq> []) (AppError (Fulfillment_Err FulfillmentQuantityError))
      (bindE (if residual = [] then ok s
          else bindE (create_residual_package ev s ord (fu_warehouse_id f) residual (fu_items parcel))
            (\<lambda>(_, s). ok s)) (\<lambda>s.
       let sent = parcel\<lparr>fu_status := SHIPPED\<rparr> in
       bindE (flush_package s sent) (\<lambda>s.
       bindE (flush_order s (ord\<lparr>o_fulfillment_status := recompute_order_axis s ord\<rparr>)) (\<lambda>s.
       ok (sent, s)))))))))))))"

text \<open>
  The endpoint \<open>POST /fulfillments/{id}/ship\<close>: neither it nor the service commits, and
  \<open>get_session\<close> closes the session without a commit, so the transaction is rolled back.
\<close>

definition ship_endpoint ::
  "env \<Rightarrow> 'a shop_scheme \<Rightarrow> principal \<Rightarrow> int \<Rightarrow> ship_request \<Rightarrow> fulfillment result \<times> 'a shop_scheme" where
  "ship_endpoint ev s who fid q = (bindE (ship ev s who fid q) (\<lambda>(f, _). ok f), s)"

section \<open>Reads\<close>

definition get_for_order_no ::
  "'a shop_scheme \<Rightarrow> principal \<Rightarrow> string \<Rightarrow> fulfillment list result" where
  "get_for_order_no s who order_no =
    (case get_by_order_no s order_no None None of
       None \<Rightarrow> app_raise (Order_Err OrderNotFoundError)
     | Some ord \<Rightarrow>
        require
          (if p_is_staff who
           then (case p_merchant_id who of None \<Rightarrow> True | Some m \<Rightarrow> o_merchant_id ord = m)
           else o_user_id ord = p_user_id who) (AppError (Order_Err OrderNotFoundError))
        (ok (packages_for_order s (o_id ord))))"

definition list_admin_fulfillments ::
  "'a shop_scheme \<Rightarrow> principal \<Rightarrow> string option \<Rightarrow> string option \<Rightarrow> int \<Rightarrow> nat \<Rightarrow>
   (fulfillment list \<times> nat) result" where
  "list_admin_fulfillments s who order_no status page page_size =
    bindE (assert_console who read_permissions) (\<lambda>_.
    bindE (validate_status_filter fulfillment_statuses status) (\<lambda>st.
    let rows = filter (\<lambda>f.
          (case p_merchant_id who of None \<Rightarrow> True | Some m \<Rightarrow> fu_merchant_id f = m) \<and>
          (case st of None \<Rightarrow> True | Some x \<Rightarrow> fu_status f = x) \<and>
          (case order_no of None \<Rightarrow> True | Some n \<Rightarrow> fu_order_no f = n)) (fulfillments s)
    in ok (take page_size (drop (nat (max (page - 1) 0) * page_size)
         (sort_key (\<lambda>f. - fu_created_at f) (sort_key (\<lambda>f. - fu_id f) rows))), length rows)))"

end
