(* ===== verification/Payment_Workflow.thy ===== *)
theory Payment_Workflow
  imports Payment_Service Fulfillment
begin

text \<open>
  \<open>PaymentSuccessWorkflow\<close> of \<open>app/modules/payment/workflow.py\<close> and the endpoint that receives a
  provider's callback (\<open>api/callbacks.py\<close>). \<open>process\<close> is the transaction body, \<open>execute\<close> commits or
  rolls it back, \<open>receive_callback\<close> is the request. The texts of log lines are left out.
\<close>

section \<open>Requests and outcomes\<close>

record callback_request =
  br_provider :: string
  br_event_id :: string
  br_event_type :: string
  br_timestamp :: string
  br_signature :: string
  br_raw_body :: string
  br_payload :: "(string \<times> json) list"

datatype refusal_code =
    Code_DUPLICATE | Code_INVALID_SIGNATURE | Code_PAYMENT_NOT_FOUND | Code_STATE_INVALID
  | Code_AMOUNT_MISMATCH | Code_ORDER_NOT_FOUND | Code_ALREADY_PAID | Code_ORDER_AMOUNT_MISMATCH

record execution =
  cx_callback :: "payment_callback option"
  cx_payment :: "payment option"
  cx_order :: "order option"
  cx_replayed :: bool
  cx_duplicate :: bool
  cx_processed :: bool
  cx_uncommitted :: bool
  cx_error_code :: "refusal_code option"

definition applied :: "execution \<Rightarrow> bool" where
  "applied x \<longleftrightarrow> cx_processed x \<and> \<not> cx_replayed x \<and> \<not> cx_uncommitted x"

definition duplicate_of ::
  "payment_callback option \<Rightarrow> payment option \<Rightarrow> order option \<Rightarrow> execution" where
  "duplicate_of c p ord =
    \<lparr>cx_callback = c, cx_payment = p, cx_order = ord, cx_replayed = True, cx_duplicate = True,
     cx_processed = False, cx_uncommitted = False, cx_error_code = Some Code_DUPLICATE\<rparr>"

definition refusal ::
  "refusal_code \<Rightarrow> payment_callback \<Rightarrow> payment option \<Rightarrow> order option \<Rightarrow> execution" where
  "refusal code c p ord =
    \<lparr>cx_callback = Some c, cx_payment = p, cx_order = ord, cx_replayed = False, cx_duplicate = False,
     cx_processed = False, cx_uncommitted = True, cx_error_code = Some code\<rparr>"

text \<open>The reasons written into \<open>process_error\<close>.\<close>

definition state_refusal_text :: "payment \<Rightarrow> string" where
  "state_refusal_text p =
    ''payment status is '' @ record_status_value (pay_status p) @
    ''; only INITIATED/PAYING can be settled''"

definition amount_refusal_text :: "int option \<Rightarrow> payment \<Rightarrow> string" where
  "amount_refusal_text amount p =
    ''amount mismatch: provider='' @ (case amount of None \<Rightarrow> ''None'' | Some a \<Rightarrow> int_text a) @
    '' payment='' @ int_text (pay_amount p)"

definition order_refusal_text :: "order \<Rightarrow> string" where
  "order_refusal_text ord =
    ''order is '' @ order_status_value (o_order_status ord) @ '', not payable''"

definition settled_execution :: "payment_callback \<Rightarrow> payment \<Rightarrow> order \<Rightarrow> execution" where
  "settled_execution c p ord =
    \<lparr>cx_callback = Some c, cx_payment = Some p, cx_order = Some ord, cx_replayed = False,
     cx_duplicate = False, cx_processed = True, cx_uncommitted = False, cx_error_code = None\<rparr>"

section \<open>Reading the payload\<close>

text \<open>The first of the keys that holds a text which is not blank, stripped.\<close>

fun first_text :: "(string \<times> json) list \<Rightarrow> string list \<Rightarrow> string option" where
  "first_text payload [] = None"
| "first_text payload (k # ks) =
    (case map_of payload k of
       Some (JStr t) \<Rightarrow> if strip_text t \<noteq> [] then Some (strip_text t) else first_text payload ks
     | _ \<Rightarrow> first_text payload ks)"

definition resolve_payment_no :: "callback_request \<Rightarrow> string option" where
  "resolve_payment_no r =
    first_text (br_payload r) [''payment_no'', ''out_trade_no'', ''payment_id'', ''merchant_payment_no'']"

definition resolve_order_no :: "callback_request \<Rightarrow> string option" where
  "resolve_order_no r = first_text (br_payload r) [''order_no'', ''merchant_order_no'']"

definition resolve_external_transaction_no :: "callback_request \<Rightarrow> string option" where
  "resolve_external_transaction_no r =
    map_option (clip 128) (first_text (br_payload r)
      [''transaction_no'', ''trade_no'', ''transaction_id'', ''external_transaction_no''])"

definition headers_of :: "callback_request \<Rightarrow> callback_headers" where
  "headers_of r = \<lparr>ch_provider = br_provider r, ch_event_id = br_event_id r,
    ch_timestamp = br_timestamp r, ch_signature = br_signature r\<rparr>"

definition verified :: "env \<Rightarrow> int \<Rightarrow> callback_request \<Rightarrow> signature_verdict result" where
  "verified ev now r =
    verify_signature ev (br_raw_body r) (headers_of r) (callback_secret_for ev (br_provider r)) now"

section \<open>Settlement\<close>

definition order_deduct_key :: "string \<Rightarrow> int \<Rightarrow> string" where
  "order_deduct_key order_no item_id =
    join_colon (join_colon ''order-deduct'' order_no) (int_text item_id)"

definition deduct_call :: "order \<Rightarrow> order_item \<Rightarrow> stock_call" where
  "deduct_call ord i =
    \<lparr>sc_sku_id = oi_sku_id i, sc_quantity = oi_quantity i,
     sc_idempotency_key = order_deduct_key (o_order_no ord) (oi_id i),
     sc_warehouse_id = Some (oi_warehouse_id i), sc_reference_type = REF_ORDER_ITEM,
     sc_reference_id = Some (oi_id i), sc_operator_type = SYSTEM, sc_operator_id = None,
     sc_reason = None\<rparr>"

definition deduct_items :: "'a shop_scheme \<Rightarrow> order \<Rightarrow> order_item list \<Rightarrow> 'a shop_scheme result" where
  "deduct_items s ord items =
    foldE (\<lambda>s i. bindE (deduct s (deduct_call ord i)) (\<lambda>(_, s). ok s)) s items"

definition ensure_compensation_refund ::
  "'a shop_scheme \<Rightarrow> payment \<Rightarrow> int \<Rightarrow> int \<Rightarrow> 'a shop_scheme result" where
  "ensure_compensation_refund s p callback_id amount =
    (if list_ex (\<lambda>c. cp_payment_id c = pay_id p) (compensations s) then ok s
     else if amount > 0 then ok (s\<lparr>compensations := compensations s @
       [\<lparr>cp_id = fresh_id cp_id (compensations s), cp_merchant_id = pay_merchant_id p,
         cp_payment_id = pay_id p, cp_order_id = pay_order_id p, cp_callback_id = Some callback_id,
         cp_amount = amount, cp_status = Cmp_PENDING, cp_provider_refund_no = None,
         cp_failure_reason = None, cp_created_at = db_now s\<rparr>]\<rparr>)
     else raise (IntegrityError ''payment_compensation_refunds''))"

text \<open>The late payment of a closed order: the money is recorded and owed back.\<close>

definition late_success ::
  "'a shop_scheme \<Rightarrow> callback_request \<Rightarrow> payment_callback \<Rightarrow> payment \<Rightarrow> order \<Rightarrow> int \<Rightarrow>
   (execution \<times> 'a shop_scheme) result" where
  "late_success s r c p ord amount =
    (let p' = record_success amount (resolve_external_transaction_no r) (db_now s) p;
         ord' = touch_version (ord\<lparr>o_payment_status := PAID, o_paid_amount := amount,
           o_paid_at := Some (db_now s)\<rparr>);
         c' = mark_processed (db_now s) c in
     bindE (flush_payment s p') (\<lambda>s.
     bindE (flush_order s ord') (\<lambda>s.
     bindE (ensure_compensation_refund s p' (pc_id c) amount) (\<lambda>s.
     let s = audit_record_row s (Some (o_merchant_id ord)) None ''SYSTEM''
           ''payment.late_success_compensation_required'' ''ORDER'' (o_id ord) ''SUCCESS''
     in ok (settled_execution c' p' ord', put_callback s c')))))"

definition settled_row :: "int \<Rightarrow> order \<Rightarrow> order" where
  "settled_row now ord =
    touch_version (ord\<lparr>o_payment_status := PAID, o_paid_amount := o_payable_amount ord,
      o_paid_at := Some now, o_order_status := PROCESSING\<rparr>)"

text \<open>Steps 6 to 11.\<close>

definition settle ::
  "env \<Rightarrow> 'a shop_scheme \<Rightarrow> callback_request \<Rightarrow> payment_callback \<Rightarrow> payment \<Rightarrow> order \<Rightarrow> int \<Rightarrow>
   (execution \<times> 'a shop_scheme) result" where
  "settle ev s r c p ord amount =
    (let p' = record_success amount (resolve_external_transaction_no r) (db_now s) p;
         ord' = settled_row (db_now s) ord in
     bindE (flush_payment s p') (\<lambda>s.
     bindE (flush_order s ord') (\<lambda>s.
     let s = append_status_log s ord' (Some PENDING_PAYMENT) PROCESSING SYSTEM None
           (Some ''payment succeeded'') in
     bindE (mark_used s ord') (\<lambda>s.
     case items_for s (o_id ord) of
       [] \<Rightarrow> let c' = mark_failed (db_now s) (Some ''order has no line items'') c
             in ok (refusal Code_ORDER_AMOUNT_MISMATCH c' (Some p') (Some ord'), put_callback s c')
     | i # is \<Rightarrow>
        bindE (deduct_items s ord' (i # is)) (\<lambda>s.
        bindE (create_shell ev s ord' (i # is) (oi_warehouse_id i)) (\<lambda>(_, s).
        let s = enqueue s Payment_Settled Agg_Payment (pay_id p')
              (join_colon (br_provider r) (br_event_id r))
              (Payment_Settled_Payload (pay_payment_no p') (o_order_no ord') (pay_amount p')
                (br_provider r)) (Some (pay_merchant_id p'));
            c' = mark_processed (db_now s) c;
            s = audit_record_row (put_callback s c') (Some (o_merchant_id ord')) None ''SYSTEM''
              ''payment.settled'' ''PAYMENT'' (pay_id p') ''SUCCESS''
        in ok (settled_execution c' p' ord', s)))))))"

section \<open>The transaction body\<close>

definition settleable :: "record_status set" where
  "settleable = {Pay_INITIATED, Pay_PAYING}"

definition order_overdue :: "int \<Rightarrow> order \<Rightarrow> bool" where
  "order_overdue now ord \<longleftrightarrow> o_order_status ord = PENDING_PAYMENT \<and>
    (case o_expires_at ord of None \<Rightarrow> False | Some e \<Rightarrow> e \<le> now)"

text \<open>
  Step 5 on: an overdue order is closed first, and the rows are what that left (the session holds
  one object per row).
\<close>

definition decide_order ::
  "env \<Rightarrow> 'a shop_scheme \<Rightarrow> callback_request \<Rightarrow> payment_callback \<Rightarrow> payment \<Rightarrow> order \<Rightarrow> int \<Rightarrow>
   (execution \<times> 'a shop_scheme) result" where
  "decide_order ev s r c p0 ord0 amount =
    bindE (if order_overdue (db_now s) ord0 then close_expired_order s (o_id ord0) else ok (False, s))
      (\<lambda>(_, s).
    let p = (case get_payment s (pay_id p0) of Some p \<Rightarrow> p | None \<Rightarrow> p0);
        ord = (case get_order s (o_id ord0) of Some o1 \<Rightarrow> o1 | None \<Rightarrow> ord0) in
    if pay_status p = Pay_CLOSED \<and> o_order_status ord \<noteq> CLOSED
    then ok (refusal Code_STATE_INVALID
      (mark_failed (db_now s) (Some (state_refusal_text p)) c) (Some p) (Some ord), s)
    else if o_payment_status ord = PAID
    then let c' = mark_processed (db_now s) c
      in ok (duplicate_of (Some c') (Some p) (Some ord), put_callback s c')
    else if o_order_status ord = CLOSED then late_success s r c p ord amount
    else if o_order_status ord \<noteq> PENDING_PAYMENT
    then
      if o_order_status ord = PROCESSING
      then let c' = mark_processed (db_now s) c
        in ok (duplicate_of (Some c') (Some p) (Some ord), put_callback s c')
      else ok (refusal Code_ALREADY_PAID
        (mark_failed (db_now s) (Some (order_refusal_text ord)) c) (Some p) (Some ord), s)
    else settle ev s r c p ord amount)"

text \<open>Steps 3 and 4: the attempt under its lock, its state, its amount.\<close>

definition decide_payment ::
  "env \<Rightarrow> 'a shop_scheme \<Rightarrow> callback_request \<Rightarrow> payment_callback \<Rightarrow> string \<Rightarrow> int option \<Rightarrow>
   (execution \<times> 'a shop_scheme) result" where
  "decide_payment ev s r c payment_no amount =
    (case get_by_payment_no_for_update s payment_no of
       None \<Rightarrow> ok (refusal Code_PAYMENT_NOT_FOUND
         (mark_ignored (db_now s) (Some ''payment_no not found'') c) None None, s)
     | Some p \<Rightarrow>
        let c = c\<lparr>pc_merchant_id := Some (pay_merchant_id p), pc_order_no := Some (pay_order_no p)\<rparr> in
        if pay_status p = Pay_SUCCESS
        then let c' = mark_processed (db_now s) c
          in ok (duplicate_of (Some c') (Some p) None, put_callback s c')
        else if pay_status p \<notin> settleable \<and> pay_status p \<noteq> Pay_CLOSED
        then ok (refusal Code_STATE_INVALID
          (mark_failed (db_now s) (Some (state_refusal_text p)) c) (Some p) None, s)
        else if amount \<noteq> Some (pay_amount p)
        then ok (refusal Code_AMOUNT_MISMATCH
          (mark_failed (db_now s) (Some (amount_refusal_text amount p)) c) (Some p) None, s)
        else case get_by_order_no s (pay_order_no p) None None of
          None \<Rightarrow> ok (refusal Code_ORDER_NOT_FOUND
            (mark_failed (db_now s) (Some ''order not found'') c) (Some p) None, s)
        | Some ord \<Rightarrow> decide_order ev s r c p ord (pay_amount p))"

definition process ::
  "env \<Rightarrow> 'a shop_scheme \<Rightarrow> callback_request \<Rightarrow> (execution \<times> 'a shop_scheme) result" where
  "process ev s r =
    (case insert_received s (br_provider r) (br_event_id r) (br_event_type r) False of
       None \<Rightarrow> ok (duplicate_of None None None, s)
     | Some (c, s) \<Rightarrow>
        bindE (verified ev (db_now s) r) (\<lambda>verdict.
        if \<not> sv_valid verdict then ok (refusal Code_INVALID_SIGNATURE c None None, s)
        else
          bindE (parse_amount_minor (map_of (br_payload r) ''amount'')) (\<lambda>amount.
          let c = c\<lparr>pc_payment_no := resolve_payment_no r, pc_order_no := resolve_order_no r,
                pc_payload_snapshot := Some (filter_callback_payload (JObj (br_payload r))),
                pc_signature_valid := True, pc_process_error := None\<rparr>
          in case resolve_payment_no r of
               None \<Rightarrow> ok (refusal Code_PAYMENT_NOT_FOUND
                 (mark_ignored (db_now s) (Some ''unresolved payment_no'') c) None None, s)
             | Some payment_no \<Rightarrow> decide_payment ev s r c payment_no amount)))"

definition execute ::
  "env \<Rightarrow> 'a shop_scheme \<Rightarrow> callback_request \<Rightarrow> (execution \<times> 'a shop_scheme) result" where
  "execute ev s r =
    bindE (process ev s r) (\<lambda>(x, s').
    ok (x, if cx_uncommitted x then s else s'))"

section \<open>The endpoint\<close>

definition record_refused_signature :: "'a shop_scheme \<Rightarrow> callback_request \<Rightarrow> string \<Rightarrow> 'a shop_scheme" where
  "record_refused_signature s r reason =
    (case insert_received s (br_provider r) (br_event_id r) (br_event_type r) False of
       None \<Rightarrow> s
     | Some (c, s) \<Rightarrow>
        put_callback s (mark_failed (db_now s) (Some (''invalid signature: '' @ reason)) c))"

definition signature_reason_text :: "signature_reason \<Rightarrow> string" where
  "signature_reason_text reason =
    (case reason of
       REASON_OK \<Rightarrow> ''OK'' | MISSING_SECRET \<Rightarrow> ''MISSING_SECRET'' | MISSING_HEADER \<Rightarrow> ''MISSING_HEADER''
     | TIMESTAMP_NOT_NUMERIC \<Rightarrow> ''TIMESTAMP_NOT_NUMERIC'' | TIMESTAMP_STALE \<Rightarrow> ''TIMESTAMP_STALE''
     | SIGNATURE_MISMATCH \<Rightarrow> ''SIGNATURE_MISMATCH'')"

datatype callback_answer =
    Answer_Payment payment
  | Answer_Duplicate
  | Answer_Error exn

definition refusal_for :: "refusal_code option \<Rightarrow> exn" where
  "refusal_for code =
    AppError (Payment_Err (case code of
       Some Code_AMOUNT_MISMATCH \<Rightarrow> PaymentAmountMismatchError
     | Some Code_PAYMENT_NOT_FOUND \<Rightarrow> PaymentNotFoundError
     | Some Code_STATE_INVALID \<Rightarrow> PaymentStateInvalidError
     | Some Code_ALREADY_PAID \<Rightarrow> PaymentCallbackDuplicateError
     | _ \<Rightarrow> PaymentStateInvalidError))"

definition respond :: "execution \<Rightarrow> callback_answer" where
  "respond x =
    (if cx_replayed x \<or> cx_duplicate x then Answer_Duplicate
     else if cx_uncommitted x then Answer_Error (refusal_for (cx_error_code x))
     else case cx_payment x of
       None \<Rightarrow> Answer_Error (AppError (Payment_Err PaymentNotFoundError))
     | Some p \<Rightarrow> Answer_Payment p)"

definition max_callback_body_bytes :: nat where
  "max_callback_body_bytes = 64 * 1024"

text \<open>\<open>br_payload\<close> is what \<open>_parse_body\<close> reads from the raw body, empty when it is no JSON object.\<close>

definition receive_callback ::
  "env \<Rightarrow> 'a shop_scheme \<Rightarrow> callback_request \<Rightarrow> callback_answer \<times> 'a shop_scheme" where
  "receive_callback ev s r =
    (if length (br_raw_body r) > max_callback_body_bytes
     then (Answer_Error (AppError (Payment_Err PaymentCallbackSignatureError)), s)
     else case verified ev (db_now s) r of
       Inl e \<Rightarrow> (Answer_Error e, s)
     | Inr verdict \<Rightarrow>
        if \<not> sv_valid verdict
        then (Answer_Error (AppError (Payment_Err PaymentCallbackSignatureError)),
              record_refused_signature s r (signature_reason_text (sv_reason verdict)))
        else case execute ev s r of
          Inl e \<Rightarrow> (Answer_Error e, s)
        | Inr (x, s') \<Rightarrow> (respond x, s'))"

end
