(* ===== verification/Payment_Compensation.thy ===== *)
theory Payment_Compensation
  imports Payment_Workflow
begin

text \<open>
  \<open>app/modules/payment/compensation.py\<close>: the refund of a payment that arrived after its order was
  closed. The provider is a parameter; the intent is dispatched in one transaction and finished in
  another, so the two halves are separate operations and other transactions may run between them.
\<close>

section \<open>Intents\<close>

definition get_intent :: "'a shop_scheme \<Rightarrow> int \<Rightarrow> compensation_refund option" where
  "get_intent s cid = row_of cp_id (compensations s) cid"

definition put_intent :: "'a shop_scheme \<Rightarrow> compensation_refund \<Rightarrow> 'a shop_scheme" where
  "put_intent s c = s\<lparr>compensations := put_row cp_id c (compensations s)\<rparr>"

definition list_compensation_refunds :: "'a shop_scheme \<Rightarrow> nat \<Rightarrow> compensation_refund list" where
  "list_compensation_refunds s limit =
    take limit (sort_key cp_created_at (sort_key cp_id
      (filter (\<lambda>c. cp_status c \<in> {Cmp_PENDING, Cmp_PROCESSING}) (compensations s))))"

definition needs_reconciliation :: "string \<Rightarrow> compensation_refund \<Rightarrow> compensation_refund" where
  "needs_reconciliation reason c =
    c\<lparr>cp_status := Cmp_RECONCILIATION_REQUIRED, cp_failure_reason := Some reason\<rparr>"

definition audit_intent :: "'a shop_scheme \<Rightarrow> order \<Rightarrow> string \<Rightarrow> compensation_refund \<Rightarrow> string \<Rightarrow> 'a shop_scheme" where
  "audit_intent s ord action c outcome =
    audit_record_row s (Some (o_merchant_id ord)) None ''SYSTEM'' action
      ''PAYMENT_COMPENSATION_REFUND'' (cp_id c) outcome"

section \<open>The provider\<close>

text \<open>
  What \<open>sender(payment, amount, idempotency_key)\<close> does: a refund reference, one of the exceptions
  \<open>RuntimeError\<close>, \<open>ValueError\<close> and \<open>OSError\<close> by its class name, or any other exception.
\<close>

datatype sender_outcome =
    Sent string
  | Failed_With string
  | Crashed string

type_synonym refund_sender = "payment \<Rightarrow> int \<Rightarrow> string \<Rightarrow> sender_outcome"

definition compensation_key :: "int \<Rightarrow> string" where
  "compensation_key cid = join_colon ''late-payment-refund'' (int_text cid)"

section \<open>The two transactions\<close>

record compensation_result =
  cw_refund :: compensation_refund
  cw_replayed :: bool

datatype dispatch =
    Done compensation_result
  | Dispatch compensation_refund payment order

definition begin_compensation ::
  "'a shop_scheme \<Rightarrow> int \<Rightarrow> (dispatch \<times> 'a shop_scheme) result" where
  "begin_compensation s cid =
    (case get_intent s cid of
       None \<Rightarrow> raise (PythonError ''ValueError'')
     | Some c \<Rightarrow>
        if cp_status c \<in> {Cmp_SUCCEEDED, Cmp_RECONCILIATION_REQUIRED}
        then ok (Done \<lparr>cw_refund = c, cw_replayed = True\<rparr>, s)
        else case (get_payment s (cp_payment_id c), get_order s (cp_order_id c)) of
          (Some p, Some ord) \<Rightarrow>
            if pay_status p \<notin> {Pay_SUCCESS, Pay_PARTIAL_REFUNDED} \<or> payment_refundable p < cp_amount c
            then let c' = needs_reconciliation ''payment is not refundable for the intent amount'' c
              in ok (Done \<lparr>cw_refund = c', cw_replayed = False\<rparr>, put_intent s c')
            else let c' = needs_reconciliation ''provider dispatch outcome not yet confirmed'' c
              in ok (Dispatch c' p ord, audit_intent (put_intent s c') ord
                   ''payment.compensation_refund.dispatch_started'' c' ''SUCCESS'')
        | _ \<Rightarrow> let c' = needs_reconciliation ''payment or order disappeared'' c
            in ok (Done \<lparr>cw_refund = c', cw_replayed = False\<rparr>, put_intent s c'))"

text \<open>\<open>None\<close> is a deployment without a sender; an empty reference is a \<open>ValueError\<close>.\<close>

definition ask_provider :: "refund_sender option \<Rightarrow> payment \<Rightarrow> int \<Rightarrow> int \<Rightarrow> sender_outcome" where
  "ask_provider sender p amount cid =
    (case sender of
       None \<Rightarrow> Failed_With ''RuntimeError''
     | Some send \<Rightarrow>
       (case send p amount (compensation_key cid) of
          Sent ref \<Rightarrow> if ref = [] then Failed_With ''ValueError'' else Sent ref
        | r \<Rightarrow> r))"

definition fail_compensation ::
  "'a shop_scheme \<Rightarrow> compensation_refund \<Rightarrow> order \<Rightarrow> string \<Rightarrow> compensation_result \<times> 'a shop_scheme" where
  "fail_compensation s c ord error =
    (let c' = needs_reconciliation (''provider dispatch failed: '' @ error) c
     in (\<lparr>cw_refund = c', cw_replayed = False\<rparr>, audit_intent (put_intent s c') ord
          ''payment.compensation_refund.failed'' c' ''FAILURE''))"

definition finish_compensation ::
  "'a shop_scheme \<Rightarrow> int \<Rightarrow> string \<Rightarrow> (compensation_result \<times> 'a shop_scheme) result" where
  "finish_compensation s cid ref =
    (case get_intent s cid of
       None \<Rightarrow> raise (PythonError ''ValueError'')
     | Some c \<Rightarrow>
       (case (get_payment s (cp_payment_id c), get_order s (cp_order_id c)) of
          (Some p, Some ord) \<Rightarrow>
            let total = pay_refunded_amount p + cp_amount c;
                p' = p\<lparr>pay_refunded_amount := total,
                       pay_status := (if total = pay_paid_amount p then Pay_REFUNDED
                         else Pay_PARTIAL_REFUNDED)\<rparr>;
                ord' = ord\<lparr>o_refunded_amount := o_refunded_amount ord + cp_amount c,
                           o_payment_status := REFUNDED\<rparr>;
                c' = c\<lparr>cp_status := Cmp_SUCCEEDED, cp_provider_refund_no := Some ref,
                       cp_failure_reason := None\<rparr>
            in bindE (flush_payment s p') (\<lambda>s.
               bindE (flush_order s ord') (\<lambda>s.
               ok (\<lparr>cw_refund = c', cw_replayed = False\<rparr>, audit_intent (put_intent s c') ord'
                 ''payment.compensation_refund.succeeded'' c' ''SUCCESS'')))
        | _ \<Rightarrow> raise (PythonError ''ValueError'')))"

text \<open>
  \<open>execute\<close>, when nothing runs in between. The answer comes with the tables in every case: an
  exception after the first commit leaves the intent waiting for reconciliation.
\<close>

definition execute_compensation ::
  "'a shop_scheme \<Rightarrow> int \<Rightarrow> refund_sender option \<Rightarrow> compensation_result result \<times> 'a shop_scheme" where
  "execute_compensation s cid sender =
    (case begin_compensation s cid of
       Inl e \<Rightarrow> (Inl e, s)
     | Inr (Done r, s) \<Rightarrow> (ok r, s)
     | Inr (Dispatch c p ord, s) \<Rightarrow>
       (case ask_provider sender p (cp_amount c) (cp_id c) of
          Crashed e \<Rightarrow> (raise (PythonError e), s)
        | Failed_With e \<Rightarrow> (let (r, s) = fail_compensation s c ord e in (ok r, s))
        | Sent ref \<Rightarrow>
          (case finish_compensation s cid ref of
             Inl e \<Rightarrow> (Inl e, s)
           | Inr (r, s) \<Rightarrow> (ok r, s))))"

fun run_intents ::
  "'a shop_scheme \<Rightarrow> int list \<Rightarrow> refund_sender option \<Rightarrow> nat \<Rightarrow> nat result \<times> 'a shop_scheme" where
  "run_intents s [] sender n = (ok n, s)"
| "run_intents s (i # is) sender n =
    (case execute_compensation s i sender of
       (Inl e, s) \<Rightarrow> (Inl e, s)
     | (Inr r, s) \<Rightarrow> run_intents s is sender
         (if cp_status (cw_refund r) = Cmp_SUCCEEDED \<and> \<not> cw_replayed r then Suc n else n))"

definition run_compensation_cycle ::
  "'a shop_scheme \<Rightarrow> nat \<Rightarrow> refund_sender option \<Rightarrow> nat result \<times> 'a shop_scheme" where
  "run_compensation_cycle s limit sender =
    (if limit = 0 then (raise (PythonError ''ValueError''), s)
     else run_intents s (map cp_id (list_compensation_refunds s limit)) sender 0)"

end
