(* ===== verification/Shop_Frames.thy ===== *)
theory Shop_Frames
  imports Payment_Compensation Shop_Facts
begin

text \<open>
  Which tables an operation can touch. \<open>stock_only\<close> and \<open>coupons_only\<close> say that a call changed the
  stock tables or the coupon tables and nothing else; the composed operations are then known up to
  the tables they name.
\<close>

section \<open>Stock\<close>

definition stock_only :: "'a stock_db_scheme \<Rightarrow> 'a stock_db_scheme \<Rightarrow> bool" where
  "stock_only s s' \<longleftrightarrow> (\<exists>is ms. s' = s\<lparr>inventories := is, movements := ms\<rparr>)"

lemma stock_onlyI: "s\<lparr>inventories := inventories s', movements := movements s'\<rparr> = s' \<Longrightarrow> stock_only s s'"
  unfolding stock_only_def by metis

lemma stock_only_refl [simp]: "stock_only s s"
  by (rule stock_onlyI) simp

lemma stock_only_trans: "stock_only s t \<Longrightarrow> stock_only t u \<Longrightarrow> stock_only s u"
  by (rule stock_onlyI) (auto simp: stock_only_def)

lemma append_ledger_stock_only:
  "append_ledger db before after t c = ok (mid, i, db') \<Longrightarrow> stock_only db db'"
  by (rule stock_onlyI)
    (auto simp: append_ledger_def flush_movement_def put_inventory_def Let_def
      split: sum.splits if_splits)

lemma keyed_ops_stock_only:
  "reserve s c = ok (r, s') \<Longrightarrow> stock_only s s'"
  "release s c = ok (r, s') \<Longrightarrow> stock_only s s'"
  "deduct s c = ok (r, s') \<Longrightarrow> stock_only s s'"
  "return_in s c = ok (r, s') \<Longrightarrow> stock_only s s'"
  by (auto simp: reserve_def release_def deduct_def return_in_def rsimps Let_def
      split: option.splits dest: append_ledger_stock_only)

lemma foldE_stock_only:
  assumes "foldE f s xs = ok s'" and "\<And>s x t. f s x = ok t \<Longrightarrow> stock_only s t"
  shows "stock_only s s'"
  using assms(1) by (rule foldE_invariant [where P = "stock_only s"])
    (auto intro: stock_only_trans assms(2))

lemma release_reserved_stock_only: "release_reserved_stock s op reason ord = ok s' \<Longrightarrow> stock_only s s'"
  unfolding release_reserved_stock_def
  by (erule foldE_stock_only) (auto simp: rsimps dest: keyed_ops_stock_only)

lemma deduct_items_only: "deduct_items s ord items = ok s' \<Longrightarrow> stock_only s s'"
  unfolding deduct_items_def
  by (erule foldE_stock_only) (auto simp: rsimps dest: keyed_ops_stock_only)

section \<open>Coupons\<close>

definition coupons_only :: "'a shop_scheme \<Rightarrow> 'a shop_scheme \<Rightarrow> bool" where
  "coupons_only s s' \<longleftrightarrow> (\<exists>cs us. s' = s\<lparr>user_coupons := cs, coupon_usage := us\<rparr>)"

lemma coupons_onlyI:
  "s\<lparr>user_coupons := user_coupons s', coupon_usage := coupon_usage s'\<rparr> = s' \<Longrightarrow> coupons_only s s'"
  unfolding coupons_only_def by metis

lemma coupons_only_refl [simp]: "coupons_only s s"
  by (rule coupons_onlyI) simp

lemma rewrite_coupons_only:
  "bindE (flush_coupon s c) (\<lambda>s. add_usage s ord c' a) = ok s' \<Longrightarrow> coupons_only s s'"
  by (rule coupons_onlyI) (auto simp: rsimps flush_coupon_def add_usage_def Let_def split: if_splits)

lemma coupon_ops_only:
  "lock_for_order s c ord = ok s' \<Longrightarrow> coupons_only s s'"
  "mark_used s ord = ok s' \<Longrightarrow> coupons_only s s'"
  "release_coupon s ord = ok s' \<Longrightarrow> coupons_only s s'"
  by (auto simp: lock_for_order_def mark_used_def release_coupon_def require_eq_Inr
      split: option.splits if_splits intro: rewrite_coupons_only)

section \<open>Rows written back\<close>

lemma flush_order_ok:
  "flush_order s ord = ok s' \<Longrightarrow>
    s' = s\<lparr>orders := put_row o_id ord (orders s)\<rparr> \<and> order_checks ord"
  by (auto simp: flush_order_def split: if_splits)

lemma flush_payment_ok:
  "flush_payment s p = ok s' \<Longrightarrow>
    s' = s\<lparr>payments := put_row pay_id p (payments s)\<rparr> \<and> payment_checks p"
  by (auto simp: flush_payment_def split: if_splits)

lemma add_package_only:
  "add_package ev s draft = ok (f, s') \<Longrightarrow> \<exists>fs. s' = s\<lparr>fulfillments := fs\<rparr>"
  by (auto simp: add_package_def flush_package_def rsimps Let_def split: if_splits)

lemma create_shell_only:
  "create_shell ev s ord items wid = ok (f, s') \<Longrightarrow> \<exists>fs. s' = s\<lparr>fulfillments := fs\<rparr>"
  by (auto simp: create_shell_def rsimps split: option.splits dest: add_package_only
      intro: exI [of _ "fulfillments s"])

lemma enqueue_only: "\<exists>ms. enqueue s event aggregate aid key payload merchant = s\<lparr>outbox := ms\<rparr>"
  by (auto simp: enqueue_def intro: exI [of _ "outbox s"])

lemma close_attempts_payments: "\<exists>ps. close_attempts s attempts = s\<lparr>payments := ps\<rparr>"
  by (auto simp: close_attempts_def)

section \<open>Closing an expired order\<close>

definition closing_only :: "'a shop_scheme \<Rightarrow> 'a shop_scheme \<Rightarrow> bool" where
  "closing_only s s' \<longleftrightarrow> (\<exists>os ps ls is ms cs us. s' = s\<lparr>orders := os, payments := ps, status_logs := ls,
    inventories := is, movements := ms, user_coupons := cs, coupon_usage := us\<rparr>)"

lemma closing_onlyI:
  "s\<lparr>orders := orders s', payments := payments s', status_logs := status_logs s',
    inventories := inventories s', movements := movements s', user_coupons := user_coupons s',
    coupon_usage := coupon_usage s'\<rparr> = s' \<Longrightarrow> closing_only s s'"
  unfolding closing_only_def by metis

lemma close_expired_order_only: "close_expired_order s i = ok (b, s') \<Longrightarrow> closing_only s s'"
  by (rule closing_onlyI)
    (auto simp: close_expired_order_def rsimps Let_def append_status_log_def close_attempts_def
      stock_only_def coupons_only_def split: option.splits if_splits
      dest!: coupon_ops_only release_reserved_stock_only flush_order_ok)

lemma close_expired_order_False: "close_expired_order s i = ok (False, s') \<Longrightarrow> s' = s"
  by (auto simp: close_expired_order_def bindE_eq_Inr Let_def split: option.splits if_splits)

end
