(* ===== verification/Payment_Properties.thy ===== *)
theory Payment_Properties
  imports Shop_Frames Shop_Sample
begin

text \<open>
  What a provider's callback can do: an event is claimed once and for all, money is recorded only for
  a verified delivery of the payment's own amount, what is stored of a body holds no value of a
  sensitive key, and a compensation reaches the provider at most once.
\<close>

section \<open>Events\<close>

definition event_of :: "payment_callback \<Rightarrow> string \<times> string" where
  "event_of c = (pc_provider c, pc_event_id c)"

definition events :: "'a shop_scheme \<Rightarrow> (string \<times> string) list" where
  "events s = map event_of (payment_callbacks s)"

lemma get_by_event_None: "get_by_event s provider event = None \<longleftrightarrow> (provider, event) \<notin> set (events s)"
  by (auto simp: get_by_event_def find_None_iff events_def event_of_def image_iff)

lemma insert_received_None: "insert_received s provider event kind valid = None \<longleftrightarrow> (provider, event) \<in> set (events s)"
proof -
  have "insert_received s provider event kind valid = None \<longleftrightarrow> get_by_event s provider event \<noteq> None"
    by (simp add: insert_received_def Let_def split: option.split)
  then show ?thesis by (simp add: get_by_event_None)
qed

text \<open>The row of a claim: no other row has its id.\<close>

definition claimed :: "'a shop_scheme \<Rightarrow> payment_callback \<Rightarrow> bool" where
  "claimed s c \<longleftrightarrow> (\<forall>d \<in> set (payment_callbacks s). pc_id d = pc_id c \<longrightarrow> event_of d = event_of c)"

lemma insert_received_Some:
  assumes "insert_received s provider event kind valid = Some (c, s')"
  shows "events s' = events s @ [(provider, event)]" and "claimed s' c"
    and "event_of c = (provider, event)" and "s' = s\<lparr>payment_callbacks := payment_callbacks s @ [c]\<rparr>"
  using assms fresh_id_greater [of _ "payment_callbacks s" pc_id]
  by (fastforce simp: insert_received_def events_def event_of_def claimed_def Let_def split: option.splits)+

lemma put_callback_events:
  "claimed s c \<Longrightarrow> pc_id c' = pc_id c \<Longrightarrow> event_of c' = event_of c \<Longrightarrow>
    events (put_callback s c') = events s \<and> claimed (put_callback s c') c"
  by (auto simp: claimed_def events_def put_callback_def put_row_def event_of_def)

lemma marks_event [simp]:
  "event_of (mark_processed now c) = event_of c" "pc_id (mark_processed now c) = pc_id c"
  "event_of (mark_failed now e c) = event_of c" "pc_id (mark_failed now e c) = pc_id c"
  "event_of (mark_ignored now e c) = event_of c" "pc_id (mark_ignored now e c) = pc_id c"
  by (simp_all add: mark_processed_def mark_failed_def mark_ignored_def event_of_def)

lemma same_rows_events:
  "payment_callbacks s' = payment_callbacks s \<Longrightarrow> events s' = events s \<and> (claimed s' c \<longleftrightarrow> claimed s c)"
  by (simp add: events_def claimed_def)

section \<open>What the branches of the workflow leave\<close>

text \<open>The tables a settled payment leaves, and the rows it wrote.\<close>

definition recorded_as :: "'a shop_scheme \<Rightarrow> payment_callback \<Rightarrow> payment \<Rightarrow> order \<Rightarrow> 'a shop_scheme \<Rightarrow> bool" where
  "recorded_as s c p ord s' \<longleftrightarrow>
    payments s' = put_row pay_id p (payments s) \<and> orders s' = put_row o_id ord (orders s) \<and>
    payment_callbacks s' = put_row pc_id c (payment_callbacks s) \<and> payment_checks p \<and> order_checks ord"

lemma settle_cases:
  assumes "settle ev s r c p ord amount = ok (x, s')"
  obtains (no_items) c' q o' where "x = refusal Code_ORDER_AMOUNT_MISMATCH c' (Some q) (Some o')"
      and "payment_callbacks s' = put_row pc_id c' (payment_callbacks s)" and "pc_id c' = pc_id c"
      and "event_of c' = event_of c"
  | (settled) "x = settled_execution (mark_processed (db_now s) c)
        (record_success amount (resolve_external_transaction_no r) (db_now s) p) (settled_row (db_now s) ord)"
      and "recorded_as s (mark_processed (db_now s) c)
        (record_success amount (resolve_external_transaction_no r) (db_now s) p)
        (settled_row (db_now s) ord) s'"
proof -
  let ?p = "record_success amount (resolve_external_transaction_no r) (db_now s) p"
  let ?o = "settled_row (db_now s) ord"
  from assms obtain s1 s2 s3 where s1: "flush_payment s ?p = ok s1" and s2: "flush_order s1 ?o = ok s2"
    and s3: "mark_used (append_status_log s2 ?o (Some PENDING_PAYMENT) PROCESSING SYSTEM None
      (Some ''payment succeeded'')) ?o = ok s3"
    and rest: "(case items_for s3 (o_id ord) of
       [] \<Rightarrow> let c' = mark_failed (db_now s3) (Some ''order has no line items'') c
             in ok (refusal Code_ORDER_AMOUNT_MISMATCH c' (Some ?p) (Some ?o), put_callback s3 c')
     | i # is \<Rightarrow>
        bindE (deduct_items s3 ?o (i # is)) (\<lambda>s.
        bindE (create_shell ev s ?o (i # is) (oi_warehouse_id i)) (\<lambda>(_, s).
        let s = enqueue s Payment_Settled Agg_Payment (pay_id ?p)
              (join_colon (br_provider r) (br_event_id r))
              (Payment_Settled_Payload (pay_payment_no ?p) (o_order_no ?o) (pay_amount ?p)
                (br_provider r)) (Some (pay_merchant_id ?p));
            c' = mark_processed (db_now s) c;
            s = audit_record_row (put_callback s c') (Some (o_merchant_id ?o)) None ''SYSTEM''
              ''payment.settled'' ''PAYMENT'' (pay_id ?p) ''SUCCESS''
        in ok (settled_execution c' ?p ?o, s)))) = ok (x, s')"
    by (auto simp: settle_def rsimps Let_def)
  note keep = s1 [THEN flush_payment_ok] s2 [THEN flush_order_ok] s3 [THEN coupon_ops_only(2)]
  have s3': "payments s3 = put_row pay_id ?p (payments s)" "orders s3 = put_row o_id ?o (orders s)"
    "payment_callbacks s3 = payment_callbacks s" "db_now s3 = db_now s"
    using keep by (auto simp: coupons_only_def append_status_log_def)
  show thesis
  proof (cases "items_for s3 (o_id ord)")
    case Nil
    with rest s3' show thesis
      by (intro no_items [of "mark_failed (db_now s) (Some ''order has no line items'') c" ?p ?o])
        (auto simp: put_callback_def Let_def)
  next
    case (Cons i "is")
    with rest obtain s4 f s5 where s4: "deduct_items s3 ?o (i # is) = ok s4"
      and s5: "create_shell ev s4 ?o (i # is) (oi_warehouse_id i) = ok (f, s5)"
      and s': "(let s = enqueue s5 Payment_Settled Agg_Payment (pay_id ?p)
              (join_colon (br_provider r) (br_event_id r))
              (Payment_Settled_Payload (pay_payment_no ?p) (o_order_no ?o) (pay_amount ?p)
                (br_provider r)) (Some (pay_merchant_id ?p));
            c' = mark_processed (db_now s) c;
            s = audit_record_row (put_callback s c') (Some (o_merchant_id ?o)) None ''SYSTEM''
              ''payment.settled'' ''PAYMENT'' (pay_id ?p) ''SUCCESS''
        in (settled_execution c' ?p ?o, s)) = (x, s')"
      by (auto simp: rsimps Let_def)
    obtain ms where ms: "enqueue s5 Payment_Settled Agg_Payment (pay_id ?p)
              (join_colon (br_provider r) (br_event_id r))
              (Payment_Settled_Payload (pay_payment_no ?p) (o_order_no ?o) (pay_amount ?p)
                (br_provider r)) (Some (pay_merchant_id ?p)) = s5\<lparr>outbox := ms\<rparr>"
      using enqueue_only by blast
    have "x = settled_execution (mark_processed (db_now s) c) ?p ?o \<and>
        payments s' = payments s3 \<and> orders s' = orders s3 \<and>
        payment_callbacks s' = put_row pc_id (mark_processed (db_now s) c) (payment_callbacks s)"
      using s' deduct_items_only [OF s4] create_shell_only [OF s5] s3'(3,4)
      by (auto simp: ms Let_def put_callback_def audit_record_row_def stock_only_def)
    with s3' keep show thesis by (intro settled) (auto simp: recorded_as_def)
  qed
qed

lemma late_success_cases:
  assumes "late_success s r c p ord amount = ok (x, s')"
  obtains p' ord' where "x = settled_execution (mark_processed (db_now s) c) p' ord'"
    and "p' = record_success amount (resolve_external_transaction_no r) (db_now s) p"
    and "ord' = touch_version (ord\<lparr>o_payment_status := PAID, o_paid_amount := amount,
      o_paid_at := Some (db_now s)\<rparr>)"
    and "recorded_as s (mark_processed (db_now s) c) p' ord' s'"
    and "\<exists>k \<in> set (compensations s'). cp_payment_id k = pay_id p \<and>
      (k \<in> set (compensations s) \<or> cp_status k = Cmp_PENDING \<and> cp_amount k = amount)"
proof -
  let ?p = "record_success amount (resolve_external_transaction_no r) (db_now s) p"
  let ?o = "touch_version (ord\<lparr>o_payment_status := PAID, o_paid_amount := amount,
      o_paid_at := Some (db_now s)\<rparr>)"
  from assms obtain s1 s2 s3 where s1: "flush_payment s ?p = ok s1" and s2: "flush_order s1 ?o = ok s2"
    and s3: "ensure_compensation_refund s2 ?p (pc_id c) amount = ok s3"
    and x: "x = settled_execution (mark_processed (db_now s) c) ?p ?o"
    and s': "s' = put_callback (audit_record_row s3 (Some (o_merchant_id ord)) None ''SYSTEM''
           ''payment.late_success_compensation_required'' ''ORDER'' (o_id ord) ''SUCCESS'')
           (mark_processed (db_now s) c)"
    by (auto simp: late_success_def rsimps Let_def)
  note keep = s1 [THEN flush_payment_ok] s2 [THEN flush_order_ok]
  have "compensations s2 = compensations s" using keep by simp
  then have "\<exists>cs. s3 = s2\<lparr>compensations := compensations s @ cs\<rparr> \<and>
      (\<exists>k \<in> set (compensations s @ cs). cp_payment_id k = pay_id p \<and>
      (k \<in> set (compensations s) \<or> cp_status k = Cmp_PENDING \<and> cp_amount k = amount))"
    using s3 by (auto simp: ensure_compensation_refund_def record_success_def list_ex_iff
        split: if_splits intro: exI [of _ "[]"])
  then show thesis
    using x s' keep by (intro that) (auto simp: recorded_as_def put_callback_def audit_record_row_def)
qed

section \<open>Closing an overdue order leaves the money alone\<close>

definition pay_key :: "payment \<Rightarrow> int \<times> int \<times> string \<times> string" where
  "pay_key p = (pay_id p, pay_amount p, pay_payment_no p, pay_order_no p)"

lemma pay_key_id: "pay_key p = pay_key q \<Longrightarrow> pay_id p = pay_id q"
  by (simp add: pay_key_def)

lemma close_attempt_same [simp]:
  "pay_id (close_attempt now p) = pay_id p" "pay_key (close_attempt now p) = pay_key p"
  by (simp_all add: close_attempt_def pay_key_def)

lemma close_attempt_success: "pay_status (close_attempt now p) = Pay_SUCCESS \<Longrightarrow> close_attempt now p = p"
  by (cases "pay_status p \<in> {Pay_INITIATED, Pay_PAYING}") (simp_all add: close_attempt_def)

definition closed_rows :: "payment list \<Rightarrow> payment list \<Rightarrow> bool" where
  "closed_rows ps qs \<longleftrightarrow> map pay_key qs = map pay_key ps \<and>
    (\<forall>q \<in> set qs. pay_status q = Pay_SUCCESS \<longrightarrow> q \<in> set ps)"

lemma closed_rows_refl [simp]: "closed_rows ps ps"
  by (simp add: closed_rows_def)

lemma closed_rows_ids: "closed_rows ps qs \<Longrightarrow> map pay_id qs = map pay_id ps"
  unfolding closed_rows_def by (drule conjunct1, drule arg_cong [of _ _ "map fst"]) (simp add: pay_key_def comp_def)

lemma fold_close_rows:
  assumes "distinct (map pay_id ps)" and "set batch \<subseteq> set ps"
  shows "closed_rows ps (fold (\<lambda>p. put_row pay_id (close_attempt now p)) batch ps)"
proof -
  have "closed_rows ps (fold (\<lambda>p. put_row pay_id (close_attempt now p)) batch qs)"
    if "closed_rows ps qs" "set batch \<subseteq> set ps" for qs
    using that
  proof (induction batch arbitrary: qs)
    case (Cons b batch)
    let ?qs = "put_row pay_id (close_attempt now b) qs"
    have ids: "map pay_id qs = map pay_id ps" by (rule closed_rows_ids [OF Cons.prems(1)])
    have same: "pay_key q = pay_key b" if "q \<in> set qs" "pay_id q = pay_id b" for q
    proof -
      from that(1) Cons.prems(1) obtain p where p: "p \<in> set ps" "pay_key p = pay_key q"
        unfolding closed_rows_def by (metis image_iff list.set_map)
      then have "pay_id p = pay_id b" using that(2) by (simp add: pay_key_def)
      with p assms(1) Cons.prems(2) have "p = b" by (auto simp: distinct_map dest: inj_onD)
      with p show ?thesis by simp
    qed
    have "map pay_key ?qs = map pay_key qs"
      using same by (auto simp: put_row_def)
    moreover have "\<forall>q \<in> set ?qs. pay_status q = Pay_SUCCESS \<longrightarrow> q \<in> set ps"
      using Cons.prems close_attempt_success [of now b] by (auto simp: closed_rows_def put_row_def)
    ultimately have "closed_rows ps ?qs" using Cons.prems(1) by (simp add: closed_rows_def)
    then show ?case using Cons by simp
  qed simp
  then show ?thesis using assms(2) by simp
qed

definition order_key :: "order \<Rightarrow> int \<times> string" where
  "order_key ord = (o_id ord, o_order_no ord)"

lemma order_key_id: "order_key a = order_key b \<Longrightarrow> o_id a = o_id b"
  by (simp add: order_key_def)

lemma closed_row_key [simp]: "o_id (closed_row now ord) = o_id ord" "order_key (closed_row now ord) = order_key ord"
  by (simp_all add: closed_row_def order_key_def)

lemma close_expired_order_rows:
  assumes "close_expired_order s i = ok (b, s')" and "distinct (map pay_id (payments s))"
    and "distinct (map o_id (orders s))"
  shows "closed_rows (payments s) (payments s')" and "map order_key (orders s') = map order_key (orders s)"
proof -
  have att: "set (attempts_of s i) \<subseteq> set (payments s)" by (auto simp: attempts_of_def)
  have "s' = s \<or> (payments s' = fold (\<lambda>p. put_row pay_id (close_attempt (db_now s) p)) (attempts_of s i) (payments s)
      \<and> (\<exists>ord. get_order s i = Some ord \<and> orders s' = put_row o_id (closed_row (db_now s) ord) (orders s)))"
    using assms(1)
    by (auto simp: close_expired_order_def rsimps Let_def append_status_log_def close_attempts_def
        stock_only_def coupons_only_def split: option.splits if_splits
        dest!: coupon_ops_only release_reserved_stock_only flush_order_ok)
  then show "closed_rows (payments s) (payments s')" and "map order_key (orders s') = map order_key (orders s)"
    using fold_close_rows [OF assms(2) att] map_put_row_same [OF assms(3) _ closed_row_key(1), where f = order_key]
    by (auto simp: get_order_def dest!: row_of_Some)
qed

section \<open>The transaction body\<close>

text \<open>What \<open>decide_order\<close> does, after the closing that left \<open>s1\<close>.\<close>

lemma decide_order_cases:
  assumes "decide_order ev s r c p0 ord0 amount = ok (x, s')"
  obtains (refused) "cx_uncommitted x"
  | (duplicate) s1 p ord where "s1 = s \<or> close_expired_order s (o_id ord0) = ok (True, s1)"
      and "x = duplicate_of (Some (mark_processed (db_now s1) c)) (Some p) (Some ord)"
      and "s' = put_callback s1 (mark_processed (db_now s1) c)"
  | (paid) s1 p ord p' ord' where "s1 = s \<or> close_expired_order s (o_id ord0) = ok (True, s1)"
      and "get_payment s1 (pay_id p0) = Some p \<or> get_payment s1 (pay_id p0) = None \<and> p = p0"
      and "get_order s1 (o_id ord0) = Some ord \<or> get_order s1 (o_id ord0) = None \<and> ord = ord0"
      and "x = settled_execution (mark_processed (db_now s1) c) p' ord'"
      and "p' = record_success amount (resolve_external_transaction_no r) (db_now s1) p"
      and "o_id ord' = o_id ord" and "o_order_no ord' = o_order_no ord" and "o_payment_status ord' = PAID"
      and "recorded_as s1 (mark_processed (db_now s1) c) p' ord' s'"
      and "o_order_status ord' = PROCESSING \<and> o_order_status ord = PENDING_PAYMENT \<and>
          o_paid_amount ord' = o_payable_amount ord \<or>
        o_order_status ord' = CLOSED \<and> o_paid_amount ord' = amount \<and>
        (\<exists>k \<in> set (compensations s'). cp_payment_id k = pay_id p \<and>
          (k \<in> set (compensations s1) \<or> cp_status k = Cmp_PENDING \<and> cp_amount k = amount))"
proof -
  from assms obtain b s1 where s1: "(if order_overdue (db_now s) ord0 then close_expired_order s (o_id ord0)
      else ok (False, s)) = ok (b, s1)"
    by (auto simp: decide_order_def rsimps)
  define p where "p = (case get_payment s1 (pay_id p0) of Some p \<Rightarrow> p | None \<Rightarrow> p0)"
  define ord where "ord = (case get_order s1 (o_id ord0) of Some o1 \<Rightarrow> o1 | None \<Rightarrow> ord0)"
  have from_s: "s1 = s \<or> close_expired_order s (o_id ord0) = ok (True, s1)"
    using s1 by (cases b) (auto dest: close_expired_order_False split: if_splits)
  have rows: "get_payment s1 (pay_id p0) = Some p \<or> get_payment s1 (pay_id p0) = None \<and> p = p0"
    "get_order s1 (o_id ord0) = Some ord \<or> get_order s1 (o_id ord0) = None \<and> ord = ord0"
    by (auto simp: p_def ord_def split: option.splits)
  note body = assms [unfolded decide_order_def s1 bindE_Inr prod.case Let_def, folded p_def ord_def]
  consider "cx_uncommitted x" | "x = duplicate_of (Some (mark_processed (db_now s1) c)) (Some p) (Some ord)"
      and "s' = put_callback s1 (mark_processed (db_now s1) c)"
    | "late_success s1 r c p ord amount = ok (x, s')" and "o_order_status ord = CLOSED"
    | "settle ev s1 r c p ord amount = ok (x, s')" and "o_order_status ord = PENDING_PAYMENT"
  proof -
    consider (a) "pay_status p = Pay_CLOSED \<and> o_order_status ord \<noteq> CLOSED"
      | (b) "\<not> (pay_status p = Pay_CLOSED \<and> o_order_status ord \<noteq> CLOSED)" and "o_payment_status ord = PAID"
      | (c) "o_payment_status ord \<noteq> PAID" and "o_order_status ord = CLOSED"
      | (d) "\<not> (pay_status p = Pay_CLOSED \<and> o_order_status ord \<noteq> CLOSED)" and "o_payment_status ord \<noteq> PAID"
          and "o_order_status ord = PENDING_PAYMENT"
      | (e) "\<not> (pay_status p = Pay_CLOSED \<and> o_order_status ord \<noteq> CLOSED)" and "o_payment_status ord \<noteq> PAID"
          and "o_order_status ord \<noteq> CLOSED" and "o_order_status ord \<noteq> PENDING_PAYMENT"
      by blast
    then show thesis
    proof cases
      case a
      with body have "cx_uncommitted x" by (simp add: refusal_def prod_eq_iff) (metis execution.select_convs(7))
      then show thesis by (rule that(1))
    next
      case b
      with body show thesis by (intro that(2)) simp_all
    next
      case c
      with body show thesis by (intro that(3)) simp_all
    next
      case d
      with body show thesis by (intro that(4)) simp_all
    next
      case e
      show thesis
      proof (cases "o_order_status ord = PROCESSING")
        case True
        with e body show thesis by (intro that(2)) simp_all
      next
        case False
        with e body have "cx_uncommitted x"
          by (simp add: refusal_def) (metis execution.select_convs(7))
        then show thesis by (rule that(1))
      qed
    qed
  qed
  then show thesis
  proof cases
    case 3
    show thesis
      by (rule late_success_cases [OF 3(1)])
        (rule paid [OF from_s rows], auto simp: touch_version_def 3(2))
  next
    case 4
    show thesis
    proof (cases rule: settle_cases [OF 4(1)])
      case 1
      then show thesis by (intro refused) (simp add: refusal_def)
    next
      case 2
      show thesis
        by (rule paid [OF from_s rows 2(1) refl _ _ _ 2(2)]) (auto simp: settled_row_def touch_version_def 4(2))
    qed
  qed (use refused duplicate from_s in blast)+
qed

lemma decide_payment_cases:
  assumes "decide_payment ev s r c no amount = ok (x, s')" and "\<not> cx_uncommitted x"
  obtains p where "get_by_payment_no_for_update s no = Some p"
    and "pay_status p = Pay_SUCCESS \<and> s' = put_callback s (mark_processed (db_now s)
        (c\<lparr>pc_merchant_id := Some (pay_merchant_id p), pc_order_no := Some (pay_order_no p)\<rparr>)) \<and>
        cx_replayed x \<or>
      pay_status p \<in> {Pay_INITIATED, Pay_PAYING, Pay_CLOSED} \<and> amount = Some (pay_amount p) \<and>
      (\<exists>ord. get_by_order_no s (pay_order_no p) None None = Some ord \<and>
        decide_order ev s r (c\<lparr>pc_merchant_id := Some (pay_merchant_id p),
          pc_order_no := Some (pay_order_no p)\<rparr>) p ord (pay_amount p) = ok (x, s'))"
proof -
  obtain p where p: "get_by_payment_no_for_update s no = Some p"
    using assms by (cases "get_by_payment_no_for_update s no") (auto simp: decide_payment_def refusal_def)
  consider (a) "pay_status p = Pay_SUCCESS" | (b) "pay_status p \<noteq> Pay_SUCCESS" by blast
  then show thesis
  proof cases
    case a
    with assms(1) p have "s' = put_callback s (mark_processed (db_now s)
        (c\<lparr>pc_merchant_id := Some (pay_merchant_id p), pc_order_no := Some (pay_order_no p)\<rparr>)) \<and> cx_replayed x"
      by (auto simp: decide_payment_def Let_def duplicate_of_def)
    with p a show thesis by (intro that) auto
  next
    case b
    have st: "pay_status p \<in> settleable \<or> pay_status p = Pay_CLOSED"
    proof (rule ccontr)
      assume "\<not> ?thesis"
      with assms p b show False by (auto simp: decide_payment_def Let_def refusal_def)
    qed
    have amt: "amount = Some (pay_amount p)"
    proof (rule ccontr)
      assume "amount \<noteq> Some (pay_amount p)"
      with assms p b st show False by (auto simp: decide_payment_def Let_def refusal_def)
    qed
    obtain ord where ord: "get_by_order_no s (pay_order_no p) None None = Some ord"
    proof (cases "get_by_order_no s (pay_order_no p) None None")
      case None
      with assms p b st amt show thesis by (auto simp: decide_payment_def Let_def refusal_def)
    qed
    from assms(1) p b st amt ord have "decide_order ev s r (c\<lparr>pc_merchant_id := Some (pay_merchant_id p),
          pc_order_no := Some (pay_order_no p)\<rparr>) p ord (pay_amount p) = ok (x, s')"
      by (auto simp: decide_payment_def Let_def)
    with p st amt ord show thesis by (intro that) (auto simp: settleable_def)
  qed
qed

lemma process_cases:
  assumes "process ev s r = ok (x, s')" and "\<not> cx_uncommitted x"
  obtains (seen) "(br_provider r, br_event_id r) \<in> set (events s)"
      and "x = duplicate_of None None None" and "s' = s"
  | (fresh) c sc v no amount where "(br_provider r, br_event_id r) \<notin> set (events s)"
      and "events sc = events s @ [(br_provider r, br_event_id r)]" and "claimed sc c"
      and "\<exists>cs. sc = s\<lparr>payment_callbacks := cs\<rparr>"
      and "verified ev (db_now s) r = ok v" and "sv_valid v"
      and "parse_amount_minor (map_of (br_payload r) ''amount'') = ok amount"
      and "resolve_payment_no r = Some no"
      and "decide_payment ev sc r c no amount = ok (x, s')"
      and "event_of c = (br_provider r, br_event_id r)"
proof (cases "insert_received s (br_provider r) (br_event_id r) (br_event_type r) False")
  case None
  with assms show thesis
    by (intro seen) (auto simp: process_def insert_received_None)
next
  case (Some cs)
  obtain c sc where cs: "cs = (c, sc)" by (cases cs)
  note ins = insert_received_Some [OF Some [unfolded cs]]
  from assms(1) Some cs obtain v where v: "verified ev (db_now s) r = ok v"
    by (auto simp: process_def bindE_eq_Inr ins(4))
  have valid: "sv_valid v"
  proof (rule ccontr)
    assume "\<not> ?thesis"
    with assms Some cs v show False by (auto simp: process_def ins(4) refusal_def)
  qed
  with assms(1) Some cs v obtain amount where amount:
    "parse_amount_minor (map_of (br_payload r) ''amount'') = ok amount"
    by (auto simp: process_def bindE_eq_Inr ins(4))
  obtain no where no: "resolve_payment_no r = Some no"
  proof (cases "resolve_payment_no r")
    case None
    with assms Some cs v valid amount show thesis by (auto simp: process_def ins(4) refusal_def Let_def)
  qed
  let ?c = "c\<lparr>pc_payment_no := resolve_payment_no r, pc_order_no := resolve_order_no r,
                pc_payload_snapshot := Some (filter_callback_payload (JObj (br_payload r))),
                pc_signature_valid := True, pc_process_error := None\<rparr>"
  have "decide_payment ev sc r ?c no amount = ok (x, s')"
    using assms(1) Some cs v valid amount no ins(4) by (simp add: process_def Let_def)
  moreover have "claimed sc ?c" "event_of ?c = (br_provider r, br_event_id r)"
    using ins(2,3) by (simp_all add: claimed_def event_of_def)
  moreover have "(br_provider r, br_event_id r) \<notin> set (events s)"
    using Some insert_received_None [of s "br_provider r" "br_event_id r" "br_event_type r" False] by auto
  ultimately show thesis using ins(1,4) v valid amount no by (intro fresh) auto
qed

section \<open>An event is claimed once\<close>

lemma closing_events: "closing_only s s' \<Longrightarrow> payment_callbacks s' = payment_callbacks s"
  by (auto simp: closing_only_def)

lemma put_row_events:
  assumes "claimed s c" and "payment_callbacks s' = put_row pc_id c' (payment_callbacks s)"
    and "pc_id c' = pc_id c" and "event_of c' = event_of c"
  shows "events s' = events s"
  using put_callback_events [OF assms(1,3,4)] assms(2) by (simp add: events_def put_callback_def)

lemma decide_order_events:
  assumes "decide_order ev s r c p0 ord0 amount = ok (x, s')" and "\<not> cx_uncommitted x" and "claimed s c"
  shows "events s' = events s"
proof -
  have same: "payment_callbacks s1 = payment_callbacks s"
    if "s1 = s \<or> close_expired_order s (o_id ord0) = ok (True, s1)" for s1
    using that by (auto dest!: close_expired_order_only closing_events)
  show ?thesis
    using assms(1)
  proof (cases rule: decide_order_cases)
    case refused
    with assms(2) show ?thesis by simp
  next
    case (duplicate s1 p ord)
    from duplicate(3) same [OF duplicate(1)] show ?thesis
      by (intro put_row_events [OF assms(3), of _ "mark_processed (db_now s1) c"]) (auto simp: put_callback_def)
  next
    case (paid s1 p ord p' ord')
    from paid(9) same [OF paid(1)] show ?thesis
      by (intro put_row_events [OF assms(3), of _ "mark_processed (db_now s1) c"]) (auto simp: recorded_as_def)
  qed
qed

lemma decide_payment_events:
  assumes "decide_payment ev s r c no amount = ok (x, s')" and "\<not> cx_uncommitted x" and "claimed s c"
  shows "events s' = events s"
proof -
  obtain p where p: "pay_status p = Pay_SUCCESS \<and> s' = put_callback s (mark_processed (db_now s)
        (c\<lparr>pc_merchant_id := Some (pay_merchant_id p), pc_order_no := Some (pay_order_no p)\<rparr>)) \<and>
        cx_replayed x \<or>
      (\<exists>ord. decide_order ev s r (c\<lparr>pc_merchant_id := Some (pay_merchant_id p),
          pc_order_no := Some (pay_order_no p)\<rparr>) p ord (pay_amount p) = ok (x, s'))"
    by (rule decide_payment_cases [OF assms(1,2)]) blast
  let ?c = "c\<lparr>pc_merchant_id := Some (pay_merchant_id p), pc_order_no := Some (pay_order_no p)\<rparr>"
  have c: "claimed s ?c" "event_of ?c = event_of c" "pc_id ?c = pc_id c"
    using assms(3) by (simp_all add: claimed_def event_of_def)
  from p show ?thesis
  proof
    assume "pay_status p = Pay_SUCCESS \<and> s' = put_callback s (mark_processed (db_now s) ?c) \<and> cx_replayed x"
    with put_callback_events [OF c(1), of "mark_processed (db_now s) ?c"] show ?thesis by simp
  next
    assume "\<exists>ord. decide_order ev s r ?c p ord (pay_amount p) = ok (x, s')"
    then show ?thesis using decide_order_events [OF _ assms(2) c(1)] by blast
  qed
qed

lemma process_events:
  assumes "process ev s r = ok (x, s')" and "\<not> cx_uncommitted x"
  shows "events s' = events s \<and> s' = s \<and> (br_provider r, br_event_id r) \<in> set (events s) \<or>
    events s' = events s @ [(br_provider r, br_event_id r)]"
  using assms
proof (cases rule: process_cases)
  case seen
  then show ?thesis by simp
next
  case (fresh c sc v no amount)
  from decide_payment_events [OF fresh(9) assms(2) fresh(3)] fresh(2) show ?thesis by simp
qed

lemma seen_execute:
  "(br_provider r, br_event_id r) \<in> set (events s) \<Longrightarrow> execute ev s r = ok (duplicate_of None None None, s)"
proof -
  assume "(br_provider r, br_event_id r) \<in> set (events s)"
  then have "insert_received s (br_provider r) (br_event_id r) (br_event_type r) False = None"
    by (simp only: insert_received_None)
  then have "process ev s r = ok (duplicate_of None None None, s)" by (simp add: process_def)
  then show ?thesis by (simp add: execute_def duplicate_of_def)
qed

lemma record_refused_events:
  "events (record_refused_signature s r reason) = events s \<and> record_refused_signature s r reason = s \<or>
    events (record_refused_signature s r reason) = events s @ [(br_provider r, br_event_id r)]"
proof (cases "insert_received s (br_provider r) (br_event_id r) (br_event_type r) False")
  case (Some cs)
  obtain c sc where cs: "cs = (c, sc)" by (cases cs)
  note ins = insert_received_Some [OF Some [unfolded cs]]
  from put_callback_events [OF ins(2), of "mark_failed (db_now sc) (Some (''invalid signature: '' @ reason)) c"] ins(1)
  show ?thesis by (simp add: record_refused_signature_def Some cs)
qed (simp add: record_refused_signature_def)

text \<open>A delivery leaves the tables alone or adds its event to those seen.\<close>

lemma receive_events:
  assumes "receive_callback ev s r = (a, s')"
  shows "s' = s \<or> events s' = events s @ [(br_provider r, br_event_id r)]"
proof (cases "length (br_raw_body r) > max_callback_body_bytes")
  case True
  with assms show ?thesis by (simp add: receive_callback_def)
next
  case small: False
  show ?thesis
  proof (cases "verified ev (db_now s) r")
    case (Inl e)
    with assms small show ?thesis by (simp add: receive_callback_def)
  next
    case v: (Inr v)
    show ?thesis
    proof (cases "sv_valid v")
      case False
      with assms small v record_refused_events [of s r] show ?thesis by (auto simp: receive_callback_def)
    next
      case True
      show ?thesis
      proof (cases "process ev s r")
        case (Inl e)
        with assms small v True show ?thesis by (simp add: receive_callback_def execute_def)
      next
        case (Inr xs)
        obtain x t where xs: "xs = (x, t)" by (cases xs)
        from assms small v True Inr xs have "s' = (if cx_uncommitted x then s else t)"
          by (simp add: receive_callback_def execute_def)
        with process_events [of ev s r x t] Inr xs show ?thesis by auto
      qed
    qed
  qed
qed

lemma seen_receive:
  assumes "(br_provider r, br_event_id r) \<in> set (events s)"
  shows "\<exists>a. receive_callback ev s r = (a, s) \<and> (\<forall>p. a \<noteq> Answer_Payment p) \<and>
    (length (br_raw_body r) \<le> max_callback_body_bytes \<and> (\<exists>v. verified ev (db_now s) r = ok v \<and> sv_valid v) \<longrightarrow>
      a = Answer_Duplicate)"
proof -
  have refused: "record_refused_signature s r reason = s" for reason
    using assms by (simp add: record_refused_signature_def insert_received_None [THEN iffD2])
  show ?thesis
    by (cases "verified ev (db_now s) r")
      (auto simp: receive_callback_def seen_execute [OF assms] respond_def duplicate_of_def refused)
qed

text \<open>
  Deliveries at any time, and any other transactions, which keep the callback rows.
\<close>

inductive callback_run :: "env \<Rightarrow> 'a shop_scheme \<Rightarrow> 'a shop_scheme \<Rightarrow> bool" for ev where
  cb_stop: "callback_run ev s s"
| cb_deliver: "callback_run ev s t \<Longrightarrow> receive_callback ev t r = (a, u) \<Longrightarrow> callback_run ev s u"
| cb_other: "callback_run ev s t \<Longrightarrow> payment_callbacks u = payment_callbacks t \<Longrightarrow> callback_run ev s u"

lemma callback_run_events: "callback_run ev s t \<Longrightarrow> set (events s) \<subseteq> set (events t)"
proof (induction rule: callback_run.induct)
  case (cb_deliver s t r a u)
  with receive_events [OF cb_deliver.hyps(2)] show ?case by auto
next
  case (cb_other s t u)
  then show ?case by (simp add: events_def)
qed simp

text \<open>A delivery the provider sent, small enough, signed and in time.\<close>

definition genuine :: "env \<Rightarrow> 'a shop_scheme \<Rightarrow> callback_request \<Rightarrow> bool" where
  "genuine ev s r \<longleftrightarrow> length (br_raw_body r) \<le> max_callback_body_bytes \<and>
    (\<exists>v. verified ev (db_now s) r = ok v \<and> sv_valid v)"

lemma refused_rows:
  "record_refused_signature s r reason =
    s\<lparr>payment_callbacks := payment_callbacks (record_refused_signature s r reason)\<rparr>"
  by (auto simp: record_refused_signature_def insert_received_def put_callback_def Let_def split: option.splits)

lemma forged_receive:
  assumes "receive_callback ev s r = (a, s')" and "s' \<noteq> s" and "\<not> genuine ev s r"
  shows "a = Answer_Error (AppError (Payment_Err PaymentCallbackSignatureError)) \<and>
    s' = s\<lparr>payment_callbacks := payment_callbacks s'\<rparr>"
  using assms refused_rows [of s r]
  by (auto simp: receive_callback_def genuine_def split: if_splits sum.splits)

text \<open>
  C5: the first delivery that is recorded claims its event, and only a genuine one can be acted on. After
  a delivery that changed any table, and whatever deliveries and other transactions follow, every further
  delivery with the same provider and event id changes nothing and is never answered with a payment, and
  a genuine one is answered as a duplicate. When that first delivery was not genuine, it was refused and
  left its row of the callbacks only: so a forged delivery suppresses the genuine one, which is
  acknowledged as a duplicate and settles nothing, although the comments of the workflow say that a
  correctly signed redelivery is still possible.
\<close>

theorem event_acted_on_once:
  assumes "receive_callback ev s r = (a, s')" and "s' \<noteq> s" and "callback_run ev s' t"
    and "br_provider q = br_provider r" and "br_event_id q = br_event_id r"
  shows "(\<exists>answer. receive_callback ev t q = (answer, t) \<and> (\<forall>p. answer \<noteq> Answer_Payment p) \<and>
      (genuine ev t q \<longrightarrow> answer = Answer_Duplicate)) \<and>
    (\<not> genuine ev s r \<longrightarrow> a = Answer_Error (AppError (Payment_Err PaymentCallbackSignatureError)) \<and>
      s' = s\<lparr>payment_callbacks := payment_callbacks s'\<rparr>)"
proof -
  have "(br_provider q, br_event_id q) \<in> set (events s')"
    using receive_events [OF assms(1)] assms(2,4,5) by auto
  with callback_run_events [OF assms(3)] have "(br_provider q, br_event_id q) \<in> set (events t)" by blast
  from seen_receive [OF this, of ev] forged_receive [OF assms(1,2)] show ?thesis
    unfolding genuine_def by blast
qed

text \<open>
  A forged delivery blocks the genuine one. When a delivery whose signature does not verify names
  an event not seen before, the row it leaves makes every later delivery of that event, correctly
  signed and in time, a duplicate that settles nothing.
\<close>

theorem forged_delivery_blocks_event:
  assumes "verified ev (db_now s) r = ok v" and "\<not> sv_valid v"
    and "length (br_raw_body r) \<le> max_callback_body_bytes"
    and "get_by_event s (br_provider r) (br_event_id r) = None"
    and "br_provider q = br_provider r" and "br_event_id q = br_event_id r"
    and "verified ev now q = ok w" and "sv_valid w" and "length (br_raw_body q) \<le> max_callback_body_bytes"
  shows "\<exists>s'. receive_callback ev s r = (Answer_Error (AppError (Payment_Err PaymentCallbackSignatureError)), s') \<and>
    receive_callback ev (s'\<lparr>db_now := now\<rparr>) q = (Answer_Duplicate, s'\<lparr>db_now := now\<rparr>)"
proof -
  let ?s = "record_refused_signature s r (signature_reason_text (sv_reason v))"
  have first: "receive_callback ev s r = (Answer_Error (AppError (Payment_Err PaymentCallbackSignatureError)), ?s)"
    using assms(1-3) by (simp add: receive_callback_def)
  have "(br_provider r, br_event_id r) \<notin> set (events s)" using assms(4) by (simp add: get_by_event_None)
  then have "(br_provider r, br_event_id r) \<in> set (events ?s)"
  proof -
    obtain c sc where i: "insert_received s (br_provider r) (br_event_id r) (br_event_type r) False = Some (c, sc)"
      using \<open>(br_provider r, br_event_id r) \<notin> set (events s)\<close> insert_received_None [of s "br_provider r"]
      by (metis not_None_eq surj_pair)
    note ins = insert_received_Some [OF i]
    from put_callback_events [OF ins(2), of "mark_failed (db_now sc) (Some (''invalid signature: '' @
      signature_reason_text (sv_reason v))) c"] ins(1)
    show ?thesis by (simp add: record_refused_signature_def i)
  qed
  then have "(br_provider q, br_event_id q) \<in> set (events (?s\<lparr>db_now := now\<rparr>))"
    using assms(5,6) by (simp add: events_def)
  from seen_receive [OF this] assms(7-9) have "receive_callback ev (?s\<lparr>db_now := now\<rparr>) q = (Answer_Duplicate, ?s\<lparr>db_now := now\<rparr>)"
    by auto
  with first show ?thesis by blast
qed

section \<open>Money\<close>

lemma recorded_success:
  assumes "recorded_as s1 c p' ord' s'" and "q \<in> set (payments s')" and "q \<notin> set (payments s1)"
  shows "q = p'"
  using assms by (auto simp: recorded_as_def put_row_def split: if_splits)

text \<open>
  C4: no money is recorded that was not proved. When a callback transaction makes a payment succeed,
  its delivery carried a valid signature, named that payment, and its amount was the amount of the
  payment, which is what is recorded as paid; the order of the payment is PAID, and either it was
  waiting for payment and is now PROCESSING, or it was closed and the money is owed back.
\<close>

theorem success_needs_proof:
  assumes "execute ev s r = ok (x, s')" and "distinct (map pay_id (payments s))"
    and "distinct (map o_id (orders s))" and "q \<in> set (payments s')" and "q \<notin> set (payments s)" and "pay_status q = Pay_SUCCESS"
  shows "\<exists>v p ord. verified ev (db_now s) r = ok v \<and> sv_valid v \<and>
    p \<in> set (payments s) \<and> resolve_payment_no r = Some (pay_payment_no p) \<and> pay_id q = pay_id p \<and>
    parse_amount_minor (map_of (br_payload r) ''amount'') = ok (Some (pay_amount p)) \<and>
    pay_status p \<in> {Pay_INITIATED, Pay_PAYING, Pay_CLOSED} \<and>
    pay_amount q = pay_amount p \<and> pay_paid_amount q = pay_amount p \<and>
    ord \<in> set (orders s') \<and> o_order_no ord = pay_order_no p \<and> o_payment_status ord = PAID \<and>
    (o_order_status ord = PROCESSING \<or>
     o_order_status ord = CLOSED \<and> (\<exists>k \<in> set (compensations s'). cp_payment_id k = pay_id p))"
proof -
  from assms(1,4,5) have run: "process ev s r = ok (x, s')" "\<not> cx_uncommitted x"
    by (auto simp: execute_def bindE_eq_Inr split: if_splits)
  from run show ?thesis
  proof (cases rule: process_cases)
    case seen
    with assms(4,5) show ?thesis by simp
  next
    case (fresh c sc v no amount)
    have sc: "payments sc = payments s" "orders sc = orders s" "db_now sc = db_now s" using fresh(4) by auto
    obtain p0 where p0: "get_by_payment_no_for_update sc no = Some p0"
      and dec: "pay_status p0 = Pay_SUCCESS \<and> s' = put_callback sc (mark_processed (db_now sc)
        (c\<lparr>pc_merchant_id := Some (pay_merchant_id p0), pc_order_no := Some (pay_order_no p0)\<rparr>)) \<and>
        cx_replayed x \<or>
      pay_status p0 \<in> {Pay_INITIATED, Pay_PAYING, Pay_CLOSED} \<and> amount = Some (pay_amount p0) \<and>
      (\<exists>ord. get_by_order_no sc (pay_order_no p0) None None = Some ord \<and>
        decide_order ev sc r (c\<lparr>pc_merchant_id := Some (pay_merchant_id p0),
          pc_order_no := Some (pay_order_no p0)\<rparr>) p0 ord (pay_amount p0) = ok (x, s'))"
      by (rule decide_payment_cases [OF fresh(9) run(2)])
    have p0_row: "p0 \<in> set (payments s)" "pay_payment_no p0 = no"
      using p0 sc(1) by (auto simp: get_by_payment_no_for_update_def lock_attempts_for_order_def
          dest!: find_SomeD split: option.splits)
    have "payments (put_callback sc k) = payments s" for k by (simp add: put_callback_def sc(1))
    with dec assms(4,5) obtain ord0 where st: "pay_status p0 \<in> {Pay_INITIATED, Pay_PAYING, Pay_CLOSED}"
      and amt: "amount = Some (pay_amount p0)"
      and ord0: "get_by_order_no sc (pay_order_no p0) None None = Some ord0"
      and ok: "decide_order ev sc r (c\<lparr>pc_merchant_id := Some (pay_merchant_id p0),
          pc_order_no := Some (pay_order_no p0)\<rparr>) p0 ord0 (pay_amount p0) = ok (x, s')"
      by auto
    have ord0_row: "ord0 \<in> set (orders s)" "o_order_no ord0 = pay_order_no p0"
      using ord0 sc(2) by (auto simp: get_by_order_no_def dest!: find_SomeD)
    note head = fresh(5,6) p0_row(1) fresh(7,8) [unfolded amt p0_row(2) [symmetric]] st
    have rows: "closed_rows (payments s) (payments s1)" "map order_key (orders s1) = map order_key (orders s)"
      if "s1 = sc \<or> close_expired_order sc (o_id ord0) = ok (True, s1)" for s1
      using that close_expired_order_rows [of sc] assms(2,3) sc by auto
    from ok show ?thesis
    proof (cases rule: decide_order_cases)
      case refused
      with run(2) show ?thesis by simp
    next
      case (duplicate s1 p ord)
      then have "q \<in> set (payments s1)" using assms(4) by (simp add: put_callback_def)
      with rows(1) [OF duplicate(1)] assms(5,6) show ?thesis by (auto simp: closed_rows_def)
    next
      case (paid s1 p ord p' ord')
      note keep = rows [OF paid(1)]
      have "q \<notin> set (payments s1)" using keep(1) assms(5,6) by (auto simp: closed_rows_def)
      then have q: "q = p'" by (rule recorded_success [OF paid(9) assms(4)])
      have "pay_key p = pay_key p0"
      proof -
        have "\<exists>p1 \<in> set (payments s). pay_key p1 = pay_key p" if "p \<in> set (payments s1)"
          using that keep(1) unfolding closed_rows_def by (metis (mono_tags, lifting) image_iff list.set_map)
        then have "p = p0 \<or> (\<exists>p1. p1 \<in> set (payments s) \<and> pay_key p1 = pay_key p \<and> pay_id p = pay_id p0)"
          using paid(2) row_of_Some [of pay_id "payments s1" "pay_id p0" p] by (auto simp: get_payment_def)
        then show ?thesis
          using same_row [OF assms(2) _ p0_row(1)] by (metis pay_key_id)
      qed
      moreover have ord_key: "order_key ord = order_key ord0"
      proof -
        have "\<exists>o1 \<in> set (orders s). order_key o1 = order_key ord" if "ord \<in> set (orders s1)"
          using that keep(2) by (metis (mono_tags, lifting) image_iff list.set_map)
        then have "ord = ord0 \<or> (\<exists>o1. o1 \<in> set (orders s) \<and> order_key o1 = order_key ord \<and> o_id ord = o_id ord0)"
          using paid(3) row_of_Some [of o_id "orders s1" "o_id ord0" ord] by (auto simp: get_order_def)
        then show ?thesis
          using same_row [OF assms(3) _ ord0_row(1)] by (metis order_key_id)
      qed
      moreover have "ord' \<in> set (orders s')"
      proof -
        have "o_id ` set (orders s1) = o_id ` set (orders s)"
          using arg_cong [OF keep(2), of "\<lambda>ks. set (map fst ks)"] by (simp add: order_key_def image_image)
        then have "o_id ord' \<in> o_id ` set (orders s1)"
          using paid(6) order_key_id [OF ord_key] ord0_row(1) by auto
        then show ?thesis using paid(9) by (simp add: recorded_as_def set_put_row)
      qed
      ultimately show ?thesis
        using head q paid(5-8,10) ord0_row(2)
        by (intro exI [of _ v] exI [of _ p0] exI [of _ ord'])
          (auto simp: record_success_def pay_key_def order_key_def)
    qed
  qed
qed

section \<open>A payment of the sample shop\<close>

definition sample_paying_shop :: shop where
  "sample_paying_shop = sample_shop\<lparr>orders := [order_of_coupon\<lparr>o_coupon_id := None\<rparr>],
    order_items := [sample_order_item],
    inventories := [(sample_inventory 1 7 10)\<lparr>available_qty := 7, locked_qty := 3\<rparr>],
    payments := [sample_payment]\<rparr>"

definition sample_delivery :: "string \<Rightarrow> callback_request" where
  "sample_delivery signature =
    \<lparr>br_provider = ''MOCK'', br_event_id = ''e1'', br_event_type = ''pay'', br_timestamp = ''1'',
     br_signature = signature, br_raw_body = ''b'',
     br_payload = [(''payment_no'', JStr ''P1''), (''amount'', JInt 800)]\<rparr>"

lemma sample_verdicts:
  "map_sum (\<lambda>_. ()) sv_valid (verified sample_env 1000 (sample_delivery ''secret1.b'')) = Inr True"
  "map_sum (\<lambda>_. ()) sv_valid (verified sample_env 1000 (sample_delivery ''forged'')) = Inr False"
  by code_simp+

lemma sample_small: "length (br_raw_body (sample_delivery sig)) \<le> max_callback_body_bytes"
  by (simp add: sample_delivery_def max_callback_body_bytes_def)

lemma sample_forged:
  obtains v w where "verified sample_env (db_now sample_paying_shop) (sample_delivery ''forged'') = ok v"
    and "\<not> sv_valid v" and "verified sample_env 1000 (sample_delivery ''secret1.b'') = ok w" and "sv_valid w"
proof -
  have "db_now sample_paying_shop = 1000" by code_simp
  with sample_verdicts that show thesis
    by (cases "verified sample_env 1000 (sample_delivery ''forged'')";
        cases "verified sample_env 1000 (sample_delivery ''secret1.b'')") auto
qed

theorem forged_delivery_blocks_event_witness:
  "\<exists>s'. receive_callback sample_env sample_paying_shop (sample_delivery ''forged'') =
      (Answer_Error (AppError (Payment_Err PaymentCallbackSignatureError)), s') \<and>
    receive_callback sample_env (s'\<lparr>db_now := 1000\<rparr>) (sample_delivery ''secret1.b'') =
      (Answer_Duplicate, s'\<lparr>db_now := 1000\<rparr>)"
proof -
  have fresh: "get_by_event sample_paying_shop (br_provider (sample_delivery ''forged''))
      (br_event_id (sample_delivery ''forged'')) = None" by code_simp
  obtain v w where v: "verified sample_env (db_now sample_paying_shop) (sample_delivery ''forged'') = ok v"
    "\<not> sv_valid v" and w: "verified sample_env 1000 (sample_delivery ''secret1.b'') = ok w" "sv_valid w"
    by (rule sample_forged)
  show ?thesis
    by (rule forged_delivery_blocks_event [OF v sample_small fresh _ _ w sample_small]) (simp_all add: sample_delivery_def)
qed

theorem event_acted_on_once_witness:
  "\<exists>a s'. receive_callback sample_env sample_paying_shop (sample_delivery ''forged'') = (a, s') \<and>
    s' = sample_paying_shop\<lparr>payment_callbacks := payment_callbacks s'\<rparr> \<and>
    receive_callback sample_env s' (sample_delivery ''secret1.b'') = (Answer_Duplicate, s')"
proof -
  obtain v w where v: "verified sample_env (db_now sample_paying_shop) (sample_delivery ''forged'') = ok v"
    "\<not> sv_valid v" and w: "verified sample_env 1000 (sample_delivery ''secret1.b'') = ok w" "sv_valid w"
    by (rule sample_forged)
  then obtain a reason s' where run: "receive_callback sample_env sample_paying_shop (sample_delivery ''forged'') = (a, s')"
    and s': "s' = record_refused_signature sample_paying_shop (sample_delivery ''forged'') reason"
    using sample_small [of "''forged''"] by (simp add: receive_callback_def)
  have rows: "map pc_event_id (payment_callbacks s') = [''e1'']" unfolding s' by code_simp
  have "payment_callbacks sample_paying_shop = []" by code_simp
  then have changed: "s' \<noteq> sample_paying_shop" using rows by auto
  have "db_now s' = 1000"
    using arg_cong [OF refused_rows, of db_now sample_paying_shop] by (simp add: s' sample_paying_shop_def sample_shop_def)
  then have "genuine sample_env s' (sample_delivery ''secret1.b'')"
    using w sample_small by (auto simp: genuine_def)
  moreover have "\<not> genuine sample_env sample_paying_shop (sample_delivery ''forged'')"
    using v by (auto simp: genuine_def)
  moreover note event_acted_on_once [OF run changed cb_stop, of "sample_delivery ''secret1.b''"]
  ultimately show ?thesis using run by (auto simp: sample_delivery_def)
qed

theorem success_needs_proof_witness:
  "\<exists>x s' q. execute sample_env sample_paying_shop (sample_delivery ''secret1.b'') = ok (x, s') \<and>
    q \<in> set (payments s') \<and> pay_status q = Pay_SUCCESS \<and> pay_paid_amount q = 800"
proof -
  have run: "map_sum (\<lambda>_. ()) (\<lambda>(x, s). map (\<lambda>q. (pay_id q, pay_status q)) (payments s))
      (execute sample_env sample_paying_shop (sample_delivery ''secret1.b'')) = Inr [(1, Pay_SUCCESS)]"
    by code_simp
  then obtain x s' where ex: "execute sample_env sample_paying_shop (sample_delivery ''secret1.b'') = ok (x, s')"
    by (cases "execute sample_env sample_paying_shop (sample_delivery ''secret1.b'')") auto
  with run obtain q where q: "q \<in> set (payments s')" "pay_status q = Pay_SUCCESS" by auto
  have rows: "payments sample_paying_shop = [sample_payment]" and "pay_status sample_payment = Pay_PAYING"
    and "pay_amount sample_payment = 800" and ids: "distinct (map o_id (orders sample_paying_shop))"
    by code_simp+
  with q have "distinct (map pay_id (payments sample_paying_shop))" and "q \<notin> set (payments sample_paying_shop)"
    by auto
  from success_needs_proof [OF ex this(1) ids q(1) this(2) q(2)] rows \<open>pay_amount sample_payment = 800\<close> ex q
  show ?thesis by auto
qed

end
