(* ===== verification/Payment_Guards.thy ===== *)
theory Payment_Guards
  imports Payment_Compensation Shop_Sample
begin

text \<open>
  What guards the money outside the settlement itself: the filter of a stored body, the signature, the
  amount a body names, and the refund of a late payment.
\<close>

section \<open>Stored payloads\<close>

text \<open>No key that is sensitive keeps its value, at any depth.\<close>

fun withheld :: "json \<Rightarrow> bool" where
  "withheld (JObj kvs) \<longleftrightarrow>
    list_all (\<lambda>(k, v). (is_sensitive_key k \<longrightarrow> v = JStr payload_redacted) \<and> withheld v) kvs"
| "withheld (JList vs) \<longleftrightarrow> list_all withheld vs"
| "withheld _ \<longleftrightarrow> True"

fun nested_within :: "nat \<Rightarrow> json \<Rightarrow> bool" where
  "nested_within n (JObj kvs) \<longleftrightarrow> 0 < n \<and> list_all (\<lambda>(k, v). nested_within (n - 1) v) kvs"
| "nested_within n (JList vs) \<longleftrightarrow> 0 < n \<and> list_all (nested_within (n - 1)) vs"
| "nested_within n _ \<longleftrightarrow> True"

lemma filter_leaf [simp]: "filter_payload d (JStr payload_redacted) = JStr payload_redacted"
  by simp

lemma filter_withheld: "withheld (filter_payload d v)"
  by (induction d v rule: filter_payload.induct) (auto simp: list_all_iff)

lemma filter_idempotent: "filter_payload d (filter_payload d v) = filter_payload d v"
  by (induction d v rule: filter_payload.induct) auto

lemma filter_keeps: "withheld v \<Longrightarrow> nested_within n v \<Longrightarrow> d + n \<le> max_depth \<Longrightarrow> filter_payload d v = v"
proof (induction n v arbitrary: d rule: nested_within.induct)
  case (1 n kvs)
  have "(if is_sensitive_key k then JStr payload_redacted else filter_payload (Suc d) v) = v"
    if "(k, v) \<in> set kvs" for k v
    using 1(2-4) 1(1) [OF that refl, of "Suc d"] that by (cases n) (auto simp: list_all_iff)
  then have "map (\<lambda>(k, v). (k, if is_sensitive_key k then JStr payload_redacted
      else filter_payload (Suc d) v)) kvs = kvs"
    by (intro map_idI) (clarsimp simp del: if_split)
  with 1 show ?case by simp
next
  case (2 n vs)
  have "filter_payload (Suc d) v = v" if "v \<in> set vs" for v
    using 2(2-4) 2(1) [OF that, of "Suc d"] that by (cases n) (auto simp: list_all_iff)
  with 2 show ?case by (auto simp: map_idI)
qed auto

text \<open>
  What is stored of a provider's body. The stored value holds the redaction mark under every
  sensitive key at every depth, storing it again changes nothing, and a body of at most eight levels
  whose sensitive keys are already masked is stored as it is.
\<close>

theorem stored_payload_withheld:
  "withheld (filter_callback_payload v) \<and>
   filter_callback_payload (filter_callback_payload v) = filter_callback_payload v \<and>
   (withheld v \<and> nested_within max_depth v \<longrightarrow> filter_callback_payload v = v)"
  using filter_keeps [of v max_depth 0]
  by (simp add: filter_callback_payload_def filter_withheld filter_idempotent)

theorem stored_payload_withheld_witness:
  "filter_callback_payload (JObj [(''sign'', JStr payload_redacted), (''a'', JList [JInt 1])]) =
    JObj [(''sign'', JStr payload_redacted), (''a'', JList [JInt 1])]"
proof -
  have "withheld (JObj [(''sign'', JStr payload_redacted), (''a'', JList [JInt 1])])"
    and "nested_within max_depth (JObj [(''sign'', JStr payload_redacted), (''a'', JList [JInt 1])])"
    by code_simp+
  with stored_payload_withheld show ?thesis by blast
qed

section \<open>Amounts\<close>

lemma strip_spaces:
  assumes "list_all is_space a" and "list_all is_space b" and "t \<noteq> []" and "\<not> is_space (hd t)"
    and "\<not> is_space (last t)"
  shows "strip_text (a @ t @ b) = t"
proof -
  have "dropWhile is_space (a @ t @ b) = t @ b"
    using assms(1,3,4) dropWhile_append2 [of a is_space "t @ b"] by (cases t) (auto simp: list_all_iff)
  moreover have "dropWhile is_space (rev b @ rev t) = rev t"
    using assms(2,3,5) dropWhile_append2 [of "rev b" is_space "rev t"]
    by (cases t rule: rev_cases) (auto simp: list_all_iff)
  ultimately show ?thesis by (simp add: strip_text_def)
qed

lemma read_finite_digits:
  assumes "ds \<noteq> []" and "list_all is_digit ds" and "int (length ds) \<le> 10 ^ 18"
  shows "read_finite sign ds = Some (Finite sign (digits_int ds) 0)"
proof -
  have "length (dropWhile (\<lambda>c. c = CHR ''0'') ds) \<le> length ds" by (rule length_dropWhile_le)
  with assms show ?thesis
    by (simp add: read_finite_def split_digits_all read_exponent_def Let_def split_digits_def [of "[]"])
qed

lemma py_decimal_of_int_text:
  assumes "length (int_text i) \<le> 1000"
  shows "\<exists>sign n. py_decimal_of (int_text i) = Some (Finite sign (int n) 0) \<and> sign * int n = i"
proof -
  obtain sign n where split: "split_sign (int_text i) = (sign, nat_text n)" and val: "sign * int n = i"
    and len: "length (nat_text n) \<le> length (int_text i)"
    by (cases "i < 0") (auto simp: split_sign_int_text, auto simp: int_text_def)
  have ds: "list_all is_digit (nat_text n)" by (rule nat_text_digits)
  have "filter (\<lambda>c. c \<noteq> CHR ''_'') (int_text i) = int_text i"
    using no_underscore [OF nat_text_digits] by (simp add: int_text_def)
  moreover have "nat_text n \<noteq> ''inf''" "nat_text n \<noteq> ''infinity''" "take 3 (nat_text n) \<noteq> ''nan''"
    "take 4 (nat_text n) \<noteq> ''snan''"
    using ds nat_text_nonempty [of n] by (cases "nat_text n"; auto simp: is_digit_def take_Cons')+
  moreover have "read_finite sign (nat_text n) = Some (Finite sign (int n) 0)"
    using read_finite_digits [OF nat_text_nonempty ds] len assms by simp
  ultimately show ?thesis
    using val by (simp add: py_decimal_of_def split lower_digits [OF ds])
qed

text \<open>
  The amount a provider sends as text. The decimal digits of any integer, with white space around
  them, are read as that integer, exactly.
\<close>

theorem amount_text_roundtrip:
  assumes "list_all is_space a" and "list_all is_space b" and "length (int_text i) \<le> 1000"
  shows "parse_amount_minor (Some (JStr (a @ int_text i @ b))) = ok (Some i) \<and>
    parse_amount_minor (Some (JInt i)) = ok (Some i)"
proof -
  have "strip_text (a @ int_text i @ b) = int_text i"
    by (rule strip_spaces [OF assms(1,2) int_text_ends])
  with py_decimal_of_int_text [OF assms(3)] show ?thesis
    by (auto simp: parse_amount_minor_def parse_decimal_amount_def decimal_integer_def int_text_ends(1)
        split: option.splits)
qed

theorem amount_text_roundtrip_witness:
  "parse_amount_minor (Some (JStr ('' '' @ int_text (- 1250) @ ''  ''))) = ok (Some (- 1250)) \<and>
    parse_amount_minor (Some (JInt (- 1250))) = ok (Some (- 1250))"
  by (rule amount_text_roundtrip) code_simp+

section \<open>Signatures\<close>

lemma grouped_digits_chars: "grouped_digits t = Some ds \<Longrightarrow> c \<in> set t \<Longrightarrow> is_digit c \<or> c = CHR ''_''"
  by (induction t arbitrary: ds rule: grouped_digits.induct) (auto split: if_splits)

lemma strip_keeps: "c \<in> set t \<Longrightarrow> \<not> is_space c \<Longrightarrow> c \<in> set (strip_text t)"
proof -
  have drop: "c \<in> set (dropWhile is_space u)" if "c \<in> set u" "\<not> is_space c" for u
    using that by (induction u) auto
  assume "c \<in> set t" and "\<not> is_space c"
  with drop [of t] drop [of "rev (dropWhile is_space t)"] show ?thesis by (simp add: strip_text_def)
qed

lemma split_sign_member:
  "split_sign u = (sign, r) \<Longrightarrow> c \<in> set u \<Longrightarrow> c \<noteq> CHR ''-'' \<Longrightarrow> c \<noteq> CHR ''+'' \<Longrightarrow> c \<in> set r"
  by (cases u) (auto simp: split_sign_def split: if_splits)

lemma within_seconds: "(a::int) div 1000 \<le> n \<Longrightarrow> a < 1000 * (n + 1)"
proof -
  assume le: "a div 1000 \<le> n"
  show ?thesis
  proof (rule ccontr)
    assume "\<not> ?thesis"
    then have "1000 * (n + 1) div 1000 \<le> a div 1000" by (intro zdiv_mono1) simp_all
    with le show False by simp
  qed
qed

text \<open>What \<open>int\<close> accepts has no point in it.\<close>

lemma py_int_no_point:
  assumes "py_int t = Some i"
  shows "CHR ''.'' \<notin> set t"
proof
  assume "CHR ''.'' \<in> set t"
  then have "CHR ''.'' \<in> set (strip_text t)" by (rule strip_keeps) code_simp
  moreover obtain sign r where split: "split_sign (strip_text t) = (sign, r)"
    by (cases "split_sign (strip_text t)")
  ultimately have "CHR ''.'' \<in> set r"
    by (auto dest: split_sign_member)
  moreover obtain ds where "grouped_digits r = Some ds"
    using assms split by (auto simp: py_int_def split: option.splits)
  ultimately have "is_digit (CHR ''.'') \<or> CHR ''.'' = CHR ''_''" using grouped_digits_chars by blast
  then show False by (auto simp: is_digit_def)
qed

lemma accepted_signature:
  assumes "verify_signature ev body h secret now = ok v" and "sv_valid v"
  shows "\<exists>key t. secret = Some key \<and> key \<noteq> [] \<and> py_int (ch_timestamp h) = Some t \<and>
    \<bar>now - 1000 * t\<bar> div 1000 \<le> ev_payment_callback_max_skew_seconds ev \<and>
    sign_body ev key (ch_timestamp h) body = strip_text (ch_signature h)"
  using assms
  by (auto simp: verify_signature_def refused_def Let_def split: option.splits if_splits)

text \<open>
  A signature authenticates one body at one time. When the digest is injective, two deliveries
  accepted under the same secret with the same signature have the same timestamp text and the same
  body, and the clock of each acceptance is less than one second past the allowed skew from it.
\<close>

theorem signature_binds_body:
  assumes "verify_signature ev body h (Some key) now = ok v" and "sv_valid v"
    and "verify_signature ev body' h' (Some key) now' = ok v'" and "sv_valid v'"
    and "strip_text (ch_signature h) = strip_text (ch_signature h')"
    and "inj (ev_hmac_sha256 ev key)"
  shows "body = body' \<and> ch_timestamp h = ch_timestamp h' \<and>
    (\<exists>t. py_int (ch_timestamp h) = Some t \<and>
      \<bar>now - 1000 * t\<bar> < 1000 * (ev_payment_callback_max_skew_seconds ev + 1) \<and>
      \<bar>now' - 1000 * t\<bar> < 1000 * (ev_payment_callback_max_skew_seconds ev + 1))"
proof -
  obtain t where t: "py_int (ch_timestamp h) = Some t"
    "\<bar>now - 1000 * t\<bar> div 1000 \<le> ev_payment_callback_max_skew_seconds ev"
    "sign_body ev key (ch_timestamp h) body = strip_text (ch_signature h)"
    using accepted_signature [OF assms(1,2)] by auto
  obtain t' where t': "py_int (ch_timestamp h') = Some t'"
    "\<bar>now' - 1000 * t'\<bar> div 1000 \<le> ev_payment_callback_max_skew_seconds ev"
    "sign_body ev key (ch_timestamp h') body' = strip_text (ch_signature h')"
    using accepted_signature [OF assms(3,4)] by auto
  have "ch_timestamp h @ ''.'' @ body = ch_timestamp h' @ ''.'' @ body'"
    using t(3) t'(3) assms(5) injD [OF assms(6)] unfolding sign_body_def by metis
  then have same: "ch_timestamp h = ch_timestamp h' \<and> body = body'"
    using append_before_inject [of "ch_timestamp h" "CHR ''.''" body] py_int_no_point [OF t(1)]
      py_int_no_point [OF t'(1)] by simp
  then have "t' = t" using t(1) t'(1) by simp
  with same t(1) within_seconds [OF t(2)] within_seconds [OF t'(2)] show ?thesis by blast
qed

definition sample_headers :: callback_headers where
  "sample_headers = \<lparr>ch_provider = ''MOCK'', ch_event_id = ''e1'', ch_timestamp = ''1'',
    ch_signature = ''secret1.b''\<rparr>"

theorem signature_binds_body_witness:
  "\<exists>v. verify_signature sample_env ''b'' sample_headers (Some ''secret'') 1000 = ok v \<and>
    (\<exists>t. py_int (ch_timestamp sample_headers) = Some t \<and> \<bar>2500 - 1000 * t\<bar> < 301000)"
proof -
  have "map_sum (\<lambda>_. ()) sv_valid (verify_signature sample_env ''b'' sample_headers (Some ''secret'') 1000) = Inr True"
    and "map_sum (\<lambda>_. ()) sv_valid (verify_signature sample_env ''b'' sample_headers (Some ''secret'') 2500) = Inr True"
    by code_simp+
  then obtain v w where v: "verify_signature sample_env ''b'' sample_headers (Some ''secret'') 1000 = ok v" "sv_valid v"
    and w: "verify_signature sample_env ''b'' sample_headers (Some ''secret'') 2500 = ok w" "sv_valid w"
    by (cases "verify_signature sample_env ''b'' sample_headers (Some ''secret'') 1000";
        cases "verify_signature sample_env ''b'' sample_headers (Some ''secret'') 2500") auto
  have "inj (ev_hmac_sha256 sample_env ''secret'')" by (simp add: sample_env_def inj_on_def)
  moreover have "ev_payment_callback_max_skew_seconds sample_env = 300" by (simp add: sample_env_def)
  ultimately show ?thesis using signature_binds_body [OF v w refl] v(1) by auto
qed

section \<open>Compensation\<close>

lemma get_intent_put:
  "get_intent (put_intent s c) cid =
    (if cid = cp_id c then (if cid \<in> cp_id ` set (compensations s) then Some c else None) else get_intent s cid)"
  by (simp add: get_intent_def put_intent_def row_of_put_row)

lemma get_intent_audit [simp]:
  "get_intent (audit_intent s ord action c outcome) cid = get_intent s cid"
  by (simp add: get_intent_def audit_intent_def audit_record_row_def)

lemma get_intent_Some: "get_intent s cid = Some c \<Longrightarrow> cp_id c = cid \<and> cid \<in> cp_id ` set (compensations s)"
  by (auto simp: get_intent_def dest: row_of_Some)

definition intent_done :: "'a shop_scheme \<Rightarrow> int \<Rightarrow> bool" where
  "intent_done s cid \<longleftrightarrow>
    (\<exists>c. get_intent s cid = Some c \<and> cp_status c \<in> {Cmp_SUCCEEDED, Cmp_RECONCILIATION_REQUIRED})"

lemma begin_compensation_done:
  assumes "begin_compensation s cid = ok (d, s')"
  shows "intent_done s' cid"
proof -
  obtain c where c: "get_intent s cid = Some c"
    using assms by (cases "get_intent s cid") (auto simp: begin_compensation_def)
  note id = get_intent_Some [OF c]
  show ?thesis
  proof (cases "cp_status c \<in> {Cmp_SUCCEEDED, Cmp_RECONCILIATION_REQUIRED}")
    case True
    with assms c show ?thesis by (auto simp: begin_compensation_def intent_done_def)
  next
    case False
    with assms c id show ?thesis
      by (auto simp: begin_compensation_def intent_done_def get_intent_put needs_reconciliation_def Let_def
          split: option.splits if_splits)
  qed
qed

lemma done_begin: "intent_done s cid \<Longrightarrow>
    \<exists>c. get_intent s cid = Some c \<and> begin_compensation s cid = ok (Done \<lparr>cw_refund = c, cw_replayed = True\<rparr>, s)"
  by (auto simp: intent_done_def begin_compensation_def)

lemma finish_done:
  assumes "finish_compensation s cid ref = ok (r, s')"
  shows "intent_done s' cid"
proof -
  obtain c where c: "get_intent s cid = Some c"
    using assms by (cases "get_intent s cid") (auto simp: finish_compensation_def)
  note id = get_intent_Some [OF c]
  from assms c obtain p ord where "get_payment s (cp_payment_id c) = Some p" "get_order s (cp_order_id c) = Some ord"
    by (auto simp: finish_compensation_def split: option.splits)
  with assms c id show ?thesis
    by (auto simp: finish_compensation_def rsimps Let_def intent_done_def get_intent_put flush_payment_def
        flush_order_def split: if_splits)
qed

text \<open>
  C12: the provider is asked to refund a late payment at most once. After the first execution of an
  intent, whatever the provider did (answered, failed, crashed after the money left), the intent is
  settled or waits for reconciliation, and every later execution, with any provider, asks nobody,
  changes nothing and replays what is stored.
\<close>

theorem compensation_asked_once:
  assumes "execute_compensation s cid sender = (r, s')" and "get_intent s cid \<noteq> None"
  shows "\<exists>c. get_intent s' cid = Some c \<and> cp_status c \<in> {Cmp_SUCCEEDED, Cmp_RECONCILIATION_REQUIRED} \<and>
    execute_compensation s' cid sender' = (ok \<lparr>cw_refund = c, cw_replayed = True\<rparr>, s')"
proof -
  have "intent_done s' cid"
  proof (cases "begin_compensation s cid")
    case (Inl e)
    with assms(2) show ?thesis
      by (auto simp: begin_compensation_def Let_def split: option.splits if_splits)
  next
    case (Inr ds)
    obtain d s1 where ds: "begin_compensation s cid = ok (d, s1)" using Inr by (cases ds) simp
    note s1 = begin_compensation_done [OF ds]
    show ?thesis
    proof (cases d)
      case (Done x)
      with assms(1) ds s1 show ?thesis by (simp add: execute_compensation_def)
    next
      case (Dispatch c p ord)
      then have id: "cp_id c = cid \<and> cid \<in> cp_id ` set (compensations s1)"
        using ds s1 get_intent_Some [of s cid]
        by (auto simp: begin_compensation_def intent_done_def needs_reconciliation_def Let_def
            dest: get_intent_Some split: option.splits if_splits)
      show ?thesis
      proof (cases "ask_provider sender p (cp_amount c) (cp_id c)")
        case (Sent ref)
        show ?thesis
        proof (cases "finish_compensation s1 cid ref")
          case (Inl e)
          with assms(1) ds Dispatch Sent s1 show ?thesis by (simp add: execute_compensation_def)
        next
          case (Inr y)
          with assms(1) ds Dispatch Sent have "finish_compensation s1 cid ref = ok (fst y, s')"
            by (auto simp: execute_compensation_def split: prod.splits)
          then show ?thesis by (rule finish_done)
        qed
      next
        case (Failed_With e)
        with assms(1) ds Dispatch id show ?thesis
          by (auto simp: execute_compensation_def fail_compensation_def intent_done_def get_intent_put
              needs_reconciliation_def Let_def)
      next
        case (Crashed e)
        with assms(1) ds Dispatch s1 show ?thesis by (simp add: execute_compensation_def)
      qed
    qed
  qed
  with done_begin [OF this] show ?thesis by (auto simp: intent_done_def execute_compensation_def)
qed

definition sample_late_shop :: shop where
  "sample_late_shop = sample_shop\<lparr>
    orders := [order_of_coupon\<lparr>o_order_status := CLOSED, o_payment_status := PAID, o_paid_amount := 800\<rparr>],
    payments := [record_success 800 None 1000 sample_payment],
    compensations := [\<lparr>cp_id = 1, cp_merchant_id = 1, cp_payment_id = 1, cp_order_id = 1,
      cp_callback_id = Some 1, cp_amount = 800, cp_status = Cmp_PENDING, cp_provider_refund_no = None,
      cp_failure_reason = None, cp_created_at = 1000\<rparr>]\<rparr>"

definition crashing_sender :: refund_sender where
  "crashing_sender p amount key = Crashed ''KeyError''"

definition paying_sender :: refund_sender where
  "paying_sender p amount key = Sent key"

theorem compensation_asked_once_witness:
  "\<exists>r s' c. execute_compensation sample_late_shop 1 (Some crashing_sender) = (r, s') \<and> \<not> is_ok r \<and>
    execute_compensation s' 1 (Some paying_sender) = (ok \<lparr>cw_refund = c, cw_replayed = True\<rparr>, s')"
proof -
  have first: "\<not> is_ok (fst (execute_compensation sample_late_shop 1 (Some crashing_sender)))"
    and "map cp_id (compensations sample_late_shop) = [1]" by code_simp+
  then have "get_intent sample_late_shop 1 \<noteq> None" by (auto simp: get_intent_def)
  from compensation_asked_once [OF surjective_pairing this] first show ?thesis by (metis surjective_pairing)
qed

end
