(* ===== verification/Outbox_Publisher.thy ===== *)
theory Outbox_Publisher
  imports Shop_Repository
begin

text \<open>
  \<open>app/shared/outbox/publisher.py\<close>: one cycle of the publisher over the queued events. The transport is
  a parameter, \<open>None\<close> for a delivery that returned and \<open>Some\<close> the text of the exception it raised;
  a cycle is one transaction. The lemmas follow an event through its attempts.
\<close>

section \<open>A cycle\<close>

type_synonym transport = "outbox_message \<Rightarrow> string option"

record publish_outcome =
  po_published :: nat
  po_failed :: nat
  po_dead :: nat

definition max_publish_attempts :: nat where
  "max_publish_attempts = 5"

definition retry_delay_seconds :: "nat \<Rightarrow> int \<Rightarrow> int \<Rightarrow> int" where
  "retry_delay_seconds attempt base cap = min (base * 2 ^ (attempt - 1)) cap"

definition is_due :: "int \<Rightarrow> outbox_message \<Rightarrow> bool" where
  "is_due now m \<longleftrightarrow> ob_status m \<in> {Out_PENDING, Out_FAILED} \<and>
    (case ob_next_retry_at m of None \<Rightarrow> True | Some t \<Rightarrow> t \<le> now)"

definition due_messages :: "'a shop_scheme \<Rightarrow> nat \<Rightarrow> outbox_message list" where
  "due_messages s limit = take limit (sort_key ob_id (filter (is_due (db_now s)) (outbox s)))"

text \<open>One attempt at one message: the row it leaves.\<close>

definition attempt :: "transport \<Rightarrow> nat \<Rightarrow> int \<Rightarrow> int \<Rightarrow> int \<Rightarrow> outbox_message \<Rightarrow> outbox_message" where
  "attempt transport max_attempts base cap now m0 =
    (let m = m0\<lparr>ob_attempt_count := Suc (ob_attempt_count m0)\<rparr> in
     case transport m of
       None \<Rightarrow> m\<lparr>ob_status := Out_PUBLISHED, ob_published_at := Some now, ob_next_retry_at := None,
                ob_last_error := None\<rparr>
     | Some error \<Rightarrow>
        if ob_attempt_count m \<ge> max_attempts
        then m\<lparr>ob_last_error := Some (clip 500 error), ob_status := Out_DEAD, ob_next_retry_at := None\<rparr>
        else m\<lparr>ob_last_error := Some (clip 500 error), ob_status := Out_FAILED,
               ob_next_retry_at := Some (now + 1000 * retry_delay_seconds (ob_attempt_count m) base cap)\<rparr>)"

definition tally :: "outbox_message \<Rightarrow> publish_outcome \<Rightarrow> publish_outcome" where
  "tally m out =
    (case ob_status m of
       Out_PUBLISHED \<Rightarrow> out\<lparr>po_published := Suc (po_published out)\<rparr>
     | Out_DEAD \<Rightarrow> out\<lparr>po_dead := Suc (po_dead out)\<rparr>
     | _ \<Rightarrow> out\<lparr>po_failed := Suc (po_failed out)\<rparr>)"

definition publish_due ::
  "'a shop_scheme \<Rightarrow> transport \<Rightarrow> nat \<Rightarrow> nat \<Rightarrow> int \<Rightarrow> int \<Rightarrow> publish_outcome \<times> 'a shop_scheme" where
  "publish_due s transport limit max_attempts base cap =
    (let rows = map (attempt transport max_attempts base cap (db_now s)) (due_messages s limit)
     in (fold tally rows \<lparr>po_published = 0, po_failed = 0, po_dead = 0\<rparr>,
         s\<lparr>outbox := fold (put_row ob_id) rows (outbox s)\<rparr>))"

definition run_publish_cycle :: "'a shop_scheme \<Rightarrow> transport \<Rightarrow> nat \<Rightarrow> publish_outcome \<times> 'a shop_scheme" where
  "run_publish_cycle s transport limit =
    publish_due s transport limit max_publish_attempts 30 3600"

end
