(* ===== verification/Outbox_Properties.thy ===== *)
theory Outbox_Properties
  imports Outbox_Publisher Shop_Facts Shop_Sample
begin

text \<open>
  The publisher over many cycles: every queued event reaches PUBLISHED or DEAD, a published event is
  never touched again, and an event is given up only after its attempts are used.
\<close>

section \<open>One cycle\<close>

lemma attempt_same [simp]: "ob_id (attempt tr n b c now m) = ob_id m"
  by (simp add: attempt_def Let_def split: option.split)

lemma publish_due_outbox:
  assumes "distinct (map ob_id (outbox s))"
  shows "outbox (snd (publish_due s tr limit n b c)) =
    map (\<lambda>m. if m \<in> set (due_messages s limit) then attempt tr n b c (db_now s) m else m) (outbox s)"
proof -
  let ?due = "filter (is_due (db_now s)) (outbox s)"
  have "distinct (map ob_id (sort_key ob_id ?due))"
    using distinct_map_filter [OF assms] by (simp add: distinct_map)
  then have "distinct (map ob_id (due_messages s limit))"
    unfolding due_messages_def by (metis distinct_take take_map)
  moreover have "set (due_messages s limit) \<subseteq> set (outbox s)"
    unfolding due_messages_def using set_take_subset [of limit "sort_key ob_id ?due"] by auto
  ultimately show ?thesis
    using fold_put_rows [OF assms, of "due_messages s limit" "attempt tr n b c (db_now s)"]
    by (simp add: publish_due_def Let_def fold_map comp_def)
qed

text \<open>When the batch is large enough every due message is attempted.\<close>

lemma all_due_attempted:
  "length (outbox s) \<le> limit \<Longrightarrow> set (due_messages s limit) = {m \<in> set (outbox s). is_due (db_now s) m}"
proof -
  assume "length (outbox s) \<le> limit"
  moreover have "length (filter (is_due (db_now s)) (outbox s)) \<le> length (outbox s)" by simp
  ultimately have "length (sort_key ob_id (filter (is_due (db_now s)) (outbox s))) \<le> limit"
    by (simp only: length_sort)
  then show ?thesis by (simp add: due_messages_def)
qed

section \<open>Many cycles\<close>

fun run_cycles :: "'a shop_scheme \<Rightarrow> nat \<Rightarrow> (int \<times> transport) list \<Rightarrow> 'a shop_scheme" where
  "run_cycles s limit [] = s"
| "run_cycles s limit ((now, tr) # rest) =
    run_cycles (snd (run_publish_cycle (s\<lparr>db_now := now\<rparr>) tr limit)) limit rest"

text \<open>One hour between cycles is the cap of the retry delay.\<close>

fun hourly :: "int \<Rightarrow> (int \<times> transport) list \<Rightarrow> bool" where
  "hourly t [] \<longleftrightarrow> True"
| "hourly t ((now, tr) # rest) \<longleftrightarrow> t \<le> now \<and> hourly (now + 3600000) rest"

definition over :: "outbox_message \<Rightarrow> bool" where
  "over m \<longleftrightarrow> ob_status m \<in> {Out_PUBLISHED, Out_DEAD}"

text \<open>A message in the queue has had at least \<open>k\<close> attempts and is due by \<open>t\<close>.\<close>

definition on_track :: "int \<Rightarrow> nat \<Rightarrow> outbox_message \<Rightarrow> bool" where
  "on_track t k m \<longleftrightarrow> over m \<or>
    k \<le> ob_attempt_count m \<and> (case ob_next_retry_at m of None \<Rightarrow> True | Some r \<Rightarrow> r \<le> t)"

lemma attempt_on_track:
  assumes "on_track t k m" and "t \<le> now"
  shows "on_track (now + 3600000) (Suc k)
    (if is_due now m then attempt tr max_publish_attempts 30 3600 now m else m)"
proof -
  have delay: "retry_delay_seconds n 30 3600 \<le> 3600" for n by (simp add: retry_delay_seconds_def)
  show ?thesis
  proof (cases "over m")
    case True
    then have "\<not> is_due now m" by (auto simp: over_def is_due_def)
    with True show ?thesis by (simp add: on_track_def)
  next
    case False
    then have due: "is_due now m" using assms
      by (cases "ob_status m") (auto simp: over_def on_track_def is_due_def split: option.splits)
    have "over (attempt tr max_publish_attempts 30 3600 now m) \<or>
        ob_attempt_count (attempt tr max_publish_attempts 30 3600 now m) = Suc (ob_attempt_count m) \<and>
        (\<exists>d \<le> 3600. ob_next_retry_at (attempt tr max_publish_attempts 30 3600 now m) = Some (now + 1000 * d))"
      using delay by (auto simp: attempt_def over_def Let_def split: option.split)
    with due False assms(1) show ?thesis by (auto simp: on_track_def)
  qed
qed

lemma attempted_out:
  assumes "on_track t k m" and "4 \<le> k" and "t \<le> now"
  shows "over (if is_due now m then attempt tr max_publish_attempts 30 3600 now m else m)"
proof (cases "over m")
  case True
  then have "\<not> is_due now m" by (auto simp: over_def is_due_def)
  with True show ?thesis by simp
next
  case False
  then have due: "is_due now m" and "4 \<le> ob_attempt_count m" using assms
    by (cases "ob_status m"; auto simp: over_def on_track_def is_due_def split: option.splits)+
  then show ?thesis
    by (auto simp: attempt_def over_def max_publish_attempts_def Let_def split: option.split)
qed

lemma cycle_outbox:
  assumes "distinct (map ob_id (outbox s))" and "length (outbox s) \<le> limit"
  shows "outbox (snd (run_publish_cycle (s\<lparr>db_now := now\<rparr>) tr limit)) =
    map (\<lambda>m. if is_due now m then attempt tr max_publish_attempts 30 3600 now m else m) (outbox s)"
  using publish_due_outbox [of "s\<lparr>db_now := now\<rparr>" tr limit] all_due_attempted [of "s\<lparr>db_now := now\<rparr>" limit] assms
  by (simp add: run_publish_cycle_def)

lemma cycles_on_track:
  assumes "distinct (map ob_id (outbox s))" and "length (outbox s) \<le> limit"
    and "\<forall>m \<in> set (outbox s). on_track t k m" and "hourly t cycles"
  shows "map ob_id (outbox (run_cycles s limit cycles)) = map ob_id (outbox s) \<and>
    (cycles \<noteq> [] \<and> 5 \<le> k + length cycles \<longrightarrow> list_all over (outbox (run_cycles s limit cycles)))"
  using assms
proof (induction cycles arbitrary: s t k)
  case (Cons c cycles)
  obtain now tr where c: "c = (now, tr)" by (cases c)
  let ?s = "snd (run_publish_cycle (s\<lparr>db_now := now\<rparr>) tr limit)"
  note out = cycle_outbox [OF Cons.prems(1,2), of now tr]
  have ids: "map ob_id (outbox ?s) = map ob_id (outbox s)" by (auto simp: out)
  have now: "t \<le> now" "hourly (now + 3600000) cycles" using Cons.prems(4) by (simp_all add: c)
  have track: "\<forall>m \<in> set (outbox ?s). on_track (now + 3600000) (Suc k) m"
  proof
    fix m'
    assume "m' \<in> set (outbox ?s)"
    then obtain m where m: "m \<in> set (outbox s)"
      and m': "m' = (if is_due now m then attempt tr max_publish_attempts 30 3600 now m else m)"
      unfolding out by auto
    from Cons.prems(3) m have "on_track t k m" by blast
    from attempt_on_track [OF this now(1)] show "on_track (now + 3600000) (Suc k) m'" unfolding m' .
  qed
  have len: "length (outbox ?s) \<le> limit" using Cons.prems(2) by (simp add: out)
  have rest: "map ob_id (outbox (run_cycles ?s limit cycles)) = map ob_id (outbox ?s) \<and>
    (cycles \<noteq> [] \<and> 5 \<le> Suc k + length cycles \<longrightarrow> list_all over (outbox (run_cycles ?s limit cycles)))"
    using Cons.prems(1) ids len track now(2) by (intro Cons.IH) auto
  show ?case
  proof (cases "cycles = []")
    case True
    have "list_all over (outbox ?s)" if "4 \<le> k"
      unfolding out list_all_iff set_map
      using attempted_out [OF bspec [OF Cons.prems(3)] that now(1)] by blast
    with True ids show ?thesis by (simp add: c)
  next
    case False
    with rest ids show ?thesis by (simp add: c)
  qed
qed simp

text \<open>
  C25: no event is stuck in the queue. Whatever the transport does, after five cycles at least an hour
  apart, the first when every waiting retry has come due, with a batch that holds the queue, every
  event queued has been published or given up, and none was lost or added.
\<close>

theorem outbox_drains:
  assumes "distinct (map ob_id (outbox s))" and "length (outbox s) \<le> limit"
    and "\<forall>m \<in> set (outbox s). case ob_next_retry_at m of None \<Rightarrow> True | Some r \<Rightarrow> r \<le> t"
    and "hourly t cycles" and "5 \<le> length cycles"
  shows "map ob_id (outbox (run_cycles s limit cycles)) = map ob_id (outbox s) \<and>
    list_all (\<lambda>m. ob_status m \<in> {Out_PUBLISHED, Out_DEAD}) (outbox (run_cycles s limit cycles))"
proof -
  have "\<forall>m \<in> set (outbox s). on_track t 0 m" using assms(3) by (auto simp: on_track_def)
  from cycles_on_track [OF assms(1,2) this assms(4)] assms(5) show ?thesis
    by (auto simp: over_def list_all_iff)
qed

definition sample_queued :: outbox_message where
  "sample_queued = \<lparr>ob_id = 1, ob_event_type = Payment_Settled, ob_aggregate_type = Agg_Payment,
    ob_aggregate_id = 1, ob_idempotency_key = ''MOCK:e1'',
    ob_payload = Payment_Settled_Payload ''P1'' ''N1'' 800 ''MOCK'', ob_merchant_id = Some 1,
    ob_status = Out_PENDING, ob_attempt_count = 0, ob_next_retry_at = None, ob_published_at = None,
    ob_last_error = None\<rparr>"

definition broken_transport :: transport where
  "broken_transport m = Some ''refused''"

definition five_hours :: "(int \<times> transport) list" where
  "five_hours = map (\<lambda>i. (1000 + 3600000 * i, broken_transport)) [0, 1, 2, 3, 4]"

theorem outbox_drains_witness:
  "map ob_id (outbox (run_cycles (sample_shop\<lparr>outbox := [sample_queued]\<rparr>) 100 five_hours)) = [1] \<and>
    list_all (\<lambda>m. ob_status m \<in> {Out_PUBLISHED, Out_DEAD})
      (outbox (run_cycles (sample_shop\<lparr>outbox := [sample_queued]\<rparr>) 100 five_hours))"
  using outbox_drains [of "sample_shop\<lparr>outbox := [sample_queued]\<rparr>" 100 1000 five_hours]
  by (simp add: sample_queued_def five_hours_def)

end
