(* ===== verification/Fulfillment_Properties.thy ===== *)
theory Fulfillment_Properties
  imports Fulfillment Shop_Facts Shop_Sample
begin

text \<open>
  What shipping keeps: the units a package owed are in the parcel or in the residual, no line ships
  more than was ordered, and what the roll-up onto the order says about them.
\<close>

section \<open>Units of a line\<close>

definition units :: "int \<Rightarrow> fulfillment \<Rightarrow> int" where
  "units item f = total fi_quantity (filter (\<lambda>i. fi_order_item_id i = item) (fu_items f))"

definition planned :: "'a shop_scheme \<Rightarrow> int \<Rightarrow> int \<Rightarrow> int" where
  "planned s oid item = case_option 0 id (planned_quantities_for_order s oid item)"

definition shipped :: "'a shop_scheme \<Rightarrow> int \<Rightarrow> int \<Rightarrow> int" where
  "shipped s oid item = case_option 0 id (shipped_quantities_for_order s oid item)"

lemma package_sum_total: "case_option 0 id (package_sum fs item) = total (units item) fs"
proof -
  have "sum_list (concat (map (\<lambda>f. map fi_quantity (filter (\<lambda>i. fi_order_item_id i = item) (fu_items f))) fs)) =
      total (units item) fs"
    by (induction fs) (simp_all add: units_def total_def)
  moreover have "case_option 0 id (if qs = [] then None else Some (sum_list qs)) = sum_list qs"
    for qs :: "int list"
    by simp
  ultimately show ?thesis unfolding package_sum_def Let_def by metis
qed

lemma planned_total: "planned s oid item = total (\<lambda>f. if fu_order_id f = oid then units item f else 0) (fulfillments s)"
  by (simp add: planned_def planned_quantities_for_order_def package_sum_total total_filter)

lemma shipped_total:
  "shipped s oid item =
    total (\<lambda>f. if fu_order_id f = oid \<and> is_shipped f then units item f else 0) (fulfillments s)"
  by (simp add: shipped_def shipped_quantities_for_order_def package_sum_total total_filter)

definition packages_wf :: "'a shop_scheme \<Rightarrow> bool" where
  "packages_wf s \<longleftrightarrow> distinct (map fu_id (fulfillments s)) \<and>
    list_all (\<lambda>f. package_lines_checks (fu_items f)) (fulfillments s)"

text \<open>The units of one line, read through the dictionary of the lines.\<close>

definition line_dict :: "fulfillment_item list \<Rightarrow> (int \<times> int) list" where
  "line_dict is = map (\<lambda>i. (fi_order_item_id i, fi_quantity i)) is"

lemma units_dict:
  "distinct (map fi_order_item_id (fu_items f)) \<Longrightarrow>
    units item f = case_option 0 id (map_of (line_dict (fu_items f)) item)"
proof -
  have "total fi_quantity (filter (\<lambda>i. fi_order_item_id i = item) is) =
      case_option 0 id (map_of (line_dict is) item)"
    if "distinct (map fi_order_item_id is)" for "is"
    using that
  proof (induction "is")
    case (Cons i "is")
    have "filter (\<lambda>j. fi_order_item_id j = fi_order_item_id i) is = []"
      using Cons.prems by (auto simp: filter_empty_conv image_iff dest: sym)
    with Cons show ?case by (auto simp: line_dict_def)
  qed (simp add: line_dict_def)
  then show "distinct (map fi_order_item_id (fu_items f)) \<Longrightarrow> ?thesis" by (simp add: units_def)
qed

section \<open>What the shipment does to the packages\<close>

lemma flush_package_ok:
  "flush_package s f = ok s' \<Longrightarrow>
    s' = s\<lparr>fulfillments := put_row fu_id f (fulfillments s)\<rparr> \<and> package_lines_checks (fu_items f)"
  by (auto simp: flush_package_def split: if_splits)

lemma add_package_ok:
  assumes "add_package ev s draft = ok (f, s')"
  shows "\<exists>no. f = draft\<lparr>fu_id := fresh_id fu_id (fulfillments s), fu_fulfillment_no := no\<rparr> \<and>
    s' = s\<lparr>fulfillments := fulfillments s @ [f]\<rparr> \<and> package_lines_checks (fu_items f)"
  using assms fresh_id_new [of fu_id "fulfillments s"]
  by (auto simp: add_package_def Let_def rsimps put_row_idle put_row_def [of _ _ "[_]"]
      dest!: flush_package_ok)


lemma fresh_id_put_row [simp]: "fresh_id key (put_row key r rows) = fresh_id key rows"
proof -
  have "fresh_id key rows = foldr max (map key rows) 0 + 1" for rows
    by (simp add: fresh_id_def foldr_map comp_def)
  then show ?thesis by simp
qed

lemma create_residual_ok:
  assumes "create_residual_package ev s ord wid residual kept = ok (g, s')"
  shows "s' = s\<lparr>fulfillments := fulfillments s @ [g]\<rparr> \<and> fu_id g = fresh_id fu_id (fulfillments s) \<and>
    fu_order_id g = o_id ord \<and> fu_status g = UNFULFILLED \<and> package_lines_checks (fu_items g) \<and>
    line_dict (fu_items g) = residual"
proof -
  from assms obtain lines where lines: "mapE (residual_line kept (items_for s (o_id ord))) residual = ok lines"
    and add: "add_package ev s
      (package_draft ev (db_now s) ord wid (Some ''residual of a partial shipment'') lines) = ok (g, s')"
    by (auto simp: create_residual_package_def rsimps)
  have "residual_line kept items r = ok i \<Longrightarrow> (fi_order_item_id i, fi_quantity i) = r" for items r i
    by (cases r) (auto simp: residual_line_def shell_line_def dest!: find_SomeD split: option.splits)
  then have "mapE (residual_line kept items) rs = ok is \<Longrightarrow> line_dict is = rs" for items rs "is"
    by (induction rs arbitrary: "is") (auto simp: line_dict_def rsimps)
  with lines have "line_dict lines = residual" by blast
  with add_package_ok [OF add] show ?thesis by (auto simp: package_draft_def)
qed

lemma ship_ok:
  assumes "ship ev s who fid q = ok (f', s')"
  obtains f ord residual new where "f \<in> set (fulfillments s)" and "\<not> is_shipped f"
    and "get_order s (fu_order_id f) = Some ord"
    and "\<And>r. r \<in> set (dict_of (sq_item_quantities q)) \<Longrightarrow> within_bounds (map_of (line_dict (fu_items f)))
      (map_of (ordered_quantities s (o_id ord))) (shipped_quantities_for_order s (o_id ord)) r = ok ()"
    and "f' = f\<lparr>fu_carrier := Some (sq_carrier q), fu_tracking_no := Some (sq_tracking_no q),
      fu_shipped_at := Some (db_now s),
      fu_items := List.map_filter (ship_line (dict_of (sq_item_quantities q))) (fu_items f),
      fu_status := SHIPPED\<rparr>"
    and "package_lines_checks (fu_items f')"
    and "residual = residual_of (line_dict (fu_items f)) (dict_of (sq_item_quantities q))"
    and "if residual = [] then new = [] else \<exists>g. new = [g] \<and> line_dict (fu_items g) = residual \<and>
      fu_order_id g = fu_order_id f \<and> fu_status g = UNFULFILLED \<and> fu_id g = fresh_id fu_id (fulfillments s) \<and>
      package_lines_checks (fu_items g)"
    and "fulfillments s' = put_row fu_id f' (fulfillments s) @ new"
    and "orders s' = put_row o_id (ord\<lparr>o_fulfillment_status := recompute_order_axis s' ord\<rparr>) (orders s)"
    and "order_items s' = order_items s"
proof -
  let ?req = "dict_of (sq_item_quantities q)"
  from assms obtain f ord checked residual s1 s2 s3 s4 where
    locked: "resolve_locked_package s who fid = ok (f, ord)" and fresh: "\<not> is_shipped f" and
    bounds: "mapE (within_bounds (map_of (line_dict (fu_items f)))
      (map_of (ordered_quantities s (o_id ord))) (shipped_quantities_for_order s (o_id ord))) ?req =
      ok checked" and
    residual: "compute_residual (line_dict (fu_items f)) ?req = ok residual" and
    s1: "flush_package s (f\<lparr>fu_carrier := Some (sq_carrier q), fu_tracking_no := Some (sq_tracking_no q),
      fu_shipped_at := Some (db_now s)\<rparr>) = ok s1" and
    s2: "flush_package s1 (f\<lparr>fu_carrier := Some (sq_carrier q), fu_tracking_no := Some (sq_tracking_no q),
      fu_shipped_at := Some (db_now s), fu_items := List.map_filter (ship_line ?req) (fu_items f)\<rparr>) = ok s2" and
    s3: "(if residual = [] then ok s2 else bindE (create_residual_package ev s2 ord (fu_warehouse_id f)
      residual (List.map_filter (ship_line ?req) (fu_items f))) (\<lambda>(_, s). ok s)) = ok s3" and
    s4: "flush_package s3 (f\<lparr>fu_carrier := Some (sq_carrier q), fu_tracking_no := Some (sq_tracking_no q),
      fu_shipped_at := Some (db_now s), fu_items := List.map_filter (ship_line ?req) (fu_items f),
      fu_status := SHIPPED\<rparr>) = ok s4" and
    s5: "flush_order s4 (ord\<lparr>o_fulfillment_status := recompute_order_axis s4 ord\<rparr>) = ok s'" and
    f': "f' = f\<lparr>fu_carrier := Some (sq_carrier q), fu_tracking_no := Some (sq_tracking_no q),
      fu_shipped_at := Some (db_now s), fu_items := List.map_filter (ship_line ?req) (fu_items f),
      fu_status := SHIPPED\<rparr>"
    by (clarsimp simp: ship_def rsimps Let_def line_dict_def [symmetric] simp del: split_paired_Ex
        cong: if_cong)
  have f: "f \<in> set (fulfillments s)" and ord: "get_order s (fu_order_id f) = Some ord"
    using locked by (auto simp: resolve_locked_package_def get_package_def rsimps dest: row_of_Some
        split: option.splits)
  from ord have oid: "o_id ord = fu_order_id f" by (auto simp: get_order_def dest: row_of_Some)
  have res: "residual = residual_of (line_dict (fu_items f)) ?req"
    using residual by (simp add: compute_residual_def rsimps)
  note keep = s1 [THEN flush_package_ok] s2 [THEN flush_package_ok] s4 [THEN flush_package_ok]
  obtain new where new: "if residual = [] then new = [] else \<exists>g. new = [g] \<and> line_dict (fu_items g) = residual \<and>
      fu_order_id g = fu_order_id f \<and> fu_status g = UNFULFILLED \<and> fu_id g = fresh_id fu_id (fulfillments s) \<and>
      package_lines_checks (fu_items g)" and s3': "s3 = s2\<lparr>fulfillments := fulfillments s2 @ new\<rparr>"
  proof (cases "residual = []")
    case True
    with s3 that [of "[]"] show thesis by simp
  next
    case False
    with s3 obtain g where g: "create_residual_package ev s2 ord (fu_warehouse_id f) residual
        (List.map_filter (ship_line ?req) (fu_items f)) = ok (g, s3)"
      by (auto simp: rsimps)
    from create_residual_ok [OF g] False keep(1,2) oid that [of "[g]"] show thesis by simp
  qed
  have apart: "fu_id f \<notin> fu_id ` set new"
    using new fresh_id_greater [OF f, of fu_id] by (auto split: if_splits)
  have s4': "s4 = s\<lparr>fulfillments := put_row fu_id f' (fulfillments s) @ new\<rparr>"
    using keep s3' apart f' by (simp add: put_row_idle)
  have s': "s' = s4\<lparr>orders := put_row o_id (ord\<lparr>o_fulfillment_status := recompute_order_axis s4 ord\<rparr>) (orders s)\<rparr>"
    using s5 s4' by (auto simp: flush_order_def split: if_splits)
  have "recompute_order_axis s4 ord = recompute_order_axis s' ord"
    by (simp add: s' recompute_order_axis_def ordered_quantities_def items_for_def shipped_quantities_for_order_def)
  with s' s4' have "orders s' = put_row o_id (ord\<lparr>o_fulfillment_status := recompute_order_axis s' ord\<rparr>) (orders s)"
    and "fulfillments s' = put_row fu_id f' (fulfillments s) @ new" and "order_items s' = order_items s"
    by simp_all
  moreover have "package_lines_checks (fu_items f')" using keep(3) f' by simp
  ultimately show ?thesis
    by (intro that [OF f fresh ord mapE_unit [OF bounds] f' _ res new])
qed

section \<open>Conservation\<close>

lemma map_of_ship_lines:
  "map_of (line_dict (List.map_filter (ship_line req) is)) item =
    (if item \<in> fi_order_item_id ` set is then map_of req item else None)"
proof (induction "is")
  case (Cons i "is")
  then show ?case
    by (cases "map_of req (fi_order_item_id i)") (auto simp: line_dict_def ship_line_def map_filter_simps)
qed (simp add: line_dict_def map_filter_simps)

lemma map_of_residual:
  "distinct (map fst lines) \<Longrightarrow> case_option 0 id (map_of (residual_of lines req) item) =
    (case map_of lines item of None \<Rightarrow> 0 | Some carried \<Rightarrow> max 0 (carried - case_option 0 id (map_of req item)))"
proof (induction lines)
  case (Cons l lines)
  obtain k c where l: "l = (k, c)" by (cases l)
  have absent: "k \<notin> fst ` set lines" using Cons.prems l by simp
  then have "map_of (residual_of lines req) k = None"
    by (force simp: residual_of_def map_of_eq_None_iff image_iff)
  with Cons l show ?case by (auto simp: residual_of_def)
qed (simp add: residual_of_def)

lemma dict_of_distinct: "distinct (map fst kvs) \<Longrightarrow> dict_of kvs = kvs"
  unfolding dict_of_def using fold_dict_set_new [of kvs "[]"] by simp

lemma units_lines:
  "package_lines_checks (fu_items f) \<Longrightarrow> units item f = case_option 0 id (map_of (line_dict (fu_items f)) item)"
  by (simp add: units_dict package_lines_checks_def)

lemma within_bounds_ok:
  "within_bounds lines ordered gone r = ok () \<Longrightarrow> \<exists>c n. lines (fst r) = Some c \<and> snd r \<le> c \<and>
    ordered (fst r) = Some n \<and> case_option 0 id (gone (fst r)) + snd r \<le> n"
  by (auto simp: within_bounds_def Let_def split: option.splits if_splits)

lemma units_nonneg: "package_lines_checks (fu_items f) \<Longrightarrow> 0 \<le> units item f"
  unfolding units_def by (rule total_nonneg) (auto simp: package_lines_checks_def list_all_iff less_imp_le)

text \<open>The parcel and the residual share what the package owed.\<close>

lemma parcel_and_residual:
  assumes ship: "ship ev s who fid q = ok (f', s')" and q: "ship_request_ok q" and wf: "packages_wf s"
  obtains f new where "f \<in> set (fulfillments s)" and "\<not> is_shipped f" and "is_shipped f'"
    and "fu_id f' = fu_id f" and "fu_order_id f' = fu_order_id f"
    and "fulfillments s' = put_row fu_id f' (fulfillments s) @ new"
    and "\<forall>g \<in> set new. fu_order_id g = fu_order_id f \<and> \<not> is_shipped g \<and>
      fu_id g = fresh_id fu_id (fulfillments s) \<and> package_lines_checks (fu_items g)"
    and "length new \<le> 1" and "package_lines_checks (fu_items f')"
    and "\<And>item. units item f' = case_option 0 id (map_of (sq_item_quantities q) item)"
    and "\<And>item. units item f = units item f' + total (units item) new"
    and "\<And>item n. map_of (sq_item_quantities q) item = Some n \<Longrightarrow>
      \<exists>m. map_of (ordered_quantities s (fu_order_id f)) item = Some m \<and> shipped s (fu_order_id f) item + n \<le> m"
proof -
  let ?req = "sq_item_quantities q"
  have req: "dict_of ?req = ?req" and dist: "distinct (map fst ?req)" and pos: "\<And>r. r \<in> set ?req \<Longrightarrow> 0 < snd r"
    using q dict_of_distinct by (auto simp: ship_request_ok_def list_all_iff)
  obtain f ord residual new where f: "f \<in> set (fulfillments s)" "\<not> is_shipped f"
    and ord: "get_order s (fu_order_id f) = Some ord"
    and bounds: "\<And>r. r \<in> set ?req \<Longrightarrow> within_bounds (map_of (line_dict (fu_items f)))
      (map_of (ordered_quantities s (o_id ord))) (shipped_quantities_for_order s (o_id ord)) r = ok ()"
    and f': "f' = f\<lparr>fu_carrier := Some (sq_carrier q), fu_tracking_no := Some (sq_tracking_no q),
      fu_shipped_at := Some (db_now s), fu_items := List.map_filter (ship_line ?req) (fu_items f),
      fu_status := SHIPPED\<rparr>"
    and lines': "package_lines_checks (fu_items f')"
    and res: "residual = residual_of (line_dict (fu_items f)) ?req"
    and new: "if residual = [] then new = [] else \<exists>g. new = [g] \<and> line_dict (fu_items g) = residual \<and>
      fu_order_id g = fu_order_id f \<and> fu_status g = UNFULFILLED \<and> fu_id g = fresh_id fu_id (fulfillments s) \<and>
      package_lines_checks (fu_items g)"
    and s': "fulfillments s' = put_row fu_id f' (fulfillments s) @ new"
    by (rule ship_ok [OF ship, unfolded req]) (rule that; assumption)
  have oid: "o_id ord = fu_order_id f" using ord by (auto simp: get_order_def dest: row_of_Some)
  have lines: "package_lines_checks (fu_items f)" using wf f(1) by (auto simp: packages_wf_def list_all_iff)
  then have keys: "distinct (map fst (line_dict (fu_items f)))"
    by (simp add: package_lines_checks_def line_dict_def comp_def)
  have known: "item \<in> fi_order_item_id ` set (fu_items f) \<and> n \<le> units item f \<and>
      (\<exists>m. map_of (ordered_quantities s (fu_order_id f)) item = Some m \<and> shipped s (fu_order_id f) item + n \<le> m)"
    if "map_of ?req item = Some n" for item n
  proof -
    note asked = that
    obtain c m where c: "map_of (line_dict (fu_items f)) item = Some c" "n \<le> c"
      and m: "map_of (ordered_quantities s (o_id ord)) item = Some m"
        "case_option 0 id (shipped_quantities_for_order s (o_id ord) item) + n \<le> m"
      using within_bounds_ok [OF bounds [OF map_of_SomeD [OF asked]]] by auto
    from map_of_SomeD [OF c(1)] have "item \<in> fi_order_item_id ` set (fu_items f)"
      by (auto simp: line_dict_def)
    moreover have "n \<le> units item f" using units_lines [OF lines, of item] c by simp
    ultimately show ?thesis using m by (simp add: oid shipped_def)
  qed
  have units': "units item f' = case_option 0 id (map_of ?req item)" for item
    using known [of item] units_lines [OF lines', of item] f'
    by (cases "map_of ?req item") (auto simp: map_of_ship_lines)
  have left: "total (units item) new = case_option 0 id (map_of residual item)" for item
    using new by (auto simp: units_lines split: if_splits)
  have "units item f = units item f' + total (units item) new" for item
  proof -
    have "0 \<le> case_option 0 id (map_of ?req item)"
      using pos by (auto dest!: map_of_SomeD split: option.splits) fastforce
    moreover have "case_option 0 id (map_of ?req item) \<le> units item f"
      using known [of item] units_nonneg [OF lines, of item] by (cases "map_of ?req item") auto
    ultimately show ?thesis
      using map_of_residual [OF keys, of ?req item] units_lines [OF lines, of item] left [of item] units' [of item]
      by (auto simp: res split: option.splits)
  qed
  then show thesis
    using f new f' lines' units' known s'
    by (intro that [of f new]) (auto simp: is_shipped_def split: if_splits)
qed

lemma total_shipment:
  assumes wf: "packages_wf s" and f: "f \<in> set (fulfillments s)" and id: "fu_id f' = fu_id f"
    and s': "fulfillments s' = put_row fu_id f' (fulfillments s) @ new"
  shows "total h (fulfillments s') = total h (fulfillments s) - h f + h f' + total h new"
  using total_put_row [of fu_id "fulfillments s" f f' h] wf f id s' by (simp add: packages_wf_def)

text \<open>
  C11: a shipment conserves units. For every order line the units planned over all packages stay the
  same, the units shipped grow by exactly what was requested of that order's line, a requested line
  never ships more than was ordered, and the packages keep their constraints and distinct ids.
\<close>

theorem shipment_conserves:
  assumes "ship ev s who fid q = ok (f', s')" and "ship_request_ok q" and "packages_wf s"
  shows "planned s' oid item = planned s oid item \<and>
    shipped s' oid item = shipped s oid item +
      (if oid = fu_order_id f' then case_option 0 id (map_of (sq_item_quantities q) item) else 0) \<and>
    (oid = fu_order_id f' \<and> item \<in> fst ` set (sq_item_quantities q) \<longrightarrow>
      (\<exists>n. map_of (ordered_quantities s oid) item = Some n \<and> shipped s' oid item \<le> n)) \<and>
    packages_wf s'"
proof -
  obtain f new where f: "f \<in> set (fulfillments s)" "\<not> is_shipped f" "is_shipped f'" "fu_id f' = fu_id f"
      "fu_order_id f' = fu_order_id f"
    and s': "fulfillments s' = put_row fu_id f' (fulfillments s) @ new"
    and new: "\<forall>g \<in> set new. fu_order_id g = fu_order_id f \<and> \<not> is_shipped g \<and>
      fu_id g = fresh_id fu_id (fulfillments s) \<and> package_lines_checks (fu_items g)"
    and one: "length new \<le> 1" and lines: "package_lines_checks (fu_items f')"
    and units: "\<And>item. units item f' = case_option 0 id (map_of (sq_item_quantities q) item)"
      "\<And>item. units item f = units item f' + total (units item) new"
    and bound: "\<And>item n. map_of (sq_item_quantities q) item = Some n \<Longrightarrow>
      \<exists>m. map_of (ordered_quantities s (fu_order_id f)) item = Some m \<and> shipped s (fu_order_id f) item + n \<le> m"
    by (rule parcel_and_residual [OF assms]) (rule that; assumption)
  note tot = total_shipment [OF assms(3) f(1,4) s']
  have new_planned: "total (\<lambda>g. if fu_order_id g = oid then units item g else 0) new =
      (if fu_order_id f = oid then total (units item) new else 0)"
    and new_shipped: "total (\<lambda>g. if fu_order_id g = oid \<and> is_shipped g then units item g else 0) new = 0"
  proof -
    show "total (\<lambda>g. if fu_order_id g = oid then units item g else 0) new =
        (if fu_order_id f = oid then total (units item) new else 0)"
      using total_cong [of new "\<lambda>g. if fu_order_id g = oid then units item g else 0"
          "\<lambda>g. if fu_order_id f = oid then units item g else 0"] new by (simp add: total_zero)
    show "total (\<lambda>g. if fu_order_id g = oid \<and> is_shipped g then units item g else 0) new = 0"
      using total_cong [of new "\<lambda>g. if fu_order_id g = oid \<and> is_shipped g then units item g else 0" "\<lambda>_. 0"]
        new by (simp add: total_zero)
  qed
  have planned: "planned s' oid item = planned s oid item"
    using tot [of "\<lambda>g. if fu_order_id g = oid then units item g else 0"] new_planned f(5) units(2) [of item]
    by (simp only: planned_total) (cases "fu_order_id f = oid"; simp)
  have shipped: "shipped s' oid item = shipped s oid item + (if oid = fu_order_id f' then units item f' else 0)"
    using tot [of "\<lambda>g. if fu_order_id g = oid \<and> is_shipped g then units item g else 0"] new_shipped f(2,3,5)
    by (simp only: shipped_total) (cases "fu_order_id f = oid"; simp)
  have "fresh_id fu_id (fulfillments s) \<notin> fu_id ` set (fulfillments s)" by (rule fresh_id_new)
  then have "distinct (map fu_id (fulfillments s'))" using assms(3) new one s'
    by (cases new) (auto simp: packages_wf_def)
  then have wf: "packages_wf s'"
    using assms(3) new lines s' by (auto simp: packages_wf_def list_all_iff put_row_def)
  have "\<exists>n. map_of (ordered_quantities s oid) item = Some n \<and> shipped s' oid item \<le> n"
    if here: "oid = fu_order_id f'" and asked: "item \<in> fst ` set (sq_item_quantities q)"
  proof -
    obtain n where "map_of (sq_item_quantities q) item = Some n"
      using asked by (metis map_of_eq_None_iff option.exhaust)
    with bound [OF this] here shipped units(1) f show ?thesis by auto
  qed
  with planned shipped wf show ?thesis by (simp add: units(1))
qed

section \<open>The roll-up\<close>

definition gone :: "(int \<Rightarrow> int option) \<Rightarrow> int \<Rightarrow> int" where
  "gone dispatched item = case_option 0 id (dispatched item)"

text \<open>
  The roll-up of an order's lines. DELIVERED is kept; no lines is UNFULFILLED; SHIPPED exactly
  when every line is covered; otherwise the first short line decides, and it is PARTIAL_SHIPPED only
  when something of the lines up to and including it has shipped.
\<close>

theorem rollup_stops_at_first_short_line:
  "compute_fulfillment_status lines dispatched current =
    (if current = Some DELIVERED then DELIVERED
     else if lines = [] then UNFULFILLED
     else case dropWhile (\<lambda>l. snd l \<le> gone dispatched (fst l)) lines of
       [] \<Rightarrow> SHIPPED
     | short # _ \<Rightarrow>
        if list_ex (\<lambda>l. gone dispatched (fst l) > 0)
          (takeWhile (\<lambda>l. snd l \<le> gone dispatched (fst l)) lines @ [short])
        then PARTIAL_SHIPPED else UNFULFILLED)"
proof -
  have "rollup lines dispatched any =
    (case dropWhile (\<lambda>l. snd l \<le> gone dispatched (fst l)) lines of
       [] \<Rightarrow> SHIPPED
     | short # _ \<Rightarrow>
        if any \<or> list_ex (\<lambda>l. gone dispatched (fst l) > 0)
          (takeWhile (\<lambda>l. snd l \<le> gone dispatched (fst l)) lines @ [short])
        then PARTIAL_SHIPPED else UNFULFILLED)" for any
  proof (induction lines arbitrary: any)
    case (Cons l lines)
    then show ?case
      by (cases l; cases "dropWhile (\<lambda>l. snd l \<le> gone dispatched (fst l)) lines")
        (simp_all add: gone_def [symmetric] Let_def not_le del: dropWhile_eq_Nil_conv)
  qed simp
  then show ?thesis
    by (simp add: compute_fulfillment_status_def del: dropWhile_eq_Nil_conv split: list.split)
qed

section \<open>A parcel of the sample shop\<close>

definition sample_package :: fulfillment where
  "sample_package = \<lparr>fu_id = 1, fu_merchant_id = 1, fu_fulfillment_no = ''NVF1'', fu_order_id = 1,
    fu_order_no = ''NV1'', fu_warehouse_id = 1, fu_status = UNFULFILLED, fu_carrier = None,
    fu_tracking_no = None, fu_package_count = 1, fu_remark = None, fu_shipped_at = None,
    fu_delivered_at = None, fu_created_at = 0,
    fu_items = [\<lparr>fi_order_item_id = 1, fi_sku_id = 7, fi_product_name = ''Mug'', fi_sku_name = ''Red'',
      fi_quantity = 3\<rparr>]\<rparr>"

definition sample_shipper :: principal where
  "sample_shipper = \<lparr>p_user_id = 2, p_merchant_id = Some 1, p_permissions = {''fulfillment:ship''},
    p_data_scope = Scope_MERCHANT, p_is_staff = True\<rparr>"

definition sample_parcel :: ship_request where
  "sample_parcel = \<lparr>sq_carrier = ''SF'', sq_tracking_no = ''T1'', sq_item_quantities = [(1, 2)]\<rparr>"

definition sample_owing_shop :: shop where
  "sample_owing_shop = sample_shop\<lparr>orders := [order_of_coupon], order_items := [sample_order_item],
    fulfillments := [sample_package]\<rparr>"

theorem shipment_conserves_witness:
  "\<exists>f s. ship sample_env sample_owing_shop sample_shipper 1 sample_parcel = ok (f, s) \<and>
    planned s 1 1 = 3 \<and> shipped s 1 1 = 2 \<and> map fu_order_id (fulfillments s) = [1, 1]"
proof -
  have run: "map_sum (\<lambda>_. ()) (\<lambda>(f, s). map fu_order_id (f # fulfillments s))
      (ship sample_env sample_owing_shop sample_shipper 1 sample_parcel) = Inr [1, 1, 1]"
    and req: "ship_request_ok sample_parcel" and wf: "packages_wf sample_owing_shop"
    and before: "planned sample_owing_shop 1 1 = 3" "shipped sample_owing_shop 1 1 = 0"
    and asked: "case_option 0 id (map_of (sq_item_quantities sample_parcel) (1::int)) = 2"
    by code_simp+
  then obtain f s where ship: "ship sample_env sample_owing_shop sample_shipper 1 sample_parcel = ok (f, s)"
    by (cases "ship sample_env sample_owing_shop sample_shipper 1 sample_parcel") auto
  from shipment_conserves [OF ship req wf, of 1 1] before asked run ship show ?thesis by auto
qed

end
