(* ===== verification/After_Sale_Claims.thy ===== *)
theory After_Sale_Claims
  imports Payment_Service
begin

text \<open>
  The claims of \<open>app/modules/aftersales\<close>: the constraints of their tables (\<open>models.py\<close>), the request
  bodies (\<open>schemas.py\<close>), the queries (\<open>repository.py\<close>) and \<open>AfterSaleService\<close> (\<open>service.py\<close>), which
  files, withdraws, approves and rejects a claim and never touches the order. A claim holds its
  lines, one per order line.
\<close>

section \<open>Vocabulary and constraints\<close>

fun after_sale_type_value :: "after_sale_type \<Rightarrow> string" where
  "after_sale_type_value REFUND_ONLY = ''REFUND_ONLY''"
| "after_sale_type_value RETURN_REFUND = ''RETURN_REFUND''"

fun claim_status_value :: "claim_status \<Rightarrow> string" where
  "claim_status_value Claim_is_PENDING = ''PENDING''"
| "claim_status_value Claim_is_APPROVED = ''APPROVED''"
| "claim_status_value Claim_is_REJECTED = ''REJECTED''"
| "claim_status_value Claim_is_CANCELLED = ''CANCELLED''"
| "claim_status_value Claim_is_COMPLETED = ''COMPLETED''"

fun refund_status_value :: "refund_status \<Rightarrow> string" where
  "refund_status_value Refund_PENDING = ''PENDING''"
| "refund_status_value Refund_SUCCEEDED = ''SUCCEEDED''"
| "refund_status_value Refund_FAILED = ''FAILED''"

definition after_sale_types :: "(after_sale_type \<times> string) list" where
  "after_sale_types = map (\<lambda>t. (t, after_sale_type_value t)) [REFUND_ONLY, RETURN_REFUND]"

definition claim_statuses :: "(claim_status \<times> string) list" where
  "claim_statuses = map (\<lambda>st. (st, claim_status_value st))
    [Claim_is_PENDING, Claim_is_APPROVED, Claim_is_REJECTED, Claim_is_CANCELLED, Claim_is_COMPLETED]"

definition refund_statuses :: "(refund_status \<times> string) list" where
  "refund_statuses = map (\<lambda>st. (st, refund_status_value st))
    [Refund_PENDING, Refund_SUCCEEDED, Refund_FAILED]"

definition is_terminal_claim :: "claim_status \<Rightarrow> bool" where
  "is_terminal_claim st \<longleftrightarrow> st \<in> {Claim_is_REJECTED, Claim_is_CANCELLED, Claim_is_COMPLETED}"

definition after_sale_checks :: "after_sale \<Rightarrow> bool" where
  "after_sale_checks c \<longleftrightarrow>
    0 \<le> af_requested_amount c \<and> 0 \<le> af_approved_amount c \<and> 0 \<le> af_refunded_amount c \<and>
    (af_claim_status c \<noteq> Claim_is_REJECTED \<or> af_reject_reason c \<noteq> None) \<and>
    (af_completed_at c = None \<or> af_processed_at c \<noteq> None)"

definition claim_lines_checks :: "after_sale_item list \<Rightarrow> bool" where
  "claim_lines_checks is \<longleftrightarrow>
    distinct (map ai_order_item_id is) \<and> list_all (\<lambda>i. ai_quantity i > 0) is"

text \<open>The three unique constraints.\<close>

definition after_sale_clash :: "after_sale \<Rightarrow> after_sale \<Rightarrow> bool" where
  "after_sale_clash a b \<longleftrightarrow>
    (af_merchant_id a = af_merchant_id b \<and>
      (af_after_sale_no a = af_after_sale_no b \<or> af_idempotency_key a = af_idempotency_key b)) \<or>
    (af_user_id a = af_user_id b \<and> af_client_request_id a = af_client_request_id b)"

definition claim_is_refundable :: "after_sale \<Rightarrow> bool" where
  "claim_is_refundable c \<longleftrightarrow>
    af_claim_status c = Claim_is_APPROVED \<and> af_refunded_amount c < af_approved_amount c"

definition claim_refundable_amount :: "after_sale \<Rightarrow> int" where
  "claim_refundable_amount c = max (af_approved_amount c - af_refunded_amount c) 0"

section \<open>Writes\<close>

definition flush_claim :: "'a shop_scheme \<Rightarrow> after_sale \<Rightarrow> 'a shop_scheme result" where
  "flush_claim s c =
    (if after_sale_checks c \<and> claim_lines_checks (af_items c) \<and>
        \<not> list_ex (\<lambda>r. af_id r \<noteq> af_id c \<and> after_sale_clash c r) (after_sales s)
     then ok (s\<lparr>after_sales := put_row af_id c (after_sales s)\<rparr>)
     else raise (IntegrityError ''after_sales''))"

definition add_claim :: "'a shop_scheme \<Rightarrow> after_sale \<Rightarrow> (after_sale \<times> 'a shop_scheme) result" where
  "add_claim s draft =
    (let row = draft\<lparr>af_id := fresh_id af_id (after_sales s)\<rparr> in
     if after_sale_checks row \<and> \<not> list_ex (after_sale_clash row) (after_sales s)
     then ok (row, s\<lparr>after_sales := after_sales s @ [row]\<rparr>)
     else raise (IntegrityError ''after_sales''))"

definition approved_claim :: "int \<Rightarrow> int \<Rightarrow> after_sale \<Rightarrow> after_sale" where
  "approved_claim now approved_amount c =
    c\<lparr>af_claim_status := Claim_is_APPROVED, af_approved_amount := approved_amount,
      af_processed_at := Some now, af_reject_reason := None\<rparr>"

definition rejected_claim :: "int \<Rightarrow> string \<Rightarrow> after_sale \<Rightarrow> after_sale" where
  "rejected_claim now reject_reason c =
    c\<lparr>af_claim_status := Claim_is_REJECTED, af_reject_reason := Some (clip 500 reject_reason),
      af_processed_at := Some now\<rparr>"

definition cancelled_claim :: "after_sale \<Rightarrow> after_sale" where
  "cancelled_claim c = c\<lparr>af_claim_status := Claim_is_CANCELLED\<rparr>"

definition apply_claim_refund :: "int \<Rightarrow> int \<Rightarrow> after_sale \<Rightarrow> after_sale" where
  "apply_claim_refund now amount c =
    (let c = c\<lparr>af_refunded_amount := af_refunded_amount c + amount\<rparr> in
     if af_approved_amount c > 0 \<and> af_refunded_amount c \<ge> af_approved_amount c
     then c\<lparr>af_claim_status := Claim_is_COMPLETED, af_completed_at := Some now\<rparr>
     else c)"

section \<open>Queries\<close>

definition get_after_sale :: "'a shop_scheme \<Rightarrow> int \<Rightarrow> after_sale option" where
  "get_after_sale s cid = row_of af_id (after_sales s) cid"

definition get_by_after_sale_no ::
  "'a shop_scheme \<Rightarrow> string \<Rightarrow> int option \<Rightarrow> int option \<Rightarrow> after_sale option" where
  "get_by_after_sale_no s after_sale_no merchant_id user_id =
    find (\<lambda>c. af_after_sale_no c = after_sale_no \<and>
      (case merchant_id of None \<Rightarrow> True | Some m \<Rightarrow> af_merchant_id c = m) \<and>
      (case user_id of None \<Rightarrow> True | Some u \<Rightarrow> af_user_id c = u)) (after_sales s)"

definition claims_for_order :: "'a shop_scheme \<Rightarrow> int \<Rightarrow> after_sale list" where
  "claims_for_order s oid =
    sort_key af_created_at (sort_key af_id (filter (\<lambda>c. af_order_id c = oid) (after_sales s)))"

definition open_claim_for_order :: "'a shop_scheme \<Rightarrow> int \<Rightarrow> after_sale option" where
  "open_claim_for_order s oid =
    (case sort_key (\<lambda>c. - af_created_at c) (sort_key (\<lambda>c. - af_id c)
        (filter (\<lambda>c. af_order_id c = oid \<and>
          af_claim_status c \<in> {Claim_is_PENDING, Claim_is_APPROVED}) (after_sales s))) of
       [] \<Rightarrow> None
     | c # _ \<Rightarrow> Some c)"

definition claim_lines :: "after_sale \<Rightarrow> after_sale_item list" where
  "claim_lines c = sort_key ai_order_item_id (af_items c)"

definition paginate_claims :: "after_sale list \<Rightarrow> int \<Rightarrow> nat \<Rightarrow> after_sale list \<times> nat" where
  "paginate_claims rows page page_size =
    (take page_size (drop (nat (max (page - 1) 0) * page_size)
       (sort_key (\<lambda>c. - af_created_at c) (sort_key (\<lambda>c. - af_id c) rows))), length rows)"

definition list_customer_claims ::
  "'a shop_scheme \<Rightarrow> int \<Rightarrow> claim_status option \<Rightarrow> int \<Rightarrow> nat \<Rightarrow> after_sale list \<times> nat" where
  "list_customer_claims s user_id status page page_size =
    paginate_claims (filter (\<lambda>c. af_user_id c = user_id \<and>
      (case status of None \<Rightarrow> True | Some st \<Rightarrow> af_claim_status c = st)) (after_sales s)) page page_size"

definition list_admin_claims ::
  "'a shop_scheme \<Rightarrow> int option \<Rightarrow> claim_status option \<Rightarrow> string option \<Rightarrow> after_sale_type option \<Rightarrow>
   int \<Rightarrow> nat \<Rightarrow> after_sale list \<times> nat" where
  "list_admin_claims s merchant_id status order_no kind page page_size =
    paginate_claims (filter (\<lambda>c.
      (case merchant_id of None \<Rightarrow> True | Some m \<Rightarrow> af_merchant_id c = m) \<and>
      (case status of None \<Rightarrow> True | Some st \<Rightarrow> af_claim_status c = st) \<and>
      (case order_no of None \<Rightarrow> True | Some n \<Rightarrow> af_order_no c = n) \<and>
      (case kind of None \<Rightarrow> True | Some t \<Rightarrow> af_type c = t)) (after_sales s)) page page_size"

definition claim_numbers_by_id :: "'a shop_scheme \<Rightarrow> int list \<Rightarrow> (int \<times> string) list" where
  "claim_numbers_by_id s ids =
    map (\<lambda>c. (af_id c, af_after_sale_no c)) (filter (\<lambda>c. af_id c \<in> set ids) (after_sales s))"

section \<open>Request bodies\<close>

record claim_line =
  cl_order_item_id :: int
  cl_quantity :: int

text \<open>Field constraints of one line; lines on the same order line are merged, the first keeps its place.\<close>

definition claim_line_valid :: "claim_line \<Rightarrow> bool" where
  "claim_line_valid l \<longleftrightarrow> cl_order_item_id l > 0 \<and> 0 < cl_quantity l \<and> cl_quantity l \<le> 1000000"

definition merge_claim_line :: "(int \<times> int) list \<Rightarrow> claim_line \<Rightarrow> (int \<times> int) list" where
  "merge_claim_line merged l =
    dict_set (cl_order_item_id l)
      ((case map_of merged (cl_order_item_id l) of None \<Rightarrow> 0 | Some q \<Rightarrow> q) + cl_quantity l) merged"

definition merge_claim_lines :: "claim_line list \<Rightarrow> claim_line list" where
  "merge_claim_lines ls =
    map (\<lambda>(i, q). \<lparr>cl_order_item_id = i, cl_quantity = q\<rparr>) (foldl merge_claim_line [] ls)"

record apply_request =
  aq_order_no :: string
  aq_type :: after_sale_type
  aq_items :: "claim_line list"
  aq_requested_amount :: int
  aq_reason :: string
  aq_description :: "string option"
  aq_evidence_urls :: "string list option"
  aq_client_request_id :: string

text \<open>
  \<open>ApplyAfterSaleRequest\<close>: the fields as sent, the type as text. \<open>None\<close> is a body refused with 422.
  A line whose merged quantity leaves the range is refused like any other.
\<close>

definition validate_apply ::
  "string \<Rightarrow> string \<Rightarrow> claim_line list \<Rightarrow> int \<Rightarrow> string \<Rightarrow> string option \<Rightarrow> string list option \<Rightarrow> string \<Rightarrow>
   apply_request option" where
  "validate_apply order_no kind items amount reason description urls client_request_id =
    (case find (\<lambda>v. snd v = kind) after_sale_types of
       None \<Rightarrow> None
     | Some v \<Rightarrow>
       if order_no \<noteq> [] \<and> char_count order_no \<le> 32 \<and> items \<noteq> [] \<and> length items \<le> 100 \<and>
          list_all claim_line_valid items \<and> list_all claim_line_valid (merge_claim_lines items) \<and>
          0 < amount \<and> reason \<noteq> [] \<and> char_count reason \<le> 500 \<and> strip_text reason \<noteq> [] \<and>
          (case description of None \<Rightarrow> True | Some d \<Rightarrow> char_count d \<le> 1000) \<and>
          (case urls of None \<Rightarrow> True | Some us \<Rightarrow> length us \<le> 20) \<and>
          client_request_id \<noteq> [] \<and> char_count client_request_id \<le> 64 \<and> strip_text client_request_id \<noteq> []
       then Some \<lparr>aq_order_no = order_no, aq_type = fst v, aq_items = merge_claim_lines items,
              aq_requested_amount = amount, aq_reason = strip_text reason,
              aq_description = description, aq_evidence_urls = urls,
              aq_client_request_id = strip_text client_request_id\<rparr>
       else None)"

text \<open>A blank reason becomes an absent one.\<close>

definition blank_becomes_absent :: "string option \<Rightarrow> string option" where
  "blank_becomes_absent reason =
    (case reason of None \<Rightarrow> None | Some r \<Rightarrow> if strip_text r = [] then None else Some (strip_text r))"

end
