(* ===== verification/After_Sale_Service.thy ===== *)
theory After_Sale_Service
  imports After_Sale_Claims
begin

text \<open>
  \<open>AfterSaleService\<close> of \<open>app/modules/aftersales/service.py\<close>: what a customer may still claim of an
  order, the filing of a claim under its idempotency key, the withdrawal, the merchant's answers and
  the reads of the customer and the console. Nothing here writes an order, a payment or the stock.
\<close>

section \<open>Eligibility\<close>

definition after_sale_apply_scope :: string where
  "after_sale_apply_scope = ''after-sale:apply''"

definition live_claim_statuses :: "claim_status set" where
  "live_claim_statuses = {Claim_is_PENDING, Claim_is_APPROVED, Claim_is_COMPLETED}"

definition claimable_payment_statuses :: "payment_status set" where
  "claimable_payment_statuses = {PAID, PARTIAL_REFUNDED, REFUNDED}"

definition dead_order_statuses :: "order_status set" where
  "dead_order_statuses = {CANCELLED, CLOSED}"

record claim_eligibility =
  el_amount_cap :: int
  el_claimable_quantity :: "(int \<times> int) list"
  el_line_payables :: "(int \<times> int) list"
  el_line_refunded :: "(int \<times> int) list"

definition has_capacity :: "claim_eligibility \<Rightarrow> bool" where
  "has_capacity e \<longleftrightarrow>
    el_amount_cap e > 0 \<and> list_ex (\<lambda>q. snd q > 0) (el_claimable_quantity e)"

text \<open>The units of an order line on live claims; a line that no live claim names counts none.\<close>

definition claimed_units :: "after_sale list \<Rightarrow> int \<Rightarrow> int" where
  "claimed_units claims item =
    (\<Sum>c \<leftarrow> claims. \<Sum>i \<leftarrow> claim_lines c. if ai_order_item_id i = item then ai_quantity i else 0)"

definition live_claimed_quantity :: "'a shop_scheme \<Rightarrow> int \<Rightarrow> int option \<Rightarrow> int \<Rightarrow> int" where
  "live_claimed_quantity s oid exclude item =
    claimed_units (filter (\<lambda>c. exclude \<noteq> Some (af_id c) \<and> af_claim_status c \<in> live_claim_statuses)
      (claims_for_order s oid)) item"

definition remaining_units :: "order_item \<Rightarrow> int \<Rightarrow> int" where
  "remaining_units i claimed = max (oi_quantity i - claimed) 0"

definition remaining_amount :: "order_item \<Rightarrow> int" where
  "remaining_amount i = max (oi_payable_amount i - oi_refunded_amount i) 0"

definition line_cap :: "order_item \<Rightarrow> int \<Rightarrow> int" where
  "line_cap i claimed =
    (if remaining_units i claimed > 0 \<and> oi_quantity i > 0
     then remaining_amount i * remaining_units i claimed div oi_quantity i else 0)"

definition eligibility ::
  "'a shop_scheme \<Rightarrow> order \<Rightarrow> (int \<times> int) list \<Rightarrow> int option \<Rightarrow> claim_eligibility result" where
  "eligibility s ord requested exclude =
    require (o_order_status ord \<notin> dead_order_statuses)
      (AppError (After_Sale_Err AfterSaleNotEligibleError))
    (require (o_payment_status ord \<in> claimable_payment_statuses)
      (AppError (After_Sale_Err AfterSaleNotEligibleError))
    (let items = items_for s (o_id ord);
         claimed = live_claimed_quantity s (o_id ord) exclude;
         caps = map (\<lambda>i. (oi_id i, line_cap i (claimed (oi_id i)))) items;
         named = remdups (map fst requested) in
     require (list_all (\<lambda>r. fst r \<in> oi_id ` set items) requested)
       (AppError (After_Sale_Err AfterSaleNotEligibleError))
     (let e = \<lparr>el_amount_cap = (\<Sum>l \<leftarrow> named. case map_of caps l of None \<Rightarrow> 0 | Some c \<Rightarrow> c),
            el_claimable_quantity =
              map (\<lambda>i. (oi_id i, remaining_units i (claimed (oi_id i)))) items,
            el_line_payables = map (\<lambda>i. (oi_id i, oi_payable_amount i)) items,
            el_line_refunded = map (\<lambda>i. (oi_id i, oi_refunded_amount i)) items\<rparr>
      in require (has_capacity e) (AppError (After_Sale_Err AfterSaleNotEligibleError)) (ok e))))"

section \<open>Filing a claim\<close>

fun join_with :: "string \<Rightarrow> string list \<Rightarrow> string" where
  "join_with sep [] = []"
| "join_with sep [t] = t"
| "join_with sep (t # u # ts) = t @ sep @ join_with sep (u # ts)"

text \<open>The text under the digest: the lines sorted by line, then by quantity.\<close>

definition claim_payload :: "string \<Rightarrow> after_sale_type \<Rightarrow> int \<Rightarrow> (int \<times> int) list \<Rightarrow> string" where
  "claim_payload order_no kind requested_amount items =
    join_with ''|''
      [''order_no='' @ order_no, ''type='' @ after_sale_type_value kind,
       ''amount='' @ int_text requested_amount,
       ''items='' @ join_with '';'' (map (\<lambda>(l, q). int_text l @ '':'' @ int_text q)
         (sort_key fst (sort_key snd items)))]"

definition request_hash_for_claim ::
  "env \<Rightarrow> string \<Rightarrow> after_sale_type \<Rightarrow> int \<Rightarrow> (int \<times> int) list \<Rightarrow> string" where
  "request_hash_for_claim ev order_no kind requested_amount items =
    ev_sha256 ev (claim_payload order_no kind requested_amount items)"

definition replayed_claim ::
  "'a shop_scheme \<Rightarrow> idempotency_record \<Rightarrow> string \<Rightarrow> after_sale result" where
  "replayed_claim s existing request_hash =
    require (\<not> ir_request_hash existing \<noteq> request_hash)
      (AppError (Idempotency IdempotencyPayloadMismatchError))
    (require (ir_status existing = Claim_COMPLETED)
      (AppError (Idempotency IdempotencyInProgressError))
    (case ir_resource_id existing of
       None \<Rightarrow> app_raise (After_Sale_Err AfterSaleNotFoundError)
     | Some cid \<Rightarrow>
       (case get_after_sale s cid of
          None \<Rightarrow> app_raise (After_Sale_Err AfterSaleNotFoundError)
        | Some c \<Rightarrow> ok c)))"

definition new_claim :: "int \<Rightarrow> order \<Rightarrow> apply_request \<Rightarrow> string \<Rightarrow> string \<Rightarrow> after_sale" where
  "new_claim now ord q key request_hash =
    \<lparr>af_id = 0, af_merchant_id = o_merchant_id ord, af_after_sale_no = [], af_order_id = o_id ord,
     af_order_no = o_order_no ord, af_user_id = o_user_id ord, af_type = aq_type q,
     af_claim_status = Claim_is_PENDING, af_requested_amount = aq_requested_amount q,
     af_approved_amount = 0, af_refunded_amount = 0, af_reason = aq_reason q,
     af_description = aq_description q, af_evidence_urls = aq_evidence_urls q,
     af_reject_reason = None, af_processed_at = None, af_completed_at = None,
     af_idempotency_key = key, af_client_request_id = aq_client_request_id q,
     af_request_hash = request_hash, af_created_at = now, af_items = []\<rparr>"

definition claim_line_of :: "order_item list \<Rightarrow> int \<times> int \<Rightarrow> after_sale_item result" where
  "claim_line_of items r =
    (case find (\<lambda>i. oi_id i = fst r) items of
       None \<Rightarrow> raise (PythonError ''KeyError'')
     | Some i \<Rightarrow> ok \<lparr>ai_order_item_id = fst r, ai_product_name = oi_product_name i,
         ai_sku_name = oi_sku_name i, ai_quantity = snd r\<rparr>)"

text \<open>The rows: the claim under an empty number, its number from the id, its lines.\<close>

definition insert_claim ::
  "env \<Rightarrow> 'a shop_scheme \<Rightarrow> order \<Rightarrow> apply_request \<Rightarrow> (int \<times> int) list \<Rightarrow> string \<Rightarrow> string \<Rightarrow>
   (after_sale \<times> 'a shop_scheme) result" where
  "insert_claim ev s ord q items key request_hash =
    bindE (add_claim s (new_claim (db_now s) ord q key request_hash)) (\<lambda>(row, s).
    bindE (mapE (claim_line_of (items_for s (o_id ord))) items) (\<lambda>lines.
    let c = row\<lparr>af_after_sale_no :=
          public_no ''NVAS'' (db_now s) (nat (af_id row)), af_items := lines\<rparr>
    in bindE (flush_claim s c) (\<lambda>s. ok (c, s))))"

definition within_claimable :: "claim_eligibility \<Rightarrow> int \<times> int \<Rightarrow> bool" where
  "within_claimable e r \<longleftrightarrow>
    \<not> snd r > (case map_of (el_claimable_quantity e) (fst r) of None \<Rightarrow> 0 | Some q \<Rightarrow> q)"

definition requested_lines :: "apply_request \<Rightarrow> (int \<times> int) list" where
  "requested_lines q =
    sort_key fst (map (\<lambda>l. (cl_order_item_id l, cl_quantity l)) (aq_items q))"

text \<open>A new claim, once the key is known to be free.\<close>

definition file_claim ::
  "env \<Rightarrow> 'a shop_scheme \<Rightarrow> principal \<Rightarrow> apply_request \<Rightarrow> string \<Rightarrow> string \<Rightarrow>
   (after_sale \<times> 'a shop_scheme) result" where
  "file_claim ev s who q key request_hash =
    (let items = requested_lines q in
     case get_by_order_no s (aq_order_no q) None (Some (p_user_id who)) of
       None \<Rightarrow> app_raise (Order_Err OrderNotFoundError)
     | Some ord \<Rightarrow>
        bindE (eligibility s ord items None) (\<lambda>e.
        require (list_all (within_claimable e) items)
          (AppError (After_Sale_Err AfterSaleNotEligibleError))
        (require (\<not> aq_requested_amount q > el_amount_cap e)
          (AppError (After_Sale_Err AfterSaleNotEligibleError))
        (case insert_in_progress s after_sale_apply_scope key request_hash (Some ''after_sale'') None of
           None \<Rightarrow> app_raise (Idempotency IdempotencyInProgressError)
         | Some (record, s) \<Rightarrow>
            bindE (insert_claim ev s ord q items key request_hash) (\<lambda>(c, s).
            ok (c, mark_completed s record ''after_sale'' (af_id c) 0
              (Some (Claim_Snapshot (af_after_sale_no c) (o_order_no ord) (af_requested_amount c)
                (db_now s)))))))))"

definition apply_claim ::
  "env \<Rightarrow> 'a shop_scheme \<Rightarrow> principal \<Rightarrow> apply_request \<Rightarrow> string \<Rightarrow>
   (after_sale \<times> 'a shop_scheme) result" where
  "apply_claim ev s who q key =
    require (key \<noteq> []) (AppError (Idempotency IdempotencyKeyRequiredError))
    (let request_hash = request_hash_for_claim ev (aq_order_no q) (aq_type q)
           (aq_requested_amount q) (requested_lines q) in
     case get_claim s after_sale_apply_scope key of
       Some existing \<Rightarrow> bindE (replayed_claim s existing request_hash) (\<lambda>c. ok (c, s))
     | None \<Rightarrow> file_claim ev s who q key request_hash)"

section \<open>The answers to a claim\<close>

text \<open>The scoped read, then the lock by number.\<close>

definition locked_claim ::
  "'a shop_scheme \<Rightarrow> string \<Rightarrow> int option \<Rightarrow> int option \<Rightarrow> after_sale result" where
  "locked_claim s after_sale_no user_id merchant_id =
    (case get_by_after_sale_no s after_sale_no merchant_id user_id of
       None \<Rightarrow> app_raise (After_Sale_Err AfterSaleNotFoundError)
     | Some _ \<Rightarrow>
       (case get_by_after_sale_no s after_sale_no None None of
          None \<Rightarrow> app_raise (After_Sale_Err AfterSaleNotFoundError)
        | Some c \<Rightarrow> ok c))"

definition claim_merchant_filter :: "principal \<Rightarrow> int result" where
  "claim_merchant_filter who =
    (case p_merchant_id who of None \<Rightarrow> app_raise (Common ValidationError) | Some m \<Rightarrow> ok m)"

definition cancel_claim ::
  "'a shop_scheme \<Rightarrow> principal \<Rightarrow> string \<Rightarrow> string option \<Rightarrow> (after_sale \<times> 'a shop_scheme) result" where
  "cancel_claim s who after_sale_no reason =
    bindE (locked_claim s after_sale_no (Some (p_user_id who)) None) (\<lambda>c.
    require (\<not> af_claim_status c \<noteq> Claim_is_PENDING)
      (AppError (After_Sale_Err AfterSaleStateInvalidError))
    (let c' = cancelled_claim (c\<lparr>af_reject_reason := reason\<rparr>)
     in bindE (flush_claim s c') (\<lambda>s. ok (c', s))))"

definition answerable :: "claim_status set" where
  "answerable = {Claim_is_PENDING, Claim_is_APPROVED}"

definition approve_claim ::
  "'a shop_scheme \<Rightarrow> principal \<Rightarrow> string \<Rightarrow> int \<Rightarrow> (after_sale \<times> 'a shop_scheme) result" where
  "approve_claim s who after_sale_no approved_amount =
    bindE (require_permission who ''after_sale:review'') (\<lambda>_.
    bindE (claim_merchant_filter who) (\<lambda>m.
    bindE (locked_claim s after_sale_no None (Some m)) (\<lambda>c.
    require (\<not> af_claim_status c \<notin> answerable)
      (AppError (After_Sale_Err AfterSaleStateInvalidError))
    (require (\<not> (af_refunded_amount c > 0 \<and> approved_amount < af_refunded_amount c))
      (AppError (After_Sale_Err RefundAmountInvalidError))
    (require (\<not> approved_amount > af_requested_amount c)
      (AppError (After_Sale_Err RefundAmountInvalidError))
    (let c' = approved_claim (db_now s) approved_amount c
     in bindE (flush_claim s c') (\<lambda>s. ok (c', s))))))))"

definition reject_claim ::
  "'a shop_scheme \<Rightarrow> principal \<Rightarrow> string \<Rightarrow> string \<Rightarrow> (after_sale \<times> 'a shop_scheme) result" where
  "reject_claim s who after_sale_no reason =
    bindE (require_permission who ''after_sale:review'') (\<lambda>_.
    bindE (claim_merchant_filter who) (\<lambda>m.
    bindE (locked_claim s after_sale_no None (Some m)) (\<lambda>c.
    require (\<not> af_claim_status c \<notin> answerable)
      (AppError (After_Sale_Err AfterSaleStateInvalidError))
    (require (\<not> af_refunded_amount c > 0) (AppError (After_Sale_Err AfterSaleStateInvalidError))
    (let c' = rejected_claim (db_now s) reason c
     in bindE (flush_claim s c') (\<lambda>s. ok (c', s)))))))"

section \<open>Reads\<close>

definition get_customer_claim :: "'a shop_scheme \<Rightarrow> principal \<Rightarrow> string \<Rightarrow> after_sale result" where
  "get_customer_claim s who after_sale_no =
    (case get_by_after_sale_no s after_sale_no None (Some (p_user_id who)) of
       None \<Rightarrow> app_raise (After_Sale_Err AfterSaleNotFoundError)
     | Some c \<Rightarrow> ok c)"

definition get_admin_claim :: "'a shop_scheme \<Rightarrow> principal \<Rightarrow> string \<Rightarrow> after_sale result" where
  "get_admin_claim s who after_sale_no =
    bindE (require_permission who ''after_sale:read'') (\<lambda>_.
    bindE (claim_merchant_filter who) (\<lambda>m.
    case get_by_after_sale_no s after_sale_no (Some m) None of
      None \<Rightarrow> app_raise (After_Sale_Err AfterSaleNotFoundError)
    | Some c \<Rightarrow> ok c))"

definition service_list_customer_claims ::
  "'a shop_scheme \<Rightarrow> principal \<Rightarrow> string option \<Rightarrow> int \<Rightarrow> nat \<Rightarrow> (after_sale list \<times> nat) result" where
  "service_list_customer_claims s who status page page_size =
    bindE (validate_status_filter claim_statuses status) (\<lambda>st.
    ok (list_customer_claims s (p_user_id who) st page page_size))"

definition service_list_admin_claims ::
  "'a shop_scheme \<Rightarrow> principal \<Rightarrow> string option \<Rightarrow> string option \<Rightarrow> int \<Rightarrow> nat \<Rightarrow>
   (after_sale list \<times> nat) result" where
  "service_list_admin_claims s who status order_no page page_size =
    bindE (require_permission who ''after_sale:read'') (\<lambda>_.
    bindE (validate_status_filter claim_statuses status) (\<lambda>st.
    require (\<not> (case order_no of None \<Rightarrow> False | Some n \<Rightarrow> strip_text n = []))
      (AppError (Common ValidationError))
    (bindE (claim_merchant_filter who) (\<lambda>m.
     ok (list_admin_claims s (Some m) st order_no None page page_size)))))"

end
