(* ===== verification/Refund_Workflow.thy ===== *)
theory Refund_Workflow
  imports After_Sale_Service Pricing_Allocation
begin

text \<open>
  Money out: the split of a refund over the lines of its claim (\<open>refunds.py\<close>), \<open>RefundRepository\<close>,
  \<open>RefundWorkflow\<close> (\<open>workflow.py\<close>), the figures the console shows (\<open>serializers.py\<close>) and the endpoint
  (\<open>api/admin.py\<close>) of \<open>app/modules/aftersales\<close>.
\<close>

section \<open>The split\<close>

text \<open>
  One backward pass of \<open>_distribute_within_capacity\<close>: the first argument is one more than the index
  about to be visited. The result is the shares, the remainder and whether a unit was placed.
\<close>

fun distribute_pass ::
  "nat \<Rightarrow> int list \<Rightarrow> int list \<Rightarrow> int \<Rightarrow> bool \<Rightarrow> int list \<times> int \<times> bool" where
  "distribute_pass 0 counts shares remainder placed = (shares, remainder, placed)"
| "distribute_pass (Suc index) counts shares remainder placed =
    (if remainder = 0 then (shares, remainder, placed)
     else if shares ! index < counts ! index
     then distribute_pass index counts (shares[index := shares ! index + 1]) (remainder - 1) True
     else distribute_pass index counts shares remainder placed)"

lemma distribute_pass_remainder:
  "snd (snd (distribute_pass k counts shares r placed)) \<Longrightarrow> 0 \<le> r \<Longrightarrow>
    fst (snd (distribute_pass k counts shares r placed)) \<le> r \<and>
    (\<not> placed \<longrightarrow> fst (snd (distribute_pass k counts shares r placed)) < r)"
  by (induction k counts shares r placed rule: distribute_pass.induct) (auto split: if_splits)

lemma distribute_pass_progress:
  assumes "(shares', y) = distribute_pass k counts shares r False" and "(r', placed) = y"
    and "placed" and "0 < r"
  shows "r' < r"
  using distribute_pass_remainder [of k counts shares r False] assms(3,4)
  unfolding assms(1,2) [symmetric] by simp

function distribute_rounds :: "int list \<Rightarrow> int list \<Rightarrow> int \<Rightarrow> int list result" where
  "distribute_rounds counts shares remainder =
    (if remainder > 0
     then case distribute_pass (length counts) counts shares remainder False of
       (shares', remainder', placed) \<Rightarrow>
         if placed then distribute_rounds counts shares' remainder'
         else app_raise (Common ValidationError)
     else ok shares)"
  by pat_completeness auto

termination
  by (relation "measure (\<lambda>(_, _, r). nat r)") (auto dest: distribute_pass_progress)

declare distribute_rounds.simps [simp del]

definition distribute_within_capacity :: "int \<Rightarrow> int list \<Rightarrow> int list result" where
  "distribute_within_capacity amount weights =
    (let weight_sum = sum_list weights in
     if weight_sum = 0 \<or> amount > weight_sum then app_raise (Common ValidationError)
     else
       let shares = map (\<lambda>w. min (amount * w div weight_sum) w) weights
       in distribute_rounds weights shares (amount - sum_list shares))"

text \<open>The shares per line, sorted by line.\<close>

definition allocate_refund_across_lines :: "int \<Rightarrow> (int \<times> int) list \<Rightarrow> (int \<times> int) list result" where
  "allocate_refund_across_lines amount line_payables =
    require (\<not> amount \<le> 0) (AppError (Common ValidationError))
    (require (line_payables \<noteq> []) (AppError (Common ValidationError))
    (let weights = map snd line_payables in
     require (\<not> sum_list weights < amount) (AppError (Common ValidationError))
     (bindE (allocate_pro_rata (PyInt amount) (map PyInt weights)) (\<lambda>shares.
      bindE (if amount > sum_list weights \<or> list_ex (\<lambda>(x, w). x > w) (zip shares weights)
             then distribute_within_capacity amount weights else ok shares) (\<lambda>shares.
      ok (sort_key fst (zip (map fst line_payables) shares)))))))"

definition check_per_line_cap ::
  "(int \<times> int) list \<Rightarrow> (int \<Rightarrow> int option) \<Rightarrow> (int \<Rightarrow> int option) \<Rightarrow> unit result" where
  "check_per_line_cap shares line_payables already_refunded =
    (if list_ex (\<lambda>(i, x). case_option 0 id (already_refunded i) + x > case_option 0 id (line_payables i))
        shares
     then app_raise (After_Sale_Err RefundExceedsItemError) else ok ())"

definition movement_quantity_for ::
  "after_sale_type \<Rightarrow> (int \<times> int) list \<Rightarrow> (int \<times> int) list \<Rightarrow> (int \<times> int) list" where
  "movement_quantity_for kind claim_items shares =
    (if kind \<noteq> RETURN_REFUND then []
     else filter (\<lambda>(i, q). case_option 0 id (map_of shares i) > 0 \<and> q > 0) (sort_key fst claim_items))"

definition return_in_movement_key :: "string \<Rightarrow> int \<Rightarrow> string" where
  "return_in_movement_key after_sale_no order_item_id =
    join_colon (join_colon ''return-in'' after_sale_no) (int_text order_item_id)"

section \<open>Refund rows\<close>

definition refund_clash :: "refund \<Rightarrow> refund \<Rightarrow> bool" where
  "refund_clash a b \<longleftrightarrow> rf_merchant_id a = rf_merchant_id b \<and>
    (rf_refund_no a = rf_refund_no b \<or> rf_idempotency_key a = rf_idempotency_key b)"

definition insert_succeeded :: "'a shop_scheme \<Rightarrow> refund \<Rightarrow> (refund \<times> 'a shop_scheme) result" where
  "insert_succeeded s draft =
    (let row = draft\<lparr>rf_id := fresh_id rf_id (refunds s)\<rparr> in
     if rf_amount row > 0 \<and> \<not> list_ex (refund_clash row) (refunds s)
     then ok (row, s\<lparr>refunds := refunds s @ [row]\<rparr>)
     else raise (IntegrityError ''refunds''))"

definition flush_refund :: "'a shop_scheme \<Rightarrow> refund \<Rightarrow> 'a shop_scheme result" where
  "flush_refund s r =
    (if rf_amount r > 0 \<and> \<not> list_ex (\<lambda>q. rf_id q \<noteq> rf_id r \<and> refund_clash r q) (refunds s)
     then ok (s\<lparr>refunds := put_row rf_id r (refunds s)\<rparr>)
     else raise (IntegrityError ''refunds''))"

definition get_by_refund_no :: "'a shop_scheme \<Rightarrow> string \<Rightarrow> int option \<Rightarrow> int option \<Rightarrow> refund option" where
  "get_by_refund_no s refund_no merchant_id user_id =
    find (\<lambda>r. rf_refund_no r = refund_no \<and>
      (case merchant_id of None \<Rightarrow> True | Some m \<Rightarrow> rf_merchant_id r = m) \<and>
      (case user_id of None \<Rightarrow> True | Some u \<Rightarrow> rf_user_id r = u)) (refunds s)"

definition refund_by_idempotency_key :: "'a shop_scheme \<Rightarrow> int \<Rightarrow> string \<Rightarrow> refund option" where
  "refund_by_idempotency_key s merchant_id key =
    find (\<lambda>r. rf_merchant_id r = merchant_id \<and> rf_idempotency_key r = key) (refunds s)"

definition list_for_after_sale :: "'a shop_scheme \<Rightarrow> int \<Rightarrow> refund list" where
  "list_for_after_sale s cid =
    sort_key rf_created_at (sort_key rf_id (filter (\<lambda>r. rf_after_sale_id r = cid) (refunds s)))"

definition total_for_payment :: "'a shop_scheme \<Rightarrow> int \<Rightarrow> int" where
  "total_for_payment s pid =
    (\<Sum>r \<leftarrow> filter (\<lambda>r. rf_payment_id r = Some pid) (refunds s). rf_amount r)"

definition total_for_after_sale :: "'a shop_scheme \<Rightarrow> int \<Rightarrow> int" where
  "total_for_after_sale s cid =
    (\<Sum>r \<leftarrow> filter (\<lambda>r. rf_after_sale_id r = cid) (refunds s). rf_amount r)"

definition list_admin_refunds ::
  "'a shop_scheme \<Rightarrow> int option \<Rightarrow> refund_status option \<Rightarrow> string option \<Rightarrow> int \<Rightarrow> nat \<Rightarrow>
   refund list \<times> nat" where
  "list_admin_refunds s merchant_id status order_no page page_size =
    (let rows = filter (\<lambda>r.
          (case merchant_id of None \<Rightarrow> True | Some m \<Rightarrow> rf_merchant_id r = m) \<and>
          (case status of None \<Rightarrow> True | Some st \<Rightarrow> rf_status r = st) \<and>
          (case order_no of None \<Rightarrow> True | Some n \<Rightarrow> rf_order_no r = n)) (refunds s)
     in (take page_size (drop (nat (max (page - 1) 0) * page_size)
           (sort_key (\<lambda>r. - rf_created_at r) (sort_key (\<lambda>r. - rf_id r) rows))), length rows))"

section \<open>The caps\<close>

definition executable_claim_statuses :: "claim_status set" where
  "executable_claim_statuses = {Claim_is_APPROVED}"

definition refundable_payment_statuses :: "record_status set" where
  "refundable_payment_statuses = {Pay_SUCCESS, Pay_PARTIAL_REFUNDED, Pay_REFUNDED}"

definition refund_payload :: "string \<Rightarrow> int \<Rightarrow> string option \<Rightarrow> string \<Rightarrow> string" where
  "refund_payload after_sale_no amount reason key =
    join_with ''|'' [''after_sale_no='' @ after_sale_no, ''amount='' @ int_text amount,
      ''reason='' @ case_option [] id reason, ''key='' @ key]"

definition request_hash_for_refund :: "env \<Rightarrow> string \<Rightarrow> int \<Rightarrow> string option \<Rightarrow> string \<Rightarrow> string" where
  "request_hash_for_refund ev after_sale_no amount reason key =
    ev_sha256 ev (refund_payload after_sale_no amount reason key)"

definition existing_refund_for_key ::
  "'a shop_scheme \<Rightarrow> int \<Rightarrow> string \<Rightarrow> string \<Rightarrow> refund option result" where
  "existing_refund_for_key s merchant_id key request_hash =
    (case refund_by_idempotency_key s merchant_id key of
       None \<Rightarrow> ok None
     | Some r \<Rightarrow>
        require (\<not> rf_request_hash r \<noteq> request_hash)
          (AppError (After_Sale_Err RefundAlreadyCompletedError)) (ok (Some r)))"

definition locked_payment :: "'a shop_scheme \<Rightarrow> after_sale \<Rightarrow> payment result" where
  "locked_payment s c =
    (case get_latest_for_order s (af_order_id c) of
       None \<Rightarrow> app_raise (After_Sale_Err AfterSaleNotEligibleError)
     | Some latest \<Rightarrow>
       (case get_payment s (pay_id latest) of
          None \<Rightarrow> app_raise (After_Sale_Err AfterSaleNotEligibleError)
        | Some p \<Rightarrow>
          require (\<not> pay_status p \<notin> refundable_payment_statuses)
            (AppError (After_Sale_Err AfterSaleNotEligibleError)) (ok p)))"

definition locked_order :: "'a shop_scheme \<Rightarrow> int \<Rightarrow> order result" where
  "locked_order s oid =
    (case get_order s oid of
       None \<Rightarrow> app_raise (After_Sale_Err AfterSaleNotEligibleError) | Some ord \<Rightarrow> ok ord)"

definition claim_pairs :: "after_sale \<Rightarrow> (int \<times> int) list" where
  "claim_pairs c = map (\<lambda>i. (ai_order_item_id i, ai_quantity i)) (claim_lines c)"

text \<open>The line of a claim with what it can still give back.\<close>

definition line_weight :: "order_item list \<Rightarrow> int \<Rightarrow> int \<times> int" where
  "line_weight items l =
    (l, case find (\<lambda>i. oi_id i = l) items of None \<Rightarrow> 0 | Some i \<Rightarrow> remaining_amount i)"

definition validate_caps ::
  "after_sale \<Rightarrow> payment \<Rightarrow> order_item list \<Rightarrow> (int \<times> int) list \<Rightarrow> int \<Rightarrow> (int \<times> int) list result" where
  "validate_caps c p items lines amount =
    require (\<not> amount \<le> 0) (AppError (After_Sale_Err RefundAmountInvalidError))
    (require (\<not> pay_refunded_amount p + amount > pay_paid_amount p)
      (AppError (After_Sale_Err RefundExceedsPaidError))
    (require (\<not> af_refunded_amount c + amount > af_approved_amount c)
      (AppError (After_Sale_Err RefundAmountInvalidError))
    (require (lines \<noteq> []) (AppError (After_Sale_Err RefundAmountInvalidError))
    (require (list_all (\<lambda>l. fst l \<in> oi_id ` set items) lines)
      (AppError (After_Sale_Err AfterSaleNotEligibleError))
    (let weights = map (line_weight items \<circ> fst) lines in
     require (\<not> amount > sum_list (map snd weights))
       (AppError (After_Sale_Err RefundExceedsItemError))
     (bindE (allocate_refund_across_lines amount weights) (\<lambda>shares.
      bindE (check_per_line_cap shares
          (\<lambda>l. map_option oi_payable_amount (find (\<lambda>i. oi_id i = l) items))
          (\<lambda>l. map_option oi_refunded_amount (find (\<lambda>i. oi_id i = l) items))) (\<lambda>_.
      ok shares))))))))"

section \<open>The writes\<close>

definition flush_order_item :: "'a shop_scheme \<Rightarrow> order_item \<Rightarrow> 'a shop_scheme result" where
  "flush_order_item s i =
    (if order_item_checks i \<and>
        \<not> list_ex (\<lambda>r. oi_id r \<noteq> oi_id i \<and> oi_order_id r = oi_order_id i \<and> oi_sku_id r = oi_sku_id i)
          (order_items s)
     then ok (s\<lparr>order_items := put_row oi_id i (order_items s)\<rparr>)
     else raise (IntegrityError ''order_items''))"

record refund_request =
  rq_after_sale_no :: string
  rq_amount :: int
  rq_idempotency_key :: string
  rq_reason :: "string option"

definition new_refund ::
  "env \<Rightarrow> int \<Rightarrow> principal \<Rightarrow> refund_request \<Rightarrow> after_sale \<Rightarrow> payment \<Rightarrow> order \<Rightarrow> refund" where
  "new_refund ev now who q c p ord =
    \<lparr>rf_id = 0, rf_merchant_id = af_merchant_id c, rf_refund_no = ev_uuid ev,
     rf_after_sale_id = af_id c, rf_order_id = o_id ord, rf_order_no = af_order_no c,
     rf_payment_id = Some (pay_id p), rf_user_id = af_user_id c, rf_amount = rq_amount q,
     rf_status = Refund_SUCCEEDED, rf_reason = rq_reason q,
     rf_operator_type = fst (movement_operator who), rf_operator_id = snd (movement_operator who),
     rf_idempotency_key = rq_idempotency_key q,
     rf_request_hash = request_hash_for_refund ev (rq_after_sale_no q) (rq_amount q) (rq_reason q)
       (rq_idempotency_key q),
     rf_completed_at = Some now, rf_created_at = now\<rparr>"

datatype 's written = Written refund 's | Lost_Race refund

text \<open>A constraint that fires is read as a lost race when a row holds the key.\<close>

definition write_refund ::
  "env \<Rightarrow> 'a shop_scheme \<Rightarrow> principal \<Rightarrow> refund_request \<Rightarrow> after_sale \<Rightarrow> payment \<Rightarrow> order \<Rightarrow>
   'a shop_scheme written result" where
  "write_refund ev s who q c p ord =
    (let draft = new_refund ev (db_now s) who q c p ord in
     case insert_succeeded s draft of
       Inl e \<Rightarrow>
         bindE (claim_merchant_filter who) (\<lambda>m.
         case refund_by_idempotency_key s m (rq_idempotency_key q) of
           None \<Rightarrow> raise e
         | Some winner \<Rightarrow>
             require (\<not> rf_request_hash winner \<noteq> rf_request_hash draft)
               (AppError (After_Sale_Err RefundAlreadyCompletedError)) (ok (Lost_Race winner)))
     | Inr (row, s) \<Rightarrow>
         let r = row\<lparr>rf_refund_no :=
               public_no ''NVR'' (db_now s) (nat (rf_id row))\<rparr>
         in bindE (flush_refund s r) (\<lambda>s. ok (Written r s)))"

text \<open>One rule for both axes of the order, which are two columns.\<close>

definition refund_axis_status :: "int \<Rightarrow> int \<Rightarrow> payment_status \<times> after_sale_status" where
  "refund_axis_status paid refunded =
    (if paid > 0 \<and> refunded \<ge> paid then (REFUNDED, AS_REFUNDED)
     else (PARTIAL_REFUNDED, AS_PARTIAL_REFUNDED))"

definition refunded_order :: "int \<Rightarrow> order \<Rightarrow> order" where
  "refunded_order amount ord =
    ord\<lparr>o_refunded_amount := o_refunded_amount ord + amount,
        o_payment_status :=
          fst (refund_axis_status (o_paid_amount ord) (o_refunded_amount ord + amount))\<rparr>"

definition apply_money_axes ::
  "'a shop_scheme \<Rightarrow> order \<Rightarrow> after_sale \<Rightarrow> payment \<Rightarrow> int \<Rightarrow> 'a shop_scheme result" where
  "apply_money_axes s ord c p amount =
    bindE (flush_payment s (apply_refund amount p)) (\<lambda>s.
    bindE (flush_claim s (apply_claim_refund (db_now s) amount c)) (\<lambda>s.
    flush_order s (refunded_order amount ord)))"

definition add_share :: "order_item list \<Rightarrow> int \<times> int \<Rightarrow> order_item result" where
  "add_share items share =
    (case find (\<lambda>i. oi_id i = fst share) items of
       None \<Rightarrow> raise (PythonError ''KeyError'')
     | Some i \<Rightarrow> ok (i\<lparr>oi_refunded_amount := oi_refunded_amount i + snd share\<rparr>))"

definition apply_line_counters ::
  "'a shop_scheme \<Rightarrow> order_item list \<Rightarrow> (int \<times> int) list \<Rightarrow> int \<Rightarrow> 'a shop_scheme result" where
  "apply_line_counters s items shares amount =
    bindE (mapE (add_share items) shares) (\<lambda>rows.
    require (\<not> sum_list (map snd shares) \<noteq> amount) (AppError (Common ValidationError))
    (foldE flush_order_item s rows))"

definition return_call ::
  "principal \<Rightarrow> after_sale \<Rightarrow> order_item \<Rightarrow> int \<Rightarrow> stock_call" where
  "return_call who c i quantity =
    \<lparr>sc_sku_id = oi_sku_id i, sc_quantity = quantity,
     sc_idempotency_key = return_in_movement_key (af_after_sale_no c) (oi_id i),
     sc_warehouse_id = Some (oi_warehouse_id i), sc_reference_type = REF_AFTER_SALE,
     sc_reference_id = Some (af_id c), sc_operator_type = fst (movement_operator who),
     sc_operator_id = snd (movement_operator who),
     sc_reason = Some (''return received for '' @ af_after_sale_no c)\<rparr>"

definition credit_returned_stock ::
  "'a shop_scheme \<Rightarrow> principal \<Rightarrow> after_sale \<Rightarrow> (int \<times> int) list \<Rightarrow> (int \<times> int) list \<Rightarrow>
   'a shop_scheme result" where
  "credit_returned_stock s who c lines shares =
    foldE (\<lambda>s (item, quantity).
      case row_of oi_id (order_items s) item of
        None \<Rightarrow> ok s
      | Some i \<Rightarrow> bindE (return_in s (return_call who c i quantity)) (\<lambda>(_, s). ok s))
      s (movement_quantity_for (af_type c) lines shares)"

section \<open>The transaction\<close>

record refund_outcome =
  ro_refund :: refund
  ro_replayed :: bool
  ro_split :: "(int \<times> int) list option"

text \<open>Steps 5 to 7, once the rows are locked and the caps hold.\<close>

definition pay_out ::
  "env \<Rightarrow> 'a shop_scheme \<Rightarrow> principal \<Rightarrow> refund_request \<Rightarrow> after_sale \<Rightarrow> payment \<Rightarrow> order \<Rightarrow>
   order_item list \<Rightarrow> (int \<times> int) list \<Rightarrow> (refund_outcome \<times> 'a shop_scheme) result" where
  "pay_out ev s who q c p ord items shares =
    bindE (write_refund ev s who q c p ord) (\<lambda>w.
    case w of
      Lost_Race winner \<Rightarrow> ok (\<lparr>ro_refund = winner, ro_replayed = True, ro_split = None\<rparr>, s)
    | Written r s \<Rightarrow>
        bindE (apply_money_axes s ord c p (rq_amount q)) (\<lambda>s.
        bindE (apply_line_counters s items shares (rq_amount q)) (\<lambda>s.
        bindE (credit_returned_stock s who c (claim_pairs c) shares) (\<lambda>s.
        let ord' = (refunded_order (rq_amount q) ord)\<lparr>o_after_sale_status :=
              snd (refund_axis_status (o_paid_amount ord) (o_refunded_amount ord + rq_amount q))\<rparr> in
        bindE (flush_order s ord') (\<lambda>s.
        let c' = apply_claim_refund (db_now s) (rq_amount q) c;
            s = enqueue s Refund_Succeeded Agg_Refund (rf_id r) (rq_idempotency_key q)
              (Refund_Succeeded_Payload (rf_refund_no r) (rf_id r) (af_after_sale_no c)
                (af_order_no c) (rq_amount q) (o_refunded_amount ord') (o_paid_amount ord')
                (o_payment_status ord') (o_after_sale_status ord') (af_claim_status c'))
              (Some (o_merchant_id ord'))
        in ok (\<lparr>ro_refund = r, ro_replayed = False, ro_split = Some shares\<rparr>, s))))))"

definition refund_fresh ::
  "env \<Rightarrow> 'a shop_scheme \<Rightarrow> principal \<Rightarrow> int \<Rightarrow> refund_request \<Rightarrow>
   (refund_outcome \<times> 'a shop_scheme) result" where
  "refund_fresh ev s who m q =
    bindE (locked_claim s (rq_after_sale_no q) None (Some m)) (\<lambda>c.
    require (\<not> af_claim_status c \<notin> executable_claim_statuses)
      (AppError (After_Sale_Err AfterSaleStateInvalidError))
    (bindE (locked_payment s c) (\<lambda>p.
     bindE (locked_order s (af_order_id c)) (\<lambda>ord.
     let items = items_for s (o_id ord) in
     bindE (validate_caps c p items (claim_pairs c) (rq_amount q)) (\<lambda>shares.
     pay_out ev s who q c p ord items shares)))))"

definition execute_refund ::
  "env \<Rightarrow> 'a shop_scheme \<Rightarrow> principal \<Rightarrow> refund_request \<Rightarrow> (refund_outcome \<times> 'a shop_scheme) result" where
  "execute_refund ev s who q =
    bindE (require_permission who ''refund:execute'') (\<lambda>_.
    require (rq_idempotency_key q \<noteq> []) (AppError (Common ValidationError))
    (require (\<not> rq_amount q \<le> 0) (AppError (After_Sale_Err RefundAmountInvalidError))
    (bindE (claim_merchant_filter who) (\<lambda>m.
     bindE (existing_refund_for_key s m (rq_idempotency_key q)
         (request_hash_for_refund ev (rq_after_sale_no q) (rq_amount q) (rq_reason q)
           (rq_idempotency_key q))) (\<lambda>replayed.
     case replayed of
       Some r \<Rightarrow> ok (\<lparr>ro_refund = r, ro_replayed = True, ro_split = None\<rparr>, s)
     | None \<Rightarrow> refund_fresh ev s who m q)))))"

section \<open>Reads, display figures and the endpoint\<close>

definition claim_numbers_for :: "'a shop_scheme \<Rightarrow> refund list \<Rightarrow> (int \<times> string) list" where
  "claim_numbers_for s rows = claim_numbers_by_id s (map rf_after_sale_id rows)"

definition service_list_admin_refunds ::
  "'a shop_scheme \<Rightarrow> principal \<Rightarrow> string option \<Rightarrow> string option \<Rightarrow> int \<Rightarrow> nat \<Rightarrow>
   (refund list \<times> nat \<times> (int \<times> string) list) result" where
  "service_list_admin_refunds s who status order_no page page_size =
    bindE (require_permission who ''after_sale:read'') (\<lambda>_.
    bindE (validate_status_filter refund_statuses status) (\<lambda>st.
    bindE (claim_merchant_filter who) (\<lambda>m.
    let (rows, n) = list_admin_refunds s (Some m) st order_no page page_size
    in ok (rows, n, claim_numbers_for s rows))))"

definition get_admin_refund :: "'a shop_scheme \<Rightarrow> principal \<Rightarrow> string \<Rightarrow> (refund \<times> string) result" where
  "get_admin_refund s who refund_no =
    bindE (require_permission who ''after_sale:read'') (\<lambda>_.
    bindE (claim_merchant_filter who) (\<lambda>m.
    case get_by_refund_no s refund_no (Some m) None of
      None \<Rightarrow> app_raise (After_Sale_Err RefundNotFoundError)
    | Some r \<Rightarrow>
      (case map_of (claim_numbers_for s [r]) (rf_after_sale_id r) of
         None \<Rightarrow> app_raise (After_Sale_Err RefundNotFoundError)
       | Some n \<Rightarrow> ok (r, n))))"

definition operator_label :: "string option \<Rightarrow> int option \<Rightarrow> string option" where
  "operator_label operator operator_id =
    (case operator of
       None \<Rightarrow> None
     | Some t \<Rightarrow> if t = [] then None else
         (case operator_id of None \<Rightarrow> Some t | Some i \<Rightarrow> Some (t @ '' #'' @ int_text i)))"

definition order_payable_unrefunded :: "order_item list \<Rightarrow> int" where
  "order_payable_unrefunded items =
    max ((\<Sum>i \<leftarrow> items. oi_payable_amount i) - (\<Sum>i \<leftarrow> items. oi_refunded_amount i)) 0"

text \<open>The largest refund the console offers for a claim, from the order and its items when it has them.\<close>

definition refund_cap :: "after_sale \<Rightarrow> (order \<times> order_item list) option \<Rightarrow> int" where
  "refund_cap c loaded =
    (let remaining = max (af_approved_amount c - af_refunded_amount c) 0 in
     case loaded of
       None \<Rightarrow> remaining
     | Some (ord, items) \<Rightarrow>
       let money_left = max (o_paid_amount ord - o_refunded_amount ord) 0;
           lines_left = (\<Sum>i \<leftarrow> filter (\<lambda>i. oi_id i \<in> ai_order_item_id ` set (af_items c)) items.
             remaining_amount i)
       in max (min (min remaining money_left) lines_left) 0)"

definition claim_is_complete :: "after_sale \<Rightarrow> bool" where
  "claim_is_complete c \<longleftrightarrow> af_approved_amount c > 0 \<and> af_refunded_amount c \<ge> af_approved_amount c"

definition agreed_idempotency_key :: "string option \<Rightarrow> string \<Rightarrow> string result" where
  "agreed_idempotency_key header body =
    (case header of
       None \<Rightarrow> app_raise (Idempotency IdempotencyKeyRequiredError)
     | Some h \<Rightarrow>
        require (strip_text h \<noteq> []) (AppError (Idempotency IdempotencyKeyRequiredError))
        (require (\<not> h \<noteq> body) (AppError (Common ValidationError)) (ok body)))"

text \<open>
  \<open>POST .../refund\<close>: the workflow commits, then the claim is read again to render the answer, which
  needs a permission of its own.
\<close>

definition refund_endpoint ::
  "env \<Rightarrow> 'a shop_scheme \<Rightarrow> principal \<Rightarrow> string option \<Rightarrow> refund_request \<Rightarrow>
   (refund \<times> string) result \<times> 'a shop_scheme" where
  "refund_endpoint ev s who header q =
    (case bindE (agreed_idempotency_key header (rq_idempotency_key q)) (\<lambda>key.
         execute_refund ev s who (q\<lparr>rq_idempotency_key := key\<rparr>)) of
       Inl e \<Rightarrow> (raise e, s)
     | Inr (outcome, s) \<Rightarrow>
         (bindE (get_admin_claim s who (rq_after_sale_no q)) (\<lambda>c.
            ok (ro_refund outcome, af_after_sale_no c)), s))"

end
