(* ===== verification/Refund_Facts.thy ===== *)
theory Refund_Facts
  imports Refund_Workflow Shop_Frames
begin

text \<open>
  What one refund does to the tables: the split always exists within the lines, the caps decide it,
  and an executed refund is one row with the same amount added to the payment, the claim, the order
  and its lines.
\<close>

section \<open>The split\<close>

lemma allocate_refund_contract:
  assumes "0 < a" and "list_all (\<lambda>w. 0 \<le> snd w) ws" and "a \<le> sum_list (map snd ws)"
  obtains xs where "allocate_refund_across_lines a ws = ok (sort_key fst (zip (map fst ws) xs))"
    and "length xs = length ws" and "sum_list xs = a"
    and "\<And>j. j < length ws \<Longrightarrow> 0 \<le> xs ! j \<and> xs ! j \<le> snd (ws ! j)"
proof -
  have ws: "list_all (\<lambda>w. 0 \<le> w) (map snd ws)" using assms(2) by (simp add: list_all_iff)
  obtain xs where xs: "allocate_pro_rata (PyInt a) (map PyInt (map snd ws)) = ok xs"
    and len: "length xs = length (map snd ws)" and sum: "sum_list xs = a"
    and le: "\<And>j. j < length (map snd ws) \<Longrightarrow> 0 \<le> xs ! j \<and> xs ! j \<le> map snd ws ! j"
    using allocate_pro_rata_contract [OF _ ws assms(3)] assms(1) by (metis order_less_imp_le)
  have "\<not> list_ex (\<lambda>(x, w). x > w) (zip xs (map snd ws))"
    using le len by (fastforce simp: list_ex_iff in_set_zip)
  moreover have "ws \<noteq> []" using assms(1,3) by auto
  ultimately have "allocate_refund_across_lines a ws = ok (sort_key fst (zip (map fst ws) xs))"
    using assms(1,3) xs by (simp add: allocate_refund_across_lines_def Let_def)
  from that [OF this] len sum le show ?thesis by simp
qed

lemma total_zip_snd: "length xs = length ks \<Longrightarrow> total snd (zip ks xs) = sum_list xs"
  by (simp add: total_def)

text \<open>Splits name each line once.\<close>

definition split_of :: "int \<Rightarrow> (int \<times> int) list \<Rightarrow> (int \<times> int) list \<Rightarrow> bool" where
  "split_of amount weights shares \<longleftrightarrow>
    map fst shares = sort (map fst weights) \<and> total snd shares = amount \<and>
    (\<forall>(l, x) \<in> set shares. 0 \<le> x \<and> (\<exists>w. (l, w) \<in> set weights \<and> x \<le> w))"

lemma map_sort_key: "map f (sort_key f xs) = sort (map f xs)"
proof -
  have "map f (insort_key f x xs) = insort (f x) (map f xs)" for x xs
    by (induction xs) simp_all
  then show ?thesis by (induction xs) simp_all
qed

lemma allocate_refund_split:
  assumes "0 < a" and "list_all (\<lambda>w. 0 \<le> snd w) ws" and "a \<le> sum_list (map snd ws)"
  obtains shares where "allocate_refund_across_lines a ws = ok shares" and "split_of a ws shares"
proof -
  obtain xs where r: "allocate_refund_across_lines a ws = ok (sort_key fst (zip (map fst ws) xs))"
    and len: "length xs = length ws" and sum: "sum_list xs = a"
    and le: "\<And>j. j < length ws \<Longrightarrow> 0 \<le> xs ! j \<and> xs ! j \<le> snd (ws ! j)"
    using allocate_refund_contract [OF assms] by blast
  have "0 \<le> x \<and> (\<exists>w. (l, w) \<in> set ws \<and> x \<le> w)" if mem: "(l, x) \<in> set (zip (map fst ws) xs)" for l x
  proof -
    obtain j where "j < length ws" and "l = fst (ws ! j)" and "x = xs ! j"
      using mem [unfolded in_set_zip] len by auto
    with le show ?thesis by (metis nth_mem prod.collapse)
  qed
  then have "split_of a ws (sort_key fst (zip (map fst ws) xs))"
    using len sum by (auto simp: split_of_def map_sort_key total_zip_snd)
  with r that show ?thesis by blast
qed

section \<open>The caps\<close>

lemma find_id: "distinct (map key rows) \<Longrightarrow> r \<in> set rows \<Longrightarrow> find (\<lambda>i. key i = key r) rows = Some r"
  by (induction rows) auto

lemma line_weight_pos: "0 \<le> snd (line_weight items l)"
  by (simp add: line_weight_def remaining_amount_def split: option.splits)

lemma line_weight_fst [simp]: "fst (line_weight items l) = l"
  by (simp add: line_weight_def)

lemma check_cap_passes:
  assumes ids: "distinct (map oi_id items)" and ok: "list_all order_item_checks items"
    and lines: "set ls \<subseteq> oi_id ` set items" and split: "split_of a (map (line_weight items) ls) shares"
  shows "check_per_line_cap shares
      (\<lambda>l. map_option oi_payable_amount (find (\<lambda>i. oi_id i = l) items))
      (\<lambda>l. map_option oi_refunded_amount (find (\<lambda>i. oi_id i = l) items)) = ok ()"
proof -
  have "oi_refunded_amount i + x \<le> oi_payable_amount i"
    if "(l, x) \<in> set shares" and "find (\<lambda>i. oi_id i = l) items = Some i" for l x i
  proof -
    have "order_item_checks i" using ok that(2) by (auto simp: list_all_iff dest: find_SomeD)
    moreover have "x \<le> remaining_amount i"
      using split that by (fastforce simp: split_of_def line_weight_def)
    ultimately show ?thesis by (simp add: remaining_amount_def order_item_checks_def)
  qed
  moreover have "\<exists>i. find (\<lambda>i. oi_id i = l) items = Some i" if "(l, x) \<in> set shares" for l x
  proof -
    have "l \<in> set (map fst shares)" using that by force
    also have "\<dots> = set ls" using split by (simp add: split_of_def line_weight_def)
    finally show ?thesis using lines find_id [OF ids] by auto
  qed
  ultimately show ?thesis
    by (fastforce simp: check_per_line_cap_def list_ex_iff)
qed

lemma validate_caps_iff:
  assumes ids: "distinct (map oi_id items)" and ok: "list_all order_item_checks items"
  shows "validate_caps c p items lines a = ok shares \<longleftrightarrow>
    0 < a \<and> pay_refunded_amount p + a \<le> pay_paid_amount p \<and>
    af_refunded_amount c + a \<le> af_approved_amount c \<and> fst ` set lines \<subseteq> oi_id ` set items \<and>
    a \<le> (\<Sum>l \<leftarrow> lines. snd (line_weight items (fst l))) \<and>
    allocate_refund_across_lines a (map (line_weight items \<circ> fst) lines) = ok shares"
    (is "?l \<longleftrightarrow> ?r")
proof
  assume ?l
  then show ?r
    by (auto simp: validate_caps_def require_eq_Inr bindE_eq_Inr Let_def list_all_iff comp_def)
next
  assume r: ?r
  let ?ws = "map (line_weight items \<circ> fst) lines"
  have a: "0 < a" "a \<le> sum_list (map snd ?ws)" using r by (simp_all add: comp_def)
  have "list_all (\<lambda>w. 0 \<le> snd w) ?ws" by (simp add: list_all_iff line_weight_pos)
  from allocate_refund_split [OF a(1) this a(2)] r have "split_of a ?ws shares" by auto
  then have "split_of a (map (line_weight items) (map fst lines)) shares" by simp
  from check_cap_passes [OF ids ok _ this] r
  have "check_per_line_cap shares
      (\<lambda>l. map_option oi_payable_amount (find (\<lambda>i. oi_id i = l) items))
      (\<lambda>l. map_option oi_refunded_amount (find (\<lambda>i. oi_id i = l) items)) = ok ()" by simp
  moreover have "lines \<noteq> []" using a by auto
  ultimately show ?l
    using r a by (simp add: validate_caps_def require_eq_Inr Let_def list_all_iff image_subset_iff)
qed

lemma validate_caps_split:
  assumes ids: "distinct (map oi_id items)" and ok: "list_all order_item_checks items"
    and v: "validate_caps c p items lines a = ok shares"
  shows "split_of a (map (line_weight items \<circ> fst) lines) shares"
proof -
  let ?ws = "map (line_weight items \<circ> fst) lines"
  note r = v [unfolded validate_caps_iff [OF ids ok]]
  have a: "0 < a" "a \<le> sum_list (map snd ?ws)" using r by (simp_all add: comp_def)
  have "list_all (\<lambda>w. 0 \<le> snd w) ?ws" by (simp add: list_all_iff line_weight_pos)
  from allocate_refund_split [OF a(1) this a(2)] r show ?thesis by auto
qed

section \<open>The counters of the lines\<close>

definition add_shares :: "(int \<times> int) list \<Rightarrow> order_item \<Rightarrow> order_item" where
  "add_shares shares i = i\<lparr>oi_refunded_amount := oi_refunded_amount i +
    case_option 0 id (map_of shares (oi_id i))\<rparr>"

lemma add_shares_id [simp]: "oi_id (add_shares shares i) = oi_id i"
  by (simp add: add_shares_def)

lemma add_shares_idle: "oi_id i \<notin> fst ` set shares \<Longrightarrow> add_shares shares i = i"
  by (simp add: add_shares_def map_of_eq_None_iff [THEN iffD2])

lemma foldE_flush_order_item:
  "foldE flush_order_item s rows = ok s' \<Longrightarrow>
    s' = s\<lparr>order_items := fold (put_row oi_id) rows (order_items s)\<rparr> \<and> list_all order_item_checks rows"
proof (induction rows arbitrary: s)
  case (Cons r rows)
  then obtain t where "flush_order_item s r = ok t" and t: "foldE flush_order_item t rows = ok s'"
    by (auto simp: rsimps)
  then have "t = s\<lparr>order_items := put_row oi_id r (order_items s)\<rparr> \<and> order_item_checks r"
    by (auto simp: flush_order_item_def split: if_splits)
  with Cons.IH [OF t] show ?case by simp
qed simp

lemma mapE_add_share:
  assumes "mapE (add_share items) shares = ok rows" and d: "distinct (map fst shares)"
  obtains batch where "rows = map (add_shares shares) batch" and "map oi_id batch = map fst shares"
    and "set batch \<subseteq> set items"
proof -
  define item where "item l = the (find (\<lambda>i. oi_id i = l) items)" for l
  have each: "item l \<in> set items \<and> oi_id (item l) = l \<and> add_share items (l, x) = ok (add_shares shares (item l))"
    if mem: "(l, x) \<in> set shares" for l x
  proof -
    obtain r where "add_share items (l, x) = ok r" using mapE_Inr_each [OF assms(1) mem] by blast
    then obtain i where i: "find (\<lambda>i. oi_id i = l) items = Some i"
      by (auto simp: add_share_def split: option.splits)
    have "map_of shares l = Some x" using mem d by simp
    with i find_SomeD [OF i] show ?thesis
      by (simp add: item_def add_share_def add_shares_def)
  qed
  show ?thesis
  proof (rule that [of "map (item \<circ> fst) shares"])
    have "mapE (add_share items) shares = ok (map (\<lambda>s. add_shares shares (item (fst s))) shares)"
      by (rule mapE_Inr_map) (use each in force)
    with assms(1) show "rows = map (add_shares shares) (map (item \<circ> fst) shares)"
      by (simp add: comp_def)
  qed (use each in force)+
qed

lemma line_counters_ok:
  assumes r: "apply_line_counters s items shares amount = ok s'"
    and ids: "distinct (map oi_id (order_items s))" and sub: "set items \<subseteq> set (order_items s)"
    and d: "distinct (map fst shares)"
  shows "s' = s\<lparr>order_items := map (add_shares shares) (order_items s)\<rparr>" and "total snd shares = amount"
    and "\<And>i. i \<in> set (order_items s) \<Longrightarrow> oi_id i \<in> fst ` set shares \<Longrightarrow>
      order_item_checks (add_shares shares i)"
proof -
  obtain rows where rows: "mapE (add_share items) shares = ok rows" and sum: "total snd shares = amount"
    and f: "foldE flush_order_item s rows = ok s'"
    using r by (auto simp: apply_line_counters_def rsimps total_def)
  obtain batch where b: "rows = map (add_shares shares) batch" "map oi_id batch = map fst shares"
    "set batch \<subseteq> set items"
    using mapE_add_share [OF rows d] by blast
  have flush: "s' = s\<lparr>order_items := fold (\<lambda>r. put_row oi_id (add_shares shares r)) batch (order_items s)\<rparr>"
    and checks: "list_all order_item_checks (map (add_shares shares) batch)"
    using foldE_flush_order_item [OF f] b(1) by (simp_all add: fold_map comp_def)
  have member: "i \<in> set batch \<longleftrightarrow> oi_id i \<in> fst ` set shares" if i: "i \<in> set (order_items s)" for i
  proof
    show "oi_id i \<in> fst ` set shares" if "i \<in> set batch"
      using that b(2) by (metis image_set image_eqI)
    assume "oi_id i \<in> fst ` set shares"
    then obtain j where j: "j \<in> set batch" "oi_id j = oi_id i" using b(2) by (metis imageE image_set)
    with same_row [OF ids i, of j] b(3) sub show "i \<in> set batch" by auto
  qed
  have "fold (\<lambda>r. put_row oi_id (add_shares shares r)) batch (order_items s) =
      map (\<lambda>r. if r \<in> set batch then add_shares shares r else r) (order_items s)"
    using b sub d ids by (intro fold_put_rows) simp_all
  also have "\<dots> = map (add_shares shares) (order_items s)"
    using member by (auto simp: add_shares_idle)
  finally show "s' = s\<lparr>order_items := map (add_shares shares) (order_items s)\<rparr>" using flush by simp
  show "total snd shares = amount" by (rule sum)
  show "order_item_checks (add_shares shares i)"
    if "i \<in> set (order_items s)" and "oi_id i \<in> fst ` set shares" for i
    using that member checks by (auto simp: list_all_iff)
qed

section \<open>One refund\<close>

text \<open>Primary keys, the constraints of the order lines, and one claim line per order line.\<close>

definition after_sale_rows :: "'a shop_scheme \<Rightarrow> bool" where
  "after_sale_rows s \<longleftrightarrow>
    distinct (map oi_id (order_items s)) \<and> distinct (map pay_id (payments s)) \<and>
    distinct (map af_id (after_sales s)) \<and> distinct (map o_id (orders s)) \<and>
    list_all order_item_checks (order_items s) \<and>
    list_all (\<lambda>c. claim_lines_checks (af_items c)) (after_sales s)"

lemma items_for_subset: "set (items_for s oid) \<subseteq> set (order_items s)"
  by (auto simp: items_for_def)

lemma distinct_map_sort_key: "distinct (map f (sort_key k xs)) = distinct (map f xs)"
  by (simp add: distinct_map)

lemma distinct_items_for: "distinct (map oi_id (order_items s)) \<Longrightarrow> distinct (map oi_id (items_for s oid))"
  by (simp add: items_for_def distinct_map_sort_key distinct_map_filter)

lemma write_refund_Written:
  assumes "write_refund ev s who q c p ord = ok (Written r s')"
  shows "s' = s\<lparr>refunds := refunds s @ [r]\<rparr>"
    and "r = (new_refund ev (db_now s) who q c p ord)\<lparr>rf_id := fresh_id rf_id (refunds s),
      rf_refund_no := public_no ''NVR'' (db_now s) (nat (fresh_id rf_id (refunds s)))\<rparr>"
proof -
  let ?r = "(new_refund ev (db_now s) who q c p ord)\<lparr>rf_id := fresh_id rf_id (refunds s),
      rf_refund_no := public_no ''NVR'' (db_now s) (nat (fresh_id rf_id (refunds s)))\<rparr>"
  have "put_row rf_id ?r (refunds s) = refunds s"
    by (rule put_row_idle) (simp add: fresh_id_new)
  then show "s' = s\<lparr>refunds := refunds s @ [r]\<rparr>" and "r = ?r"
    using assms
    by (auto simp: write_refund_def insert_succeeded_def flush_refund_def rsimps Let_def put_row_def
        split: if_splits sum.splits option.splits)
qed

lemma flush_claim_ok:
  "flush_claim s c = ok s' \<Longrightarrow>
    s' = s\<lparr>after_sales := put_row af_id c (after_sales s)\<rparr> \<and> after_sale_checks c \<and>
    claim_lines_checks (af_items c)"
  by (auto simp: flush_claim_def split: if_splits)

lemma credit_stock_only: "credit_returned_stock s who c lines shares = ok s' \<Longrightarrow> stock_only s s'"
  unfolding credit_returned_stock_def
  by (erule foldE_stock_only) (auto simp: rsimps split: option.splits dest: keyed_ops_stock_only)

definition settled_axes :: "int \<Rightarrow> order \<Rightarrow> order" where
  "settled_axes amount ord = (refunded_order amount ord)\<lparr>o_after_sale_status :=
    snd (refund_axis_status (o_paid_amount ord) (o_refunded_amount ord + amount))\<rparr>"

lemma settled_axes_simps [simp]:
  "o_id (settled_axes a ord) = o_id ord" "o_paid_amount (settled_axes a ord) = o_paid_amount ord"
  "o_refunded_amount (settled_axes a ord) = o_refunded_amount ord + a"
  "o_id (refunded_order a ord) = o_id ord"
  by (simp_all add: settled_axes_def refunded_order_def)

lemma pay_out_effect:
  assumes "pay_out ev s who q c p ord items shares = ok (out, s')" and "\<not> ro_replayed out"
    and ids: "distinct (map oi_id (order_items s))" and sub: "set items \<subseteq> set (order_items s)"
    and d: "distinct (map fst shares)"
  obtains r stock ms where "out = \<lparr>ro_refund = r, ro_replayed = False, ro_split = Some shares\<rparr>"
    and "r = (new_refund ev (db_now s) who q c p ord)\<lparr>rf_id := fresh_id rf_id (refunds s),
      rf_refund_no := public_no ''NVR'' (db_now s) (nat (fresh_id rf_id (refunds s)))\<rparr>"
    and "\<exists>ob. s' = s\<lparr>refunds := refunds s @ [r],
      payments := put_row pay_id (apply_refund (rq_amount q) p) (payments s),
      after_sales := put_row af_id (apply_claim_refund (db_now s) (rq_amount q) c) (after_sales s),
      order_items := map (add_shares shares) (order_items s), inventories := stock, movements := ms,
      orders := put_row o_id (settled_axes (rq_amount q) ord) (orders s), outbox := ob\<rparr>"
    and "payment_checks (apply_refund (rq_amount q) p)"
    and "after_sale_checks (apply_claim_refund (db_now s) (rq_amount q) c)"
    and "order_checks (settled_axes (rq_amount q) ord)" and "total snd shares = rq_amount q"
    and "\<And>i. i \<in> set (order_items s) \<Longrightarrow> oi_id i \<in> fst ` set shares \<Longrightarrow>
      order_item_checks (add_shares shares i)"
proof -
  let ?a = "rq_amount q"
  obtain r s1 where w: "write_refund ev s who q c p ord = ok (Written r s1)"
  proof -
    obtain w where w: "write_refund ev s who q c p ord = ok w"
      using assms(1) by (auto simp: pay_out_def bindE_eq_Inr)
    with assms(1,2) that show ?thesis by (cases w) (auto simp: pay_out_def)
  qed
  note s1 = write_refund_Written [OF w]
  from assms(1) [unfolded pay_out_def w bindE_Inr written.case, folded settled_axes_def]
  obtain s2 s3 s4 s5 where s2: "apply_money_axes s1 ord c p ?a = ok s2"
    and s3: "apply_line_counters s2 items shares ?a = ok s3"
    and s4: "credit_returned_stock s3 who c (claim_pairs c) shares = ok s4"
    and s5: "flush_order s4 (settled_axes ?a ord) = ok s5"
    and out: "out = \<lparr>ro_refund = r, ro_replayed = False, ro_split = Some shares\<rparr>"
    and s': "\<exists>ob. s' = s5\<lparr>outbox := ob\<rparr>"
    by (auto simp: bindE_eq_Inr Let_def) (metis enqueue_only)
  have m: "s2 = s1\<lparr>payments := put_row pay_id (apply_refund ?a p) (payments s1),
      after_sales := put_row af_id (apply_claim_refund (db_now s) ?a c) (after_sales s1),
      orders := put_row o_id (refunded_order ?a ord) (orders s1)\<rparr>"
    and checks: "payment_checks (apply_refund ?a p)" "after_sale_checks (apply_claim_refund (db_now s) ?a c)"
    using s2 s1(1) by (auto simp: apply_money_axes_def rsimps dest!: flush_payment_ok flush_claim_ok flush_order_ok)
  have items: "order_items s2 = order_items s" using m s1(1) by simp
  note l = line_counters_ok [OF s3, unfolded items, OF ids sub d]
  obtain stock ms where s4': "s4 = s3\<lparr>inventories := stock, movements := ms\<rparr>"
    using credit_stock_only [OF s4] by (auto simp: stock_only_def)
  have "put_row o_id (settled_axes ?a ord) (orders s4) = put_row o_id (settled_axes ?a ord) (orders s)"
    using m s1(1) s4' l(1) by simp
  with flush_order_ok [OF s5] m s1(1) s4' l(1) s'
  have "\<exists>ob. s' = s\<lparr>refunds := refunds s @ [r],
      payments := put_row pay_id (apply_refund ?a p) (payments s),
      after_sales := put_row af_id (apply_claim_refund (db_now s) ?a c) (after_sales s),
      order_items := map (add_shares shares) (order_items s), inventories := stock, movements := ms,
      orders := put_row o_id (settled_axes ?a ord) (orders s), outbox := ob\<rparr>"
    and "order_checks (settled_axes ?a ord)" by auto
  with out s1(2) checks l(2,3) show ?thesis by (intro that)
qed

lemma latest_payment:
  assumes "get_latest_for_order s oid = Some p"
  shows "p \<in> set (payments s)" and "pay_order_id p = oid"
proof -
  obtain ps where "sort_key (\<lambda>p. - pay_created_at p) (sort_key (\<lambda>p. - pay_id p)
      (filter (\<lambda>p. pay_order_id p = oid) (payments s))) = p # ps"
    using assms by (auto simp: get_latest_for_order_def split: list.splits)
  from arg_cong [OF this, of set] show "p \<in> set (payments s)" and "pay_order_id p = oid" by auto
qed

text \<open>What must have held for a call that paid out.\<close>

lemma refund_freshE:
  assumes fresh: "refund_fresh ev s who m q = ok (out, s')" and wf: "after_sale_rows s"
  obtains c p ord shares where "get_by_after_sale_no s (rq_after_sale_no q) None None = Some c"
    and "\<exists>c'. get_by_after_sale_no s (rq_after_sale_no q) (Some m) None = Some c'"
    and "af_claim_status c = Claim_is_APPROVED" and "c \<in> set (after_sales s)"
    and "p \<in> set (payments s)" and "pay_order_id p = af_order_id c"
    and "pay_status p \<in> refundable_payment_statuses"
    and "ord \<in> set (orders s)" and "o_id ord = af_order_id c"
    and "validate_caps c p (items_for s (o_id ord)) (claim_pairs c) (rq_amount q) = ok shares"
    and "pay_out ev s who q c p ord (items_for s (o_id ord)) shares = ok (out, s')"
    and "map fst shares = sort (map ai_order_item_id (af_items c))" and "distinct (map fst shares)"
    and "split_of (rq_amount q) (map (line_weight (items_for s (o_id ord)) \<circ> fst) (claim_pairs c)) shares"
proof -
  obtain c p ord shares where c: "locked_claim s (rq_after_sale_no q) None (Some m) = ok c"
    and st: "af_claim_status c = Claim_is_APPROVED" and p: "locked_payment s c = ok p"
    and ord: "locked_order s (af_order_id c) = ok ord"
    and v: "validate_caps c p (items_for s (o_id ord)) (claim_pairs c) (rq_amount q) = ok shares"
    and out: "pay_out ev s who q c p ord (items_for s (o_id ord)) shares = ok (out, s')"
    using fresh by (auto simp: refund_fresh_def bindE_eq_Inr require_eq_Inr Let_def
        executable_claim_statuses_def)
  have no: "get_by_after_sale_no s (rq_after_sale_no q) None None = Some c"
    and scoped: "\<exists>c'. get_by_after_sale_no s (rq_after_sale_no q) (Some m) None = Some c'"
    using c by (auto simp: locked_claim_def split: option.splits)
  then have cm: "c \<in> set (after_sales s)" by (auto simp: get_by_after_sale_no_def dest: find_SomeD)
  obtain latest where latest: "get_latest_for_order s (af_order_id c) = Some latest"
    and gp: "get_payment s (pay_id latest) = Some p" and ps: "pay_status p \<in> refundable_payment_statuses"
    using p by (auto simp: locked_payment_def require_eq_Inr split: option.splits)
  note lm = latest_payment [OF latest]
  have pm: "p \<in> set (payments s)" and "pay_id p = pay_id latest"
    using gp by (auto simp: get_payment_def dest: row_of_Some)
  with lm wf have po: "pay_order_id p = af_order_id c"
    by (metis after_sale_rows_def same_row)
  have om: "ord \<in> set (orders s)" "o_id ord = af_order_id c"
    using ord by (auto simp: locked_order_def get_order_def split: option.splits dest: row_of_Some)
  have checks: "list_all order_item_checks (items_for s (o_id ord))"
    using wf items_for_subset [of s "o_id ord"] by (auto simp: after_sale_rows_def list_all_iff)
  have ids: "distinct (map oi_id (items_for s (o_id ord)))"
    using wf by (intro distinct_items_for) (simp add: after_sale_rows_def)
  note split = validate_caps_split [OF ids checks v]
  have "map fst shares = sort (map fst (claim_pairs c))"
    using split by (simp add: split_of_def comp_def)
  also have "map fst (claim_pairs c) = sort (map ai_order_item_id (af_items c))"
    by (simp add: claim_pairs_def claim_lines_def comp_def map_sort_key)
  finally have keys: "map fst shares = sort (map ai_order_item_id (af_items c))"
    by (simp add: sorted_sort_id)
  moreover have "distinct (map ai_order_item_id (af_items c))"
    using wf cm by (auto simp: after_sale_rows_def list_all_iff claim_lines_checks_def)
  ultimately have "distinct (map fst shares)" by simp
  from that [OF no scoped st cm pm po ps om v out keys this split] show ?thesis .
qed

text \<open>A call either finds its key or pays out.\<close>

lemma execute_refundE:
  assumes "execute_refund ev s who q = ok (out, s')"
  obtains (Replayed) m r where "p_merchant_id who = Some m"
    and "refund_by_idempotency_key s m (rq_idempotency_key q) = Some r"
    and "rf_request_hash r = request_hash_for_refund ev (rq_after_sale_no q) (rq_amount q)
      (rq_reason q) (rq_idempotency_key q)"
    and "out = \<lparr>ro_refund = r, ro_replayed = True, ro_split = None\<rparr>" and "s' = s"
  | (Fresh) m where "p_merchant_id who = Some m" and "0 < rq_amount q"
    and "refund_by_idempotency_key s m (rq_idempotency_key q) = None"
    and "refund_fresh ev s who m q = ok (out, s')"
proof -
  obtain m where m: "p_merchant_id who = Some m" and a: "0 < rq_amount q"
    and r: "bindE (existing_refund_for_key s m (rq_idempotency_key q)
         (request_hash_for_refund ev (rq_after_sale_no q) (rq_amount q) (rq_reason q)
           (rq_idempotency_key q))) (\<lambda>replayed.
     case replayed of
       Some r \<Rightarrow> ok (\<lparr>ro_refund = r, ro_replayed = True, ro_split = None\<rparr>, s)
     | None \<Rightarrow> refund_fresh ev s who m q) = ok (out, s')"
    using assms by (auto simp: execute_refund_def bindE_eq_Inr require_eq_Inr claim_merchant_filter_def
        split: option.splits)
  show ?thesis
  proof (cases "refund_by_idempotency_key s m (rq_idempotency_key q)")
    case None
    with r Fresh [OF m a] show ?thesis by (simp add: existing_refund_for_key_def)
  next
    case (Some r0)
    have h: "rf_request_hash r0 = request_hash_for_refund ev (rq_after_sale_no q) (rq_amount q)
        (rq_reason q) (rq_idempotency_key q)"
      and out: "ok (\<lparr>ro_refund = r0, ro_replayed = True, ro_split = None\<rparr>, s) = (ok (out, s') :: _ result)"
      using r by (simp_all add: existing_refund_for_key_def Some bindE_eq_Inr require_eq_Inr)
    show ?thesis
      by (rule Replayed [OF m Some h]) (use out in simp_all)
  qed
qed

lemma refund_paidE:
  assumes x: "execute_refund ev s who q = ok (out, s')" and new: "\<not> ro_replayed out"
    and wf: "after_sale_rows s"
  obtains m c p ord shares where "0 < rq_amount q"
    and "get_by_after_sale_no s (rq_after_sale_no q) None None = Some c"
    and "af_claim_status c = Claim_is_APPROVED" and "c \<in> set (after_sales s)"
    and "p \<in> set (payments s)" and "pay_order_id p = af_order_id c"
    and "ord \<in> set (orders s)" and "o_id ord = af_order_id c"
    and "validate_caps c p (items_for s (o_id ord)) (claim_pairs c) (rq_amount q) = ok shares"
    and "pay_out ev s who q c p ord (items_for s (o_id ord)) shares = ok (out, s')"
    and "map fst shares = sort (map ai_order_item_id (af_items c))" and "distinct (map fst shares)"
  using x
proof (cases rule: execute_refundE)
  case (Fresh m)
  from Fresh(4) wf show ?thesis
    by (rule refund_freshE) (rule that [OF Fresh(2)]; assumption)
qed (use new in simp)

lemma apply_refund_simps [simp]:
  "pay_id (apply_refund a p) = pay_id p" "pay_paid_amount (apply_refund a p) = pay_paid_amount p"
  "pay_refunded_amount (apply_refund a p) = pay_refunded_amount p + a"
  by (simp_all add: apply_refund_def Let_def)

lemma apply_claim_refund_simps [simp]:
  "af_id (apply_claim_refund now a c) = af_id c"
  "af_approved_amount (apply_claim_refund now a c) = af_approved_amount c"
  "af_refunded_amount (apply_claim_refund now a c) = af_refunded_amount c + a"
  "af_items (apply_claim_refund now a c) = af_items c"
  "af_order_id (apply_claim_refund now a c) = af_order_id c"
  "af_requested_amount (apply_claim_refund now a c) = af_requested_amount c"
  by (simp_all add: apply_claim_refund_def Let_def)

end
