(* ===== verification/After_Sale_Runs.thy ===== *)
theory After_Sale_Runs
  imports Refund_Facts
begin

text \<open>
  The after-sales component as a transition system: a customer files and withdraws claims, the
  merchant answers them and refunds them, and time passes. A call that raises is rolled back and is
  no step. The lemmas say what each step does to the tables, and which facts every step keeps.
\<close>

section \<open>Steps\<close>

inductive after_sale_step :: "'a shop_scheme \<Rightarrow> 'a shop_scheme \<Rightarrow> bool" where
  step_apply: "apply_claim ev s who q key = ok (c, s') \<Longrightarrow> after_sale_step s s'"
| step_withdraw: "cancel_claim s who no reason = ok (c, s') \<Longrightarrow> after_sale_step s s'"
| step_approve: "approve_claim s who no amount = ok (c, s') \<Longrightarrow> after_sale_step s s'"
| step_reject: "reject_claim s who no why = ok (c, s') \<Longrightarrow> after_sale_step s s'"
| step_refund: "execute_refund ev s who r = ok (out, s') \<Longrightarrow> after_sale_step s s'"
| step_clock: "after_sale_step s (s\<lparr>db_now := t\<rparr>)"

inductive after_sale_run :: "'a shop_scheme \<Rightarrow> 'a shop_scheme \<Rightarrow> bool" where
  run_start: "after_sale_run s s"
| run_step: "after_sale_run s s' \<Longrightarrow> after_sale_step s' s'' \<Longrightarrow> after_sale_run s s''"

inductive_cases after_sale_stepE: "after_sale_step s s'"

lemma after_sale_run_invariant:
  assumes "after_sale_run s s'" and "P s" and "\<And>s s'. after_sale_step s s' \<Longrightarrow> P s \<Longrightarrow> P s'"
  shows "P s'"
  using assms by (induction rule: after_sale_run.induct) blast+

section \<open>What a step does\<close>

lemma locked_claim_member:
  "locked_claim s no user merchant = ok c \<Longrightarrow> c \<in> set (after_sales s) \<and> af_after_sale_no c = no"
  by (auto simp: locked_claim_def get_by_after_sale_no_def split: option.splits dest: find_SomeD)

text \<open>The three answers rewrite the claim: withdrawn, approved or rejected.\<close>

definition answered :: "after_sale \<Rightarrow> after_sale \<Rightarrow> bool" where
  "answered c c' \<longleftrightarrow>
    (\<exists>reason. c' = cancelled_claim (c\<lparr>af_reject_reason := reason\<rparr>) \<and>
      af_claim_status c = Claim_is_PENDING) \<or>
    (\<exists>now a. c' = approved_claim now a c \<and> af_claim_status c \<in> answerable \<and>
      a \<le> af_requested_amount c \<and> (af_refunded_amount c > 0 \<longrightarrow> af_refunded_amount c \<le> a)) \<or>
    (\<exists>now why. c' = rejected_claim now why c \<and> af_claim_status c \<in> answerable \<and>
      af_refunded_amount c \<le> 0)"

definition rewrites_claim :: "'a shop_scheme \<Rightarrow> 'a shop_scheme \<Rightarrow> bool" where
  "rewrites_claim s s' \<longleftrightarrow> (\<exists>c c'. c \<in> set (after_sales s) \<and> answered c c' \<and> after_sale_checks c' \<and>
    s' = s\<lparr>after_sales := put_row af_id c' (after_sales s)\<rparr>)"

lemma rewrites_claimI:
  assumes "flush_claim s c' = ok s'" and "locked_claim s no user merchant = ok c" and "answered c c'"
  shows "rewrites_claim s s'"
  using flush_claim_ok [OF assms(1)] locked_claim_member [OF assms(2)] assms(3)
  unfolding rewrites_claim_def by blast

lemma cancel_rewrites:
  assumes "cancel_claim s who no reason = ok (c, s')"
  shows "rewrites_claim s s'"
proof -
  obtain c0 where c0: "locked_claim s no (Some (p_user_id who)) None = ok c0"
    and "af_claim_status c0 = Claim_is_PENDING"
    and f: "flush_claim s (cancelled_claim (c0\<lparr>af_reject_reason := reason\<rparr>)) = ok s'"
    using assms unfolding cancel_claim_def Let_def by (auto simp: bindE_eq_Inr require_eq_Inr)
  then have "answered c0 (cancelled_claim (c0\<lparr>af_reject_reason := reason\<rparr>))"
    unfolding answered_def by blast
  with f c0 show ?thesis by (rule rewrites_claimI)
qed

lemma approve_rewrites:
  assumes "approve_claim s who no amount = ok (c, s')"
  shows "rewrites_claim s s'"
proof -
  obtain m c0 where c0: "locked_claim s no None (Some m) = ok c0"
    and "af_claim_status c0 \<in> answerable" "amount \<le> af_requested_amount c0"
    and "af_refunded_amount c0 > 0 \<longrightarrow> af_refunded_amount c0 \<le> amount"
    and f: "flush_claim s (approved_claim (db_now s) amount c0) = ok s'"
    using assms unfolding approve_claim_def Let_def by (auto simp: bindE_eq_Inr require_eq_Inr)
  then have "answered c0 (approved_claim (db_now s) amount c0)"
    unfolding answered_def by blast
  with f c0 show ?thesis by (rule rewrites_claimI)
qed

lemma reject_rewrites:
  assumes "reject_claim s who no why = ok (c, s')"
  shows "rewrites_claim s s'"
proof -
  obtain m c0 where c0: "locked_claim s no None (Some m) = ok c0"
    and "af_claim_status c0 \<in> answerable" "af_refunded_amount c0 \<le> 0"
    and f: "flush_claim s (rejected_claim (db_now s) why c0) = ok s'"
    using assms unfolding reject_claim_def Let_def by (auto simp: bindE_eq_Inr require_eq_Inr)
  then have "answered c0 (rejected_claim (db_now s) why c0)"
    unfolding answered_def by blast
  with f c0 show ?thesis by (rule rewrites_claimI)
qed

lemma answered_keeps:
  "answered c c' \<Longrightarrow> af_id c' = af_id c \<and> af_items c' = af_items c \<and> af_order_id c' = af_order_id c \<and>
    af_refunded_amount c' = af_refunded_amount c \<and> af_requested_amount c' = af_requested_amount c \<and>
    af_after_sale_no c' = af_after_sale_no c \<and> af_merchant_id c' = af_merchant_id c"
  by (auto simp: answered_def cancelled_claim_def approved_claim_def rejected_claim_def)

text \<open>A new claim is appended, within what the order's lines could still be claimed for.\<close>

definition files_claim :: "'a shop_scheme \<Rightarrow> 'a shop_scheme \<Rightarrow> bool" where
  "files_claim s s' \<longleftrightarrow> (\<exists>c irs. s' = s\<lparr>after_sales := after_sales s @ [c], idempotency := irs\<rparr> \<and>
    af_id c = fresh_id af_id (after_sales s) \<and> af_claim_status c = Claim_is_PENDING \<and>
    af_approved_amount c = 0 \<and> af_refunded_amount c = 0 \<and> 0 \<le> af_requested_amount c \<and>
    claim_lines_checks (af_items c) \<and>
    (\<forall>l \<in> set (af_items c). \<exists>i \<in> set (items_for s (af_order_id c)). oi_id i = ai_order_item_id l \<and>
      ai_quantity l \<le> remaining_units i (live_claimed_quantity s (af_order_id c) None (oi_id i))))"

lemma insert_claim_effect:
  assumes "insert_claim ev s ord q items key h = ok (c, s')"
  shows "s' = s\<lparr>after_sales := after_sales s @ [c]\<rparr>" and "after_sale_checks c"
    and "claim_lines_checks (af_items c)" and "mapE (claim_line_of (items_for s (o_id ord))) items = ok (af_items c)"
    and "\<exists>no ls. c = (new_claim (db_now s) ord q key h)\<lparr>af_id := fresh_id af_id (after_sales s),
      af_after_sale_no := no, af_items := ls\<rparr>"
proof -
  let ?row = "(new_claim (db_now s) ord q key h)\<lparr>af_id := fresh_id af_id (after_sales s)\<rparr>"
  have idle: "put_row af_id (?row\<lparr>af_after_sale_no := no, af_items := ls\<rparr>) (after_sales s) = after_sales s"
    for no ls by (rule put_row_idle) (simp add: fresh_id_new)
  obtain no ls where c: "c = ?row\<lparr>af_after_sale_no := no, af_items := ls\<rparr>"
    and m: "mapE (claim_line_of (items_for s (o_id ord))) items = ok ls"
    and f: "flush_claim (s\<lparr>after_sales := after_sales s @ [?row]\<rparr>) c = ok s'"
    using assms by (auto simp: insert_claim_def add_claim_def bindE_eq_Inr Let_def items_for_def
        split: if_splits)
  show "s' = s\<lparr>after_sales := after_sales s @ [c]\<rparr>" and "after_sale_checks c"
    and "claim_lines_checks (af_items c)"
    using flush_claim_ok [OF f] by (simp_all add: c idle) (simp add: put_row_def)
  show "mapE (claim_line_of (items_for s (o_id ord))) items = ok (af_items c)" using m c by simp
  show "\<exists>no ls. c = ?row\<lparr>af_after_sale_no := no, af_items := ls\<rparr>" using c by blast
qed

lemma within_claimable_units:
  assumes "eligibility s ord requested None = ok e" and "within_claimable e r" and "r \<in> set requested"
    and ids: "distinct (map oi_id (order_items s))"
  obtains i where "i \<in> set (items_for s (o_id ord))" and "oi_id i = fst r"
    and "snd r \<le> remaining_units i (live_claimed_quantity s (o_id ord) None (oi_id i))"
proof -
  let ?items = "items_for s (o_id ord)" and ?u = "\<lambda>i. remaining_units i (live_claimed_quantity s (o_id ord) None (oi_id i))"
  have "fst r \<in> oi_id ` set ?items" and e: "el_claimable_quantity e = map (\<lambda>i. (oi_id i, ?u i)) ?items"
    using assms(1,3) by (auto simp: eligibility_def require_eq_Inr Let_def list_all_iff)
  then obtain i where i: "i \<in> set ?items" "oi_id i = fst r" by auto
  have "distinct (map fst (el_claimable_quantity e))"
    using distinct_items_for [OF ids] by (simp add: e comp_def)
  moreover have "(fst r, ?u i) \<in> set (el_claimable_quantity e)" using i by (force simp: e)
  ultimately have "map_of (el_claimable_quantity e) (fst r) = Some (?u i)" by simp
  with assms(2) have "snd r \<le> ?u i" by (simp add: within_claimable_def)
  with i that show ?thesis by blast
qed

lemma file_claimE:
  assumes "file_claim ev s who q key h = ok (c, s')"
  obtains ord e ir s1 s2 where "eligibility s ord (requested_lines q) None = ok e"
    and "list_all (within_claimable e) (requested_lines q)"
    and "insert_in_progress s after_sale_apply_scope key h (Some ''after_sale'') None = Some (ir, s1)"
    and "insert_claim ev s1 ord q (requested_lines q) key h = ok (c, s2)"
    and "\<exists>snap. s' = mark_completed s2 ir ''after_sale'' (af_id c) 0 snap"
proof -
  obtain ord where ord: "get_by_order_no s (aq_order_no q) None (Some (p_user_id who)) = Some ord"
    using assms by (auto simp: file_claim_def Let_def split: option.splits)
  obtain e where e: "eligibility s ord (requested_lines q) None = ok e"
    and fits: "list_all (within_claimable e) (requested_lines q)"
    using assms by (auto simp: file_claim_def Let_def ord bindE_eq_Inr require_eq_Inr)
  obtain ir s1 where ins: "insert_in_progress s after_sale_apply_scope key h (Some ''after_sale'') None =
      Some (ir, s1)"
    using assms by (auto simp: file_claim_def Let_def ord e require_eq_Inr split: option.splits)
  obtain s2 where "insert_claim ev s1 ord q (requested_lines q) key h = ok (c, s2)"
    and "\<exists>snap. s' = mark_completed s2 ir ''after_sale'' (af_id c) 0 snap"
    using assms by (auto simp: file_claim_def Let_def ord e ins bindE_eq_Inr require_eq_Inr)
  from that [OF e fits ins this] show ?thesis .
qed

lemma apply_files:
  assumes "apply_claim ev s who q key = ok (c, s')" and rows: "after_sale_rows s"
  shows "s' = s \<or> files_claim s s'"
proof (cases "get_claim s after_sale_apply_scope key")
  case (Some r)
  with assms(1) show ?thesis
    by (auto simp: apply_claim_def Let_def bindE_eq_Inr require_eq_Inr)
next
  case None
  let ?h = "request_hash_for_claim ev (aq_order_no q) (aq_type q) (aq_requested_amount q) (requested_lines q)"
  have "file_claim ev s who q key ?h = ok (c, s')"
    using assms(1) None by (simp add: apply_claim_def Let_def require_eq_Inr)
  then obtain ord e ir s1 s2 where e: "eligibility s ord (requested_lines q) None = ok e"
    and fits: "list_all (within_claimable e) (requested_lines q)"
    and ins: "insert_in_progress s after_sale_apply_scope key ?h (Some ''after_sale'') None = Some (ir, s1)"
    and i: "insert_claim ev s1 ord q (requested_lines q) key ?h = ok (c, s2)"
    and s': "\<exists>snap. s' = mark_completed s2 ir ''after_sale'' (af_id c) 0 snap"
    by (rule file_claimE)
  have s1: "\<exists>irs. s1 = s\<lparr>idempotency := irs\<rparr>"
    using ins by (auto simp: insert_in_progress_def Let_def split: option.splits)
  note c = insert_claim_effect [OF i]
  have same: "items_for s1 = items_for s" "after_sales s1 = after_sales s"
    using s1 by (auto simp: items_for_def)
  obtain no ls where row: "c = (new_claim (db_now s1) ord q key ?h)
      \<lparr>af_id := fresh_id af_id (after_sales s), af_after_sale_no := no, af_items := ls\<rparr>"
    using c(5) same(2) by auto
  have oid: "af_order_id c = o_id ord" by (simp add: row new_claim_def)
  have line: "\<exists>i \<in> set (items_for s (o_id ord)). oi_id i = ai_order_item_id l \<and>
      ai_quantity l \<le> remaining_units i (live_claimed_quantity s (o_id ord) None (oi_id i))"
    if l: "l \<in> set (af_items c)" for l
  proof -
    obtain r where r: "r \<in> set (requested_lines q)" and "claim_line_of (items_for s (o_id ord)) r = ok l"
      using mapE_Inr_member [OF c(4) l] same by auto
    then have "ai_order_item_id l = fst r" "ai_quantity l = snd r"
      by (auto simp: claim_line_of_def split: option.splits)
    moreover have "within_claimable e r" using fits r by (simp add: list_all_iff)
    ultimately show ?thesis
      by (metis within_claimable_units [OF e _ r] rows after_sale_rows_def)
  qed
  have "\<exists>irs. s' = s\<lparr>after_sales := after_sales s @ [c], idempotency := irs\<rparr>"
    using s1 c(1) s' by (auto simp: mark_completed_def)
  moreover have "af_id c = fresh_id af_id (after_sales s)" "af_claim_status c = Claim_is_PENDING"
    "af_approved_amount c = 0" "af_refunded_amount c = 0"
    by (simp_all add: row new_claim_def)
  moreover have "0 \<le> af_requested_amount c" using c(2) by (simp add: after_sale_checks_def)
  moreover have "\<forall>l \<in> set (af_items c). \<exists>i \<in> set (items_for s (af_order_id c)). oi_id i = ai_order_item_id l \<and>
      ai_quantity l \<le> remaining_units i (live_claimed_quantity s (af_order_id c) None (oi_id i))"
    using line unfolding oid by blast
  ultimately have "files_claim s s'"
    using c(3) unfolding files_claim_def by blast
  then show ?thesis ..
qed

text \<open>A refund that pays out, as a relation between the tables.\<close>

definition pays_claim :: "'a shop_scheme \<Rightarrow> 'a shop_scheme \<Rightarrow> bool" where
  "pays_claim s s' \<longleftrightarrow> (\<exists>r p c ord shares now a.
    p \<in> set (payments s) \<and> c \<in> set (after_sales s) \<and> ord \<in> set (orders s) \<and> o_id ord = af_order_id c \<and>
    af_claim_status c = Claim_is_APPROVED \<and> 0 < a \<and> af_refunded_amount c + a \<le> af_approved_amount c \<and>
    rf_amount r = a \<and> rf_payment_id r = Some (pay_id p) \<and> rf_after_sale_id r = af_id c \<and>
    rf_order_id r = o_id ord \<and> distinct (map fst shares) \<and> total snd shares = a \<and>
    list_all order_item_checks (map (add_shares shares) (order_items s)) \<and>
    (\<exists>stock ms ob. s' = s\<lparr>refunds := refunds s @ [r],
      payments := put_row pay_id (apply_refund a p) (payments s),
      after_sales := put_row af_id (apply_claim_refund now a c) (after_sales s),
      order_items := map (add_shares shares) (order_items s), inventories := stock, movements := ms,
      orders := put_row o_id (settled_axes a ord) (orders s), outbox := ob\<rparr>))"

lemma execute_refund_pays:
  assumes x: "execute_refund ev s who q = ok (out, s')" and rows: "after_sale_rows s"
    and new: "\<not> ro_replayed out"
  shows "pays_claim s s'"
proof -
  obtain c p ord shares where c: "c \<in> set (after_sales s)" "af_claim_status c = Claim_is_APPROVED"
    and p: "p \<in> set (payments s)" and ord: "ord \<in> set (orders s)" "o_id ord = af_order_id c"
    and caps: "validate_caps c p (items_for s (o_id ord)) (claim_pairs c) (rq_amount q) = ok shares"
    and pays: "pay_out ev s who q c p ord (items_for s (o_id ord)) shares = ok (out, s')"
    and d: "distinct (map fst shares)"
    by (rule refund_paidE [OF x new rows]) (rule that; assumption)
  have ids: "distinct (map oi_id (order_items s))" using rows by (simp add: after_sale_rows_def)
  show ?thesis
  proof (rule pay_out_effect [OF pays new ids items_for_subset d])
    fix r stock ms
    assume r: "r = (new_refund ev (db_now s) who q c p ord)\<lparr>rf_id := fresh_id rf_id (refunds s),
        rf_refund_no := public_no ''NVR'' (db_now s) (nat (fresh_id rf_id (refunds s)))\<rparr>"
      and s': "\<exists>ob. s' = s\<lparr>refunds := refunds s @ [r],
        payments := put_row pay_id (apply_refund (rq_amount q) p) (payments s),
        after_sales := put_row af_id (apply_claim_refund (db_now s) (rq_amount q) c) (after_sales s),
        order_items := map (add_shares shares) (order_items s), inventories := stock, movements := ms,
        orders := put_row o_id (settled_axes (rq_amount q) ord) (orders s), outbox := ob\<rparr>"
      and sum: "total snd shares = rq_amount q"
      and lines: "\<And>i. i \<in> set (order_items s) \<Longrightarrow> oi_id i \<in> fst ` set shares \<Longrightarrow>
        order_item_checks (add_shares shares i)"
    have "order_item_checks (add_shares shares i)" if "i \<in> set (order_items s)" for i
      using lines [OF that] rows that
      by (cases "oi_id i \<in> fst ` set shares") (auto simp: add_shares_idle after_sale_rows_def list_all_iff)
    moreover have "0 < rq_amount q" "af_refunded_amount c + rq_amount q \<le> af_approved_amount c"
      using caps by (auto simp: validate_caps_def require_eq_Inr)
    moreover have "rf_amount r = rq_amount q" "rf_payment_id r = Some (pay_id p)"
      "rf_after_sale_id r = af_id c" "rf_order_id r = o_id ord"
      by (simp_all add: r new_refund_def)
    ultimately show ?thesis
      unfolding pays_claim_def
      by (intro exI [of _ r] exI [of _ p] exI [of _ c] exI [of _ ord] exI [of _ shares]
          exI [of _ "db_now s"] exI [of _ "rq_amount q"])
        (use s' sum c p ord d in \<open>auto simp: list_all_iff\<close>)
  qed
qed

lemma pay_out_replay:
  assumes "pay_out ev s who q c p ord items shares = ok (out, s')" and "ro_replayed out"
  shows "s' = s"
proof -
  obtain w where "write_refund ev s who q c p ord = ok w"
    using assms(1) by (auto simp: pay_out_def bindE_eq_Inr)
  with assms show ?thesis by (cases w) (auto simp: pay_out_def bindE_eq_Inr Let_def)
qed

lemma replay_idle:
  assumes "execute_refund ev s who q = ok (out, s')" and "ro_replayed out" and "after_sale_rows s"
  shows "s' = s"
  using assms(1)
proof (cases rule: execute_refundE)
  case (Fresh m)
  from Fresh(4) assms(3) show ?thesis
    by (rule refund_freshE) (use assms(2) pay_out_replay in blast)
qed

text \<open>Every step is one of five things.\<close>

lemma step_kinds:
  assumes "after_sale_step s s'" and "after_sale_rows s"
  shows "s' = s \<or> files_claim s s' \<or> rewrites_claim s s' \<or> pays_claim s s' \<or>
    (\<exists>t. s' = s\<lparr>db_now := t\<rparr>)"
  using assms(1)
proof (cases rule: after_sale_step.cases)
  case (step_refund ev who r out)
  with execute_refund_pays [OF _ assms(2)] replay_idle [OF _ _ assms(2)] show ?thesis by metis
qed (use assms(2) in \<open>blast dest: apply_files cancel_rewrites approve_rewrites reject_rewrites\<close>)+

end
