(* ===== verification/After_Sale_Invariants.thy ===== *)
theory After_Sale_Invariants
  imports After_Sale_Runs
begin

text \<open>
  What every run of the after-sales component keeps: the primary keys and constraints, the units on
  live claims within the lines they name, and the books: the counters of claims, payments and orders
  explained by the rows of the refunds table.
\<close>

section \<open>Units on live claims\<close>

definition units_on :: "int \<Rightarrow> after_sale \<Rightarrow> int" where
  "units_on item c = (\<Sum>i \<leftarrow> claim_lines c. if ai_order_item_id i = item then ai_quantity i else 0)"

definition live_units :: "int \<Rightarrow> after_sale \<Rightarrow> int" where
  "live_units item c = (if af_claim_status c \<in> live_claim_statuses then units_on item c else 0)"

lemma units_on_total:
  "units_on item c = total (\<lambda>i. if ai_order_item_id i = item then ai_quantity i else 0) (af_items c)"
  unfolding units_on_def claim_lines_def total_def [symmetric] by simp

lemma units_on_cong: "af_items c' = af_items c \<Longrightarrow> units_on item c' = units_on item c"
  by (simp add: units_on_total)

lemma claimed_units_live:
  "claimed_units (filter (\<lambda>c. af_claim_status c \<in> live_claim_statuses) cs) item = total (live_units item) cs"
  unfolding claimed_units_def units_on_def [symmetric] total_def [symmetric] total_filter
  by (rule total_cong) (simp add: live_units_def units_on_def total_def)

lemma units_on_absent: "item \<notin> ai_order_item_id ` set (af_items c) \<Longrightarrow> units_on item c = 0"
  unfolding units_on_total by (rule total_zero) auto

lemma units_on_line:
  assumes "claim_lines_checks (af_items c)" and "l \<in> set (af_items c)"
  shows "units_on (ai_order_item_id l) c = ai_quantity l"
proof -
  have "total (\<lambda>i. if ai_order_item_id i = ai_order_item_id l then ai_quantity i else 0) ls = ai_quantity l"
    if "distinct (map ai_order_item_id ls)" and "l \<in> set ls" for ls
    using that
  proof (induction ls)
    case (Cons x ls)
    show ?case
    proof (cases "x = l")
      case True
      with Cons.prems(1) have "total (\<lambda>i. if ai_order_item_id i = ai_order_item_id l then ai_quantity i else 0) ls = 0"
        by (intro total_zero) (auto simp: image_iff)
      with True show ?thesis by simp
    next
      case False
      with Cons show ?thesis by auto
    qed
  qed simp
  with assms show ?thesis by (simp add: units_on_total claim_lines_checks_def)
qed

section \<open>The invariant\<close>

definition lines_belong :: "'a shop_scheme \<Rightarrow> bool" where
  "lines_belong s \<longleftrightarrow> (\<forall>c \<in> set (after_sales s). \<forall>l \<in> set (af_items c). \<exists>i \<in> set (order_items s).
    oi_id i = ai_order_item_id l \<and> oi_order_id i = af_order_id c)"

definition units_fit :: "'a shop_scheme \<Rightarrow> bool" where
  "units_fit s \<longleftrightarrow>
    (\<forall>i \<in> set (order_items s). total (live_units (oi_id i)) (after_sales s) \<le> oi_quantity i)"

definition claims_explained :: "'a shop_scheme \<Rightarrow> bool" where
  "claims_explained s \<longleftrightarrow> rf_after_sale_id ` set (refunds s) \<subseteq> af_id ` set (after_sales s) \<and>
    (\<forall>c \<in> set (after_sales s). af_refunded_amount c = total_for_after_sale s (af_id c) \<and>
      0 \<le> af_refunded_amount c \<and> af_refunded_amount c \<le> af_approved_amount c \<and>
      af_approved_amount c \<le> af_requested_amount c)"

definition claim_books :: "'a shop_scheme \<Rightarrow> bool" where
  "claim_books s \<longleftrightarrow> after_sale_rows s \<and> lines_belong s \<and> units_fit s \<and> claims_explained s"

lemma live_claimed_total:
  assumes "after_sale_rows s" and "lines_belong s" and i: "i \<in> set (items_for s oid)"
  shows "live_claimed_quantity s oid None (oi_id i) = total (live_units (oi_id i)) (after_sales s)"
proof -
  have ids: "distinct (map oi_id (order_items s))" using assms(1) by (simp add: after_sale_rows_def)
  have "live_units (oi_id i) c = (if af_order_id c = oid then live_units (oi_id i) c else 0)"
    if c: "c \<in> set (after_sales s)" for c
  proof (cases "af_order_id c = oid")
    case False
    have "oi_id i \<notin> ai_order_item_id ` set (af_items c)"
    proof
      assume "oi_id i \<in> ai_order_item_id ` set (af_items c)"
      then obtain j where "j \<in> set (order_items s)" "oi_id j = oi_id i" "oi_order_id j = af_order_id c"
        using assms(2) c by (fastforce simp: lines_belong_def)
      with same_row [OF ids, of j i] i False show False by (auto simp: items_for_def)
    qed
    with False show ?thesis by (simp add: live_units_def units_on_absent)
  qed simp
  then have "total (live_units (oi_id i)) (after_sales s) =
      total (live_units (oi_id i)) (filter (\<lambda>c. af_order_id c = oid) (after_sales s))"
    unfolding total_filter by (rule total_cong)
  also have "\<dots> = total (live_units (oi_id i)) (claims_for_order s oid)"
    by (simp add: claims_for_order_def)
  finally show ?thesis
    by (simp add: live_claimed_quantity_def claimed_units_live)
qed

section \<open>Every step keeps it\<close>

lemma total_for_after_sale_total:
  "total_for_after_sale s cid = total (\<lambda>r. if rf_after_sale_id r = cid then rf_amount r else 0) (refunds s)"
  unfolding total_for_after_sale_def total_def [symmetric] by (rule total_filter)

lemma files_keeps:
  assumes "files_claim s s'" and books: "claim_books s"
  shows "claim_books s'"
proof -
  note b = books [unfolded claim_books_def]
  obtain c irs where s': "s' = s\<lparr>after_sales := after_sales s @ [c], idempotency := irs\<rparr>"
    and id: "af_id c = fresh_id af_id (after_sales s)" and st: "af_claim_status c = Claim_is_PENDING"
    and amounts: "af_approved_amount c = 0" "af_refunded_amount c = 0" "0 \<le> af_requested_amount c"
    and lines: "claim_lines_checks (af_items c)"
    and fit: "\<forall>l \<in> set (af_items c). \<exists>i \<in> set (items_for s (af_order_id c)). oi_id i = ai_order_item_id l \<and>
      ai_quantity l \<le> remaining_units i (live_claimed_quantity s (af_order_id c) None (oi_id i))"
    using assms(1) unfolding files_claim_def by blast
  have fresh: "af_id c \<notin> af_id ` set (after_sales s)" by (simp add: id fresh_id_new)
  have ids: "distinct (map oi_id (order_items s))" using b by (simp add: after_sale_rows_def)
  have "after_sale_rows s'"
    using b fresh lines by (auto simp: after_sale_rows_def s')
  moreover have "lines_belong s'"
    using b fit by (fastforce simp: lines_belong_def s' items_for_def)
  moreover have "units_fit s'"
    unfolding units_fit_def
  proof
    fix i assume "i \<in> set (order_items s')"
    then have i: "i \<in> set (order_items s)" by (simp add: s')
    then have old: "total (live_units (oi_id i)) (after_sales s) \<le> oi_quantity i"
      using b by (simp add: units_fit_def)
    show "total (live_units (oi_id i)) (after_sales s') \<le> oi_quantity i"
    proof (cases "oi_id i \<in> ai_order_item_id ` set (af_items c)")
      case True
      then obtain l where l: "l \<in> set (af_items c)" "ai_order_item_id l = oi_id i" by auto
      then obtain j where j: "j \<in> set (items_for s (af_order_id c))" "oi_id j = oi_id i"
        and q: "ai_quantity l \<le> remaining_units j (live_claimed_quantity s (af_order_id c) None (oi_id j))"
        using fit by fastforce
      have "j = i" using same_row [OF ids, of j i] j i items_for_subset by blast
      with q j live_claimed_total [of s j "af_order_id c"] b
      have "ai_quantity l \<le> remaining_units i (total (live_units (oi_id i)) (after_sales s))" by simp
      moreover have "0 < ai_quantity l" using lines l by (simp add: claim_lines_checks_def list_all_iff)
      moreover have "live_units (oi_id i) c = ai_quantity l"
        using units_on_line [OF lines l(1)] l(2) st by (simp add: live_units_def live_claim_statuses_def)
      ultimately show ?thesis by (simp add: s' remaining_units_def)
    next
      case False
      with old show ?thesis by (simp add: s' live_units_def units_on_absent)
    qed
  qed
  moreover have "claims_explained s'"
  proof -
    have "\<forall>r \<in> set (refunds s). rf_after_sale_id r \<noteq> af_id c"
      using b fresh by (metis claims_explained_def image_subset_iff)
    then have "total_for_after_sale s (af_id c) = 0"
      unfolding total_for_after_sale_total by (intro total_zero) simp
    moreover have "total_for_after_sale s' = total_for_after_sale s"
      by (simp add: s' total_for_after_sale_def [abs_def])
    ultimately show ?thesis using b amounts by (auto simp: claims_explained_def s')
  qed
  ultimately show ?thesis by (simp add: claim_books_def)
qed

lemma rewrites_keeps:
  assumes "rewrites_claim s s'" and books: "claim_books s"
  shows "claim_books s'"
proof -
  note b = books [unfolded claim_books_def]
  obtain c c' where c: "c \<in> set (after_sales s)" and a: "answered c c'" and ok: "after_sale_checks c'"
    and s': "s' = s\<lparr>after_sales := put_row af_id c' (after_sales s)\<rparr>"
    using assms(1) unfolding rewrites_claim_def by blast
  note k = answered_keeps [OF a]
  have ids: "distinct (map af_id (after_sales s))" using b by (simp add: after_sale_rows_def)
  have set': "set (after_sales s') = insert c' {r \<in> set (after_sales s). af_id r \<noteq> af_id c}"
    using c k by (subst s', simp, subst set_put_row) auto
  have "after_sale_rows s'"
    using b k c set' by (auto simp: after_sale_rows_def list_all_iff) (simp_all add: s')
  moreover have "lines_belong s'"
    using b k c by (auto simp: lines_belong_def set') (auto simp: s')
  moreover have "units_fit s'"
  proof -
    have "claim_lines_checks (af_items c)" using b c by (simp add: after_sale_rows_def list_all_iff)
    then have "0 \<le> units_on item c" for item
      unfolding units_on_total claim_lines_checks_def list_all_iff
      by (intro total_nonneg) (auto simp: less_imp_le)
    then have "live_units item c' \<le> live_units item c" for item
      using a k units_on_cong [of c' c item]
      by (auto simp: live_units_def live_claim_statuses_def answered_def answerable_def
          cancelled_claim_def approved_claim_def rejected_claim_def)
    then have "total (live_units item) (after_sales s') \<le> total (live_units item) (after_sales s)" for item
      using total_put_row [OF ids c, of c' "live_units item"] k by (simp add: s')
    moreover have "order_items s' = order_items s" by (simp add: s')
    ultimately show ?thesis using b unfolding units_fit_def by (metis order_trans)
  qed
  moreover have "claims_explained s'"
  proof -
    have "af_refunded_amount c \<le> af_approved_amount c' \<and> af_approved_amount c' \<le> af_requested_amount c"
      using a b c ok by (auto simp: answered_def cancelled_claim_def approved_claim_def
          rejected_claim_def claims_explained_def after_sale_checks_def)
    moreover have "total_for_after_sale s' = total_for_after_sale s"
      by (simp add: s' total_for_after_sale_def [abs_def])
    moreover have "af_id ` set (after_sales s') = af_id ` set (after_sales s)"
      unfolding set' using k c by force
    ultimately show ?thesis
      using b c k by (auto simp: claims_explained_def set') (auto simp: s')
  qed
  ultimately show ?thesis by (simp add: claim_books_def)
qed

lemma total_if_put:
  "total (\<lambda>r. if k r = i then f r else 0) (rows @ [r]) =
    total (\<lambda>r. if k r = i then f r else 0) rows + (if k r = i then f r else 0)"
  by simp

lemma pays_keeps:
  assumes "pays_claim s s'" and books: "claim_books s"
  shows "claim_books s'"
proof -
  note b = books [unfolded claim_books_def]
  obtain r p c ord shares now a stock ms ob where
    mem: "p \<in> set (payments s)" "c \<in> set (after_sales s)" "ord \<in> set (orders s)"
    and st: "af_claim_status c = Claim_is_APPROVED" and a: "0 < a"
    and cap: "af_refunded_amount c + a \<le> af_approved_amount c"
    and r: "rf_amount r = a" "rf_after_sale_id r = af_id c"
    and ok: "list_all order_item_checks (map (add_shares shares) (order_items s))"
    and s': "s' = s\<lparr>refunds := refunds s @ [r],
      payments := put_row pay_id (apply_refund a p) (payments s),
      after_sales := put_row af_id (apply_claim_refund now a c) (after_sales s),
      order_items := map (add_shares shares) (order_items s), inventories := stock, movements := ms,
      orders := put_row o_id (settled_axes a ord) (orders s), outbox := ob\<rparr>"
    using assms(1) unfolding pays_claim_def by blast
  let ?c = "apply_claim_refund now a c"
  have ids: "distinct (map af_id (after_sales s))" using b by (simp add: after_sale_rows_def)
  have set': "set (after_sales s') = insert ?c {r \<in> set (after_sales s). af_id r \<noteq> af_id c}"
    using mem by (subst s', simp, subst set_put_row) auto
  have items: "map oi_id (order_items s') = map oi_id (order_items s)" by (simp add: s' comp_def)
  have "after_sale_rows s'"
    using b mem(2) ok set' items
    by (auto simp: after_sale_rows_def list_all_iff) (auto simp add: s')
  moreover have "lines_belong s'"
  proof -
    have "\<exists>i \<in> set (order_items s'). oi_id i = l \<and> oi_order_id i = x"
      if "\<exists>i \<in> set (order_items s). oi_id i = l \<and> oi_order_id i = x" for l x
      using that by (auto simp: s' add_shares_def)
    then show ?thesis using b mem(2) by (auto simp: lines_belong_def set')
  qed
  moreover have "units_fit s'"
  proof -
    have "live_units item ?c = live_units item c" for item
      using st units_on_cong [of ?c c item]
      by (simp add: live_units_def live_claim_statuses_def) (simp add: apply_claim_refund_def Let_def)
    then have "total (live_units item) (after_sales s') = total (live_units item) (after_sales s)" for item
      using total_put_row [OF ids mem(2), of ?c "live_units item"] by (simp add: s')
    then show ?thesis using b by (auto simp: units_fit_def s' add_shares_def)
  qed
  moreover have "claims_explained s'"
  proof -
    have tot: "total_for_after_sale s' i = total_for_after_sale s i + (if i = af_id c then a else 0)" for i
      using r by (simp add: total_for_after_sale_total s')
    have "af_id ` set (after_sales s') = af_id ` set (after_sales s)"
      unfolding set' using mem(2) by force
    then have sub: "rf_after_sale_id ` set (refunds s') \<subseteq> af_id ` set (after_sales s')"
      using b r mem(2) by (simp add: claims_explained_def s')
    show ?thesis
      unfolding claims_explained_def
    proof (intro conjI sub ballI)
      fix x assume "x \<in> set (after_sales s')"
      then consider "x = ?c" | "x \<in> set (after_sales s)" "af_id x \<noteq> af_id c" by (auto simp: set')
      then have "af_refunded_amount x = total_for_after_sale s' (af_id x) \<and> 0 \<le> af_refunded_amount x \<and>
        af_refunded_amount x \<le> af_approved_amount x \<and> af_approved_amount x \<le> af_requested_amount x"
      proof cases
        case 1
        have "af_refunded_amount c = total_for_after_sale s (af_id c) \<and> 0 \<le> af_refunded_amount c \<and>
            af_approved_amount c \<le> af_requested_amount c"
          using b mem(2) unfolding claims_explained_def by blast
        with 1 a cap tot show ?thesis by auto
      next
        case 2
        have "af_refunded_amount x = total_for_after_sale s (af_id x) \<and> 0 \<le> af_refunded_amount x \<and>
            af_refunded_amount x \<le> af_approved_amount x \<and> af_approved_amount x \<le> af_requested_amount x"
          using b 2(1) unfolding claims_explained_def by blast
        with 2(2) tot show ?thesis by simp
      qed
      then show "af_refunded_amount x = total_for_after_sale s' (af_id x)" "0 \<le> af_refunded_amount x"
        "af_refunded_amount x \<le> af_approved_amount x" "af_approved_amount x \<le> af_requested_amount x"
        by blast+
    qed
  qed
  ultimately show ?thesis by (simp add: claim_books_def)
qed

lemma clock_keeps: "claim_books (s\<lparr>db_now := t\<rparr>) \<longleftrightarrow> claim_books s"
  by (simp add: claim_books_def after_sale_rows_def lines_belong_def units_fit_def claims_explained_def
      total_for_after_sale_def)

lemma step_keeps_books:
  assumes "after_sale_step s s'" and "claim_books s"
  shows "claim_books s'"
proof -
  have "after_sale_rows s" using assms(2) by (simp add: claim_books_def)
  from step_kinds [OF assms(1) this] show ?thesis
    using assms(2) files_keeps rewrites_keeps pays_keeps clock_keeps by blast
qed

lemma run_keeps_books: "after_sale_run s s' \<Longrightarrow> claim_books s \<Longrightarrow> claim_books s'"
  by (erule after_sale_run_invariant) (auto intro: step_keeps_books)

text \<open>A shop in which nothing was claimed yet.\<close>

definition no_claims_yet :: "'a shop_scheme \<Rightarrow> bool" where
  "no_claims_yet s \<longleftrightarrow> after_sale_rows s \<and> after_sales s = [] \<and> refunds s = []"

lemma no_claims_books: "no_claims_yet s \<Longrightarrow> claim_books s"
  by (auto simp: no_claims_yet_def claim_books_def lines_belong_def units_fit_def claims_explained_def
      after_sale_rows_def list_all_iff order_item_checks_def)

section \<open>Payments and orders\<close>

definition total_for_order :: "'a shop_scheme \<Rightarrow> int \<Rightarrow> int" where
  "total_for_order s oid = total (\<lambda>r. if rf_order_id r = oid then rf_amount r else 0) (refunds s)"

lemma total_for_payment_total:
  "total_for_payment s pid = total (\<lambda>r. if rf_payment_id r = Some pid then rf_amount r else 0) (refunds s)"
  unfolding total_for_payment_def total_def [symmetric] by (rule total_filter)

text \<open>What each payment and each order had given back before the rows of the refunds table.\<close>

definition refunded_before :: "'a shop_scheme \<Rightarrow> (int \<times> int) list \<times> (int \<times> int) list" where
  "refunded_before s =
    (map (\<lambda>p. (pay_id p, pay_refunded_amount p - total_for_payment s (pay_id p))) (payments s),
     map (\<lambda>x. (o_id x, o_refunded_amount x - total_for_order s (o_id x))) (orders s))"

lemma map_put_row_pointwise:
  assumes "distinct (map key rows)" and "r \<in> set rows" and "key r' = key r" and "g r' = f r"
    and "\<And>x. x \<in> set rows \<Longrightarrow> key x \<noteq> key r \<Longrightarrow> g x = f x"
  shows "map g (put_row key r' rows) = map f rows"
proof -
  have "g (if key x = key r' then r' else x) = f x" if x: "x \<in> set rows" for x
  proof (cases "key x = key r")
    case True
    with same_row [OF assms(1) x assms(2)] assms(3,4) show ?thesis by simp
  next
    case False
    with assms(3,5) x show ?thesis by simp
  qed
  then show ?thesis by (simp add: put_row_def)
qed

lemma pays_refunded_before:
  assumes "pays_claim s s'" and rows: "after_sale_rows s"
  shows "refunded_before s' = refunded_before s"
proof -
  note b = rows [unfolded after_sale_rows_def]
  obtain r p c ord shares now a stock ms ob where
    mem: "p \<in> set (payments s)" "ord \<in> set (orders s)"
    and r: "rf_amount r = a" "rf_payment_id r = Some (pay_id p)" "rf_order_id r = o_id ord"
    and s': "s' = s\<lparr>refunds := refunds s @ [r],
      payments := put_row pay_id (apply_refund a p) (payments s),
      after_sales := put_row af_id (apply_claim_refund now a c) (after_sales s),
      order_items := map (add_shares shares) (order_items s), inventories := stock, movements := ms,
      orders := put_row o_id (settled_axes a ord) (orders s), outbox := ob\<rparr>"
    using assms(1) unfolding pays_claim_def by blast
  have "total_for_payment s' i = total_for_payment s i + (if i = pay_id p then a else 0)"
    "total_for_order s' i = total_for_order s i + (if i = o_id ord then a else 0)" for i
    using r by (simp_all add: total_for_payment_total total_for_order_def s')
  then show ?thesis
    unfolding refunded_before_def
    using b mem by (auto simp: s' intro!: map_put_row_pointwise)
qed

lemma step_refunded_before:
  assumes "after_sale_step s s'" and "after_sale_rows s"
  shows "refunded_before s' = refunded_before s"
  using step_kinds [OF assms] pays_refunded_before [OF _ assms(2)]
  by (auto simp: files_claim_def rewrites_claim_def refunded_before_def total_for_payment_def
      total_for_order_def)

lemma run_refunded_before:
  assumes "after_sale_run s s'" and "claim_books s"
  shows "refunded_before s' = refunded_before s"
proof -
  have "claim_books s' \<and> refunded_before s' = refunded_before s"
    using assms(1)
  proof (rule after_sale_run_invariant)
    fix t t' assume "after_sale_step t t'" and "claim_books t \<and> refunded_before t = refunded_before s"
    then show "claim_books t' \<and> refunded_before t' = refunded_before s"
      using step_keeps_books step_refunded_before by (metis claim_books_def)
  qed (use assms(2) in simp)
  then show ?thesis ..
qed

end
