(* ===== verification/Refund_Sample.thy ===== *)
theory Refund_Sample
  imports After_Sale_Invariants Shop_Sample
begin

text \<open>
  A paid order of two lines with an approved claim on both, and what two refunds of it do: the state
  of the witnesses of the after-sales properties.
\<close>

definition refund_line :: "int \<Rightarrow> int \<Rightarrow> int \<Rightarrow> int \<Rightarrow> order_item" where
  "refund_line i sku original payable = sample_order_item
    \<lparr>oi_id := i, oi_sku_id := sku, oi_quantity := 2, oi_original_amount := original,
     oi_coupon_discount_amount := original - payable, oi_allocated_discount_amount := original - payable,
     oi_payable_amount := payable\<rparr>"

definition refund_order :: order where
  "refund_order = order_of_coupon\<lparr>o_order_status := PROCESSING, o_payment_status := PAID,
    o_paid_amount := 800, o_paid_at := Some 900\<rparr>"

definition sample_claim :: after_sale where
  "sample_claim =
    \<lparr>af_id = 1, af_merchant_id = 1, af_after_sale_no = ''A1'', af_order_id = 1, af_order_no = ''N1'',
     af_user_id = 9, af_type = RETURN_REFUND, af_claim_status = Claim_is_APPROVED,
     af_requested_amount = 500, af_approved_amount = 500, af_refunded_amount = 0,
     af_reason = ''broken'', af_description = None, af_evidence_urls = None, af_reject_reason = None,
     af_processed_at = Some 950, af_completed_at = None, af_idempotency_key = ''c1'',
     af_client_request_id = ''q1'', af_request_hash = ''h1'', af_created_at = 940,
     af_items = [\<lparr>ai_order_item_id = 1, ai_product_name = ''Mug'', ai_sku_name = ''Red'',
                  ai_quantity = 1\<rparr>,
                 \<lparr>ai_order_item_id = 2, ai_product_name = ''Mug'', ai_sku_name = ''Blue'',
                  ai_quantity = 2\<rparr>]\<rparr>"

definition refund_shop :: shop where
  "refund_shop = sample_shop\<lparr>orders := [refund_order],
    order_items := [refund_line 1 7 600 480, refund_line 2 8 400 320],
    payments := [sample_payment\<lparr>pay_status := Pay_SUCCESS, pay_paid_amount := 800\<rparr>],
    after_sales := [sample_claim]\<rparr>"

definition sample_staff :: principal where
  "sample_staff = \<lparr>p_user_id = 2, p_merchant_id = Some 1,
    p_permissions = {''refund:execute'', ''after_sale:read'', ''after_sale:review''},
    p_data_scope = Scope_MERCHANT, p_is_staff = True\<rparr>"

definition sample_refund :: "int \<Rightarrow> string \<Rightarrow> refund_request" where
  "sample_refund a key = \<lparr>rq_after_sale_no = ''A1'', rq_amount = a, rq_idempotency_key = key,
    rq_reason = None\<rparr>"

definition refund_summary :: "refund_outcome \<times> shop \<Rightarrow> bool \<times> (int \<times> int) list option \<times> int list \<times> int" where
  "refund_summary x = (ro_replayed (fst x), ro_split (fst x),
    map oi_refunded_amount (order_items (snd x)), (\<Sum>p \<leftarrow> payments (snd x). pay_refunded_amount p))"

lemma refund_shop_rows: "after_sale_rows refund_shop"
  by code_simp

lemma first_refund:
  "map_sum (\<lambda>_. ()) refund_summary (execute_refund sample_env refund_shop sample_staff (sample_refund 301 ''r1'')) =
    Inr (False, Some [(1, 180), (2, 121)], [180, 121], 301)"
  by code_simp

text \<open>The same shop before the claim, and a claim filed, approved for less and refunded in part.\<close>

definition claim_shop :: shop where
  "claim_shop = refund_shop\<lparr>after_sales := []\<rparr>"

definition sample_apply :: apply_request where
  "sample_apply = \<lparr>aq_order_no = ''N1'', aq_type = RETURN_REFUND,
    aq_items = [\<lparr>cl_order_item_id = 2, cl_quantity = 1\<rparr>], aq_requested_amount = 200,
    aq_reason = ''broken'', aq_description = None, aq_evidence_urls = None,
    aq_client_request_id = ''q1''\<rparr>"

definition filed_claim :: after_sale where
  "filed_claim = sample_claim\<lparr>af_after_sale_no := ''NVAS19700101000001'',
    af_claim_status := Claim_is_PENDING, af_requested_amount := 200, af_approved_amount := 0,
    af_processed_at := None, af_idempotency_key := ''k1'',
    af_request_hash := ''order_no=N1|type=RETURN_REFUND|amount=200|items=2:1'', af_created_at := 1000,
    af_items := [\<lparr>ai_order_item_id = 2, ai_product_name = ''Mug'', ai_sku_name = ''Red'',
                  ai_quantity = 1\<rparr>]\<rparr>"

definition claim_key_row :: idempotency_record where
  "claim_key_row =
    \<lparr>ir_scope = ''after-sale:apply'', ir_key = ''k1'',
     ir_request_hash = ''order_no=N1|type=RETURN_REFUND|amount=200|items=2:1'',
     ir_status = Claim_COMPLETED, ir_response_code = Some 0,
     ir_response_snapshot = Some (Claim_Snapshot ''NVAS19700101000001'' ''N1'' 200 1000),
     ir_resource_type = Some ''after_sale'', ir_resource_id = Some 1, ir_expires_at = None\<rparr>"

definition filed_shop :: shop where
  "filed_shop = claim_shop\<lparr>after_sales := [filed_claim], idempotency := [claim_key_row]\<rparr>"

definition approved_shop :: shop where
  "approved_shop = filed_shop\<lparr>after_sales := [approved_claim 1000 150 filed_claim]\<rparr>"

definition story_refund :: refund_request where
  "story_refund = \<lparr>rq_after_sale_no = ''NVAS19700101000001'', rq_amount = 120,
    rq_idempotency_key = ''r1'', rq_reason = None\<rparr>"

lemma claim_shop_start: "no_claims_yet claim_shop"
  by code_simp

lemma filed: "apply_claim sample_env claim_shop sample_customer sample_apply ''k1'' = ok (filed_claim, filed_shop)"
  by code_simp

lemma approved: "approve_claim filed_shop sample_staff ''NVAS19700101000001'' 150 =
    ok (approved_claim 1000 150 filed_claim, approved_shop)"
  by code_simp

lemma approved_number: "distinct (map af_after_sale_no (after_sales approved_shop))"
  by code_simp

lemma refunded:
  "map_sum (\<lambda>_. ()) (\<lambda>(out, s'). (map rf_amount (refunds s'), map af_refunded_amount (after_sales s'),
      live_claimed_quantity s' 1 None 2)) (execute_refund sample_env approved_shop sample_staff story_refund) =
    Inr ([120], [120], 1)"
  by code_simp

end
