(* ===== verification/Refund_Properties.thy ===== *)
theory Refund_Properties
  imports Refund_Sample
begin

text \<open>
  The properties of after-sales: a refund moves one amount through every counter, its key moves it
  once, the figure the console offers is the figure the workflow accepts, claims stay within the
  units that were bought, and the counters are explained by the rows of the refunds table.
\<close>

section \<open>A refund moves money\<close>

text \<open>The counters of a table, by primary key, and the same counters with an amount on one key.\<close>

definition counters :: "('r \<Rightarrow> int) \<Rightarrow> ('r \<Rightarrow> int) \<Rightarrow> 'r list \<Rightarrow> (int \<times> int) list" where
  "counters key f rows = map (\<lambda>r. (key r, f r)) rows"

definition credited :: "int \<Rightarrow> int \<Rightarrow> (int \<times> int) list \<Rightarrow> (int \<times> int) list" where
  "credited k a cs = map (\<lambda>(i, x). (i, if i = k then x + a else x)) cs"

lemma counters_put_row:
  assumes "distinct (map key rows)" and "r \<in> set rows" and "key r' = key r" and "f r' = f r + a"
  shows "counters key f (put_row key r' rows) = credited (key r) a (counters key f rows)"
proof -
  have "(key (if key x = key r' then r' else x), f (if key x = key r' then r' else x)) =
      (key x, if key x = key r then f x + a else f x)" if "x \<in> set rows" for x
    using same_row [OF assms(1) that assms(2)] assms(3,4) by auto
  then show ?thesis by (simp add: counters_def credited_def put_row_def comp_def)
qed

lemma refund_effectE:
  assumes rows: "after_sale_rows s" and x: "execute_refund ev s who q = ok (out, s')"
    and new: "\<not> ro_replayed out"
  obtains r p c ord shares where "p \<in> set (payments s)" and "c \<in> set (after_sales s)"
    and "ord \<in> set (orders s)" and "pay_order_id p = af_order_id c" and "o_id ord = af_order_id c"
    and "af_after_sale_no c = rq_after_sale_no q" and "0 < rq_amount q" and "rf_amount r = rq_amount q"
    and "rf_payment_id r = Some (pay_id p)" and "rf_after_sale_id r = af_id c"
    and "pay_refunded_amount p + rq_amount q \<le> pay_paid_amount p"
    and "af_refunded_amount c + rq_amount q \<le> af_approved_amount c"
    and "map fst shares = sort (map ai_order_item_id (af_items c))" and "total snd shares = rq_amount q"
    and "ro_split out = Some shares"
    and "\<forall>i \<in> set (order_items s). order_item_checks (add_shares shares i)"
    and "\<exists>stock ms ob. s' = s\<lparr>refunds := refunds s @ [r],
      payments := put_row pay_id (apply_refund (rq_amount q) p) (payments s),
      after_sales := put_row af_id (apply_claim_refund (db_now s) (rq_amount q) c) (after_sales s),
      order_items := map (add_shares shares) (order_items s), inventories := stock, movements := ms,
      orders := put_row o_id (settled_axes (rq_amount q) ord) (orders s), outbox := ob\<rparr>"
proof -
  note wf = rows [unfolded after_sale_rows_def]
  obtain m c p ord shares where a: "0 < rq_amount q"
    and no: "get_by_after_sale_no s (rq_after_sale_no q) None None = Some c"
    and "af_claim_status c = Claim_is_APPROVED" and c: "c \<in> set (after_sales s)"
    and p: "p \<in> set (payments s)" "pay_order_id p = af_order_id c"
    and ord: "ord \<in> set (orders s)" "o_id ord = af_order_id c"
    and caps: "validate_caps c p (items_for s (o_id ord)) (claim_pairs c) (rq_amount q) = ok shares"
    and pays: "pay_out ev s who q c p ord (items_for s (o_id ord)) shares = ok (out, s')"
    and keys: "map fst shares = sort (map ai_order_item_id (af_items c))" "distinct (map fst shares)"
    by (rule refund_paidE [OF x new rows]) (rule that; assumption)
  have ids: "distinct (map oi_id (order_items s))" using wf by simp
  show ?thesis
  proof (rule pay_out_effect [OF pays new ids items_for_subset keys(2)])
    fix r stock ms
    assume out: "out = \<lparr>ro_refund = r, ro_replayed = False, ro_split = Some shares\<rparr>"
      and r: "r = (new_refund ev (db_now s) who q c p ord)\<lparr>rf_id := fresh_id rf_id (refunds s),
        rf_refund_no := public_no ''NVR'' (db_now s) (nat (fresh_id rf_id (refunds s)))\<rparr>"
      and s': "\<exists>ob. s' = s\<lparr>refunds := refunds s @ [r],
        payments := put_row pay_id (apply_refund (rq_amount q) p) (payments s),
        after_sales := put_row af_id (apply_claim_refund (db_now s) (rq_amount q) c) (after_sales s),
        order_items := map (add_shares shares) (order_items s), inventories := stock, movements := ms,
        orders := put_row o_id (settled_axes (rq_amount q) ord) (orders s), outbox := ob\<rparr>"
      and sum: "total snd shares = rq_amount q"
      and lines: "\<And>i. i \<in> set (order_items s) \<Longrightarrow> oi_id i \<in> fst ` set shares \<Longrightarrow>
        order_item_checks (add_shares shares i)"
    have "order_item_checks (add_shares shares i)" if "i \<in> set (order_items s)" for i
      using that wf lines [OF that]
      by (cases "oi_id i \<in> fst ` set shares") (auto simp: list_all_iff add_shares_idle)
    moreover have "pay_refunded_amount p + rq_amount q \<le> pay_paid_amount p"
      "af_refunded_amount c + rq_amount q \<le> af_approved_amount c"
      using caps by (auto simp: validate_caps_def require_eq_Inr)
    moreover have "af_after_sale_no c = rq_after_sale_no q"
      using no by (auto simp: get_by_after_sale_no_def dest: find_SomeD)
    ultimately show ?thesis
      using that [of p c ord r shares] a c p ord keys(1) sum out s' r by (auto simp: new_refund_def)
  qed
qed

text \<open>
  C6: an executed refund is one new row of the refunds table, and its amount is what the counter of
  the payment, of the claim and of the order grew by, and what the counters of the claimed lines grew
  by together; no other counter moves. Afterwards none of them exceeds what was paid, approved or
  payable.
\<close>

theorem refund_conserves_money:
  assumes "after_sale_rows s" and "execute_refund ev s who q = ok (out, s')"
    and "\<not> ro_replayed out"
  shows "\<exists>r p c shares. refunds s' = refunds s @ [r] \<and> rf_amount r = rq_amount q \<and> 0 < rf_amount r \<and>
    rf_payment_id r = Some (pay_id p) \<and> rf_after_sale_id r = af_id c \<and>
    p \<in> set (payments s) \<and> c \<in> set (after_sales s) \<and> pay_order_id p = af_order_id c \<and>
    af_after_sale_no c = rq_after_sale_no q \<and>
    counters pay_id pay_refunded_amount (payments s') =
      credited (pay_id p) (rf_amount r) (counters pay_id pay_refunded_amount (payments s)) \<and>
    counters af_id af_refunded_amount (after_sales s') =
      credited (af_id c) (rf_amount r) (counters af_id af_refunded_amount (after_sales s)) \<and>
    counters o_id o_refunded_amount (orders s') =
      credited (af_order_id c) (rf_amount r) (counters o_id o_refunded_amount (orders s)) \<and>
    counters oi_id oi_refunded_amount (order_items s') =
      map (\<lambda>(i, x). (i, x + case_option 0 id (map_of shares i)))
        (counters oi_id oi_refunded_amount (order_items s)) \<and>
    sum_list (map snd shares) = rf_amount r \<and> ro_split out = Some shares \<and>
    map fst shares = sort (map ai_order_item_id (af_items c)) \<and>
    pay_refunded_amount p + rf_amount r \<le> pay_paid_amount p \<and>
    af_refunded_amount c + rf_amount r \<le> af_approved_amount c \<and>
    (\<forall>i \<in> set (order_items s'). oi_refunded_amount i \<le> oi_payable_amount i)"
proof -
  note wf = assms(1) [unfolded after_sale_rows_def]
  obtain r p c ord shares where mem: "p \<in> set (payments s)" "c \<in> set (after_sales s)" "ord \<in> set (orders s)"
    and ids: "pay_order_id p = af_order_id c" "o_id ord = af_order_id c" "af_after_sale_no c = rq_after_sale_no q"
    and r: "0 < rq_amount q" "rf_amount r = rq_amount q" "rf_payment_id r = Some (pay_id p)"
      "rf_after_sale_id r = af_id c"
    and caps: "pay_refunded_amount p + rq_amount q \<le> pay_paid_amount p"
      "af_refunded_amount c + rq_amount q \<le> af_approved_amount c"
    and shares: "map fst shares = sort (map ai_order_item_id (af_items c))" "total snd shares = rq_amount q"
      "ro_split out = Some shares"
    and lines: "\<forall>i \<in> set (order_items s). order_item_checks (add_shares shares i)"
    and s': "\<exists>stock ms ob. s' = s\<lparr>refunds := refunds s @ [r],
      payments := put_row pay_id (apply_refund (rq_amount q) p) (payments s),
      after_sales := put_row af_id (apply_claim_refund (db_now s) (rq_amount q) c) (after_sales s),
      order_items := map (add_shares shares) (order_items s), inventories := stock, movements := ms,
      orders := put_row o_id (settled_axes (rq_amount q) ord) (orders s), outbox := ob\<rparr>"
    by (rule refund_effectE [OF assms]) (rule that; assumption)
  have "counters oi_id oi_refunded_amount (map (add_shares shares) (order_items s)) =
      map (\<lambda>(i, x). (i, x + case_option 0 id (map_of shares i)))
        (counters oi_id oi_refunded_amount (order_items s))"
    by (simp add: counters_def add_shares_def)
  moreover have "\<forall>i \<in> set (order_items s). oi_refunded_amount (add_shares shares i) \<le>
      oi_payable_amount (add_shares shares i)"
    using lines unfolding order_item_checks_def by blast
  ultimately show ?thesis
    using s' r mem ids shares caps wf
    by (intro exI [of _ r] exI [of _ p] exI [of _ c] exI [of _ shares])
      (auto simp: total_def counters_put_row [where a = "rq_amount q"])
qed

theorem refund_conserves_money_witness:
  "\<exists>out s' r. execute_refund sample_env refund_shop sample_staff (sample_refund 301 ''r1'') = ok (out, s') \<and>
    refunds s' = refunds refund_shop @ [r] \<and> rf_amount r = 301"
proof -
  obtain out s' where x: "execute_refund sample_env refund_shop sample_staff (sample_refund 301 ''r1'') =
      ok (out, s')" and new: "\<not> ro_replayed out"
    using first_refund by (cases "execute_refund sample_env refund_shop sample_staff (sample_refund 301 ''r1'')")
      (auto simp: refund_summary_def)
  from refund_conserves_money [OF refund_shop_rows x new] x show ?thesis
    by (auto simp: sample_refund_def)
qed

section \<open>A key pays once\<close>

lemma find_append_Some: "find P xs = Some x \<Longrightarrow> find P (xs @ ys) = Some x"
  by (induction xs) auto

lemma refund_by_key_append:
  "refund_by_idempotency_key s m key = Some r \<Longrightarrow> refunds s' = refunds s @ rs \<Longrightarrow>
    refund_by_idempotency_key s' m key = Some r"
  unfolding refund_by_idempotency_key_def by (simp add: find_append_Some)

lemma pay_out_recorded:
  assumes pays: "pay_out ev s who q c p ord items shares = ok (out, s')"
    and m: "p_merchant_id who = Some m" "af_merchant_id c = m"
    and none: "refund_by_idempotency_key s m (rq_idempotency_key q) = None"
    and ids: "distinct (map oi_id (order_items s))" and sub: "set items \<subseteq> set (order_items s)"
    and d: "distinct (map fst shares)"
  shows "refund_by_idempotency_key s' m (rq_idempotency_key q) = Some (ro_refund out)" and
    "rf_request_hash (ro_refund out) = request_hash_for_refund ev (rq_after_sale_no q) (rq_amount q)
      (rq_reason q) (rq_idempotency_key q)"
proof -
  have new: "\<not> ro_replayed out"
  proof
    assume old: "ro_replayed out"
    obtain w where w: "write_refund ev s who q c p ord = ok w"
      using pays by (auto simp: pay_out_def bindE_eq_Inr)
    with pays old obtain winner where "w = Lost_Race winner"
      by (cases w) (auto simp: pay_out_def bindE_eq_Inr Let_def)
    with w none m(1) show False
      by (auto simp: write_refund_def Let_def bindE_eq_Inr claim_merchant_filter_def split: sum.splits)
  qed
  have "refund_by_idempotency_key s' m (rq_idempotency_key q) = Some (ro_refund out) \<and>
    rf_request_hash (ro_refund out) = request_hash_for_refund ev (rq_after_sale_no q) (rq_amount q)
      (rq_reason q) (rq_idempotency_key q)"
  proof (rule pay_out_effect [OF pays new ids sub d])
    fix r stock ms
    assume out: "out = \<lparr>ro_refund = r, ro_replayed = False, ro_split = Some shares\<rparr>"
      and r: "r = (new_refund ev (db_now s) who q c p ord)\<lparr>rf_id := fresh_id rf_id (refunds s),
        rf_refund_no := public_no ''NVR'' (db_now s) (nat (fresh_id rf_id (refunds s)))\<rparr>"
      and s': "\<exists>ob. s' = s\<lparr>refunds := refunds s @ [r],
        payments := put_row pay_id (apply_refund (rq_amount q) p) (payments s),
        after_sales := put_row af_id (apply_claim_refund (db_now s) (rq_amount q) c) (after_sales s),
        order_items := map (add_shares shares) (order_items s), inventories := stock, movements := ms,
        orders := put_row o_id (settled_axes (rq_amount q) ord) (orders s), outbox := ob\<rparr>"
    have "rf_merchant_id r = m" "rf_idempotency_key r = rq_idempotency_key q"
      using m(2) by (simp_all add: r new_refund_def)
    moreover have "rf_request_hash r = request_hash_for_refund ev (rq_after_sale_no q) (rq_amount q)
        (rq_reason q) (rq_idempotency_key q)" by (simp add: r new_refund_def)
    moreover have "find (\<lambda>x. rf_merchant_id x = m \<and> rf_idempotency_key x = rq_idempotency_key q)
        (refunds s @ [r]) = find (\<lambda>x. rf_merchant_id x = m \<and> rf_idempotency_key x = rq_idempotency_key q) [r]"
      using none by (intro find_append_None) (auto simp: refund_by_idempotency_key_def find_None_iff)
    ultimately show ?thesis
      using s' out by (auto simp: refund_by_idempotency_key_def)
  qed
  then show "refund_by_idempotency_key s' m (rq_idempotency_key q) = Some (ro_refund out)" and
    "rf_request_hash (ro_refund out) = request_hash_for_refund ev (rq_after_sale_no q) (rq_amount q)
      (rq_reason q) (rq_idempotency_key q)" by blast+
qed

lemma refund_recorded:
  assumes x: "execute_refund ev s who q = ok (out, s')" and rows: "after_sale_rows s"
    and nos: "distinct (map af_after_sale_no (after_sales s))"
  obtains m where "p_merchant_id who = Some m"
    and "refund_by_idempotency_key s' m (rq_idempotency_key q) = Some (ro_refund out)"
    and "rf_request_hash (ro_refund out) = request_hash_for_refund ev (rq_after_sale_no q) (rq_amount q)
      (rq_reason q) (rq_idempotency_key q)"
  using x
proof (cases rule: execute_refundE)
  case (Replayed m r)
  then show ?thesis by (intro that [of m]) simp_all
next
  case (Fresh m)
  from Fresh(4) rows show ?thesis
  proof (rule refund_freshE)
    fix c p ord shares
    assume no: "get_by_after_sale_no s (rq_after_sale_no q) None None = Some c"
      and scoped: "\<exists>c'. get_by_after_sale_no s (rq_after_sale_no q) (Some m) None = Some c'"
      and pays: "pay_out ev s who q c p ord (items_for s (o_id ord)) shares = ok (out, s')"
      and d: "distinct (map fst shares)"
    obtain c' where "c' \<in> set (after_sales s)" "af_after_sale_no c' = rq_after_sale_no q" "af_merchant_id c' = m"
      using scoped by (auto simp: get_by_after_sale_no_def dest: find_SomeD)
    moreover have "c \<in> set (after_sales s)" "af_after_sale_no c = rq_after_sale_no q"
      using no by (auto simp: get_by_after_sale_no_def dest: find_SomeD)
    ultimately have "af_merchant_id c = m" using same_row [OF nos] by metis
    moreover have "distinct (map oi_id (order_items s))" using rows by (simp add: after_sale_rows_def)
    ultimately show ?thesis
      using pay_out_recorded [OF pays Fresh(1) _ Fresh(3) _ items_for_subset d] that [OF Fresh(1)] by blast
  qed
qed

lemma step_refunds_grow:
  assumes "after_sale_step s s'" and "after_sale_rows s"
  obtains rs where "refunds s' = refunds s @ rs"
  using step_kinds [OF assms]
  by (elim disjE) (auto simp: files_claim_def rewrites_claim_def pays_claim_def)

lemma run_keeps_refund:
  assumes "after_sale_run s s'" and "claim_books s" and "refund_by_idempotency_key s m key = Some r"
  shows "refund_by_idempotency_key s' m key = Some r"
proof -
  have "claim_books s' \<and> refund_by_idempotency_key s' m key = Some r"
    using assms(1)
  proof (rule after_sale_run_invariant)
    fix t t' assume t: "after_sale_step t t'" "claim_books t \<and> refund_by_idempotency_key t m key = Some r"
    then have "after_sale_rows t" by (simp add: claim_books_def)
    with t show "claim_books t' \<and> refund_by_idempotency_key t' m key = Some r"
      by (metis step_keeps_books step_refunds_grow refund_by_key_append)
  qed (use assms in simp)
  then show ?thesis ..
qed

lemma claim_story:
  obtains out s' where "after_sale_run claim_shop approved_shop" and "after_sale_run claim_shop s'"
    and "execute_refund sample_env approved_shop sample_staff story_refund = ok (out, s')"
    and "map rf_amount (refunds s') = [120]" and "live_claimed_quantity s' 1 None 2 = 1"
proof -
  obtain out s' where x: "execute_refund sample_env approved_shop sample_staff story_refund = ok (out, s')"
    and paid: "map rf_amount (refunds s') = [120]" "live_claimed_quantity s' 1 None 2 = 1"
    using refunded by (cases "execute_refund sample_env approved_shop sample_staff story_refund") auto
  have run: "after_sale_run claim_shop approved_shop"
    by (rule run_step [OF run_step [OF run_start step_apply [OF filed]] step_approve [OF approved]])
  show ?thesis by (rule that [OF run run_step [OF run step_refund [OF x]] x paid])
qed

text \<open>
  C27: once a refund call has returned, the same call made at any later moment, whatever claims were
  filed, answered and refunded in between, returns the same refund as a replay and changes nothing.
\<close>

theorem refund_key_pays_once:
  assumes "no_claims_yet s0" and "after_sale_run s0 s"
    and "distinct (map af_after_sale_no (after_sales s))"
    and "execute_refund ev s who q = ok (out, s')" and "after_sale_run s' s''"
  shows "execute_refund ev s'' who q =
    ok (\<lparr>ro_refund = ro_refund out, ro_replayed = True, ro_split = None\<rparr>, s'')"
proof -
  have books: "claim_books s" using run_keeps_books [OF assms(2) no_claims_books [OF assms(1)]] .
  then have books': "claim_books s'"
    using assms(4) by (blast intro: step_keeps_books step_refund)
  have rows: "after_sale_rows s" using books by (simp add: claim_books_def)
  obtain m where m: "p_merchant_id who = Some m"
    and r: "refund_by_idempotency_key s' m (rq_idempotency_key q) = Some (ro_refund out)"
    and h: "rf_request_hash (ro_refund out) = request_hash_for_refund ev (rq_after_sale_no q) (rq_amount q)
      (rq_reason q) (rq_idempotency_key q)"
    by (rule refund_recorded [OF assms(4) rows assms(3)])
  note later = run_keeps_refund [OF assms(5) books' r]
  from assms(4) have "require_permission who ''refund:execute'' = ok ()"
    and "rq_idempotency_key q \<noteq> []" and "\<not> rq_amount q \<le> 0"
    by (auto simp: execute_refund_def bindE_eq_Inr require_eq_Inr)
  with m later h show ?thesis
    by (simp add: execute_refund_def claim_merchant_filter_def existing_refund_for_key_def)
qed

theorem refund_key_pays_once_witness:
  "\<exists>(s :: shop) s' out q. execute_refund sample_env s sample_staff q = ok (out, s') \<and>
    map rf_amount (refunds s') = [120] \<and>
    execute_refund sample_env s' sample_staff q =
      ok (\<lparr>ro_refund = ro_refund out, ro_replayed = True, ro_split = None\<rparr>, s')"
proof -
  obtain out s' where run: "after_sale_run claim_shop approved_shop"
    and x: "execute_refund sample_env approved_shop sample_staff story_refund = ok (out, s')"
    and paid: "map rf_amount (refunds s') = [120]"
    by (rule claim_story) (rule that; assumption)
  from refund_key_pays_once [OF claim_shop_start run approved_number x run_start] show ?thesis
    by (intro exI [of _ approved_shop] exI [of _ s'] exI [of _ out] exI [of _ story_refund] conjI x paid)
qed

section \<open>The offered amount\<close>

lemma line_weights_total:
  assumes ids: "distinct (map oi_id items)" and lines: "claim_lines_checks (af_items c)"
    and sub: "ai_order_item_id ` set (af_items c) \<subseteq> oi_id ` set items"
  shows "(\<Sum>l \<leftarrow> claim_pairs c. snd (line_weight items (fst l))) =
    (\<Sum>i \<leftarrow> filter (\<lambda>i. oi_id i \<in> ai_order_item_id ` set (af_items c)) items. remaining_amount i)"
proof -
  let ?g = "\<lambda>l. snd (line_weight items l)" and ?ids = "ai_order_item_id ` set (af_items c)"
  let ?is = "filter (\<lambda>i. oi_id i \<in> ?ids) items"
  have "(\<Sum>l \<leftarrow> claim_pairs c. ?g (fst l)) = sum_list (map ?g (map ai_order_item_id (claim_lines c)))"
    by (simp add: claim_pairs_def comp_def)
  also have "\<dots> = total (\<lambda>l. ?g (ai_order_item_id l)) (claim_lines c)"
    by (simp add: total_def comp_def)
  also have "\<dots> = sum_list (map ?g (map ai_order_item_id (af_items c)))"
    by (simp add: claim_lines_def) (simp add: total_def comp_def)
  also have "\<dots> = sum ?g ?ids"
    using lines by (subst sum_list_distinct_conv_sum_set) (simp_all add: claim_lines_checks_def)
  also have "?ids = set (map oi_id ?is)" using sub by force
  also have "sum ?g (set (map oi_id ?is)) = sum_list (map ?g (map oi_id ?is))"
    using ids by (subst sum_list_distinct_conv_sum_set) (simp_all add: distinct_map_filter)
  also have "map ?g (map oi_id ?is) = map remaining_amount ?is"
    using find_id [OF ids] by (auto simp: line_weight_def)
  finally show ?thesis .
qed

text \<open>
  The amount check of the workflow accepts exactly the amounts up to the figure the console offers for
  the claim, when the payment and the order agree on what was paid and given back. The workflow may still
  refuse such an amount, for the status of the claim or of the latest payment, which the figure ignores.
\<close>

theorem refund_offer_exact:
  assumes "distinct (map oi_id items)" and "list_all order_item_checks items"
    and "claim_lines_checks (af_items c)" and "ai_order_item_id ` set (af_items c) \<subseteq> oi_id ` set items"
    and "pay_paid_amount p = o_paid_amount ord" and "pay_refunded_amount p = o_refunded_amount ord"
  shows "is_ok (validate_caps c p items (claim_pairs c) a) \<longleftrightarrow> 0 < a \<and> a \<le> refund_cap c (Some (ord, items))"
proof -
  let ?ws = "map (line_weight items \<circ> fst) (claim_pairs c)"
  let ?left = "\<Sum>i \<leftarrow> filter (\<lambda>i. oi_id i \<in> ai_order_item_id ` set (af_items c)) items. remaining_amount i"
  have sum: "sum_list (map snd ?ws) = ?left"
    using line_weights_total [OF assms(1,3,4)] by (simp add: comp_def)
  have "list_all (\<lambda>w. 0 \<le> snd w) ?ws" by (simp add: list_all_iff line_weight_pos)
  then have placed: "\<exists>shares. allocate_refund_across_lines a ?ws = ok shares" if "0 < a" "a \<le> ?left"
    using allocate_refund_split [of a ?ws] that sum by metis
  have "fst ` set (claim_pairs c) = ai_order_item_id ` set (af_items c)"
    by (force simp: claim_pairs_def claim_lines_def)
  then have "is_ok (validate_caps c p items (claim_pairs c) a) \<longleftrightarrow>
    0 < a \<and> pay_refunded_amount p + a \<le> pay_paid_amount p \<and>
    af_refunded_amount c + a \<le> af_approved_amount c \<and> a \<le> ?left"
    using placed assms(4) line_weights_total [OF assms(1,3,4)]
    by (auto simp: is_ok_ex validate_caps_iff [OF assms(1,2)])
  moreover have "0 \<le> ?left" by (intro sum_list_nonneg) (auto simp: remaining_amount_def)
  ultimately show ?thesis
    using assms(5,6) by (auto simp: refund_cap_def Let_def)
qed

theorem refund_offer_exact_witness:
  "refund_cap sample_claim (Some (refund_order, order_items refund_shop)) = 500 \<and>
   is_ok (validate_caps sample_claim (hd (payments refund_shop)) (order_items refund_shop)
     (claim_pairs sample_claim) 500) \<and>
   \<not> is_ok (validate_caps sample_claim (hd (payments refund_shop)) (order_items refund_shop)
     (claim_pairs sample_claim) 501)"
proof -
  have cap: "refund_cap sample_claim (Some (refund_order, order_items refund_shop)) = 500" by code_simp
  have "distinct (map oi_id (order_items refund_shop))" by code_simp
  moreover have "list_all order_item_checks (order_items refund_shop)" by code_simp
  moreover have "claim_lines_checks (af_items sample_claim)" by code_simp
  moreover have "ai_order_item_id ` set (af_items sample_claim) \<subseteq> oi_id ` set (order_items refund_shop)"
    by code_simp
  moreover have "pay_paid_amount (hd (payments refund_shop)) = o_paid_amount refund_order"
    and "pay_refunded_amount (hd (payments refund_shop)) = o_refunded_amount refund_order" by code_simp+
  ultimately show ?thesis using refund_offer_exact cap by simp
qed

section \<open>Claims and books over every run\<close>

text \<open>
  C26: from a shop in which nothing was claimed, whatever claims are then filed, withdrawn, approved,
  rejected and refunded, no line of an order has more units on live claims than were bought.
\<close>

theorem claims_within_units:
  assumes "no_claims_yet s" and "after_sale_run s s'"
  shows "\<forall>i \<in> set (items_for s' oid). live_claimed_quantity s' oid None (oi_id i) \<le> oi_quantity i"
proof
  fix i assume i: "i \<in> set (items_for s' oid)"
  have b: "claim_books s'" by (rule run_keeps_books [OF assms(2) no_claims_books [OF assms(1)]])
  then have "live_claimed_quantity s' oid None (oi_id i) = total (live_units (oi_id i)) (after_sales s')"
    using b live_claimed_total [OF _ _ i] by (simp add: claim_books_def)
  moreover have "i \<in> set (order_items s')" using i items_for_subset by blast
  ultimately show "live_claimed_quantity s' oid None (oi_id i) \<le> oi_quantity i"
    using b by (simp add: claim_books_def units_fit_def)
qed

theorem claims_within_units_witness:
  "\<exists>s'. after_sale_run claim_shop s' \<and> live_claimed_quantity s' 1 None 2 = 1 \<and>
    list_all (\<lambda>i. live_claimed_quantity s' 1 None (oi_id i) \<le> oi_quantity i) (items_for s' 1)"
proof -
  obtain s' where run: "after_sale_run claim_shop s'" and units: "live_claimed_quantity s' 1 None 2 = 1"
    by (rule claim_story) (rule that; assumption)
  from claims_within_units [OF claim_shop_start run, of 1] run units show ?thesis
    by (auto simp: list_all_iff)
qed

text \<open>
  C10: over every such run the rows of the refunds table explain every counter: what a claim has
  refunded is the sum of its refunds and within its approved and requested amounts, and what a payment
  and an order have given back since is the sum of theirs.
\<close>

theorem refund_books_balance:
  assumes "no_claims_yet s" and "after_sale_run s s'"
  shows "(\<forall>c \<in> set (after_sales s'). af_refunded_amount c = total_for_after_sale s' (af_id c) \<and>
      af_refunded_amount c \<le> af_approved_amount c \<and> af_approved_amount c \<le> af_requested_amount c) \<and>
    counters pay_id pay_refunded_amount (payments s') =
      map (\<lambda>(i, x). (i, x + total_for_payment s' i)) (counters pay_id pay_refunded_amount (payments s)) \<and>
    counters o_id o_refunded_amount (orders s') =
      map (\<lambda>(i, x). (i, x + total_for_order s' i)) (counters o_id o_refunded_amount (orders s))"
proof -
  note start = no_claims_books [OF assms(1)]
  have b: "claim_books s'" by (rule run_keeps_books [OF assms(2) start])
  have "refunds s = []" using assms(1) by (simp add: no_claims_yet_def)
  then have none: "total_for_payment s i = 0" "total_for_order s i = 0" for i
    by (simp_all add: total_for_payment_def total_for_order_def)
  note r = run_refunded_before [OF assms(2) start, unfolded refunded_before_def prod.inject none]
  have "counters pay_id pay_refunded_amount (payments s') =
      map (\<lambda>(i, x). (i, x + total_for_payment s' i)) (counters pay_id pay_refunded_amount (payments s))"
    using arg_cong [OF r [THEN conjunct1], of "map (\<lambda>(i, x). (i, x + total_for_payment s' i))"]
    by (simp add: counters_def comp_def)
  moreover have "counters o_id o_refunded_amount (orders s') =
      map (\<lambda>(i, x). (i, x + total_for_order s' i)) (counters o_id o_refunded_amount (orders s))"
    using arg_cong [OF r [THEN conjunct2], of "map (\<lambda>(i, x). (i, x + total_for_order s' i))"]
    by (simp add: counters_def comp_def)
  ultimately show ?thesis using b unfolding claim_books_def claims_explained_def by blast
qed

theorem refund_books_balance_witness:
  "\<exists>s'. after_sale_run claim_shop s' \<and> map rf_amount (refunds s') = [120] \<and>
    list_all (\<lambda>c. af_refunded_amount c = total_for_after_sale s' (af_id c)) (after_sales s') \<and>
    counters pay_id pay_refunded_amount (payments s') = [(1, total_for_payment s' 1)]"
proof -
  obtain s' where run: "after_sale_run claim_shop s'" and paid: "map rf_amount (refunds s') = [120]"
    by (rule claim_story) (rule that; assumption)
  have "counters pay_id pay_refunded_amount (payments claim_shop) = [(1, 0)]" by code_simp
  with refund_books_balance [OF claim_shop_start run] run paid show ?thesis
    by (auto simp: list_all_iff)
qed

end
