(* ===== verification/Identity_Accounts.thy ===== *)
theory Identity_Accounts
  imports Shop_Repository Nova_Parse
begin

text \<open>
  The accounts of \<open>app/modules/identity\<close>: the enums, the tables of users, roles, grants and sessions
  with their constraints, and their repositories. They extend the shop, whose address book the order
  workflow reads. Text under \<open>lower()\<close> is compared on its ASCII letters.
\<close>

section \<open>Vocabularies\<close>

datatype user_type = CONSUMER | Type_STAFF

datatype user_status = User_ACTIVE | User_INACTIVE | User_LOCKED | User_DISABLED

datatype revoke_reason =
    LOGOUT | LOGOUT_ALL | ROTATED | REUSE_DETECTED | Session_EXPIRED | PASSWORD_CHANGED | ADMIN_REVOKED
  | ACCOUNT_LOCKED

fun user_type_value :: "user_type \<Rightarrow> string" where
  "user_type_value CONSUMER = ''CONSUMER''"
| "user_type_value Type_STAFF = ''STAFF''"

fun user_status_value :: "user_status \<Rightarrow> string" where
  "user_status_value User_ACTIVE = ''ACTIVE''"
| "user_status_value User_INACTIVE = ''INACTIVE''"
| "user_status_value User_LOCKED = ''LOCKED''"
| "user_status_value User_DISABLED = ''DISABLED''"

fun data_scope_value :: "data_scope \<Rightarrow> string" where
  "data_scope_value Scope_NONE = ''NONE''"
| "data_scope_value Scope_SELF = ''SELF''"
| "data_scope_value Scope_MERCHANT = ''MERCHANT''"
| "data_scope_value Scope_ALL = ''ALL''"

text \<open>\<open>DataScope(text)\<close>; \<open>None\<close> is its \<open>ValueError\<close>.\<close>

definition data_scope_of :: "string \<Rightarrow> data_scope option" where
  "data_scope_of t = find (\<lambda>x. data_scope_value x = t) [Scope_NONE, Scope_SELF, Scope_MERCHANT, Scope_ALL]"

section \<open>Tables\<close>

text \<open>A role with the codes of the permissions granted to it.\<close>

record role =
  rl_id :: int
  rl_merchant_id :: "int option"
  rl_code :: string
  rl_name :: string
  rl_is_system :: bool
  rl_data_scope :: string
  rl_permissions :: "string list"

record role_grant =
  ur_user_id :: int
  ur_role_id :: int
  ur_granted_by :: "int option"
  ur_expires_at :: "int option"

record account =
  ac_id :: int
  ac_merchant_id :: "int option"
  ac_username :: string
  ac_email :: "string option"
  ac_phone :: "string option"
  ac_password_hash :: string
  ac_display_name :: string
  ac_user_type :: user_type
  ac_status :: user_status
  ac_data_scope_override :: "string option"
  ac_failed_login_attempts :: int
  ac_locked_until :: "int option"
  ac_last_login_at :: "int option"
  ac_password_changed_at :: "int option"
  ac_deleted_at :: "int option"

record auth_session =
  se_id :: int
  se_user_id :: int
  se_session_id :: string
  se_refresh_token_hash :: string
  se_jti :: string
  se_issued_at :: int
  se_expires_at :: int
  se_revoked_at :: "int option"
  se_rotated_from :: "int option"
  se_revoked_reason :: "revoke_reason option"
  se_last_used_at :: "int option"
  se_client_ip :: "string option"
  se_user_agent :: "string option"
  se_login_source :: "string option"
  se_created_at :: int

record members = shop +
  accounts :: "account list"
  roles :: "role list"
  role_grants :: "role_grant list"
  sessions :: "auth_session list"

section \<open>Constraints\<close>

definition account_checks :: "account \<Rightarrow> bool" where
  "account_checks u \<longleftrightarrow> ac_user_type u = CONSUMER \<or> ac_merchant_id u \<noteq> None"

text \<open>NULL is never equal in a unique index.\<close>

definition same_text :: "string option \<Rightarrow> string option \<Rightarrow> bool" where
  "same_text a b \<longleftrightarrow> a \<noteq> None \<and> a = b"

definition account_clash :: "account \<Rightarrow> account \<Rightarrow> bool" where
  "account_clash a b \<longleftrightarrow> ac_username a = ac_username b \<or> same_text (ac_email a) (ac_email b) \<or>
    same_text (ac_phone a) (ac_phone b)"

definition session_checks :: "auth_session \<Rightarrow> bool" where
  "session_checks a \<longleftrightarrow> (case se_revoked_at a of None \<Rightarrow> True | Some t \<Rightarrow> t \<ge> se_created_at a)"

definition session_clash :: "auth_session \<Rightarrow> auth_session \<Rightarrow> bool" where
  "session_clash a b \<longleftrightarrow> se_session_id a = se_session_id b \<or>
    se_refresh_token_hash a = se_refresh_token_hash b \<or> se_jti a = se_jti b"

definition is_staff :: "account \<Rightarrow> bool" where
  "is_staff u \<longleftrightarrow> ac_user_type u = Type_STAFF"

definition is_active_session :: "auth_session \<Rightarrow> bool" where
  "is_active_session a \<longleftrightarrow> se_revoked_at a = None"

definition is_expired_session :: "int \<Rightarrow> auth_session \<Rightarrow> bool" where
  "is_expired_session now a \<longleftrightarrow> se_expires_at a \<le> now"

section \<open>Roles\<close>

text \<open>The roles behind the grants of an account, in the order of the grants.\<close>

definition roles_of :: "'a members_scheme \<Rightarrow> account \<Rightarrow> role list" where
  "roles_of s u =
    List.map_filter (\<lambda>g. row_of rl_id (roles s) (ur_role_id g))
      (filter (\<lambda>g. ur_user_id g = ac_id u) (role_grants s))"

definition role_codes :: "'a members_scheme \<Rightarrow> account \<Rightarrow> string list" where
  "role_codes s u = map rl_code (roles_of s u)"

definition permission_codes :: "'a members_scheme \<Rightarrow> account \<Rightarrow> string set" where
  "permission_codes s u = \<Union> (set (map (\<lambda>r. set (rl_permissions r)) (roles_of s u)))"

definition get_role_by_code :: "'a members_scheme \<Rightarrow> string \<Rightarrow> int option \<Rightarrow> role option" where
  "get_role_by_code s code merchant_id =
    find (\<lambda>r. rl_code r = code \<and>
      (merchant_id \<noteq> None \<longrightarrow> rl_merchant_id r = merchant_id \<or> rl_merchant_id r = None)) (roles s)"

definition list_roles :: "'a members_scheme \<Rightarrow> int option \<Rightarrow> role list" where
  "list_roles s merchant_id =
    sort_key rl_id (filter (\<lambda>r.
      merchant_id \<noteq> None \<longrightarrow> rl_merchant_id r = merchant_id \<or> rl_merchant_id r = None) (roles s))"

definition assign_role :: "'a members_scheme \<Rightarrow> int \<Rightarrow> int \<Rightarrow> int option \<Rightarrow> 'a members_scheme result" where
  "assign_role s user_id role_id granted_by =
    (if list_ex (\<lambda>g. ur_user_id g = user_id \<and> ur_role_id g = role_id) (role_grants s)
     then raise (IntegrityError ''user_roles'')
     else ok (s\<lparr>role_grants := role_grants s @
       [\<lparr>ur_user_id = user_id, ur_role_id = role_id, ur_granted_by = granted_by,
         ur_expires_at = None\<rparr>]\<rparr>))"

text \<open>\<open>resolve_data_scope\<close>: the override, else the widest scope of a role, else nothing.\<close>

definition widen :: "(string \<times> string) list \<Rightarrow> data_scope \<Rightarrow> string \<Rightarrow> data_scope" where
  "widen role_scopes widest code =
    (case map_of role_scopes code of
       None \<Rightarrow> widest
     | Some raw \<Rightarrow>
       (case data_scope_of raw of
          None \<Rightarrow> widest
        | Some candidate \<Rightarrow> if rank candidate > rank widest then candidate else widest))"

definition resolve_data_scope ::
  "string list \<Rightarrow> (string \<times> string) list \<Rightarrow> string option \<Rightarrow> data_scope" where
  "resolve_data_scope codes role_scopes override =
    (case override of
       Some (c # cs) \<Rightarrow> (case data_scope_of (c # cs) of None \<Rightarrow> Scope_NONE | Some x \<Rightarrow> x)
     | _ \<Rightarrow> fold (\<lambda>code widest. widen role_scopes widest code) codes Scope_NONE)"

section \<open>Accounts\<close>

definition get_account :: "'a members_scheme \<Rightarrow> int \<Rightarrow> account option" where
  "get_account s user_id = row_of ac_id (accounts s) user_id"

definition get_by_username :: "'a members_scheme \<Rightarrow> string \<Rightarrow> account option" where
  "get_by_username s username =
    find (\<lambda>u. lower_text (ac_username u) = lower_text (strip_text username)) (accounts s)"

definition get_by_email :: "'a members_scheme \<Rightarrow> string \<Rightarrow> account option" where
  "get_by_email s email =
    find (\<lambda>u. map_option lower_text (ac_email u) = Some (lower_text (strip_text email))) (accounts s)"

definition get_by_phone :: "'a members_scheme \<Rightarrow> string \<Rightarrow> account option" where
  "get_by_phone s phone = find (\<lambda>u. ac_phone u = Some phone) (accounts s)"

definition find_by_identifier :: "'a members_scheme \<Rightarrow> string \<Rightarrow> account option" where
  "find_by_identifier s identifier =
    (let cleaned = strip_text identifier in
     if cleaned = [] then None
     else case get_by_username s cleaned of
       Some u \<Rightarrow> Some u
     | None \<Rightarrow>
       (case get_by_email s cleaned of Some u \<Rightarrow> Some u | None \<Rightarrow> get_by_phone s cleaned))"

definition put_account :: "account \<Rightarrow> 'a members_scheme \<Rightarrow> 'a members_scheme" where
  "put_account u s = s\<lparr>accounts := put_row ac_id u (accounts s)\<rparr>"

definition add_account :: "'a members_scheme \<Rightarrow> account \<Rightarrow> (account \<times> 'a members_scheme) result" where
  "add_account s u =
    (let row = u\<lparr>ac_id := fresh_id ac_id (accounts s)\<rparr> in
     if account_checks row \<and> \<not> list_ex (account_clash row) (accounts s)
     then ok (row, s\<lparr>accounts := accounts s @ [row]\<rparr>)
     else raise (IntegrityError ''users''))"

definition account_exists :: "'a members_scheme \<Rightarrow> string \<Rightarrow> string \<Rightarrow> bool" where
  "account_exists s username email \<longleftrightarrow>
    (username \<noteq> [] \<and> get_by_username s username \<noteq> None) \<or> (email \<noteq> [] \<and> get_by_email s email \<noteq> None)"

text \<open>What a failed and a successful login write on the account.\<close>

definition failed_login :: "int \<Rightarrow> int \<Rightarrow> int \<Rightarrow> account \<Rightarrow> account" where
  "failed_login max_failures lockout_seconds now u =
    (let u = u\<lparr>ac_failed_login_attempts := ac_failed_login_attempts u + 1\<rparr> in
     if ac_failed_login_attempts u \<ge> max_failures
     then u\<lparr>ac_locked_until := Some (now + 1000 * lockout_seconds), ac_status := User_LOCKED\<rparr>
     else u)"

definition successful_login :: "int \<Rightarrow> account \<Rightarrow> account" where
  "successful_login now u =
    u\<lparr>ac_failed_login_attempts := 0, ac_locked_until := None,
      ac_status := (if ac_status u = User_LOCKED then User_ACTIVE else ac_status u),
      ac_last_login_at := Some now\<rparr>"

definition changed_password :: "int \<Rightarrow> string \<Rightarrow> account \<Rightarrow> account" where
  "changed_password now password_hash u =
    u\<lparr>ac_password_hash := password_hash, ac_password_changed_at := Some now\<rparr>"

section \<open>Sessions\<close>

definition get_session_row :: "'a members_scheme \<Rightarrow> int \<Rightarrow> auth_session option" where
  "get_session_row s pk = row_of se_id (sessions s) pk"

definition get_by_session_id :: "'a members_scheme \<Rightarrow> string \<Rightarrow> auth_session option" where
  "get_by_session_id s session_id = find (\<lambda>a. se_session_id a = session_id) (sessions s)"

definition get_by_refresh_hash :: "'a members_scheme \<Rightarrow> string \<Rightarrow> auth_session option" where
  "get_by_refresh_hash s h = find (\<lambda>a. se_refresh_token_hash a = h) (sessions s)"

definition get_active_for_user :: "'a members_scheme \<Rightarrow> int \<Rightarrow> auth_session list" where
  "get_active_for_user s user_id =
    sort_key (\<lambda>a. - se_created_at a)
      (filter (\<lambda>a. se_user_id a = user_id \<and> se_revoked_at a = None) (sessions s))"

definition count_active_for_user :: "'a members_scheme \<Rightarrow> int \<Rightarrow> nat" where
  "count_active_for_user s user_id =
    length (filter (\<lambda>a. se_user_id a = user_id \<and> se_revoked_at a = None) (sessions s))"

definition add_session ::
  "'a members_scheme \<Rightarrow> auth_session \<Rightarrow> (auth_session \<times> 'a members_scheme) result" where
  "add_session s a =
    (let row = a\<lparr>se_id := fresh_id se_id (sessions s), se_created_at := db_now s\<rparr> in
     if session_checks row \<and> \<not> list_ex (session_clash row) (sessions s)
     then ok (row, s\<lparr>sessions := sessions s @ [row]\<rparr>)
     else raise (IntegrityError ''auth_sessions''))"

definition revoked :: "int \<Rightarrow> revoke_reason \<Rightarrow> auth_session \<Rightarrow> auth_session" where
  "revoked now reason a = a\<lparr>se_revoked_at := Some now, se_revoked_reason := Some reason\<rparr>"

text \<open>An \<open>UPDATE\<close> that revokes the live rows a condition selects, and the rows it counts.\<close>

definition revoke_where ::
  "(auth_session \<Rightarrow> bool) \<Rightarrow> revoke_reason \<Rightarrow> 'a members_scheme \<Rightarrow> 'a members_scheme" where
  "revoke_where P reason s =
    s\<lparr>sessions := map (\<lambda>a. if P a \<and> se_revoked_at a = None then revoked (db_now s) reason a else a)
      (sessions s)\<rparr>"

definition live_count :: "(auth_session \<Rightarrow> bool) \<Rightarrow> 'a members_scheme \<Rightarrow> nat" where
  "live_count P s = length (filter (\<lambda>a. P a \<and> se_revoked_at a = None) (sessions s))"

definition revoke_session_row ::
  "auth_session \<Rightarrow> revoke_reason \<Rightarrow> 'a members_scheme \<Rightarrow> 'a members_scheme" where
  "revoke_session_row a reason = revoke_where (\<lambda>b. se_id b = se_id a) reason"

definition revoke_all_for_user ::
  "int \<Rightarrow> revoke_reason \<Rightarrow> int option \<Rightarrow> 'a members_scheme \<Rightarrow> nat \<times> 'a members_scheme" where
  "revoke_all_for_user user_id reason except s =
    (let chosen = (\<lambda>a. se_user_id a = user_id \<and> except \<noteq> Some (se_id a))
     in (live_count chosen s, revoke_where chosen reason s))"

definition touch_session :: "int \<Rightarrow> auth_session \<Rightarrow> 'a members_scheme \<Rightarrow> 'a members_scheme" where
  "touch_session now a s =
    s\<lparr>sessions := put_row se_id (a\<lparr>se_last_used_at := Some now\<rparr>) (sessions s)\<rparr>"

text \<open>The walk back along \<open>rotated_from\<close>, at most \<open>max_depth\<close> links, over ids not seen before.\<close>

fun walk_back :: "auth_session list \<Rightarrow> nat \<Rightarrow> int list \<Rightarrow> auth_session \<Rightarrow> auth_session list" where
  "walk_back rows 0 seen current = []"
| "walk_back rows (Suc depth) seen current =
    (case se_rotated_from current of
       None \<Rightarrow> []
     | Some parent_id \<Rightarrow>
       (case row_of se_id rows parent_id of
          None \<Rightarrow> []
        | Some parent \<Rightarrow>
            if se_id parent \<in> set seen then []
            else parent # walk_back rows depth (se_id parent # seen) parent))"

definition rotation_chain :: "'a members_scheme \<Rightarrow> auth_session \<Rightarrow> nat \<Rightarrow> auth_session list" where
  "rotation_chain s a max_depth = a # walk_back (sessions s) max_depth [se_id a] a"

text \<open>The walk forward, a generation at a time.\<close>

fun walk_forward :: "auth_session list \<Rightarrow> nat \<Rightarrow> int set \<Rightarrow> int set \<Rightarrow> int set" where
  "walk_forward rows 0 frontier ids = ids"
| "walk_forward rows (Suc depth) frontier ids =
    (if frontier = {} then ids
     else let next_generation = se_id ` set (filter (\<lambda>b. se_rotated_from b \<in> Some ` frontier) rows) - ids
          in walk_forward rows depth next_generation (ids \<union> next_generation))"

definition family_session_ids :: "'a members_scheme \<Rightarrow> auth_session \<Rightarrow> nat \<Rightarrow> int set" where
  "family_session_ids s a max_depth =
    (let ids = se_id ` set (rotation_chain s a max_depth)
     in walk_forward (sessions s) max_depth ids ids)"

text \<open>Both walks default to fifty links.\<close>

definition family_depth :: nat where
  "family_depth = 50"

definition in_family :: "'a members_scheme \<Rightarrow> auth_session \<Rightarrow> auth_session \<Rightarrow> bool" where
  "in_family s a b \<longleftrightarrow> se_id b \<in> family_session_ids s a family_depth"

definition revoke_family ::
  "auth_session \<Rightarrow> revoke_reason \<Rightarrow> 'a members_scheme \<Rightarrow> nat \<times> 'a members_scheme" where
  "revoke_family a reason s = (live_count (in_family s a) s, revoke_where (in_family s a) reason s)"

definition delete_expired :: "int \<Rightarrow> 'a members_scheme \<Rightarrow> nat \<times> 'a members_scheme" where
  "delete_expired cutoff s =
    (let gone = (\<lambda>a. se_expires_at a < cutoff \<and> se_revoked_at a \<noteq> None)
     in (length (filter gone (sessions s)), s\<lparr>sessions := filter (\<lambda>a. \<not> gone a) (sessions s)\<rparr>))"

end
