(* ===== verification/Identity_Security.thy ===== *)
theory Identity_Security
  imports Identity_Accounts "HOL-Library.List_Lexorder" "HOL-Library.Char_ord"
begin

text \<open>
  \<open>app/modules/identity/security.py\<close>: password rules, refresh-token digests, access tokens and the
  guards before a login. Argon2 and PyJWT are parameters, as are the random draws of a call.
\<close>

section \<open>Parameters\<close>

text \<open>What \<open>PasswordHasher.verify\<close> answers: true, \<open>VerifyMismatchError\<close>, or another of its errors.\<close>

datatype hash_verdict = Hash_Matches | Hash_Mismatch | Hash_Unverifiable

text \<open>The claims of an access token; \<open>None\<close> where \<open>payload.get\<close> finds nothing.\<close>

record token_payload =
  tp_sub :: string
  tp_jti :: string
  tp_sid :: "string option"
  tp_iss :: string
  tp_aud :: string
  tp_iat :: int
  tp_nbf :: int
  tp_exp :: int
  tp_typ :: "string option"
  tp_roles :: "string list option"
  tp_permissions :: "string list option"
  tp_data_scope :: "string option"
  tp_merchant_id :: "int option"
  tp_user_type :: "string option"

text \<open>What \<open>jwt.decode\<close> answers with the options of the call: the payload, or the error it raises.\<close>

datatype token_verdict =
    Token_Payload token_payload
  | Token_Expired
  | Token_Immature
  | Token_Wrong_Audience
  | Token_Wrong_Issuer
  | Token_Wrong_Algorithm
  | Token_Unverified

record auth_env =
  au_sha256 :: "string \<Rightarrow> string"
  au_verify :: "string \<Rightarrow> string \<Rightarrow> hash_verdict"
  au_argon2 :: "string \<Rightarrow> string \<Rightarrow> string"
  au_needs_rehash :: "string \<Rightarrow> bool option"
  au_jwt_encode :: "token_payload \<Rightarrow> string"
  au_jwt_decode :: "int \<Rightarrow> string \<Rightarrow> token_verdict"
  au_jwt_secret_key :: string
  au_jwt_issuer :: string
  au_jwt_audience :: string
  au_access_token_ttl_seconds :: int
  au_refresh_token_ttl_seconds :: int
  au_login_max_failures :: int
  au_login_lockout_seconds :: int
  au_cors_allow_origins :: "string list"
  au_own_origin :: string

text \<open>The random values one call draws: salt, refresh token, session \<open>jti\<close> and token \<open>jti\<close>.\<close>

record draws =
  dr_salt :: string
  dr_refresh_token :: string
  dr_session_jti :: string
  dr_token_jti :: string

section \<open>Passwords\<close>

definition min_password_length :: nat where "min_password_length = 10"

definition max_password_length :: nat where "max_password_length = 128"

definition common_passwords :: "string list" where
  "common_passwords =
    [''password'', ''password1'', ''password123'', ''12345678'', ''123456789'', ''qwertyuiop'',
     ''letmein123'', ''admin12345'', ''welcome123'', ''iloveyou123'', ''nova1234'', ''nova'']"

text \<open>The characters of a text in UTF-8.\<close>

function characters :: "string \<Rightarrow> string list" where
  "characters [] = []"
| "characters (c # cs) =
    (c # takeWhile (\<lambda>d. \<not> starts_char d) cs) # characters (dropWhile (\<lambda>d. \<not> starts_char d) cs)"
  by pat_completeness auto

termination
  by (relation "measure length") (simp_all add: length_dropWhile_le le_imp_less_Suc)

definition validate_password_strength :: "string \<Rightarrow> unit result" where
  "validate_password_strength password =
    require (\<not> char_count password < min_password_length) (AppError (Common ValidationError))
    (require (\<not> char_count password > max_password_length) (AppError (Common ValidationError))
    (require (\<not> lower_text password \<in> set common_passwords) (AppError (Common ValidationError))
    (require (\<not> length (remdups (characters password)) < 4) (AppError (Common ValidationError))
    (ok ()))))"

definition hash_password :: "auth_env \<Rightarrow> draws \<Rightarrow> string \<Rightarrow> string result" where
  "hash_password ev d password =
    bindE (validate_password_strength password) (\<lambda>_. ok (au_argon2 ev (dr_salt d) password))"

definition verify_password :: "auth_env \<Rightarrow> string \<Rightarrow> string \<Rightarrow> bool" where
  "verify_password ev password password_hash \<longleftrightarrow>
    password \<noteq> [] \<and> password_hash \<noteq> [] \<and> au_verify ev password_hash password = Hash_Matches"

definition password_needs_rehash :: "auth_env \<Rightarrow> string \<Rightarrow> bool" where
  "password_needs_rehash ev password_hash =
    (case au_needs_rehash ev password_hash of None \<Rightarrow> True | Some b \<Rightarrow> b)"

definition verify_credentials_or_fail :: "auth_env \<Rightarrow> string \<Rightarrow> string \<Rightarrow> unit result" where
  "verify_credentials_or_fail ev password password_hash =
    require (verify_password ev password password_hash) (AppError (Auth InvalidCredentialsError)) (ok ())"

section \<open>Refresh tokens\<close>

definition hash_refresh_token :: "auth_env \<Rightarrow> string \<Rightarrow> string" where
  "hash_refresh_token ev token = au_sha256 ev (au_jwt_secret_key ev @ [CHR 0x00] @ token)"

definition refresh_token_matches :: "auth_env \<Rightarrow> string \<Rightarrow> string \<Rightarrow> bool" where
  "refresh_token_matches ev token expected_hash \<longleftrightarrow> hash_refresh_token ev token = expected_hash"

section \<open>Access tokens\<close>

record access_claims =
  cl_subject :: int
  cl_jti :: string
  cl_issued_at :: int
  cl_expires_at :: int
  cl_session_id :: string
  cl_roles :: "string list"
  cl_permissions :: "string set"
  cl_data_scope :: string
  cl_merchant_id :: "int option"
  cl_user_type :: string

text \<open>\<open>int(x.timestamp())\<close>, of an instant after 1970.\<close>

definition seconds_of :: "int \<Rightarrow> int" where
  "seconds_of t = t div 1000"

definition access_payload :: "auth_env \<Rightarrow> access_claims \<Rightarrow> token_payload" where
  "access_payload ev c =
    \<lparr>tp_sub = int_text (cl_subject c), tp_jti = cl_jti c, tp_sid = Some (cl_session_id c),
     tp_iss = au_jwt_issuer ev, tp_aud = au_jwt_audience ev, tp_iat = seconds_of (cl_issued_at c),
     tp_nbf = seconds_of (cl_issued_at c), tp_exp = seconds_of (cl_expires_at c),
     tp_typ = Some ''access'', tp_roles = Some (cl_roles c),
     tp_permissions = Some (sorted_list_of_set (cl_permissions c)),
     tp_data_scope = Some (cl_data_scope c), tp_merchant_id = cl_merchant_id c,
     tp_user_type = Some (cl_user_type c)\<rparr>"

definition create_access_token ::
  "auth_env \<Rightarrow> draws \<Rightarrow> int \<Rightarrow> int \<Rightarrow> string \<Rightarrow> string list \<Rightarrow> string set \<Rightarrow> string \<Rightarrow> int option \<Rightarrow> string \<Rightarrow>
   string \<times> access_claims" where
  "create_access_token ev d now user_id session_id codes permissions data_scope merchant_id user_type =
    (let c = \<lparr>cl_subject = user_id, cl_jti = dr_token_jti d, cl_issued_at = now,
           cl_expires_at = now + 1000 * au_access_token_ttl_seconds ev, cl_session_id = session_id,
           cl_roles = codes, cl_permissions = permissions, cl_data_scope = data_scope,
           cl_merchant_id = merchant_id, cl_user_type = user_type\<rparr>
     in (au_jwt_encode ev (access_payload ev c), c))"

definition claims_of_payload :: "token_payload \<Rightarrow> access_claims result" where
  "claims_of_payload p =
    require (\<not> tp_typ p \<noteq> Some ''access'') (AppError (Auth TokenInvalidError))
    (case py_int (tp_sub p) of
       None \<Rightarrow> app_raise (Auth TokenInvalidError)
     | Some subject \<Rightarrow>
       (case data_scope_of (case tp_data_scope p of None \<Rightarrow> ''None'' | Some raw \<Rightarrow> raw) of
          None \<Rightarrow> app_raise (Auth TokenInvalidError)
        | Some x \<Rightarrow>
          ok \<lparr>cl_subject = subject, cl_jti = tp_jti p, cl_issued_at = 1000 * tp_iat p,
              cl_expires_at = 1000 * tp_exp p,
              cl_session_id = (case tp_sid p of None \<Rightarrow> [] | Some sid \<Rightarrow> sid),
              cl_roles = (case tp_roles p of None \<Rightarrow> [] | Some rs \<Rightarrow> rs),
              cl_permissions = (case tp_permissions p of None \<Rightarrow> {} | Some ps \<Rightarrow> set ps),
              cl_data_scope = data_scope_value x, cl_merchant_id = tp_merchant_id p,
              cl_user_type = (case tp_user_type p of None \<Rightarrow> ''CONSUMER'' | Some t \<Rightarrow> t)\<rparr>))"

definition decode_access_token :: "auth_env \<Rightarrow> int \<Rightarrow> string \<Rightarrow> access_claims result" where
  "decode_access_token ev now token =
    require (token \<noteq> []) (AppError (Auth TokenInvalidError))
    (case au_jwt_decode ev now token of
       Token_Expired \<Rightarrow> app_raise (Auth TokenExpiredError)
     | Token_Immature \<Rightarrow> app_raise (Auth TokenInvalidError)
     | Token_Wrong_Audience \<Rightarrow> app_raise (Auth TokenInvalidError)
     | Token_Wrong_Issuer \<Rightarrow> app_raise (Auth TokenInvalidError)
     | Token_Wrong_Algorithm \<Rightarrow> app_raise (Auth TokenInvalidError)
     | Token_Unverified \<Rightarrow> app_raise (Auth TokenInvalidError)
     | Token_Payload p \<Rightarrow> claims_of_payload p)"

section \<open>Before a login\<close>

definition guard_login_allowed :: "auth_env \<Rightarrow> user_status \<Rightarrow> int \<Rightarrow> unit result" where
  "guard_login_allowed ev status failed_attempts =
    require (\<not> status = User_DISABLED) (AppError (Auth AccountDisabledError))
    (require (\<not> status = User_INACTIVE) (AppError (Auth AccountDisabledError))
    (require (\<not> (failed_attempts \<ge> au_login_max_failures ev \<or> status = User_LOCKED))
      (AppError (Auth AccountLockedError)) (ok ())))"

end
