(* ===== verification/Identity_Sessions.thy ===== *)
theory Identity_Sessions
  imports Identity_Security
begin

text \<open>
  \<open>AuthService\<close> with its transactions, the dependencies that resolve a caller, and the endpoints.
  A call works on the session's state and commits it, leaves it uncommitted, or raises; the request
  (\<open>get_session\<close>) closes the session afterwards, which rolls back what was not committed.
\<close>

section \<open>Transactions\<close>

text \<open>A raised error keeps the state the session held, which only the running transaction saw.\<close>

datatype ('a, 's) tx = Committed 'a 's | Uncommitted 'a 's | Raised exn 's

fun answer :: "('a, 's) tx \<Rightarrow> 'a result" where
  "answer (Committed x _) = ok x"
| "answer (Uncommitted x _) = ok x"
| "answer (Raised e _) = raise e"

fun working :: "('a, 's) tx \<Rightarrow> 's" where
  "working (Committed _ s) = s"
| "working (Uncommitted _ s) = s"
| "working (Raised _ s) = s"

text \<open>What the tables hold once the request is over.\<close>

fun durable :: "'s \<Rightarrow> ('a, 's) tx \<Rightarrow> 's" where
  "durable s (Committed _ s') = s'"
| "durable s _ = s"

abbreviation auth_raise :: "auth_error \<Rightarrow> 's \<Rightarrow> ('a, 's) tx" where
  "auth_raise e s \<equiv> Raised (AppError (Auth e)) s"

definition tx_of :: "'s \<Rightarrow> 'a result \<Rightarrow> ('a \<Rightarrow> ('b, 's) tx) \<Rightarrow> ('b, 's) tx" where
  "tx_of s r k = (case r of Inl e \<Rightarrow> Raised e s | Inr x \<Rightarrow> k x)"

section \<open>The caller\<close>

record caller = principal +
  p_user_type :: user_type
  p_roles :: "string list"
  p_session_id :: string

definition build_principal :: "'a members_scheme \<Rightarrow> account \<Rightarrow> string \<Rightarrow> caller" where
  "build_principal s u session_id =
    (let codes = role_codes s u;
         role_scopes = fold (\<lambda>r m. dict_set (rl_code r) (rl_data_scope r) m) (roles_of s u) [];
         floor = (if codes = [] \<and> \<not> is_staff u then Some (data_scope_value Scope_SELF) else None);
         override = (case ac_data_scope_override u of Some (c # cs) \<Rightarrow> Some (c # cs) | _ \<Rightarrow> floor)
     in \<lparr>p_user_id = ac_id u, p_merchant_id = ac_merchant_id u, p_permissions = permission_codes s u,
         p_data_scope = resolve_data_scope codes role_scopes override, p_is_staff = is_staff u,
         p_user_type = ac_user_type u, p_roles = codes, p_session_id = session_id\<rparr>)"

section \<open>Opening a session\<close>

record issued_session =
  is_session :: auth_session
  is_access_token :: string
  is_access_claims :: access_claims
  is_refresh_token :: string
  is_refresh_expires_at :: int
  is_user :: account

definition new_session ::
  "auth_env \<Rightarrow> draws \<Rightarrow> account \<Rightarrow> int \<Rightarrow> string option \<Rightarrow> string option \<Rightarrow> string \<Rightarrow> int option \<Rightarrow>
   auth_session" where
  "new_session ev d u now client_ip user_agent login_source rotated_from =
    \<lparr>se_id = 0, se_user_id = ac_id u, se_session_id = int_text (ac_id u) @ ''-'' @ dr_session_jti d,
     se_refresh_token_hash = hash_refresh_token ev (dr_refresh_token d), se_jti = dr_session_jti d,
     se_issued_at = now, se_expires_at = now + 1000 * au_refresh_token_ttl_seconds ev,
     se_revoked_at = None, se_rotated_from = rotated_from, se_revoked_reason = None,
     se_last_used_at = Some now, se_client_ip = client_ip,
     se_user_agent =
       (case user_agent of None \<Rightarrow> None | Some a \<Rightarrow> if clip 512 a = [] then None else Some (clip 512 a)),
     se_login_source = Some login_source, se_created_at = now\<rparr>"

text \<open>The new row and the access token that names it, as login, rotation and reissue build them.\<close>

definition issue ::
  "auth_env \<Rightarrow> draws \<Rightarrow> 'a members_scheme \<Rightarrow> account \<Rightarrow> caller \<Rightarrow> auth_session \<Rightarrow>
   (issued_session \<times> 'a members_scheme) result" where
  "issue ev d s u who draft =
    bindE (add_session s draft) (\<lambda>(row, s).
    let (token, claims) =
      create_access_token ev d (db_now s) (ac_id u) (se_session_id row) (p_roles who)
        (p_permissions who) (data_scope_value (p_data_scope who)) (p_merchant_id who)
        (user_type_value (p_user_type who))
    in ok (\<lparr>is_session = row, is_access_token = token, is_access_claims = claims,
            is_refresh_token = dr_refresh_token d, is_refresh_expires_at = se_expires_at row,
            is_user = u\<rparr>, s))"

text \<open>The user agent is clipped by \<open>new_session\<close>; the account row is the one after the login.\<close>

definition login ::
  "auth_env \<Rightarrow> draws \<Rightarrow> 'a members_scheme \<Rightarrow> string \<Rightarrow> string \<Rightarrow> string option \<Rightarrow> string option \<Rightarrow>
   (issued_session, 'a members_scheme) tx" where
  "login ev d s identifier password client_ip user_agent =
    (let now = db_now s; cleaned = strip_text identifier in
     if cleaned = [] \<or> password = [] then auth_raise InvalidCredentialsError s
     else case find_by_identifier s cleaned of
       None \<Rightarrow> auth_raise InvalidCredentialsError s
     | Some u \<Rightarrow>
        tx_of s (guard_login_allowed ev (ac_status u) (ac_failed_login_attempts u)) (\<lambda>_.
        if (case ac_locked_until u of None \<Rightarrow> False | Some t \<Rightarrow> t > now)
        then auth_raise AccountLockedError s
        else if \<not> verify_password ev password (ac_password_hash u)
        then auth_raise InvalidCredentialsError
          (put_account (failed_login (au_login_max_failures ev) (au_login_lockout_seconds ev) now u) s)
        else if ac_deleted_at u \<noteq> None then auth_raise AccountDisabledError s
        else
          tx_of s
            (if password_needs_rehash ev (ac_password_hash u)
             then bindE (hash_password ev d password) (\<lambda>h. ok (changed_password now h u)) else ok u) (\<lambda>u.
          let u = successful_login now u;
              s = put_account u s;
              who = build_principal s u ''pending''
          in tx_of s (issue ev d s u who (new_session ev d u now client_ip user_agent ''API'' None))
               (\<lambda>(issued, s). Committed issued s))))"

section \<open>Rotation\<close>

definition family_is_rotation_only :: "'a members_scheme \<Rightarrow> auth_session \<Rightarrow> bool" where
  "family_is_rotation_only s a \<longleftrightarrow>
    list_all (\<lambda>b. in_family s a b \<and> se_revoked_at b \<noteq> None \<longrightarrow> se_revoked_reason b = Some ROTATED)
      (sessions s)"

text \<open>The newest live child, at most fifty times.\<close>

fun follow_tip :: "auth_session list \<Rightarrow> nat \<Rightarrow> auth_session \<Rightarrow> auth_session" where
  "follow_tip rows 0 current = current"
| "follow_tip rows (Suc n) current =
    (case sort_key (\<lambda>b. - se_id b)
        (filter (\<lambda>b. se_rotated_from b = Some (se_id current) \<and> se_revoked_at b = None) rows) of
       [] \<Rightarrow> current
     | child # _ \<Rightarrow> follow_tip rows n child)"

definition family_tip :: "'a members_scheme \<Rightarrow> auth_session \<Rightarrow> auth_session" where
  "family_tip s a = follow_tip (sessions s) 50 a"

text \<open>\<open>_reissue_from_chain\<close>, which does not commit.\<close>

definition reissue_from_chain ::
  "auth_env \<Rightarrow> draws \<Rightarrow> 'a members_scheme \<Rightarrow> auth_session \<Rightarrow> string option \<Rightarrow>
   (issued_session, 'a members_scheme) tx" where
  "reissue_from_chain ev d s a client_ip =
    (let now = db_now s; tip = family_tip s a;
         s = (if se_id tip \<noteq> se_id a then touch_session now tip s else s) in
     case get_account s (se_user_id tip) of
       None \<Rightarrow> auth_raise AccountDisabledError s
     | Some u \<Rightarrow>
        if ac_deleted_at u \<noteq> None then auth_raise AccountDisabledError s
        else
          let who = build_principal s u (se_session_id tip) in
          tx_of s (issue ev d s u who
              (new_session ev d u now client_ip (se_user_agent tip) ''REFRESH'' (Some (se_id tip))))
            (\<lambda>(issued, s). Uncommitted issued s))"

definition reuse_grace_seconds :: int where
  "reuse_grace_seconds = 20"

definition handle_reuse ::
  "auth_env \<Rightarrow> draws \<Rightarrow> 'a members_scheme \<Rightarrow> auth_session \<Rightarrow> string option \<Rightarrow>
   (issued_session, 'a members_scheme) tx" where
  "handle_reuse ev d s a client_ip =
    (if se_revoked_reason a = Some ROTATED \<and> family_is_rotation_only s a \<and>
        (case se_revoked_at a of None \<Rightarrow> False | Some t \<Rightarrow> db_now s - t \<le> 1000 * reuse_grace_seconds)
     then reissue_from_chain ev d s a client_ip
     else auth_raise RefreshTokenReuseError (snd (revoke_family a REUSE_DETECTED s)))"

definition rotate ::
  "auth_env \<Rightarrow> draws \<Rightarrow> 'a members_scheme \<Rightarrow> string \<Rightarrow> string option \<Rightarrow> string option \<Rightarrow>
   (issued_session, 'a members_scheme) tx" where
  "rotate ev d s token client_ip user_agent =
    (let now = db_now s in
     if token = [] then auth_raise TokenInvalidError s
     else case get_by_refresh_hash s (hash_refresh_token ev token) of
       None \<Rightarrow> auth_raise TokenInvalidError s
     | Some a \<Rightarrow>
        if se_revoked_at a \<noteq> None then handle_reuse ev d s a client_ip
        else if se_expires_at a \<le> now
        then auth_raise TokenInvalidError (revoke_session_row a Session_EXPIRED s)
        else case get_account s (se_user_id a) of
          None \<Rightarrow> auth_raise AccountDisabledError (revoke_session_row a ADMIN_REVOKED s)
        | Some u \<Rightarrow>
           if ac_deleted_at u \<noteq> None
           then auth_raise AccountDisabledError (revoke_session_row a ADMIN_REVOKED s)
           else if ac_status u \<in> {User_DISABLED, User_INACTIVE}
           then auth_raise AccountDisabledError (revoke_session_row a ACCOUNT_LOCKED s)
           else if ac_status u = User_LOCKED \<and>
              (case ac_locked_until u of None \<Rightarrow> True | Some t \<Rightarrow> t > now)
           then auth_raise AuthenticationError (revoke_session_row a ACCOUNT_LOCKED s)
           else
             let s = revoke_session_row a ROTATED s;
                 who = build_principal s u (se_session_id a);
                 agent = (case user_agent of Some (c # cs) \<Rightarrow> Some (c # cs) | _ \<Rightarrow> se_user_agent a)
             in tx_of s
                  (issue ev d s u who (new_session ev d u now client_ip agent ''REFRESH'' (Some (se_id a))))
                  (\<lambda>(issued, s). Committed issued s))"

section \<open>Ending sessions\<close>

text \<open>The answer is the number of rows revoked.\<close>

definition logout :: "auth_env \<Rightarrow> 'a members_scheme \<Rightarrow> string \<Rightarrow> (nat, 'a members_scheme) tx" where
  "logout ev s refresh_token =
    (if refresh_token = [] then Uncommitted 0 s
     else case get_by_refresh_hash s (hash_refresh_token ev refresh_token) of
       None \<Rightarrow> Uncommitted 0 s
     | Some a \<Rightarrow>
        let was_live = (se_revoked_at a = None);
            s = revoke_session_row a LOGOUT s;
            (family_revoked, s) = revoke_family a LOGOUT s
        in Committed (family_revoked + (if was_live then 1 else 0)) s)"

definition logout_all :: "'a members_scheme \<Rightarrow> int \<Rightarrow> int option \<Rightarrow> (nat, 'a members_scheme) tx" where
  "logout_all s user_id except =
    (let (n, s) = revoke_all_for_user user_id LOGOUT_ALL except s in Uncommitted n s)"

definition revoke_session :: "'a members_scheme \<Rightarrow> int \<Rightarrow> int \<Rightarrow> (bool, 'a members_scheme) tx" where
  "revoke_session s user_id session_pk =
    (case get_session_row s session_pk of
       None \<Rightarrow> Uncommitted False s
     | Some a \<Rightarrow>
        if se_user_id a \<noteq> user_id then Uncommitted False s
        else Uncommitted True (revoke_session_row a ADMIN_REVOKED s))"

definition change_password ::
  "auth_env \<Rightarrow> draws \<Rightarrow> 'a members_scheme \<Rightarrow> int \<Rightarrow> string \<Rightarrow> string \<Rightarrow> (unit, 'a members_scheme) tx" where
  "change_password ev d s user_id current_password new_password =
    (case get_account s user_id of
       None \<Rightarrow> auth_raise AuthenticationError s
     | Some u \<Rightarrow>
        if \<not> verify_password ev current_password (ac_password_hash u)
        then auth_raise InvalidCredentialsError s
        else if new_password = current_password then Raised (AppError (Common ValidationError)) s
        else tx_of s (hash_password ev d new_password) (\<lambda>h.
          Uncommitted ()
            (snd (revoke_all_for_user user_id PASSWORD_CHANGED None
              (put_account (changed_password (db_now s) h u) s)))))"

section \<open>Resolving a caller\<close>

definition user_profile :: "'a members_scheme \<Rightarrow> int \<Rightarrow> account result" where
  "user_profile s user_id =
    (case get_account s user_id of None \<Rightarrow> app_raise (Auth AuthenticationError) | Some u \<Rightarrow> ok u)"

definition principal_for_user :: "'a members_scheme \<Rightarrow> int \<Rightarrow> string \<Rightarrow> caller result" where
  "principal_for_user s user_id session_id =
    bindE (user_profile s user_id) (\<lambda>u. ok (build_principal s u session_id))"

text \<open>The caller behind an access token; \<open>None\<close> is a request without credentials.\<close>

definition get_current_principal ::
  "auth_env \<Rightarrow> 'a members_scheme \<Rightarrow> string option \<Rightarrow> caller result" where
  "get_current_principal ev s credentials =
    (case credentials of
       None \<Rightarrow> app_raise (Auth AuthenticationError)
     | Some token \<Rightarrow>
        require (token \<noteq> []) (AppError (Auth AuthenticationError))
        (bindE (decode_access_token ev (db_now s) token) (\<lambda>claims.
         bindE (principal_for_user s (cl_subject claims) (cl_session_id claims)) (\<lambda>who.
         case get_by_session_id s (cl_session_id claims) of
           None \<Rightarrow> app_raise (Auth SessionRevokedError)
         | Some a \<Rightarrow>
            require (\<not> se_revoked_at a \<noteq> None) (AppError (Auth SessionRevokedError))
            (require (\<not> se_user_id a \<noteq> p_user_id who) (AppError (Auth AuthenticationError))
            (ok who))))))"

text \<open>The dependency factory \<open>require_permission\<close>, and the guards of the console.\<close>

definition require_any_permission :: "string list \<Rightarrow> caller \<Rightarrow> caller result" where
  "require_any_permission permissions who =
    require (p_permissions who \<noteq> {}) (AppError (Auth PermissionDeniedError))
    (require (p_permissions who \<inter> set permissions \<noteq> {}) (AppError (Auth PermissionDeniedError)) (ok who))"

definition require_staff :: "caller \<Rightarrow> caller result" where
  "require_staff who =
    require (p_is_staff who) (AppError (Auth PermissionDeniedError))
    (require (p_merchant_id who \<noteq> None) (AppError (Auth PermissionDeniedError)) (ok who))"

definition require_merchant_scope :: "caller \<Rightarrow> caller result" where
  "require_merchant_scope who =
    bindE (require_staff who) (\<lambda>who.
    require (\<not> p_data_scope who \<in> {Scope_NONE, Scope_SELF}) (AppError (Auth PermissionDeniedError))
    (ok who))"

section \<open>Endpoints\<close>

text \<open>Cookies leave the browser with an origin header, or none.\<close>

definition check_cookie_origin :: "auth_env \<Rightarrow> string option \<Rightarrow> unit result" where
  "check_cookie_origin ev origin =
    (case origin of
       None \<Rightarrow> ok ()
     | Some site \<Rightarrow>
        require (\<not> (site \<noteq> au_own_origin ev \<and> site \<notin> set (au_cors_allow_origins ev)))
          (AppError (Auth PermissionDeniedError)) (ok ()))"

text \<open>
  Each answers the service's result and leaves the tables as the closed session leaves them. The refresh
  token of the answer is the cookie.
\<close>

definition login_endpoint ::
  "auth_env \<Rightarrow> draws \<Rightarrow> 'a members_scheme \<Rightarrow> string \<Rightarrow> string \<Rightarrow> string option \<Rightarrow> string option \<Rightarrow>
   issued_session result \<times> 'a members_scheme" where
  "login_endpoint ev d s username password client_ip user_agent =
    (let t = login ev d s username password client_ip user_agent in (answer t, durable s t))"

definition refresh_endpoint ::
  "auth_env \<Rightarrow> draws \<Rightarrow> 'a members_scheme \<Rightarrow> string option \<Rightarrow> string option \<Rightarrow> string option \<Rightarrow>
   string option \<Rightarrow> issued_session result \<times> 'a members_scheme" where
  "refresh_endpoint ev d s origin cookie client_ip user_agent =
    (let t = tx_of s (check_cookie_origin ev origin) (\<lambda>_.
       case cookie of
         None \<Rightarrow> auth_raise TokenInvalidError s
       | Some token \<Rightarrow>
          if token = [] then auth_raise TokenInvalidError s
          else rotate ev d s token client_ip user_agent)
     in (answer t, durable s t))"

definition logout_endpoint ::
  "auth_env \<Rightarrow> 'a members_scheme \<Rightarrow> string option \<Rightarrow> string option \<Rightarrow> nat result \<times> 'a members_scheme" where
  "logout_endpoint ev s origin cookie =
    (let t = tx_of s (check_cookie_origin ev origin) (\<lambda>_.
       logout ev s (case cookie of None \<Rightarrow> [] | Some token \<Rightarrow> token))
     in (answer t, durable s t))"

end
