(* ===== verification/Identity_Runs.thy ===== *)
theory Identity_Runs
  imports Identity_Sessions Shop_Facts
begin

text \<open>
  What the authentication endpoints do to the sessions table, as one contract that each of them
  meets, and what every run of requests keeps: rotation never forks, and a revoked row stays revoked.
\<close>

section \<open>Effects\<close>

text \<open>A stored row: fresh in its key and in the unique columns.\<close>

definition stored :: "'a members_scheme \<Rightarrow> auth_session \<Rightarrow> bool" where
  "stored s row \<longleftrightarrow> se_id row = fresh_id se_id (sessions s) \<and> \<not> list_ex (session_clash row) (sessions s) \<and>
    se_revoked_at row = None"

definition opens :: "'a members_scheme \<Rightarrow> 'a members_scheme \<Rightarrow> bool" where
  "opens s s' \<longleftrightarrow> (\<exists>row. stored s row \<and> se_rotated_from row = None \<and> sessions s' = sessions s @ [row])"

definition revoke_rows :: "(auth_session \<Rightarrow> bool) \<Rightarrow> int \<Rightarrow> revoke_reason \<Rightarrow> auth_session list \<Rightarrow> auth_session list" where
  "revoke_rows P now reason rows =
    map (\<lambda>a. if P a \<and> se_revoked_at a = None then revoked now reason a else a) rows"

definition rotates :: "'a members_scheme \<Rightarrow> 'a members_scheme \<Rightarrow> auth_session \<Rightarrow> bool" where
  "rotates s s' a \<longleftrightarrow> a \<in> set (sessions s) \<and> se_revoked_at a = None \<and>
    (\<exists>row. stored s row \<and> se_rotated_from row = Some (se_id a) \<and>
      sessions s' = revoke_rows (\<lambda>b. se_id b = se_id a) (db_now s) ROTATED (sessions s) @ [row])"

definition ends :: "'a members_scheme \<Rightarrow> 'a members_scheme \<Rightarrow> bool" where
  "ends s s' \<longleftrightarrow> (\<exists>P reason. sessions s' = revoke_rows P (db_now s) reason (sessions s))"

definition session_effect :: "'a members_scheme \<Rightarrow> 'a members_scheme \<Rightarrow> bool" where
  "session_effect s s' \<longleftrightarrow> opens s s' \<or> (\<exists>a. rotates s s' a) \<or> ends s s'"

lemma sessions_revoke_where: "sessions (revoke_where P reason s) = revoke_rows P (db_now s) reason (sessions s)"
  by (simp add: revoke_where_def revoke_rows_def)

lemma revoke_rows_keys [simp]:
  "map se_id (revoke_rows P now reason rows) = map se_id rows"
  "map se_refresh_token_hash (revoke_rows P now reason rows) = map se_refresh_token_hash rows"
  "map se_session_id (revoke_rows P now reason rows) = map se_session_id rows"
  "map se_rotated_from (revoke_rows P now reason rows) = map se_rotated_from rows"
  by (simp_all add: revoke_rows_def revoked_def)

lemma revoke_rows_none: "revoke_rows (\<lambda>_. False) now reason rows = rows"
  by (simp add: revoke_rows_def)

lemma revoke_rows_disj:
  "revoke_rows Q now reason (revoke_rows P now reason rows) =
    revoke_rows (\<lambda>a. P a \<or> Q a) now reason rows"
  by (auto simp: revoke_rows_def revoked_def)

lemma ends_idle: "sessions s' = sessions s \<Longrightarrow> ends s s'"
  using revoke_rows_none by (metis ends_def)

lemma fresh_id_keys: "map key rows = map key rows' \<Longrightarrow> fresh_id key rows = fresh_id key rows'"
proof -
  have "fresh_id key rows = foldr max (map key rows) 0 + 1" for rows
    by (simp add: fresh_id_def foldr_map comp_def)
  then show "map key rows = map key rows' \<Longrightarrow> ?thesis" by simp
qed

lemma fresh_id_revoke_rows [simp]: "fresh_id se_id (revoke_rows P now reason rows) = fresh_id se_id rows"
  by (rule fresh_id_keys) simp

lemma clash_revoke_rows [simp]:
  "list_ex (session_clash row) (revoke_rows P now reason rows) = list_ex (session_clash row) rows"
  unfolding revoke_rows_def by (induction rows) (simp_all add: session_clash_def revoked_def)

lemma add_session_ok:
  "add_session s a = ok (row, s') \<longleftrightarrow>
    row = a\<lparr>se_id := fresh_id se_id (sessions s), se_created_at := db_now s\<rparr> \<and> session_checks row \<and>
    \<not> list_ex (session_clash row) (sessions s) \<and> s' = s\<lparr>sessions := sessions s @ [row]\<rparr>"
  by (auto simp: add_session_def Let_def)

lemma issue_ok:
  assumes "issue ev d s u who draft = ok (x, s')"
  shows "is_session x = draft\<lparr>se_id := fresh_id se_id (sessions s), se_created_at := db_now s\<rparr>"
    and "\<not> list_ex (session_clash (is_session x)) (sessions s)"
    and "s' = s\<lparr>sessions := sessions s @ [is_session x]\<rparr>"
    and "is_refresh_token x = dr_refresh_token d"
  using assms by (auto simp: issue_def bindE_eq_Inr add_session_ok split: prod.splits)

lemma new_session_simps [simp]:
  "se_revoked_at (new_session ev d u now ip agent source parent) = None"
  "se_rotated_from (new_session ev d u now ip agent source parent) = parent"
  "se_refresh_token_hash (new_session ev d u now ip agent source parent) =
    hash_refresh_token ev (dr_refresh_token d)"
  by (simp_all add: new_session_def)

lemma tx_of_cases:
  assumes "tx_of s r k = t"
  obtains e where "r = Inl e" and "t = Raised e s" | x where "r = Inr x" and "k x = t"
  using assms by (cases r) (auto simp: tx_of_def)

lemma durable_cases:
  obtains x s' where "t = Committed x s'" and "durable s t = s'" | "durable s t = s"
  by (cases t) auto

section \<open>The endpoints meet the contract\<close>

lemma login_committed:
  assumes "login ev d s identifier password ip agent = Committed x s'"
  shows "opens s s'"
proof -
  obtain u who t where "issue ev d t u who (new_session ev d u (db_now s) ip agent ''API'' None) = ok (x, s')"
    and "sessions t = sessions s"
    using assms
    by (auto simp: login_def tx_of_def Let_def put_account_def split: if_splits option.splits sum.splits)
  from issue_ok [OF this(1)] this(2) show ?thesis
    unfolding opens_def stored_def by (intro exI [of _ "is_session x"]) simp
qed

lemma rotate_committed:
  assumes "rotate ev d s token ip agent = Committed x s'"
  obtains a where "get_by_refresh_hash s (hash_refresh_token ev token) = Some a" and "rotates s s' a"
proof -
  obtain a u who agent' where a: "get_by_refresh_hash s (hash_refresh_token ev token) = Some a"
    and live: "se_revoked_at a = None"
    and x: "issue ev d (revoke_session_row a ROTATED s) u who
      (new_session ev d u (db_now s) ip agent' ''REFRESH'' (Some (se_id a))) = ok (x, s')"
    using assms
    by (auto simp: rotate_def handle_reuse_def reissue_from_chain_def tx_of_def Let_def
        split: if_splits option.splits sum.splits)
  have rows: "sessions (revoke_session_row a ROTATED s) =
      revoke_rows (\<lambda>b. se_id b = se_id a) (db_now s) ROTATED (sessions s)"
    by (simp add: revoke_session_row_def sessions_revoke_where)
  have "rotates s s' a"
    using issue_ok [OF x] live a unfolding rotates_def stored_def
    by (auto simp: rows get_by_refresh_hash_def dest: find_SomeD)
  with that a show ?thesis by blast
qed

lemma logout_committed:
  assumes "logout ev s token = Committed n s'"
  obtains a where "get_by_refresh_hash s (hash_refresh_token ev token) = Some a"
    and "sessions s' = revoke_rows (\<lambda>b. se_id b = se_id a \<or> in_family (revoke_session_row a LOGOUT s) a b)
      (db_now s) LOGOUT (sessions s)"
proof -
  obtain a where a: "get_by_refresh_hash s (hash_refresh_token ev token) = Some a"
    and s': "s' = snd (revoke_family a LOGOUT (revoke_session_row a LOGOUT s))"
    using assms by (auto simp: logout_def revoke_family_def Let_def split: if_splits option.splits)
  have "db_now (revoke_session_row a LOGOUT s) = db_now s"
    by (simp add: revoke_session_row_def revoke_where_def)
  then have "sessions s' = revoke_rows (\<lambda>b. se_id b = se_id a \<or> in_family (revoke_session_row a LOGOUT s) a b)
      (db_now s) LOGOUT (sessions s)"
    by (simp add: s' revoke_family_def sessions_revoke_where revoke_rows_disj)
       (simp add: revoke_session_row_def sessions_revoke_where revoke_rows_disj)
  with that a show ?thesis by blast
qed

text \<open>
  The contract of a request to an authentication endpoint: its effect on the sessions table is one of
  the three, and a request that raised has none.
\<close>

locale session_request =
  fixes call :: "'a members_scheme \<Rightarrow> 'q \<Rightarrow> 'r result \<times> 'a members_scheme"
  assumes effect: "session_effect s (snd (call s q))"
    and raised: "fst (call s q) = Inl e \<Longrightarrow> snd (call s q) = s"

section \<open>Chains\<close>

text \<open>
  Keys and digests name one row, a row with a successor was revoked by rotation before it, and no row
  has two successors.
\<close>

definition chains :: "auth_session list \<Rightarrow> bool" where
  "chains rows \<longleftrightarrow> distinct (map se_id rows) \<and> distinct (map se_refresh_token_hash rows) \<and>
    distinct (map se_session_id rows) \<and> distinct (filter (\<lambda>p. p \<noteq> None) (map se_rotated_from rows)) \<and>
    (\<forall>a \<in> set rows. \<forall>i. se_rotated_from a = Some i \<longrightarrow>
      (\<exists>b \<in> set rows. se_id b = i \<and> i < se_id a \<and> se_revoked_at b \<noteq> None \<and> se_revoked_reason b = Some ROTATED))"

lemma revoke_rows_member:
  "a \<in> set (revoke_rows P now reason rows) \<longleftrightarrow>
    (\<exists>b \<in> set rows. a = (if P b \<and> se_revoked_at b = None then revoked now reason b else b))"
  unfolding revoke_rows_def by (simp only: set_map image_iff)

lemma revoke_rows_kept:
  "b \<in> set rows \<Longrightarrow> se_revoked_at b \<noteq> None \<Longrightarrow> b \<in> set (revoke_rows P now reason rows)"
  unfolding revoke_rows_def by (force intro: rev_image_eqI)

lemma revoke_rows_hit:
  "a \<in> set rows \<Longrightarrow> se_revoked_at a = None \<Longrightarrow> P a \<Longrightarrow>
    revoked now reason a \<in> set (revoke_rows P now reason rows)"
  unfolding revoke_rows_def by (force intro: rev_image_eqI)

lemma chains_revoke: "chains rows \<Longrightarrow> chains (revoke_rows P now reason rows)"
proof -
  assume c: "chains rows"
  have "\<exists>b \<in> set (revoke_rows P now reason rows). se_id b = i \<and> i < se_id a \<and> se_revoked_at b \<noteq> None \<and>
      se_revoked_reason b = Some ROTATED"
    if a: "a \<in> set (revoke_rows P now reason rows)" and i: "se_rotated_from a = Some i" for a i
  proof -
    obtain a0 where a0: "a0 \<in> set rows" "se_id a = se_id a0" "se_rotated_from a0 = Some i"
      using a i by (auto simp: revoke_rows_member revoked_def split: if_splits)
    then obtain b where b: "b \<in> set rows" "se_id b = i" "i < se_id a0" "se_revoked_at b \<noteq> None"
      "se_revoked_reason b = Some ROTATED" using c unfolding chains_def by blast
    with revoke_rows_kept [OF b(1,4)] a0(2) show ?thesis by metis
  qed
  with c show ?thesis unfolding chains_def by simp
qed

lemma stored_keys:
  assumes "stored s row"
  shows "se_id row \<notin> se_id ` set (sessions s)" and "\<And>b. b \<in> set (sessions s) \<Longrightarrow> se_id b < se_id row"
    and "se_refresh_token_hash row \<notin> se_refresh_token_hash ` set (sessions s)"
    and "se_session_id row \<notin> se_session_id ` set (sessions s)"
  using assms fresh_id_new [of se_id "sessions s"] fresh_id_greater [of _ "sessions s" se_id]
  by (auto simp: stored_def list_ex_iff session_clash_def)

lemma chains_opens:
  assumes "chains (sessions s)" and "opens s s'"
  shows "chains (sessions s')"
proof -
  obtain row where "stored s row" "se_rotated_from row = None" "sessions s' = sessions s @ [row]"
    using assms(2) unfolding opens_def by blast
  with stored_keys [OF this(1)] assms(1) show ?thesis unfolding chains_def by auto
qed

lemma chains_rotates:
  assumes c: "chains (sessions s)" and "rotates s s' a"
  shows "chains (sessions s')"
proof -
  let ?rows = "revoke_rows (\<lambda>b. se_id b = se_id a) (db_now s) ROTATED (sessions s)"
  obtain row where a: "a \<in> set (sessions s)" "se_revoked_at a = None" and row: "stored s row"
    and parent: "se_rotated_from row = Some (se_id a)" and s': "sessions s' = ?rows @ [row]"
    using assms(2) unfolding rotates_def by blast
  have rows: "chains ?rows" using chains_revoke [OF c] .
  have ids: "distinct (map se_id (sessions s))" using c by (simp add: chains_def)
  have unused: "Some (se_id a) \<notin> set (map se_rotated_from (sessions s))"
  proof
    assume "Some (se_id a) \<in> set (map se_rotated_from (sessions s))"
    then obtain b where "b \<in> set (sessions s)" "se_id b = se_id a" "se_revoked_at b \<noteq> None"
      using c unfolding chains_def by (metis (no_types, lifting) image_iff list.set_map)
    with same_row [OF ids this(1) a(1)] a(2) show False by auto
  qed
  have "revoked (db_now s) ROTATED a \<in> set ?rows" using a by (intro revoke_rows_hit) simp_all
  then have "\<exists>b \<in> set ?rows. se_id b = se_id a \<and> se_revoked_at b \<noteq> None \<and> se_revoked_reason b = Some ROTATED"
    by (rule bexI [rotated]) (simp add: revoked_def)
  moreover have "se_id row \<notin> set (map se_id ?rows)" "se_refresh_token_hash row \<notin> set (map se_refresh_token_hash ?rows)"
    "se_session_id row \<notin> set (map se_session_id ?rows)" "Some (se_id a) \<notin> set (map se_rotated_from ?rows)"
    using stored_keys [OF row] unused by simp_all
  moreover have "se_id a < se_id row" using stored_keys(2) [OF row a(1)] .
  ultimately show ?thesis
    using rows parent unfolding s' chains_def by auto
qed

lemma chains_effect: "session_effect s s' \<Longrightarrow> chains (sessions s) \<Longrightarrow> chains (sessions s')"
  unfolding session_effect_def ends_def using chains_opens chains_rotates chains_revoke by metis

text \<open>A revoked row is never written again.\<close>

lemma effect_keeps_revoked:
  assumes "session_effect s s'" and "b \<in> set (sessions s)" and "se_revoked_at b \<noteq> None"
  shows "b \<in> set (sessions s')"
proof -
  note kept = revoke_rows_kept [OF assms(2,3)]
  from assms(1) show ?thesis
    unfolding session_effect_def opens_def rotates_def ends_def
    using assms(2) kept by (elim disjE exE conjE) (simp_all only: set_append Un_iff simp_thms)
qed

context session_request begin

lemma keeps_chains: "chains (sessions s) \<Longrightarrow> chains (sessions (snd (call s q)))"
  by (rule chains_effect [OF effect])

lemma keeps_revoked:
  "b \<in> set (sessions s) \<Longrightarrow> se_revoked_at b \<noteq> None \<Longrightarrow> b \<in> set (sessions (snd (call s q)))"
  by (rule effect_keeps_revoked [OF effect])

lemma changed_answers: "snd (call s q) \<noteq> s \<Longrightarrow> \<exists>x. fst (call s q) = ok x"
  using raised [of s q] by (cases "fst (call s q)") auto

end

lemma idle_effect [simp]: "session_effect s s"
  by (simp add: session_effect_def ends_idle)

lemma durable_effect:
  assumes "\<And>x s'. t = Committed x s' \<Longrightarrow> session_effect s s'"
  shows "session_effect s (durable s t)"
  using assms by (cases t) simp_all

lemma durable_raised: "answer t = Inl e \<Longrightarrow> durable s t = s"
  by (cases t) simp_all

lemma tx_of_Committed: "tx_of s r k = Committed x s' \<longleftrightarrow> (\<exists>y. r = ok y \<and> k y = Committed x s')"
  by (cases r) (simp_all add: tx_of_def)

lemma login_effect: "session_effect s (snd (login_endpoint ev d s name password ip agent))"
  unfolding login_endpoint_def Let_def snd_conv
proof (rule durable_effect)
  fix x s' assume "login ev d s name password ip agent = Committed x s'"
  then show "session_effect s s'" unfolding session_effect_def by (blast dest: login_committed)
qed

lemma refresh_committed:
  assumes "tx_of s (check_cookie_origin ev origin) (\<lambda>_. case cookie of None \<Rightarrow> auth_raise TokenInvalidError s
      | Some token \<Rightarrow> if token = [] then auth_raise TokenInvalidError s else rotate ev d s token ip agent) =
    Committed x s'"
  obtains token where "cookie = Some token" and "rotate ev d s token ip agent = Committed x s'"
  using assms by (auto simp: tx_of_Committed split: option.splits if_splits)

lemma refresh_effect: "session_effect s (snd (refresh_endpoint ev d s origin cookie ip agent))"
  unfolding refresh_endpoint_def Let_def snd_conv
proof (rule durable_effect, erule refresh_committed)
  fix x s' token assume "rotate ev d s token ip agent = Committed x s'"
  then show "session_effect s s'" unfolding session_effect_def by (blast elim: rotate_committed)
qed

lemma logout_effect: "session_effect s (snd (logout_endpoint ev s origin cookie))"
  unfolding logout_endpoint_def Let_def snd_conv
proof (rule durable_effect)
  fix n s' assume "tx_of s (check_cookie_origin ev origin)
    (\<lambda>_. logout ev s (case cookie of None \<Rightarrow> [] | Some token \<Rightarrow> token)) = Committed n s'"
  then show "session_effect s s'"
    unfolding session_effect_def ends_def tx_of_Committed by (blast elim: logout_committed)
qed

interpretation logging_in: session_request
  "\<lambda>s (ev, d, name, password, ip, agent). login_endpoint ev d s name password ip agent"
  by unfold_locales
    (auto simp: login_effect, auto simp: login_endpoint_def Let_def dest: durable_raised)

interpretation refreshing: session_request
  "\<lambda>s (ev, d, origin, cookie, ip, agent). refresh_endpoint ev d s origin cookie ip agent"
  by unfold_locales
    (auto simp: refresh_effect, auto simp: refresh_endpoint_def Let_def dest: durable_raised)

interpretation logging_out: session_request "\<lambda>s (ev, origin, cookie). logout_endpoint ev s origin cookie"
  by unfold_locales
    (auto simp: logout_effect, auto simp: logout_endpoint_def Let_def dest: durable_raised)

section \<open>Runs\<close>

text \<open>
  Requests in any order, and between them anything that leaves the sessions table alone: time passing,
  the administration of accounts and roles, the rest of the shop.
\<close>

inductive auth_run :: "auth_env \<Rightarrow> 'a members_scheme \<Rightarrow> 'a members_scheme \<Rightarrow> bool" for ev where
  run_none: "auth_run ev s s"
| run_login: "auth_run ev s0 s \<Longrightarrow> auth_run ev s0 (snd (login_endpoint ev d s name password ip agent))"
| run_refresh: "auth_run ev s0 s \<Longrightarrow> auth_run ev s0 (snd (refresh_endpoint ev d s origin cookie ip agent))"
| run_logout: "auth_run ev s0 s \<Longrightarrow> auth_run ev s0 (snd (logout_endpoint ev s origin cookie))"
| run_other: "auth_run ev s0 s \<Longrightarrow> sessions s' = sessions s \<Longrightarrow> db_now s \<le> db_now s' \<Longrightarrow> auth_run ev s0 s'"

lemma run_chains: "auth_run ev s0 s \<Longrightarrow> chains (sessions s0) \<Longrightarrow> chains (sessions s)"
proof (induction rule: auth_run.induct)
  case (run_login s0 s d name password ip agent)
  then show ?case using logging_in.keeps_chains [of s "(ev, d, name, password, ip, agent)"] by simp
next
  case (run_refresh s0 s d origin cookie ip agent)
  then show ?case using refreshing.keeps_chains [of s "(ev, d, origin, cookie, ip, agent)"] by simp
next
  case (run_logout s0 s origin cookie)
  then show ?case using logging_out.keeps_chains [of s "(ev, origin, cookie)"] by simp
qed simp_all

lemma run_keeps_revoked:
  "auth_run ev s0 s \<Longrightarrow> b \<in> set (sessions s0) \<Longrightarrow> se_revoked_at b \<noteq> None \<Longrightarrow> b \<in> set (sessions s)"
proof (induction rule: auth_run.induct)
  case (run_login s0 s d name password ip agent)
  then show ?case using logging_in.keeps_revoked [of b s "(ev, d, name, password, ip, agent)"] by simp
next
  case (run_refresh s0 s d origin cookie ip agent)
  then show ?case using refreshing.keeps_revoked [of b s "(ev, d, origin, cookie, ip, agent)"] by simp
next
  case (run_logout s0 s origin cookie)
  then show ?case using logging_out.keeps_revoked [of b s "(ev, origin, cookie)"] by simp
qed simp_all

end
