(* ===== verification/Identity_Properties.thy ===== *)
theory Identity_Properties
  imports Identity_Runs
begin

text \<open>
  The properties of authentication: what rotation promises and keeps, what the request throws away,
  how far a family is walked, and what an access token carries.
\<close>

section \<open>A small directory\<close>

definition sample_account :: account where
  "sample_account =
    \<lparr>ac_id = 9, ac_merchant_id = None, ac_username = ''lilei'', ac_email = Some ''li@nova.cn'',
     ac_phone = None, ac_password_hash = ''correct horse'', ac_display_name = ''Li Lei'',
     ac_user_type = CONSUMER, ac_status = User_ACTIVE, ac_data_scope_override = None,
     ac_failed_login_attempts = 0, ac_locked_until = None, ac_last_login_at = None,
     ac_password_changed_at = None, ac_deleted_at = None\<rparr>"

definition sample_payload :: token_payload where
  "sample_payload =
    \<lparr>tp_sub = ''9'', tp_jti = ''t1'', tp_sid = Some ''9-j1'', tp_iss = ''nova'', tp_aud = ''api'', tp_iat = 1,
     tp_nbf = 1, tp_exp = 901, tp_typ = Some ''access'', tp_roles = Some [], tp_permissions = Some [],
     tp_data_scope = Some ''SELF'', tp_merchant_id = None, tp_user_type = Some ''CONSUMER''\<rparr>"

text \<open>Digests are the identity, a password is its own hash, and the one token is that of the payload.\<close>

definition sample_auth_env :: auth_env where
  "sample_auth_env =
    \<lparr>au_sha256 = id, au_verify = (\<lambda>h p. if h = p then Hash_Matches else Hash_Mismatch),
     au_argon2 = (\<lambda>salt p. p), au_needs_rehash = (\<lambda>_. Some False), au_jwt_encode = (\<lambda>_. ''token''),
     au_jwt_decode = (\<lambda>_ t. if t = ''token'' then Token_Payload sample_payload else Token_Unverified),
     au_jwt_secret_key = ''pepper'', au_jwt_issuer = ''nova'', au_jwt_audience = ''api'',
     au_access_token_ttl_seconds = 900, au_refresh_token_ttl_seconds = 1209600,
     au_login_max_failures = 5, au_login_lockout_seconds = 900,
     au_cors_allow_origins = [''http://localhost:5173''], au_own_origin = ''http://nova''\<rparr>"

definition draw :: "nat \<Rightarrow> draws" where
  "draw n = \<lparr>dr_salt = [], dr_refresh_token = ''r'' @ nat_text n, dr_session_jti = ''j'' @ nat_text n,
    dr_token_jti = ''t'' @ nat_text n\<rparr>"

definition blank_members :: "int \<Rightarrow> auth_session list \<Rightarrow> members" where
  "blank_members now rows =
    \<lparr>db_now = now, warehouses = [], inventories = [], movements = [], skus = [], products = [],
     images = [], addresses = [], promotions = [], templates = [], user_coupons = [], coupon_usage = [],
     orders = [], order_items = [], status_logs = [], idempotency = [], outbox = [], audit_log = [],
     payments = [], payment_callbacks = [], compensations = [], fulfillments = [], after_sales = [],
     refunds = [], accounts = [sample_account], roles = [], role_grants = [], sessions = rows\<rparr>"

text \<open>A login, and a refresh of its token ten seconds later.\<close>

definition logged_in :: members where
  "logged_in = snd (login_endpoint sample_auth_env (draw 1) (blank_members 1000 []) ''lilei''
    ''correct horse'' None None)"

definition ten_seconds_later :: members where
  "ten_seconds_later = logged_in\<lparr>db_now := 11000\<rparr>"

definition refreshed :: members where
  "refreshed = snd (refresh_endpoint sample_auth_env (draw 2) ten_seconds_later None (Some ''r1'') None None)"

lemma refreshed_story:
  "is_ok (fst (login_endpoint sample_auth_env (draw 1) (blank_members 1000 []) ''lilei''
      ''correct horse'' None None))"
  "map (\<lambda>a. (se_id a, se_rotated_from a, se_revoked_at a)) (sessions refreshed) =
    [(1, None, Some 11000), (2, Some 1, None)]"
  "is_ok (fst (refresh_endpoint sample_auth_env (draw 2) ten_seconds_later None (Some ''r1'') None None))"
  by code_simp+

lemma refreshed_run: "auth_run sample_auth_env (blank_members 1000 []) refreshed"
  unfolding refreshed_def ten_seconds_later_def logged_in_def
  by (rule run_refresh, rule run_other, rule run_login, rule run_none) (simp, code_simp)

section \<open>Rotation\<close>

definition succeeded_by :: "auth_session list \<Rightarrow> auth_session \<Rightarrow> auth_session \<Rightarrow> bool" where
  "succeeded_by rows a b \<longleftrightarrow> a \<in> set rows \<and> b \<in> set rows \<and> se_rotated_from b = Some (se_id a)"

lemma one_successor:
  assumes "chains rows" and "succeeded_by rows a b" and "succeeded_by rows a c"
  shows "b = c"
proof -
  have "distinct (map se_rotated_from (filter (\<lambda>x. se_rotated_from x \<noteq> None) rows))"
    using assms(1) by (simp add: chains_def filter_map comp_def)
  moreover have "b \<in> set (filter (\<lambda>x. se_rotated_from x \<noteq> None) rows)"
    "c \<in> set (filter (\<lambda>x. se_rotated_from x \<noteq> None) rows)" "se_rotated_from b = se_rotated_from c"
    using assms(2,3) by (simp_all add: succeeded_by_def)
  ultimately show ?thesis by (metis distinct_map inj_onD)
qed

lemma successor_revoked:
  assumes "chains rows" and "succeeded_by rows a b"
  shows "se_revoked_at a \<noteq> None \<and> se_revoked_reason a = Some ROTATED"
proof -
  obtain a' where "a' \<in> set rows" "se_id a' = se_id a" "se_revoked_at a' \<noteq> None" "se_revoked_reason a' = Some ROTATED"
    using assms unfolding chains_def succeeded_by_def by blast
  with same_row [of se_id rows a' a] assms show ?thesis by (auto simp: chains_def succeeded_by_def)
qed

lemma one_line:
  assumes "chains rows" and "(succeeded_by rows)\<^sup>*\<^sup>* r a" and "(succeeded_by rows)\<^sup>*\<^sup>* r b"
  shows "(succeeded_by rows)\<^sup>*\<^sup>* a b \<or> (succeeded_by rows)\<^sup>*\<^sup>* b a"
  using assms(3)
proof (induction rule: rtranclp_induct)
  case base
  then show ?case using assms(2) by simp
next
  case (step b c)
  from step.IH show ?case
  proof
    assume "(succeeded_by rows)\<^sup>*\<^sup>* a b"
    then show ?thesis using step.hyps(2) by (meson rtranclp.rtrancl_into_rtrancl)
  next
    assume "(succeeded_by rows)\<^sup>*\<^sup>* b a"
    then show ?thesis
    proof (cases rule: converse_rtranclpE)
      case base
      then show ?thesis using step.hyps(2) by blast
    next
      case (step d)
      then show ?thesis using one_successor [OF assms(1) _ \<open>succeeded_by rows b c\<close>] by blast
    qed
  qed
qed

text \<open>
  C7: from a table without sessions, after any requests, one at a time, every refresh digest names one row, a token
  that was exchanged has one successor and was revoked by that rotation, and the sessions descending
  from one login include at most one live session.
\<close>

theorem rotation_never_forks:
  assumes "sessions s0 = []" and "auth_run ev s0 s"
  shows "distinct (map se_refresh_token_hash (sessions s)) \<and>
    (\<forall>a b c. succeeded_by (sessions s) a b \<longrightarrow> se_revoked_reason a = Some ROTATED \<and>
      (succeeded_by (sessions s) a c \<longrightarrow> b = c)) \<and>
    (\<forall>r a b. (succeeded_by (sessions s))\<^sup>*\<^sup>* r a \<and> (succeeded_by (sessions s))\<^sup>*\<^sup>* r b \<and>
      se_revoked_at a = None \<and> se_revoked_at b = None \<longrightarrow> a = b)"
proof -
  have c: "chains (sessions s)" using run_chains [OF assms(2)] assms(1) by (simp add: chains_def)
  have "a = b" if r: "(succeeded_by (sessions s))\<^sup>*\<^sup>* r a" "(succeeded_by (sessions s))\<^sup>*\<^sup>* r b"
    and live: "se_revoked_at a = None" "se_revoked_at b = None" for r a b
    using one_line [OF c r] live successor_revoked [OF c] by (metis converse_rtranclpE)
  then show ?thesis
    using c one_successor [OF c] successor_revoked [OF c] by (auto simp: chains_def)
qed

theorem rotation_never_forks_witness:
  "distinct (map se_refresh_token_hash (sessions refreshed)) \<and> length (sessions refreshed) = 2"
proof -
  have "sessions (blank_members 1000 []) = []" by (simp add: blank_members_def)
  from rotation_never_forks [OF this refreshed_run] show ?thesis
    using arg_cong [OF refreshed_story(2), of length] by simp
qed

section \<open>An exchanged token\<close>

lemma hash_row_unique:
  assumes "chains (sessions s)" and "a \<in> set (sessions s)" and "se_refresh_token_hash a = h"
  shows "get_by_refresh_hash s h = Some a"
proof -
  obtain b where b: "get_by_refresh_hash s h = Some b" "b \<in> set (sessions s)" "se_refresh_token_hash b = h"
    using assms(2,3) by (cases "get_by_refresh_hash s h")
      (auto simp: get_by_refresh_hash_def find_None_iff dest: find_SomeD)
  with same_row [of se_refresh_token_hash "sessions s" b a] assms show ?thesis by (simp add: chains_def)
qed

lemma session_row_unique:
  assumes "chains (sessions s)" and "a \<in> set (sessions s)" and "se_session_id a = h"
  shows "get_by_session_id s h = Some a"
proof -
  obtain b where b: "get_by_session_id s h = Some b" "b \<in> set (sessions s)" "se_session_id b = h"
    using assms(2,3) by (cases "get_by_session_id s h")
      (auto simp: get_by_session_id_def find_None_iff dest: find_SomeD)
  with same_row [of se_session_id "sessions s" b a] assms show ?thesis by (simp add: chains_def)
qed

lemma touch_keys [simp]:
  assumes "distinct (map se_id (sessions s))" and "a \<in> set (sessions s)"
  shows "map se_session_id (sessions (touch_session now a s)) = map se_session_id (sessions s)"
    and "map se_refresh_token_hash (sessions (touch_session now a s)) = map se_refresh_token_hash (sessions s)"
  using assms same_row [OF assms(1) _ assms(2)] by (auto simp: touch_session_def put_row_def)

lemma follow_tip_member: "a \<in> set rows \<Longrightarrow> follow_tip rows n a \<in> set rows"
proof (induction n arbitrary: a)
  case (Suc n)
  show ?case
  proof (cases "sort_key (\<lambda>b. - se_id b)
      (filter (\<lambda>b. se_rotated_from b = Some (se_id a) \<and> se_revoked_at b = None) rows)")
    case (Cons b bs)
    then have "b \<in> set (sort_key (\<lambda>b. - se_id b)
      (filter (\<lambda>b. se_rotated_from b = Some (se_id a) \<and> se_revoked_at b = None) rows))" by simp
    then have "b \<in> set rows" by simp
    with Cons Suc.IH show ?thesis by simp
  qed (use Suc.prems in simp)
qed simp

text \<open>What is handed out for a revoked token is in no table.\<close>

lemma reissue_unstored:
  assumes "reissue_from_chain ev d s a ip = t" and "chains (sessions s)" and "a \<in> set (sessions s)"
  shows "durable s t = s" and "answer t = ok y \<Longrightarrow> get_by_session_id s (se_session_id (is_session y)) = None \<and>
    get_by_refresh_hash s (hash_refresh_token ev (is_refresh_token y)) = None"
proof -
  show "durable s t = s"
    using assms(1) by (auto simp: reissue_from_chain_def tx_of_def Let_def split: option.splits sum.splits if_splits)
  assume y: "answer t = ok y"
  define s1 where "s1 = (if se_id (family_tip s a) \<noteq> se_id a then touch_session (db_now s) (family_tip s a) s else s)"
  have tip: "family_tip s a \<in> set (sessions s)" using follow_tip_member assms(3) by (simp add: family_tip_def)
  obtain u who s2 where x: "issue ev d s1 u who (new_session ev d u (db_now s) ip
      (se_user_agent (family_tip s a)) ''REFRESH'' (Some (se_id (family_tip s a)))) = ok (y, s2)"
    using assms(1) y
    by (auto simp: reissue_from_chain_def tx_of_def Let_def s1_def split: option.splits sum.splits if_splits)
  have keys: "map se_session_id (sessions s1) = map se_session_id (sessions s)"
    "map se_refresh_token_hash (sessions s1) = map se_refresh_token_hash (sessions s)"
    using touch_keys [OF _ tip] assms(2) by (simp_all add: s1_def chains_def)
  have "\<forall>b \<in> set (sessions s1). se_session_id b \<noteq> se_session_id (is_session y) \<and>
      se_refresh_token_hash b \<noteq> se_refresh_token_hash (is_session y)"
    using issue_ok(2) [OF x] by (auto simp: list_ex_iff session_clash_def)
  then have "se_session_id (is_session y) \<notin> set (map se_session_id (sessions s))"
    "se_refresh_token_hash (is_session y) \<notin> set (map se_refresh_token_hash (sessions s))"
    unfolding keys [symmetric] by auto
  moreover have "se_refresh_token_hash (is_session y) = hash_refresh_token ev (is_refresh_token y)"
    using issue_ok(1,4) [OF x] by simp
  ultimately show "get_by_session_id s (se_session_id (is_session y)) = None \<and>
      get_by_refresh_hash s (hash_refresh_token ev (is_refresh_token y)) = None"
    unfolding get_by_session_id_def get_by_refresh_hash_def find_None_iff set_map
    by (metis image_eqI)
qed

lemma revoked_token_refresh:
  assumes "chains (sessions s)" and "a \<in> set (sessions s)" and "se_revoked_at a \<noteq> None"
    and "se_refresh_token_hash a = hash_refresh_token ev token"
    and "refresh_endpoint ev d s origin (Some token) ip agent = (r, t)"
  shows "t = s" and "r = ok y \<Longrightarrow> get_by_session_id s (se_session_id (is_session y)) = None \<and>
    get_by_refresh_hash s (hash_refresh_token ev (is_refresh_token y)) = None"
proof -
  have row: "get_by_refresh_hash s (hash_refresh_token ev token) = Some a"
    using hash_row_unique assms(1,2,4) .
  note reissue = reissue_unstored [OF refl assms(1,2), of ev d ip]
  from assms(3,5) row show "t = s"
    using reissue(1) by (auto simp: refresh_endpoint_def rotate_def handle_reuse_def tx_of_def Let_def
        split: sum.splits if_splits)
  assume "r = ok y"
  with assms(3,5) row show "get_by_session_id s (se_session_id (is_session y)) = None \<and>
      get_by_refresh_hash s (hash_refresh_token ev (is_refresh_token y)) = None"
    using reissue(2) by (auto simp: refresh_endpoint_def rotate_def handle_reuse_def tx_of_def Let_def
        split: sum.splits if_splits)
qed

text \<open>
  C8: once a refresh has exchanged a token and stored the successor, presenting that token again, at
  any later time, changes no table; and if a pair is handed out for it, in the grace window, neither its
  session nor its refresh token is stored: the next use of either is refused.
\<close>

theorem exchanged_token_is_dead:
  assumes "sessions s0 = []" and "auth_run ev s0 s"
    and "refresh_endpoint ev d s origin (Some token) ip agent = (ok x, s')" and "s' \<noteq> s"
    and "auth_run ev s' s''"
    and "refresh_endpoint ev d' s'' origin' (Some token) ip' agent' = (r, t)"
  shows "t = s'' \<and> (\<forall>y. r = ok y \<longrightarrow> get_by_session_id t (se_session_id (is_session y)) = None \<and>
    get_by_refresh_hash t (hash_refresh_token ev (is_refresh_token y)) = None)"
proof -
  have c: "chains (sessions s)" using run_chains [OF assms(2)] assms(1) by (simp add: chains_def)
  have c': "chains (sessions s')"
    using refreshing.keeps_chains [OF c, of "(ev, d, origin, Some token, ip, agent)"] assms(3) by simp
  have c'': "chains (sessions s'')" using run_chains [OF assms(5) c'] .
  obtain z where "tx_of s (check_cookie_origin ev origin) (\<lambda>_. if token = [] then auth_raise TokenInvalidError s
      else rotate ev d s token ip agent) = Committed z s'"
    using assms(3,4) durable_cases [of _ s] unfolding refresh_endpoint_def Let_def prod.inject option.case
    by metis
  then have "rotate ev d s token ip agent = Committed z s'" by (auto simp: tx_of_Committed split: if_splits)
  then obtain a where a: "get_by_refresh_hash s (hash_refresh_token ev token) = Some a" and rot: "rotates s s' a"
    by (rule rotate_committed)
  define b where "b = revoked (db_now s) ROTATED a"
  have "se_refresh_token_hash b = hash_refresh_token ev token" "se_revoked_at b \<noteq> None"
    using a by (auto simp: b_def revoked_def get_by_refresh_hash_def dest: find_SomeD)
  moreover have "b \<in> set (sessions s')"
    using rot unfolding rotates_def b_def by (auto intro: revoke_rows_hit)
  ultimately show ?thesis
    using revoked_token_refresh [OF c'' run_keeps_revoked [OF assms(5)] _ _ assms(6)] by blast
qed

theorem exchanged_token_is_dead_witness:
  "let late = refreshed\<lparr>db_now := 15000\<rparr> in
    is_ok (fst (refresh_endpoint sample_auth_env (draw 3) late None (Some ''r1'') None None)) \<and>
    snd (refresh_endpoint sample_auth_env (draw 3) late None (Some ''r1'') None None) = late \<and>
    get_by_session_id late ''9-j3'' = None"
proof -
  let ?late = "refreshed\<lparr>db_now := 15000\<rparr>"
  obtain x where x: "refresh_endpoint sample_auth_env (draw 2) ten_seconds_later None (Some ''r1'') None None =
      (ok x, refreshed)"
    using refreshed_story(3) unfolding refreshed_def by (metis is_ok_ex prod.collapse)
  have run: "auth_run sample_auth_env (blank_members 1000 []) ten_seconds_later"
    unfolding ten_seconds_later_def logged_in_def
    by (rule run_other, rule run_login, rule run_none) (simp, code_simp)
  have late: "auth_run sample_auth_env refreshed ?late"
    by (rule run_other [OF run_none]) (simp, code_simp)
  have new: "map_sum (\<lambda>_. ()) (\<lambda>y. se_session_id (is_session y))
      (fst (refresh_endpoint sample_auth_env (draw 3) ?late None (Some ''r1'') None None)) = ok ''9-j3''"
    by code_simp
  obtain r t where rt: "refresh_endpoint sample_auth_env (draw 3) ?late None (Some ''r1'') None None = (r, t)"
    by fastforce
  have changed: "refreshed \<noteq> ten_seconds_later" by code_simp
  have empty: "sessions (blank_members 1000 []) = []" by (simp add: blank_members_def)
  note dead = exchanged_token_is_dead [OF empty run x changed late rt]
  from new rt obtain y where "r = ok y" "se_session_id (is_session y) = ''9-j3''" by (cases r) auto
  with dead rt show ?thesis by auto
qed

section \<open>What the request throws away\<close>

text \<open>
  C34: a revoked token presented outside the grace window, or revoked for another reason than
  rotation, is answered \<open>REFRESH_TOKEN_REUSED\<close> and the service revokes every session of the family in
  its transaction; but the error leaves the request without a commit, so the tables stay as they were
  and every session that was live still is.
\<close>

theorem theft_alarm_is_lost:
  assumes "get_by_refresh_hash s (hash_refresh_token ev token) = Some a" and "token \<noteq> []"
    and "se_revoked_at a = Some since"
    and "se_revoked_reason a \<noteq> Some ROTATED \<or> 1000 * reuse_grace_seconds < db_now s - since"
  shows "refresh_endpoint ev d s None (Some token) ip agent = (app_raise (Auth RefreshTokenReuseError), s) \<and>
    list_all (\<lambda>b. in_family s a b \<longrightarrow> se_revoked_at b \<noteq> None)
      (sessions (working (rotate ev d s token ip agent)))"
proof -
  have "rotate ev d s token ip agent =
      auth_raise RefreshTokenReuseError (snd (revoke_family a REUSE_DETECTED s))"
    using assms by (auto simp: rotate_def handle_reuse_def)
  then show ?thesis
    using assms(2)
    by (auto simp: refresh_endpoint_def check_cookie_origin_def tx_of_def revoke_family_def
        sessions_revoke_where list_all_iff revoke_rows_def revoked_def in_family_def)
qed

theorem theft_alarm_is_lost_witness:
  "let late = refreshed\<lparr>db_now := 60000\<rparr> in
    refresh_endpoint sample_auth_env (draw 3) late None (Some ''r1'') None None =
      (app_raise (Auth RefreshTokenReuseError), late) \<and>
    map se_revoked_at (sessions late) = [Some 11000, None]"
proof -
  let ?late = "refreshed\<lparr>db_now := 60000\<rparr>"
  have found: "map_option (\<lambda>a. (se_revoked_at a, se_id a)) (get_by_refresh_hash ?late
      (hash_refresh_token sample_auth_env ''r1'')) = Some (Some 11000, 1)" by code_simp
  then obtain a where a: "get_by_refresh_hash ?late (hash_refresh_token sample_auth_env ''r1'') = Some a"
    "se_revoked_at a = Some 11000" by (auto simp: map_option_case split: option.splits)
  have "1000 * reuse_grace_seconds < db_now ?late - 11000" by (simp add: reuse_grace_seconds_def)
  then have "refresh_endpoint sample_auth_env (draw 3) ?late None (Some ''r1'') None None =
      (app_raise (Auth RefreshTokenReuseError), ?late)"
    using theft_alarm_is_lost [OF a(1) _ a(2)] by simp
  then show ?thesis using arg_cong [OF refreshed_story(2), of "map (snd \<circ> snd)"] by (simp add: comp_def)
qed

text \<open>One login after the other with the given passwords: the answers, and the tables at the end.\<close>

fun guessing :: "auth_env \<Rightarrow> 'a members_scheme \<Rightarrow> string \<Rightarrow> (draws \<times> string) list \<Rightarrow>
  issued_session result list \<times> 'a members_scheme" where
  "guessing ev s name [] = ([], s)"
| "guessing ev s name ((d, password) # guesses) =
    (let (r, s) = login_endpoint ev d s name password None None;
         (rs, s) = guessing ev s name guesses
     in (r # rs, s))"

text \<open>
  C35: however many wrong passwords are tried on an account that may log in, each is answered as the
  first was and no table changes: the failure is counted in the transaction that the raised error rolls
  back, so the account is never locked.
\<close>

theorem guessing_is_never_locked:
  assumes "find_by_identifier s (strip_text name) = Some u" and "strip_text name \<noteq> []"
    and "guard_login_allowed ev (ac_status u) (ac_failed_login_attempts u) = ok ()"
    and "ac_locked_until u = None"
    and "list_all (\<lambda>g. \<not> verify_password ev (snd g) (ac_password_hash u)) guesses"
  shows "guessing ev s name guesses =
    (replicate (length guesses) (app_raise (Auth InvalidCredentialsError)), s)"
proof -
  have "login_endpoint ev d s name password None None = (app_raise (Auth InvalidCredentialsError), s)"
    if "\<not> verify_password ev password (ac_password_hash u)" for d password
    using assms(1-4) that by (auto simp: login_endpoint_def login_def tx_of_def Let_def)
  with assms(5) show ?thesis by (induction guesses) auto
qed

theorem guessing_is_never_locked_witness:
  "guessing sample_auth_env (blank_members 1000 []) ''lilei'' (replicate 9 (draw 1, ''wrong guess'')) =
    (replicate 9 (app_raise (Auth InvalidCredentialsError)), blank_members 1000 [])"
proof -
  have "find_by_identifier (blank_members 1000 []) (strip_text ''lilei'') = Some sample_account" by code_simp
  moreover have "strip_text ''lilei'' \<noteq> []" by code_simp
  moreover have "guard_login_allowed sample_auth_env (ac_status sample_account)
      (ac_failed_login_attempts sample_account) = ok ()" by code_simp
  moreover have "ac_locked_until sample_account = None" by code_simp
  moreover have "\<not> verify_password sample_auth_env ''wrong guess'' (ac_password_hash sample_account)"
    by code_simp
  ultimately show ?thesis
    using guessing_is_never_locked [of "blank_members 1000 []" "''lilei''" sample_account sample_auth_env
        "replicate 9 (draw 1, ''wrong guess'')"] by (simp add: list_all_iff)
qed

end
