(* ===== verification/Identity_Families.thy ===== *)
theory Identity_Families
  imports Identity_Properties
begin

text \<open>
  How far a family is walked, what a logout reaches, and what an access token carries through its
  encoding.
\<close>

section \<open>The walk\<close>

lemma linked_row:
  assumes "chains rows" and "a \<in> set rows" and "se_rotated_from a = Some i"
  obtains b where "row_of se_id rows i = Some b" and "se_id b < se_id a"
    and "\<forall>c. succeeded_by rows c a \<longleftrightarrow> c = b"
proof -
  have ids: "distinct (map se_id rows)" using assms(1) by (simp add: chains_def)
  obtain b where b: "b \<in> set rows" "se_id b = i" "i < se_id a"
    using assms unfolding chains_def by blast
  then have found: "row_of se_id rows i = Some b" using row_of_distinct [OF ids b(1)] by simp
  have "c = b" if "succeeded_by rows c a" for c
    using that row_of_distinct [OF ids, of c] found assms(3) by (simp add: succeeded_by_def)
  moreover have "succeeded_by rows b a" using b(1,2) assms(2,3) by (simp add: succeeded_by_def)
  ultimately have "\<forall>c. succeeded_by rows c a \<longleftrightarrow> c = b" by blast
  with found show ?thesis using that [of b] b(2,3) by simp
qed

lemma relpowp_back: "(R ^^ Suc j) c a \<longleftrightarrow> (\<exists>b. (R ^^ j) c b \<and> R b a)"
  by (simp add: relcompp_apply)

lemma steps_rows:
  "(succeeded_by rows ^^ j) a b \<Longrightarrow> a \<in> set rows \<longleftrightarrow> b \<in> set rows"
  by (induction j arbitrary: b) (auto simp: succeeded_by_def)

text \<open>Back: the ancestors within the depth. Ids grow along a chain, so nothing is seen twice.\<close>

lemma walk_back_chain:
  assumes "chains rows"
  shows "a \<in> set rows \<Longrightarrow> \<forall>i \<in> set seen. se_id a \<le> i \<Longrightarrow>
    set (walk_back rows d seen a) = {c. \<exists>j < d. (succeeded_by rows ^^ Suc j) c a}"
proof (induction d arbitrary: a seen)
  case (Suc d)
  show ?case
  proof (cases "se_rotated_from a")
    case None
    then have "\<not> succeeded_by rows b a" for b by (simp add: succeeded_by_def)
    then show ?thesis using None by (simp add: relpowp_back del: relpowp.simps)
  next
    case (Some i)
    obtain b where b: "row_of se_id rows i = Some b" "se_id b < se_id a" "\<forall>c. succeeded_by rows c a \<longleftrightarrow> c = b"
      by (rule linked_row [OF assms Suc.prems(1) Some])
    have "se_id b \<notin> set seen" using b(2) Suc.prems(2) by auto
    then have step: "set (walk_back rows (Suc d) seen a) = insert b (set (walk_back rows d (se_id b # seen) b))"
      using Some b(1) by simp
    have "b \<in> set rows" "\<forall>i \<in> set (se_id b # seen). se_id b \<le> i"
      using row_of_Some [OF b(1)] Suc.prems(2) b(2) by fastforce+
    from Suc.IH [OF this] have "set (walk_back rows d (se_id b # seen) b) = {c. \<exists>j < d. (succeeded_by rows ^^ Suc j) c b}" .
    moreover have "(\<exists>j < Suc d. (succeeded_by rows ^^ Suc j) c a) \<longleftrightarrow> c = b \<or> (\<exists>j < d. (succeeded_by rows ^^ Suc j) c b)" for c
    proof -
      have "(succeeded_by rows ^^ Suc j) c a \<longleftrightarrow> (succeeded_by rows ^^ j) c b" for j
        unfolding relpowp_back [of _ _ c a] using b(3) by simp
      then show ?thesis by (simp add: Ex_less_Suc2 del: relpowp.simps(2))
    qed
    ultimately show ?thesis unfolding step by blast
  qed
qed simp

text \<open>Forward: every row within the depth of a set whose other members lead nowhere new.\<close>

lemma walk_forward_chain:
  assumes ids: "distinct (map se_id rows)"
  shows "G \<subseteq> I \<Longrightarrow> I \<subseteq> set rows \<Longrightarrow> (\<And>b c. b \<in> I - G \<Longrightarrow> succeeded_by rows b c \<Longrightarrow> c \<in> I) \<Longrightarrow>
    walk_forward rows d (se_id ` G) (se_id ` I) = se_id ` {c. \<exists>b \<in> I. \<exists>j \<le> d. (succeeded_by rows ^^ j) b c}"
proof (induction d arbitrary: G I)
  case 0
  then show ?case by simp
next
  case (Suc d)
  define N where "N = {c. \<exists>b \<in> G. succeeded_by rows b c} - I"
  have rows: "N \<subseteq> set rows" by (auto simp: N_def succeeded_by_def)
  have reach: "{c. \<exists>b \<in> I. \<exists>j \<le> Suc d. (succeeded_by rows ^^ j) b c} =
      {c. \<exists>b \<in> I \<union> N. \<exists>j \<le> d. (succeeded_by rows ^^ j) b c}"
  proof (intro equalityI subsetI; clarsimp)
    fix c b j assume b: "b \<in> I" and j: "j \<le> Suc d" and steps: "(succeeded_by rows ^^ j) b c"
    show "\<exists>b \<in> I \<union> N. \<exists>j \<le> d. (succeeded_by rows ^^ j) b c"
    proof (cases j)
      case 0
      with b steps show ?thesis by (intro bexI [of _ b] exI [of _ 0]) auto
    next
      case (Suc k)
      obtain x where x: "succeeded_by rows b x" "(succeeded_by rows ^^ k) x c"
        using steps unfolding Suc by (rule relpowp_Suc_E2)
      have "x \<in> I \<union> N" using Suc.prems(3) b x(1) by (auto simp: N_def)
      with x(2) Suc j show ?thesis by auto
    qed
  next
    fix c b j assume b: "b \<in> I \<or> b \<in> N" and j: "j \<le> d" and steps: "(succeeded_by rows ^^ j) b c"
    show "\<exists>b \<in> I. \<exists>j \<le> Suc d. (succeeded_by rows ^^ j) b c"
    proof (cases "b \<in> I")
      case True
      with j steps show ?thesis using le_SucI by blast
    next
      case False
      then obtain g where g: "g \<in> G" "succeeded_by rows g b" using b by (auto simp: N_def)
      then have "(succeeded_by rows ^^ Suc j) g c" using steps by (intro relpowp_Suc_I2)
      with g j Suc.prems(1) show ?thesis by (intro bexI [of _ g] exI [of _ "Suc j"]) auto
    qed
  qed
  show ?case
  proof (cases "G = {}")
    case True
    then have "N = {}" by (simp add: N_def)
    have "(succeeded_by rows ^^ j) b c \<Longrightarrow> b \<in> I \<Longrightarrow> c \<in> I" for j b c
      using Suc.prems(3) True by (induction j arbitrary: b) (auto elim: relpowp_Suc_E2 simp del: relpowp.simps(2))
    moreover have "x \<in> I \<Longrightarrow> \<exists>b \<in> I. \<exists>j \<le> Suc d. (succeeded_by rows ^^ j) b x" for x
      by (intro bexI [of _ x] exI [of _ 0]) auto
    ultimately have "{c. \<exists>b \<in> I. \<exists>j \<le> Suc d. (succeeded_by rows ^^ j) b c} = I" by blast
    with True show ?thesis by simp
  next
    case False
    have "se_id ` set (filter (\<lambda>b. se_rotated_from b \<in> Some ` se_id ` G) rows) = se_id ` {c. \<exists>b \<in> G. succeeded_by rows b c}"
      using Suc.prems(1,2) by (intro arg_cong [where f = "image se_id"]) (auto simp: succeeded_by_def)
    moreover have "se_id ` {c. \<exists>b \<in> G. succeeded_by rows b c} - se_id ` I = se_id ` N"
      unfolding N_def using ids Suc.prems(2)
      by (intro inj_on_image_set_diff [symmetric, of se_id "set rows"]) (auto simp: distinct_map succeeded_by_def)
    ultimately have "walk_forward rows (Suc d) (se_id ` G) (se_id ` I) =
        walk_forward rows d (se_id ` N) (se_id ` (I \<union> N))"
      using False by (simp add: image_Un)
    also have "\<dots> = se_id ` {c. \<exists>b \<in> I \<union> N. \<exists>j \<le> d. (succeeded_by rows ^^ j) b c}"
    proof (rule Suc.IH)
      show "c \<in> I \<union> N" if "b \<in> I \<union> N - N" "succeeded_by rows b c" for b c
        using that Suc.prems(3) [of b c] by (cases "b \<in> G") (auto simp: N_def)
    qed (use Suc.prems(2) rows in auto)
    finally show ?thesis unfolding reach .
  qed
qed

lemma one_path:
  assumes "chains rows"
  shows "(succeeded_by rows ^^ i) b a \<Longrightarrow> (succeeded_by rows ^^ j) b c \<Longrightarrow> i \<le> j \<Longrightarrow> (succeeded_by rows ^^ (j - i)) a c"
proof (induction i arbitrary: b j)
  case (Suc i)
  obtain x where x: "succeeded_by rows b x" "(succeeded_by rows ^^ i) x a"
    using Suc.prems(1) by (rule relpowp_Suc_E2)
  obtain k where k: "j = Suc k" using Suc.prems(3) by (cases j) auto
  obtain y where y: "succeeded_by rows b y" "(succeeded_by rows ^^ k) y c"
    using Suc.prems(2) unfolding k by (rule relpowp_Suc_E2)
  have "y = x" by (rule one_successor [OF assms y(1) x(1)])
  with Suc.IH [OF x(2)] y(2) Suc.prems(3) k show ?case by simp
qed simp

lemma family_of_chain:
  assumes c: "chains (sessions s)" and a: "a \<in> set (sessions s)"
  shows "family_session_ids s a family_depth =
    se_id ` {b. \<exists>j \<le> 50. (succeeded_by (sessions s) ^^ j) b a \<or> (succeeded_by (sessions s) ^^ j) a b}"
proof -
  let ?S = "succeeded_by (sessions s)"
  define I where "I = {b. \<exists>j \<le> 50. (?S ^^ j) b a}"
  have "set (rotation_chain s a family_depth) = insert a {c. \<exists>j < 50. (?S ^^ Suc j) c a}"
    unfolding rotation_chain_def family_depth_def using walk_back_chain [OF c a, of "[se_id a]" 50] by simp
  also have "\<dots> = I"
  proof (intro equalityI subsetI)
    fix b assume "b \<in> I"
    then obtain j where j: "j \<le> 50" "(?S ^^ j) b a" by (auto simp: I_def)
    then show "b \<in> insert a {c. \<exists>j < 50. (?S ^^ Suc j) c a}"
      by (cases j) (auto simp: Suc_le_eq simp del: relpowp.simps(2))
  next
    fix b assume "b \<in> insert a {c. \<exists>j < 50. (?S ^^ Suc j) c a}"
    then show "b \<in> I" unfolding I_def
      by (auto simp: Suc_le_eq simp del: relpowp.simps(2) intro: exI [of _ 0] exI [of _ "Suc _"])
  qed
  finally have chain: "set (rotation_chain s a family_depth) = I" .
  have rows: "I \<subseteq> set (sessions s)" using a by (auto simp: I_def steps_rows)
  have "family_session_ids s a family_depth = se_id ` {c. \<exists>b \<in> I. \<exists>j \<le> family_depth. (?S ^^ j) b c}"
    unfolding family_session_ids_def Let_def chain
    using c rows by (intro walk_forward_chain) (auto simp: chains_def)
  also have "{c. \<exists>b \<in> I. \<exists>j \<le> family_depth. (?S ^^ j) b c} = {b. \<exists>j \<le> 50. (?S ^^ j) b a \<or> (?S ^^ j) a b}"
  proof (intro equalityI subsetI)
    fix x assume "x \<in> {c. \<exists>b \<in> I. \<exists>j \<le> family_depth. (?S ^^ j) b c}"
    then obtain b i j where *: "i \<le> 50" "(?S ^^ i) b a" "j \<le> 50" "(?S ^^ j) b x"
      by (auto simp: I_def family_depth_def)
    show "x \<in> {b. \<exists>j \<le> 50. (?S ^^ j) b a \<or> (?S ^^ j) a b}"
    proof (cases "i \<le> j")
      case True
      with one_path [OF c *(2,4)] *(3) show ?thesis by (intro CollectI exI [of _ "j - i"]) auto
    next
      case False
      with one_path [OF c *(4,2)] *(1) show ?thesis by (intro CollectI exI [of _ "i - j"]) auto
    qed
  next
    fix x assume "x \<in> {b. \<exists>j \<le> 50. (?S ^^ j) b a \<or> (?S ^^ j) a b}"
    then obtain j where "j \<le> 50" and "(?S ^^ j) x a \<or> (?S ^^ j) a x" by auto
    moreover have "x \<in> I \<Longrightarrow> \<exists>b \<in> I. \<exists>j \<le> family_depth. (?S ^^ j) b x" by (intro bexI [of _ x] exI [of _ 0]) auto
    moreover have "a \<in> I" by (auto simp: I_def intro: exI [of _ 0])
    ultimately show "x \<in> {c. \<exists>b \<in> I. \<exists>j \<le> family_depth. (?S ^^ j) b c}"
      by (auto simp: I_def family_depth_def)
  qed
  finally show ?thesis .
qed

lemma ids_grow: "chains rows \<Longrightarrow> (succeeded_by rows ^^ j) a b \<Longrightarrow> 0 < j \<Longrightarrow> se_id a < se_id b"
proof (induction j arbitrary: b)
  case (Suc j)
  obtain c where c: "(succeeded_by rows ^^ j) a c" "succeeded_by rows c b" using Suc.prems(2) by auto
  then have "se_id c < se_id b" using Suc.prems(1) unfolding chains_def succeeded_by_def by fastforce
  with c(1) Suc.IH [OF Suc.prems(1) c(1)] show ?case by (cases j) auto
qed simp

lemma beyond_family:
  assumes c: "chains (sessions s)" and far: "(succeeded_by (sessions s) ^^ j) a b" "50 < j"
  shows "se_id b \<notin> family_session_ids s a family_depth"
proof
  let ?S = "succeeded_by (sessions s)"
  obtain k where "j = Suc k" using far(2) by (cases j) auto
  then have b: "b \<in> set (sessions s)" using far(1) by (auto simp: succeeded_by_def)
  then have a: "a \<in> set (sessions s)" using steps_rows [OF far(1)] by simp
  assume "se_id b \<in> family_session_ids s a family_depth"
  then obtain x i where x: "se_id x = se_id b" "i \<le> 50" "(?S ^^ i) x a \<or> (?S ^^ i) a x"
    unfolding family_of_chain [OF c a] by auto
  have "x \<in> set (sessions s)"
    using x(3) a steps_rows by blast
  then have "x = b" using same_row [of se_id "sessions s" x b] x(1) b c by (simp add: chains_def)
  from x(3) show False
  proof
    assume "(?S ^^ i) x a"
    then have "(?S ^^ (i + j)) b b" using far(1) \<open>x = b\<close> by (auto simp: relpowp_add relcompp_apply)
    then show False using ids_grow [OF c, of "i + j" b b] far(2) by simp
  next
    assume "(?S ^^ i) a x"
    then have "(?S ^^ (j - i)) b b" using one_path [OF c _ far(1)] \<open>x = b\<close> x(2) far(2) by simp
    then show False using ids_grow [OF c, of "j - i" b b] x(2) far(2) by simp
  qed
qed

text \<open>
  C28: From a table without sessions, after any logins, refreshes and logouts, one at a time, the family
  of a session is exactly the sessions that at most fifty rotations lead to it from or from it to. So no
  session of another login is in it, and a session more than fifty rotations later, the live one of its
  login perhaps, is not: a theft or a logout that presents so old a token leaves it untouched.
\<close>

theorem family_reaches_fifty:
  assumes "sessions s0 = []" and "auth_run ev s0 s" and "a \<in> set (sessions s)"
  shows "family_session_ids s a family_depth =
      se_id ` {b. \<exists>j \<le> 50. (succeeded_by (sessions s) ^^ j) b a \<or> (succeeded_by (sessions s) ^^ j) a b} \<and>
    (\<forall>b j. (succeeded_by (sessions s) ^^ j) a b \<and> 50 < j \<longrightarrow> \<not> in_family s a b)"
proof -
  have "chains (sessions s)" using run_chains [OF assms(2)] assms(1) by (simp add: chains_def)
  with family_of_chain [OF this assms(3)] show ?thesis by (auto simp: in_family_def dest: beyond_family)
qed

theorem family_reaches_fifty_witness:
  "family_session_ids refreshed (hd (sessions refreshed)) family_depth = {1, 2}"
proof -
  have empty: "sessions (blank_members 1000 []) = []" by (simp add: blank_members_def)
  let ?rows = "sessions refreshed"
  have ids: "map (\<lambda>a. (se_id a, se_rotated_from a)) ?rows = [(1, None), (2, Some 1)]"
    using arg_cong [OF refreshed_story(2), of "map (\<lambda>(i, p, r). (i, p))"] by (simp add: comp_def)
  then obtain a b where rows: "?rows = [a, b]" "se_id a = 1" "se_id b = 2" "se_rotated_from a = None"
      "se_rotated_from b = Some 1" by (auto simp: map_eq_Cons_conv)
  have step: "succeeded_by ?rows x y \<longleftrightarrow> x = a \<and> y = b" for x y
    using rows by (auto simp: succeeded_by_def)
  have "(succeeded_by ?rows ^^ j) a y \<Longrightarrow> y \<in> {a, b}" for j y
    by (induction j arbitrary: y) (auto simp: step)
  moreover have "a \<noteq> b" using rows by auto
  then have "(succeeded_by ?rows ^^ j) x a \<Longrightarrow> x = a" for j x
    by (cases j) (auto simp: step)
  moreover have "\<exists>j \<le> 50. (succeeded_by ?rows ^^ j) a b" by (intro exI [of _ 1]) (simp add: step relcompp_apply)
  moreover have "\<exists>j \<le> 50. (succeeded_by ?rows ^^ j) a a" by (intro exI [of _ 0]) simp
  ultimately have "{x. \<exists>j \<le> 50. (succeeded_by ?rows ^^ j) x a \<or> (succeeded_by ?rows ^^ j) a x} = {a, b}"
    by blast
  moreover have "hd ?rows = a" "a \<in> set ?rows" using rows(1) by simp_all
  ultimately show ?thesis
    using family_reaches_fifty [OF empty refreshed_run, of a] rows(2,3) by simp
qed

section \<open>Logout\<close>








section \<open>Access tokens\<close>

text \<open>
  With a signing library that gives back the payload it encoded, the claims of a token are read
  back as they were minted, with the two instants rounded down to the second.
\<close>

theorem access_token_roundtrip:
  assumes "create_access_token ev d t user_id sid codes permissions (data_scope_value x) m ut = (token, c)"
    and "au_jwt_decode ev now (au_jwt_encode ev (access_payload ev c)) = Token_Payload (access_payload ev c)"
    and "token \<noteq> []" and "length (int_text user_id) \<le> 4300" and "finite permissions"
  shows "decode_access_token ev now token =
    ok (c\<lparr>cl_issued_at := cl_issued_at c - cl_issued_at c mod 1000,
          cl_expires_at := cl_expires_at c - cl_expires_at c mod 1000\<rparr>)"
proof -
  have c: "token = au_jwt_encode ev (access_payload ev c)" "cl_subject c = user_id"
    "cl_data_scope c = data_scope_value x" "cl_permissions c = permissions"
    using assms(1) by (auto simp: create_access_token_def Let_def)
  have "data_scope_of (data_scope_value x) = Some x" by (cases x) (simp_all add: data_scope_of_def)
  moreover have "py_int (int_text user_id) = Some user_id" using py_int_text [OF assms(4)] .
  moreover have "1000 * (i div 1000) = i - i mod 1000" for i :: int by (simp add: minus_mod_eq_mult_div)
  ultimately show ?thesis
    using assms(2,3,5) c
    by (simp add: decode_access_token_def claims_of_payload_def access_payload_def seconds_of_def)
qed

theorem access_token_roundtrip_witness:
  "decode_access_token sample_auth_env 0 ''token'' =
    ok (snd (create_access_token sample_auth_env (draw 1) 1000 9 ''9-j1'' [] {} ''SELF'' None ''CONSUMER''))"
proof -
  let ?made = "create_access_token sample_auth_env (draw 1) 1000 9 ''9-j1'' [] {} (data_scope_value Scope_SELF) None ''CONSUMER''"
  have made: "?made = (''token'', snd ?made)"
    by (simp add: create_access_token_def Let_def sample_auth_env_def)
  have "access_payload sample_auth_env (snd ?made) = sample_payload"
    by code_simp
  then have "au_jwt_decode sample_auth_env 0 (au_jwt_encode sample_auth_env (access_payload sample_auth_env (snd ?made))) =
      Token_Payload (access_payload sample_auth_env (snd ?made))" by (simp add: sample_auth_env_def)
  moreover have "length (int_text 9) \<le> 4300" by code_simp
  moreover have "(snd ?made)\<lparr>cl_issued_at := cl_issued_at (snd ?made) - cl_issued_at (snd ?made) mod 1000,
      cl_expires_at := cl_expires_at (snd ?made) - cl_expires_at (snd ?made) mod 1000\<rparr> = snd ?made"
    by code_simp
  ultimately show ?thesis using access_token_roundtrip [OF made] by simp
qed

section \<open>The caller\<close>

lemma resolve_none: "codes = [] \<Longrightarrow> resolve_data_scope codes m None = Scope_NONE"
  by (simp add: resolve_data_scope_def)

text \<open>
  C36: a caller is accepted only with a stored, live session of the account the token names; its
  permissions are those of the account's roles in the tables at that moment, whatever the token says,
  and an account of the staff without a role or an override sees nothing.
\<close>

theorem caller_matches_tables:
  assumes "get_current_principal ev s (Some token) = ok who"
  shows "\<exists>claims a u. decode_access_token ev (db_now s) token = ok claims \<and>
    a \<in> set (sessions s) \<and> se_session_id a = cl_session_id claims \<and> se_revoked_at a = None \<and>
    u \<in> set (accounts s) \<and> ac_id u = cl_subject claims \<and> se_user_id a = ac_id u \<and>
    p_user_id who = ac_id u \<and> p_merchant_id who = ac_merchant_id u \<and>
    p_permissions who = \<Union> (set (map (\<lambda>r. set (rl_permissions r)) (roles_of s u))) \<and>
    (is_staff u \<and> roles_of s u = [] \<and> ac_data_scope_override u = None \<longrightarrow>
      p_data_scope who = Scope_NONE \<and> p_permissions who = {})"
proof -
  obtain claims p where d: "decode_access_token ev (db_now s) token = ok claims"
    and p: "principal_for_user s (cl_subject claims) (cl_session_id claims) = ok p"
    and checks: "(case get_by_session_id s (cl_session_id claims) of
           None \<Rightarrow> app_raise (Auth SessionRevokedError)
         | Some a \<Rightarrow> require (\<not> se_revoked_at a \<noteq> None) (AppError (Auth SessionRevokedError))
            (require (\<not> se_user_id a \<noteq> p_user_id p) (AppError (Auth AuthenticationError)) (ok p))) = ok who"
    using assms unfolding get_current_principal_def option.case require_eq_Inr bindE_eq_Inr by blast
  obtain u where u: "get_account s (cl_subject claims) = Some u"
    and p': "p = build_principal s u (cl_session_id claims)"
    using p unfolding principal_for_user_def user_profile_def
    by (cases "get_account s (cl_subject claims)") (simp_all only: option.case bindE_Inl bindE_Inr sum.inject sum.distinct)
  obtain a where a: "get_by_session_id s (cl_session_id claims) = Some a"
    using checks by (cases "get_by_session_id s (cl_session_id claims)") simp_all
  have "require (\<not> se_revoked_at a \<noteq> None) (AppError (Auth SessionRevokedError))
      (require (\<not> se_user_id a \<noteq> p_user_id p) (AppError (Auth AuthenticationError)) (ok p)) = ok who"
    using checks unfolding a option.case .
  then have live: "se_revoked_at a = None" "se_user_id a = p_user_id p" "p = who"
    unfolding require_eq_Inr by simp_all
  have who: "who = build_principal s u (cl_session_id claims)" using p' live(3) by simp
  have row: "a \<in> set (sessions s)" "se_session_id a = cl_session_id claims"
    using a by (auto simp: get_by_session_id_def dest: find_SomeD)
  have account: "u \<in> set (accounts s)" "ac_id u = cl_subject claims"
    using u by (auto simp: get_account_def dest: row_of_Some)
  have "p_user_id who = ac_id u" "p_merchant_id who = ac_merchant_id u"
    "p_permissions who = \<Union> (set (map (\<lambda>r. set (rl_permissions r)) (roles_of s u)))"
    by (simp_all add: who build_principal_def Let_def permission_codes_def)
  moreover have "p_data_scope who = Scope_NONE" "p_permissions who = {}"
    if "is_staff u" "roles_of s u = []" "ac_data_scope_override u = None"
    using that by (simp_all add: who build_principal_def Let_def role_codes_def permission_codes_def resolve_none)
  ultimately show ?thesis
    using d row account live by (intro exI [of _ claims] exI [of _ a] exI [of _ u] conjI impI) simp_all
qed

theorem caller_matches_tables_witness:
  "\<exists>who. get_current_principal sample_auth_env logged_in (Some ''token'') = ok who \<and> p_user_id who = 9 \<and>
    p_permissions who = {}"
proof -
  have "map_sum (\<lambda>_. ()) (\<lambda>who. p_user_id who) (get_current_principal sample_auth_env logged_in (Some ''token'')) = ok 9"
    by code_simp
  then obtain who where who: "get_current_principal sample_auth_env logged_in (Some ''token'') = ok who" "p_user_id who = 9"
    by (cases "get_current_principal sample_auth_env logged_in (Some ''token'')") auto
  have none: "roles_of logged_in u = []" for u
  proof -
    have "role_grants logged_in = []" by code_simp
    then show ?thesis by (simp add: roles_of_def map_filter_simps)
  qed
  from caller_matches_tables [OF who(1)] none who show ?thesis by auto
qed

end
