(* ===== verification/Identity_Addresses.thy ===== *)
theory Identity_Addresses
  imports Shop_Repository
begin

text \<open>
  \<open>AddressService\<close>: the address book of a customer. Bodies have passed \<open>AddressCreate\<close> and
  \<open>AddressUpdate\<close>; the constraints of the table are checked again when a row is written.
\<close>

section \<open>The table\<close>

definition address_tags :: "string list" where
  "address_tags = [''HOME'', ''OFFICE'', ''SCHOOL'', ''OTHER'']"

definition address_checks :: "user_address \<Rightarrow> bool" where
  "address_checks a \<longleftrightarrow> ad_tag a \<in> set address_tags \<and> length (ad_receiver_name a) > 0 \<and>
    length (ad_receiver_phone a) \<ge> 6"

definition flush_address :: "'a shop_scheme \<Rightarrow> user_address \<Rightarrow> 'a shop_scheme result" where
  "flush_address s a =
    (if address_checks a then ok (s\<lparr>addresses := put_row ad_id a (addresses s)\<rparr>)
     else raise (IntegrityError ''user_addresses''))"

definition insert_address :: "'a shop_scheme \<Rightarrow> user_address \<Rightarrow> (user_address \<times> 'a shop_scheme) result" where
  "insert_address s a =
    (let row = a\<lparr>ad_id := fresh_id ad_id (addresses s)\<rparr> in
     if address_checks row then ok (row, s\<lparr>addresses := addresses s @ [row]\<rparr>)
     else raise (IntegrityError ''user_addresses''))"

definition owned_by :: "int \<Rightarrow> user_address \<Rightarrow> bool" where
  "owned_by user_id a \<longleftrightarrow> ad_user_id a = user_id \<and> ad_deleted_at a = None"

text \<open>Defaults first, then newest.\<close>

definition list_for_user :: "'a shop_scheme \<Rightarrow> int \<Rightarrow> user_address list" where
  "list_for_user s user_id =
    sort_key (\<lambda>a. if ad_is_default a then 0 else 1 :: int)
      (sort_key (\<lambda>a. - ad_id a) (filter (owned_by user_id) (addresses s)))"

definition default_address :: "'a shop_scheme \<Rightarrow> int \<Rightarrow> user_address option" where
  "default_address s user_id = find (\<lambda>a. owned_by user_id a \<and> ad_is_default a) (addresses s)"

definition clear_default :: "int \<Rightarrow> int option \<Rightarrow> 'a shop_scheme \<Rightarrow> 'a shop_scheme" where
  "clear_default user_id except s =
    s\<lparr>addresses := map (\<lambda>a.
      if ad_user_id a = user_id \<and> ad_is_default a \<and> except \<noteq> Some (ad_id a)
      then a\<lparr>ad_is_default := False\<rparr> else a) (addresses s)\<rparr>"

definition count_for_user :: "'a shop_scheme \<Rightarrow> int \<Rightarrow> nat" where
  "count_for_user s user_id = length (filter (owned_by user_id) (addresses s))"

definition soft_deleted :: "int \<Rightarrow> user_address \<Rightarrow> user_address" where
  "soft_deleted now a = a\<lparr>ad_deleted_at := Some now, ad_is_default := False\<rparr>"

section \<open>The service\<close>

definition max_addresses_per_user :: nat where
  "max_addresses_per_user = 20"

record address_create =
  nc_receiver_name :: string
  nc_receiver_phone :: string
  nc_province :: string
  nc_city :: string
  nc_district :: string
  nc_detail :: string
  nc_postal_code :: "string option"
  nc_tag :: string
  nc_is_default :: bool

text \<open>\<open>value.strip() or None\<close>.\<close>

definition stripped_or_none :: "string \<Rightarrow> string option" where
  "stripped_or_none t = (if strip_text t = [] then None else Some (strip_text t))"

definition create_address ::
  "'a shop_scheme \<Rightarrow> int \<Rightarrow> int option \<Rightarrow> address_create \<Rightarrow> (user_address \<times> 'a shop_scheme) result" where
  "create_address s user_id merchant_id q =
    require (\<not> count_for_user s user_id \<ge> max_addresses_per_user) (AppError (Common ValidationError))
    (let first_address = (count_for_user s user_id = 0);
         make_default = (nc_is_default q \<or> first_address);
         s = (if make_default then clear_default user_id None s else s)
     in insert_address s
       \<lparr>ad_id = 0, ad_user_id = user_id, ad_receiver_name = strip_text (nc_receiver_name q),
        ad_receiver_phone = strip_text (nc_receiver_phone q), ad_province = strip_text (nc_province q),
        ad_city = strip_text (nc_city q), ad_district = strip_text (nc_district q),
        ad_detail = strip_text (nc_detail q),
        ad_postal_code = stripped_or_none (case nc_postal_code q of None \<Rightarrow> [] | Some p \<Rightarrow> p),
        ad_deleted_at = None, ad_merchant_id = merchant_id, ad_tag = nc_tag q,
        ad_is_default = make_default\<rparr>)"

text \<open>
  The fields a body sets, in its order. \<open>Set_postal_code None\<close> is an explicit null, the only one the
  body may carry; \<open>Set_other\<close> is a field outside the allowed ones.
\<close>

datatype address_change =
    Set_receiver_name string
  | Set_receiver_phone string
  | Set_province string
  | Set_city string
  | Set_district string
  | Set_detail string
  | Set_postal_code "string option"
  | Set_tag string
  | Set_is_default bool
  | Set_other string

text \<open>\<open>str(None)\<close> is the text \<open>None\<close>.\<close>

fun apply_change :: "address_change \<Rightarrow> user_address \<Rightarrow> user_address" where
  "apply_change (Set_receiver_name t) a = a\<lparr>ad_receiver_name := strip_text t\<rparr>"
| "apply_change (Set_receiver_phone t) a = a\<lparr>ad_receiver_phone := strip_text t\<rparr>"
| "apply_change (Set_province t) a = a\<lparr>ad_province := strip_text t\<rparr>"
| "apply_change (Set_city t) a = a\<lparr>ad_city := strip_text t\<rparr>"
| "apply_change (Set_district t) a = a\<lparr>ad_district := strip_text t\<rparr>"
| "apply_change (Set_detail t) a = a\<lparr>ad_detail := strip_text t\<rparr>"
| "apply_change (Set_postal_code t) a =
    a\<lparr>ad_postal_code := stripped_or_none (case t of None \<Rightarrow> ''None'' | Some p \<Rightarrow> p)\<rparr>"
| "apply_change (Set_tag t) a = a\<lparr>ad_tag := strip_text t\<rparr>"
| "apply_change (Set_is_default b) a = a\<lparr>ad_is_default := b\<rparr>"
| "apply_change (Set_other f) a = a"

fun is_other :: "address_change \<Rightarrow> bool" where
  "is_other (Set_other f) = True"
| "is_other _ = False"

definition update_address ::
  "'a shop_scheme \<Rightarrow> int \<Rightarrow> int \<Rightarrow> address_change list \<Rightarrow> (user_address \<times> 'a shop_scheme) result" where
  "update_address s user_id address_id changes =
    bindE (address_get s user_id address_id) (\<lambda>a.
    require (\<not> list_ex is_other changes) (AppError (Common ValidationError))
    (let s = (if Set_is_default True \<in> set changes then clear_default user_id (Some (ad_id a)) s else s);
         a = fold apply_change changes a
     in bindE (flush_address s a) (\<lambda>s. ok (a, s))))"

text \<open>Removing the default promotes the first of the others.\<close>

definition delete_address :: "'a shop_scheme \<Rightarrow> int \<Rightarrow> int \<Rightarrow> 'a shop_scheme result" where
  "delete_address s user_id address_id =
    bindE (address_get s user_id address_id) (\<lambda>a.
    bindE (flush_address s (soft_deleted (db_now s) a)) (\<lambda>s.
    case (if ad_is_default a then list_for_user s user_id else []) of
      [] \<Rightarrow> ok s
    | b # _ \<Rightarrow> flush_address s (b\<lparr>ad_is_default := True\<rparr>)))"

definition set_default_address ::
  "'a shop_scheme \<Rightarrow> int \<Rightarrow> int \<Rightarrow> (user_address \<times> 'a shop_scheme) result" where
  "set_default_address s user_id address_id =
    bindE (address_get s user_id address_id) (\<lambda>a.
    let s = clear_default user_id (Some (ad_id a)) s;
        a = a\<lparr>ad_is_default := True\<rparr>
    in bindE (flush_address s a) (\<lambda>s. ok (a, s)))"

end
