(* ===== verification/Identity_Address_Book.thy ===== *)
theory Identity_Address_Book
  imports Identity_Addresses Shop_Facts Shop_Sample
begin

text \<open>
  What every sequence of address operations keeps: the constraints of the table, the limit per
  customer, and at most one default.
\<close>

section \<open>Counts\<close>

definition defaults :: "int \<Rightarrow> user_address list \<Rightarrow> int" where
  "defaults u rows = total (\<lambda>a. if ad_user_id a = u \<and> ad_is_default a then 1 else 0) rows"

definition live_addresses :: "int \<Rightarrow> user_address list \<Rightarrow> int" where
  "live_addresses u rows = total (\<lambda>a. if owned_by u a then 1 else 0) rows"

lemma length_filter_total: "int (length (filter P rows)) = total (\<lambda>a. if P a then 1 else 0) rows"
  by (induction rows) simp_all

lemma count_for_user_live: "int (count_for_user s u) = live_addresses u (addresses s)"
  unfolding count_for_user_def live_addresses_def by (rule length_filter_total)

definition book_wf :: "user_address list \<Rightarrow> bool" where
  "book_wf rows \<longleftrightarrow> distinct (map ad_id rows) \<and> list_all address_checks rows \<and>
    list_all (\<lambda>a. ad_deleted_at a \<noteq> None \<longrightarrow> \<not> ad_is_default a) rows \<and>
    (\<forall>u. defaults u rows \<le> 1 \<and> live_addresses u rows \<le> int max_addresses_per_user)"

lemma get_owned_member:
  "get_owned s i u = Some a \<Longrightarrow> a \<in> set (addresses s) \<and> ad_id a = i \<and> ad_user_id a = u \<and> ad_deleted_at a = None"
  by (auto simp: get_owned_def dest: find_SomeD)

lemma address_get_ok:
  "address_get s u i = ok a \<Longrightarrow> a \<in> set (addresses s) \<and> ad_user_id a = u \<and> ad_deleted_at a = None"
  by (auto simp: address_get_def dest: get_owned_member split: option.splits)

section \<open>Clearing and writing\<close>

definition cleared :: "int \<Rightarrow> int option \<Rightarrow> user_address list \<Rightarrow> user_address list" where
  "cleared u except rows = map (\<lambda>a. if ad_user_id a = u \<and> ad_is_default a \<and> except \<noteq> Some (ad_id a)
    then a\<lparr>ad_is_default := False\<rparr> else a) rows"

lemma addresses_clear_default [simp]: "addresses (clear_default u except s) = cleared u except (addresses s)"
  by (simp add: clear_default_def cleared_def)

lemma cleared_Cons [simp]:
  "cleared u except [] = []"
  "cleared u except (a # rows) = (if ad_user_id a = u \<and> ad_is_default a \<and> except \<noteq> Some (ad_id a)
    then a\<lparr>ad_is_default := False\<rparr> else a) # cleared u except rows"
  by (simp_all add: cleared_def)

lemma cleared_counts:
  "live_addresses v (cleared u except rows) = live_addresses v rows"
  "v \<noteq> u \<Longrightarrow> defaults v (cleared u except rows) = defaults v rows"
  "defaults u (cleared u None rows) = 0"
  by (induction rows) (auto simp: live_addresses_def defaults_def owned_by_def)

lemma cleared_except:
  assumes "distinct (map ad_id rows)" and "a \<in> set rows" and "ad_user_id a = u"
  shows "defaults u (cleared u (Some (ad_id a)) rows) = (if ad_is_default a then 1 else 0)"
    and "a \<in> set (cleared u (Some (ad_id a)) rows)"
proof -
  show "a \<in> set (cleared u (Some (ad_id a)) rows)" using assms(2) by (induction rows) auto
  have none: "defaults u (cleared u (Some i) xs) = 0" if "i \<notin> ad_id ` set xs" for i xs
    using that by (induction xs) (auto simp: defaults_def)
  show "defaults u (cleared u (Some (ad_id a)) rows) = (if ad_is_default a then 1 else 0)"
    using assms
  proof (induction rows)
    case (Cons x rows)
    show ?case
    proof (cases "x = a")
      case True
      with Cons.prems have "ad_id a \<notin> ad_id ` set rows" by simp
      from none [OF this] True Cons.prems(3) show ?thesis by (simp add: defaults_def)
    next
      case False
      with Cons.prems have "ad_id x \<noteq> ad_id a" by force
      with False Cons show ?thesis by (auto simp: defaults_def)
    qed
  qed simp
qed

lemma cleared_wf:
  assumes "book_wf rows"
  shows "book_wf (cleared u except rows)"
proof -
  have "defaults v (cleared u except rows) \<le> defaults v rows" for v
    by (induction rows) (auto simp: defaults_def)
  moreover have "map ad_id (cleared u except rows) = map ad_id rows"
    "list_all address_checks (cleared u except rows) = list_all address_checks rows"
    "list_all (\<lambda>a. ad_deleted_at a \<noteq> None \<longrightarrow> \<not> ad_is_default a) rows \<Longrightarrow>
      list_all (\<lambda>a. ad_deleted_at a \<noteq> None \<longrightarrow> \<not> ad_is_default a) (cleared u except rows)"
    by (induction rows) (auto simp: address_checks_def)
  ultimately show ?thesis
    using assms unfolding book_wf_def cleared_counts by (metis order_trans)
qed

lemma written_wf:
  assumes wf: "book_wf rows" and a: "a \<in> set rows" "ad_id b = ad_id a" "ad_user_id b = ad_user_id a"
    and b: "address_checks b" "ad_deleted_at b \<noteq> None \<longrightarrow> \<not> ad_is_default b"
    and live: "ad_deleted_at a \<noteq> None \<longrightarrow> ad_deleted_at b \<noteq> None"
    and one: "ad_is_default b \<longrightarrow> defaults (ad_user_id a) rows = (if ad_is_default a then 1 else 0)"
  shows "book_wf (put_row ad_id b rows)"
proof -
  note w = wf [unfolded book_wf_def]
  have d: "distinct (map ad_id rows)" using w by blast
  have "defaults v (put_row ad_id b rows) \<le> 1" for v
  proof -
    have "defaults v (put_row ad_id b rows) = defaults v rows -
        (if ad_user_id a = v \<and> ad_is_default a then 1 else 0) + (if ad_user_id b = v \<and> ad_is_default b then 1 else 0)"
      unfolding defaults_def by (rule total_put_row [OF d a(1,2)])
    moreover have "defaults v rows \<le> 1" using w by blast
    ultimately show ?thesis using a(3) one by (cases "ad_is_default b") auto
  qed
  moreover have "live_addresses v (put_row ad_id b rows) \<le> live_addresses v rows" for v
    using total_put_row [OF d a(1,2), of "\<lambda>a. if owned_by v a then 1 else 0"] a(3) live
    unfolding live_addresses_def by (auto simp: owned_by_def)
  moreover have "list_all address_checks (put_row ad_id b rows)"
    "list_all (\<lambda>a. ad_deleted_at a \<noteq> None \<longrightarrow> \<not> ad_is_default a) (put_row ad_id b rows)"
    using w b by (auto simp: list_all_iff put_row_def)
  ultimately show ?thesis using w unfolding book_wf_def by (auto intro: order_trans)
qed

section \<open>The operations\<close>

lemma flush_address_ok: "flush_address s a = ok s' \<longleftrightarrow> address_checks a \<and> s' = s\<lparr>addresses := put_row ad_id a (addresses s)\<rparr>"
  by (auto simp: flush_address_def)

lemma create_wf:
  assumes "create_address s u m q = ok (a, s')" and wf: "book_wf (addresses s)"
  shows "book_wf (addresses s')"
proof -
  have room: "live_addresses u (addresses s) < int max_addresses_per_user"
    using assms(1) count_for_user_live [of s u] by (simp add: create_address_def require_eq_Inr)
  define rows where "rows = (if nc_is_default q \<or> count_for_user s u = 0 then cleared u None (addresses s) else addresses s)"
  have rows: "book_wf rows" "live_addresses v rows = live_addresses v (addresses s)" for v
    using cleared_wf [OF wf] wf by (simp_all add: rows_def cleared_counts)
  have s': "addresses s' = rows @ [a]" and a: "ad_id a = fresh_id ad_id rows" "address_checks a" "ad_user_id a = u"
    "ad_deleted_at a = None" "ad_is_default a \<longleftrightarrow> nc_is_default q \<or> count_for_user s u = 0"
    using assms(1) by (auto simp: create_address_def insert_address_def require_eq_Inr Let_def rows_def split: if_splits)
  have "ad_is_default a \<Longrightarrow> defaults u rows = 0" using a(5) by (simp add: rows_def cleared_counts)
  moreover have "defaults v (rows @ [a]) = defaults v rows + (if v = u \<and> ad_is_default a then 1 else 0)"
    "live_addresses v (rows @ [a]) = live_addresses v rows + (if v = u then 1 else 0)" for v
    using a by (auto simp: defaults_def live_addresses_def owned_by_def)
  ultimately show ?thesis
    using rows room a fresh_id_new [of ad_id rows] unfolding s' book_wf_def by auto
qed

lemma changes_keep:
  "ad_id (fold apply_change cs a) = ad_id a" "ad_user_id (fold apply_change cs a) = ad_user_id a"
  "ad_deleted_at (fold apply_change cs a) = ad_deleted_at a"
  "Set_is_default True \<notin> set cs \<Longrightarrow> ad_is_default (fold apply_change cs a) \<Longrightarrow> ad_is_default a"
proof -
  have one: "ad_id (apply_change c a) = ad_id a" "ad_user_id (apply_change c a) = ad_user_id a"
    "ad_deleted_at (apply_change c a) = ad_deleted_at a"
    "c \<noteq> Set_is_default True \<Longrightarrow> ad_is_default (apply_change c a) \<Longrightarrow> ad_is_default a" for c a
    by (cases c; auto)+
  show "ad_id (fold apply_change cs a) = ad_id a" "ad_user_id (fold apply_change cs a) = ad_user_id a"
    "ad_deleted_at (fold apply_change cs a) = ad_deleted_at a"
    by (induction cs arbitrary: a) (simp_all add: one)
  show "Set_is_default True \<notin> set cs \<Longrightarrow> ad_is_default (fold apply_change cs a) \<Longrightarrow> ad_is_default a"
  proof (induction cs arbitrary: a)
    case (Cons c cs)
    then have "ad_is_default (apply_change c a)" "c \<noteq> Set_is_default True" by auto
    then show ?case using one(4) by blast
  qed simp
qed

lemma sole_default:
  assumes "book_wf rows" and "a \<in> set rows" and "ad_is_default a"
  shows "defaults (ad_user_id a) rows = 1"
proof -
  have "1 \<le> defaults (ad_user_id a) rows"
    using total_member [of rows "\<lambda>x. if ad_user_id x = ad_user_id a \<and> ad_is_default x then 1 else 0" a] assms(2,3)
    by (simp add: defaults_def)
  with assms(1) show ?thesis unfolding book_wf_def by (metis order_antisym)
qed

lemma update_wf:
  assumes "update_address s u i cs = ok (b, s')" and wf: "book_wf (addresses s)"
  shows "book_wf (addresses s')"
proof -
  obtain a s1 where "address_get s u i = ok a" and b: "b = fold apply_change cs a" "address_checks b"
    and s1: "s1 = (if Set_is_default True \<in> set cs then clear_default u (Some (ad_id a)) s else s)"
    and s': "addresses s' = put_row ad_id b (addresses s1)"
    using assms(1) unfolding update_address_def bindE_eq_Inr require_eq_Inr Let_def flush_address_ok
    by (auto simp del: addresses_clear_default)
  from address_get_ok [OF this(1)] have a: "a \<in> set (addresses s)" "ad_user_id a = u" "ad_deleted_at a = None"
    by simp_all
  have d: "distinct (map ad_id (addresses s))" using wf by (simp add: book_wf_def)
  have keep: "ad_id b = ad_id a" "ad_user_id b = ad_user_id a" "ad_deleted_at b = ad_deleted_at a"
    by (simp_all add: b(1) changes_keep)
  show ?thesis
  proof (cases "Set_is_default True \<in> set cs")
    case True
    with s1 have rows: "addresses s1 = cleared u (Some (ad_id a)) (addresses s)" by simp
    have "ad_is_default b \<longrightarrow> defaults (ad_user_id a) (addresses s1) = (if ad_is_default a then 1 else 0)"
      using cleared_except(1) [OF d a(1,2)] a(2) by (simp add: rows)
    then show ?thesis
      using written_wf [OF cleared_wf [OF wf] cleared_except(2) [OF d a(1,2)] keep(1,2) b(2)] keep(3) a(3)
      by (simp add: s' rows)
  next
    case False
    with s1 have rows: "addresses s1 = addresses s" by simp
    have "ad_is_default b \<Longrightarrow> ad_is_default a" using changes_keep(4) [OF False] b(1) by blast
    then have "ad_is_default b \<longrightarrow> defaults (ad_user_id a) (addresses s) = (if ad_is_default a then 1 else 0)"
      using sole_default [OF wf a(1)] by simp
    then show ?thesis
      using written_wf [OF wf a(1) keep(1,2) b(2)] keep(3) a(3) by (simp add: s' rows)
  qed
qed

lemma list_for_user_member: "b \<in> set (list_for_user s u) \<longleftrightarrow> b \<in> set (addresses s) \<and> owned_by u b"
  by (simp add: list_for_user_def)

lemma delete_wf:
  assumes "delete_address s u i = ok s'" and wf: "book_wf (addresses s)"
  shows "book_wf (addresses s')"
proof -
  obtain a s1 where "address_get s u i = ok a" and c: "address_checks (soft_deleted (db_now s) a)"
    and s1: "s1 = s\<lparr>addresses := put_row ad_id (soft_deleted (db_now s) a) (addresses s)\<rparr>"
    and rest: "(case (if ad_is_default a then list_for_user s1 u else []) of [] \<Rightarrow> ok s1
      | b # _ \<Rightarrow> flush_address s1 (b\<lparr>ad_is_default := True\<rparr>)) = ok s'"
    using assms(1) by (auto simp: delete_address_def bindE_eq_Inr flush_address_ok)
  from address_get_ok [OF this(1)] have a: "a \<in> set (addresses s)" "ad_user_id a = u" by simp_all
  have wf1: "book_wf (addresses s1)"
    using written_wf [OF wf a(1), of "soft_deleted (db_now s) a"] c by (simp add: s1 soft_deleted_def)
  show ?thesis
  proof (cases "if ad_is_default a then list_for_user s1 u else []")
    case Nil
    with rest wf1 show ?thesis by simp
  next
    case (Cons b bs)
    then have def: "ad_is_default a" and "b \<in> set (list_for_user s1 u)" by (auto split: if_splits)
    then have b: "b \<in> set (addresses s1)" "ad_user_id b = u" "ad_deleted_at b = None"
      by (simp_all add: list_for_user_member owned_by_def)
    have d: "distinct (map ad_id (addresses s))" using wf by (simp add: book_wf_def)
    have "defaults u (addresses s1) = 0"
      using total_put_row [OF d a(1), of "soft_deleted (db_now s) a"
          "\<lambda>x. if ad_user_id x = u \<and> ad_is_default x then 1 else 0"] sole_default [OF wf a(1) def] a(2) def
      by (simp add: s1 defaults_def soft_deleted_def)
    moreover have "\<not> ad_is_default b"
      using sole_default [OF wf1 b(1)] b(2) calculation by auto
    ultimately show ?thesis
      using rest Cons written_wf [OF wf1 b(1), of "b\<lparr>ad_is_default := True\<rparr>"] b by (simp add: flush_address_ok)
  qed
qed

lemma set_default_wf:
  assumes "set_default_address s u i = ok (b, s')" and wf: "book_wf (addresses s)"
  shows "book_wf (addresses s')"
proof -
  obtain a where "address_get s u i = ok a" and c: "address_checks (a\<lparr>ad_is_default := True\<rparr>)"
    and s': "addresses s' = put_row ad_id (a\<lparr>ad_is_default := True\<rparr>) (cleared u (Some (ad_id a)) (addresses s))"
    using assms(1) by (auto simp: set_default_address_def bindE_eq_Inr Let_def flush_address_ok)
  from address_get_ok [OF this(1)] have a: "a \<in> set (addresses s)" "ad_user_id a = u" "ad_deleted_at a = None"
    by simp_all
  have d: "distinct (map ad_id (addresses s))" using wf by (simp add: book_wf_def)
  show ?thesis
    using written_wf [OF cleared_wf [OF wf] cleared_except(2) [OF d a(1,2)], of "a\<lparr>ad_is_default := True\<rparr>"]
      cleared_except(1) [OF d a(1,2)] a c by (simp add: s')
qed

section \<open>Runs\<close>

inductive address_run :: "'a shop_scheme \<Rightarrow> 'a shop_scheme \<Rightarrow> bool" where
  book_start: "address_run s s"
| book_create: "address_run s0 s \<Longrightarrow> create_address s u m q = ok (a, s') \<Longrightarrow> address_run s0 s'"
| book_update: "address_run s0 s \<Longrightarrow> update_address s u i cs = ok (a, s') \<Longrightarrow> address_run s0 s'"
| book_delete: "address_run s0 s \<Longrightarrow> delete_address s u i = ok s' \<Longrightarrow> address_run s0 s'"
| book_default: "address_run s0 s \<Longrightarrow> set_default_address s u i = ok (a, s') \<Longrightarrow> address_run s0 s'"
| book_other: "address_run s0 s \<Longrightarrow> addresses s' = addresses s \<Longrightarrow> address_run s0 s'"

lemma book_run_wf: "address_run s0 s \<Longrightarrow> book_wf (addresses s0) \<Longrightarrow> book_wf (addresses s)"
  by (induction rule: address_run.induct) (auto intro: create_wf update_wf delete_wf set_default_wf)

text \<open>
  C24: from an empty table, after any creations, edits, removals and choices of a default, one at a
  time, every row satisfies the constraints, and every customer has at most one default and at most twenty addresses.
\<close>

theorem address_book_sound:
  assumes "addresses s0 = []" and "address_run s0 s"
  shows "list_all address_checks (addresses s) \<and> count_for_user s u \<le> 20 \<and>
    length (filter (\<lambda>a. owned_by u a \<and> ad_is_default a) (addresses s)) \<le> 1"
proof -
  have "book_wf (addresses s0)" using assms(1) by (simp add: book_wf_def defaults_def live_addresses_def)
  then have wf: "book_wf (addresses s)" using book_run_wf [OF assms(2)] by blast
  have "total (\<lambda>a. if owned_by u a \<and> ad_is_default a then 1 else 0) (addresses s) \<le> defaults u (addresses s)"
    unfolding defaults_def by (intro total_mono) (simp add: owned_by_def)
  then have "int (length (filter (\<lambda>a. owned_by u a \<and> ad_is_default a) (addresses s))) \<le> 1"
    using wf unfolding book_wf_def length_filter_total by (meson order_trans)
  moreover have "int (count_for_user s u) \<le> 20"
    using wf unfolding book_wf_def count_for_user_live by (simp add: max_addresses_per_user_def)
  ultimately show ?thesis using wf unfolding book_wf_def by simp
qed

definition new_address :: "string \<Rightarrow> bool \<Rightarrow> address_create" where
  "new_address city chosen = \<lparr>nc_receiver_name = ''Li Lei'', nc_receiver_phone = ''13800000000'',
    nc_province = ''Zhejiang'', nc_city = city, nc_district = ''Xihu'', nc_detail = ''1 Road'',
    nc_postal_code = None, nc_tag = ''HOME'', nc_is_default = chosen\<rparr>"

theorem address_book_sound_witness:
  "\<exists>s. address_run (sample_shop\<lparr>addresses := []\<rparr>) s \<and>
    map (\<lambda>a. (ad_city a, ad_is_default a)) (addresses s) = [(''Hangzhou'', False), (''Ningbo'', True)] \<and>
    length (filter (\<lambda>a. owned_by 9 a \<and> ad_is_default a) (addresses s)) \<le> 1"
proof -
  let ?s0 = "sample_shop\<lparr>addresses := []\<rparr>"
  have story: "map_sum (\<lambda>_. ()) (\<lambda>(a, s). map (\<lambda>a. (ad_city a, ad_is_default a)) (addresses s))
      (bindE (create_address ?s0 9 None (new_address ''Hangzhou'' False)) (\<lambda>(a, s).
       create_address s 9 None (new_address ''Ningbo'' True))) =
    Inr [(''Hangzhou'', False), (''Ningbo'', True)]" by code_simp
  then obtain a1 s1 where 1: "create_address ?s0 9 None (new_address ''Hangzhou'' False) = ok (a1, s1)"
    by (cases "create_address ?s0 9 None (new_address ''Hangzhou'' False)") auto
  with story obtain a2 s2 where 2: "create_address s1 9 None (new_address ''Ningbo'' True) = ok (a2, s2)"
    by (cases "create_address s1 9 None (new_address ''Ningbo'' True)") auto
  have run: "address_run ?s0 s2" by (rule book_create [OF book_create [OF book_start 1] 2])
  have "addresses ?s0 = []" by simp
  from address_book_sound [OF this run, of 9] run story 1 2 show ?thesis by auto
qed

end
