(* ===== verification/Storage_Port.thy ===== *)
theory Storage_Port
  imports Shop_Model Nova_Parse "HOL-Library.Sublist"
begin

text \<open>
  \<open>app/shared/storage/port.py\<close>: object keys and uploads. A string is its UTF-8 bytes. The Unicode
  tables of the standard library (NFKC, the \<open>\w\<close> of characters beyond ASCII) and the MIME table of
  the machine are the functions of \<open>storage_env\<close>.
\<close>

record storage_env =
  se_nfkc :: "string \<Rightarrow> string"
  se_word_char :: "string \<Rightarrow> bool"
  se_guess_type :: "string \<Rightarrow> string option"

section \<open>Text\<close>

text \<open>The characters of a text, each as its bytes.\<close>

fun glyphs :: "string \<Rightarrow> string list" where
  "glyphs [] = []"
| "glyphs (c # cs) =
    (case glyphs cs of
       [] \<Rightarrow> [[c]]
     | g # gs \<Rightarrow> if is_ascii c \<or> starts_char (hd g) then [c] # g # gs else (c # g) # gs)"

fun split_on :: "char \<Rightarrow> string \<Rightarrow> string list" where
  "split_on d [] = [[]]"
| "split_on d (c # cs) = (if c = d then [] # split_on d cs else (c # hd (split_on d cs)) # tl (split_on d cs))"

fun join_with :: "char \<Rightarrow> string list \<Rightarrow> string" where
  "join_with d [] = []"
| "join_with d [s] = s"
| "join_with d (s # t # ss) = s @ d # join_with d (t # ss)"

definition slashes :: "string \<Rightarrow> string" where
  "slashes = map (\<lambda>c. if c = CHR 0x5C then CHR ''/'' else c)"

definition strip_of :: "char list \<Rightarrow> string \<Rightarrow> string" where
  "strip_of cs t = rev (dropWhile (\<lambda>c. c \<in> set cs) (rev (dropWhile (\<lambda>c. c \<in> set cs) t)))"

text \<open>\<open>t[:k]\<close>, from the end when \<open>k\<close> is negative.\<close>

definition prefix_slice :: "int \<Rightarrow> string \<Rightarrow> string" where
  "prefix_slice k t = clip (nat (if k < 0 then int (char_count t) + k else k)) t"

text \<open>\<open>t.rpartition(".")\<close>, when there is a dot.\<close>

definition last_dot :: "string \<Rightarrow> (string \<times> string) option" where
  "last_dot t =
    (if CHR ''.'' \<in> set t
     then Some (butlast (rev (dropWhile (\<lambda>c. c \<noteq> CHR ''.'') (rev t))),
       rev (takeWhile (\<lambda>c. c \<noteq> CHR ''.'') (rev t)))
     else None)"

section \<open>File names\<close>

definition max_key_length :: nat where "max_key_length = 512"

definition max_segment_length :: nat where "max_segment_length = 128"

definition is_ascii_letter :: "char \<Rightarrow> bool" where
  "is_ascii_letter c \<longleftrightarrow> (let n = (of_char c :: nat) in 65 \<le> n \<and> n \<le> 90 \<or> 97 \<le> n \<and> n \<le> 122)"

definition windows_drive :: "string \<Rightarrow> bool" where
  "windows_drive t \<longleftrightarrow> (case t of a # b # _ \<Rightarrow> is_ascii_letter a \<and> b = CHR '':'' | _ \<Rightarrow> False)"

definition drop_drive :: "string \<Rightarrow> string" where
  "drop_drive t = (if windows_drive t then drop 2 t else t)"

text \<open>\<open>[^\w.\-]\<close> on one character.\<close>

definition safe_glyph :: "storage_env \<Rightarrow> string \<Rightarrow> bool" where
  "safe_glyph se g \<longleftrightarrow>
    (case g of
       [c] \<Rightarrow> if is_ascii c then is_alnum c \<or> c = CHR ''_'' \<or> c = CHR ''.'' \<or> c = CHR ''-''
         else se_word_char se g
     | _ \<Rightarrow> se_word_char se g)"

definition mask_unsafe :: "storage_env \<Rightarrow> string \<Rightarrow> string" where
  "mask_unsafe se t = concat (map (\<lambda>g. if safe_glyph se g then g else ''_'') (glyphs t))"

text \<open>\<open>re.sub(r"_{2,}", "_", t)\<close>\<close>

fun squeeze :: "string \<Rightarrow> string" where
  "squeeze (a # b # cs) = (if a = CHR ''_'' \<and> b = CHR ''_'' then squeeze (b # cs) else a # squeeze (b # cs))"
| "squeeze cs = cs"

definition sanitise_filename :: "storage_env \<Rightarrow> string \<Rightarrow> string \<Rightarrow> string" where
  "sanitise_filename se filename fallback =
    (let base = last (split_on (CHR ''/'') (slashes (strip_text (se_nfkc se filename))));
         name = squeeze (mask_unsafe se (strip_of ''. '' (drop_drive base)))
     in if name = [] \<or> name = ''.'' \<or> name = ''..'' then fallback
        else (let (stem, suffix) = (case last_dot name of None \<Rightarrow> (name, []) | Some p \<Rightarrow> p);
                  stem' = prefix_slice (int max_segment_length - int (char_count suffix) - 1) stem
              in if suffix = [] then stem' else stem' @ ''.'' @ suffix))"

section \<open>Percent decoding\<close>

definition hex_digit_value :: "char \<Rightarrow> nat option" where
  "hex_digit_value c = (let n = (of_char c :: nat) in
    if 48 \<le> n \<and> n \<le> 57 then Some (n - 48)
    else if 65 \<le> n \<and> n \<le> 70 then Some (n - 55)
    else if 97 \<le> n \<and> n \<le> 102 then Some (n - 87) else None)"

text \<open>The ranges of the bytes that must follow a first byte of UTF-8; none for a byte that starts nothing.\<close>

definition utf8_tail :: "nat \<Rightarrow> (nat \<times> nat) list option" where
  "utf8_tail b =
    (if b < 128 then Some []
     else if b < 194 then None
     else if b < 224 then Some [(128, 191)]
     else if b = 224 then Some [(160, 191), (128, 191)]
     else if b = 237 then Some [(128, 159), (128, 191)]
     else if b < 240 then Some [(128, 191), (128, 191)]
     else if b = 240 then Some [(144, 191), (128, 191), (128, 191)]
     else if b < 244 then Some [(128, 191), (128, 191), (128, 191)]
     else if b = 244 then Some [(128, 143), (128, 191), (128, 191)]
     else None)"

fun take_tail :: "(nat \<times> nat) list \<Rightarrow> string \<Rightarrow> bool \<times> string \<times> string" where
  "take_tail [] s = (True, [], s)"
| "take_tail (r # rs) [] = (False, [], [])"
| "take_tail ((lo, hi) # rs) (c # cs) =
    (if lo \<le> (of_char c :: nat) \<and> (of_char c :: nat) \<le> hi
     then (let (done, t, rest) = take_tail rs cs in (done, c # t, rest))
     else (False, [], c # cs))"

definition replacement :: string where
  "replacement = [CHR 0xEF, CHR 0xBF, CHR 0xBD]"

lemma take_tail_length: "take_tail rs s = (d, t, rest) \<Longrightarrow> length rest \<le> length s"
  by (induction rs s arbitrary: d t rest rule: take_tail.induct)
    (auto simp: Let_def split: if_splits prod.splits intro: le_SucI)

text \<open>\<open>bytes.decode("utf-8", "replace")\<close>, written as UTF-8 again.\<close>

function utf8_replace :: "string \<Rightarrow> string" where
  "utf8_replace [] = []"
| "utf8_replace (c # cs) =
    (case utf8_tail (of_char c) of
       None \<Rightarrow> replacement @ utf8_replace cs
     | Some rs \<Rightarrow>
        (case take_tail rs cs of (done, t, rest) \<Rightarrow>
           if done then c # t @ utf8_replace rest else replacement @ utf8_replace rest))"
  by pat_completeness auto
termination
  by (relation "measure length") (auto dest!: take_tail_length [OF sym])

text \<open>
  \<open>urllib.parse.unquote\<close>: the escapes of a run of ASCII characters become bytes, which are decoded
  together; a character beyond ASCII ends the run. The first argument is the run so far, reversed.
\<close>

fun is_escape :: "string \<Rightarrow> bool" where
  "is_escape (p # a # b # _) = (p = CHR ''%'' \<and> hex_digit_value a \<noteq> None \<and> hex_digit_value b \<noteq> None)"
| "is_escape _ = False"

fun escape_byte :: "string \<Rightarrow> char" where
  "escape_byte (_ # a # b # _) = char_of (16 * the (hex_digit_value a) + the (hex_digit_value b))"
| "escape_byte _ = CHR ''%''"

fun unquote_from :: "string \<Rightarrow> string \<Rightarrow> string" where
  "unquote_from run [] = utf8_replace (rev run)"
| "unquote_from run (c # cs) =
    (if \<not> is_ascii c then utf8_replace (rev run) @ c # unquote_from [] cs
     else if is_escape (c # cs) then unquote_from (escape_byte (c # cs) # run) (drop 2 cs)
     else unquote_from (c # run) cs)"

definition unquote :: "string \<Rightarrow> string" where
  "unquote = unquote_from []"

definition max_decode_rounds :: nat where "max_decode_rounds = 6"

fun decode_rounds :: "nat \<Rightarrow> string \<Rightarrow> string" where
  "decode_rounds 0 t = t"
| "decode_rounds (Suc n) t = (let u = unquote t in if u = t then t else decode_rounds n u)"

definition fully_decode :: "string \<Rightarrow> string" where
  "fully_decode = decode_rounds max_decode_rounds"

section \<open>Keys\<close>

text \<open>\<open>posixpath.normpath\<close>\<close>

definition norm_step :: "bool \<Rightarrow> string list \<Rightarrow> string \<Rightarrow> string list" where
  "norm_step rooted kept seg =
    (if seg = [] \<or> seg = ''.'' then kept
     else if seg \<noteq> ''..'' \<or> \<not> rooted \<and> kept = [] \<or> kept \<noteq> [] \<and> last kept = ''..'' then kept @ [seg]
     else if kept \<noteq> [] then butlast kept else kept)"

definition normpath :: "string \<Rightarrow> string" where
  "normpath t =
    (if t = [] then ''.''
     else
       let roots = (if prefix ''//'' t \<and> \<not> prefix ''///'' t then 2 else if prefix ''/'' t then 1 else 0);
           body = replicate roots (CHR ''/'') @
             join_with (CHR ''/'') (foldl (norm_step (roots \<noteq> 0)) [] (split_on (CHR ''/'') t))
       in if body = [] then ''.'' else body)"

definition control_char :: "char \<Rightarrow> bool" where
  "control_char c \<longleftrightarrow> (of_char c :: nat) < 32 \<or> (of_char c :: nat) = 127"

abbreviation unsafe_key :: exn where
  "unsafe_key \<equiv> PythonError ''StorageUnsafeKeyError''"

definition validate_object_key :: "string \<Rightarrow> string result" where
  "validate_object_key key =
    require (key \<noteq> []) unsafe_key
    (require (\<not> char_count key > max_key_length) unsafe_key
    (require (CHR 0x00 \<notin> set key) unsafe_key
    (require (\<not> list_ex control_char key) unsafe_key
    (let normalised = slashes (fully_decode key) in
     require (\<not> (prefix ''/'' normalised \<or> windows_drive normalised)) unsafe_key
    (require (\<not> (prefix ''~'' normalised \<or> prefix ''$'' normalised)) unsafe_key
    (require (\<not> list_ex (\<lambda>seg. seg = [] \<or> seg = ''.'' \<or> seg = ''..'') (split_on (CHR ''/'') normalised)) unsafe_key
    (require (\<not> normpath normalised \<noteq> normalised) unsafe_key
    (ok key))))))))"

definition build_object_key ::
  "storage_env \<Rightarrow> string \<Rightarrow> string \<Rightarrow> string option \<Rightarrow> string option \<Rightarrow> string result" where
  "build_object_key se folder filename owner_id unique =
    bindE (if folder = [] then ok ''objects''
      else validate_object_key (rev (dropWhile (\<lambda>c. c = CHR ''/'') (rev folder)))) (\<lambda>safe_prefix.
    let name = sanitise_filename se filename ''upload'';
        tagged = (case unique of
            None \<Rightarrow> name
          | Some u \<Rightarrow> if u = [] then name else sanitise_filename se u ''v'' @ ''_'' @ name)
    in validate_object_key (join_with (CHR ''/'')
         ([safe_prefix] @ (case owner_id of None \<Rightarrow> [] | Some i \<Rightarrow> [i]) @ [tagged])))"

section \<open>Uploads\<close>

definition allowed_content_types :: "string list" where
  "allowed_content_types =
    [''image/jpeg'', ''image/png'', ''image/webp'', ''image/gif'', ''image/avif'', ''application/pdf'',
     ''text/plain'', ''text/markdown'', ''text/csv'', ''application/json'',
     ''application/vnd.openxmlformats-officedocument.wordprocessingml.document'',
     ''application/vnd.openxmlformats-officedocument.spreadsheetml.sheet'']"

definition jpeg_magic :: string where "jpeg_magic = [CHR 0xFF, CHR 0xD8, CHR 0xFF]"

definition png_magic :: string where
  "png_magic = [CHR 0x89, CHR ''P'', CHR ''N'', CHR ''G'', CHR 0x0D, CHR 0x0A, CHR 0x1A, CHR 0x0A]"

definition signatures :: "(string \<times> string list) list" where
  "signatures =
    [(''application/pdf'', [''%PDF-'']), (''image/jpeg'', [jpeg_magic]), (''image/png'', [png_magic]),
     (''image/gif'', [''GIF87a'', ''GIF89a'']),
     (''application/zip'', [[CHR ''P'', CHR ''K'', CHR 0x03, CHR 0x04]])]"

definition guess_content_type :: "storage_env \<Rightarrow> string \<Rightarrow> string" where
  "guess_content_type se filename =
    (case se_guess_type se filename of
       Some t \<Rightarrow> if t = [] then ''application/octet-stream'' else t
     | None \<Rightarrow> ''application/octet-stream'')"

definition sniff_content_type :: "string \<Rightarrow> string option" where
  "sniff_content_type head =
    map_option fst (find (\<lambda>(t, prefixes). list_ex (\<lambda>p. prefix p head) prefixes) signatures)"

definition ooxml :: "string \<Rightarrow> bool" where
  "ooxml t \<longleftrightarrow> t = ''application/vnd.openxmlformats-officedocument.wordprocessingml.document'' \<or>
    t = ''application/vnd.openxmlformats-officedocument.spreadsheetml.sheet''"

abbreviation unsupported_type :: exn where
  "unsupported_type \<equiv> PythonError ''StorageUnsupportedContentTypeError''"

definition validate_upload ::
  "storage_env \<Rightarrow> string \<Rightarrow> string \<Rightarrow> string \<Rightarrow> int \<Rightarrow> int \<Rightarrow> string result" where
  "validate_upload se filename declared_content_type head len max_bytes =
    require (\<not> len \<le> 0) unsupported_type
    (require (\<not> len > max_bytes) (PythonError ''StorageObjectTooLargeError'')
    (let declared = lower_text (strip_text (hd (split_on (CHR '';'') declared_content_type)));
         guessed = guess_content_type se filename
     in bindE
          (if declared \<in> set allowed_content_types then ok declared
           else if guessed \<in> set allowed_content_types then ok guessed
           else raise unsupported_type) (\<lambda>declared.
        case sniff_content_type head of
          None \<Rightarrow> ok declared
        | Some sniffed \<Rightarrow>
            if sniffed = ''application/zip'' \<and> ooxml declared then ok declared
            else if sniffed \<noteq> declared then raise unsupported_type else ok declared)))"

end
