(* ===== verification/Storage_Keys.thy ===== *)
theory Storage_Keys
  imports Storage_Port
begin

text \<open>
  What an accepted object key can name. The keys the services build are characterised, and no
  decoding within the rounds the check makes leads out of the folder a backend serves.
\<close>

section \<open>Segments\<close>

definition is_sep :: "char \<Rightarrow> bool" where
  "is_sep c \<longleftrightarrow> c = CHR ''/'' \<or> c = CHR 0x5C"

definition segments :: "string \<Rightarrow> string list" where
  "segments t = split_on (CHR ''/'') (slashes t)"

definition plain :: "string \<Rightarrow> bool" where
  "plain seg \<longleftrightarrow> seg \<noteq> [] \<and> seg \<noteq> ''.'' \<and> seg \<noteq> ''..''"

lemma split_on_nonempty [simp]: "split_on d t \<noteq> []"
  by (cases t) auto

lemma split_on_append: "split_on d (x @ d # y) = split_on d x @ split_on d y"
  by (induction x) auto

lemma split_on_free: "d \<notin> set t \<Longrightarrow> split_on d t = [t]"
  by (induction t) auto

lemma slashes_append [simp]: "slashes (x @ y) = slashes x @ slashes y"
  by (simp add: slashes_def)

lemma slashes_free: "list_all (\<lambda>c. \<not> is_sep c) t \<Longrightarrow> slashes t = t \<and> CHR ''/'' \<notin> set t"
  by (induction t) (auto simp: slashes_def is_sep_def)

lemma segments_append: "is_sep c \<Longrightarrow> segments (x @ c # y) = segments x @ segments y"
  by (auto simp: segments_def is_sep_def slashes_def split_on_append)

lemma segments_free: "list_all (\<lambda>c. \<not> is_sep c) t \<Longrightarrow> segments t = [t]"
  using slashes_free [of t] by (simp add: segments_def split_on_free)

lemma split_at_sep:
  obtains "list_all (\<lambda>c. \<not> is_sep c) t"
  | a c b where "t = a @ c # b" and "is_sep c" and "list_all (\<lambda>c. \<not> is_sep c) a"
proof (cases "list_all (\<lambda>c. \<not> is_sep c) t")
  case False
  then have "\<exists>c \<in> set t. is_sep c" by (auto simp: list_all_iff)
  then obtain a c b where "t = a @ c # b" "is_sep c" "\<forall>c \<in> set a. \<not> is_sep c"
    using split_list_first_prop by metis
  then show thesis using that(2) by (simp add: list_all_iff)
qed (rule that(1))

section \<open>Decoding keeps the separators\<close>

lemma take_tail_append:
  assumes "take_tail rs cs = (d, t, rest)" and "list_all (\<lambda>(lo, hi). 128 \<le> lo) rs" and "is_ascii c"
  shows "take_tail rs (cs @ c # y) = (d, t, rest @ c # y)"
  using assms
proof (induction rs cs arbitrary: d t rest rule: take_tail.induct)
  case (2 r rs)
  then show ?case by (cases r) (auto simp: is_ascii_def)
next
  case (3 lo hi rs c' cs)
  then show ?case by (auto simp: Let_def split: prod.splits if_splits)
qed simp

lemma utf8_tail_ranges: "utf8_tail b = Some rs \<Longrightarrow> list_all (\<lambda>(lo, hi). 128 \<le> lo) rs"
  by (auto simp: utf8_tail_def split: if_splits)

lemma utf8_replace_append:
  assumes "is_ascii c"
  shows "utf8_replace (x @ c # y) = utf8_replace x @ c # utf8_replace y"
proof (induction x rule: utf8_replace.induct)
  case 1
  have "utf8_tail (of_char c) = Some []" using assms by (simp add: utf8_tail_def is_ascii_def)
  then show ?case by simp
next
  case (2 a cs)
  show ?case
  proof (cases "utf8_tail (of_char a)")
    case None
    then show ?thesis using 2(1) by simp
  next
    case (Some rs)
    obtain d t rest where tt: "take_tail rs cs = (d, t, rest)" by (cases "take_tail rs cs")
    have "take_tail rs (cs @ c # y) = (d, t, rest @ c # y)"
      using take_tail_append [OF tt utf8_tail_ranges [OF Some] assms] .
    then show ?thesis using Some tt 2(2) [OF Some tt [symmetric]] 2(3) [OF Some tt [symmetric]]
      by (cases d) auto
  qed
qed

lemma utf8_replace_ascii: "list_all is_ascii t \<Longrightarrow> utf8_replace t = t"
  by (induction t) (auto simp: utf8_tail_def is_ascii_def)

lemma unquote_from_run:
  assumes "is_ascii c"
  shows "unquote_from (r @ c # run) b = utf8_replace (rev run) @ c # unquote_from r b"
proof (induction r b rule: unquote_from.induct)
  case (1 r)
  then show ?case using utf8_replace_append [OF assms, of "rev run" "rev r"] by simp
next
  case (2 r a cs)
  consider "\<not> is_ascii a" | "is_ascii a" "is_escape (a # cs)" | "is_ascii a" "\<not> is_escape (a # cs)" by blast
  then show ?case
  proof cases
    case 1
    then show ?thesis using utf8_replace_append [OF assms, of "rev run" "rev r"] by simp
  next
    case 2
    then show ?thesis using "2.IH"(2) by simp
  next
    case 3
    then show ?thesis using "2.IH"(3) by simp
  qed
qed

lemma is_escape_iff: "is_escape t \<longleftrightarrow> (\<exists>a b r. t = CHR ''%'' # a # b # r \<and> hex_digit_value a \<noteq> None \<and> hex_digit_value b \<noteq> None)"
  by (cases t rule: is_escape.cases) auto

lemma escape_append:
  assumes "hex_digit_value c = None" and "c \<noteq> CHR ''%''"
  shows "is_escape (a @ c # b) = is_escape a"
    and "is_escape a \<Longrightarrow> escape_byte (a @ c # b) = escape_byte a"
  using assms by (auto simp: is_escape_iff append_eq_Cons_conv Cons_eq_append_conv)

lemma escape_length: "is_escape (x # cs) \<Longrightarrow> 2 \<le> length cs"
  by (cases "x # cs" rule: is_escape.cases) auto

lemma unquote_from_sep:
  assumes c: "is_ascii c" "c \<noteq> CHR ''%''" "hex_digit_value c = None"
  shows "unquote_from run (a @ c # b) = unquote_from run a @ c # unquote b"
proof (induction run a rule: unquote_from.induct)
  case (1 run)
  have "\<not> is_escape (c # b)" using c(2) by (cases "c # b" rule: is_escape.cases) auto
  then show ?case using c unquote_from_run [OF c(1), of "[]" run b] by (simp add: unquote_def)
next
  case (2 run x cs)
  have e: "is_escape (x # cs @ c # b) = is_escape (x # cs)"
    and y: "is_escape (x # cs) \<Longrightarrow> escape_byte (x # cs @ c # b) = escape_byte (x # cs)"
    using escape_append [OF c(3,2), of "x # cs" b] by simp_all
  consider "\<not> is_ascii x" | "is_ascii x" "is_escape (x # cs)" | "is_ascii x" "\<not> is_escape (x # cs)" by blast
  then show ?case
  proof cases
    case 1
    then show ?thesis using "2.IH"(1) by simp
  next
    case 2
    then show ?thesis using "2.IH"(2) e y escape_length [OF 2(2)] by simp
  next
    case 3
    then show ?thesis using "2.IH"(3) e by simp
  qed
qed

lemma unquote_sep:
  assumes "is_sep c"
  shows "unquote (a @ c # b) = unquote a @ c # unquote b"
  using assms unquote_from_sep [of c "[]" a b]
  by (auto simp: unquote_def is_sep_def is_ascii_def hex_digit_value_def)

lemma unquote_no_escape:
  assumes "CHR ''%'' \<notin> set t" and "list_all is_ascii run"
  shows "unquote_from run t = rev run @ t"
  using assms
proof (induction t arbitrary: run)
  case Nil
  then show ?case by (simp add: utf8_replace_ascii)
next
  case (Cons c t)
  then show ?case by (auto simp: utf8_replace_ascii is_escape_iff)
qed

lemma segments_unquote: "segments (unquote t) = concat (map (\<lambda>seg. segments (unquote seg)) (segments t))"
proof (induction "length t" arbitrary: t rule: less_induct)
  case less
  show ?case
  proof (cases t rule: split_at_sep)
    case 1
    then show ?thesis by (simp add: segments_free)
  next
    case (2 a c b)
    then have "segments (unquote t) = segments (unquote a) @ segments (unquote b)"
      by (simp add: unquote_sep segments_append)
    moreover have "segments t = a # segments b"
      using 2 by (simp add: segments_append segments_free)
    ultimately show ?thesis using less [of b] 2 by simp
  qed
qed

lemma plain_before:
  assumes "list_all plain (segments (unquote t))"
  shows "list_all plain (segments t)"
proof -
  have "plain seg" if seg: "seg \<in> set (segments t)" for seg
  proof (rule ccontr)
    assume "\<not> plain seg"
    then have s: "seg = [] \<or> seg = ''.'' \<or> seg = ''..''" by (auto simp: plain_def)
    then have "CHR ''%'' \<notin> set seg" "list_all (\<lambda>c. \<not> is_sep c) seg" by (auto simp: is_sep_def)
    then have "segments (unquote seg) = [seg]"
      using unquote_no_escape [of seg "[]"] by (simp add: unquote_def segments_free)
    with seg have "seg \<in> set (segments (unquote t))"
      by (subst segments_unquote) force
    with assms \<open>\<not> plain seg\<close> show False by (auto simp: list_all_iff)
  qed
  then show ?thesis by (simp add: list_all_iff)
qed

lemma decode_rounds_power: "decode_rounds n t = (unquote ^^ n) t"
proof (induction n arbitrary: t)
  case (Suc n)
  have fix_pt: "unquote t = t \<Longrightarrow> (unquote ^^ m) t = t" for m by (induction m) auto
  show ?case
  proof (cases "unquote t = t")
    case True
    then show ?thesis using fix_pt [of "Suc n"] by simp
  next
    case False
    then show ?thesis using Suc [of "unquote t"] by (simp add: Let_def funpow_swap1)
  qed
qed simp

lemma plain_stages:
  assumes "list_all plain (segments ((unquote ^^ m) t))" and "n \<le> m"
  shows "list_all plain (segments ((unquote ^^ n) t))"
proof -
  have "list_all plain (segments ((unquote ^^ k) (( unquote ^^ n) t))) \<Longrightarrow>
    list_all plain (segments ((unquote ^^ n) t))" for k
    by (induction k) (auto intro: plain_before)
  from this [of "m - n"] assms show ?thesis by (simp flip: funpow_add [THEN fun_cong, unfolded o_apply])
qed

lemma accepted_key:
  assumes "validate_object_key key = ok k"
  shows "k = key" "list_all plain (segments (fully_decode key))" "char_count key \<le> max_key_length" "key \<noteq> []"
    "list_all (\<lambda>c. \<not> control_char c) key"
  using assms
  by (auto simp: validate_object_key_def Let_def rsimps segments_def plain_def list_all_iff list_ex_iff)

section \<open>Walking a key\<close>

text \<open>How a backend that resolves paths walks the segments from the folder it serves.\<close>

fun walk :: "string list \<Rightarrow> string list \<Rightarrow> string list" where
  "walk at [] = at"
| "walk at (seg # segs) =
    walk (if seg = [] \<or> seg = ''.'' then at else if seg = ''..'' then butlast at else at @ [seg]) segs"

lemma walk_plain: "list_all plain segs \<Longrightarrow> walk at segs = at @ segs"
  by (induction segs arbitrary: at) (auto simp: plain_def)

lemma stays_inside:
  assumes "validate_object_key key = ok k"
    and "n \<le> max_decode_rounds \<or> unquote (fully_decode key) = fully_decode key"
  shows "walk at (segments ((unquote ^^ n) key)) = at @ segments ((unquote ^^ n) key)"
proof -
  have p: "list_all plain (segments ((unquote ^^ max_decode_rounds) key))"
    using accepted_key(2) [OF assms(1)] by (simp add: fully_decode_def decode_rounds_power)
  show ?thesis
  proof (cases "n \<le> max_decode_rounds")
    case True
    then show ?thesis using walk_plain plain_stages [OF p] by blast
  next
    case False
    then have fixed: "unquote ((unquote ^^ max_decode_rounds) key) = (unquote ^^ max_decode_rounds) key"
      using assms(2) by (simp add: fully_decode_def decode_rounds_power)
    have "(unquote ^^ (k + max_decode_rounds)) key = (unquote ^^ max_decode_rounds) key" for k
      by (induction k) (auto simp: fixed)
    from this [of "n - max_decode_rounds"] False show ?thesis using walk_plain [OF p] by simp
  qed
qed

section \<open>The keys the services build\<close>

lemma join_split: "join_with d (split_on d t) = t"
proof (induction t)
  case (Cons c t)
  then show ?case by (cases "split_on d t"; cases "tl (split_on d t)") auto
qed simp

lemma norm_plain: "list_all plain segs \<Longrightarrow> foldl (norm_step r) kept segs = kept @ segs"
  by (induction segs arbitrary: kept) (auto simp: norm_step_def plain_def)

lemma normpath_plain:
  assumes "list_all plain (split_on (CHR ''/'') t)"
  shows "normpath t = t"
proof -
  have "t \<noteq> []" using assms by (auto simp: plain_def)
  moreover have "\<not> prefix ''/'' t" using assms by (auto simp: prefix_def plain_def)
  moreover from this have "\<not> prefix ''//'' t" by (auto simp: prefix_def)
  ultimately show ?thesis by (simp add: normpath_def norm_plain [OF assms] join_split)
qed

lemma validate_iff:
  "validate_object_key key = ok key \<longleftrightarrow>
    key \<noteq> [] \<and> char_count key \<le> max_key_length \<and> list_all (\<lambda>c. \<not> control_char c) key \<and>
    \<not> windows_drive (slashes (fully_decode key)) \<and> \<not> prefix ''~'' (slashes (fully_decode key)) \<and>
    \<not> prefix ''$'' (slashes (fully_decode key)) \<and> list_all plain (segments (fully_decode key))"
  (is "?l = ?r")
proof -
  have "CHR 0x00 \<notin> set key" if "list_all (\<lambda>c. \<not> control_char c) key"
    using that by (auto simp: list_all_iff control_char_def)
  moreover have "\<not> prefix ''/'' t" if "list_all plain (split_on (CHR ''/'') t)" for t
    using that by (auto simp: prefix_def plain_def)
  ultimately show ?thesis
    by (auto simp: validate_object_key_def Let_def rsimps segments_def list_all_iff list_ex_iff plain_def
        intro: normpath_plain [unfolded list_all_iff plain_def])
qed

lemma fully_decode_power: "fully_decode key = (unquote ^^ 6) key"
  by (simp add: fully_decode_def decode_rounds_power max_decode_rounds_def)

lemma validate_decoded:
  assumes "(unquote ^^ 6) key = d"
  shows "validate_object_key key = ok key \<longleftrightarrow>
    key \<noteq> [] \<and> char_count key \<le> max_key_length \<and> list_all (\<lambda>c. \<not> control_char c) key \<and>
    \<not> windows_drive (slashes d) \<and> \<not> prefix ''~'' (slashes d) \<and> \<not> prefix ''$'' (slashes d) \<and>
    list_all plain (segments d)"
  using assms by (simp add: validate_iff fully_decode_power)

lemma validate_cases: "validate_object_key key = ok key \<or> validate_object_key key = raise unsafe_key"
  by (auto simp: validate_object_key_def Let_def require_def)

text \<open>A character a built name may have: not a separator, not an escape, not a control character.\<close>

definition name_char :: "char \<Rightarrow> bool" where
  "name_char c \<longleftrightarrow> \<not> is_ascii c \<or> is_alnum c \<or> c = CHR ''_'' \<or> c = CHR ''.'' \<or> c = CHR ''-''"

lemma name_char_ok:
  "name_char c \<Longrightarrow> \<not> is_sep c \<and> c \<noteq> CHR ''%'' \<and> \<not> control_char c"
  by (auto simp: name_char_def is_sep_def control_char_def is_ascii_def is_alnum_def Let_def)

lemma glyph_bytes: "g \<in> set (glyphs t) \<Longrightarrow> g \<noteq> [] \<and> ((\<exists>c. g = [c]) \<or> list_all (\<lambda>c. \<not> is_ascii c) g)"
proof (induction t arbitrary: g)
  case (Cons c t)
  have "\<not> is_ascii x" if "\<not> starts_char x" for x using that by (auto simp: starts_char_def is_ascii_def)
  with Cons show ?case
    by (auto split: list.splits if_splits simp: neq_Nil_conv dest!: Cons.IH) fastforce+
qed simp

lemma mask_chars: "list_all name_char (mask_unsafe se t)"
proof -
  have "list_all name_char (if safe_glyph se g then g else ''_'')" if "g \<in> set (glyphs t)" for g
    using glyph_bytes [OF that]
    by (auto simp: safe_glyph_def name_char_def list_all_iff split: list.splits if_splits)
  then show ?thesis by (auto simp: mask_unsafe_def list_all_iff)
qed

lemma squeeze_chars: "set (squeeze t) \<subseteq> set t"
  by (induction t rule: squeeze.induct) auto

lemma clip_chars: "set (clip n t) \<subseteq> set t"
  by (induction n t rule: clip.induct) (auto split: nat.splits)

lemma last_dot_chars:
  assumes "last_dot t = Some (a, b)"
  shows "set a \<subseteq> set t" and "set b \<subseteq> set t"
proof -
  have tl: "set (tl xs) \<subseteq> set xs" for xs :: string by (cases xs) auto
  show "set a \<subseteq> set t" "set b \<subseteq> set t"
    using assms tl set_dropWhileD
    by (fastforce simp: last_dot_def split: if_splits dest: set_takeWhileD)+
qed

lemma slice_chars: "set (prefix_slice k t) \<subseteq> set t"
  using clip_chars by (auto simp: prefix_slice_def)

lemma sanitised_chars:
  assumes "list_all name_char fallback"
  shows "list_all name_char (sanitise_filename se filename fallback)"
proof -
  define name where "name = squeeze (mask_unsafe se (strip_of ''. ''
      (drop_drive (last (split_on (CHR ''/'') (slashes (strip_text (se_nfkc se filename))))))))"
  have name: "list_all name_char name"
    using squeeze_chars mask_chars unfolding name_def list_all_iff by blast
  have slice: "list_all name_char (prefix_slice k t)" if "set t \<subseteq> set name" for k t
    using slice_chars [of k t] that name by (auto simp: list_all_iff)
  have "list_all name_char (prefix_slice i stem)" "list_all name_char suffix"
    if "last_dot name = Some (stem, suffix)" for i stem suffix
    using slice last_dot_chars [OF that] name by (auto simp: list_all_iff)
  moreover have "name_char (CHR ''.'')" by (simp add: name_char_def)
  ultimately show ?thesis
    unfolding sanitise_filename_def Let_def name_def [symmetric]
    using assms slice [of name] by (cases "last_dot name") auto
qed

lemma decode_name: "CHR ''%'' \<notin> set t \<Longrightarrow> unquote t = t"
  using unquote_no_escape [of t "[]"] by (simp add: unquote_def)

lemma decode_percent: "CHR ''%'' \<notin> set t \<Longrightarrow> unquote (CHR ''%'' # CHR ''2'' # CHR ''5'' # t) = CHR ''%'' # t"
proof -
  have "char_of (37::nat) = CHR ''%''" by code_simp
  then show "CHR ''%'' \<notin> set t \<Longrightarrow> ?thesis"
    using unquote_no_escape [of t "''%''"] by (simp add: unquote_def hex_digit_value_def is_ascii_def)
qed

lemma decode_names:
  assumes "CHR ''%'' \<notin> set t"
  shows "(unquote ^^ n) (p @ CHR ''/'' # t) = (unquote ^^ n) p @ CHR ''/'' # t"
  by (induction n) (simp_all add: unquote_sep is_sep_def decode_name [OF assms])

lemma int_text_name_chars: "list_all name_char (int_text i)"
proof -
  have "list_all name_char (nat_text n)" for n
    using nat_text_digits [of n] by (auto simp: list_all_iff is_digit_def name_char_def is_alnum_def Let_def)
  then show ?thesis by (simp add: int_text_def name_char_def)
qed

lemma folder_kept:
  assumes "validate_object_key p = ok p"
  shows "rev (dropWhile (\<lambda>c. c = CHR ''/'') (rev p)) = p"
proof (cases p rule: rev_cases)
  case (snoc q c)
  have "c \<noteq> CHR ''/''"
  proof
    assume "c = CHR ''/''"
    then have "segments (fully_decode p) = segments ((unquote ^^ max_decode_rounds) q) @ [[]]"
      using snoc decode_names [of "[]" max_decode_rounds q]
      by (simp add: fully_decode_def decode_rounds_power segments_append is_sep_def segments_free)
    then show False using accepted_key(2) [OF assms] by (simp add: plain_def)
  qed
  then show ?thesis using snoc by simp
qed simp

lemma drive_append: "x \<noteq> [] \<Longrightarrow> windows_drive (x @ CHR ''/'' # y) = windows_drive x"
  by (cases x; cases "tl x") (auto simp: windows_drive_def)

lemma named_key:
  assumes "validate_object_key p = ok p" and "list_all name_char a" and "list_all name_char b"
    and "plain a" and "plain b"
  shows "validate_object_key (p @ CHR ''/'' # a @ CHR ''/'' # b) =
    (if char_count (p @ CHR ''/'' # a @ CHR ''/'' # b) \<le> max_key_length
     then ok (p @ CHR ''/'' # a @ CHR ''/'' # b) else raise unsafe_key)"
proof -
  let ?t = "a @ CHR ''/'' # b" and ?d = "fully_decode p"
  have no: "CHR ''%'' \<notin> set ?t" using assms(2,3) name_char_ok by (auto simp: list_all_iff)
  have free: "list_all (\<lambda>c. \<not> is_sep c) a" "list_all (\<lambda>c. \<not> is_sep c) b"
    using assms(2,3) name_char_ok by (auto simp: list_all_iff)
  have d: "fully_decode (p @ CHR ''/'' # ?t) = ?d @ CHR ''/'' # ?t"
    using decode_names [OF no] by (simp add: fully_decode_def decode_rounds_power)
  have segs: "segments (?d @ CHR ''/'' # ?t) = segments ?d @ [a, b]"
    using free by (simp add: segments_append is_sep_def segments_free)
  have ne: "?d \<noteq> []" using accepted_key(2) [OF assms(1)] by (auto simp: segments_def slashes_def plain_def)
  then have "slashes ?d \<noteq> []" by (simp add: slashes_def)
  then have start: "windows_drive (slashes (?d @ CHR ''/'' # ?t)) = windows_drive (slashes ?d)"
      "prefix [x] (slashes (?d @ CHR ''/'' # ?t)) = prefix [x] (slashes ?d)" for x
    using drive_append [of "slashes ?d" "slashes ?t"] by (auto simp: slashes_def neq_Nil_conv)
  have "list_all (\<lambda>c. \<not> control_char c) (p @ CHR ''/'' # ?t)"
    using accepted_key(5) [OF assms(1)] assms(2,3) name_char_ok by (auto simp: list_all_iff control_char_def)
  then have "validate_object_key (p @ CHR ''/'' # ?t) = ok (p @ CHR ''/'' # ?t) \<longleftrightarrow>
      char_count (p @ CHR ''/'' # ?t) \<le> max_key_length"
    using assms(1,4,5) by (simp add: validate_iff [of "p @ CHR ''/'' # ?t"] validate_iff [of p] d start segs del: slashes_append)
  then show ?thesis using validate_cases [of "p @ CHR ''/'' # ?t"] by auto
qed

definition uploaded_key :: "storage_env \<Rightarrow> string \<Rightarrow> int \<Rightarrow> string \<Rightarrow> string \<Rightarrow> string" where
  "uploaded_key se folder owner_id unique filename =
    folder @ CHR ''/'' # int_text owner_id @ CHR ''/'' #
    sanitise_filename se unique ''v'' @ ''_'' @ sanitise_filename se filename ''upload''"

lemma built_key:
  assumes "validate_object_key folder = ok folder" and "unique \<noteq> []"
  shows "build_object_key se folder filename (Some (int_text owner_id)) (Some unique) =
    (if char_count (uploaded_key se folder owner_id unique filename) \<le> max_key_length
     then ok (uploaded_key se folder owner_id unique filename) else raise unsafe_key)"
proof -
  let ?n = "sanitise_filename se unique ''v'' @ ''_'' @ sanitise_filename se filename ''upload''"
  have "list_all name_char ''v''" "list_all name_char ''upload''" by (auto simp: name_char_def is_alnum_def)
  then have n: "list_all name_char ?n" using sanitised_chars by (simp add: name_char_def)
  have "CHR ''_'' \<in> set ?n" by simp
  then have pn: "plain ?n" by (auto simp: plain_def simp del: set_append)
  have "plain (int_text i)" for i
    using nat_text_digits [of "nat i"] by (auto simp: plain_def int_text_def is_digit_def)
  from named_key [OF assms(1) int_text_name_chars n this pn] show ?thesis
    using assms accepted_key(4) [OF assms(1)] folder_kept [OF assms(1)]
    by (simp add: build_object_key_def uploaded_key_def)
qed

end
