(* ===== verification/Object_Store.thy ===== *)
theory Object_Store
  imports Storage_Keys
begin

text \<open>
  The backends of \<open>app/shared/storage/backends\<close>: the in-memory store of the tests, and the MinIO
  store over a client. The client is the SDK's: a record of the calls the backend makes, on a state
  of its own, that answer or fail with an error code. Metadata other than the digest is not kept.
  A caller of the port relies on the laws of the locale \<open>object_port\<close>.
\<close>

record stored_object =
  so_object_key :: string
  so_bucket :: string
  so_checksum :: string
  so_content_type :: string
  so_size :: int
  so_etag :: "string option"

record object_stat =
  st_size :: int
  st_content_type :: string
  st_sha256 :: string

record blob =
  bl_data :: string
  bl_content_type :: string
  bl_sha256 :: string

text \<open>What both backends are configured with; the digest is \<open>hashlib.sha256\<close>, the clock in seconds.\<close>

record store_settings =
  ss_env :: storage_env
  ss_sha256 :: "string \<Rightarrow> string"
  ss_max_bytes :: nat
  ss_default_ttl :: int
  ss_buckets :: "string list"

abbreviation bucket_unavailable :: exn where
  "bucket_unavailable \<equiv> PythonError ''StorageBucketUnavailableError''"

abbreviation object_not_found :: exn where
  "object_not_found \<equiv> PythonError ''StorageObjectNotFoundError''"

abbreviation object_too_large :: exn where
  "object_too_large \<equiv> PythonError ''StorageObjectTooLargeError''"

abbreviation checksum_mismatch :: exn where
  "checksum_mismatch \<equiv> PythonError ''StorageChecksumMismatchError''"

text \<open>\<open>content_type or guess_content_type(key)\<close>\<close>

definition resolved_type :: "store_settings \<Rightarrow> string option \<Rightarrow> string \<Rightarrow> string" where
  "resolved_type cf content_type key =
    (case content_type of
       Some t \<Rightarrow> if t = [] then guess_content_type (ss_env cf) key else t
     | None \<Rightarrow> guess_content_type (ss_env cf) key)"

definition stored_as :: "store_settings \<Rightarrow> string \<Rightarrow> string \<Rightarrow> string \<Rightarrow> string option \<Rightarrow> string option \<Rightarrow> stored_object"
where
  "stored_as cf bucket key data content_type etag =
    \<lparr>so_object_key = key, so_bucket = bucket, so_checksum = ss_sha256 cf data,
     so_content_type = resolved_type cf content_type key, so_size = int (length data), so_etag = etag\<rparr>"

definition blob_of :: "store_settings \<Rightarrow> string \<Rightarrow> string \<Rightarrow> string option \<Rightarrow> blob" where
  "blob_of cf key data content_type =
    \<lparr>bl_data = data, bl_content_type = resolved_type cf content_type key, bl_sha256 = ss_sha256 cf data\<rparr>"

text \<open>The checks \<open>presigned_put_url\<close> makes of the declared type.\<close>

definition declared_type :: "string \<Rightarrow> string" where
  "declared_type t = lower_text (strip_text (hd (split_on (CHR '';'') t)))"

definition query_text :: "int \<Rightarrow> string" where
  "query_text expires = ''expires='' @ int_text expires"

section \<open>The in-memory backend\<close>

record memory_store =
  ms_buckets :: "string list"
  ms_objects :: "((string \<times> string) \<times> blob) list"
  ms_outage :: bool

definition memory_ensure_buckets :: "store_settings \<Rightarrow> memory_store \<Rightarrow> string list \<times> memory_store" where
  "memory_ensure_buckets cf s =
    foldl (\<lambda>(created, s) b. if b \<in> set (ms_buckets s) then (created, s)
        else (created @ [b], s\<lparr>ms_buckets := ms_buckets s @ [b]\<rparr>))
      ([], s) (ss_buckets cf)"

definition memory_put ::
  "store_settings \<Rightarrow> memory_store \<Rightarrow> string \<Rightarrow> string \<Rightarrow> string \<Rightarrow> string option \<Rightarrow>
   (stored_object \<times> memory_store) result" where
  "memory_put cf s bucket key data content_type =
    bindE (validate_object_key key) (\<lambda>_.
    require (\<not> length data > ss_max_bytes cf) object_too_large
    (require (bucket \<in> set (ms_buckets s)) bucket_unavailable
    (ok (stored_as cf bucket key data content_type (Some (clip 32 (ss_sha256 cf data))),
         s\<lparr>ms_objects := dict_set (bucket, key) (blob_of cf key data content_type) (ms_objects s)\<rparr>))))"

definition memory_entry :: "memory_store \<Rightarrow> string \<Rightarrow> string \<Rightarrow> blob result" where
  "memory_entry s bucket key =
    bindE (validate_object_key key) (\<lambda>_.
    require (\<not> ms_outage s) bucket_unavailable
    (require (bucket \<in> set (ms_buckets s)) bucket_unavailable
    (case map_of (ms_objects s) (bucket, key) of None \<Rightarrow> raise object_not_found | Some b \<Rightarrow> ok b)))"

definition memory_get :: "memory_store \<Rightarrow> string \<Rightarrow> string \<Rightarrow> string result" where
  "memory_get s bucket key = bindE (memory_entry s bucket key) (\<lambda>b. ok (bl_data b))"

definition memory_stat :: "memory_store \<Rightarrow> string \<Rightarrow> string \<Rightarrow> object_stat result" where
  "memory_stat s bucket key =
    bindE (memory_entry s bucket key) (\<lambda>b.
      ok \<lparr>st_size = int (length (bl_data b)), st_content_type = bl_content_type b, st_sha256 = bl_sha256 b\<rparr>)"

definition memory_exists :: "memory_store \<Rightarrow> string \<Rightarrow> string \<Rightarrow> bool result" where
  "memory_exists s bucket key =
    (case memory_stat s bucket key of
       Inr _ \<Rightarrow> ok True
     | Inl e \<Rightarrow> if e = object_not_found \<or> e = bucket_unavailable then ok False else Inl e)"

definition memory_verify :: "store_settings \<Rightarrow> memory_store \<Rightarrow> string \<Rightarrow> string \<Rightarrow> string \<Rightarrow> bool result" where
  "memory_verify cf s bucket key expected =
    (case memory_get s bucket key of
       Inr data \<Rightarrow> ok (ss_sha256 cf data = expected)
     | Inl e \<Rightarrow> if e = object_not_found then raise checksum_mismatch else Inl e)"

definition memory_presigned_get ::
  "store_settings \<Rightarrow> memory_store \<Rightarrow> int \<Rightarrow> string \<Rightarrow> string \<Rightarrow> int option \<Rightarrow> string result" where
  "memory_presigned_get cf s now bucket key ttl =
    bindE (memory_entry s bucket key) (\<lambda>_.
      ok (''memory://'' @ bucket @ ''/'' @ key @ ''?'' @
        query_text (now + (case ttl of Some t \<Rightarrow> if t = 0 then ss_default_ttl cf else t | None \<Rightarrow> ss_default_ttl cf))))"

definition memory_presigned_put ::
  "store_settings \<Rightarrow> memory_store \<Rightarrow> int \<Rightarrow> string \<Rightarrow> string \<Rightarrow> int option \<Rightarrow> string option \<Rightarrow> string result" where
  "memory_presigned_put cf s now bucket key ttl content_type =
    require (bucket \<in> set (ms_buckets s)) bucket_unavailable
    (let t = declared_type (resolved_type cf content_type key) in
     require (t \<in> set allowed_content_types) unsupported_type
     (ok (''memory://'' @ bucket @ ''/'' @ key @ ''?method=PUT&content-type='' @ t @ ''&'' @
       query_text (now + (case ttl of Some t \<Rightarrow> if t = 0 then ss_default_ttl cf else t | None \<Rightarrow> ss_default_ttl cf)))))"

definition memory_delete :: "memory_store \<Rightarrow> string \<Rightarrow> string \<Rightarrow> memory_store result" where
  "memory_delete s bucket key =
    bindE (validate_object_key key) (\<lambda>_.
      ok (s\<lparr>ms_objects := filter (\<lambda>(k, b). k \<noteq> (bucket, key)) (ms_objects s)\<rparr>))"

definition memory_put_named ::
  "store_settings \<Rightarrow> memory_store \<Rightarrow> string \<Rightarrow> string \<Rightarrow> string \<Rightarrow> string \<Rightarrow> string option \<Rightarrow> string option \<Rightarrow>
   string option \<Rightarrow> (stored_object \<times> memory_store) result" where
  "memory_put_named cf s bucket folder filename data owner_id unique content_type =
    bindE (build_object_key (ss_env cf) folder filename owner_id unique) (\<lambda>key.
      memory_put cf s bucket key data content_type)"

section \<open>The MinIO backend\<close>

text \<open>An answer of the client is \<open>Inl\<close> the code of an \<open>S3Error\<close>, or its result.\<close>

record 's minio_client =
  mc_bucket_exists :: "'s \<Rightarrow> string \<Rightarrow> string + bool"
  mc_make_bucket :: "'s \<Rightarrow> string \<Rightarrow> string + 's"
  mc_put :: "'s \<Rightarrow> string \<Rightarrow> string \<Rightarrow> blob \<Rightarrow> string + (string option \<times> 's)"
  mc_get :: "'s \<Rightarrow> string \<Rightarrow> string \<Rightarrow> string + string"
  mc_stat :: "'s \<Rightarrow> string \<Rightarrow> string \<Rightarrow> string + object_stat"
  mc_remove :: "'s \<Rightarrow> string \<Rightarrow> string \<Rightarrow> string + 's"
  mc_presign :: "'s \<Rightarrow> string \<Rightarrow> string \<Rightarrow> string \<Rightarrow> int \<Rightarrow> string + string"

definition not_found_codes :: "string list" where
  "not_found_codes = [''NoSuchKey'', ''NoSuchBucket'', ''NoSuchObject'', ''NotFound'']"

definition conflict_codes :: "string list" where
  "conflict_codes = [''BucketAlreadyOwnedByYou'', ''BucketAlreadyExists'']"

definition minio_require_bucket :: "'s minio_client \<Rightarrow> 's \<Rightarrow> string \<Rightarrow> unit result" where
  "minio_require_bucket cl s bucket =
    (case mc_bucket_exists cl s bucket of
       Inl _ \<Rightarrow> raise bucket_unavailable
     | Inr found \<Rightarrow> if found then ok () else raise bucket_unavailable)"

text \<open>Buckets made before a failure stay made: the answer carries the state either way.\<close>

fun minio_ensure_each :: "'s minio_client \<Rightarrow> string list \<Rightarrow> string list \<Rightarrow> 's \<Rightarrow> string list result \<times> 's" where
  "minio_ensure_each cl [] created s = (ok created, s)"
| "minio_ensure_each cl (b # bs) created s =
    (case mc_bucket_exists cl s b of
       Inl code \<Rightarrow> if code \<in> set conflict_codes then minio_ensure_each cl bs created s
         else (raise bucket_unavailable, s)
     | Inr True \<Rightarrow> minio_ensure_each cl bs created s
     | Inr False \<Rightarrow>
        (case mc_make_bucket cl s b of
           Inl code \<Rightarrow> if code \<in> set conflict_codes then minio_ensure_each cl bs created s
             else (raise bucket_unavailable, s)
         | Inr s' \<Rightarrow> minio_ensure_each cl bs (created @ [b]) s'))"

definition minio_ensure_buckets :: "'s minio_client \<Rightarrow> store_settings \<Rightarrow> 's \<Rightarrow> string list result \<times> 's" where
  "minio_ensure_buckets cl cf = minio_ensure_each cl (ss_buckets cf) []"

definition minio_put ::
  "'s minio_client \<Rightarrow> store_settings \<Rightarrow> 's \<Rightarrow> string \<Rightarrow> string \<Rightarrow> string \<Rightarrow> string option \<Rightarrow>
   (stored_object \<times> 's) result" where
  "minio_put cl cf s bucket key data content_type =
    bindE (validate_object_key key) (\<lambda>_.
    require (\<not> length data > ss_max_bytes cf) object_too_large
    (bindE (minio_require_bucket cl s bucket) (\<lambda>_.
     case mc_put cl s bucket key (blob_of cf key data content_type) of
       Inl _ \<Rightarrow> raise bucket_unavailable
     | Inr (etag, s') \<Rightarrow> ok (stored_as cf bucket key data content_type etag, s'))))"

definition read_failure :: "string \<Rightarrow> exn" where
  "read_failure code = (if code \<in> set not_found_codes then object_not_found else bucket_unavailable)"

definition minio_get :: "'s minio_client \<Rightarrow> 's \<Rightarrow> string \<Rightarrow> string \<Rightarrow> string result" where
  "minio_get cl s bucket key =
    bindE (validate_object_key key) (\<lambda>_.
    case mc_get cl s bucket key of Inl code \<Rightarrow> raise (read_failure code) | Inr data \<Rightarrow> ok data)"

text \<open>A stat without a type is \<open>application/octet-stream\<close>.\<close>

definition minio_stat :: "'s minio_client \<Rightarrow> 's \<Rightarrow> string \<Rightarrow> string \<Rightarrow> object_stat result" where
  "minio_stat cl s bucket key =
    bindE (validate_object_key key) (\<lambda>_.
    case mc_stat cl s bucket key of
      Inl code \<Rightarrow> raise (read_failure code)
    | Inr i \<Rightarrow> ok (if st_content_type i = [] then i\<lparr>st_content_type := ''application/octet-stream''\<rparr> else i))"

definition minio_exists :: "'s minio_client \<Rightarrow> 's \<Rightarrow> string \<Rightarrow> string \<Rightarrow> bool result" where
  "minio_exists cl s bucket key =
    (case minio_stat cl s bucket key of
       Inr _ \<Rightarrow> ok True
     | Inl e \<Rightarrow> if e = object_not_found then ok False else Inl e)"

definition minio_verify :: "'s minio_client \<Rightarrow> store_settings \<Rightarrow> 's \<Rightarrow> string \<Rightarrow> string \<Rightarrow> string \<Rightarrow> bool result" where
  "minio_verify cl cf s bucket key expected =
    (case minio_get cl s bucket key of
       Inr data \<Rightarrow> ok (ss_sha256 cf data = expected)
     | Inl e \<Rightarrow> if e = object_not_found then raise checksum_mismatch else Inl e)"

definition minio_presigned_get ::
  "'s minio_client \<Rightarrow> store_settings \<Rightarrow> 's \<Rightarrow> string \<Rightarrow> string \<Rightarrow> int option \<Rightarrow> string result" where
  "minio_presigned_get cl cf s bucket key ttl =
    bindE (validate_object_key key) (\<lambda>_.
    case mc_presign cl s ''GET'' bucket key
        (case ttl of Some t \<Rightarrow> if t = 0 then ss_default_ttl cf else t | None \<Rightarrow> ss_default_ttl cf) of
      Inl _ \<Rightarrow> raise bucket_unavailable
    | Inr url \<Rightarrow> ok url)"

definition minio_presigned_put ::
  "'s minio_client \<Rightarrow> store_settings \<Rightarrow> 's \<Rightarrow> string \<Rightarrow> string \<Rightarrow> int option \<Rightarrow> string option \<Rightarrow> string result" where
  "minio_presigned_put cl cf s bucket key ttl content_type =
    bindE (validate_object_key key) (\<lambda>_.
    require (case content_type of None \<Rightarrow> True | Some t \<Rightarrow> declared_type t \<in> set allowed_content_types)
      unsupported_type
    (case mc_presign cl s ''PUT'' bucket key
        (case ttl of Some t \<Rightarrow> if t = 0 then ss_default_ttl cf else t | None \<Rightarrow> ss_default_ttl cf) of
      Inl _ \<Rightarrow> raise bucket_unavailable
    | Inr url \<Rightarrow> ok url))"

definition minio_delete :: "'s minio_client \<Rightarrow> 's \<Rightarrow> string \<Rightarrow> string \<Rightarrow> 's result" where
  "minio_delete cl s bucket key =
    bindE (validate_object_key key) (\<lambda>_.
    case mc_remove cl s bucket key of
      Inl code \<Rightarrow> if code \<in> set not_found_codes then ok s else raise bucket_unavailable
    | Inr s' \<Rightarrow> ok s')"

definition minio_put_named ::
  "'s minio_client \<Rightarrow> store_settings \<Rightarrow> 's \<Rightarrow> string \<Rightarrow> string \<Rightarrow> string \<Rightarrow> string \<Rightarrow> string option \<Rightarrow>
   string option \<Rightarrow> string option \<Rightarrow> (stored_object \<times> 's) result" where
  "minio_put_named cl cf s bucket folder filename data owner_id unique content_type =
    bindE (build_object_key (ss_env cf) folder filename owner_id unique) (\<lambda>key.
      minio_put cl cf s bucket key data content_type)"

section \<open>What a caller of the port relies on\<close>

locale object_port =
  fixes put :: "'s \<Rightarrow> string \<Rightarrow> string \<Rightarrow> string \<Rightarrow> string option \<Rightarrow> (stored_object \<times> 's) result"
    and get :: "'s \<Rightarrow> string \<Rightarrow> string \<Rightarrow> string result"
    and delete :: "'s \<Rightarrow> string \<Rightarrow> string \<Rightarrow> 's result"
    and ready :: "'s \<Rightarrow> bool"
    and digest :: "string \<Rightarrow> string"
  assumes put_reads: "ready s \<Longrightarrow> put s b k d t = ok (r, s') \<Longrightarrow>
      ready s' \<and> get s' b k = ok d \<and> so_bucket r = b \<and> so_object_key r = k \<and>
      so_checksum r = digest d \<and> so_size r = int (length d)"
    and put_keeps: "ready s \<Longrightarrow> put s b k d t = ok (r, s') \<Longrightarrow> (b', k') \<noteq> (b, k) \<Longrightarrow>
      get s' b' k' = get s b' k'"
    and delete_removes: "ready s \<Longrightarrow> delete s b k = ok s' \<Longrightarrow> ready s' \<and> \<not> is_ok (get s' b k)"
    and delete_keeps: "ready s \<Longrightarrow> delete s b k = ok s' \<Longrightarrow> (b', k') \<noteq> (b, k) \<Longrightarrow>
      get s' b' k' = get s b' k'"
begin

text \<open>What was not readable is not readable again once a write is taken back, and the rest is as before.\<close>

lemma undone:
  assumes "ready s" and "put s b k d t = ok (r, s')" and "delete s' b k = ok s''"
    and "\<not> is_ok (get s b k)"
  shows "is_ok (get s'' b' k') = is_ok (get s b' k')"
    and "(b', k') \<noteq> (b, k) \<Longrightarrow> get s'' b' k' = get s b' k'"
proof -
  have r: "ready s'" using put_reads [OF assms(1,2)] by simp
  show eq: "get s'' b' k' = get s b' k'" if "(b', k') \<noteq> (b, k)"
    using delete_keeps [OF r assms(3) that] put_keeps [OF assms(1,2) that] by simp
  show "is_ok (get s'' b' k') = is_ok (get s b' k')"
    using eq delete_removes [OF r assms(3)] assms(4) by (cases "(b', k') = (b, k)") auto
qed

end

lemma map_of_filter_key: "map_of (filter (\<lambda>(k, b). k \<noteq> x) m) k = (if k = x then None else map_of m k)"
  by (induction m) auto

interpretation memory: object_port "memory_put cf" memory_get memory_delete "\<lambda>s. \<not> ms_outage s" "ss_sha256 cf"
proof
  fix s :: memory_store and b k d t r s'
  assume "\<not> ms_outage s" "memory_put cf s b k d t = ok (r, s')"
  then show "\<not> ms_outage s' \<and> memory_get s' b k = ok d \<and> so_bucket r = b \<and> so_object_key r = k \<and>
      so_checksum r = ss_sha256 cf d \<and> so_size r = int (length d)"
    by (auto simp: memory_put_def memory_get_def memory_entry_def stored_as_def blob_of_def rsimps)
next
  fix s :: memory_store and b k d t r s' b' k'
  assume "memory_put cf s b k d t = ok (r, s')" "(b', k') \<noteq> (b, k)"
  then show "memory_get s' b' k' = memory_get s b' k'"
    by (auto simp: memory_put_def memory_get_def memory_entry_def rsimps)
next
  fix s :: memory_store and b k s'
  assume "\<not> ms_outage s" "memory_delete s b k = ok s'"
  then show "\<not> ms_outage s' \<and> \<not> is_ok (memory_get s' b k)"
    by (auto simp: memory_delete_def memory_get_def memory_entry_def rsimps map_of_filter_key is_ok_ex)
next
  fix s :: memory_store and b k s' b' k'
  assume "memory_delete s b k = ok s'" "(b', k') \<noteq> (b, k)"
  then show "memory_get s' b' k' = memory_get s b' k'"
    by (auto simp: memory_delete_def memory_get_def memory_entry_def rsimps map_of_filter_key)
qed

end
