(* ===== verification/Object_Store_Double.thy ===== *)
theory Object_Store_Double
  imports Object_Store
begin

text \<open>
  The in-memory backend is a double of the MinIO backend: over a client that serves a map of
  objects, the two answer alike in every existing bucket, up to the entity tag of a write.
\<close>

text \<open>The client answers, in this state, like the store it is viewed as.\<close>

definition serves :: "'s minio_client \<Rightarrow> ('s \<Rightarrow> memory_store) \<Rightarrow> 's \<Rightarrow> bool" where
  "serves cl view s \<longleftrightarrow> \<not> ms_outage (view s) \<and>
    (\<forall>b. mc_bucket_exists cl s b = Inr (b \<in> set (ms_buckets (view s)))) \<and>
    (\<forall>b k. b \<in> set (ms_buckets (view s)) \<longrightarrow>
      mc_get cl s b k = (case map_of (ms_objects (view s)) (b, k) of
          None \<Rightarrow> Inl ''NoSuchKey'' | Some x \<Rightarrow> Inr (bl_data x)) \<and>
      mc_stat cl s b k = (case map_of (ms_objects (view s)) (b, k) of
          None \<Rightarrow> Inl ''NoSuchKey''
        | Some x \<Rightarrow> Inr \<lparr>st_size = int (length (bl_data x)), st_content_type = bl_content_type x,
            st_sha256 = bl_sha256 x\<rparr>) \<and>
      (\<forall>x. \<exists>etag s'. mc_put cl s b k x = Inr (etag, s') \<and>
        view s' = (view s)\<lparr>ms_objects := dict_set (b, k) x (ms_objects (view s))\<rparr>) \<and>
      (\<exists>s'. mc_remove cl s b k = Inr s' \<and>
        view s' = (view s)\<lparr>ms_objects := filter (\<lambda>(q, x). q \<noteq> (b, k)) (ms_objects (view s))\<rparr>))"

definition put_seen :: "('s \<Rightarrow> memory_store) \<Rightarrow> (stored_object \<times> 's) result \<Rightarrow> (stored_object \<times> memory_store) result"
where
  "put_seen view r = bindE r (\<lambda>(o', s'). ok (o'\<lparr>so_etag := None\<rparr>, view s'))"

lemma serves_put:
  assumes "serves cl view s" and "b \<in> set (ms_buckets (view s))"
  shows "put_seen view (minio_put cl cf s b k d t) = put_seen id (memory_put cf (view s) b k d t)"
proof -
  obtain etag s' where p: "mc_put cl s b k (blob_of cf k d t) = Inr (etag, s')"
    "view s' = (view s)\<lparr>ms_objects := dict_set (b, k) (blob_of cf k d t) (ms_objects (view s))\<rparr>"
    using assms unfolding serves_def by blast
  have "mc_bucket_exists cl s b = Inr True" using assms unfolding serves_def by simp
  with p assms(2) show ?thesis
    by (cases "validate_object_key k")
      (auto simp: put_seen_def minio_put_def memory_put_def minio_require_bucket_def stored_as_def require_def)
qed

lemma serves_get:
  assumes "serves cl view s" and "b \<in> set (ms_buckets (view s))"
  shows "minio_get cl s b k = memory_get (view s) b k"
proof -
  have "mc_get cl s b k = (case map_of (ms_objects (view s)) (b, k) of
      None \<Rightarrow> Inl ''NoSuchKey'' | Some x \<Rightarrow> Inr (bl_data x))" and "\<not> ms_outage (view s)"
    using assms unfolding serves_def by blast+
  with assms(2) show ?thesis
    by (cases "validate_object_key k")
      (auto simp: minio_get_def memory_get_def memory_entry_def read_failure_def not_found_codes_def
        split: option.splits)
qed

lemma serves_exists:
  assumes "serves cl view s" and "b \<in> set (ms_buckets (view s))"
  shows "minio_exists cl s b k = memory_exists (view s) b k"
proof -
  have "mc_stat cl s b k = (case map_of (ms_objects (view s)) (b, k) of
      None \<Rightarrow> Inl ''NoSuchKey''
    | Some x \<Rightarrow> Inr \<lparr>st_size = int (length (bl_data x)), st_content_type = bl_content_type x,
        st_sha256 = bl_sha256 x\<rparr>)" and "\<not> ms_outage (view s)"
    using assms unfolding serves_def by blast+
  with assms(2) validate_cases [of k] show ?thesis
    by (cases "validate_object_key k")
      (auto simp: minio_exists_def minio_stat_def memory_exists_def memory_stat_def memory_entry_def
        read_failure_def not_found_codes_def split: option.splits)
qed

lemma serves_delete:
  assumes "serves cl view s" and "b \<in> set (ms_buckets (view s))"
  shows "bindE (minio_delete cl s b k) (\<lambda>s'. ok (view s')) = memory_delete (view s) b k"
proof -
  obtain s' where "mc_remove cl s b k = Inr s'"
    "view s' = (view s)\<lparr>ms_objects := filter (\<lambda>(q, x). q \<noteq> (b, k)) (ms_objects (view s))\<rparr>"
    using assms unfolding serves_def by blast
  then show ?thesis
    by (cases "validate_object_key k") (auto simp: minio_delete_def memory_delete_def)
qed

text \<open>
  Over a client whose calls all succeed on a map of objects, the MinIO backend and the in-memory double
  give the same answer and the same objects for a write, a read, a probe, a digest check and a removal in
  an existing bucket; the entity tag of a write may differ, and so do presigned reads of missing objects.
\<close>

theorem double_agrees:
  assumes "serves cl view s" and "b \<in> set (ms_buckets (view s))"
  shows "put_seen view (minio_put cl cf s b k d t) = put_seen id (memory_put cf (view s) b k d t) \<and>
    minio_get cl s b k = memory_get (view s) b k \<and>
    minio_exists cl s b k = memory_exists (view s) b k \<and>
    minio_verify cl cf s b k expected = memory_verify cf (view s) b k expected \<and>
    bindE (minio_delete cl s b k) (\<lambda>s'. ok (view s')) = memory_delete (view s) b k"
  using serves_put [OF assms] serves_get [OF assms] serves_exists [OF assms] serves_delete [OF assms]
  by (simp add: minio_verify_def memory_verify_def)

text \<open>A client over a map of its own.\<close>

definition map_client :: "memory_store minio_client" where
  "map_client =
    \<lparr>mc_bucket_exists = (\<lambda>s b. Inr (b \<in> set (ms_buckets s))),
     mc_make_bucket = (\<lambda>s b. Inr (s\<lparr>ms_buckets := ms_buckets s @ [b]\<rparr>)),
     mc_put = (\<lambda>s b k x. Inr (Some ''e'', s\<lparr>ms_objects := dict_set (b, k) x (ms_objects s)\<rparr>)),
     mc_get = (\<lambda>s b k. case map_of (ms_objects s) (b, k) of
        None \<Rightarrow> Inl ''NoSuchKey'' | Some x \<Rightarrow> Inr (bl_data x)),
     mc_stat = (\<lambda>s b k. case map_of (ms_objects s) (b, k) of
        None \<Rightarrow> Inl ''NoSuchKey''
      | Some x \<Rightarrow> Inr \<lparr>st_size = int (length (bl_data x)), st_content_type = bl_content_type x,
          st_sha256 = bl_sha256 x\<rparr>),
     mc_remove = (\<lambda>s b k. Inr (s\<lparr>ms_objects := filter (\<lambda>(q, x). q \<noteq> (b, k)) (ms_objects s)\<rparr>)),
     mc_presign = (\<lambda>s verb b k ttl. Inr (verb @ b @ k))\<rparr>"

definition plain_storage :: storage_env where
  "plain_storage = \<lparr>se_nfkc = id, se_word_char = (\<lambda>_. True), se_guess_type = (\<lambda>_. None)\<rparr>"

definition plain_store :: store_settings where
  "plain_store = \<lparr>ss_env = plain_storage, ss_sha256 = id, ss_max_bytes = 100, ss_default_ttl = 900,
    ss_buckets = [''images'']\<rparr>"

definition one_bucket :: memory_store where
  "one_bucket = \<lparr>ms_buckets = [''images''], ms_objects = [], ms_outage = False\<rparr>"

lemma map_client_serves: "\<not> ms_outage s \<Longrightarrow> serves map_client id s"
  by (auto simp: serves_def map_client_def)

theorem double_agrees_witness:
  "minio_verify map_client plain_store one_bucket ''images'' ''a/b'' ''x'' = raise checksum_mismatch \<and>
   memory_verify plain_store one_bucket ''images'' ''a/b'' ''x'' = raise checksum_mismatch"
proof -
  have "serves map_client id one_bucket" "''images'' \<in> set (ms_buckets (id one_bucket))"
    by (simp_all add: map_client_serves one_bucket_def)
  from double_agrees [OF this, of plain_store "''a/b''" _ _ "''x''"]
  have "minio_verify map_client plain_store one_bucket ''images'' ''a/b'' ''x'' =
      memory_verify plain_store one_bucket ''images'' ''a/b'' ''x''" by simp
  moreover have "memory_verify plain_store one_bucket ''images'' ''a/b'' ''x'' = raise checksum_mismatch"
    by code_simp
  ultimately show ?thesis by simp
qed

text \<open>
  They differ on a link to an object that is not there, which only the double refuses, and on a
  bucket that is not there.
\<close>

lemma double_differs:
  "memory_presigned_get plain_store one_bucket 0 ''images'' ''a'' None = raise object_not_found"
  "is_ok (minio_presigned_get map_client plain_store one_bucket ''images'' ''a'' None)"
  by code_simp+

section \<open>Keys and their stages\<close>

text \<open>
  C37: a key the check accepts is at most 512 characters without control characters, and a backend
  that percent-decodes it up to six times, or any number of times once decoding has become stable,
  and then walks its segments with their dots, ends below the folder it started from.
\<close>

theorem key_stays_inside:
  assumes "validate_object_key key = ok k"
    and "n \<le> max_decode_rounds \<or> unquote (fully_decode key) = fully_decode key"
  shows "k = key \<and> char_count key \<le> max_key_length \<and> list_all (\<lambda>c. \<not> control_char c) key \<and>
    walk at (segments ((unquote ^^ n) key)) = at @ segments ((unquote ^^ n) key)"
  using accepted_key [OF assms(1)] stays_inside [OF assms] by simp

theorem key_stays_inside_witness:
  "walk [''srv''] (segments ((unquote ^^ 1) ''%25b..png'')) = [''srv'', ''%b..png'']"
proof -
  have first: "unquote ''%25b..png'' = ''%b..png''" by (simp add: decode_percent)
  have "unquote ''%b..png'' = ''%b..png''" by code_simp
  with first have "(unquote ^^ 6) ''%25b..png'' = ''%b..png''" by (simp add: eval_nat_numeral)
  then have "validate_object_key ''%25b..png'' = ok ''%25b..png''"
    by (subst validate_decoded) (assumption, code_simp)
  moreover have "(1::nat) \<le> max_decode_rounds" by (simp add: max_decode_rounds_def)
  ultimately have "walk [''srv''] (segments ((unquote ^^ 1) ''%25b..png'')) =
      [''srv''] @ segments ((unquote ^^ 1) ''%25b..png'')"
    using key_stays_inside by blast
  moreover have "segments ''%b..png'' = [''%b..png'']" by code_simp
  ultimately show ?thesis using first by simp
qed

text \<open>Encoded seven times over, a way out passes the check.\<close>

lemma seven_rounds_escape:
  "is_ok (validate_object_key ''%2525252525252e./b'')"
  "walk [''srv''] (segments ((unquote ^^ 7) ''%2525252525252e./b'')) = [''b'']"
proof -
  have "(unquote ^^ 6) ''%2525252525252e./b'' = ''%2e./b''" by (simp add: eval_nat_numeral decode_percent)
  then have "validate_object_key ''%2525252525252e./b'' = ok ''%2525252525252e./b''"
    by (subst validate_decoded) (assumption, code_simp)
  then show "is_ok (validate_object_key ''%2525252525252e./b'')" by simp
  have "unquote ''%2e./b'' = ''../b''" by code_simp
  then have "(unquote ^^ 7) ''%2525252525252e./b'' = ''../b''" by (simp add: eval_nat_numeral decode_percent)
  moreover have "walk [''srv''] (segments ''../b'') = [''b'']" by code_simp
  ultimately show "walk [''srv''] (segments ((unquote ^^ 7) ''%2525252525252e./b'')) = [''b'']" by simp
qed

text \<open>A name with two dots in a row makes a key the check accepts and the table refuses.\<close>

definition object_key_check :: "string \<Rightarrow> bool" where
  "object_key_check key \<longleftrightarrow> \<not> prefix ''/'' key \<and> \<not> sublist ''..'' key"

lemma two_dots:
  "build_object_key plain_storage ''products/1'' ''mug..png'' (Some (int_text 5)) (Some ''aa'') =
    ok ''products/1/5/aa_mug..png''"
  "\<not> object_key_check ''products/1/5/aa_mug..png''"
proof -
  have "unquote ''products/1'' = ''products/1''" by (simp add: decode_name)
  then have "(unquote ^^ 6) ''products/1'' = ''products/1''" by (simp add: eval_nat_numeral)
  then have "validate_object_key ''products/1'' = ok ''products/1''"
    by (subst validate_decoded) (assumption, code_simp)
  moreover have "sanitise_filename plain_storage ''mug..png'' ''upload'' = ''mug..png''"
    "sanitise_filename plain_storage ''aa'' ''v'' = ''aa''" "int_text 5 = ''5''" by code_simp+
  then have "uploaded_key plain_storage ''products/1'' 5 ''aa'' ''mug..png'' = ''products/1/5/aa_mug..png''"
    by (simp add: uploaded_key_def)
  moreover have "char_count ''products/1/5/aa_mug..png'' \<le> max_key_length" by code_simp
  ultimately show "build_object_key plain_storage ''products/1'' ''mug..png'' (Some (int_text 5)) (Some ''aa'') =
    ok ''products/1/5/aa_mug..png''"
    by (simp add: built_key)
  show "\<not> object_key_check ''products/1/5/aa_mug..png''" by code_simp
qed

end
