(* ===== verification/Catalog.thy ===== *)
theory Catalog
  imports Order_Create Object_Store
begin

text \<open>
  \<open>app/modules/catalog\<close>: the console's products and SKUs with their publication, and the upload of
  product images to the object store. A \<open>uuid4\<close> draw is an argument. One operation is one
  transaction: it returns the committed tables or raises and leaves none of its writes.
\<close>

section \<open>Tables and constraints\<close>

record category =
  cg_id :: int
  cg_merchant_id :: "int option"
  cg_parent_id :: "int option"
  cg_code :: string
  cg_name :: string
  cg_depth :: int
  cg_sort_order :: int
  cg_is_leaf :: bool
  cg_icon_object_key :: "string option"
  cg_deleted_at :: "int option"

record brand =
  br_id :: int
  br_merchant_id :: "int option"
  br_name :: string
  br_name_en :: "string option"
  br_logo_object_key :: "string option"
  br_description :: "string option"
  br_sort_order :: int
  br_deleted_at :: "int option"

record catalogue = shop +
  categories :: "category list"
  brands :: "brand list"

definition product_checks :: "product \<Rightarrow> bool" where
  "product_checks p \<longleftrightarrow> pd_status p \<in> {''DRAFT'', ''PUBLISHED'', ''UNPUBLISHED'', ''ARCHIVED''}"

text \<open>A unique key with a NULL in it never clashes.\<close>

definition product_clash :: "product \<Rightarrow> product \<Rightarrow> bool" where
  "product_clash p q \<longleftrightarrow> pd_id p = pd_id q \<or>
    pd_merchant_id p \<noteq> None \<and> pd_merchant_id p = pd_merchant_id q \<and>
      (pd_no p = pd_no q \<or> pd_slug p = pd_slug q)"

definition sku_checks :: "product_sku \<Rightarrow> bool" where
  "sku_checks k \<longleftrightarrow> sk_price_amount k \<ge> 0 \<and> sk_cost_amount k \<ge> 0 \<and> sk_market_price_amount k \<ge> 0 \<and>
    sk_status k \<in> {''ACTIVE'', ''INACTIVE'', ''DISCONTINUED''}"

definition sku_clash :: "product_sku \<Rightarrow> product_sku \<Rightarrow> bool" where
  "sku_clash k l \<longleftrightarrow> sk_id k = sk_id l \<or> sk_code k = sk_code l \<or>
    sk_merchant_id k \<noteq> None \<and> sk_merchant_id k = sk_merchant_id l \<and> sk_no k = sk_no l"

definition image_checks :: "product_image \<Rightarrow> bool" where
  "image_checks i \<longleftrightarrow> im_role i \<in> {''PRIMARY'', ''GALLERY'', ''DETAIL''} \<and> im_size_bytes i \<ge> 0 \<and>
    \<not> prefix ''/'' (im_object_key i) \<and> \<not> sublist ''..'' (im_object_key i)"

definition image_clash :: "product_image \<Rightarrow> product_image \<Rightarrow> bool" where
  "image_clash i j \<longleftrightarrow> im_id i = im_id j \<or> im_object_key i = im_object_key j"

text \<open>
  The widths of the columns. The session runs in strict mode, so a value that does not fit is a
  \<open>DataError\<close>; the server would cut trailing spaces beyond the width instead, and is taken to refuse
  them too. The surrogate keys and the JSON column are not bounded here.
\<close>

definition fits_bigint :: "int \<Rightarrow> bool" where
  "fits_bigint v \<longleftrightarrow> - (2 ^ 63) \<le> v \<and> v < 2 ^ 63"

definition fits_int :: "int \<Rightarrow> bool" where
  "fits_int v \<longleftrightarrow> - (2 ^ 31) \<le> v \<and> v < 2 ^ 31"

definition fits_varchar :: "nat \<Rightarrow> string \<Rightarrow> bool" where
  "fits_varchar n t \<longleftrightarrow> char_count t \<le> n"

definition fits_text :: "string \<Rightarrow> bool" where
  "fits_text t \<longleftrightarrow> length t < 2 ^ 16"

definition product_columns :: "product \<Rightarrow> bool" where
  "product_columns p \<longleftrightarrow> fits_varchar 32 (pd_no p) \<and> fits_varchar 160 (pd_slug p) \<and> fits_varchar 200 (pd_name p) \<and>
    case_option True (fits_varchar 255) (pd_subtitle p) \<and> case_option True fits_text (pd_description p) \<and>
    fits_varchar 32 (pd_status p) \<and> fits_bigint (pd_min_price p) \<and> fits_bigint (pd_max_price p) \<and>
    case_option True (fits_varchar 512) (pd_primary_image_object_key p) \<and> fits_int (pd_sales_count p) \<and>
    fits_int (pd_sort_order p)"

definition sku_columns :: "product_sku \<Rightarrow> bool" where
  "sku_columns k \<longleftrightarrow> fits_varchar 32 (sk_no k) \<and> fits_varchar 96 (sk_code k) \<and> fits_varchar 200 (sk_name k) \<and>
    fits_bigint (sk_price_amount k) \<and> fits_bigint (sk_market_price_amount k) \<and> fits_bigint (sk_cost_amount k) \<and>
    fits_varchar 32 (sk_status k) \<and> fits_int (sk_purchase_limit k) \<and> fits_int (sk_sort_order k)"

definition image_columns :: "product_image \<Rightarrow> bool" where
  "image_columns i \<longleftrightarrow> fits_varchar 96 (im_bucket i) \<and> fits_varchar 512 (im_object_key i) \<and>
    fits_varchar 64 (im_checksum i) \<and> fits_varchar 96 (im_content_type i) \<and>
    0 \<le> im_size_bytes i \<and> im_size_bytes i < 2 ^ 64 \<and> fits_varchar 32 (im_role i) \<and> fits_int (im_sort_order i) \<and>
    case_option True (fits_varchar 255) (im_alt_text i)"

section \<open>Requests\<close>

record sku_create =
  nk_sku_code :: string
  nk_name :: string
  nk_specs :: "(string \<times> string) list"
  nk_price_amount :: int
  nk_original_price_amount :: int
  nk_purchase_limit :: int

record product_create =
  np_title :: string
  np_subtitle :: "string option"
  np_description :: "string option"
  np_category_id :: "int option"
  np_brand_id :: "int option"
  np_skus :: "sku_create list"

text \<open>The fields a request sets, in the order it names them.\<close>

datatype product_change =
    Set_Title "string option"
  | Set_Subtitle "string option"
  | Set_Description "string option"
  | Set_Category "int option"
  | Set_Brand "int option"

definition length_in :: "nat \<Rightarrow> nat \<Rightarrow> string \<Rightarrow> bool" where
  "length_in lo hi t \<longleftrightarrow> lo \<le> char_count t \<and> char_count t \<le> hi"

definition sku_create_valid :: "sku_create \<Rightarrow> bool" where
  "sku_create_valid b \<longleftrightarrow> length_in 1 96 (nk_sku_code b) \<and> length_in 1 200 (nk_name b) \<and>
    nk_price_amount b > 0 \<and> nk_original_price_amount b \<ge> 0 \<and> nk_purchase_limit b \<ge> 0"

definition product_create_valid :: "product_create \<Rightarrow> bool" where
  "product_create_valid b \<longleftrightarrow> length_in 1 200 (np_title b) \<and>
    case_option True (length_in 0 255) (np_subtitle b) \<and>
    case_option True (\<lambda>i. i > 0) (np_category_id b) \<and> case_option True (\<lambda>i. i > 0) (np_brand_id b) \<and>
    length (np_skus b) \<le> 50 \<and> list_all sku_create_valid (np_skus b)"

fun change_valid :: "product_change \<Rightarrow> bool" where
  "change_valid (Set_Title t) = (case t of None \<Rightarrow> False | Some v \<Rightarrow> length_in 1 200 v)"
| "change_valid (Set_Subtitle t) = case_option True (length_in 0 255) t"
| "change_valid (Set_Description t) = True"
| "change_valid (Set_Category i) = case_option True (\<lambda>v. v > 0) i"
| "change_valid (Set_Brand i) = case_option True (\<lambda>v. v > 0) i"

section \<open>Products and SKUs\<close>

definition catalog_merchant :: "principal \<Rightarrow> int result" where
  "catalog_merchant who =
    (case p_merchant_id who of
       None \<Rightarrow> app_raise (Auth PermissionDeniedError)
     | Some m \<Rightarrow> if p_is_staff who then ok m else app_raise (Auth PermissionDeniedError))"

definition owned_product :: "'a shop_scheme \<Rightarrow> principal \<Rightarrow> int \<Rightarrow> product result" where
  "owned_product s who product_id =
    bindE (catalog_merchant who) (\<lambda>m.
    case find (\<lambda>p. pd_id p = product_id \<and> pd_merchant_id p = Some m \<and> pd_deleted_at p = None) (products s) of
      None \<Rightarrow> app_raise (Catalog ProductNotFoundError)
    | Some p \<Rightarrow> ok p)"

definition check_references :: "'a catalogue_scheme \<Rightarrow> int \<Rightarrow> int option \<Rightarrow> int option \<Rightarrow> unit result" where
  "check_references s m category_id brand_id =
    require (case category_id of None \<Rightarrow> True | Some c \<Rightarrow>
        list_ex (\<lambda>g. cg_id g = c \<and> cg_merchant_id g = Some m \<and> cg_deleted_at g = None) (categories s))
      (AppError (Catalog CategoryNotFoundError))
    (require (case brand_id of None \<Rightarrow> True | Some b \<Rightarrow>
        list_ex (\<lambda>g. br_id g = b \<and> br_merchant_id g = Some m \<and> br_deleted_at g = None) (brands s))
      (AppError (Catalog BrandNotFoundError))
    (ok ()))"

text \<open>\<open>list_admin\<close>; \<open>contains\<close> is the substring match of the column's collation.\<close>

definition catalog_list_admin ::
  "(string \<Rightarrow> string \<Rightarrow> bool) \<Rightarrow> 'a shop_scheme \<Rightarrow> principal \<Rightarrow> nat \<Rightarrow> nat \<Rightarrow> string option \<Rightarrow> string option \<Rightarrow>
   (product list \<times> nat) result" where
  "catalog_list_admin contains s who page page_size keyword status =
    bindE (require_permission who ''product:read'') (\<lambda>_.
    bindE (catalog_merchant who) (\<lambda>m.
    let rows = filter (\<lambda>p. pd_merchant_id p = Some m \<and> pd_deleted_at p = None \<and>
          (case keyword of None \<Rightarrow> True | Some k \<Rightarrow> k = [] \<or> contains (strip_text k) (pd_name p)) \<and>
          (case status of None \<Rightarrow> True | Some t \<Rightarrow> t = [] \<or> pd_status p = t)) (products s)
    in ok (take page_size (drop ((page - 1) * page_size)
         (sort_key (\<lambda>p. - pd_created_at p) (sort_key (\<lambda>p. - pd_id p) rows))), length rows)))"

definition catalog_detail :: "'a shop_scheme \<Rightarrow> principal \<Rightarrow> int \<Rightarrow> product result" where
  "catalog_detail s who product_id =
    bindE (require_permission who ''product:read'') (\<lambda>_. owned_product s who product_id)"

definition skus_of :: "'a shop_scheme \<Rightarrow> int \<Rightarrow> product_sku list" where
  "skus_of s product_id = filter (\<lambda>k. sk_product_id k = product_id) (skus s)"

definition sellable :: "product_sku \<Rightarrow> bool" where
  "sellable k \<longleftrightarrow> sk_deleted_at k = None \<and> sk_status k = ''ACTIVE''"

text \<open>A JSON object of texts, as the column stores it.\<close>

definition specs_text :: "(string \<times> string) list \<Rightarrow> string" where
  "specs_text specs = ''{'' @ join_with (CHR '','') (map (\<lambda>(k, v). json_key k @ json_string v) specs) @ ''}''"

definition new_sku ::
  "'a shop_scheme \<Rightarrow> int \<Rightarrow> int \<Rightarrow> string \<Rightarrow> sku_create \<Rightarrow> product_sku result" where
  "new_sku s m product_id uuid b =
    (if list_ex (\<lambda>k. sk_code k = nk_sku_code b) (skus s) then app_raise (Common ConflictError)
     else ok \<lparr>sk_id = 0, sk_product_id = product_id, sk_name = nk_name b, sk_status = ''ACTIVE'',
       sk_price_amount = nk_price_amount b, sk_attribute_snapshot = Some (specs_text (nk_specs b)),
       sk_deleted_at = None, sk_merchant_id = Some m, sk_no = ''S'' @ take 24 uuid,
       sk_code = nk_sku_code b, sk_market_price_amount = nk_original_price_amount b, sk_cost_amount = 0,
       sk_purchase_limit = nk_purchase_limit b, sk_sort_order = 0\<rparr>)"

text \<open>The flush of a new row: error 1062 of a unique key is the caller's \<open>ConflictError\<close>.\<close>

definition insert_sku :: "'a shop_scheme \<Rightarrow> product_sku \<Rightarrow> 'a shop_scheme result" where
  "insert_sku s k =
    (let k' = k\<lparr>sk_id := fresh_id sk_id (skus s)\<rparr> in
     if \<not> sku_columns k' then raise (PythonError ''DataError'')
     else if list_ex (sku_clash k') (skus s) then app_raise (Common ConflictError)
     else if \<not> sku_checks k' then raise (IntegrityError ''product_skus'')
     else ok (s\<lparr>skus := skus s @ [k']\<rparr>))"

definition insert_product :: "'a shop_scheme \<Rightarrow> product \<Rightarrow> (product \<times> 'a shop_scheme) result" where
  "insert_product s p =
    (let p' = p\<lparr>pd_id := fresh_id pd_id (products s)\<rparr> in
     if \<not> product_columns p' then raise (PythonError ''DataError'')
     else if list_ex (product_clash p') (products s) \<or> \<not> product_checks p'
     then raise (IntegrityError ''products'')
     else ok (p', s\<lparr>products := products s @ [p']\<rparr>))"

definition active_prices :: "product_sku list \<Rightarrow> int list" where
  "active_prices ks = map sk_price_amount (filter sellable ks)"

definition least :: "int list \<Rightarrow> int" where
  "least ps = (case ps of [] \<Rightarrow> 0 | p # qs \<Rightarrow> foldl min p qs)"

definition greatest :: "int list \<Rightarrow> int" where
  "greatest ps = (case ps of [] \<Rightarrow> 0 | p # qs \<Rightarrow> foldl max p qs)"

definition refresh_prices :: "'a shop_scheme \<Rightarrow> product \<Rightarrow> product" where
  "refresh_prices s p =
    (let prices = active_prices (skus_of s (pd_id p))
     in p\<lparr>pd_min_price := least prices, pd_max_price := greatest prices\<rparr>)"

definition put_product :: "product \<Rightarrow> 'a shop_scheme \<Rightarrow> 'a shop_scheme" where
  "put_product p s = s\<lparr>products := put_row pd_id p (products s)\<rparr>"

text \<open>The flush of a changed product.\<close>

definition flush_product :: "product \<Rightarrow> 'a shop_scheme \<Rightarrow> 'a shop_scheme result" where
  "flush_product p s =
    (if product_columns p then ok (put_product p s) else raise (PythonError ''DataError''))"

text \<open>The SKUs of a new product are checked one by one and inserted in one flush.\<close>

definition product_create_rows ::
  "'a catalogue_scheme \<Rightarrow> principal \<Rightarrow> product_create \<Rightarrow> string \<Rightarrow> string list \<Rightarrow>
   (product \<times> 'a catalogue_scheme) result" where
  "product_create_rows s who b uuid sku_uuids =
    bindE (require_permission who ''product:write'') (\<lambda>_.
    bindE (catalog_merchant who) (\<lambda>m.
    bindE (check_references s m (np_category_id b) (np_brand_id b)) (\<lambda>_.
    require (distinct (map nk_sku_code (np_skus b))) (AppError (Common ConflictError))
    (bindE (insert_product s
        \<lparr>pd_id = 0, pd_merchant_id = Some m, pd_category_id = np_category_id b,
         pd_brand_id = np_brand_id b, pd_name = np_title b, pd_status = ''DRAFT'', pd_deleted_at = None,
         pd_no = ''P'' @ take 24 uuid, pd_slug = ''product-'' @ uuid, pd_subtitle = np_subtitle b,
         pd_description = np_description b, pd_published_at = None, pd_unpublished_at = None,
         pd_min_price = 0, pd_max_price = 0, pd_primary_image_object_key = None, pd_sales_count = 0,
         pd_sort_order = 0, pd_created_at = db_now s\<rparr>) (\<lambda>(p, s1).
     bindE (mapE (\<lambda>(u, k). new_sku s1 m (pd_id p) u k) (zip sku_uuids (np_skus b))) (\<lambda>rows.
     bindE (foldE insert_sku s1 rows) (\<lambda>s2.
     let p' = refresh_prices s2 p in bindE (flush_product p' s2) (\<lambda>s3. ok (p', s3)))))))))"

fun change_category :: "product_change list \<Rightarrow> int option" where
  "change_category [] = None"
| "change_category (Set_Category c # cs) = c"
| "change_category (_ # cs) = change_category cs"

fun change_brand :: "product_change list \<Rightarrow> int option" where
  "change_brand [] = None"
| "change_brand (Set_Brand c # cs) = c"
| "change_brand (_ # cs) = change_brand cs"

fun change_product :: "product \<Rightarrow> product_change \<Rightarrow> product" where
  "change_product p (Set_Title t) = p\<lparr>pd_name := case_option (pd_name p) id t\<rparr>"
| "change_product p (Set_Subtitle t) = p\<lparr>pd_subtitle := t\<rparr>"
| "change_product p (Set_Description t) = p\<lparr>pd_description := t\<rparr>"
| "change_product p (Set_Category c) = p\<lparr>pd_category_id := c\<rparr>"
| "change_product p (Set_Brand b) = p\<lparr>pd_brand_id := b\<rparr>"

definition product_update ::
  "'a catalogue_scheme \<Rightarrow> principal \<Rightarrow> int \<Rightarrow> product_change list \<Rightarrow> (product \<times> 'a catalogue_scheme) result"
where
  "product_update s who product_id changes =
    bindE (require_permission who ''product:write'') (\<lambda>_.
    bindE (owned_product s who product_id) (\<lambda>p.
    require (\<not> pd_status p = ''ARCHIVED'') (AppError (Catalog ProductStateInvalidError))
    (bindE (catalog_merchant who) (\<lambda>m.
     bindE (check_references s m (change_category changes) (change_brand changes)) (\<lambda>_.
     let p' = foldl change_product p changes in bindE (flush_product p' s) (\<lambda>s1. ok (p', s1)))))))"

definition product_add_sku ::
  "'a shop_scheme \<Rightarrow> principal \<Rightarrow> int \<Rightarrow> sku_create \<Rightarrow> string \<Rightarrow> 'a shop_scheme result" where
  "product_add_sku s who product_id b uuid =
    bindE (require_permission who ''product:write'') (\<lambda>_.
    bindE (owned_product s who product_id) (\<lambda>p.
    require (\<not> pd_status p = ''ARCHIVED'') (AppError (Catalog ProductStateInvalidError))
    (bindE (catalog_merchant who) (\<lambda>m.
     bindE (new_sku s m (pd_id p) uuid b) (\<lambda>k.
     bindE (insert_sku s k) (\<lambda>s1. flush_product (refresh_prices s1 p) s1))))))"

definition product_transition ::
  "'a shop_scheme \<Rightarrow> principal \<Rightarrow> int \<Rightarrow> bool \<Rightarrow> (product \<times> 'a shop_scheme) result" where
  "product_transition s who product_id publish =
    bindE (require_permission who ''product:publish'') (\<lambda>_.
    bindE (owned_product s who product_id) (\<lambda>p.
    if publish
    then require (\<not> pd_status p = ''PUBLISHED'') (AppError (Catalog ProductAlreadyPublishedError))
      (require (pd_status p \<in> {''DRAFT'', ''UNPUBLISHED''}) (AppError (Catalog ProductStateInvalidError))
      (require (list_ex (\<lambda>k. sellable k \<and> sk_price_amount k > 0) (skus_of s product_id))
        (AppError (Catalog ProductStateInvalidError))
      (let p' = (refresh_prices s p)\<lparr>pd_status := ''PUBLISHED'', pd_published_at := Some (db_now s)\<rparr>
       in bindE (flush_product p' s) (\<lambda>s1. ok (p', s1)))))
    else require (pd_status p = ''PUBLISHED'') (AppError (Catalog ProductStateInvalidError))
      (let p' = p\<lparr>pd_status := ''UNPUBLISHED'', pd_unpublished_at := Some (db_now s)\<rparr>
       in bindE (flush_product p' s) (\<lambda>s1. ok (p', s1)))))"

section \<open>Images\<close>

definition image_types :: "string list" where
  "image_types = [''image/jpeg'', ''image/png'', ''image/gif'', ''image/webp'', ''image/avif'']"

definition has_signature :: "string \<Rightarrow> string \<Rightarrow> bool" where
  "has_signature content_type content \<longleftrightarrow>
    (if content_type = ''image/jpeg'' then prefix jpeg_magic content
     else if content_type = ''image/png'' then prefix png_magic content
     else if content_type = ''image/gif'' then prefix ''GIF87a'' content \<or> prefix ''GIF89a'' content
     else if content_type = ''image/webp'' then prefix ''RIFF'' content \<and> take 4 (drop 8 content) = ''WEBP''
     else if content_type = ''image/avif''
     then take 8 (drop 4 content) = ''ftypavif'' \<or> take 8 (drop 4 content) = ''ftypavis''
     else False)"

definition verified_image_type ::
  "store_settings \<Rightarrow> string \<Rightarrow> string \<Rightarrow> string \<Rightarrow> string result" where
  "verified_image_type cf filename declared content =
    (case validate_upload (ss_env cf) filename declared (take 32 content) (int (length content))
        (int (ss_max_bytes cf)) of
       Inl _ \<Rightarrow> app_raise (Catalog ImageUploadRejectedError)
     | Inr t \<Rightarrow>
        require (\<not> (t \<notin> set image_types \<or> guess_content_type (ss_env cf) filename \<noteq> t))
          (AppError (Catalog ImageUploadRejectedError))
        (require (has_signature t content) (AppError (Catalog ImageUploadRejectedError)) (ok t)))"

text \<open>
  The storage the upload uses: its two calls on a state of its own. A \<open>put\<close> that raises is taken to
  have left nothing; a \<open>delete\<close> that raises leaves the object.
\<close>

definition is_storage_error :: "exn \<Rightarrow> bool" where
  "is_storage_error e \<longleftrightarrow> e \<in> {unsafe_key, unsupported_type, bucket_unavailable, object_not_found,
    object_too_large, checksum_mismatch}"

record 's store_port =
  sp_put :: "'s \<Rightarrow> string \<Rightarrow> string \<Rightarrow> string \<Rightarrow> string option \<Rightarrow> (stored_object \<times> 's) result"
  sp_delete :: "'s \<Rightarrow> string \<Rightarrow> string \<Rightarrow> 's result"

record image_upload =
  iu_filename :: string
  iu_declared_content_type :: string
  iu_content :: string
  iu_role :: string
  iu_alt_text :: "string option"

definition demote_primary :: "int \<Rightarrow> product_image list \<Rightarrow> product_image list" where
  "demote_primary product_id = map (\<lambda>i. if im_product_id i = product_id \<and> im_role i = ''PRIMARY''
    then i\<lparr>im_role := ''GALLERY''\<rparr> else i)"

text \<open>The metadata transaction, on the tables as they are after the object was written.\<close>

definition image_rows ::
  "'a shop_scheme \<Rightarrow> principal \<Rightarrow> int \<Rightarrow> image_upload \<Rightarrow> string \<Rightarrow> stored_object \<Rightarrow>
   (product_image \<times> 'a shop_scheme) result" where
  "image_rows s who product_id u key stored =
    bindE (owned_product s who product_id) (\<lambda>p.
    require (\<not> pd_status p = ''ARCHIVED'') (AppError (Catalog ProductStateInvalidError))
    (let others = (if iu_role u = ''PRIMARY'' then demote_primary (pd_id p) (images s) else images s);
         p' = (if iu_role u = ''PRIMARY'' then p\<lparr>pd_primary_image_object_key := Some key\<rparr> else p);
         i = \<lparr>im_id = fresh_id im_id (images s), im_product_id = pd_id p, im_role = iu_role u,
              im_sort_order = 0, im_object_key = so_object_key stored, im_merchant_id = pd_merchant_id p,
              im_bucket = so_bucket stored, im_checksum = so_checksum stored,
              im_content_type = so_content_type stored, im_size_bytes = so_size stored,
              im_alt_text = iu_alt_text u\<rparr>
     in if \<not> image_columns i then raise (PythonError ''DataError'')
        else if list_ex (image_clash i) others \<or> \<not> image_checks i
        then raise (IntegrityError ''product_images'')
        else bindE (flush_product p' (s\<lparr>images := others @ [i]\<rparr>)) (\<lambda>s1. ok (i, s1))))"

text \<open>Before any object is written: the checked type, and the key under a fresh name.\<close>

definition upload_checks ::
  "store_settings \<Rightarrow> 'a shop_scheme \<Rightarrow> principal \<Rightarrow> int \<Rightarrow> image_upload \<Rightarrow> string \<Rightarrow> (string \<times> string) result" where
  "upload_checks cf s who product_id u uuid =
    bindE (require_permission who ''product:write'') (\<lambda>_.
    bindE (owned_product s who product_id) (\<lambda>p.
    require (\<not> pd_status p = ''ARCHIVED'') (AppError (Catalog ProductStateInvalidError))
    (bindE (verified_image_type cf (iu_filename u) (iu_declared_content_type u) (iu_content u)) (\<lambda>t.
     bindE (build_object_key (ss_env cf)
         (''products/'' @ (case pd_merchant_id p of None \<Rightarrow> ''None'' | Some m \<Rightarrow> int_text m))
         (iu_filename u) (Some (int_text (pd_id p))) (Some uuid)) (\<lambda>key.
     ok (t, key))))))"

text \<open>
  \<open>s'\<close> are the tables when the short transaction takes the row lock: the upload held none while it
  wrote the object. The answer comes with the tables and the store it leaves.
\<close>

definition image_upload_service ::
  "store_settings \<Rightarrow> string \<Rightarrow> 's store_port \<Rightarrow> 'a shop_scheme \<Rightarrow> 'a shop_scheme \<Rightarrow> 's \<Rightarrow> principal \<Rightarrow> int \<Rightarrow>
   image_upload \<Rightarrow> string \<Rightarrow> product_image result \<times> 'a shop_scheme \<times> 's" where
  "image_upload_service cf bucket sp s s' st who product_id u uuid =
    (case upload_checks cf s who product_id u uuid of
       Inl e \<Rightarrow> (Inl e, s', st)
     | Inr (t, key) \<Rightarrow>
        (case sp_put sp st bucket key (iu_content u) (Some t) of
           Inl e \<Rightarrow>
            (if is_storage_error e \<or> e \<in> {PythonError ''HTTPError'', PythonError ''OSError''}
             then app_raise (Storage ObjectStorageUnavailableError) else Inl e, s', st)
         | Inr (stored, st1) \<Rightarrow>
            (case image_rows s' who product_id u key stored of
               Inr (i, s'') \<Rightarrow> (ok i, s'', st1)
             | Inl e \<Rightarrow>
                (Inl e, s', case sp_delete sp st1 bucket key of Inl _ \<Rightarrow> st1 | Inr st2 \<Rightarrow> st2))))"

end
