(* ===== verification/Catalog_Runs.thy ===== *)
theory Catalog_Runs
  imports Catalog Shop_Facts
begin

text \<open>
  What every operation of the console on the catalogue keeps: the constraints and keys of its rows,
  the cached price range of a product, a priced SKU behind every published product, and one primary
  image under the key the product names.
\<close>

section \<open>The invariant\<close>

text \<open>The checks of the tables with the bounds of the requests; then with the widths of the columns.\<close>

definition product_sound :: "product \<Rightarrow> bool" where
  "product_sound p \<longleftrightarrow> product_checks p \<and> length_in 1 200 (pd_name p) \<and>
    case_option True (length_in 0 255) (pd_subtitle p)"

definition sku_sound :: "product_sku \<Rightarrow> bool" where
  "sku_sound k \<longleftrightarrow> sku_checks k \<and> length_in 1 96 (sk_code k) \<and> length_in 1 200 (sk_name k) \<and>
    sk_price_amount k > 0 \<and> sk_purchase_limit k \<ge> 0"

definition product_typed :: "product \<Rightarrow> bool" where
  "product_typed p \<longleftrightarrow> product_sound p \<and> product_columns p"

definition sku_typed :: "product_sku \<Rightarrow> bool" where
  "sku_typed k \<longleftrightarrow> sku_sound k \<and> sku_columns k"

definition image_typed :: "product_image \<Rightarrow> bool" where
  "image_typed i \<longleftrightarrow> image_checks i \<and> image_columns i"

definition catalog_typed :: "'a shop_scheme \<Rightarrow> bool" where
  "catalog_typed s \<longleftrightarrow>
    list_all product_typed (products s) \<and> list_all sku_typed (skus s) \<and> list_all image_typed (images s)"

definition catalog_keys :: "'a shop_scheme \<Rightarrow> bool" where
  "catalog_keys s \<longleftrightarrow>
    distinct (map pd_id (products s)) \<and> distinct (map sk_id (skus s)) \<and> distinct (map sk_code (skus s)) \<and>
    distinct (map im_id (images s)) \<and> distinct (map im_object_key (images s)) \<and>
    sk_product_id ` set (skus s) \<subseteq> pd_id ` set (products s) \<and>
    im_product_id ` set (images s) \<subseteq> pd_id ` set (products s)"

definition priced :: "'a shop_scheme \<Rightarrow> product \<Rightarrow> bool" where
  "priced s p \<longleftrightarrow> pd_min_price p = least (active_prices (skus_of s (pd_id p))) \<and>
    pd_max_price p = greatest (active_prices (skus_of s (pd_id p)))"

definition offers :: "'a shop_scheme \<Rightarrow> product \<Rightarrow> bool" where
  "offers s p \<longleftrightarrow> (pd_status p = ''PUBLISHED'' \<longrightarrow>
    (\<exists>k \<in> set (skus_of s (pd_id p)). sellable k \<and> sk_price_amount k > 0))"

definition primaries :: "'a shop_scheme \<Rightarrow> int \<Rightarrow> string list" where
  "primaries s i = map im_object_key
    (filter (\<lambda>m. im_product_id m = i \<and> im_role m = ''PRIMARY'') (images s))"

definition pictured :: "'a shop_scheme \<Rightarrow> product \<Rightarrow> bool" where
  "pictured s p \<longleftrightarrow> primaries s (pd_id p) =
    (case pd_primary_image_object_key p of None \<Rightarrow> [] | Some k \<Rightarrow> [k])"

definition catalog_wf :: "'a shop_scheme \<Rightarrow> bool" where
  "catalog_wf s \<longleftrightarrow> catalog_typed s \<and> catalog_keys s \<and>
    (\<forall>p \<in> set (products s). priced s p \<and> offers s p \<and> pictured s p)"

named_theorems catalog_defs

lemmas [catalog_defs] = catalog_wf_def catalog_typed_def catalog_keys_def priced_def offers_def
  pictured_def primaries_def skus_of_def

section \<open>Parts of the operations\<close>

lemma flush_product_ok: "flush_product p s = ok s' \<longleftrightarrow> product_columns p \<and> s' = put_product p s"
  by (auto simp: flush_product_def)

lemma owned_product_Some:
  "owned_product s who i = ok p \<Longrightarrow> p \<in> set (products s) \<and> pd_id p = i"
  by (auto simp: owned_product_def rsimps split: option.splits dest: find_SomeD)

text \<open>Writing back a product whose id and price range fit the tables.\<close>

lemma put_product_wf:
  assumes wf: "catalog_typed s" "catalog_keys s"
    and others: "\<And>q. q \<in> set (products s) \<Longrightarrow> pd_id q \<noteq> pd_id p \<Longrightarrow> priced s q \<and> offers s q \<and> pictured s q"
    and p: "product_typed p" "priced s p" "offers s p" "pictured s p"
  shows "catalog_wf (put_product p s)"
proof -
  have ids: "map pd_id (products (put_product p s)) = map pd_id (products s)"
    and same: "skus (put_product p s) = skus s" "images (put_product p s) = images s"
    by (simp_all add: put_product_def)
  have q: "q = p \<or> q \<in> set (products s) \<and> pd_id q \<noteq> pd_id p"
    if "q \<in> set (products (put_product p s))" for q
    using that by (auto simp: put_product_def put_row_def)
  have "product_typed q" if "q \<in> set (products (put_product p s))" for q
    using q [OF that] wf(1) p(1) by (auto simp: catalog_typed_def list_all_iff)
  moreover have "pd_id ` set (products (put_product p s)) = pd_id ` set (products s)"
    using arg_cong [OF ids, of set] by simp
  moreover have "priced s q \<and> offers s q \<and> pictured s q" if "q \<in> set (products (put_product p s))" for q
    using q [OF that] others p by blast
  ultimately show ?thesis
    using wf ids same by (auto simp: catalog_defs list_all_iff)
qed

lemma insert_sku_ok:
  assumes "insert_sku s k = ok s'"
  obtains k' where "k' = k\<lparr>sk_id := fresh_id sk_id (skus s)\<rparr>" and "s' = s\<lparr>skus := skus s @ [k']\<rparr>"
    and "sku_checks k'" and "sku_columns k'" and "sk_code k' \<notin> sk_code ` set (skus s)"
  using assms by (auto simp: insert_sku_def Let_def sku_clash_def list_ex_iff split: if_splits)

lemma insert_sku_keeps:
  assumes "insert_sku s k = ok s'" and "catalog_typed s" and "catalog_keys s"
    and "sk_product_id k \<in> pd_id ` set (products s)" and "sku_sound k"
  shows "catalog_typed s' \<and> catalog_keys s' \<and> products s' = products s \<and> images s' = images s \<and>
    set (skus s) \<subseteq> set (skus s') \<and>
    (\<forall>i. i \<noteq> sk_product_id k \<longrightarrow> skus_of s' i = skus_of s i)"
proof -
  obtain k' where k': "k' = k\<lparr>sk_id := fresh_id sk_id (skus s)\<rparr>" "s' = s\<lparr>skus := skus s @ [k']\<rparr>"
    "sku_checks k'" "sku_columns k'" "sk_code k' \<notin> sk_code ` set (skus s)" by (rule insert_sku_ok [OF assms(1)])
  then show ?thesis
    using assms(2-5) fresh_id_new [of sk_id "skus s"]
    by (auto simp: catalog_typed_def catalog_keys_def skus_of_def sku_sound_def sku_typed_def)
qed

lemma insert_skus_keep:
  assumes "foldE insert_sku s ks = ok s'" and "catalog_typed s" and "catalog_keys s"
    and "list_all (\<lambda>k. sk_product_id k = i \<and> sku_sound k) ks" and "i \<in> pd_id ` set (products s)"
  shows "catalog_typed s' \<and> catalog_keys s' \<and> products s' = products s \<and> images s' = images s \<and>
    set (skus s) \<subseteq> set (skus s') \<and> (\<forall>j. j \<noteq> i \<longrightarrow> skus_of s' j = skus_of s j)"
  using assms
proof (induction ks arbitrary: s)
  case Nil
  then show ?case by simp
next
  case (Cons k ks)
  obtain t where t: "insert_sku s k = ok t" "foldE insert_sku t ks = ok s'"
    using Cons.prems(1) by (auto simp: rsimps)
  have step: "catalog_typed t \<and> catalog_keys t \<and> products t = products s \<and> images t = images s \<and>
      set (skus s) \<subseteq> set (skus t) \<and> (\<forall>j. j \<noteq> i \<longrightarrow> skus_of t j = skus_of s j)"
    using insert_sku_keeps [OF t(1)] Cons.prems by auto
  then have "catalog_typed s' \<and> catalog_keys s' \<and> products s' = products t \<and> images s' = images t \<and>
      set (skus t) \<subseteq> set (skus s') \<and> (\<forall>j. j \<noteq> i \<longrightarrow> skus_of s' j = skus_of t j)"
    using Cons.IH [OF t(2)] Cons.prems by simp
  with step show ?case by auto
qed

lemma refreshed [simp]:
  "pd_id (refresh_prices s p) = pd_id p" "pd_status (refresh_prices s p) = pd_status p"
  "pd_primary_image_object_key (refresh_prices s p) = pd_primary_image_object_key p"
  "pd_name (refresh_prices s p) = pd_name p" "pd_subtitle (refresh_prices s p) = pd_subtitle p"
  "priced s (refresh_prices s p)"
  by (simp_all add: refresh_prices_def priced_def Let_def)

lemma refreshed_typed [simp]: "product_sound (refresh_prices s p) = product_sound p"
  by (simp add: product_sound_def product_checks_def refresh_prices_def Let_def)

lemma offers_mono:
  assumes "offers s p" and "set (skus s) \<subseteq> set (skus s')"
  shows "offers s' p"
  using assms by (auto simp: offers_def skus_of_def)

text \<open>After SKUs were added to one product and its range refreshed.\<close>

lemma skus_added_wf:
  assumes wf: "catalog_typed t" "catalog_keys t"
    and before: "\<And>q. q \<in> set (products t) \<Longrightarrow> pd_id q \<noteq> pd_id p \<Longrightarrow> priced s q \<and> offers s q \<and> pictured s q"
    and same: "images t = images s" "set (skus s) \<subseteq> set (skus t)"
      "\<forall>j. j \<noteq> pd_id p \<longrightarrow> skus_of t j = skus_of s j"
    and p: "product_sound p" "product_columns (refresh_prices t p)" "offers s p" "pictured s p"
  shows "catalog_wf (put_product (refresh_prices t p) t)"
proof (rule put_product_wf [OF wf])
  show "priced t q \<and> offers t q \<and> pictured t q"
    if "q \<in> set (products t)" "pd_id q \<noteq> pd_id (refresh_prices t p)" for q
    using before [of q] that same offers_mono [OF _ same(2), of q]
    by (auto simp: priced_def pictured_def primaries_def)
  show "offers t (refresh_prices t p)" using offers_mono [OF p(3) same(2)] by (simp add: offers_def)
  show "pictured t (refresh_prices t p)" using p(4) same(1) by (simp add: pictured_def primaries_def)
  show "product_typed (refresh_prices t p)" using p(1,2) by (simp add: product_typed_def)
qed simp

section \<open>Every operation keeps it\<close>

lemma new_sku_ok:
  "new_sku s m i u b = ok k \<Longrightarrow> sku_create_valid b \<Longrightarrow> sk_product_id k = i \<and> sku_sound k"
  by (auto simp: new_sku_def sku_create_valid_def sku_sound_def sku_checks_def split: if_splits)

lemma insert_product_ok:
  assumes "insert_product s p0 = ok (p, s1)"
  shows "p = p0\<lparr>pd_id := fresh_id pd_id (products s)\<rparr> \<and> product_checks p \<and> product_columns p \<and>
    s1 = s\<lparr>products := products s @ [p]\<rparr>"
  using assms by (auto simp: insert_product_def Let_def split: if_splits)

lemma product_create_ok:
  assumes "product_create_rows s who b uuid uuids = ok (p', s')" and valid: "product_create_valid b"
  obtains p s1 rows s2 where "pd_id p = fresh_id pd_id (products s)"
    and "list_all (\<lambda>k. sk_product_id k = pd_id p \<and> sku_sound k) rows" "foldE insert_sku s1 rows = ok s2"
    and "s' = put_product (refresh_prices s2 p) s2" "pd_status p = ''DRAFT''"
    and "pd_primary_image_object_key p = None" "product_typed p" "s1 = s\<lparr>products := products s @ [p]\<rparr>"
    and "product_columns (refresh_prices s2 p)"
proof -
  obtain m p0 p s1 rows s2 where *: "insert_product s p0 = ok (p, s1)"
    "pd_name p0 = np_title b" "pd_subtitle p0 = np_subtitle b" "pd_status p0 = ''DRAFT''" "pd_primary_image_object_key p0 = None"
    "mapE (\<lambda>(u, k). new_sku s1 m (pd_id p) u k) (zip uuids (np_skus b)) = ok rows"
    "foldE insert_sku s1 rows = ok s2" "s' = put_product (refresh_prices s2 p) s2"
    "product_columns (refresh_prices s2 p)"
    using assms by (auto simp: product_create_rows_def rsimps Let_def flush_product_ok)
  have skus: "b' \<in> set (np_skus b) \<Longrightarrow> sku_create_valid b'" for b'
    using valid by (simp add: product_create_valid_def list_all_iff)
  have "list_all (\<lambda>k. sk_product_id k = pd_id p \<and> sku_sound k) rows"
    unfolding list_all_iff using mapE_Inr_member [OF *(6)] new_sku_ok skus by (fastforce dest: set_zip_rightD)
  with * valid insert_product_ok [OF *(1)] show ?thesis
    by (intro that [of p rows s1 s2]) (auto simp: product_typed_def product_sound_def product_create_valid_def)
qed

lemma product_create_wf:
  assumes "product_create_rows s who b uuid uuids = ok (p', s')" and valid: "product_create_valid b"
    and wf: "catalog_wf s"
  shows "catalog_wf s'"
proof -
  obtain p s1 rows s2 where p: "pd_id p = fresh_id pd_id (products s)" "product_typed p" "product_columns (refresh_prices s2 p)"
      "pd_status p = ''DRAFT''" "pd_primary_image_object_key p = None"
    and s1: "s1 = s\<lparr>products := products s @ [p]\<rparr>"
    and rows: "list_all (\<lambda>k. sk_product_id k = pd_id p \<and> sku_sound k) rows" "foldE insert_sku s1 rows = ok s2"
    and s': "s' = put_product (refresh_prices s2 p) s2"
    by (rule product_create_ok [OF assms(1) valid])
  have new: "pd_id p \<notin> pd_id ` set (products s)"
    using fresh_id_new [of pd_id "products s"] p(1) by simp
  have t1: "catalog_typed s1" "catalog_keys s1"
    using wf new p(2) by (auto simp: catalog_wf_def catalog_typed_def catalog_keys_def s1)
  have same1: "skus s1 = skus s" "images s1 = images s" "skus_of s1 i = skus_of s i" for i
    by (simp_all add: s1 skus_of_def)
  have keep: "catalog_typed s2 \<and> catalog_keys s2 \<and> products s2 = products s1 \<and> images s2 = images s1 \<and>
      set (skus s1) \<subseteq> set (skus s2) \<and> (\<forall>j. j \<noteq> pd_id p \<longrightarrow> skus_of s2 j = skus_of s1 j)"
    by (rule insert_skus_keep [OF rows(2) t1 rows(1)]) (simp add: s1)
  have "im_product_id i \<noteq> pd_id p" if "i \<in> set (images s)" for i
    using wf new image_eqI [OF refl that, of im_product_id] by (auto simp: catalog_wf_def catalog_keys_def)
  then have "primaries s (pd_id p) = []" by (simp add: primaries_def)
  moreover have "priced s q \<and> offers s q \<and> pictured s q"
    if "q \<in> set (products s2)" "pd_id q \<noteq> pd_id p" for q
    using wf keep that by (auto simp: catalog_wf_def s1)
  ultimately show ?thesis
    unfolding s' using keep same1 p by (intro skus_added_wf) (auto simp: pictured_def offers_def product_typed_def)
qed

lemma change_product_keeps [simp]:
  "pd_id (foldl change_product p cs) = pd_id p" "pd_status (foldl change_product p cs) = pd_status p"
  "pd_min_price (foldl change_product p cs) = pd_min_price p"
  "pd_max_price (foldl change_product p cs) = pd_max_price p"
  "pd_primary_image_object_key (foldl change_product p cs) = pd_primary_image_object_key p"
  "pd_merchant_id (foldl change_product p cs) = pd_merchant_id p"
proof (induction cs arbitrary: p)
  case (Cons c cs)
  { case 1 show ?case using Cons by (cases c) simp_all }
  { case 2 show ?case using Cons by (cases c) simp_all }
  { case 3 show ?case using Cons by (cases c) simp_all }
  { case 4 show ?case using Cons by (cases c) simp_all }
  { case 5 show ?case using Cons by (cases c) simp_all }
  { case 6 show ?case using Cons by (cases c) simp_all }
qed simp_all

lemma wf_row:
  assumes "catalog_wf s" and "p \<in> set (products s)"
  shows "product_typed p" "product_sound p" "priced s p" "offers s p" "pictured s p"
  using assms by (auto simp: catalog_wf_def catalog_typed_def list_all_iff product_typed_def)

text \<open>Writing back a product that kept its id in an unchanged catalogue.\<close>

lemma put_back_wf:
  assumes wf: "catalog_wf s" and "product_sound p" "product_columns p" "priced s p" "offers s p" "pictured s p"
  shows "catalog_wf (put_product p s)"
  using assms by (intro put_product_wf) (auto simp: catalog_wf_def product_typed_def)

lemma changed_typed:
  assumes "list_all change_valid cs" and "product_sound p"
  shows "product_sound (foldl change_product p cs)"
  using assms
proof (induction cs arbitrary: p)
  case (Cons c cs)
  then have "product_sound (change_product p c)"
    by (cases c) (auto simp: product_sound_def product_checks_def split: option.splits)
  with Cons show ?case by simp
qed simp

lemma product_update_wf:
  assumes "product_update s who i cs = ok (p', s')" and valid: "list_all change_valid cs" and wf: "catalog_wf s"
  shows "catalog_wf s'"
proof -
  obtain p where p: "owned_product s who i = ok p" and s': "s' = put_product (foldl change_product p cs) s"
      and fits: "product_columns (foldl change_product p cs)"
    using assms(1) by (auto simp: product_update_def rsimps Let_def flush_product_ok)
  note row = wf_row [OF wf owned_product_Some [OF p, THEN conjunct1]]
  show ?thesis unfolding s' using row fits
    by (intro put_back_wf [OF wf] changed_typed [OF valid])
      (simp_all add: priced_def offers_def pictured_def)
qed

lemma product_add_sku_wf:
  assumes "product_add_sku s who i b uuid = ok s'" and valid: "sku_create_valid b" and wf: "catalog_wf s"
  shows "catalog_wf s'"
proof -
  obtain m p k s1 where p: "owned_product s who i = ok p" and k: "new_sku s m (pd_id p) uuid b = ok k"
    and s1: "insert_sku s k = ok s1" and s': "s' = put_product (refresh_prices s1 p) s1"
      and fits: "product_columns (refresh_prices s1 p)"
    using assms(1) by (auto simp: product_add_sku_def rsimps flush_product_ok)
  have mem: "p \<in> set (products s)" using owned_product_Some [OF p] by simp
  have keep: "catalog_typed s1 \<and> catalog_keys s1 \<and> products s1 = products s \<and> images s1 = images s \<and>
      set (skus s) \<subseteq> set (skus s1) \<and> (\<forall>j. j \<noteq> sk_product_id k \<longrightarrow> skus_of s1 j = skus_of s j)"
    using wf mem new_sku_ok [OF k valid] by (intro insert_sku_keeps [OF s1]) (auto simp: catalog_wf_def)
  show ?thesis
    unfolding s' using keep wf_row [OF wf] mem new_sku_ok [OF k valid] fits by (intro skus_added_wf) auto
qed

lemma product_transition_wf:
  assumes "product_transition s who i publish = ok (p', s')" and wf: "catalog_wf s"
  shows "catalog_wf s'"
proof -
  obtain p where p: "owned_product s who i = ok p" using assms(1) by (auto simp: product_transition_def rsimps)
  note row = wf_row [OF wf owned_product_Some [OF p, THEN conjunct1]]
  have i: "pd_id p = i" using owned_product_Some [OF p] by simp
  show ?thesis
  proof (cases publish)
    case True
    then have s': "s' = put_product ((refresh_prices s p)\<lparr>pd_status := ''PUBLISHED'', pd_published_at := Some (db_now s)\<rparr>) s"
      and some: "list_ex (\<lambda>k. sellable k \<and> sk_price_amount k > 0) (skus_of s i)"
      and fits: "product_columns ((refresh_prices s p)\<lparr>pd_status := ''PUBLISHED'', pd_published_at := Some (db_now s)\<rparr>)"
      using assms(1) p by (auto simp: product_transition_def rsimps Let_def flush_product_ok)
    show ?thesis unfolding s' using row some i fits refreshed(6) [of s p]
      by (intro put_back_wf [OF wf])
        (auto simp: product_sound_def product_checks_def priced_def offers_def pictured_def list_ex_iff)
  next
    case False
    then have s': "s' = put_product (p\<lparr>pd_status := ''UNPUBLISHED'', pd_unpublished_at := Some (db_now s)\<rparr>) s"
      and fits: "product_columns (p\<lparr>pd_status := ''UNPUBLISHED'', pd_unpublished_at := Some (db_now s)\<rparr>)"
      using assms(1) p by (auto simp: product_transition_def rsimps Let_def flush_product_ok)
    show ?thesis unfolding s' using row fits
      by (intro put_back_wf [OF wf]) (auto simp: product_sound_def product_checks_def priced_def offers_def pictured_def)
  qed
qed

section \<open>The upload\<close>

lemma demoted [simp]:
  "map im_id (demote_primary i ms) = map im_id ms"
  "map im_object_key (demote_primary i ms) = map im_object_key ms"
  "map im_product_id (demote_primary i ms) = map im_product_id ms"
  "list_all image_typed ms \<Longrightarrow> list_all image_typed (demote_primary i ms)"
  by (auto simp: demote_primary_def image_typed_def image_checks_def image_columns_def fits_varchar_def list_all_iff
      char_count_def)

lemma demoted_products [simp]: "im_product_id ` set (demote_primary i ms) = im_product_id ` set ms"
  using arg_cong [OF demoted(3), of set i ms] by (simp del: demoted)

lemma demoted_primaries:
  "map im_object_key (filter (\<lambda>m. im_product_id m = j \<and> im_role m = ''PRIMARY'') (demote_primary i ms)) =
    (if j = i then []
     else map im_object_key (filter (\<lambda>m. im_product_id m = j \<and> im_role m = ''PRIMARY'') ms))"
  by (induction ms) (auto simp: demote_primary_def)

lemma image_rows_ok:
  assumes "image_rows s who i u key o' = ok (m, s')"
  obtains p others where "owned_product s who i = ok p" "pd_status p \<noteq> ''ARCHIVED''"
    and "others = (if iu_role u = ''PRIMARY'' then demote_primary (pd_id p) (images s) else images s)"
    and "s' = put_product (if iu_role u = ''PRIMARY'' then p\<lparr>pd_primary_image_object_key := Some key\<rparr> else p)
      (s\<lparr>images := others @ [m]\<rparr>)"
    and "product_columns (if iu_role u = ''PRIMARY'' then p\<lparr>pd_primary_image_object_key := Some key\<rparr> else p)"
    and "\<not> list_ex (image_clash m) others" "image_typed m" "im_product_id m = pd_id p"
    and "im_role m = iu_role u" "im_object_key m = so_object_key o'" "im_bucket m = so_bucket o'"
    and "im_checksum m = so_checksum o'" "im_size_bytes m = so_size o'"
  using assms that unfolding image_rows_def
  by (auto simp: rsimps Let_def flush_product_ok image_typed_def split: if_splits)

lemma image_rows_wf:
  assumes "image_rows s who i u key o' = ok (m, s')" and wf: "catalog_wf s"
    and named: "so_object_key o' = key"
  shows "catalog_wf s'"
proof -
  obtain p others where p: "owned_product s who i = ok p"
    and others: "others = (if iu_role u = ''PRIMARY'' then demote_primary (pd_id p) (images s) else images s)"
    and s': "s' = put_product (if iu_role u = ''PRIMARY'' then p\<lparr>pd_primary_image_object_key := Some key\<rparr> else p)
      (s\<lparr>images := others @ [m]\<rparr>)"
    and fits: "product_columns (if iu_role u = ''PRIMARY'' then p\<lparr>pd_primary_image_object_key := Some key\<rparr> else p)"
    and m: "\<not> list_ex (image_clash m) others" "image_typed m" "im_product_id m = pd_id p"
      "im_role m = iu_role u" "im_object_key m = so_object_key o'"
    by (rule image_rows_ok [OF assms(1)])
  let ?t = "s\<lparr>images := others @ [m]\<rparr>"
  have mem: "p \<in> set (products s)" using owned_product_Some [OF p] by simp
  note row = wf_row [OF wf mem]
  have cols: "map im_id others = map im_id (images s)"
    "map im_object_key others = map im_object_key (images s)"
    "im_product_id ` set others = im_product_id ` set (images s)" "list_all image_typed others"
    using wf by (auto simp: others catalog_wf_def catalog_typed_def)
  have "im_id m \<notin> set (map im_id others)" "im_object_key m \<notin> set (map im_object_key others)"
    using m(1) by (auto simp: list_ex_iff image_clash_def)
  then have t: "catalog_typed ?t" "catalog_keys ?t"
    using wf cols m(2,3) mem by (auto simp: catalog_wf_def catalog_typed_def catalog_keys_def)
  have same: "priced ?t q = priced s q" "offers ?t q = offers s q" "skus_of ?t i = skus_of s i" for q i
    by (simp_all add: priced_def offers_def skus_of_def)
  have other: "primaries ?t j = primaries s j" if "j \<noteq> pd_id p" for j
    using that m(3) by (simp add: primaries_def others demoted_primaries)
  have mine: "primaries ?t (pd_id p) = (if iu_role u = ''PRIMARY'' then [key] else primaries s (pd_id p))"
    using m(3-5) named by (simp add: primaries_def others demoted_primaries)
  show ?thesis unfolding s'
  proof (rule put_product_wf [OF t])
    show "priced ?t q \<and> offers ?t q \<and> pictured ?t q"
      if "q \<in> set (products ?t)" "pd_id q \<noteq> pd_id (if iu_role u = ''PRIMARY''
        then p\<lparr>pd_primary_image_object_key := Some key\<rparr> else p)" for q
      using that wf_row [OF wf, of q] other [of "pd_id q"]
      by (auto simp: same pictured_def split: if_splits)
  qed (use row mine fits in \<open>auto simp: same pictured_def product_typed_def product_sound_def product_checks_def priced_def offers_def\<close>)
qed

definition put_names :: "'s store_port \<Rightarrow> bool" where
  "put_names sp \<longleftrightarrow> (\<forall>st b k d t o' st'. sp_put sp st b k d t = ok (o', st') \<longrightarrow> so_object_key o' = k)"

lemma image_upload_wf:
  assumes "image_upload_service cf bucket sp s0 s st who i u uuid = (a, s', st')" and "catalog_wf s"
    and "put_names sp"
  shows "catalog_wf s'"
  using assms image_rows_wf
  by (fastforce simp: image_upload_service_def put_names_def split: sum.splits prod.splits)

section \<open>Runs of the console\<close>

text \<open>
  One transaction on the tables and the store. The metadata of an upload meets the tables the other
  transactions have made of those it read. The rest of the program does not write these three tables.
\<close>

inductive catalog_step ::
  "store_settings \<Rightarrow> string \<Rightarrow> 's store_port \<Rightarrow> 'a catalogue_scheme \<times> 's \<Rightarrow> 'a catalogue_scheme \<times> 's \<Rightarrow> bool"
  for cf bucket sp where
  creates: "product_create_valid b \<Longrightarrow> product_create_rows s who b uuid uuids = ok (p, s') \<Longrightarrow>
    catalog_step cf bucket sp (s, st) (s', st)"
| updates: "list_all change_valid cs \<Longrightarrow> product_update s who i cs = ok (p, s') \<Longrightarrow>
    catalog_step cf bucket sp (s, st) (s', st)"
| adds: "sku_create_valid k \<Longrightarrow> product_add_sku s who i k uuid = ok s' \<Longrightarrow>
    catalog_step cf bucket sp (s, st) (s', st)"
| transitions: "product_transition s who i publish = ok (p, s') \<Longrightarrow>
    catalog_step cf bucket sp (s, st) (s', st)"
| uploads: "image_upload_service cf bucket sp s0 s st who i u uuid = (a, s', st') \<Longrightarrow>
    catalog_step cf bucket sp (s, st) (s', st')"
| others: "products s' = products s \<Longrightarrow> skus s' = skus s \<Longrightarrow> images s' = images s \<Longrightarrow>
    catalog_step cf bucket sp (s, st) (s', st)"

lemma catalog_step_wf:
  assumes "catalog_step cf bucket sp (s, st) (s', st')" and "put_names sp" and "catalog_wf s"
  shows "catalog_wf s'"
  using assms
proof (cases rule: catalog_step.cases)
  case others
  then show ?thesis using assms(3) by (simp add: catalog_defs)
qed (use assms in \<open>blast intro: product_create_wf product_update_wf product_add_sku_wf
  product_transition_wf image_upload_wf\<close>)+

lemma catalog_run_wf:
  assumes "(catalog_step cf bucket sp)\<^sup>*\<^sup>* (s, st) (s', st')" and "put_names sp" and "catalog_wf s"
  shows "catalog_wf s'"
  using assms(1)
proof (induction rule: rtranclp_induct2)
  case refl
  show ?case by (rule assms(3))
next
  case (step t ut t' ut')
  then show ?case by (intro catalog_step_wf [OF step(2) assms(2)])
qed

end
