(* ===== verification/Catalog_Public.thy ===== *)
theory Catalog_Public
  imports Catalog
begin

text \<open>
  \<open>catalog/public_service.py\<close>: what the storefront reads, as payloads. \<open>presigned\<close> is the answer of
  the object store for a key, \<open>contains\<close> the substring match of the column's collation.
\<close>

section \<open>One product\<close>

record product_summary =
  su_id :: int
  su_title :: string
  su_cover_url :: "string option"
  su_min_price_amount :: int
  su_original_price_amount :: "int option"
  su_sales_count :: int
  su_brand_name :: "string option"
  su_tags :: "string list"
  su_status :: string

record sku_view =
  sv_id :: int
  sv_product_id :: int
  sv_sku_code :: string
  sv_specs :: string
  sv_price_amount :: int
  sv_original_price_amount :: "int option"
  sv_available_stock :: int
  sv_status :: string

record image_data =
  iv_id :: int
  iv_url :: string
  iv_alt :: "string option"
  iv_sort_order :: int

record product_data = product_summary +
  dv_subtitle :: "string option"
  dv_description :: "string option"
  dv_category :: "(int \<times> string) option"
  dv_brand :: "(int \<times> string) option"
  dv_images :: "image_data list"
  dv_skus :: "sku_view list"
  dv_max_price_amount :: int
  dv_created_at :: int

record page_info =
  pg_page :: int
  pg_page_size :: int
  pg_total :: int
  pg_total_pages :: int

definition page_meta :: "int \<Rightarrow> int \<Rightarrow> int \<Rightarrow> page_info" where
  "page_meta page page_size n =
    \<lparr>pg_page = page, pg_page_size = page_size, pg_total = n,
     pg_total_pages = (if n \<noteq> 0 then (n + page_size - 1) div page_size else 0)\<rparr>"

definition page_of :: "nat \<Rightarrow> nat \<Rightarrow> 'r list \<Rightarrow> 'r list" where
  "page_of page page_size rows = take page_size (drop ((page - 1) * page_size) rows)"

text \<open>Only a \<open>StorageError\<close> means no URL; another exception leaves the endpoint.\<close>

definition image_url ::
  "(string \<Rightarrow> string \<Rightarrow> string result) \<Rightarrow> product_image \<Rightarrow> string option result" where
  "image_url presigned i =
    (case presigned (im_bucket i) (im_object_key i) of
       Inr url \<Rightarrow> ok (Some url)
     | Inl e \<Rightarrow> if is_storage_error e then ok None else Inl e)"

definition active_skus :: "'a shop_scheme \<Rightarrow> int \<Rightarrow> product_sku list" where
  "active_skus s i = sort_key sk_sort_order (sort_key sk_id (filter sellable (skus_of s i)))"

definition cheapest :: "product_sku list \<Rightarrow> product_sku option" where
  "cheapest ks = (case sort_key sk_price_amount (sort_key sk_id ks) of [] \<Rightarrow> None | k # _ \<Rightarrow> Some k)"

definition struck_price :: "product_sku \<Rightarrow> int option" where
  "struck_price k =
    (if sk_market_price_amount k > sk_price_amount k then Some (sk_market_price_amount k) else None)"

definition images_of :: "'a shop_scheme \<Rightarrow> int \<Rightarrow> product_image list" where
  "images_of s i = filter (\<lambda>m. im_product_id m = i) (images s)"

definition brand_of :: "'a catalogue_scheme \<Rightarrow> product \<Rightarrow> brand option" where
  "brand_of s p = (case pd_brand_id p of None \<Rightarrow> None | Some b \<Rightarrow> find (\<lambda>r. br_id r = b) (brands s))"

definition category_of :: "'a catalogue_scheme \<Rightarrow> product \<Rightarrow> category option" where
  "category_of s p =
    (case pd_category_id p of None \<Rightarrow> None | Some c \<Rightarrow> find (\<lambda>r. cg_id r = c) (categories s))"

definition summary_data ::
  "(string \<Rightarrow> string \<Rightarrow> string result) \<Rightarrow> 'a catalogue_scheme \<Rightarrow> product \<Rightarrow> product_summary result" where
  "summary_data presigned s p =
    (let best = cheapest (active_skus s (pd_id p)) in
     bindE (case find (\<lambda>m. im_role m = ''PRIMARY'') (images_of s (pd_id p)) of
         None \<Rightarrow> ok None | Some m \<Rightarrow> image_url presigned m) (\<lambda>cover.
     ok \<lparr>su_id = pd_id p, su_title = pd_name p, su_cover_url = cover,
       su_min_price_amount = (case best of None \<Rightarrow> 0 | Some k \<Rightarrow> sk_price_amount k),
       su_original_price_amount = Option.bind best struck_price,
       su_sales_count = pd_sales_count p, su_brand_name = map_option br_name (brand_of s p),
       su_tags = [], su_status = pd_status p\<rparr>))"

section \<open>The list\<close>

text \<open>One row per product with an active SKU: the cheapest price.\<close>

definition live_price :: "'a shop_scheme \<Rightarrow> int \<Rightarrow> int option" where
  "live_price s i =
    (case active_prices (skus_of s i) of [] \<Rightarrow> None | p # ps \<Rightarrow> Some (foldl min p ps))"

record list_query =
  lq_keyword :: "string option"
  lq_category_id :: "int option"
  lq_brand_id :: "int option"
  lq_min_price_amount :: "int option"
  lq_max_price_amount :: "int option"

definition public_filter ::
  "(string \<Rightarrow> string \<Rightarrow> bool) \<Rightarrow> 'a shop_scheme \<Rightarrow> list_query \<Rightarrow> product \<Rightarrow> bool" where
  "public_filter contains s q p \<longleftrightarrow>
    pd_status p = ''PUBLISHED'' \<and> pd_deleted_at p = None \<and>
    (case lq_keyword q of None \<Rightarrow> True | Some k \<Rightarrow> k = [] \<or> contains (strip_text k) (pd_name p)) \<and>
    (case lq_category_id q of None \<Rightarrow> True | Some c \<Rightarrow> pd_category_id p = Some c) \<and>
    (case lq_brand_id q of None \<Rightarrow> True | Some b \<Rightarrow> pd_brand_id p = Some b) \<and>
    (case live_price s (pd_id p) of
       None \<Rightarrow> False
     | Some c \<Rightarrow>
        (case lq_min_price_amount q of None \<Rightarrow> True | Some m \<Rightarrow> c \<ge> m) \<and>
        (case lq_max_price_amount q of None \<Rightarrow> True | Some m \<Rightarrow> c \<le> m))"

datatype sort_order = Sort_default | Sort_price_asc | Sort_price_desc | Sort_sales

definition live_price_of :: "'a shop_scheme \<Rightarrow> product \<Rightarrow> int" where
  "live_price_of s p = (case live_price s (pd_id p) of None \<Rightarrow> 0 | Some c \<Rightarrow> c)"

fun public_order :: "'a shop_scheme \<Rightarrow> sort_order \<Rightarrow> product list \<Rightarrow> product list" where
  "public_order s Sort_default ps = sort_key (\<lambda>p. - pd_sort_order p) (sort_key (\<lambda>p. - pd_id p) ps)"
| "public_order s Sort_price_asc ps = sort_key (live_price_of s) (sort_key (\<lambda>p. - pd_id p) ps)"
| "public_order s Sort_price_desc ps =
    sort_key (\<lambda>p. - live_price_of s p) (sort_key (\<lambda>p. - pd_id p) ps)"
| "public_order s Sort_sales ps = sort_key (\<lambda>p. - pd_sales_count p) (sort_key (\<lambda>p. - pd_id p) ps)"

definition list_products ::
  "(string \<Rightarrow> string \<Rightarrow> string result) \<Rightarrow> (string \<Rightarrow> string \<Rightarrow> bool) \<Rightarrow> 'a catalogue_scheme \<Rightarrow> nat \<Rightarrow> nat \<Rightarrow>
   list_query \<Rightarrow> sort_order \<Rightarrow> (product_summary list \<times> page_info) result" where
  "list_products presigned contains s page page_size q order =
    (let rows = filter (public_filter contains s q) (products s) in
     bindE (mapE (summary_data presigned s) (page_of page page_size (public_order s order rows))) (\<lambda>items.
     ok (items, page_meta (int page) (int page_size) (int (length rows)))))"

section \<open>The detail\<close>

text \<open>An entry only for a SKU with a row in an active warehouse; a reader takes 0 for the others.\<close>

definition stock_by_sku :: "'a stock_db_scheme \<Rightarrow> int list \<Rightarrow> (int \<times> int) list" where
  "stock_by_sku s ids =
    foldl (\<lambda>d i. dict_set (inv_sku_id i)
        ((case map_of d (inv_sku_id i) of None \<Rightarrow> 0 | Some n \<Rightarrow> n) + max (available_qty i - safety_stock i) 0) d)
      [] (filter (\<lambda>i. inv_sku_id i \<in> set ids \<and>
            (case warehouse_get s (inv_warehouse_id i) of None \<Rightarrow> False | Some w \<Rightarrow> wh_active w))
          (inventories s))"

definition sku_data :: "(int \<times> int) list \<Rightarrow> product \<Rightarrow> product_sku \<Rightarrow> sku_view" where
  "sku_data stock p k =
    \<lparr>sv_id = sk_id k, sv_product_id = pd_id p, sv_sku_code = sk_code k,
     sv_specs = (case sk_attribute_snapshot k of None \<Rightarrow> ''{}'' | Some t \<Rightarrow> t),
     sv_price_amount = sk_price_amount k, sv_original_price_amount = struck_price k,
     sv_available_stock = (case map_of stock (sk_id k) of None \<Rightarrow> 0 | Some n \<Rightarrow> n),
     sv_status = sk_status k\<rparr>"

definition image_items ::
  "(string \<Rightarrow> string \<Rightarrow> string result) \<Rightarrow> product_image list \<Rightarrow> image_data list result" where
  "image_items presigned ms =
    bindE (mapE (\<lambda>m. bindE (image_url presigned m) (\<lambda>url.
        ok (case url of None \<Rightarrow> [] | Some [] \<Rightarrow> [] | Some (c # cs) \<Rightarrow>
          [\<lparr>iv_id = im_id m, iv_url = c # cs, iv_alt = im_alt_text m, iv_sort_order = im_sort_order m\<rparr>])))
      (sort_key im_sort_order (sort_key im_id ms)))
    (\<lambda>found. ok (concat found))"

definition product_detail ::
  "(string \<Rightarrow> string \<Rightarrow> string result) \<Rightarrow> 'a catalogue_scheme \<Rightarrow> int \<Rightarrow> product_data result" where
  "product_detail presigned s product_id =
    (case find (\<lambda>p. pd_id p = product_id \<and> pd_status p = ''PUBLISHED'' \<and> pd_deleted_at p = None)
        (products s) of
       None \<Rightarrow> app_raise (Catalog ProductNotFoundError)
     | Some p \<Rightarrow>
        (let ks = active_skus s (pd_id p); stock = stock_by_sku s (map sk_id ks) in
         bindE (image_items presigned (images_of s (pd_id p))) (\<lambda>pictures.
         bindE (summary_data presigned s p) (\<lambda>u.
         ok (product_summary.extend u
          \<lparr>dv_subtitle = pd_subtitle p, dv_description = pd_description p,
           dv_category = map_option (\<lambda>c. (cg_id c, cg_name c)) (category_of s p),
           dv_brand = map_option (\<lambda>b. (br_id b, br_name b)) (brand_of s p),
           dv_images = pictures, dv_skus = map (sku_data stock p) ks,
           dv_max_price_amount = (case map sk_price_amount ks of [] \<Rightarrow> pd_max_price p
             | c # cs \<Rightarrow> foldl max c cs),
           dv_created_at = pd_created_at p\<rparr>)))))"

section \<open>Categories and brands\<close>

record category_data =
  cv_id :: int
  cv_name :: string
  cv_parent_id :: "int option"
  cv_level :: int
  cv_sort_order :: int

definition public_categories ::
  "'a catalogue_scheme \<Rightarrow> nat \<Rightarrow> nat \<Rightarrow> category_data list \<times> page_info" where
  "public_categories s page page_size =
    (let rows = filter (\<lambda>c. cg_deleted_at c = None) (categories s) in
     (map (\<lambda>c. \<lparr>cv_id = cg_id c, cv_name = cg_name c, cv_parent_id = cg_parent_id c,
          cv_level = cg_depth c, cv_sort_order = cg_sort_order c\<rparr>)
        (page_of page page_size (sort_key cg_sort_order (sort_key cg_id rows))),
      page_meta (int page) (int page_size) (int (length rows))))"

definition public_brands ::
  "'a catalogue_scheme \<Rightarrow> nat \<Rightarrow> nat \<Rightarrow> (int \<times> string \<times> string option) list \<times> page_info" where
  "public_brands s page page_size =
    (let rows = filter (\<lambda>b. br_deleted_at b = None) (brands s) in
     (map (\<lambda>b. (br_id b, br_name b, None)) (page_of page page_size (sort_key br_sort_order (sort_key br_id rows))),
      page_meta (int page) (int page_size) (int (length rows))))"

section \<open>Facts\<close>

end
