(* ===== verification/Catalog_Properties.thy ===== *)
theory Catalog_Properties
  imports Catalog_Runs Catalog_Public Shop_Sample Object_Store_Double
begin

text \<open>
  What the catalogue promises: its rows keep their types and keys, the cached prices are the live
  ones, what the storefront shows is what the checkout charges, and an upload happens whole.
\<close>

section \<open>The storefront and the checkout\<close>

lemma product_detail_ok:
  assumes "product_detail presigned s i = ok d"
  obtains p where "p \<in> set (products s)" "pd_id p = i" "pd_status p = ''PUBLISHED''" "pd_deleted_at p = None"
    and "dv_skus d = map (sku_data (stock_by_sku s (map sk_id (active_skus s i))) p) (active_skus s i)"
proof -
  obtain p where p: "find (\<lambda>p. pd_id p = i \<and> pd_status p = ''PUBLISHED'' \<and> pd_deleted_at p = None) (products s) = Some p"
    using assms by (auto simp: product_detail_def rsimps split: option.splits)
  then have "pd_id p = i" "p \<in> set (products s)" "pd_status p = ''PUBLISHED''" "pd_deleted_at p = None"
    by (auto dest: find_SomeD)
  with p assms show ?thesis
    by (intro that) (auto simp: product_detail_def rsimps Let_def product_summary.defs split: option.splits)
qed

lemma active_skus_member: "k \<in> set (active_skus s i) \<longleftrightarrow> k \<in> set (skus s) \<and> sk_product_id k = i \<and> sellable k"
  by (auto simp: active_skus_def skus_of_def)

lemma find_keyed:
  "distinct (map key xs) \<Longrightarrow> x \<in> set xs \<Longrightarrow> P x \<Longrightarrow> find (\<lambda>y. key y = key x \<and> P y) xs = Some x"
  by (induction xs) auto

lemma live_sku_row:
  assumes "distinct (map sk_id (skus s))" and "k \<in> set (skus s)" and "sk_deleted_at k = None"
  shows "live_sku s (sk_id k) = Some k"
  using assms unfolding live_sku_def by (intro find_keyed)

lemma live_product_row:
  assumes "distinct (map pd_id (products s))" and "p \<in> set (products s)" and "pd_deleted_at p = None"
  shows "live_product s (pd_id p) = Some p"
  using assms unfolding live_product_def by (intro find_keyed)

text \<open>
  C29: Every SKU the storefront shows on a product's page can be ordered at once: with the ids of the
  catalogue distinct, the checkout loads the line of that SKU, for the product of the page and at the
  price the page shows, whatever the stock and the answers of the object store were.
\<close>

theorem shown_is_charged:
  assumes "catalog_keys s" and "product_detail presigned s i = ok d" and "v \<in> set (dv_skus d)"
    and "li_sku_id l = sv_id v"
  shows "\<exists>line m. load_line s l = ok (line, m) \<and> pl_unit_price line = PyInt (sv_price_amount v) \<and>
    pl_sku_id line = PyInt (sv_id v) \<and> pl_product_id line = PyInt i \<and>
    pl_quantity line = PyInt (li_quantity l)"
proof -
  obtain p where p: "p \<in> set (products s)" "pd_id p = i" "pd_status p = ''PUBLISHED''" "pd_deleted_at p = None"
    "dv_skus d = map (sku_data (stock_by_sku s (map sk_id (active_skus s i))) p) (active_skus s i)"
    by (rule product_detail_ok [OF assms(2)])
  then obtain k where k: "k \<in> set (skus s)" "sk_product_id k = i" "sellable k"
      "sv_id v = sk_id k" "sv_price_amount v = sk_price_amount k"
    using assms(3) by (auto simp: active_skus_member sku_data_def)
  have "live_sku s (sk_id k) = Some k"
    using assms(1) k by (simp add: catalog_keys_def sellable_def live_sku_row)
  moreover have "live_product s i = Some p"
    using assms(1) p live_product_row [of s p] by (simp add: catalog_keys_def)
  ultimately show ?thesis
    using k p assms(4) by (auto simp: load_line_def sellable_def)
qed

section \<open>Runs\<close>

text \<open>
  C31: In every run of the console, with concurrent uploads, from a catalogue whose rows are typed, they
  still are: the statuses and roles are words of their CHECKs, prices are positive, names and codes are
  not empty, every text fits the width of its column (the key, bucket, checksum, type and description of
  an image too), every amount is a BIGINT and every count an INT, object keys stay in the bucket; and
  ids, SKU codes and object keys name one row, and every SKU and image has its product. The surrogate
  keys themselves and the JSON column are not bounded.
\<close>

theorem catalogue_rows_typed:
  assumes "catalog_wf s" and "put_names sp" and "(catalog_step cf bucket sp)\<^sup>*\<^sup>* (s, st) (s', st')"
  shows "catalog_typed s' \<and> catalog_keys s'"
  using catalog_run_wf [OF assms(3,2,1)] by (simp add: catalog_wf_def)

lemma least_range: "ps \<noteq> [] \<Longrightarrow> least ps \<in> set ps \<and> (\<forall>q \<in> set ps. least ps \<le> q)"
proof -
  have "foldl min a xs \<in> set (a # xs) \<and> (\<forall>q \<in> set (a # xs). foldl min a xs \<le> q)" for a :: int and xs
    by (induction xs arbitrary: a) (auto simp: min_def split: if_splits, fastforce+)
  then show "ps \<noteq> [] \<Longrightarrow> ?thesis" by (cases ps) (auto simp: least_def)
qed

lemma greatest_range: "ps \<noteq> [] \<Longrightarrow> greatest ps \<in> set ps \<and> (\<forall>q \<in> set ps. q \<le> greatest ps)"
proof -
  have "foldl max a xs \<in> set (a # xs) \<and> (\<forall>q \<in> set (a # xs). q \<le> foldl max a xs)" for a :: int and xs
    by (induction xs arbitrary: a) (auto simp: max_def split: if_splits, fastforce+)
  then show "ps \<noteq> [] \<Longrightarrow> ?thesis" by (cases ps) (auto simp: greatest_def)
qed

lemma active_prices_set: "set (active_prices (skus_of s i)) = sk_price_amount ` set (active_skus s i)"
  by (auto simp: active_prices_def active_skus_member skus_of_def)

lemma active_prices_empty: "active_prices (skus_of s i) = [] \<longleftrightarrow> active_skus s i = []"
  using active_prices_set [of s i] by (metis image_is_empty set_empty)

text \<open>
  C30: In every run of the console, with concurrent uploads, from a sound catalogue, the price range
  cached in a product's row is the range of its active SKUs: none is cheaper than the cached minimum or
  dearer than the cached maximum, both are prices of active SKUs, and both are zero when there is none.
  So the cached price that sorts and the live price that the storefront computes agree; a published
  product has an active SKU with a price, so the storefront's list does not lose it; and a product has
  exactly the primary image its row names.
\<close>

theorem catalogue_sound:
  assumes "catalog_wf s" and "put_names sp" and "(catalog_step cf bucket sp)\<^sup>*\<^sup>* (s, st) (s', st')"
    and "p \<in> set (products s')"
  shows "(\<forall>k \<in> set (active_skus s' (pd_id p)). pd_min_price p \<le> sk_price_amount k \<and> sk_price_amount k \<le> pd_max_price p) \<and>
    (if active_skus s' (pd_id p) = [] then pd_min_price p = 0 \<and> pd_max_price p = 0
     else {pd_min_price p, pd_max_price p} \<subseteq> sk_price_amount ` set (active_skus s' (pd_id p))) \<and>
    pd_min_price p = live_price_of s' p \<and>
    (pd_status p = ''PUBLISHED'' \<longrightarrow> live_price s' (pd_id p) \<noteq> None \<and>
      (\<exists>k \<in> set (active_skus s' (pd_id p)). 0 < sk_price_amount k)) \<and>
    primaries s' (pd_id p) = (case pd_primary_image_object_key p of None \<Rightarrow> [] | Some k \<Rightarrow> [k])"
proof -
  let ?ps = "active_prices (skus_of s' (pd_id p))"
  have p: "priced s' p" "offers s' p" "pictured s' p"
    using catalog_run_wf [OF assms(3,2,1)] assms(4) by (auto simp: catalog_wf_def)
  have range: "(\<forall>k \<in> set (active_skus s' (pd_id p)). pd_min_price p \<le> sk_price_amount k \<and> sk_price_amount k \<le> pd_max_price p) \<and>
    (if active_skus s' (pd_id p) = [] then pd_min_price p = 0 \<and> pd_max_price p = 0
     else {pd_min_price p, pd_max_price p} \<subseteq> sk_price_amount ` set (active_skus s' (pd_id p)))"
  proof (cases "?ps = []")
    case True
    with p(1) show ?thesis by (simp add: priced_def least_def greatest_def active_prices_empty)
  next
    case False
    with least_range [OF False] greatest_range [OF False] p(1) show ?thesis
      by (simp add: priced_def active_prices_empty active_prices_set)
  qed
  have "live_price s' (pd_id p) \<noteq> None" if "k \<in> set (skus_of s' (pd_id p))" "sellable k" for k
    using that by (auto simp: live_price_def active_prices_def filter_empty_conv split: list.splits)
  with p have "pd_min_price p = live_price_of s' p \<and>
    (pd_status p = ''PUBLISHED'' \<longrightarrow> live_price s' (pd_id p) \<noteq> None \<and>
      (\<exists>k \<in> set (active_skus s' (pd_id p)). 0 < sk_price_amount k)) \<and>
    primaries s' (pd_id p) = (case pd_primary_image_object_key p of None \<Rightarrow> [] | Some k \<Rightarrow> [k])"
    by (auto simp: priced_def offers_def pictured_def live_price_of_def live_price_def least_def
        active_skus_member skus_of_def split: list.splits)
  with range show ?thesis by blast
qed

section \<open>Uploads\<close>

lemma image_upload_cases:
  assumes "image_upload_service cf bucket sp s0 s st who i u uuid = (a, s', st')"
  obtains (unwritten) e where "a = Inl e" "s' = s" "st' = st"
  | (written) key t stored st1 f o' where "build_object_key (ss_env cf) f (iu_filename u) o' (Some uuid) = ok key"
      "sp_put sp st bucket key (iu_content u) (Some t) = ok (stored, st1)"
      "(\<exists>m. a = Inr m \<and> image_rows s who i u key stored = ok (m, s') \<and> st' = st1) \<or>
       (\<exists>e. a = Inl e \<and> s' = s \<and> (case sp_delete sp st1 bucket key of Inl _ \<Rightarrow> st' = st1 | Inr st2 \<Rightarrow> st' = st2))"
proof -
  note up = assms [unfolded image_upload_service_def]
  show ?thesis
  proof (cases "upload_checks cf s0 who i u uuid")
    case (Inl e)
    with up show ?thesis by (intro unwritten) auto
  next
    case (Inr tk)
    obtain t key where tk: "tk = (t, key)" by (cases tk)
    from Inr tk obtain f o' where key: "build_object_key (ss_env cf) f (iu_filename u) o' (Some uuid) = ok key"
      by (auto simp: rsimps upload_checks_def)
    show ?thesis
    proof (cases "sp_put sp st bucket key (iu_content u) (Some t)")
      case (Inl e)
      with up Inr tk show ?thesis by (auto intro: unwritten split: if_splits)
    next
      case put: (Inr o1)
      obtain stored st1 where o1: "o1 = (stored, st1)" by (cases o1)
      show ?thesis
        using up Inr tk put o1
        by (intro written [OF key, of t stored st1]) (auto split: sum.splits)
    qed
  qed
qed

text \<open>A store on which a write can be taken back at once.\<close>

locale undoable_port = object_port +
  assumes delete_after_put: "put s b k d t = ok (r, s') \<Longrightarrow> is_ok (delete s' b k)"
begin

lemma taken_back:
  assumes "ready s" and "put s b k d t = ok (r, s')" and "delete s' b k = ok s''" and "\<not> is_ok (get s b k)"
  shows "get s'' b' k' = ok x \<longleftrightarrow> get s b' k' = ok x"
  using undone [OF assms, of b' k'] assms(4) by (cases "(b', k') = (b, k)") (auto simp: is_ok_ex)

lemma upload_whole:
  assumes "ready st"
    and up: "image_upload_service cf bucket \<lparr>sp_put = put, sp_delete = delete\<rparr> s0 s st who i u uuid = (a, s', st')"
    and fresh: "\<And>f o' k. build_object_key (ss_env cf) f (iu_filename u) o' (Some uuid) = ok k \<Longrightarrow> \<not> is_ok (get st bucket k)"
  shows "case a of
      Inl e \<Rightarrow> s' = s \<and> (\<forall>b k d. get st' b k = ok d \<longleftrightarrow> get st b k = ok d)
    | Inr m \<Rightarrow> get st' (im_bucket m) (im_object_key m) = ok (iu_content u) \<and>
        im_checksum m = digest (iu_content u) \<and> m \<in> set (images s')"
  using up
proof (cases rule: image_upload_cases)
  case (written key t stored st1 f o')
  have put: "put st bucket key (iu_content u) (Some t) = ok (stored, st1)" using written(2) by simp
  obtain st2 where del: "delete st1 bucket key = ok st2" using delete_after_put [OF put] by (auto simp: is_ok_ex)
  from written(3) show ?thesis
  proof (elim disjE exE conjE)
    fix m assume a: "a = Inr m" "image_rows s who i u key stored = ok (m, s')" "st' = st1"
    from a(2) have "m \<in> set (images s')" "im_object_key m = so_object_key stored"
        "im_bucket m = so_bucket stored" "im_checksum m = so_checksum stored"
      by (auto elim!: image_rows_ok simp: put_product_def)
    then show ?thesis using a put_reads [OF assms(1) put] by simp
  next
    fix e assume a: "a = Inl e" "s' = s" "case sp_delete \<lparr>sp_put = put, sp_delete = delete\<rparr> st1 bucket key of
        Inl _ \<Rightarrow> st' = st1 | Inr st2 \<Rightarrow> st' = st2"
    then have "st' = st2" using del by simp
    then show ?thesis using a taken_back [OF assms(1) put del fresh [OF written(1)]] by simp
  qed
qed simp

end

interpretation memory_undo: undoable_port "memory_put cf" memory_get memory_delete "\<lambda>s. \<not> ms_outage s" "ss_sha256 cf"
  by unfold_locales (auto simp: memory_put_def memory_delete_def rsimps is_ok_ex)

definition memory_port :: "store_settings \<Rightarrow> memory_store store_port" where
  "memory_port cf = \<lparr>sp_put = memory_put cf, sp_delete = memory_delete\<rparr>"

text \<open>
  C32: The upload of an image to the in-memory store happens whole, whatever other transactions did to
  the tables while the object was written: if it raises, in the checks, in the write or in the
  metadata transaction, the tables are untouched and every key reads as before; if it answers, the
  row is in the table, and the object under its key is the content with the checksum of the row.
\<close>

theorem upload_all_or_nothing:
  assumes "\<not> ms_outage st"
    and "image_upload_service cf bucket (memory_port cf) s0 s st who i u uuid = (a, s', st')"
    and "\<And>f o' k. build_object_key (ss_env cf) f (iu_filename u) o' (Some uuid) = ok k \<Longrightarrow>
      \<not> is_ok (memory_get st bucket k)"
  shows "case a of
      Inl e \<Rightarrow> s' = s \<and> (\<forall>b k d. memory_get st' b k = ok d \<longleftrightarrow> memory_get st b k = ok d)
    | Inr m \<Rightarrow> memory_get st' (im_bucket m) (im_object_key m) = ok (iu_content u) \<and>
        im_checksum m = ss_sha256 cf (iu_content u) \<and> m \<in> set (images s')"
  by (rule memory_undo.upload_whole [OF assms(1) assms(2) [unfolded memory_port_def] assms(3)])

section \<open>Witnesses\<close>

definition sample_catalogue :: catalogue where
  "sample_catalogue = shop.extend sample_shop
    \<lparr>categories = [], brands = [\<lparr>br_id = 1, br_merchant_id = Some 1, br_name = ''Kiln'', br_name_en = None,
      br_logo_object_key = None, br_description = None, br_sort_order = 0, br_deleted_at = None\<rparr>]\<rparr>"

definition sample_editor :: principal where
  "sample_editor = \<lparr>p_user_id = 2, p_merchant_id = Some 1,
    p_permissions = {''product:read'', ''product:write'', ''product:publish''},
    p_data_scope = Scope_MERCHANT, p_is_staff = True\<rparr>"

lemma sample_catalog_wf: "catalog_wf sample_catalogue"
  by code_simp

definition sample_pages :: "string \<Rightarrow> string \<Rightarrow> string result" where
  "sample_pages b k = ok (b @ ''/'' @ k)"

definition sample_v :: sku_view where
  "sample_v = \<lparr>sv_id = 7, sv_product_id = 5, sv_sku_code = ''mug-7'', sv_specs = ''{}'',
    sv_price_amount = 1000, sv_original_price_amount = None, sv_available_stock = 8,
    sv_status = ''ACTIVE''\<rparr>"

lemma sample_page:
  "product_detail sample_pages sample_catalogue 5 = ok (product_summary.extend
    \<lparr>su_id = 5, su_title = ''Mug'', su_cover_url = None, su_min_price_amount = 500,
     su_original_price_amount = None, su_sales_count = 0, su_brand_name = None, su_tags = [],
     su_status = ''PUBLISHED''\<rparr>
    \<lparr>dv_subtitle = None, dv_description = None, dv_category = None, dv_brand = None, dv_images = [],
     dv_skus = [sample_v, sample_v\<lparr>sv_id := 8, sv_sku_code := ''mug-8'', sv_price_amount := 500,
       sv_available_stock := 3\<rparr>], dv_max_price_amount = 1000, dv_created_at = 0\<rparr>)"
  by code_simp

theorem shown_is_charged_witness:
  "\<exists>line m. load_line sample_catalogue \<lparr>li_sku_id = 7, li_quantity = 2\<rparr> = ok (line, m) \<and>
    pl_unit_price line = PyInt 1000 \<and> pl_sku_id line = PyInt 7 \<and> pl_product_id line = PyInt 5 \<and>
    pl_quantity line = PyInt 2"
proof -
  have "catalog_keys sample_catalogue" using sample_catalog_wf by (simp add: catalog_wf_def)
  from shown_is_charged [OF this sample_page, of sample_v "\<lparr>li_sku_id = 7, li_quantity = 2\<rparr>"]
  show ?thesis by (simp add: product_summary.defs sample_v_def)
qed

text \<open>The console takes the mug off the shelf.\<close>

definition sample_shelved :: catalogue where
  "sample_shelved = sample_catalogue\<lparr>products := map (\<lambda>p. p\<lparr>pd_status := ''UNPUBLISHED'',
    pd_unpublished_at := Some 1000\<rparr>) (products sample_catalogue)\<rparr>"

lemma sample_transition:
  "product_transition sample_catalogue sample_editor 5 False =
    ok (hd (products sample_shelved), sample_shelved)"
  by code_simp

lemma sample_step: "(catalog_step cf bucket sp)\<^sup>*\<^sup>* (sample_catalogue, st) (sample_shelved, st)"
  by (intro r_into_rtranclp catalog_step.transitions [OF sample_transition])

lemma memory_names: "put_names (memory_port cf)"
  by (auto simp: put_names_def memory_port_def memory_put_def stored_as_def rsimps)

theorem catalogue_rows_typed_witness:
  "catalog_typed sample_shelved \<and> catalog_keys sample_shelved"
  by (rule catalogue_rows_typed [OF sample_catalog_wf memory_names sample_step])

theorem catalogue_sound_witness:
  "live_price_of sample_shelved (hd (products sample_shelved)) = 500 \<and>
   1000 \<in> sk_price_amount ` set (active_skus sample_shelved (pd_id (hd (products sample_shelved))))"
proof -
  have "hd (products sample_shelved) \<in> set (products sample_shelved)"
    "pd_min_price (hd (products sample_shelved)) = 500" "pd_max_price (hd (products sample_shelved)) = 1000"
    by code_simp+
  then show ?thesis
    using catalogue_sound [OF sample_catalog_wf memory_names sample_step, of "hd (products sample_shelved)"]
    by (auto split: if_splits)
qed

text \<open>A primary image is written while the mug is taken off the shelf.\<close>

definition picture_env :: storage_env where
  "picture_env = plain_storage\<lparr>se_guess_type := (\<lambda>_. Some ''image/png'')\<rparr>"

definition picture_store :: store_settings where
  "picture_store = plain_store\<lparr>ss_env := picture_env\<rparr>"

definition sample_image :: image_upload where
  "sample_image = \<lparr>iu_filename = ''mug.png'', iu_declared_content_type = ''image/png'',
    iu_content = png_magic @ ''mug'', iu_role = ''PRIMARY'', iu_alt_text = None\<rparr>"

lemma built_valid: "build_object_key se f n i u = ok k \<Longrightarrow> validate_object_key k = ok k"
  unfolding build_object_key_def Let_def bindE_eq_Inr
proof (elim exE conjE)
  show "validate_object_key x = ok k \<Longrightarrow> validate_object_key k = ok k" for x
    using validate_cases [of x] by auto
qed

lemma sample_key:
  "build_object_key picture_env ''products/1'' ''mug.png'' (Some (int_text 5)) (Some ''aa'') =
    ok ''products/1/5/aa_mug.png''"
proof -
  have "unquote ''products/1'' = ''products/1''" by (simp add: decode_name)
  then have "(unquote ^^ 6) ''products/1'' = ''products/1''" by (simp add: eval_nat_numeral)
  then have "validate_object_key ''products/1'' = ok ''products/1''"
    by (subst validate_decoded) (assumption, code_simp)
  moreover have "sanitise_filename picture_env ''mug.png'' ''upload'' = ''mug.png''"
    "sanitise_filename picture_env ''aa'' ''v'' = ''aa''" "int_text 5 = ''5''" by code_simp+
  then have "uploaded_key picture_env ''products/1'' 5 ''aa'' ''mug.png'' = ''products/1/5/aa_mug.png''"
    by (simp add: uploaded_key_def)
  moreover have "char_count ''products/1/5/aa_mug.png'' \<le> max_key_length" by code_simp
  ultimately show ?thesis by (simp add: built_key)
qed

lemma sample_upload_checks:
  "upload_checks picture_store sample_catalogue sample_editor 5 sample_image ''aa'' =
    ok (''image/png'', ''products/1/5/aa_mug.png'')"
proof -
  have "verified_image_type picture_store ''mug.png'' ''image/png'' (png_magic @ ''mug'') = ok ''image/png''"
    "require_permission sample_editor ''product:write'' = ok ()"
    "owned_product sample_catalogue sample_editor 5 = ok (hd (products sample_catalogue))"
    "pd_status (hd (products sample_catalogue)) = ''PUBLISHED''"
    "pd_merchant_id (hd (products sample_catalogue)) = Some 1" "pd_id (hd (products sample_catalogue)) = 5"
    "int_text 1 = ''1''" by code_simp+
  with sample_key show ?thesis by (simp add: upload_checks_def sample_image_def picture_store_def)
qed

lemma sample_upload_rows:
  assumes "so_object_key o' = ''products/1/5/aa_mug.png''" and "so_size o' = 11"
    and "fits_varchar 96 (so_bucket o')" "fits_varchar 64 (so_checksum o')" "fits_varchar 96 (so_content_type o')"
  shows "is_ok (image_rows sample_shelved sample_editor 5 sample_image ''products/1/5/aa_mug.png'' o')"
proof -
  have "\<not> sublist ''..'' ''products/1/5/aa_mug.png''" by code_simp
  moreover have "owned_product sample_shelved sample_editor 5 = ok (hd (products sample_shelved))"
    "pd_status (hd (products sample_shelved)) = ''UNPUBLISHED''" by code_simp+
  moreover have "images sample_shelved = []" by code_simp
  moreover have fits: "product_columns ((hd (products sample_shelved))\<lparr>pd_primary_image_object_key :=
      Some ''products/1/5/aa_mug.png''\<rparr>)" "fits_varchar 512 ''products/1/5/aa_mug.png''" "fits_varchar 32 ''PRIMARY''"
    by code_simp+
  ultimately show ?thesis
    using assms fits by (simp add: image_rows_def sample_image_def demote_primary_def image_checks_def Let_def
        image_columns_def flush_product_def fits_int_def)
qed

lemma sample_put:
  "is_ok (memory_put picture_store one_bucket ''images'' ''products/1/5/aa_mug.png'' (png_magic @ ''mug'') t)"
proof -
  have "validate_object_key ''products/1/5/aa_mug.png'' = ok ''products/1/5/aa_mug.png''"
    by (rule built_valid [OF sample_key])
  then show ?thesis by (simp add: memory_put_def png_magic_def picture_store_def plain_store_def one_bucket_def)
qed

lemma put_stored:
  assumes "memory_put picture_store one_bucket ''images'' k (png_magic @ ''mug'') (Some ''image/png'') = ok (o', st)"
  shows "fits_varchar 96 (so_bucket o')" "fits_varchar 64 (so_checksum o')" "fits_varchar 96 (so_content_type o')"
proof -
  have "so_bucket o' = ''images''" "so_checksum o' = png_magic @ ''mug''" "so_content_type o' = ''image/png''"
    using assms by (auto simp: memory_put_def rsimps stored_as_def picture_store_def plain_store_def resolved_type_def)
  moreover have "fits_varchar 96 ''images''" "fits_varchar 64 (png_magic @ ''mug'')" "fits_varchar 96 ''image/png''"
    by code_simp+
  ultimately show "fits_varchar 96 (so_bucket o')" "fits_varchar 64 (so_checksum o')" "fits_varchar 96 (so_content_type o')"
    by simp_all
qed

theorem upload_all_or_nothing_witness:
  "\<exists>m s' st'. image_upload_service picture_store ''images'' (memory_port picture_store) sample_catalogue
      sample_shelved one_bucket sample_editor 5 sample_image ''aa'' = (ok m, s', st') \<and>
    memory_get st' (im_bucket m) (im_object_key m) = ok (png_magic @ ''mug'') \<and> m \<in> set (images s')"
proof -
  let ?key = "''products/1/5/aa_mug.png''"
  let ?up = "image_upload_service picture_store ''images'' (memory_port picture_store) sample_catalogue
    sample_shelved one_bucket sample_editor 5 sample_image ''aa''"
  have ready: "\<not> ms_outage one_bucket" by (simp add: one_bucket_def)
  obtain o' st where put: "memory_put picture_store one_bucket ''images'' ?key (png_magic @ ''mug'') (Some ''image/png'') = ok (o', st)"
    using sample_put [of "Some ''image/png''"] by (auto simp: is_ok_ex)
  then have "so_object_key o' = ?key" "so_size o' = 11"
    using memory.put_reads [OF ready put] by (simp_all add: png_magic_def)
  moreover have "fits_varchar 96 (so_bucket o')" "fits_varchar 64 (so_checksum o')" "fits_varchar 96 (so_content_type o')"
    using put_stored [OF put] by simp_all
  ultimately obtain m s' where "image_rows sample_shelved sample_editor 5 sample_image ?key o' = ok (m, s')"
    using sample_upload_rows [of o'] by (auto simp: is_ok_ex)
  moreover have "iu_content sample_image = png_magic @ ''mug''" by (simp add: sample_image_def)
  ultimately have up: "?up = (ok m, s', st)"
    using put by (simp add: image_upload_service_def sample_upload_checks memory_port_def)
  have none: "\<not> is_ok (memory_get one_bucket ''images'' k)" for k
    by (auto simp: memory_get_def memory_entry_def one_bucket_def is_ok_ex rsimps)
  from upload_all_or_nothing [OF ready up none] up show ?thesis by (auto simp: sample_image_def)
qed

end
