(* ===== verification/Marketing_Drafts.thy ===== *)
theory Marketing_Drafts
  imports Catalog "HOL-Library.Char_ord" "HOL-Library.List_Lexorder"
begin

text \<open>
  \<open>app/modules/marketing\<close>, the console's drafts: what a valid offer is (\<open>schemas.py\<close>,
  \<open>coupon_schemas.py\<close>), its preview with an estimate over the last thirty days, the signed proof of the
  preview (\<open>preview_token.py\<close>) and the creation it allows. The fields arrive with their types checked;
  the URL-safe BASE64 of the JSON of a proof is an argument of the definitions.
\<close>

section \<open>JSON texts\<close>

text \<open>
  \<open>json.dumps\<close> with sorted keys and the shortest separators. \<open>number\<close> writes the numbers that are not
  integers.
\<close>

fun json_text :: "(json \<Rightarrow> string) \<Rightarrow> json \<Rightarrow> string" where
  "json_text number JNull = ''null''"
| "json_text number (JBool b) = (if b then ''true'' else ''false'')"
| "json_text number (JInt i) = int_text i"
| "json_text number (JFloat n k) = number (JFloat n k)"
| "json_text number (JInfinity b) = number (JInfinity b)"
| "json_text number JNaN = number JNaN"
| "json_text number (JStr t) = json_string t"
| "json_text number (JList vs) = json_items (map (json_text number) vs)"
| "json_text number (JObj entries) =
    ''{'' @ join_with (CHR '','') (map (\<lambda>(k, t). json_key k @ t)
      (sort_key fst (map (\<lambda>(k, v). (k, json_text number v)) entries))) @ ''}''"

definition json_opt :: "('a \<Rightarrow> json) \<Rightarrow> 'a option \<Rightarrow> json" where
  "json_opt f v = (case v of None \<Rightarrow> JNull | Some x \<Rightarrow> f x)"

definition json_ints :: "int list \<Rightarrow> json" where
  "json_ints vs = JList (map JInt vs)"

section \<open>Drafts\<close>

definition valid_scope :: "scope \<Rightarrow> bool" where
  "valid_scope sc \<longleftrightarrow>
    (let groups = [scope_product_ids sc, scope_category_ids sc, scope_brand_ids sc];
         some = list_ex (\<lambda>g. g \<noteq> []) groups in
     \<not> (scope_all_products sc \<and> some) \<and> \<not> (\<not> scope_all_products sc \<and> \<not> some) \<and>
     list_all (list_all (\<lambda>v. v > 0)) groups \<and> list_all distinct groups)"

text \<open>An instant with its ISO text, as \<open>model_dump\<close> writes it, and whether it has a time zone.\<close>

record instant =
  at_ms :: int
  at_text :: string
  at_zoned :: bool

record promotion_draft =
  dr_name :: string
  dr_description :: "string option"
  dr_type :: promotion_type
  dr_priority :: int
  dr_stackable :: bool
  dr_rule_config :: "(string \<times> json) list"
  dr_scope :: scope
  dr_starts_at :: instant
  dr_ends_at :: instant
  dr_total_quota :: int

fun rule_fields :: "promotion_type \<Rightarrow> string set" where
  "rule_fields DIRECT_DISCOUNT = {''discount_amount''}"
| "rule_fields PERCENT_DISCOUNT = {''discount_bps'', ''max_discount_amount''}"
| "rule_fields FULL_REDUCTION = {''threshold_amount'', ''reduction_amount'', ''max_discount_amount''}"

fun rule_value_ok :: "string \<Rightarrow> json \<Rightarrow> bool" where
  "rule_value_ok key JNull = (key = ''max_discount_amount'')"
| "rule_value_ok key (JInt i) = (i > 0)"
| "rule_value_ok key v = False"

definition draft_valid :: "promotion_draft \<Rightarrow> bool" where
  "draft_valid d \<longleftrightarrow> length_in 1 200 (dr_name d) \<and> case_option True (length_in 0 500) (dr_description d) \<and>
    0 \<le> dr_priority d \<and> dr_priority d \<le> 10000 \<and> valid_scope (dr_scope d) \<and> dr_total_quota d > 0 \<and>
    at_zoned (dr_starts_at d) \<and> at_zoned (dr_ends_at d) \<and> at_ms (dr_starts_at d) < at_ms (dr_ends_at d) \<and>
    fst ` set (dr_rule_config d) = rule_fields (dr_type d) \<and>
    list_all (\<lambda>(k, v). rule_value_ok k v) (dr_rule_config d) \<and>
    (case map_of (dr_rule_config d) ''discount_bps'' of Some (JInt b) \<Rightarrow> b \<le> 10000 | _ \<Rightarrow> True)"

record coupon_draft =
  cd_name :: string
  cd_type :: coupon_type
  cd_face_value_amount :: "int option"
  cd_discount_bps :: "int option"
  cd_threshold_amount :: int
  cd_max_discount_amount :: "int option"
  cd_total_quota :: int
  cd_per_user_limit :: int
  cd_validity_type :: validity_type
  cd_valid_days :: "int option"
  cd_valid_from :: "instant option"
  cd_valid_to :: "instant option"
  cd_scope :: scope

definition coupon_draft_valid :: "coupon_draft \<Rightarrow> bool" where
  "coupon_draft_valid d \<longleftrightarrow> length_in 1 200 (cd_name d) \<and>
    case_option True (\<lambda>v. v > 0) (cd_face_value_amount d) \<and>
    case_option True (\<lambda>v. 1 \<le> v \<and> v \<le> 10000) (cd_discount_bps d) \<and> cd_threshold_amount d \<ge> 0 \<and>
    case_option True (\<lambda>v. v > 0) (cd_max_discount_amount d) \<and> cd_total_quota d > 0 \<and>
    cd_per_user_limit d > 0 \<and> case_option True (\<lambda>v. v > 0) (cd_valid_days d) \<and>
    scope_brand_ids (cd_scope d) = [] \<and> valid_scope (cd_scope d) \<and>
    (if cd_type d = FIXED_AMOUNT
     then \<not> (cd_face_value_amount d = None \<or> cd_discount_bps d \<noteq> None \<or> cd_max_discount_amount d \<noteq> None)
     else \<not> (cd_discount_bps d = None \<or> cd_face_value_amount d \<noteq> None)) \<and>
    (if cd_validity_type d = RELATIVE
     then \<not> (cd_valid_days d = None \<or> cd_valid_from d \<noteq> None \<or> cd_valid_to d \<noteq> None)
     else cd_valid_days d = None \<and>
       (case (cd_valid_from d, cd_valid_to d) of
          (Some a, Some b) \<Rightarrow> at_zoned a \<and> at_zoned b \<and> at_ms a < at_ms b
        | _ \<Rightarrow> False))"

fun promotion_type_text :: "promotion_type \<Rightarrow> string" where
  "promotion_type_text DIRECT_DISCOUNT = ''DIRECT_DISCOUNT''"
| "promotion_type_text PERCENT_DISCOUNT = ''PERCENT_DISCOUNT''"
| "promotion_type_text FULL_REDUCTION = ''FULL_REDUCTION''"

definition scope_json :: "scope \<Rightarrow> json" where
  "scope_json sc = JObj [(''all_products'', JBool (scope_all_products sc)),
    (''product_ids'', json_ints (scope_product_ids sc)), (''category_ids'', json_ints (scope_category_ids sc)),
    (''brand_ids'', json_ints (scope_brand_ids sc))]"

definition promotion_draft_json :: "promotion_draft \<Rightarrow> json" where
  "promotion_draft_json d = JObj
    [(''name'', JStr (dr_name d)), (''description'', json_opt JStr (dr_description d)),
     (''promotion_type'', JStr (promotion_type_text (dr_type d))), (''priority'', JInt (dr_priority d)),
     (''stackable'', JBool (dr_stackable d)), (''rule_config'', JObj (dr_rule_config d)),
     (''scope'', scope_json (dr_scope d)), (''starts_at'', JStr (at_text (dr_starts_at d))),
     (''ends_at'', JStr (at_text (dr_ends_at d))), (''total_quota'', JInt (dr_total_quota d))]"

definition coupon_draft_json :: "coupon_draft \<Rightarrow> json" where
  "coupon_draft_json d = JObj
    [(''name'', JStr (cd_name d)),
     (''coupon_type'', JStr (if cd_type d = FIXED_AMOUNT then ''FIXED_AMOUNT'' else ''PERCENT_DISCOUNT'')),
     (''face_value_amount'', json_opt JInt (cd_face_value_amount d)),
     (''discount_bps'', json_opt JInt (cd_discount_bps d)), (''threshold_amount'', JInt (cd_threshold_amount d)),
     (''max_discount_amount'', json_opt JInt (cd_max_discount_amount d)),
     (''total_quota'', JInt (cd_total_quota d)), (''per_user_limit'', JInt (cd_per_user_limit d)),
     (''validity_type'', JStr (if cd_validity_type d = RELATIVE then ''RELATIVE'' else ''ABSOLUTE'')),
     (''valid_days'', json_opt JInt (cd_valid_days d)),
     (''valid_from'', json_opt (\<lambda>t. JStr (at_text t)) (cd_valid_from d)),
     (''valid_to'', json_opt (\<lambda>t. JStr (at_text t)) (cd_valid_to d)),
     (''applicable_scope'', JObj [(''all_products'', JBool (scope_all_products (cd_scope d))),
        (''product_ids'', json_ints (scope_product_ids (cd_scope d))),
        (''category_ids'', json_ints (scope_category_ids (cd_scope d)))])]"

section \<open>The proof of a preview\<close>

record preview_claims =
  pc_merchant_id :: int
  pc_payload_hash :: string
  pc_expires_at :: int
  pc_nonce :: string

text \<open>
  \<open>pv_encode\<close> is the stripped URL-safe BASE64 of the JSON of the claims, \<open>pv_decode\<close> what the verifier
  reads back from a padded body; \<open>None\<close> is every exception of that.
\<close>

record preview_env =
  pv_env :: env
  pv_secret :: string
  pv_encode :: "preview_claims \<Rightarrow> string"
  pv_decode :: "string \<Rightarrow> preview_claims option"
  pv_number :: "json \<Rightarrow> string"

definition preview_ttl :: int where
  "preview_ttl = 15 * 60 * 1000"

definition draft_hash :: "preview_env \<Rightarrow> json \<Rightarrow> string" where
  "draft_hash pv draft = ev_sha256 (pv_env pv) (json_text (pv_number pv) draft)"

definition issue_preview_token :: "preview_env \<Rightarrow> json \<Rightarrow> int \<Rightarrow> int \<Rightarrow> string \<Rightarrow> string" where
  "issue_preview_token pv draft merchant_id now nonce =
    (let body = pv_encode pv \<lparr>pc_merchant_id = merchant_id, pc_payload_hash = draft_hash pv draft,
          pc_expires_at = (now + preview_ttl) div 1000, pc_nonce = nonce\<rparr>
     in body @ ''.'' @ ev_hmac_sha256 (pv_env pv) (pv_secret pv) body)"

text \<open>\<open>token.split(".", 1)\<close>: a token without a dot does not unpack.\<close>

definition split_token :: "string \<Rightarrow> (string \<times> string) option" where
  "split_token token =
    (case dropWhile (\<lambda>c. c \<noteq> CHR ''.'') token of
       [] \<Rightarrow> None
     | _ # signature \<Rightarrow> Some (takeWhile (\<lambda>c. c \<noteq> CHR ''.'') token, signature))"

definition verify_preview_token ::
  "preview_env \<Rightarrow> string \<Rightarrow> json \<Rightarrow> int \<Rightarrow> int \<Rightarrow> string result" where
  "verify_preview_token pv token draft merchant_id now =
    (case split_token token of
       None \<Rightarrow> app_raise (Marketing PromotionPreviewRequiredError)
     | Some (body, signature) \<Rightarrow>
        require (signature = ev_hmac_sha256 (pv_env pv) (pv_secret pv) body)
          (AppError (Marketing PromotionPreviewRequiredError))
        (case pv_decode pv body of
           None \<Rightarrow> app_raise (Marketing PromotionPreviewRequiredError)
         | Some c \<Rightarrow>
            require (\<not> (pc_merchant_id c \<noteq> merchant_id \<or> pc_payload_hash c \<noteq> draft_hash pv draft \<or>
                pc_expires_at c \<le> now div 1000))
              (AppError (Marketing PromotionPreviewRequiredError))
            (ok (ev_sha256 (pv_env pv) token))))"

section \<open>Scopes\<close>

definition scope_rows ::
  "'a catalogue_scheme \<Rightarrow> int \<Rightarrow> scope \<Rightarrow> product list result" where
  "scope_rows s merchant_id sc =
    require (list_all (\<lambda>c. list_ex (\<lambda>r. cg_id r = c \<and> cg_merchant_id r = Some merchant_id \<and> cg_deleted_at r = None)
        (categories s)) (scope_category_ids sc)) (AppError (Common ValidationError))
    (require (list_all (\<lambda>b. list_ex (\<lambda>r. br_id r = b \<and> br_merchant_id r = Some merchant_id \<and> br_deleted_at r = None)
        (brands s)) (scope_brand_ids sc)) (AppError (Common ValidationError))
    (let known = filter (\<lambda>p. pd_merchant_id p = Some merchant_id \<and> pd_deleted_at p = None) (products s) in
     require (list_all (\<lambda>i. list_ex (\<lambda>p. pd_id p = i) known) (scope_product_ids sc))
       (AppError (Common ValidationError))
     (ok (filter (in_scope sc) known))))"

definition scope_products :: "'a catalogue_scheme \<Rightarrow> int \<Rightarrow> scope \<Rightarrow> int set result" where
  "scope_products s merchant_id sc = bindE (scope_rows s merchant_id sc) (\<lambda>rows. ok (pd_id ` set rows))"

section \<open>The estimate\<close>

definition month_ms :: int where
  "month_ms = 30 * 24 * 60 * 60 * 1000"

text \<open>The lines of the merchant's orders of the last thirty days that the scope covers, by order.\<close>

definition recent_items :: "'a shop_scheme \<Rightarrow> int \<Rightarrow> int set \<Rightarrow> order_item list" where
  "recent_items s merchant_id product_ids =
    filter (\<lambda>i. oi_product_id i \<in> product_ids \<and>
        list_ex (\<lambda>ord. o_id ord = oi_order_id i \<and> o_merchant_id ord = merchant_id \<and>
          o_created_at ord \<ge> db_now s - month_ms) (orders s))
      (order_items s)"

definition by_order :: "order_item list \<Rightarrow> order_item list list" where
  "by_order rows =
    map (\<lambda>o'. filter (\<lambda>i. oi_order_id i = o') rows) (rev (remdups (rev (map oi_order_id rows))))"

definition history_line :: "order_item \<Rightarrow> pyval priced_line" where
  "history_line i =
    \<lparr>pl_sku_id = PyInt (oi_sku_id i), pl_product_id = PyInt (oi_product_id i),
     pl_product_name = oi_product_name i, pl_sku_name = oi_sku_name i, pl_image_object_key = None,
     pl_image_url = None, pl_sku_snapshot = oi_sku_snapshot i, pl_unit_price = PyInt (oi_unit_price i),
     pl_quantity = PyInt (oi_quantity i)\<rparr>"

definition config_int :: "(string \<times> json) list \<Rightarrow> string \<Rightarrow> int option" where
  "config_int cfg key = (case map_of cfg key of Some (JInt i) \<Rightarrow> Some i | _ \<Rightarrow> None)"

definition draft_rule :: "promotion_draft \<Rightarrow> order_item list \<Rightarrow> raw_promotion" where
  "draft_rule d items =
    (let get = (\<lambda>k. PyInt (case_option 0 id (config_int (dr_rule_config d) k))) in
     \<lparr>pr_promotion_id = PyInt 0, pr_promotion_type = Member (dr_type d),
      pr_threshold_amount = get ''threshold_amount'', pr_discount_amount = get ''discount_amount'',
      pr_discount_bps = get ''discount_bps'', pr_reduction_amount = get ''reduction_amount'',
      pr_max_discount_amount = map_option PyInt (config_int (dr_rule_config d) ''max_discount_amount''),
      pr_applicable_sku_ids = Some (oi_sku_id ` set items)\<rparr>)"

record promotion_impact =
  im_affected_sku_count :: nat
  im_affected_order_count_30d :: nat
  im_estimated_discount_amount_30d :: int

definition sku_count :: "'a shop_scheme \<Rightarrow> int set \<Rightarrow> nat" where
  "sku_count s product_ids = length (filter (\<lambda>k. sk_product_id k \<in> product_ids) (skus s))"

definition promotion_estimate ::
  "'a shop_scheme \<Rightarrow> promotion_draft \<Rightarrow> int \<Rightarrow> int set \<Rightarrow> promotion_impact result" where
  "promotion_estimate s d merchant_id product_ids =
    (if product_ids = {} then ok \<lparr>im_affected_sku_count = 0, im_affected_order_count_30d = 0,
       im_estimated_discount_amount_30d = 0\<rparr>
     else
      let groups = by_order (recent_items s merchant_id product_ids) in
      bindE (mapE (\<lambda>items. bindE (calculate_cart_price (map history_line items) (Some (draft_rule d items)) None None)
          (\<lambda>cart. ok (pv_promotion_discount_amount cart))) groups) (\<lambda>amounts.
      ok \<lparr>im_affected_sku_count = sku_count s product_ids, im_affected_order_count_30d = length groups,
        im_estimated_discount_amount_30d = sum_list amounts\<rparr>))"

definition coupon_draft_rule :: "coupon_draft \<Rightarrow> order_item list \<Rightarrow> raw_coupon" where
  "coupon_draft_rule d items =
    \<lparr>cr_coupon_id = PyInt 0, cr_coupon_type = Member (cd_type d),
     cr_threshold_amount = PyInt (cd_threshold_amount d),
     cr_face_value_amount = PyInt (case_option 0 id (cd_face_value_amount d)),
     cr_discount_bps = PyInt (case_option 0 id (cd_discount_bps d)),
     cr_max_discount_amount = map_option PyInt (cd_max_discount_amount d),
     cr_applicable_sku_ids = Some (oi_sku_id ` set items)\<rparr>"

record coupon_impact =
  ci_affected_sku_count :: nat
  ci_affected_order_count_30d :: nat
  ci_estimated_issue_count :: int
  ci_estimated_discount_amount :: int

definition coupon_estimate ::
  "'a shop_scheme \<Rightarrow> coupon_draft \<Rightarrow> int \<Rightarrow> int set \<Rightarrow> coupon_impact result" where
  "coupon_estimate s d merchant_id product_ids =
    (if product_ids = {} then ok \<lparr>ci_affected_sku_count = 0, ci_affected_order_count_30d = 0,
       ci_estimated_issue_count = 0, ci_estimated_discount_amount = 0\<rparr>
     else
      let groups = by_order (sort_key oi_order_id (sort_key oi_id (recent_items s merchant_id product_ids))) in
      bindE (mapE (\<lambda>items. bindE (calculate_cart_price (map history_line items) None (Some (coupon_draft_rule d items)) None)
          (\<lambda>cart. ok (pv_coupon_discount_amount cart))) groups) (\<lambda>amounts.
      let discounts = filter (\<lambda>a. a > 0) amounts in
      ok \<lparr>ci_affected_sku_count = sku_count s product_ids, ci_affected_order_count_30d = length groups,
        ci_estimated_issue_count = min (cd_total_quota d) (int (length discounts)),
        ci_estimated_discount_amount = sum_list (take (nat (cd_total_quota d)) discounts)\<rparr>))"

section \<open>Previews\<close>

record promotion_preview =
  pp_preview_token :: string
  pp_expires_at :: int
  pp_conflicts :: "(int \<times> string) list"
  pp_impact :: promotion_impact
  pp_warned :: bool

definition overlapping_promotions :: "'a shop_scheme \<Rightarrow> int \<Rightarrow> promotion_draft \<Rightarrow> promotion_row list" where
  "overlapping_promotions s merchant_id d =
    filter (\<lambda>p. pm_merchant_id p = merchant_id \<and> pm_status p \<in> {Campaign_DRAFT, Campaign_ACTIVE} \<and>
      pm_starts_at p < at_ms (dr_ends_at d) \<and> pm_ends_at p > at_ms (dr_starts_at d)) (promotions s)"

definition preview_conflicts ::
  "'a catalogue_scheme \<Rightarrow> int \<Rightarrow> int set \<Rightarrow> promotion_row list \<Rightarrow> (int \<times> string) list result" where
  "preview_conflicts s merchant_id product_ids rows =
    bindE (mapE (\<lambda>p. bindE (scope_products s merchant_id (pm_scope p)) (\<lambda>ids.
        ok (if product_ids \<inter> ids = {} then [] else [(pm_id p, pm_promotion_no p)]))) rows)
      (\<lambda>found. ok (concat found))"

definition promotion_preview ::
  "preview_env \<Rightarrow> 'a catalogue_scheme \<Rightarrow> principal \<Rightarrow> promotion_draft \<Rightarrow> string \<Rightarrow> promotion_preview result" where
  "promotion_preview pv s who d nonce =
    bindE (promotion_merchant who True) (\<lambda>m.
    bindE (scope_products s m (dr_scope d)) (\<lambda>product_ids.
    bindE (preview_conflicts s m product_ids (overlapping_promotions s m d)) (\<lambda>conflicts.
    bindE (promotion_estimate s d m product_ids) (\<lambda>impact.
    ok \<lparr>pp_preview_token = issue_preview_token pv (promotion_draft_json d) m (db_now s) nonce,
      pp_expires_at = db_now s + preview_ttl, pp_conflicts = conflicts, pp_impact = impact,
      pp_warned = (conflicts \<noteq> [])\<rparr>))))"

record coupon_preview =
  cp_preview_token :: string
  cp_expires_at :: int
  cp_impact :: coupon_impact

definition coupon_draft_preview ::
  "preview_env \<Rightarrow> 'a catalogue_scheme \<Rightarrow> principal \<Rightarrow> coupon_draft \<Rightarrow> string \<Rightarrow> coupon_preview result" where
  "coupon_draft_preview pv s who d nonce =
    bindE (coupon_merchant who True) (\<lambda>m.
    bindE (scope_products s m (cd_scope d)) (\<lambda>product_ids.
    bindE (coupon_estimate s d m product_ids) (\<lambda>impact.
    ok \<lparr>cp_preview_token = issue_preview_token pv (coupon_draft_json d) m (db_now s) nonce,
      cp_expires_at = db_now s + preview_ttl, cp_impact = impact\<rparr>)))"

section \<open>Creation\<close>

record offer_tables = catalogue +
  promotion_products :: "(int \<times> int \<times> int) list"

definition rule_of_config :: "(string \<times> json) list \<Rightarrow> rule_config" where
  "rule_of_config cfg =
    \<lparr>rc_threshold_amount = config_int cfg ''threshold_amount'',
     rc_discount_amount = config_int cfg ''discount_amount'', rc_discount_bps = config_int cfg ''discount_bps'',
     rc_reduction_amount = config_int cfg ''reduction_amount'',
     rc_max_discount_amount = config_int cfg ''max_discount_amount''\<rparr>"

definition new_promotion :: "'a shop_scheme \<Rightarrow> int \<Rightarrow> promotion_draft \<Rightarrow> string \<Rightarrow> promotion_row" where
  "new_promotion s m d token_hash =
    (let i = fresh_id pm_id (promotions s) in
     \<lparr>pm_id = i, pm_merchant_id = m, pm_type = dr_type d, pm_status = Campaign_DRAFT,
      pm_priority = dr_priority d, pm_rule_config = rule_of_config (dr_rule_config d), pm_scope = dr_scope d,
      pm_starts_at = at_ms (dr_starts_at d), pm_ends_at = at_ms (dr_ends_at d),
      pm_total_quota = dr_total_quota d, pm_used_quota = 0, pm_created_at = db_now s,
      pm_promotion_no = public_no ''NVP'' (db_now s) (nat i), pm_preview_token_hash = token_hash,
      pm_name = dr_name d, pm_description = dr_description d, pm_stackable = dr_stackable d\<rparr>)"

text \<open>
  The row is flushed under a provisional number, then under its own. A repeated proof meets the unique
  key of its hash and is answered with the row it made.
\<close>

definition promotion_create ::
  "preview_env \<Rightarrow> 'a offer_tables_scheme \<Rightarrow> principal \<Rightarrow> promotion_draft \<Rightarrow> string \<Rightarrow>
   (promotion_row \<times> 'a offer_tables_scheme) result" where
  "promotion_create pv s who d token =
    bindE (promotion_merchant who True) (\<lambda>m.
    require (draft_valid d) (PythonError ''ValidationError'')
    (bindE (verify_preview_token pv token (promotion_draft_json d) m (db_now s)) (\<lambda>h.
     bindE (scope_products s m (dr_scope d)) (\<lambda>_.
     let p = new_promotion s m d h in
     if list_ex (\<lambda>q. pm_merchant_id q = m \<and> (pm_preview_token_hash q = h \<or>
          pm_promotion_no q = clip 32 h \<or> pm_promotion_no q = pm_promotion_no p)) (promotions s) \<or>
        \<not> promotion_checks p
     then (case find (\<lambda>q. pm_merchant_id q = m \<and> pm_preview_token_hash q = h) (promotions s) of
             Some q \<Rightarrow> ok (q, s)
           | None \<Rightarrow> raise (IntegrityError ''promotions''))
     else ok (p, s\<lparr>promotions := promotions s @ [p],
       promotion_products := promotion_products s @
         map (\<lambda>i. (m, pm_id p, i)) (scope_product_ids (dr_scope d))\<rparr>)))))"

definition new_template :: "'a shop_scheme \<Rightarrow> int \<Rightarrow> coupon_draft \<Rightarrow> string \<Rightarrow> coupon_template" where
  "new_template s m d token_hash =
    (let i = fresh_id ct_id (templates s) in
     \<lparr>ct_id = i, ct_merchant_id = m, ct_coupon_type = cd_type d, ct_status = Campaign_DRAFT,
      ct_face_value_amount = cd_face_value_amount d, ct_discount_bps = cd_discount_bps d,
      ct_threshold_amount = cd_threshold_amount d, ct_max_discount_amount = cd_max_discount_amount d,
      ct_total_quota = cd_total_quota d, ct_issued_count = 0, ct_per_user_limit = cd_per_user_limit d,
      ct_validity_type = cd_validity_type d, ct_valid_days = cd_valid_days d,
      ct_valid_from = map_option at_ms (cd_valid_from d), ct_valid_to = map_option at_ms (cd_valid_to d),
      ct_applicable_scope = cd_scope d, ct_created_at = db_now s,
      ct_template_no = public_no ''NVC'' (db_now s) (nat i), ct_preview_token_hash = token_hash,
      ct_name = cd_name d\<rparr>)"

definition coupon_create ::
  "preview_env \<Rightarrow> 'a catalogue_scheme \<Rightarrow> principal \<Rightarrow> coupon_draft \<Rightarrow> string \<Rightarrow>
   (coupon_template \<times> 'a catalogue_scheme) result" where
  "coupon_create pv s who d token =
    bindE (coupon_merchant who True) (\<lambda>m.
    require (coupon_draft_valid d) (PythonError ''ValidationError'')
    (bindE (verify_preview_token pv token (coupon_draft_json d) m (db_now s)) (\<lambda>h.
     bindE (scope_products s m (cd_scope d)) (\<lambda>_.
     let t = new_template s m d h in
     if list_ex (\<lambda>q. ct_merchant_id q = m \<and> (ct_preview_token_hash q = h \<or>
          ct_template_no q = clip 32 h \<or> ct_template_no q = ct_template_no t)) (templates s) \<or>
        \<not> template_checks t
     then (case find (\<lambda>q. ct_merchant_id q = m \<and> ct_preview_token_hash q = h) (templates s) of
             Some q \<Rightarrow> ok (q, s)
           | None \<Rightarrow> raise (IntegrityError ''coupon_templates''))
     else ok (t, s\<lparr>templates := templates s @ [t]\<rparr>)))))"

end
