(* ===== verification/Marketing_Draft_Properties.thy ===== *)
theory Marketing_Draft_Properties
  imports Marketing_Drafts Shop_Sample "HOL-Library.Countable"
begin

text \<open>
  What a preview proves: its token creates exactly the offer that was previewed, for its merchant, for
  fifteen minutes, and one row at most; and an offer the schemas accept passes the table's constraints.
\<close>

section \<open>The token\<close>

text \<open>What the code relies on of BASE64 and JSON, for the claims at hand.\<close>

definition claims_codec :: "preview_env \<Rightarrow> bool" where
  "claims_codec pv \<longleftrightarrow> (\<forall>c. pv_decode pv (pv_encode pv c) = Some c \<and> CHR ''.'' \<notin> set (pv_encode pv c))"

lemma split_issued:
  assumes "CHR ''.'' \<notin> set body"
  shows "split_token (body @ ''.'' @ signature) = Some (body, signature)"
proof -
  have "takeWhile (\<lambda>c. c \<noteq> CHR ''.'') (body @ CHR ''.'' # signature) = body"
    "dropWhile (\<lambda>c. c \<noteq> CHR ''.'') (body @ CHR ''.'' # signature) = CHR ''.'' # signature"
    using assms by (auto simp: takeWhile_append dropWhile_append split: if_splits)
  then show ?thesis by (simp add: split_token_def)
qed

definition no_collision :: "env \<Rightarrow> string \<Rightarrow> string \<Rightarrow> bool" where
  "no_collision en x y \<longleftrightarrow> (ev_sha256 en x = ev_sha256 en y \<longrightarrow> x = y)"

lemma verify_issued:
  assumes "claims_codec pv"
  shows "verify_preview_token pv (issue_preview_token pv d m now nonce) d' m' now' =
    (if m = m' \<and> draft_hash pv d = draft_hash pv d' \<and> now' div 1000 < (now + preview_ttl) div 1000
     then ok (ev_sha256 (pv_env pv) (issue_preview_token pv d m now nonce))
     else app_raise (Marketing PromotionPreviewRequiredError))"
proof -
  define c where "c = \<lparr>pc_merchant_id = m, pc_payload_hash = draft_hash pv d,
      pc_expires_at = (now + preview_ttl) div 1000, pc_nonce = nonce\<rparr>"
  define body where "body = pv_encode pv c"
  define sig where "sig = ev_hmac_sha256 (pv_env pv) (pv_secret pv) body"
  define token where "token = body @ ''.'' @ sig"
  have issued: "issue_preview_token pv d m now nonce = token"
    by (simp add: issue_preview_token_def Let_def c_def body_def sig_def token_def)
  have decoded: "pv_decode pv body = Some c" and dotless: "CHR ''.'' \<notin> set body"
    using assms by (simp_all add: claims_codec_def body_def)
  have split: "split_token token = Some (body, sig)"
    unfolding token_def by (rule split_issued [OF dotless])
  show ?thesis
    unfolding issued verify_preview_token_def split option.case prod.case decoded
    by (simp add: sig_def require_def c_def not_le del: append.simps)
qed

text \<open>
  C23: The token of a preview is accepted exactly for the text of the draft that was previewed, for the
  merchant it was issued to and until its fifteen minutes are over; for anything else the creation is
  told to preview first.
\<close>

theorem preview_token_accepts:
  assumes "claims_codec pv"
    and "no_collision (pv_env pv) (json_text (pv_number pv) d) (json_text (pv_number pv) d')"
  shows "verify_preview_token pv (issue_preview_token pv d m now nonce) d' m' now' =
    (if m = m' \<and> json_text (pv_number pv) d = json_text (pv_number pv) d' \<and>
        now' div 1000 < (now + preview_ttl) div 1000
     then ok (ev_sha256 (pv_env pv) (issue_preview_token pv d m now nonce))
     else app_raise (Marketing PromotionPreviewRequiredError))"
proof -
  have "draft_hash pv d = draft_hash pv d' \<longleftrightarrow> json_text (pv_number pv) d = json_text (pv_number pv) d'"
    using assms(2) by (auto simp: draft_hash_def no_collision_def)
  then show ?thesis by (simp add: verify_issued [OF assms(1)])
qed

section \<open>Creation\<close>

lemma promotion_create_ok:
  assumes "promotion_create pv s who d token = ok (p, s')"
  obtains m h where "promotion_merchant who True = ok m" "draft_valid d"
    and "verify_preview_token pv token (promotion_draft_json d) m (db_now s) = ok h"
    and "s' = s \<and> p \<in> set (promotions s) \<and> pm_merchant_id p = m \<and> pm_preview_token_hash p = h \<or>
      p = new_promotion s m d h \<and> promotions s' = promotions s @ [p] \<and>
      (\<forall>q \<in> set (promotions s). pm_merchant_id q = m \<longrightarrow> pm_preview_token_hash q \<noteq> h)"
  using assms
  by (auto simp: promotion_create_def rsimps Let_def list_ex_iff split: if_splits option.splits
      dest!: find_SomeD)

lemma verified_hash: "verify_preview_token pv token d m now = ok h \<Longrightarrow> h = ev_sha256 (pv_env pv) token"
  by (auto simp: verify_preview_token_def rsimps split: option.splits prod.splits)

text \<open>
  C22: A preview token makes one promotion at most: after a creation with it, on any later tables that
  still hold the row under its token, a creation with the same token that answers at all answers
  with a row of that merchant made from that token and changes nothing.
\<close>

theorem one_offer_per_preview:
  assumes "promotion_create pv s who d token = ok (p, s1)"
    and "q \<in> set (promotions s2)" and "pm_merchant_id q = pm_merchant_id p"
    and "pm_preview_token_hash q = pm_preview_token_hash p"
    and "p_merchant_id who' = p_merchant_id who"
    and "promotion_create pv s2 who' d' token = ok (p', s3)"
  shows "s3 = s2 \<and> p' \<in> set (promotions s2) \<and> pm_merchant_id p' = pm_merchant_id p \<and>
    pm_preview_token_hash p' = pm_preview_token_hash p"
proof -
  obtain m h where 1: "promotion_merchant who True = ok m"
      "verify_preview_token pv token (promotion_draft_json d) m (db_now s) = ok h"
      "pm_merchant_id p = m" "pm_preview_token_hash p = h"
    using assms(1) by (elim promotion_create_ok) (auto simp: new_promotion_def Let_def)
  obtain m' h' where 2: "promotion_merchant who' True = ok m'"
      "verify_preview_token pv token (promotion_draft_json d') m' (db_now s2) = ok h'"
    and row: "s3 = s2 \<and> p' \<in> set (promotions s2) \<and> pm_merchant_id p' = m' \<and> pm_preview_token_hash p' = h' \<or>
      p' = new_promotion s2 m' d' h' \<and> promotions s3 = promotions s2 @ [p'] \<and>
      (\<forall>q \<in> set (promotions s2). pm_merchant_id q = m' \<longrightarrow> pm_preview_token_hash q \<noteq> h')"
    by (rule promotion_create_ok [OF assms(6)])
  have "m' = m" using 1(1) 2(1) assms(5) by (auto simp: promotion_merchant_def rsimps split: option.splits)
  moreover have "h' = h" using verified_hash 1(2) 2(2) by metis
  ultimately show ?thesis using row assms(2-4) 1(3,4) by auto
qed

section \<open>Offers the schemas accept\<close>

text \<open>A draft that passed its schema meets the CHECK constraints of the row it becomes.\<close>

lemma draft_passes_checks:
  assumes "draft_valid d"
  shows "promotion_checks (new_promotion s m d h)"
  using assms by (simp add: draft_valid_def promotion_checks_def new_promotion_def Let_def)

lemma coupon_draft_passes_checks:
  assumes "coupon_draft_valid d"
  shows "template_checks (new_template s m d h)"
  using assms
  by (cases "cd_type d"; cases "cd_validity_type d")
    (auto simp: coupon_draft_valid_def template_checks_def new_template_def Let_def split: option.splits)

section \<open>Witnesses\<close>

text \<open>A codec of claims without dots: the numbers of the claims in unary, each closed by \<open>B\<close>.\<close>

definition unary_text :: "nat list \<Rightarrow> string" where
  "unary_text ns = concat (map (\<lambda>n. replicate n (CHR ''A'') @ ''B'') ns)"

fun read_units :: "nat \<Rightarrow> string \<Rightarrow> nat list" where
  "read_units n [] = []"
| "read_units n (c # cs) = (if c = CHR ''B'' then n # read_units 0 cs else read_units (Suc n) cs)"

lemma read_units_replicate: "read_units m (replicate n (CHR ''A'') @ cs) = read_units (m + n) cs"
  by (induction n arbitrary: m) simp_all

lemma read_units_units: "read_units 0 (unary_text ns) = ns"
  by (induction ns) (simp_all add: unary_text_def read_units_replicate)

definition sample_encode :: "preview_claims \<Rightarrow> string" where
  "sample_encode c = unary_text (int_encode (pc_merchant_id c) # int_encode (pc_expires_at c) #
    length (pc_payload_hash c) # map of_char (pc_payload_hash c @ pc_nonce c))"

definition sample_decode :: "string \<Rightarrow> preview_claims option" where
  "sample_decode body =
    (case read_units 0 body of
       m # e # k # cs \<Rightarrow> Some \<lparr>pc_merchant_id = int_decode m, pc_payload_hash = map char_of (take k cs),
         pc_expires_at = int_decode e, pc_nonce = map char_of (drop k cs)\<rparr>
     | _ \<Rightarrow> None)"

definition sample_preview_env :: preview_env where
  "sample_preview_env = \<lparr>pv_env = sample_env, pv_secret = ''secret'', pv_encode = sample_encode,
    pv_decode = sample_decode, pv_number = (\<lambda>_. [])\<rparr>"

lemma char_codes [simp]: "map (char_of \<circ> (of_char :: char \<Rightarrow> nat)) cs = cs"
  by (induction cs) simp_all

lemma sample_codec: "claims_codec sample_preview_env"
  by (simp add: claims_codec_def sample_preview_env_def sample_encode_def sample_decode_def
      read_units_units) (auto simp: unary_text_def)

definition sample_draft :: promotion_draft where
  "sample_draft =
    \<lparr>dr_name = ''Tea week'', dr_description = None, dr_type = DIRECT_DISCOUNT, dr_priority = 1,
     dr_stackable = False, dr_rule_config = [(''discount_amount'', JInt 100)], dr_scope = whole_shop,
     dr_starts_at = \<lparr>at_ms = 0, at_text = ''1970-01-01T00:00:00Z'', at_zoned = True\<rparr>,
     dr_ends_at = \<lparr>at_ms = 60000, at_text = ''1970-01-01T00:01:00Z'', at_zoned = True\<rparr>,
     dr_total_quota = 10\<rparr>"

definition sample_token :: string where
  "sample_token = issue_preview_token sample_preview_env (promotion_draft_json sample_draft) 1 1000 ''n''"

lemma no_collision_sample: "no_collision (pv_env sample_preview_env) x y"
  by (simp add: no_collision_def sample_preview_env_def sample_env_def)

theorem preview_token_accepts_witness:
  "verify_preview_token sample_preview_env sample_token (promotion_draft_json sample_draft) 1 900999 = ok sample_token \<and>
   verify_preview_token sample_preview_env sample_token (promotion_draft_json sample_draft) 1 901000 =
    app_raise (Marketing PromotionPreviewRequiredError) \<and>
   verify_preview_token sample_preview_env sample_token (promotion_draft_json sample_draft) 2 1000 =
    app_raise (Marketing PromotionPreviewRequiredError)"
  unfolding sample_token_def preview_token_accepts [OF sample_codec no_collision_sample]
  by (simp_all add: preview_ttl_def sample_preview_env_def sample_env_def)

definition sample_offers :: "promotion_row list \<Rightarrow> offer_tables" where
  "sample_offers rows = shop.extend (sample_shop\<lparr>promotions := rows\<rparr>)
    \<lparr>categories = [], brands = [], promotion_products = []\<rparr>"

definition sample_marketer :: principal where
  "sample_marketer = \<lparr>p_user_id = 2, p_merchant_id = Some 1, p_permissions = {''promotion:write''},
    p_data_scope = Scope_MERCHANT, p_is_staff = True\<rparr>"

lemma sample_offers_simps [simp]:
  "promotions (sample_offers rows) = rows" "db_now (sample_offers rows) = 1000"
  "(sample_offers rows)\<lparr>promotions := rows', promotion_products := []\<rparr> = sample_offers rows'"
  "promotion_products (sample_offers rows) = []"
  "categories (sample_offers rows) = []" "brands (sample_offers rows) = []"
  by (simp_all add: sample_offers_def shop.defs sample_shop_def)

lemma sample_creates:
  "promotion_create sample_preview_env (sample_offers rows) sample_marketer sample_draft sample_token =
    (let p = new_promotion (sample_offers rows) 1 sample_draft sample_token in
     if list_ex (\<lambda>q. pm_merchant_id q = 1 \<and> (pm_preview_token_hash q = sample_token \<or>
          pm_promotion_no q = clip 32 sample_token \<or> pm_promotion_no q = pm_promotion_no p)) rows
     then (case find (\<lambda>q. pm_merchant_id q = 1 \<and> pm_preview_token_hash q = sample_token) rows of
             Some q \<Rightarrow> ok (q, sample_offers rows) | None \<Rightarrow> raise (IntegrityError ''promotions''))
     else ok (p, sample_offers (rows @ [p])))"
proof -
  have draft: "draft_valid sample_draft" by code_simp
  have who: "promotion_merchant sample_marketer True = ok 1" by code_simp
  have token: "verify_preview_token sample_preview_env sample_token (promotion_draft_json sample_draft) 1 1000 =
      ok sample_token"
    unfolding sample_token_def verify_issued [OF sample_codec]
    by (simp add: preview_ttl_def sample_preview_env_def sample_env_def)
  have "\<exists>ids. scope_products (sample_offers rows) 1 (dr_scope sample_draft) = ok ids"
    "scope_product_ids (dr_scope sample_draft) = []"
    by (simp_all add: scope_products_def scope_rows_def sample_draft_def whole_shop_def require_def Let_def)
  then show ?thesis
    using draft_passes_checks [OF draft, of "sample_offers rows" 1 sample_token]
    by (auto simp: promotion_create_def who token draft require_def Let_def)
qed

theorem one_offer_per_preview_witness:
  "\<exists>p s1. promotion_create sample_preview_env (sample_offers []) sample_marketer sample_draft sample_token = ok (p, s1) \<and>
    promotion_create sample_preview_env s1 sample_marketer sample_draft sample_token = ok (p, s1) \<and>
    promotions s1 = [p]"
proof -
  let ?p = "new_promotion (sample_offers []) 1 sample_draft sample_token"
  have p: "pm_merchant_id ?p = 1" "pm_preview_token_hash ?p = sample_token"
    by (simp_all add: new_promotion_def Let_def)
  have first: "promotion_create sample_preview_env (sample_offers []) sample_marketer sample_draft sample_token =
      ok (?p, sample_offers [?p])"
    by (simp add: sample_creates Let_def)
  obtain p' s3 where again: "promotion_create sample_preview_env (sample_offers [?p]) sample_marketer sample_draft
      sample_token = ok (p', s3)"
    by (simp add: sample_creates Let_def p)
  have "s3 = sample_offers [?p] \<and> p' \<in> set [?p]"
    using one_offer_per_preview [OF first _ refl refl refl again] by simp
  then show ?thesis using first again by auto
qed

end
