(* ===== verification/Governance.thy ===== *)
theory Governance
  imports Marketing_Drafts
begin

text \<open>
  \<open>app/modules/governance\<close>: the queue of actions that wait for a person. A decision commits before it
  raises when it finds the action expired, and a resumed action commits its failure; so an operation
  answers with the tables it leaves. The two callbacks of \<open>resume\<close> are arguments.
\<close>

section \<open>The table\<close>

datatype risk_level = Risk_READ | Risk_LOW | Risk_MEDIUM | Risk_HIGH | Risk_CRITICAL

datatype action_status =
    Action_PENDING | Action_APPROVED | Action_REJECTED | Action_EXECUTING | Action_SUCCEEDED
  | Action_FAILED | Action_EXPIRED

record pending_action =
  pa_id :: int
  pa_merchant_id :: int
  pa_agent_run_id :: string
  pa_action_type :: string
  pa_tool_name :: string
  pa_summary :: string
  pa_risk_level :: risk_level
  pa_status :: action_status
  pa_payload :: json
  pa_payload_hash :: string
  pa_requested_by :: int
  pa_decided_by :: "int option"
  pa_decision_reason :: "string option"
  pa_expires_at :: int
  pa_created_at :: int
  pa_decided_at :: "int option"
  pa_executed_at :: "int option"
  pa_execution_receipt :: "json option"

record governed = offer_tables +
  pending_actions :: "pending_action list"

definition put_action :: "pending_action \<Rightarrow> 'a governed_scheme \<Rightarrow> 'a governed_scheme" where
  "put_action a s = s\<lparr>pending_actions := put_row pa_id a (pending_actions s)\<rparr>"

section \<open>The digest of a payload\<close>

definition payload_hash :: "env \<Rightarrow> (json \<Rightarrow> string) \<Rightarrow> json \<Rightarrow> string" where
  "payload_hash ev number payload = ev_sha256 ev (json_text number payload)"

section \<open>Reading\<close>

definition action_scope :: "principal \<Rightarrow> (int option \<times> bool) result" where
  "action_scope who =
    (if \<not> p_is_staff who then app_raise (Auth PermissionDeniedError)
     else if p_data_scope who = Scope_ALL then ok (None, True)
     else if p_data_scope who \<noteq> Scope_MERCHANT \<or> p_merchant_id who = None
     then app_raise (Auth PermissionDeniedError)
     else ok (p_merchant_id who, False))"

definition action_get :: "'a governed_scheme \<Rightarrow> int \<Rightarrow> int option \<Rightarrow> bool \<Rightarrow> pending_action option" where
  "action_get s action_id merchant_id all_merchants =
    find (\<lambda>a. pa_id a = action_id \<and> (all_merchants \<or> Some (pa_merchant_id a) = merchant_id)) (pending_actions s)"

definition action_list ::
  "'a governed_scheme \<Rightarrow> int option \<Rightarrow> bool \<Rightarrow> action_status option \<Rightarrow> risk_level option \<Rightarrow> nat \<Rightarrow> nat \<Rightarrow>
   pending_action list \<times> nat" where
  "action_list s merchant_id all_merchants status risk page page_size =
    (let rows = filter (\<lambda>a. (all_merchants \<or> Some (pa_merchant_id a) = merchant_id) \<and>
          (case status of None \<Rightarrow> True | Some t \<Rightarrow> pa_status a = t) \<and>
          (case risk of None \<Rightarrow> True | Some r \<Rightarrow> pa_risk_level a = r)) (pending_actions s)
     in (take page_size (drop ((page - 1) * page_size)
          (sort_key (\<lambda>a. - pa_created_at a) (sort_key (\<lambda>a. - pa_id a) rows))), length rows))"

definition actions_list ::
  "'a governed_scheme \<Rightarrow> principal \<Rightarrow> action_status option \<Rightarrow> risk_level option \<Rightarrow> nat \<Rightarrow> nat \<Rightarrow>
   (pending_action list \<times> nat) result" where
  "actions_list s who status risk page page_size =
    bindE (require_permission who ''pending_action:read'') (\<lambda>_.
    bindE (action_scope who) (\<lambda>(m, every). ok (action_list s m every status risk page page_size)))"

definition visible_action :: "'a governed_scheme \<Rightarrow> principal \<Rightarrow> string \<Rightarrow> int \<Rightarrow> pending_action result" where
  "visible_action s who permission action_id =
    bindE (require_permission who permission) (\<lambda>_.
    bindE (action_scope who) (\<lambda>(m, every).
    case action_get s action_id m every of
      None \<Rightarrow> app_raise (Mcp PendingActionNotFoundError)
    | Some a \<Rightarrow> ok a))"

definition actions_get :: "'a governed_scheme \<Rightarrow> principal \<Rightarrow> int \<Rightarrow> pending_action result" where
  "actions_get s who action_id = visible_action s who ''pending_action:read'' action_id"

section \<open>Decisions\<close>

definition decided_already :: "action_status \<Rightarrow> bool" where
  "decided_already t \<longleftrightarrow> t \<in> {Action_APPROVED, Action_REJECTED, Action_EXECUTING, Action_SUCCEEDED,
    Action_FAILED, Action_EXPIRED}"

definition action_audit :: "action_status \<Rightarrow> string" where
  "action_audit t = ''pending_action.'' @ (if t = Action_APPROVED then ''approved'' else ''rejected'')"

text \<open>The guarded update hits the locked row, or the decision rolls back.\<close>

definition decide_action ::
  "'a governed_scheme \<Rightarrow> principal \<Rightarrow> int \<Rightarrow> string \<Rightarrow> bool \<Rightarrow> string option \<Rightarrow>
   pending_action result \<times> 'a governed_scheme" where
  "decide_action s who action_id request_hash approve reason =
    (case visible_action s who ''pending_action:approve'' action_id of
       Inl e \<Rightarrow> (Inl e, s)
     | Inr a \<Rightarrow>
        if approve \<and> pa_risk_level a = Risk_CRITICAL then (app_raise (Agent AgentBlockedByRiskError), s)
        else if pa_status a = Action_PENDING \<and> pa_expires_at a \<le> db_now s
        then (app_raise (Mcp PendingActionExpiredError), put_action (a\<lparr>pa_status := Action_EXPIRED\<rparr>) s)
        else if pa_status a \<noteq> Action_PENDING
        then (app_raise (Mcp (if decided_already (pa_status a) then PendingActionAlreadyDecidedError
              else PendingActionStateInvalidError)), s)
        else if pa_payload_hash a \<noteq> request_hash then (app_raise (Mcp PendingActionPayloadChangedError), s)
        else if \<not> (pa_status a = Action_PENDING \<and> pa_expires_at a > db_now s)
        then (app_raise (Mcp PendingActionStateInvalidError), s)
        else
          let t = (if approve then Action_APPROVED else Action_REJECTED);
              a' = a\<lparr>pa_status := t, pa_decided_by := Some (p_user_id who),
                pa_decision_reason := reason, pa_decided_at := Some (db_now s)\<rparr>
          in (ok a', audit_record_row (put_action a' s) (Some (pa_merchant_id a)) (Some (p_user_id who))
                ''STAFF'' (action_audit t) ''PENDING_ACTION'' (pa_id a) ''SUCCESS''))"

section \<open>Execution\<close>

text \<open>
  What \<open>resume\<close> checks before it executes: either the answer it stops with, or the approved action,
  marked as executing and flushed.
\<close>

definition resume_gate ::
  "env \<Rightarrow> (json \<Rightarrow> string) \<Rightarrow> ('a governed_scheme \<Rightarrow> pending_action \<Rightarrow> bool result) \<Rightarrow> 'a governed_scheme \<Rightarrow> int \<Rightarrow>
   (pending_action result \<times> 'a governed_scheme) + (pending_action \<times> 'a governed_scheme)" where
  "resume_gate ev number revalidate s action_id =
    (case action_get s action_id None True of
       None \<Rightarrow> Inl (app_raise (Mcp PendingActionNotFoundError), s)
     | Some a \<Rightarrow>
        if pa_status a = Action_APPROVED \<and> pa_expires_at a \<le> db_now s
        then Inl (app_raise (Mcp PendingActionExpiredError), put_action (a\<lparr>pa_status := Action_EXPIRED\<rparr>) s)
        else if pa_status a = Action_SUCCEEDED then Inl (ok a, s)
        else if pa_status a \<noteq> Action_APPROVED then Inl (app_raise (Mcp PendingActionStateInvalidError), s)
        else if pa_risk_level a = Risk_CRITICAL then Inl (app_raise (Agent AgentBlockedByRiskError), s)
        else if payload_hash ev number (pa_payload a) \<noteq> pa_payload_hash a
        then Inl (app_raise (Mcp PendingActionPayloadChangedError),
          put_action (a\<lparr>pa_status := Action_FAILED,
            pa_decision_reason := Some ''approved payload integrity check failed''\<rparr>) s)
        else
          (case revalidate s a of
             Inl e \<Rightarrow> Inl (Inl e, s)
           | Inr False \<Rightarrow> Inl (app_raise (Mcp PendingActionPayloadChangedError),
               put_action (a\<lparr>pa_status := Action_FAILED,
                 pa_decision_reason := Some ''business facts changed during resume''\<rparr>) s)
           | Inr True \<Rightarrow>
               let a' = a\<lparr>pa_status := Action_EXECUTING\<rparr> in Inr (a', put_action a' s)))"

text \<open>The savepoint undoes what a failing execution wrote.\<close>

definition resume_action ::
  "env \<Rightarrow> (json \<Rightarrow> string) \<Rightarrow> ('a governed_scheme \<Rightarrow> pending_action \<Rightarrow> bool result) \<Rightarrow>
   ('a governed_scheme \<Rightarrow> json \<Rightarrow> (json \<times> 'a governed_scheme) result) \<Rightarrow> 'a governed_scheme \<Rightarrow> int \<Rightarrow>
   pending_action result \<times> 'a governed_scheme" where
  "resume_action ev number revalidate execute s action_id =
    (case resume_gate ev number revalidate s action_id of
       Inl stopped \<Rightarrow> stopped
     | Inr (a, s1) \<Rightarrow>
        (case execute s1 (pa_payload a) of
           Inl e \<Rightarrow> (Inl e, put_action (a\<lparr>pa_status := Action_FAILED\<rparr>) s1)
         | Inr (receipt, s2) \<Rightarrow>
            let a' = a\<lparr>pa_status := Action_SUCCEEDED, pa_execution_receipt := Some receipt,
              pa_executed_at := Some (db_now s2)\<rparr>
            in (ok a', put_action a' s2)))"

definition action_due :: "int \<Rightarrow> pending_action \<Rightarrow> bool" where
  "action_due now a \<longleftrightarrow> pa_status a = Action_PENDING \<and> pa_expires_at a \<le> now"

definition expire_actions :: "'a governed_scheme \<Rightarrow> int option \<Rightarrow> nat \<times> 'a governed_scheme" where
  "expire_actions s given =
    (let now = (case given of None \<Rightarrow> db_now s | Some t \<Rightarrow> t) in
     (length (filter (action_due now) (pending_actions s)),
      s\<lparr>pending_actions := map (\<lambda>a. if action_due now a then a\<lparr>pa_status := Action_EXPIRED\<rparr> else a)
        (pending_actions s)\<rparr>))"

section \<open>The view\<close>

record action_view =
  av_id :: string
  av_agent_run_id :: string
  av_action_type :: string
  av_tool_name :: string
  av_summary :: string
  av_risk_level :: risk_level
  av_status :: action_status
  av_payload :: json
  av_payload_hash :: string
  av_requested_by :: string
  av_decided_by :: "string option"
  av_decision_reason :: "string option"
  av_expires_at :: int
  av_created_at :: int
  av_decided_at :: "int option"
  av_executed_at :: "int option"
  av_execution_receipt :: "json option"

definition serialize_action :: "pending_action \<Rightarrow> action_view" where
  "serialize_action a =
    \<lparr>av_id = int_text (pa_id a), av_agent_run_id = pa_agent_run_id a, av_action_type = pa_action_type a,
     av_tool_name = pa_tool_name a, av_summary = pa_summary a, av_risk_level = pa_risk_level a,
     av_status = pa_status a, av_payload = pa_payload a, av_payload_hash = pa_payload_hash a,
     av_requested_by = int_text (pa_requested_by a), av_decided_by = map_option int_text (pa_decided_by a),
     av_decision_reason = pa_decision_reason a, av_expires_at = pa_expires_at a,
     av_created_at = pa_created_at a, av_decided_at = pa_decided_at a, av_executed_at = pa_executed_at a,
     av_execution_receipt = pa_execution_receipt a\<rparr>"

end
