(* ===== verification/Governance_Runs.thy ===== *)
theory Governance_Runs
  imports Governance Shop_Sample
begin

text \<open>
  The life of a pending action over any sequence of proposals, decisions, executions, expiry sweeps and
  edits of a stored payload by other means.
\<close>

section \<open>Events and steps\<close>

datatype gov_event =
    Decided principal int string bool
  | Executed int json

fun event_action :: "gov_event \<Rightarrow> int" where
  "event_action (Decided who i h ap) = i"
| "event_action (Executed i p) = i"

definition history :: "int \<Rightarrow> gov_event list \<Rightarrow> gov_event list" where
  "history i tr = filter (\<lambda>e. event_action e = i) tr"

definition may_decide :: "principal \<Rightarrow> bool" where
  "may_decide who \<longleftrightarrow> has_permission who ''pending_action:approve'' \<and> p_is_staff who"

definition keeps_actions ::
  "('a governed_scheme \<Rightarrow> json \<Rightarrow> (json \<times> 'a governed_scheme) result) \<Rightarrow> bool" where
  "keeps_actions execute \<longleftrightarrow>
    (\<forall>s p r s'. execute s p = ok (r, s') \<longrightarrow> pending_actions s' = pending_actions s)"

inductive gov_step ::
  "env \<Rightarrow> (json \<Rightarrow> string) \<Rightarrow> 'a governed_scheme \<Rightarrow> gov_event list \<Rightarrow> 'a governed_scheme \<Rightarrow> bool"
  for ev number where
  proposes: "pending_actions s' = pending_actions s @ [a] \<Longrightarrow> pa_id a = fresh_id pa_id (pending_actions s) \<Longrightarrow>
    pa_status a = Action_PENDING \<Longrightarrow> gov_step ev number s [] s'"
| decides: "decide_action s who i h ap reason = (ok a, s') \<Longrightarrow>
    gov_step ev number s [Decided who i h ap] s'"
| refused: "decide_action s who i h ap reason = (Inl e, s') \<Longrightarrow> gov_step ev number s [] s'"
| executes: "keeps_actions execute \<Longrightarrow> resume_gate ev number revalidate s i = Inr (a, s1) \<Longrightarrow>
    resume_action ev number revalidate execute s i = (ans, s') \<Longrightarrow>
    gov_step ev number s [Executed i (pa_payload a)] s'"
| stops: "resume_gate ev number revalidate s i = Inl (ans, s') \<Longrightarrow> gov_step ev number s [] s'"
| expires: "expire_actions s given = (n, s') \<Longrightarrow> gov_step ev number s [] s'"
| edits: "a \<in> set (pending_actions s) \<Longrightarrow> s' = put_action (a\<lparr>pa_payload := p\<rparr>) s \<Longrightarrow>
    gov_step ev number s [] s'"
| others: "pending_actions s' = pending_actions s \<Longrightarrow> gov_step ev number s [] s'"

inductive gov_run ::
  "env \<Rightarrow> (json \<Rightarrow> string) \<Rightarrow> 'a governed_scheme \<Rightarrow> gov_event list \<Rightarrow> 'a governed_scheme \<Rightarrow> bool"
  for ev number where
  start: "gov_run ev number s [] s"
| further: "gov_run ev number s tr t \<Longrightarrow> gov_step ev number t es u \<Longrightarrow> gov_run ev number s (tr @ es) u"

section \<open>What the status of a row says of its history\<close>

definition approved_as :: "string \<Rightarrow> int \<Rightarrow> gov_event list \<Rightarrow> bool" where
  "approved_as h i tr \<longleftrightarrow> (\<exists>who. history i tr = [Decided who i h True] \<and> may_decide who)"

definition executed_as :: "env \<Rightarrow> (json \<Rightarrow> string) \<Rightarrow> string \<Rightarrow> int \<Rightarrow> gov_event list \<Rightarrow> bool" where
  "executed_as ev number h i tr \<longleftrightarrow>
    (\<exists>who p. history i tr = [Decided who i h True, Executed i p] \<and> may_decide who \<and> payload_hash ev number p = h)"

definition rejected :: "int \<Rightarrow> gov_event list \<Rightarrow> bool" where
  "rejected i tr \<longleftrightarrow> (\<exists>who h. history i tr = [Decided who i h False] \<and> may_decide who)"

fun status_history ::
  "env \<Rightarrow> (json \<Rightarrow> string) \<Rightarrow> gov_event list \<Rightarrow> action_status \<Rightarrow> string \<Rightarrow> int \<Rightarrow> bool" where
  "status_history ev number tr Action_PENDING h i \<longleftrightarrow> history i tr = []"
| "status_history ev number tr Action_APPROVED h i \<longleftrightarrow> approved_as h i tr"
| "status_history ev number tr Action_REJECTED h i \<longleftrightarrow> rejected i tr"
| "status_history ev number tr Action_EXECUTING h i \<longleftrightarrow> False"
| "status_history ev number tr Action_SUCCEEDED h i \<longleftrightarrow> executed_as ev number h i tr"
| "status_history ev number tr Action_FAILED h i \<longleftrightarrow> approved_as h i tr \<or> executed_as ev number h i tr"
| "status_history ev number tr Action_EXPIRED h i \<longleftrightarrow> history i tr = [] \<or> approved_as h i tr"

definition row_history :: "env \<Rightarrow> (json \<Rightarrow> string) \<Rightarrow> gov_event list \<Rightarrow> pending_action \<Rightarrow> bool" where
  "row_history ev number tr a = status_history ev number tr (pa_status a) (pa_payload_hash a) (pa_id a)"

definition gov_inv :: "env \<Rightarrow> (json \<Rightarrow> string) \<Rightarrow> gov_event list \<Rightarrow> pending_action list \<Rightarrow> bool" where
  "gov_inv ev number tr rows \<longleftrightarrow> distinct (map pa_id rows) \<and> event_action ` set tr \<subseteq> pa_id ` set rows \<and>
    (\<forall>a \<in> set rows. row_history ev number tr a)"

lemma history_append [simp]: "history i (tr @ es) = history i tr @ history i es"
  by (simp add: history_def)

lemma history_events [simp]:
  "history i [] = []" "history i (e # es) = (if event_action e = i then e # history i es else history i es)"
  by (simp_all add: history_def)

lemma history_unknown: "i \<notin> event_action ` set tr \<Longrightarrow> history i tr = []"
  by (induction tr) auto

lemma other_rows:
  assumes "event_action ` set es \<subseteq> {i}" and "pa_id a \<noteq> i"
  shows "row_history ev number (tr @ es) a = row_history ev number tr a"
proof -
  have "history (pa_id a) (tr @ es) = history (pa_id a) tr"
    using assms history_unknown [of "pa_id a" es] by auto
  then show ?thesis
    by (cases "pa_status a") (simp_all add: row_history_def approved_as_def executed_as_def rejected_def)
qed

text \<open>Writing back one row, with what happened to it.\<close>

lemma put_row_inv:
  assumes "gov_inv ev number tr rows" and "pa_id a \<in> pa_id ` set rows"
    and "event_action ` set es \<subseteq> {pa_id a}" and "row_history ev number (tr @ es) a"
  shows "gov_inv ev number (tr @ es) (put_row pa_id a rows)"
proof -
  have ids: "pa_id ` set (put_row pa_id a rows) = pa_id ` set rows"
    by (metis keys_put_row set_map)
  have "row_history ev number (tr @ es) b" if b: "b \<in> set (put_row pa_id a rows)" for b
  proof (cases "b = a")
    case False
    then have "b \<in> set rows" "pa_id b \<noteq> pa_id a" using b by (auto simp: put_row_def split: if_splits)
    then show ?thesis using other_rows [OF assms(3)] assms(1) by (auto simp: gov_inv_def)
  qed (use assms(4) in simp)
  then show ?thesis using assms(1-3) ids by (auto simp: gov_inv_def)
qed

lemma mapped_inv:
  assumes "gov_inv ev number tr rows"
    and f: "\<And>a. a \<in> set rows \<Longrightarrow> pa_id (f a) = pa_id a \<and> row_history ev number tr (f a)"
  shows "gov_inv ev number tr (map f rows)"
proof -
  have ids: "map pa_id (map f rows) = map pa_id rows" using f by simp
  then have "pa_id ` set (map f rows) = pa_id ` set rows" by (metis set_map)
  moreover have "\<forall>b \<in> set (map f rows). row_history ev number tr b" using f by auto
  ultimately show ?thesis using assms(1) ids by (simp only: gov_inv_def)
qed

lemma action_get_SomeD:
  "action_get s i m ev = Some a \<Longrightarrow> a \<in> set (pending_actions s) \<and> pa_id a = i"
  by (auto simp: action_get_def dest: find_SomeD)

lemma visible_action_ok:
  "visible_action s who ''pending_action:approve'' i = ok a \<Longrightarrow>
    a \<in> set (pending_actions s) \<and> pa_id a = i \<and> may_decide who"
  by (auto simp: visible_action_def may_decide_def action_scope_def require_permission_def rsimps
      split: option.splits if_splits dest: action_get_SomeD)

lemma actions_put [simp]: "pending_actions (put_action a s) = put_row pa_id a (pending_actions s)"
  by (simp add: put_action_def)

lemma actions_audit [simp]: "pending_actions (audit_record_row s m w t a r i z) = pending_actions s"
  by (simp add: audit_record_row_def)

lemma decide_ok:
  assumes "decide_action s who i h ap reason = (ok a', s')"
  shows "\<exists>a. a \<in> set (pending_actions s) \<and> pa_id a = i \<and> may_decide who \<and> pa_status a = Action_PENDING \<and>
    pa_payload_hash a = h \<and> pa_id a' = i \<and> pa_payload_hash a' = h \<and>
    pa_status a' = (if ap then Action_APPROVED else Action_REJECTED) \<and>
    pending_actions s' = put_row pa_id a' (pending_actions s)"
  using assms visible_action_ok [of s who i]
  by (auto simp: decide_action_def Let_def split: sum.splits if_splits)

lemma decide_refused:
  assumes "decide_action s who i h ap reason = (Inl e, s')"
  shows "pending_actions s' = pending_actions s \<or>
    (\<exists>a \<in> set (pending_actions s). pa_status a = Action_PENDING \<and>
      pending_actions s' = put_row pa_id (a\<lparr>pa_status := Action_EXPIRED\<rparr>) (pending_actions s))"
  using assms visible_action_ok [of s who i]
  by (auto simp: decide_action_def Let_def split: sum.splits if_splits)

lemma gate_ok:
  assumes "resume_gate ev number revalidate s i = Inr (a', s1)"
  shows "\<exists>a. a \<in> set (pending_actions s) \<and> pa_id a = i \<and> pa_status a = Action_APPROVED \<and>
    a' = a\<lparr>pa_status := Action_EXECUTING\<rparr> \<and> payload_hash ev number (pa_payload a) = pa_payload_hash a \<and>
    pending_actions s1 = put_row pa_id a' (pending_actions s)"
  using assms
  by (auto simp: resume_gate_def Let_def split: option.splits if_splits sum.splits bool.splits
      dest: action_get_SomeD)

lemma gate_stopped:
  assumes "resume_gate ev number revalidate s i = Inl (ans, s')"
  shows "pending_actions s' = pending_actions s \<or>
    (\<exists>a \<in> set (pending_actions s). \<exists>b. pa_status a = Action_APPROVED \<and> pa_id b = pa_id a \<and>
      pa_payload_hash b = pa_payload_hash a \<and> pa_status b \<in> {Action_EXPIRED, Action_FAILED} \<and>
      pending_actions s' = put_row pa_id b (pending_actions s))"
proof (cases "action_get s i None True")
  case (Some a)
  let ?rows = "pending_actions s"
  have "pending_actions s' = ?rows \<or> pa_status a = Action_APPROVED \<and>
      (pending_actions s' = put_row pa_id (a\<lparr>pa_status := Action_EXPIRED\<rparr>) ?rows \<or>
       (\<exists>r. pending_actions s' = put_row pa_id (a\<lparr>pa_status := Action_FAILED, pa_decision_reason := r\<rparr>) ?rows))"
    using assms Some
    by (auto simp: resume_gate_def Let_def split: if_splits sum.splits bool.splits)
  then show ?thesis
  proof (elim disjE conjE exE)
    assume "pa_status a = Action_APPROVED" "pending_actions s' = put_row pa_id (a\<lparr>pa_status := Action_EXPIRED\<rparr>) ?rows"
    then show ?thesis using action_get_SomeD [OF Some]
      by (intro disjI2 bexI [of _ a] exI [of _ "a\<lparr>pa_status := Action_EXPIRED\<rparr>"]) auto
  next
    fix r assume "pa_status a = Action_APPROVED"
      "pending_actions s' = put_row pa_id (a\<lparr>pa_status := Action_FAILED, pa_decision_reason := r\<rparr>) ?rows"
    then show ?thesis using action_get_SomeD [OF Some]
      by (intro disjI2 bexI [of _ a] exI [of _ "a\<lparr>pa_status := Action_FAILED, pa_decision_reason := r\<rparr>"]) auto
  qed simp
qed (use assms in \<open>simp add: resume_gate_def\<close>)

lemma resume_ran:
  assumes "resume_gate ev number revalidate s i = Inr (a, s1)" and "keeps_actions execute"
    and "resume_action ev number revalidate execute s i = (ans, s')"
  shows "\<exists>b. pa_id b = pa_id a \<and> pa_payload_hash b = pa_payload_hash a \<and>
    pa_status b \<in> {Action_SUCCEEDED, Action_FAILED} \<and>
    pending_actions s' = put_row pa_id b (pending_actions s1)"
proof (cases "execute s1 (pa_payload a)")
  case (Inl e)
  then show ?thesis using assms(1,3)
    by (intro exI [of _ "a\<lparr>pa_status := Action_FAILED\<rparr>"]) (auto simp: resume_action_def)
next
  case (Inr out)
  obtain receipt s2 where out: "out = (receipt, s2)" by (cases out)
  then have "pending_actions s2 = pending_actions s1" using assms(2) Inr by (simp add: keeps_actions_def)
  then show ?thesis using assms(1,3) Inr out
    by (intro exI [of _ "a\<lparr>pa_status := Action_SUCCEEDED, pa_execution_receipt := Some receipt,
      pa_executed_at := Some (db_now s2)\<rparr>"]) (auto simp: resume_action_def Let_def)
qed

section \<open>Every step keeps the histories\<close>

lemma put_row_twice:
  "pa_id b = pa_id a \<Longrightarrow> put_row pa_id b (put_row pa_id a rows) = put_row pa_id b rows"
  by (auto simp: put_row_def)

lemma gov_step_inv:
  assumes "gov_step ev number s es s'" and inv: "gov_inv ev number tr (pending_actions s)"
  shows "gov_inv ev number (tr @ es) (pending_actions s')"
  using assms(1)
proof (cases rule: gov_step.cases)
  case (proposes a)
  have "pa_id a \<notin> pa_id ` set (pending_actions s)" using proposes(3) fresh_id_new by metis
  moreover from this have "history (pa_id a) tr = []"
    using inv by (intro history_unknown) (auto simp: gov_inv_def)
  ultimately show ?thesis using inv proposes by (auto simp: gov_inv_def row_history_def)
next
  case (decides who i h ap reason a')
  obtain a where a: "a \<in> set (pending_actions s)" "pa_id a = i" "may_decide who" "pa_status a = Action_PENDING"
    "pa_payload_hash a = h" "pa_id a' = i" "pa_payload_hash a' = h"
    "pa_status a' = (if ap then Action_APPROVED else Action_REJECTED)"
    "pending_actions s' = put_row pa_id a' (pending_actions s)"
    using decide_ok [OF decides(2)] by blast
  have "history i tr = []" using inv a(1,2,4) by (force simp: gov_inv_def row_history_def)
  then show ?thesis
    unfolding a(9) decides(1) using a inv
    by (intro put_row_inv) (auto simp: row_history_def approved_as_def rejected_def)
next
  case (refused who i h ap reason e)
  from decide_refused [OF refused(2)] show ?thesis
  proof (elim disjE bexE conjE)
    fix a assume a: "a \<in> set (pending_actions s)" "pa_status a = Action_PENDING"
      "pending_actions s' = put_row pa_id (a\<lparr>pa_status := Action_EXPIRED\<rparr>) (pending_actions s)"
    then show ?thesis
      using inv put_row_inv [OF inv, of "a\<lparr>pa_status := Action_EXPIRED\<rparr>" "[]"] refused(1)
      by (force simp: gov_inv_def row_history_def)
  qed (use inv refused(1) in simp)
next
  case (executes execute revalidate i a s1 ans)
  obtain b where b: "b \<in> set (pending_actions s)" "pa_id b = i" "pa_status b = Action_APPROVED"
    "a = b\<lparr>pa_status := Action_EXECUTING\<rparr>" "payload_hash ev number (pa_payload b) = pa_payload_hash b"
    "pending_actions s1 = put_row pa_id a (pending_actions s)"
    using gate_ok [OF executes(3)] by blast
  obtain c where c: "pa_id c = pa_id a" "pa_payload_hash c = pa_payload_hash a"
    "pa_status c \<in> {Action_SUCCEEDED, Action_FAILED}"
    "pending_actions s' = put_row pa_id c (pending_actions s1)"
    using resume_ran [OF executes(3,2,4)] by blast
  have "approved_as (pa_payload_hash b) i tr" using inv b(1,2,3) by (force simp: gov_inv_def row_history_def)
  then have "executed_as ev number (pa_payload_hash b) i (tr @ es)"
    using b(2,4,5) by (auto simp: executes(1) approved_as_def executed_as_def)
  moreover have "pending_actions s' = put_row pa_id c (pending_actions s)"
    using c(1,4) b(6) put_row_twice by simp
  moreover have "pa_id c \<in> pa_id ` set (pending_actions s)" using b(1,4) c(1) by auto
  ultimately show ?thesis
    using b c put_row_inv [OF inv, of c es] by (auto simp: executes(1) row_history_def)
next
  case (stops revalidate i ans)
  from gate_stopped [OF stops(2)] show ?thesis
  proof (elim disjE bexE exE conjE)
    fix a b assume a: "a \<in> set (pending_actions s)" "pa_status a = Action_APPROVED" "pa_id b = pa_id a"
      "pa_payload_hash b = pa_payload_hash a" "pa_status b \<in> {Action_EXPIRED, Action_FAILED}"
      "pending_actions s' = put_row pa_id b (pending_actions s)"
    then have "approved_as (pa_payload_hash a) (pa_id a) tr"
      using inv by (force simp: gov_inv_def row_history_def)
    then show ?thesis
      using a inv put_row_inv [OF inv, of b "[]"] stops(1) by (force simp: row_history_def)
  qed (use inv stops(1) in simp)
next
  case (expires given n)
  let ?now = "case given of None \<Rightarrow> db_now s | Some t \<Rightarrow> t"
  let ?f = "\<lambda>a. if action_due ?now a then a\<lparr>pa_status := Action_EXPIRED\<rparr> else a"
  have rows: "pending_actions s' = map ?f (pending_actions s)"
    using expires(2) by (auto simp: expire_actions_def Let_def)
  have "pa_id (?f a) = pa_id a \<and> row_history ev number tr (?f a)" if "a \<in> set (pending_actions s)" for a
    using that inv by (auto simp: gov_inv_def row_history_def action_due_def)
  then show ?thesis
    using mapped_inv [OF inv, of ?f] unfolding rows expires(1) by simp
next
  case (edits a p)
  then show ?thesis
    using inv put_row_inv [OF inv, of "a\<lparr>pa_payload := p\<rparr>" "[]"] by (force simp: gov_inv_def row_history_def)
next
  case others
  then show ?thesis using inv by simp
qed

lemma gov_run_inv:
  "gov_run ev number s tr t \<Longrightarrow> pending_actions s = [] \<Longrightarrow> gov_inv ev number tr (pending_actions t)"
proof (induction rule: gov_run.induct)
  case (further s tr t es u)
  then show ?case using gov_step_inv by blast
qed (simp add: gov_inv_def)

text \<open>
  C20: Over any proposals, decisions, resumptions, expiry sweeps and edits of stored payloads, the events
  of one action are: none; one decision; or one approval and after it one execution. Only staff with
  the permission to approve decide, and what is executed is a payload with the digest that was
  approved, executed once.
\<close>

theorem executed_once_as_approved:
  assumes "gov_run ev number s tr t" and "pending_actions s = []"
  shows "history i tr = [] \<or>
    (\<exists>who h ap. history i tr = [Decided who i h ap] \<and> may_decide who) \<or>
    (\<exists>who h p. history i tr = [Decided who i h True, Executed i p] \<and> may_decide who \<and>
      payload_hash ev number p = h)"
proof (cases "i \<in> pa_id ` set (pending_actions t)")
  case False
  then show ?thesis
    using gov_run_inv [OF assms] by (intro disjI1 history_unknown) (auto simp: gov_inv_def)
next
  case True
  then obtain a where "a \<in> set (pending_actions t)" "pa_id a = i" by blast
  then have "status_history ev number tr (pa_status a) (pa_payload_hash a) i"
    using gov_run_inv [OF assms] by (auto simp: gov_inv_def row_history_def)
  then show ?thesis
    by (cases "pa_status a") (auto simp: approved_as_def executed_as_def rejected_def)
qed

section \<open>A proposal approved and executed\<close>

definition sample_proposal :: json where
  "sample_proposal = JObj [(''summary'', JStr ''tea''), (''proposed_via'', JStr ''mcp'')]"

definition sample_digest :: string where
  "sample_digest = payload_hash sample_env (\<lambda>_. []) sample_proposal"

definition sample_action :: pending_action where
  "sample_action =
    \<lparr>pa_id = 1, pa_merchant_id = 1, pa_agent_run_id = ''mcp:2'', pa_action_type = ''PROMOTION_CREATE'',
     pa_tool_name = ''nova.promotion.propose'', pa_summary = ''tea'', pa_risk_level = Risk_HIGH,
     pa_status = Action_PENDING, pa_payload = sample_proposal, pa_payload_hash = sample_digest,
     pa_requested_by = 2, pa_decided_by = None, pa_decision_reason = None, pa_expires_at = 901000,
     pa_created_at = 1000, pa_decided_at = None, pa_executed_at = None, pa_execution_receipt = None\<rparr>"

definition sample_approver :: principal where
  "sample_approver = \<lparr>p_user_id = 3, p_merchant_id = Some 1,
    p_permissions = {''pending_action:approve''}, p_data_scope = Scope_MERCHANT, p_is_staff = True\<rparr>"

definition sample_queue :: "pending_action list \<Rightarrow> governed" where
  "sample_queue rows = shop.extend sample_shop \<lparr>categories = [], brands = [], promotion_products = [], pending_actions = rows\<rparr>"

lemma sample_queue_simps [simp]:
  "pending_actions (sample_queue rows) = rows" "db_now (sample_queue rows) = 1000"
  by (simp_all add: sample_queue_def shop.defs sample_shop_def)

text \<open>The proposal, its approval, and a promotion job that answers with nothing.\<close>

lemma sample_run:
  "\<exists>t. gov_run sample_env (\<lambda>_. []) (sample_queue [])
    ([Decided sample_approver 1 sample_digest True, Executed 1 sample_proposal]) t"
proof -
  let ?s0 = "sample_queue []" and ?s1 = "sample_queue [sample_action]"
  let ?a2 = "sample_action\<lparr>pa_status := Action_APPROVED, pa_decided_by := Some 3, pa_decided_at := Some 1000\<rparr>"
  have "gov_step sample_env (\<lambda>_. []) ?s0 [] ?s1"
    by (rule gov_step.proposes [of _ _ sample_action]) (simp_all add: sample_action_def fresh_id_def)
  then have r1: "gov_run sample_env (\<lambda>_. []) ?s0 [] ?s1"
    using gov_run.further [OF gov_run.start] by fastforce
  obtain s2 where s2: "decide_action ?s1 sample_approver 1 sample_digest True None = (ok ?a2, s2)"
      "pending_actions s2 = [?a2]" "db_now s2 = 1000"
    by (simp add: decide_action_def visible_action_def action_scope_def action_get_def put_action_def
      require_permission_def has_permission_def sample_approver_def sample_action_def audit_record_row_def
      Let_def put_row_def)
  from gov_run.further [OF r1 gov_step.decides [OF s2(1)]]
  have r2: "gov_run sample_env (\<lambda>_. []) ?s0 [Decided sample_approver 1 sample_digest True] s2" by simp
  let ?ex = "\<lambda>s p. ok (JNull, s)"
  obtain a3 s3 where gate: "resume_gate sample_env (\<lambda>_. []) (\<lambda>_ _. ok True) s2 1 = Inr (a3, s3)"
      "pa_payload a3 = sample_proposal"
    using s2(2,3) by (simp add: resume_gate_def action_get_def sample_action_def sample_digest_def Let_def)
  obtain ans s4 where "resume_action sample_env (\<lambda>_. []) (\<lambda>_ _. ok True) ?ex s2 1 = (ans, s4)"
    by (cases "resume_action sample_env (\<lambda>_. []) (\<lambda>_ _. ok True) ?ex s2 1")
  from gov_step.executes [OF _ gate(1) this] have "gov_step sample_env (\<lambda>_. []) s2 [Executed 1 sample_proposal] s4"
    by (simp add: keeps_actions_def gate(2))
  from gov_run.further [OF r2 this] show ?thesis by auto
qed

theorem executed_once_as_approved_witness:
  "may_decide sample_approver \<and> payload_hash sample_env (\<lambda>_. []) sample_proposal = sample_digest"
proof -
  obtain t where "gov_run sample_env (\<lambda>_. []) (sample_queue [])
      [Decided sample_approver 1 sample_digest True, Executed 1 sample_proposal] t"
    using sample_run by blast
  from executed_once_as_approved [OF this, of 1] show ?thesis by simp
qed

end
