(* ===== verification/Mcp_Policy.thy ===== *)
theory Mcp_Policy
  imports Governance Identity_Accounts Nova_Parse
begin

text \<open>
  \<open>app/mcp/policy.py\<close>, \<open>auth.py\<close> and \<open>server.py\<close>: the external tool surface, who may use which tool,
  and how a verified token becomes a caller. The decoder of signed tokens is an argument; an answer of
  the surface is an output or the code of a refusal.
\<close>

section \<open>The arguments of the tools\<close>

datatype input_model =
    ProductSearchInput | ProductGetInput | SkuGetInput | OrderGetInput | OrderSearchInput
  | FulfillmentGetInput | AfterSaleGetInput | InventoryGetInput | AnalyticsSalesInput
  | AnalyticsInventoryInput | AnalyticsProductPerformanceInput | AnalyticsRefundsInput
  | AnalyticsAnomaliesInput | KnowledgeSearchInput | PromotionPreviewInput | PromotionProposeInput

definition window_fields :: "string list" where
  "window_fields = [''from_day'', ''to_day'', ''granularity'']"

definition draft_fields :: "string list" where
  "draft_fields = [''name'', ''promotion_type'', ''rule_config'', ''scope'', ''starts_at'', ''ends_at'',
    ''total_quota'', ''description'', ''priority'', ''stackable'']"

fun model_fields :: "input_model \<Rightarrow> string list" where
  "model_fields ProductSearchInput = [''keyword'', ''status'', ''page'', ''page_size'']"
| "model_fields ProductGetInput = [''product_id'']"
| "model_fields SkuGetInput = [''sku_id'', ''sku_code'', ''product_id'']"
| "model_fields OrderGetInput = [''order_no'']"
| "model_fields OrderSearchInput =
    [''order_status'', ''payment_status'', ''fulfillment_status'', ''order_no'', ''page'', ''page_size'']"
| "model_fields FulfillmentGetInput = [''order_no'']"
| "model_fields AfterSaleGetInput = [''after_sale_no'']"
| "model_fields InventoryGetInput = [''low_stock_only'', ''limit'', ''threshold_multiplier'']"
| "model_fields AnalyticsSalesInput = ''metric'' # window_fields"
| "model_fields AnalyticsInventoryInput = window_fields"
| "model_fields AnalyticsProductPerformanceInput = window_fields"
| "model_fields AnalyticsRefundsInput = window_fields"
| "model_fields AnalyticsAnomaliesInput = window_fields"
| "model_fields KnowledgeSearchInput = [''query'', ''knowledge_base_id'', ''top_k'', ''use_rerank'']"
| "model_fields PromotionPreviewInput = draft_fields"
| "model_fields PromotionProposeInput = draft_fields @ [''summary'']"

section \<open>The registry\<close>

record tool_spec =
  ts_name :: string
  ts_title :: string
  ts_description :: string
  ts_scope :: string
  ts_permission :: string
  ts_risk_level :: risk_level
  ts_input_model :: input_model
  ts_min_data_scope :: data_scope
  ts_read_only :: bool
  ts_idempotent :: bool

definition catalog_tools :: "tool_spec list" where
  "catalog_tools =
    [\<lparr>ts_name = ''nova.product.search'', ts_title = ''Search products'',
      ts_description = ''Search the caller's merchant catalogue by name substring and status.'',
      ts_scope = ''catalog:read'', ts_permission = ''product:read'', ts_risk_level = Risk_READ,
      ts_input_model = ProductSearchInput, ts_min_data_scope = Scope_MERCHANT, ts_read_only = True, ts_idempotent = True\<rparr>,
     \<lparr>ts_name = ''nova.product.get'', ts_title = ''Get product'',
      ts_description = ''One product of the caller's merchant, with its SKUs.'',
      ts_scope = ''catalog:read'', ts_permission = ''product:read'', ts_risk_level = Risk_READ,
      ts_input_model = ProductGetInput, ts_min_data_scope = Scope_MERCHANT, ts_read_only = True, ts_idempotent = True\<rparr>,
     \<lparr>ts_name = ''nova.sku.get'', ts_title = ''Get SKU'',
      ts_description = ''One SKU of the caller's merchant, resolved by id or code.'',
      ts_scope = ''catalog:read'', ts_permission = ''product:read'', ts_risk_level = Risk_READ,
      ts_input_model = SkuGetInput, ts_min_data_scope = Scope_MERCHANT, ts_read_only = True, ts_idempotent = True\<rparr>]"

definition order_tools :: "tool_spec list" where
  "order_tools =
    [\<lparr>ts_name = ''nova.order.get'', ts_title = ''Get order'',
      ts_description = ''One order: the caller's own for a consumer, merchant-scoped for staff.'',
      ts_scope = ''orders:read'', ts_permission = ''order:read'', ts_risk_level = Risk_READ,
      ts_input_model = OrderGetInput, ts_min_data_scope = Scope_SELF, ts_read_only = True, ts_idempotent = True\<rparr>,
     \<lparr>ts_name = ''nova.order.search'', ts_title = ''Search orders'',
      ts_description = ''Paged orders visible to the caller, with the frozen status filters.'',
      ts_scope = ''orders:read'', ts_permission = ''order:read'', ts_risk_level = Risk_READ,
      ts_input_model = OrderSearchInput, ts_min_data_scope = Scope_SELF, ts_read_only = True, ts_idempotent = True\<rparr>,
     \<lparr>ts_name = ''nova.fulfillment.get'', ts_title = ''Get fulfillment'',
      ts_description = ''The packages of one order, subject to the same ownership rule as the order.'',
      ts_scope = ''fulfillment:read'', ts_permission = ''fulfillment:read'', ts_risk_level = Risk_READ,
      ts_input_model = FulfillmentGetInput, ts_min_data_scope = Scope_SELF, ts_read_only = True, ts_idempotent = True\<rparr>,
     \<lparr>ts_name = ''nova.after_sale.get'', ts_title = ''Get after-sale claim'',
      ts_description = ''One after-sale claim, merchant-scoped for staff.'',
      ts_scope = ''after_sale:read'', ts_permission = ''after_sale:read'', ts_risk_level = Risk_READ,
      ts_input_model = AfterSaleGetInput, ts_min_data_scope = Scope_MERCHANT, ts_read_only = True, ts_idempotent = True\<rparr>]"

definition inventory_tools :: "tool_spec list" where
  "inventory_tools =
    [\<lparr>ts_name = ''nova.inventory.get'', ts_title = ''Get inventory'',
      ts_description = ''Stock positions of the caller's merchant, optionally only those at or below safety stock.'',
      ts_scope = ''inventory:read'', ts_permission = ''inventory:read'', ts_risk_level = Risk_READ,
      ts_input_model = InventoryGetInput, ts_min_data_scope = Scope_MERCHANT, ts_read_only = True, ts_idempotent = True\<rparr>]"

definition analytics_tools :: "tool_spec list" where
  "analytics_tools =
    [\<lparr>ts_name = ''nova.analytics.sales'', ts_title = ''Sales analytics'',
      ts_description = ''Paid-order revenue or order count over a UTC date window.'',
      ts_scope = ''analytics:read'', ts_permission = ''analytics:read'', ts_risk_level = Risk_READ,
      ts_input_model = AnalyticsSalesInput, ts_min_data_scope = Scope_MERCHANT, ts_read_only = True, ts_idempotent = True\<rparr>,
     \<lparr>ts_name = ''nova.analytics.inventory'', ts_title = ''Inventory analytics'',
      ts_description = ''Stock turnover over a UTC date window.'',
      ts_scope = ''analytics:read'', ts_permission = ''analytics:read'', ts_risk_level = Risk_READ,
      ts_input_model = AnalyticsInventoryInput, ts_min_data_scope = Scope_MERCHANT, ts_read_only = True, ts_idempotent = True\<rparr>,
     \<lparr>ts_name = ''nova.analytics.product_performance'', ts_title = ''Product performance analytics'',
      ts_description = ''Paid order-item revenue per product over a UTC date window.'',
      ts_scope = ''analytics:read'', ts_permission = ''analytics:read'', ts_risk_level = Risk_READ,
      ts_input_model = AnalyticsProductPerformanceInput, ts_min_data_scope = Scope_MERCHANT, ts_read_only = True, ts_idempotent = True\<rparr>,
     \<lparr>ts_name = ''nova.analytics.refunds'', ts_title = ''Refund analytics'',
      ts_description = ''Completed-refund rate over a UTC date window.'',
      ts_scope = ''analytics:read'', ts_permission = ''analytics:read'', ts_risk_level = Risk_READ,
      ts_input_model = AnalyticsRefundsInput, ts_min_data_scope = Scope_MERCHANT, ts_read_only = True, ts_idempotent = True\<rparr>,
     \<lparr>ts_name = ''nova.analytics.anomalies'', ts_title = ''Sales anomalies'',
      ts_description = ''Sales volume and refund rate together, for spotting a period that moved unusually.'',
      ts_scope = ''analytics:read'', ts_permission = ''analytics:read'', ts_risk_level = Risk_READ,
      ts_input_model = AnalyticsAnomaliesInput, ts_min_data_scope = Scope_MERCHANT, ts_read_only = True, ts_idempotent = True\<rparr>]"

definition knowledge_tools :: "tool_spec list" where
  "knowledge_tools =
    [\<lparr>ts_name = ''nova.knowledge.search'', ts_title = ''Search knowledge base'',
      ts_description = ''Retrieve evidence chunks from one knowledge base of the caller's merchant.'',
      ts_scope = ''knowledge:read'', ts_permission = ''knowledge:read'', ts_risk_level = Risk_READ,
      ts_input_model = KnowledgeSearchInput, ts_min_data_scope = Scope_MERCHANT, ts_read_only = True, ts_idempotent = True\<rparr>]"

definition promotion_tools :: "tool_spec list" where
  "promotion_tools =
    [\<lparr>ts_name = ''nova.promotion.preview'', ts_title = ''Preview a promotion'',
      ts_description = ''Price a draft promotion against the live catalogue: conflicts and estimated impact. Creates nothing.'',
      ts_scope = ''promotion:read'', ts_permission = ''promotion:read'', ts_risk_level = Risk_READ,
      ts_input_model = PromotionPreviewInput, ts_min_data_scope = Scope_MERCHANT, ts_read_only = True, ts_idempotent = True\<rparr>,
     \<lparr>ts_name = ''nova.promotion.propose'', ts_title = ''Propose a promotion for approval'',
      ts_description = ''Create a PENDING approval request for a promotion. This tool NEVER creates or publishes a promotion: a human with promotion:write approves it in the console (REQ-MCP-008).'',
      ts_scope = ''promotion:propose'', ts_permission = ''promotion:write'', ts_risk_level = Risk_HIGH,
      ts_input_model = PromotionProposeInput, ts_min_data_scope = Scope_MERCHANT, ts_read_only = False, ts_idempotent = False\<rparr>]"

definition tool_specs :: "tool_spec list" where
  "tool_specs = catalog_tools @ order_tools @ inventory_tools @ analytics_tools @ knowledge_tools @
    promotion_tools"

definition find_spec :: "string \<Rightarrow> tool_spec option" where
  "find_spec name = find (\<lambda>t. ts_name t = name) tool_specs"

definition forbidden_tool_names :: "string list" where
  "forbidden_tool_names =
    [''nova.refund.execute'', ''refund.execute'', ''nova.inventory.adjust'', ''inventory.adjust'',
     ''nova.order.force_update'', ''order.force_update'', ''nova.promotion.create'', ''promotion.create'',
     ''nova.rbac.update'', ''rbac.update'', ''nova.data_scope.update'', ''data_scope.update'',
     ''execute_sql'', ''raw_sql'', ''shell'', ''http_request'']"

section \<open>The four-way check\<close>

text \<open>A denial is the name of its code; the reason is a text for people.\<close>

definition required_scopes_for :: "tool_spec \<Rightarrow> string \<Rightarrow> string set" where
  "required_scopes_for t write_scope = (if ts_read_only t then {ts_scope t} else {ts_scope t, write_scope})"

definition scope_denial :: "tool_spec \<Rightarrow> string set \<Rightarrow> string \<Rightarrow> string option" where
  "scope_denial t granted write_scope =
    (if required_scopes_for t write_scope - granted = {} then None
     else Some ''MCP_TOKEN_INSUFFICIENT_SCOPE'')"

definition rbac_denial :: "tool_spec \<Rightarrow> principal \<Rightarrow> string option" where
  "rbac_denial t who = (if has_permission who (ts_permission t) then None else Some ''INSUFFICIENT_PERMISSION'')"

definition data_scope_denial :: "tool_spec \<Rightarrow> principal \<Rightarrow> string option" where
  "data_scope_denial t who =
    (if covers (p_data_scope who) (ts_min_data_scope t) then None else Some ''DATA_SCOPE_VIOLATION'')"

definition authorize_tool :: "string \<Rightarrow> principal \<Rightarrow> string set \<Rightarrow> string \<Rightarrow> string option" where
  "authorize_tool name who granted write_scope =
    (case find_spec name of
       None \<Rightarrow> Some ''MCP_TOOL_NOT_EXPOSED''
     | Some t \<Rightarrow>
        (case scope_denial t granted write_scope of
           Some d \<Rightarrow> Some d
         | None \<Rightarrow> (case rbac_denial t who of Some d \<Rightarrow> Some d | None \<Rightarrow> data_scope_denial t who)))"

definition authorized_tool_names :: "principal \<Rightarrow> string set \<Rightarrow> string \<Rightarrow> string list" where
  "authorized_tool_names who granted write_scope =
    map ts_name (filter (\<lambda>t. authorize_tool (ts_name t) who granted write_scope = None) tool_specs)"

section \<open>Tokens\<close>

record mcp_settings =
  ms_required_scopes :: "string list"
  ms_write_scope :: string
  ms_resource_server_url :: string
  ms_has_key_material :: bool
  ms_proposal_ttl_seconds :: int

text \<open>\<open>str\<close> of a claim; \<open>repr\<close> writes the values with a form of their own (floats, lists, objects).\<close>

fun claim_text :: "(json \<Rightarrow> string) \<Rightarrow> json \<Rightarrow> string" where
  "claim_text repr JNull = ''None''"
| "claim_text repr (JBool b) = (if b then ''True'' else ''False'')"
| "claim_text repr (JInt i) = int_text i"
| "claim_text repr (JStr t) = t"
| "claim_text repr v = repr v"

fun words_of :: "string \<Rightarrow> string list" where
  "words_of t = filter (\<lambda>w. w \<noteq> []) (split_on (CHR '' '') (map (\<lambda>c. if is_space c \<or> c = CHR '','' then CHR '' '' else c) t))"

fun as_scope_set :: "(json \<Rightarrow> string) \<Rightarrow> json option \<Rightarrow> string set" where
  "as_scope_set repr (Some (JStr t)) = set (words_of t)"
| "as_scope_set repr (Some (JList vs)) =
    set (filter (\<lambda>t. strip_text t \<noteq> []) (map (claim_text repr) vs))"
| "as_scope_set repr _ = {}"

definition extract_scopes :: "(json \<Rightarrow> string) \<Rightarrow> (string \<times> json) list \<Rightarrow> string set" where
  "extract_scopes repr claims =
    as_scope_set repr (map_of claims ''scope'') \<union> as_scope_set repr (map_of claims ''scp'')"

text \<open>The first of the two claims that names a resource.\<close>

fun resource_of :: "(json \<Rightarrow> string) \<Rightarrow> json option \<Rightarrow> string option" where
  "resource_of repr (Some (JStr (c # t))) = Some (c # t)"
| "resource_of repr (Some (JList (v # vs))) = Some (claim_text repr v)"
| "resource_of repr _ = None"

definition token_resource :: "(json \<Rightarrow> string) \<Rightarrow> (string \<times> json) list \<Rightarrow> string option" where
  "token_resource repr claims =
    (case resource_of repr (map_of claims ''resource'') of
       Some r \<Rightarrow> Some r
     | None \<Rightarrow> resource_of repr (map_of claims ''aud''))"

text \<open>\<open>None\<close> is the code's \<open>InvalidTokenClaimsError\<close>.\<close>

definition decode_data_scope :: "(json \<Rightarrow> string) \<Rightarrow> json option \<Rightarrow> data_scope option" where
  "decode_data_scope repr raw =
    (case raw of
       None \<Rightarrow> None
     | Some v \<Rightarrow> if v = JNull then None else
        map_of [(''NONE'', Scope_NONE), (''SELF'', Scope_SELF), (''MERCHANT'', Scope_MERCHANT),
          (''ALL'', Scope_ALL)] (claim_text repr v))"

text \<open>\<open>int(str(subject))\<close>.\<close>

definition subject_id :: "(json \<Rightarrow> string) \<Rightarrow> json option \<Rightarrow> int option" where
  "subject_id repr raw =
    (case raw of
       None \<Rightarrow> None
     | Some v \<Rightarrow> if v = JNull \<or> strip_text (claim_text repr v) = [] then None else py_int (claim_text repr v))"

text \<open>\<open>int(raw_merchant)\<close> of a present claim: a float is cut towards zero.\<close>

fun merchant_claim :: "json \<Rightarrow> int option" where
  "merchant_claim (JInt i) = Some i"
| "merchant_claim (JBool b) = Some (if b then 1 else 0)"
| "merchant_claim (JFloat n k) = Some (sgn n * (\<bar>n\<bar> div 2 ^ k))"
| "merchant_claim (JStr t) = py_int t"
| "merchant_claim _ = None"

text \<open>A claim that is absent or empty is no role and no permission; a text is malformed.\<close>

fun claim_list :: "(json \<Rightarrow> string) \<Rightarrow> json option \<Rightarrow> string list option" where
  "claim_list repr (Some (JList vs)) = Some (map (claim_text repr) vs)"
| "claim_list repr (Some (JStr (c # t))) = None"
| "claim_list repr (Some (JInt i)) = (if i = 0 then Some [] else None)"
| "claim_list repr (Some (JBool b)) = (if b then None else Some [])"
| "claim_list repr (Some (JFloat n k)) = (if n = 0 then Some [] else None)"
| "claim_list repr (Some (JInfinity b)) = None"
| "claim_list repr (Some JNaN) = None"
| "claim_list repr (Some (JObj (e # es))) = None"
| "claim_list repr _ = Some []"

text \<open>The caller and the session of verified claims.\<close>

definition token_caller ::
  "(json \<Rightarrow> string) \<Rightarrow> (string \<times> json) list \<Rightarrow> (principal \<times> string) option" where
  "token_caller repr claims =
    Option.bind (subject_id repr (map_of claims ''sub'')) (\<lambda>user_id.
    Option.bind (case map_of claims ''merchant_id'' of
        None \<Rightarrow> Some None
      | Some v \<Rightarrow> if v = JNull then Some None else map_option Some (merchant_claim v)) (\<lambda>merchant.
    Option.bind (map_of [(''CONSUMER'', False), (''STAFF'', True)]
        (case map_of claims ''user_type'' of None \<Rightarrow> ''CONSUMER'' | Some v \<Rightarrow> claim_text repr v)) (\<lambda>staff.
    Option.bind (claim_list repr (map_of claims ''roles'')) (\<lambda>roles.
    Option.bind (claim_list repr (map_of claims ''permissions'')) (\<lambda>permissions.
    Option.bind (decode_data_scope repr (map_of claims ''data_scope'')) (\<lambda>scope.
    Some (\<lparr>p_user_id = user_id, p_merchant_id = merchant, p_permissions = set permissions,
        p_data_scope = scope, p_is_staff = staff\<rparr>,
      case map_of claims ''sid'' of None \<Rightarrow> [] | Some v \<Rightarrow> claim_text repr v)))))))"

record verified_token =
  vt_principal :: principal
  vt_scopes :: "string set"
  vt_session_id :: string
  vt_resource :: string

definition rstrip_slash :: "string \<Rightarrow> string" where
  "rstrip_slash t = rev (dropWhile (\<lambda>c. c = CHR ''/'') (rev t))"

text \<open>
  \<open>decode\<close> is the verified decoding of PyJWT, under the configured issuer, audience, algorithm and
  leeway; every exception of it is \<open>None\<close>.
\<close>

definition verify_token ::
  "mcp_settings \<Rightarrow> (string \<Rightarrow> (string \<times> json) list option) \<Rightarrow> (json \<Rightarrow> string) \<Rightarrow> string \<Rightarrow> verified_token option" where
  "verify_token st decode repr token =
    (if strip_text token = [] \<or> \<not> ms_has_key_material st then None
     else Option.bind (decode token) (\<lambda>claims.
       Option.bind (token_resource repr claims) (\<lambda>resource.
       if rstrip_slash resource \<noteq> rstrip_slash (ms_resource_server_url st) then None
       else if set (ms_required_scopes st) - extract_scopes repr claims \<noteq> {} then None
       else map_option (\<lambda>(who, session). \<lparr>vt_principal = who, vt_scopes = extract_scopes repr claims,
           vt_session_id = session, vt_resource = resource\<rparr>) (token_caller repr claims))))"

section \<open>The server\<close>

text \<open>\<open>ErrorCode[name]\<close>.\<close>

definition code_of :: "string \<Rightarrow> int" where
  "code_of name = (case map_of error_codes name of None \<Rightarrow> 0 | Some n \<Rightarrow> n)"

text \<open>A refusal carries its code; an exception that is no \<open>AppError\<close> is a crash.\<close>

datatype mcp_failure = Tool_Error int | Crash exn

definition list_tools :: "mcp_settings \<Rightarrow> verified_token option \<Rightarrow> string list" where
  "list_tools st token =
    (case token of
       None \<Rightarrow> []
     | Some v \<Rightarrow> filter (\<lambda>n. n \<in> set (authorized_tool_names (vt_principal v) (vt_scopes v) (ms_write_scope st)))
         (map ts_name tool_specs))"

text \<open>\<open>_authorized_handler\<close>: authorise, then parse, then run.\<close>

definition authorized_handler ::
  "mcp_settings \<Rightarrow> tool_spec \<Rightarrow> ('w \<Rightarrow> 'p option) \<Rightarrow> (principal \<Rightarrow> string \<Rightarrow> 'p \<Rightarrow> mcp_failure + 'o) \<Rightarrow>
   verified_token option \<Rightarrow> 'w \<Rightarrow> mcp_failure + 'o" where
  "authorized_handler st t parse run token arguments =
    (case token of
       None \<Rightarrow> Inl (Tool_Error (code_of ''MCP_TOKEN_INVALID''))
     | Some v \<Rightarrow>
        (case authorize_tool (ts_name t) (vt_principal v) (vt_scopes v) (ms_write_scope st) of
           Some d \<Rightarrow> Inl (Tool_Error (code_of d))
         | None \<Rightarrow>
            (case parse arguments of
               None \<Rightarrow> Inl (Tool_Error (code_of ''AGENT_TOOL_INPUT_INVALID''))
             | Some p \<Rightarrow> run (vt_principal v) (vt_session_id v) p)))"

end
