(* ===== verification/Mcp_Properties.thy ===== *)
theory Mcp_Properties
  imports Mcp_Policy
begin

text \<open>
  What the external tool surface promises: the listing is what may be called, a refusal does not depend
  on the arguments, and nothing that must not be exposed is on the list.
\<close>

section \<open>The registry\<close>

lemma tool_names_distinct: "distinct (map ts_name tool_specs)"
  by code_simp

lemma nothing_forbidden: "list_all (\<lambda>t. ts_name t \<notin> set forbidden_tool_names) tool_specs"
  by code_simp

lemma one_tool_writes: "map ts_name (filter (\<lambda>t. \<not> ts_read_only t) tool_specs) = [''nova.promotion.propose'']"
  by code_simp

lemma find_spec_member: "t \<in> set tool_specs \<Longrightarrow> find_spec (ts_name t) = Some t"
proof -
  have "find (\<lambda>t'. ts_name t' = ts_name t) ts = Some t"
    if "distinct (map ts_name ts)" "t \<in> set ts" for ts :: "tool_spec list"
    using that by (induction ts) auto
  then show "t \<in> set tool_specs \<Longrightarrow> find_spec (ts_name t) = Some t"
    using tool_names_distinct by (simp add: find_spec_def)
qed

section \<open>Authorisation\<close>

text \<open>The four keys of a tool: the token's scopes, the permission and the data scope.\<close>

definition holds_keys :: "mcp_settings \<Rightarrow> tool_spec \<Rightarrow> verified_token \<Rightarrow> bool" where
  "holds_keys st t v \<longleftrightarrow> required_scopes_for t (ms_write_scope st) \<subseteq> vt_scopes v \<and>
    has_permission (vt_principal v) (ts_permission t) \<and> covers (p_data_scope (vt_principal v)) (ts_min_data_scope t)"

lemma authorize_spec:
  assumes "t \<in> set tool_specs"
  shows "authorize_tool (ts_name t) (vt_principal v) (vt_scopes v) (ms_write_scope st) =
    (if holds_keys st t v then None
     else if \<not> required_scopes_for t (ms_write_scope st) \<subseteq> vt_scopes v then Some ''MCP_TOKEN_INSUFFICIENT_SCOPE''
     else if \<not> has_permission (vt_principal v) (ts_permission t) then Some ''INSUFFICIENT_PERMISSION''
     else Some ''DATA_SCOPE_VIOLATION'')"
  by (auto simp: authorize_tool_def find_spec_member [OF assms] scope_denial_def rbac_denial_def
      data_scope_denial_def holds_keys_def)

lemma listed_spec:
  assumes "t \<in> set tool_specs"
  shows "ts_name t \<in> set (list_tools st token) \<longleftrightarrow> (\<exists>v. token = Some v \<and> holds_keys st t v)"
proof (cases token)
  case (Some v)
  have "ts_name t \<in> set (list_tools st token) \<longleftrightarrow>
      authorize_tool (ts_name t) (vt_principal v) (vt_scopes v) (ms_write_scope st) = None"
    using assms by (auto simp: Some list_tools_def authorized_tool_names_def)
  then show ?thesis by (simp add: authorize_spec [OF assms] Some)
qed (simp add: list_tools_def)

text \<open>
  C21: The listing is the authorisation: a tool is listed for a caller exactly when the token carries its
  scopes (and the write scope where it writes), its permission is held and the data scope covers it; a
  listed tool answers every call by parsing the arguments and running as that caller; a tool that is
  not listed refuses every call with one code, whatever the arguments are. The calls are those that reach
  the wrapper of the tool: the SDK validates arguments before it.
\<close>

theorem listed_iff_callable:
  assumes "t \<in> set tool_specs"
  shows "(ts_name t \<in> set (list_tools st token) \<longleftrightarrow> (\<exists>v. token = Some v \<and> holds_keys st t v)) \<and>
    (if ts_name t \<in> set (list_tools st token)
     then authorized_handler st t parse run token arguments =
       (case parse arguments of
          None \<Rightarrow> Inl (Tool_Error (code_of ''AGENT_TOOL_INPUT_INVALID''))
        | Some p \<Rightarrow> run (vt_principal (the token)) (vt_session_id (the token)) p)
     else \<exists>code \<in> {''MCP_TOKEN_INVALID'', ''MCP_TOKEN_INSUFFICIENT_SCOPE'', ''INSUFFICIENT_PERMISSION'',
         ''DATA_SCOPE_VIOLATION''}.
       \<forall>parse run arguments. authorized_handler st t parse run token arguments = Inl (Tool_Error (code_of code)))"
proof (cases token)
  case None
  then show ?thesis by (simp add: listed_spec [OF assms] authorized_handler_def)
next
  case (Some v)
  show ?thesis
  proof (cases "holds_keys st t v")
    case True
    then show ?thesis
      by (simp add: Some listed_spec [OF assms] authorized_handler_def authorize_spec [OF assms] split: option.split)
  next
    case False
    then show ?thesis
      by (simp add: Some listed_spec [OF assms] authorized_handler_def authorize_spec [OF assms])
  qed
qed

definition sample_settings :: mcp_settings where
  "sample_settings = \<lparr>ms_required_scopes = [], ms_write_scope = ''mcp:write'',
    ms_resource_server_url = ''https://mcp.test'', ms_has_key_material = True, ms_proposal_ttl_seconds = 900\<rparr>"

definition sample_agent :: verified_token where
  "sample_agent =
    \<lparr>vt_principal = \<lparr>p_user_id = 2, p_merchant_id = Some 1, p_permissions = {''promotion:read'', ''promotion:write''},
       p_data_scope = Scope_MERCHANT, p_is_staff = True\<rparr>,
     vt_scopes = {''promotion:read'', ''promotion:propose''}, vt_session_id = ''s'', vt_resource = ''https://mcp.test''\<rparr>"

theorem listed_iff_callable_witness:
  "''nova.promotion.preview'' \<in> set (list_tools sample_settings (Some sample_agent)) \<and>
   ''nova.promotion.propose'' \<notin> set (list_tools sample_settings (Some sample_agent))"
proof -
  let ?preview = "hd promotion_tools" and ?propose = "hd (tl promotion_tools)"
  have "?preview \<in> set tool_specs" "?propose \<in> set tool_specs"
    "ts_name ?preview = ''nova.promotion.preview''" "ts_name ?propose = ''nova.promotion.propose''"
    by (simp_all add: tool_specs_def promotion_tools_def)
  moreover have "holds_keys sample_settings ?preview sample_agent" "\<not> holds_keys sample_settings ?propose sample_agent"
    by code_simp+
  ultimately show ?thesis
    using listed_iff_callable [of ?preview sample_settings "Some sample_agent", THEN conjunct1]
      listed_iff_callable [of ?propose sample_settings "Some sample_agent", THEN conjunct1] by simp
qed

end
