(* ===== verification/Analytics.thy ===== *)
theory Analytics
  imports Complex_Main Order_Lifecycle Nova_Parse "HOL-Library.Product_Lexorder"
    "HOL-Library.Char_ord" "HOL-Library.List_Lexorder"
begin

text \<open>
  \<open>app/modules/analytics\<close>: the five metrics over the committed rows of one merchant. A date is its number
  of days since 1970-01-01. A Python float is the rational it stands for: its rounding to 53 bits is not
  modelled.
\<close>

section \<open>Dates\<close>

definition min_day :: int where "min_day = - 719162"

definition max_day :: int where "max_day = 2932896"

definition days_from_civil :: "int \<Rightarrow> int \<Rightarrow> int \<Rightarrow> int" where
  "days_from_civil y m d =
    (let y' = (if m \<le> 2 then y - 1 else y);
         era = y' div 400;
         yoe = y' - era * 400;
         mp = (m + 9) mod 12;
         doy = (153 * mp + 2) div 5 + d - 1;
         doe = yoe * 365 + yoe div 4 - yoe div 100 + doy
     in era * 146097 + doe - 719468)"

definition weekday :: "int \<Rightarrow> int" where
  "weekday day = (day + 3) mod 7"

definition iso_text :: "int \<Rightarrow> string" where
  "iso_text day =
    (let (y, m, d) = civil_from_days day
     in pad_text 4 (nat y) @ ''-'' @ pad_text 2 (nat m) @ ''-'' @ pad_text 2 (nat d))"

definition day_of :: "int \<Rightarrow> int" where
  "day_of t = t div ms_per_day"

definition at_start :: "int \<Rightarrow> int" where
  "at_start day = day * ms_per_day"

section \<open>Numbers\<close>

text \<open>\<open>round\<close>: the nearest integer, the even one of two.\<close>

definition half_even :: "rat \<Rightarrow> int" where
  "half_even x =
    (let f = \<lfloor>x\<rfloor>; r = x - of_int f in
     if r < 1 / 2 then f else if r > 1 / 2 then f + 1 else if even f then f else f + 1)"

definition ratio :: "rat \<Rightarrow> rat \<Rightarrow> rat option" where
  "ratio numerator denominator =
    (if denominator \<le> 0 then None
     else Some (of_int (half_even (numerator / denominator * 1000000)) / 1000000))"

section \<open>Vocabulary\<close>

datatype metric = Sales_gmv | Sales_order_count | Inventory_turnover | Product_performance | Refund_rate

datatype granularity = By_day | By_week | By_month

fun metric_text :: "metric \<Rightarrow> string" where
  "metric_text Sales_gmv = ''sales.gmv''"
| "metric_text Sales_order_count = ''sales.order_count''"
| "metric_text Inventory_turnover = ''inventory.turnover''"
| "metric_text Product_performance = ''product.performance''"
| "metric_text Refund_rate = ''refund.rate''"

fun granularity_text :: "granularity \<Rightarrow> string" where
  "granularity_text By_day = ''day''"
| "granularity_text By_week = ''week''"
| "granularity_text By_month = ''month''"

fun metric_unit :: "metric \<Rightarrow> string" where
  "metric_unit Sales_gmv = ''minor_currency''"
| "metric_unit Sales_order_count = ''count''"
| "metric_unit Inventory_turnover = ''ratio''"
| "metric_unit Product_performance = ''minor_currency''"
| "metric_unit Refund_rate = ''ratio''"

fun bucket :: "int \<Rightarrow> granularity \<Rightarrow> string" where
  "bucket day By_month = (let (y, m, d) = civil_from_days day in pad_text 4 (nat y) @ ''-'' @ pad_text 2 (nat m))"
| "bucket day By_week = iso_text (day - weekday day)"
| "bucket day By_day = iso_text day"

section \<open>Sums by key\<close>

text \<open>A \<open>defaultdict(int)\<close> that a loop adds to.\<close>

fun add_to :: "'k \<Rightarrow> int \<Rightarrow> ('k \<times> int) list \<Rightarrow> ('k \<times> int) list" where
  "add_to k v [] = [(k, v)]"
| "add_to k v ((k', v') # m) = (if k' = k then (k, v' + v) # m else (k', v') # add_to k v m)"

fun sum_onto :: "('k \<times> int) list \<Rightarrow> ('k \<times> int) list \<Rightarrow> ('k \<times> int) list" where
  "sum_onto m [] = m"
| "sum_onto m ((k, v) # kvs) = sum_onto (add_to k v m) kvs"

definition sum_by_key :: "('k \<times> int) list \<Rightarrow> ('k \<times> int) list" where
  "sum_by_key kvs = sum_onto [] kvs"

definition entry :: "('k \<times> int) list \<Rightarrow> 'k \<Rightarrow> int" where
  "entry m k = (case map_of m k of None \<Rightarrow> 0 | Some v \<Rightarrow> v)"

section \<open>Rows\<close>

definition in_window :: "int \<Rightarrow> int \<Rightarrow> int option \<Rightarrow> bool" where
  "in_window from until t = (case t of None \<Rightarrow> False | Some v \<Rightarrow> from \<le> v \<and> v < until)"

definition paid_rows :: "'a shop_scheme \<Rightarrow> int \<Rightarrow> int \<Rightarrow> int \<Rightarrow> (int \<times> int) list" where
  "paid_rows s m from until =
    map (\<lambda>ord. (day_of (the (o_paid_at ord)), o_paid_amount ord))
      (filter (\<lambda>ord. o_merchant_id ord = m \<and> in_window from until (o_paid_at ord) \<and> o_paid_amount ord > 0) (orders s))"

record sold_row =
  so_day :: int
  so_amount :: int
  so_quantity :: int
  so_sku_id :: int
  so_sku_name :: string

definition item_rows :: "'a shop_scheme \<Rightarrow> int \<Rightarrow> int \<Rightarrow> int \<Rightarrow> sold_row list" where
  "item_rows s m from until =
    concat (map (\<lambda>i. map (\<lambda>ord. \<lparr>so_day = day_of (the (o_paid_at ord)), so_amount = oi_payable_amount i,
        so_quantity = oi_quantity i, so_sku_id = oi_sku_id i, so_sku_name = oi_sku_name i\<rparr>)
      (filter (\<lambda>ord. o_id ord = oi_order_id i \<and> o_merchant_id ord = m \<and> in_window from until (o_paid_at ord))
        (orders s))) (order_items s))"

definition refund_rows :: "'a shop_scheme \<Rightarrow> int \<Rightarrow> int \<Rightarrow> int \<Rightarrow> (int \<times> int) list" where
  "refund_rows s m from until =
    map (\<lambda>r. (day_of (the (rf_completed_at r)), rf_amount r))
      (filter (\<lambda>r. rf_merchant_id r = m \<and> rf_status r = Refund_SUCCEEDED \<and> in_window from until (rf_completed_at r))
        (refunds s))"

section \<open>Turnover\<close>

text \<open>The creation times of the two inventory tables, columns no other operation reads.\<close>

record stock_times =
  row_created :: "inventory \<Rightarrow> int"
  move_created :: "movement \<Rightarrow> int"

definition inventory_positions ::
  "stock_times \<Rightarrow> 'a stock_db_scheme \<Rightarrow> int \<Rightarrow> int \<Rightarrow> (inventory \<times> movement list) list" where
  "inventory_positions tm s m from =
    (let rows = filter (\<lambda>i. inv_merchant_id i = m) (inventories s);
         moves = sort_key (move_created tm) (sort_key mv_id
           (filter (\<lambda>v. list_ex (\<lambda>i. inv_sku_id i = mv_sku_id v) rows \<and>
              list_ex (\<lambda>i. inv_warehouse_id i = mv_warehouse_id v) rows \<and> move_created tm v \<ge> from) (movements s)))
     in map (\<lambda>i. (i, filter (\<lambda>v. mv_warehouse_id v = inv_warehouse_id i \<and> mv_sku_id v = inv_sku_id i) moves)) rows)"

definition position_on_hand :: "stock_times \<Rightarrow> int \<Rightarrow> inventory \<times> movement list \<Rightarrow> int" where
  "position_on_hand tm t p =
    (if row_created tm (fst p) \<ge> t then 0
     else case find (\<lambda>v. move_created tm v \<ge> t) (snd p) of
       Some v \<Rightarrow> before_available v + before_locked v
     | None \<Rightarrow> available_qty (fst p) + locked_qty (fst p))"

definition on_hand :: "stock_times \<Rightarrow> (inventory \<times> movement list) list \<Rightarrow> int \<Rightarrow> int" where
  "on_hand tm positions t = sum_list (map (position_on_hand tm t) positions)"

text \<open>The first day of the bucket a key names, and the day after its last.\<close>

definition read_iso :: "string \<Rightarrow> int" where
  "read_iso t = days_from_civil (digits_int (take 4 t)) (digits_int (take 2 (drop 5 t))) (digits_int (drop 8 t))"

definition bucket_days :: "granularity \<Rightarrow> string \<Rightarrow> int \<times> int" where
  "bucket_days g key =
    (case g of
       By_month \<Rightarrow>
        (let year = digits_int (take 4 key); month = digits_int (drop 5 key) in
         (days_from_civil year month 1,
          if month = 12 then days_from_civil (year + 1) 1 1 else days_from_civil year (month + 1) 1))
     | By_week \<Rightarrow> (read_iso key, read_iso key + 7)
     | By_day \<Rightarrow> (read_iso key, read_iso key + 1))"

definition turnover ::
  "stock_times \<Rightarrow> 'a shop_scheme \<Rightarrow> int \<Rightarrow> int \<Rightarrow> int \<Rightarrow> granularity \<Rightarrow> (string \<times> rat option) list \<times> rat option" where
  "turnover tm s m from until g =
    (let sold = sum_by_key (map (\<lambda>r. (bucket (so_day r) g, so_quantity r)) (item_rows s m from until)) in
     if sold = [] then ([], None)
     else
      let positions = inventory_positions tm s m from in
      (map (\<lambda>(key, quantity).
          (let (first, after) = bucket_days g key;
               opening = on_hand tm positions (max (at_start first) from);
               closing = on_hand tm positions (min (at_start after) until)
           in (key, ratio (of_int (quantity * 2)) (of_int (opening + closing))))) sold,
       ratio (of_int (sum_list (map snd sold) * 2)) (of_int (on_hand tm positions from + on_hand tm positions until))))"

section \<open>Metrics\<close>

record metric_report =
  mr_metric :: metric
  mr_unit :: string
  mr_from :: string
  mr_to :: string
  mr_granularity :: granularity
  mr_series :: "(string \<times> rat option) list"
  mr_total :: "rat option"
  mr_average :: "rat option"
  mr_change_ratio :: "rat option"
  mr_dimensions :: "(string \<times> string \<times> string) list"

text \<open>\<open>max\<close>: the first of the greatest.\<close>

fun first_max :: "('a \<Rightarrow> 'k::linorder) \<Rightarrow> 'a \<Rightarrow> 'a list \<Rightarrow> 'a" where
  "first_max key best [] = best"
| "first_max key best (x # xs) = first_max key (if key x > key best then x else best) xs"

definition top_sku :: "((int \<times> string) \<times> int) list \<Rightarrow> (string \<times> string \<times> string) list" where
  "top_sku by_sku =
    (case by_sku of
       [] \<Rightarrow> []
     | e # es \<Rightarrow>
        let ((sku_id, sku_name), amount) = first_max (\<lambda>((i, n), a). (a, - i)) e es
        in [(''sku_id'', ''Top SKU'', sku_name @ '' (#'' @ int_text sku_id @ '')'')])"

definition amounts_total :: "int list \<Rightarrow> rat option" where
  "amounts_total vs = (if vs = [] then None else Some (of_int (sum_list vs)))"

text \<open>The values by bucket, the total, the total of the period before, the dimensions.\<close>

type_synonym metric_values =
  "(string \<times> rat option) list \<times> rat option \<times> rat option \<times> (string \<times> string \<times> string) list"

definition whole_values :: "(string \<times> int) list \<Rightarrow> (string \<times> rat option) list" where
  "whole_values m = map (\<lambda>(k, v). (k, Some (of_int v))) m"

definition sales_values ::
  "(int \<Rightarrow> int) \<Rightarrow> (int \<times> int) list \<Rightarrow> (int \<times> int) list \<Rightarrow> granularity \<Rightarrow> metric_values" where
  "sales_values value_of current before g =
    (whole_values (sum_by_key (map (\<lambda>(day, amount). (bucket day g, value_of amount)) current)),
     amounts_total (map (\<lambda>(day, amount). value_of amount) current),
     amounts_total (map (\<lambda>(day, amount). value_of amount) before), [])"

definition performance_values :: "sold_row list \<Rightarrow> sold_row list \<Rightarrow> granularity \<Rightarrow> metric_values" where
  "performance_values items before g =
    (whole_values (sum_by_key (map (\<lambda>r. (bucket (so_day r) g, so_amount r)) items)),
     amounts_total (map so_amount items), amounts_total (map so_amount before),
     top_sku (sum_by_key (map (\<lambda>r. ((so_sku_id r, so_sku_name r), so_amount r)) items)))"

definition refund_values ::
  "(int \<times> int) list \<Rightarrow> (int \<times> int) list \<Rightarrow> (int \<times> int) list \<Rightarrow> (int \<times> int) list \<Rightarrow> granularity \<Rightarrow> metric_values" where
  "refund_values refunds_now paid_now refunds_before paid_before g =
    (let refunded = sum_by_key (map (\<lambda>(day, amount). (bucket day g, amount)) refunds_now);
         collected = sum_by_key (map (\<lambda>(day, amount). (bucket day g, amount)) paid_now);
         out = sum_list (map snd refunded); money = sum_list (map snd collected)
     in (map (\<lambda>k. (k, ratio (of_int (entry refunded k)) (of_int (entry collected k))))
           (remdups (map fst refunded @ map fst collected)),
         if refunded = [] \<and> collected = [] then None else ratio (of_int out) (of_int money),
         if refunds_before = [] \<and> paid_before = [] then None
         else ratio (of_int (sum_list (map snd refunds_before))) (of_int (sum_list (map snd paid_before))),
         [(''refunded_amount'', ''Refunded minor units'', int_text out),
          (''collected_amount'', ''Collected minor units'', int_text money)]))"

definition metric_values ::
  "stock_times \<Rightarrow> 'a shop_scheme \<Rightarrow> int \<Rightarrow> metric \<Rightarrow> int \<Rightarrow> int \<Rightarrow> int \<Rightarrow> granularity \<Rightarrow> metric_values" where
  "metric_values tm s m metric before from until g =
    (case metric of
       Sales_gmv \<Rightarrow> sales_values (\<lambda>a. a) (paid_rows s m from until) (paid_rows s m before from) g
     | Sales_order_count \<Rightarrow> sales_values (\<lambda>a. 1) (paid_rows s m from until) (paid_rows s m before from) g
     | Product_performance \<Rightarrow> performance_values (item_rows s m from until) (item_rows s m before from) g
     | Refund_rate \<Rightarrow> refund_values (refund_rows s m from until) (paid_rows s m from until)
         (refund_rows s m before from) (paid_rows s m before from) g
     | Inventory_turnover \<Rightarrow>
        (let (values, overall) = turnover tm s m from until g
         in (values, overall, snd (turnover tm s m before from g), [])))"

definition average_of :: "metric \<Rightarrow> (string \<times> rat option) list \<Rightarrow> rat option" where
  "average_of metric values =
    (case List.map_filter snd values of
       [] \<Rightarrow> None
     | ns \<Rightarrow>
        let average = sum_list ns / of_nat (length ns)
        in Some (if metric_unit metric = ''minor_currency'' then of_int (half_even average) else average))"

definition change_ratio :: "rat option \<Rightarrow> rat option \<Rightarrow> rat option" where
  "change_ratio current before =
    (case (current, before) of (Some t, Some p) \<Rightarrow> ratio (t - p) p | _ \<Rightarrow> None)"

text \<open>
  A window that ends on the last day of the calendar, or whose previous window starts before its first,
  overflows the date arithmetic.
\<close>

definition read_metric ::
  "stock_times \<Rightarrow> 'a shop_scheme \<Rightarrow> principal \<Rightarrow> metric \<Rightarrow> int \<Rightarrow> int \<Rightarrow> granularity \<Rightarrow> metric_report result" where
  "read_metric tm s who metric from_day to_day g =
    bindE (require_permission who ''analytics:read'') (\<lambda>_.
    case p_merchant_id who of
      None \<Rightarrow> app_raise (Auth PermissionDeniedError)
    | Some m \<Rightarrow>
       require (p_is_staff who) (AppError (Auth PermissionDeniedError))
       (require (\<not> (from_day > to_day \<or> to_day - from_day > 365)) (AppError (Common ValidationError))
       (let before_day = from_day - (to_day + 1 - from_day) in
        require (to_day + 1 \<le> max_day \<and> before_day \<ge> min_day) (PythonError ''OverflowError'')
        (let (values, overall, previous, dimensions) =
           metric_values tm s m metric (at_start before_day) (at_start from_day) (at_start (to_day + 1)) g
         in ok \<lparr>mr_metric = metric, mr_unit = metric_unit metric, mr_from = iso_text from_day,
           mr_to = iso_text to_day, mr_granularity = g, mr_series = sort_key fst values, mr_total = overall,
           mr_average = average_of metric values, mr_change_ratio = change_ratio overall previous,
           mr_dimensions = dimensions\<rparr>))))"

end
