(* ===== verification/Analytics_Properties.thy ===== *)
theory Analytics_Properties
  imports Analytics Inventory_Properties Shop_Sample "HOL-Library.Multiset"
begin

text \<open>
  What the metrics promise: the buckets of a series add up to its total, and the stock the turnover
  divides by is the one the ledger records.
\<close>

section \<open>Sums by key\<close>

lemma sum_add_to [simp]: "sum_list (map snd (add_to k v m)) = v + sum_list (map snd m)"
  by (induction k v m rule: add_to.induct) auto

lemma keys_add_to [simp]: "set (map fst (add_to k v m)) = insert k (set (map fst m))"
  by (induction k v m rule: add_to.induct) auto

lemma distinct_add_to [simp]: "distinct (map fst m) \<Longrightarrow> distinct (map fst (add_to k v m))"
proof (induction k v m rule: add_to.induct)
  case (2 k v k' v' m)
  have "fst ` set (add_to k v m) = insert k (fst ` set m)" using keys_add_to [of k v m] by simp
  with 2 show ?case by auto
qed simp

lemma sum_tally_onto: "sum_list (map snd (sum_onto m kvs)) = sum_list (map snd m) + sum_list (map snd kvs)"
  by (induction m kvs rule: sum_onto.induct) simp_all

lemma keys_tally_onto: "set (map fst (sum_onto m kvs)) = set (map fst m) \<union> set (map fst kvs)"
proof (induction m kvs rule: sum_onto.induct)
  case (2 m k v kvs)
  then show ?case using keys_add_to [of k v m] by auto
qed simp

lemma distinct_tally_onto: "distinct (map fst m) \<Longrightarrow> distinct (map fst (sum_onto m kvs))"
  by (induction m kvs rule: sum_onto.induct) (simp_all add: distinct_add_to)

lemma sum_tally [simp]: "sum_list (map snd (sum_by_key kvs)) = sum_list (map snd kvs)"
  by (simp add: sum_by_key_def sum_tally_onto)

lemma keys_tally [simp]: "fst ` set (sum_by_key kvs) = fst ` set kvs"
  using keys_tally_onto [of "[]" kvs] by (simp add: sum_by_key_def)

lemma distinct_tally [simp]: "distinct (map fst (sum_by_key kvs))"
  by (simp add: sum_by_key_def distinct_tally_onto)

lemma tally_empty [simp]: "sum_by_key kvs = [] \<longleftrightarrow> kvs = []"
  using keys_tally [of kvs] by (metis image_is_empty set_empty)

section \<open>The series and its total\<close>

definition series_money :: "(string \<times> rat option) list \<Rightarrow> rat" where
  "series_money series = sum_list (map (\<lambda>(k, v). case v of None \<Rightarrow> 0 | Some x \<Rightarrow> x) series)"

lemma series_money_whole: "series_money (whole_values m) = of_int (sum_list (map snd m))"
  by (induction m) (auto simp: series_money_def whole_values_def)

lemma series_money_sorted: "series_money (sort_key fst m) = series_money m"
proof -
  have "mset (sort_key fst m) = mset m" by simp
  then show ?thesis unfolding series_money_def by (metis mset_map sum_mset_sum_list)
qed

text \<open>The series of an additive metric is the sum_by_key of its rows, and its total their sum.\<close>

definition additive_rows :: "'a shop_scheme \<Rightarrow> int \<Rightarrow> metric \<Rightarrow> int \<Rightarrow> int \<Rightarrow> (int \<times> int) list" where
  "additive_rows s m metric from until =
    (case metric of
       Sales_gmv \<Rightarrow> paid_rows s m from until
     | Sales_order_count \<Rightarrow> map (\<lambda>(day, amount). (day, 1)) (paid_rows s m from until)
     | Product_performance \<Rightarrow> map (\<lambda>r. (so_day r, so_amount r)) (item_rows s m from until)
     | _ \<Rightarrow> [])"

lemma additive_values:
  assumes "metric \<in> {Sales_gmv, Sales_order_count, Product_performance}"
    and "metric_values tm s m metric before from until g = (vals, overall, rest)"
  shows "vals = whole_values (sum_by_key (map (\<lambda>(day, v). (bucket day g, v)) (additive_rows s m metric from until)))"
    and "overall = amounts_total (map snd (additive_rows s m metric from until))"
  using assms
  by (auto simp: metric_values_def additive_rows_def sales_values_def performance_values_def comp_def
      case_prod_unfold)

lemma read_metric_ok:
  assumes "read_metric tm s who metric from_day to_day g = ok r"
  obtains m vals rest before where "p_merchant_id who = Some m" "from_day \<le> to_day" "p_is_staff who"
    and "metric_values tm s m metric before (at_start from_day) (at_start (to_day + 1)) g = (vals, mr_total r, rest)"
    and "mr_series r = sort_key fst vals"
  using assms
  by (auto simp: read_metric_def rsimps Let_def split: option.splits prod.splits)

text \<open>
  A report of revenue, order count or product performance adds up: its buckets are in order, each
  once, they are the buckets of the days with a row in the window, their values sum to the reported
  total, and there is no total exactly when there is no bucket.
\<close>

theorem series_adds_up:
  assumes "metric \<in> {Sales_gmv, Sales_order_count, Product_performance}"
    and "read_metric tm s who metric from_day to_day g = ok r" and "p_merchant_id who = Some m"
  shows "sorted (map fst (mr_series r)) \<and> distinct (map fst (mr_series r)) \<and>
    set (map fst (mr_series r)) =
      (\<lambda>row. bucket (fst row) g) ` set (additive_rows s m metric (at_start from_day) (at_start (to_day + 1))) \<and>
    (if mr_series r = [] then mr_total r = None else mr_total r = Some (series_money (mr_series r)))"
proof -
  let ?rows = "additive_rows s m metric (at_start from_day) (at_start (to_day + 1))"
  let ?kvs = "map (\<lambda>(day, v). (bucket day g, v)) ?rows"
  obtain vals before rest where
    vals: "metric_values tm s m metric before (at_start from_day) (at_start (to_day + 1)) g = (vals, mr_total r, rest)"
    and series: "mr_series r = sort_key fst vals"
    by (rule read_metric_ok [OF assms(2)]) (use assms(3) in auto)
  from additive_values [OF assms(1) vals]
  have v: "vals = whole_values (sum_by_key ?kvs)" and total: "mr_total r = amounts_total (map snd ?rows)" .
  have keys: "map fst vals = map fst (sum_by_key ?kvs)" by (simp add: v whole_values_def case_prod_unfold)
  have "mset (map fst (mr_series r)) = mset (map fst vals)" by (simp add: series)
  then have "distinct (map fst (mr_series r)) \<and> set (map fst (mr_series r)) = set (map fst vals)"
    by (metis keys distinct_tally mset_eq_imp_distinct_iff mset_eq_setD)
  moreover have "set (map fst vals) = (\<lambda>row. bucket (fst row) g) ` set ?rows"
    by (force simp: keys)
  moreover have "series_money (mr_series r) = of_int (sum_list (map snd ?rows))"
    by (simp add: series series_money_sorted v series_money_whole comp_def case_prod_unfold)
  moreover have "mr_series r = [] \<longleftrightarrow> ?rows = []"
  proof -
    have "length (mr_series r) = length (sum_by_key ?kvs)" by (simp add: series v whole_values_def)
    then show ?thesis by (metis length_0_conv map_is_Nil_conv tally_empty)
  qed
  ultimately show ?thesis by (simp add: series total amounts_total_def)
qed

section \<open>The stock of a moment\<close>

definition ledger_chained :: "'a stock_db_scheme \<Rightarrow> bool" where
  "ledger_chained db \<longleftrightarrow> (\<forall>xs v ys. movements db = xs @ v # ys \<longrightarrow> mv_id v = Suc (length xs) \<and>
    before_available v + before_locked v =
      (\<Sum>w \<leftarrow> filter (\<lambda>w. mv_warehouse_id w = mv_warehouse_id v \<and> mv_sku_id w = mv_sku_id v) xs. net_stock_change w))"

lemma step_writes:
  assumes "stock_step db db'" and "stock_wf db"
  shows "movements db' = movements db \<or>
    (\<exists>row row' t c. row \<in> set (inventories db) \<and> position row' = position row \<and>
      movements db' = movements db @ [build_movement (Suc (length (movements db))) row row' t c])"
  using assms
proof cases
  case (step_reserve c r)
  with reserving.returns [OF assms(2) step_reserve(1)] show ?thesis
    by (auto simp: accepted_def dest!: lock_for_update_Some) (metis position_row_changes(1,2))
next
  case (step_release c r)
  with releasing.returns [OF assms(2) step_release(1)] show ?thesis
    by (auto simp: accepted_def dest!: lock_for_update_Some) (metis position_row_changes(3,4))
next
  case (step_deduct c r)
  with deducting.returns [OF assms(2) step_deduct(1)] show ?thesis
    by (auto simp: accepted_def dest!: lock_for_update_Some) (metis position_row_changes(5,6))
next
  case (step_return c r)
  with returning.returns [OF assms(2) step_return(1)] show ?thesis
    by (auto simp: accepted_def dest!: lock_for_update_Some) (metis position_row_changes(7,8))
next
  case (step_adjust c v t i)
  show ?thesis
  proof (rule adjust_returns [OF assms(2) step_adjust(1)])
    fix row row' noted
    assume "row \<in> set (inventories db)" "db' = ledger_write db row row' t noted"
      and "row' = row\<lparr>available_qty := available_qty row + sc_quantity c, inv_version := inv_version row + 1,
        total_in_qty := (if sc_quantity c > 0 then total_in_qty row + sc_quantity c else total_in_qty row)\<rparr>"
    then show ?thesis by (intro disjI2 exI [of _ row] exI [of _ row'] exI [of _ t] exI [of _ noted]) simp
  qed simp
qed auto

lemma explained_on_hand:
  assumes "explained db i"
  shows "available_qty i + locked_qty i = (\<Sum>v \<leftarrow> filter (\<lambda>v. mv_warehouse_id v = inv_warehouse_id i \<and>
    mv_sku_id v = inv_sku_id i) (movements db). net_stock_change v)"
  using assms
  by (simp add: explained_def movement_signature_def position_movements_def net_stock_change_def
      sum_list_addf)

lemma chained_snoc:
  assumes "ledger_chained db" and "movements db' = movements db @ [v]" and "mv_id v = Suc (length (movements db))"
    and "before_available v + before_locked v = (\<Sum>w \<leftarrow> filter (\<lambda>w. mv_warehouse_id w = mv_warehouse_id v \<and>
      mv_sku_id w = mv_sku_id v) (movements db). net_stock_change w)"
  shows "ledger_chained db'"
  unfolding ledger_chained_def
proof (intro allI impI)
  fix xs u ys
  assume split: "movements db' = xs @ u # ys"
  show "mv_id u = Suc (length xs) \<and> before_available u + before_locked u =
    (\<Sum>w \<leftarrow> filter (\<lambda>w. mv_warehouse_id w = mv_warehouse_id u \<and> mv_sku_id w = mv_sku_id u) xs. net_stock_change w)"
  proof (cases ys rule: rev_cases)
    case Nil
    with split assms(2) have "xs = movements db" "u = v" by simp_all
    with assms(3,4) show ?thesis by simp
  next
    case (snoc zs z)
    with split assms(2) have "movements db = xs @ u # zs" by simp
    with assms(1) show ?thesis unfolding ledger_chained_def by blast
  qed
qed

lemma step_chained:
  assumes "stock_step db db'" and "stock_wf db" and "ledger_chained db"
  shows "ledger_chained db'"
  using step_writes [OF assms(1,2)]
proof (elim disjE exE conjE)
  fix row row' t c
  let ?v = "build_movement (Suc (length (movements db))) row row' t c"
  assume row: "row \<in> set (inventories db)" and pos: "position row' = position row"
    and m: "movements db' = movements db @ [?v]"
  have "explained db row" using assms(2) row by (simp add: stock_wf_def list_all_iff)
  from explained_on_hand [OF this] show ?thesis
    using pos by (intro chained_snoc [OF assms(3) m]) (simp_all add: build_movement_def)
qed (use assms(3) in \<open>simp add: ledger_chained_def\<close>)

lemma reachable_chained:
  assumes "stock_reachable db db'" and "stock_wf db" and "ledger_chained db"
  shows "ledger_chained db'"
  using assms by (induction rule: stock_reachable.induct) (auto intro: step_chained stock_reachable_wf)

lemma opening_chained: "opening_state db \<Longrightarrow> ledger_chained db"
  by (simp add: opening_state_def ledger_chained_def)

text \<open>Ids and creation times grow with the ledger, so the query's order is the ledger's.\<close>

definition timely :: "stock_times \<Rightarrow> 'a stock_db_scheme \<Rightarrow> bool" where
  "timely tm db \<longleftrightarrow> sorted (map (move_created tm) (movements db)) \<and>
    (\<forall>i \<in> set (inventories db). \<forall>v \<in> set (movements db). mv_warehouse_id v = inv_warehouse_id i \<longrightarrow>
      mv_sku_id v = inv_sku_id i \<longrightarrow> row_created tm i \<le> move_created tm v)"

lemma chained_ids:
  assumes "ledger_chained db" shows "sorted (map mv_id (movements db))"
proof -
  have "map mv_id (movements db) = [1..<Suc (length (movements db))]"
  proof (rule nth_equalityI)
    fix k assume k: "k < length (map mv_id (movements db))"
    then have "movements db = take k (movements db) @ movements db ! k # drop (Suc k) (movements db)"
      by (simp add: id_take_nth_drop)
    then have "mv_id (movements db ! k) = Suc (length (take k (movements db)))"
      using assms unfolding ledger_chained_def by blast
    with k show "map mv_id (movements db) ! k = [1..<Suc (length (movements db))] ! k" by (simp del: upt_Suc)
  qed (simp del: upt_Suc)
  then show ?thesis by (metis sorted_upt)
qed

definition of_position :: "inventory \<Rightarrow> movement \<Rightarrow> bool" where
  "of_position i v \<longleftrightarrow> mv_warehouse_id v = inv_warehouse_id i \<and> mv_sku_id v = inv_sku_id i"

lemma positions_read:
  assumes "ledger_chained db" and "timely tm db"
  shows "inventory_positions tm db m from =
    map (\<lambda>i. (i, filter (\<lambda>v. of_position i v \<and> move_created tm v \<ge> from) (movements db)))
      (filter (\<lambda>i. inv_merchant_id i = m) (inventories db))"
proof -
  have "sort_key mv_id (filter P (movements db)) = filter P (movements db)"
    "sort_key (move_created tm) (filter P (movements db)) = filter P (movements db)" for P
    using assms chained_ids [OF assms(1)] by (auto simp: timely_def intro!: sort_key_id_if_sorted sorted_filter)
  then show ?thesis
    by (auto simp: inventory_positions_def Let_def of_position_def list_ex_iff intro!: filter_cong)
qed

lemma find_filter: "find P (filter Q xs) = find (\<lambda>x. Q x \<and> P x) xs"
  by (induction xs) auto

lemma find_Some_split:
  assumes "find P xs = Some x"
  obtains ys zs where "xs = ys @ x # zs" "P x" "\<forall>y \<in> set ys. \<not> P y"
proof -
  obtain k where "k < length xs" "P (xs ! k)" "x = xs ! k" "\<forall>j < k. \<not> P (xs ! j)"
    using assms by (auto simp: find_Some_iff)
  then show ?thesis
    by (intro that [of "take k xs" "drop (Suc k) xs"]) (auto simp: id_take_nth_drop in_set_conv_nth)
qed

lemma position_at:
  assumes "ledger_chained db" and "timely tm db" and "stock_wf db" and "i \<in> set (inventories db)" and "from \<le> t"
  shows "position_on_hand tm t (i, filter (\<lambda>v. of_position i v \<and> move_created tm v \<ge> from) (movements db)) =
    (\<Sum>v \<leftarrow> filter (\<lambda>v. of_position i v \<and> move_created tm v < t) (movements db). net_stock_change v)"
proof (cases "row_created tm i \<ge> t")
  case True
  then have "filter (\<lambda>v. of_position i v \<and> move_created tm v < t) (movements db) = []"
    using assms(2,4) by (fastforce simp: timely_def of_position_def filter_empty_conv)
  with True show ?thesis by (simp add: position_on_hand_def)
next
  case False
  let ?after = "\<lambda>v. of_position i v \<and> move_created tm v \<ge> t"
  have found: "find (\<lambda>v. move_created tm v \<ge> t) (filter (\<lambda>v. of_position i v \<and> move_created tm v \<ge> from) (movements db)) =
      find ?after (movements db)"
    using assms(5) by (simp add: find_filter) (metis (no_types, lifting) order_trans)
  show ?thesis
  proof (cases "find ?after (movements db)")
    case None
    then have "filter (\<lambda>v. of_position i v \<and> move_created tm v < t) (movements db) = filter (of_position i) (movements db)"
      by (auto simp: find_None_iff intro!: filter_cong)
    moreover have "explained db i" using assms(3,4) by (simp add: stock_wf_def list_all_iff)
    then have "available_qty i + locked_qty i = (\<Sum>v \<leftarrow> filter (of_position i) (movements db). net_stock_change v)"
      by (simp add: explained_on_hand of_position_def [abs_def])
    ultimately show ?thesis using False by (simp add: position_on_hand_def found None)
  next
    case (Some v)
    then obtain xs ys where s: "movements db = xs @ v # ys" "?after v" "\<forall>y \<in> set xs. \<not> ?after y"
      by (rule find_Some_split)
    have "\<forall>y \<in> set ys. move_created tm y \<ge> t"
      using assms(2) s(1,2) by (force simp: timely_def sorted_append)
    then have "filter (\<lambda>v. of_position i v \<and> move_created tm v < t) ys = []"
      by (auto simp: filter_empty_conv)
    moreover have "filter (\<lambda>v. of_position i v \<and> move_created tm v < t) xs = filter (of_position i) xs"
      using s(3) by (intro filter_cong) auto
    ultimately have "filter (\<lambda>v. of_position i v \<and> move_created tm v < t) (movements db) = filter (of_position i) xs"
      using s(1,2) by simp
    moreover have "before_available v + before_locked v = (\<Sum>w \<leftarrow> filter (\<lambda>w. mv_warehouse_id w = mv_warehouse_id v \<and>
        mv_sku_id w = mv_sku_id v) xs. net_stock_change w)"
      using assms(1) s(1) unfolding ledger_chained_def by blast
    then have "before_available v + before_locked v = (\<Sum>w \<leftarrow> filter (of_position i) xs. net_stock_change w)"
      using s(2) by (simp add: of_position_def [abs_def])
    ultimately show ?thesis using False by (simp add: position_on_hand_def found Some)
  qed
qed

text \<open>
  C38: The stock the turnover divides by is the stock of the ledger: after any stock operations from an
  opening state, with creation times that do not decrease along the ledger, the units on hand that are
  reconstructed for any moment of the window are the movements of the merchant's positions before it,
  summed.
\<close>

theorem turnover_reads_ledger:
  assumes "opening_state db" and "stock_reachable db db'" and "timely tm db'" and "from \<le> t"
  shows "on_hand tm (inventory_positions tm db' m from) t =
    (\<Sum>i \<leftarrow> filter (\<lambda>i. inv_merchant_id i = m) (inventories db').
       \<Sum>v \<leftarrow> filter (\<lambda>v. of_position i v \<and> move_created tm v < t) (movements db'). net_stock_change v)"
proof -
  have wf: "stock_wf db'" and chained: "ledger_chained db'"
    using assms(1,2) opening_wf opening_chained stock_reachable_wf reachable_chained by blast+
  have "map (position_on_hand tm t) (inventory_positions tm db' m from) =
      map (\<lambda>i. \<Sum>v \<leftarrow> filter (\<lambda>v. of_position i v \<and> move_created tm v < t) (movements db'). net_stock_change v)
        (filter (\<lambda>i. inv_merchant_id i = m) (inventories db'))"
    using position_at [OF chained assms(3) wf _ assms(4)] by (simp add: positions_read [OF chained assms(3)])
  then show ?thesis by (simp add: on_hand_def)
qed

text \<open>Ten units arrive at the first instant, three are reserved at the second.\<close>

definition sample_times :: stock_times where
  "sample_times = \<lparr>row_created = (\<lambda>_. 0), move_created = (\<lambda>v. int (mv_id v))\<rparr>"

theorem turnover_reads_ledger_witness:
  "on_hand sample_times (inventory_positions sample_times (snd held) 1 1) 2 =
    (\<Sum>i \<leftarrow> filter (\<lambda>i. inv_merchant_id i = 1) (inventories (snd held)).
       \<Sum>v \<leftarrow> filter (\<lambda>v. of_position i v \<and> move_created sample_times v < 2) (movements (snd held)). net_stock_change v) \<and>
   timely sample_times (snd held) \<and>
   on_hand sample_times (inventory_positions sample_times (snd held) 1 1) 2 = 10"
proof -
  have "stock_reachable sample_stock stocked"
    by (rule reach_step [OF reach_refl step_adjust [OF sample_adjust]])
  moreover have "stock_step stocked (snd held)" by (rule step_reserve [OF sample_reserve])
  ultimately have r: "stock_reachable sample_stock (snd held)" by (rule reach_step)
  have t: "timely sample_times (snd held)" by code_simp
  have "on_hand sample_times (inventory_positions sample_times (snd held) 1 1) 2 = 10" by code_simp
  with t turnover_reads_ledger [OF sample_opening r t, of 1 2 1] show ?thesis by simp
qed

definition sample_sales :: shop where
  "sample_sales = sample_shop\<lparr>orders :=
    [order_of_coupon\<lparr>o_paid_at := Some 1000, o_paid_amount := 400\<rparr>,
     order_of_coupon\<lparr>o_id := 2, o_paid_at := Some 90000000, o_paid_amount := 600\<rparr>]\<rparr>"

definition sample_analyst :: principal where
  "sample_analyst = \<lparr>p_user_id = 2, p_merchant_id = Some 1, p_permissions = {''analytics:read''},
    p_data_scope = Scope_MERCHANT, p_is_staff = True\<rparr>"

theorem series_adds_up_witness:
  "\<exists>r. read_metric sample_times sample_sales sample_analyst Sales_gmv 0 1 By_day = ok r \<and>
    series_money (mr_series r) = 1000 \<and> mr_total r = Some 1000"
proof -
  have rows: "paid_rows sample_sales 1 (at_start 0) (at_start (1 + 1)) = [(0, 400), (1, 600)]"
    by (simp add: paid_rows_def sample_sales_def order_of_coupon_def in_window_def at_start_def day_of_def
        ms_per_day_def)
  obtain values' overall previous dimensions where "metric_values sample_times sample_sales 1 Sales_gmv
      (at_start (- 2)) (at_start 0) (at_start 2) By_day = (values', overall, previous, dimensions)"
    by (rule prod_cases4)
  then obtain r where r: "read_metric sample_times sample_sales sample_analyst Sales_gmv 0 1 By_day = ok r"
    by (simp add: read_metric_def require_permission_def has_permission_def sample_analyst_def Let_def
        require_def min_day_def max_day_def)
  have m: "p_merchant_id sample_analyst = Some 1" by (simp add: sample_analyst_def)
  obtain vals before rest where "metric_values sample_times sample_sales 1 Sales_gmv before (at_start 0)
      (at_start (1 + 1)) By_day = (vals, mr_total r, rest)"
    by (rule read_metric_ok [OF r]) (use m in auto)
  from additive_values(2) [OF _ this] have total: "mr_total r = Some 1000"
    by (simp add: additive_rows_def rows [simplified] amounts_total_def)
  from series_adds_up [OF _ r m] total have "series_money (mr_series r) = 1000"
    by (simp split: if_splits)
  with r total show ?thesis by blast
qed

end
