(* ===== verification/Knowledge.thy ===== *)
theory Knowledge
  imports Governance
begin

text \<open>
  \<open>app/modules/knowledge\<close>: knowledge bases, the upload of a text document as overlapping chunks, its
  states, and the retrieval of the chunks that contain a query. The substring match is the database's
  and an argument, as is the object store. The evaluation of a retrieval is left out.
\<close>

section \<open>Tables\<close>

record knowledge_base =
  kb_id :: int
  kb_merchant_id :: int
  kb_name :: string
  kb_description :: "string option"
  kb_embedding_model :: string
  kb_created_at :: int

datatype document_status = Doc_UPLOADED | Doc_PROCESSING | Doc_READY | Doc_FAILED | Doc_ARCHIVED

record knowledge_document =
  kd_id :: int
  kd_merchant_id :: int
  kd_base_id :: int
  kd_file_name :: string
  kd_object_key :: string
  kd_content_type :: string
  kd_size_bytes :: int
  kd_checksum :: string
  kd_status :: document_status
  kd_chunk_count :: nat
  kd_error_message :: "string option"
  kd_uploaded_by :: int
  kd_processed_at :: "int option"
  kd_created_at :: int

record knowledge_chunk =
  kc_id :: int
  kc_document_id :: int
  kc_text :: string
  kc_index :: nat
  kc_checksum :: string

record library = governed +
  bases :: "knowledge_base list"
  documents :: "knowledge_document list"
  chunks :: "knowledge_chunk list"

section \<open>Texts\<close>

text \<open>The characters that \<open>str.strip\<close> removes.\<close>

definition space_glyph :: "string \<Rightarrow> bool" where
  "space_glyph g \<longleftrightarrow> (\<exists>c. g = [c] \<and> is_space c) \<or>
    g \<in> set ([[CHR 0xC2, CHR 0x85], [CHR 0xC2, CHR 0xA0], [CHR 0xE1, CHR 0x9A, CHR 0x80],
      [CHR 0xE2, CHR 0x80, CHR 0xA8], [CHR 0xE2, CHR 0x80, CHR 0xA9], [CHR 0xE2, CHR 0x80, CHR 0xAF],
      [CHR 0xE2, CHR 0x81, CHR 0x9F], [CHR 0xE3, CHR 0x80, CHR 0x80]] @
      map (\<lambda>k. [CHR 0xE2, CHR 0x80, char_of (0x80 + k :: nat)]) [0..<11])"

definition strip_glyphs :: "string list \<Rightarrow> string list" where
  "strip_glyphs gs = rev (dropWhile space_glyph (rev (dropWhile space_glyph gs)))"

definition byte_order_mark :: string where
  "byte_order_mark = [CHR 0xEF, CHR 0xBB, CHR 0xBF]"

text \<open>\<open>data.decode("utf-8-sig").strip()\<close>, as characters. A text is valid when a lenient decoding replaces nothing.\<close>

definition text_content :: "string \<Rightarrow> string list option" where
  "text_content data =
    (let body = (if prefix byte_order_mark data then drop 3 data else data) in
     if utf8_replace body = body then Some (strip_glyphs (glyphs body)) else None)"

text \<open>\<open>content[offset:offset + 1000] for offset in range(0, len(content), 900)\<close>\<close>

definition slices :: "string list \<Rightarrow> string list" where
  "slices gs = map (\<lambda>k. concat (take 1000 (drop (900 * k) gs))) [0..<(length gs + 899) div 900]"

definition chunk_texts :: "string \<Rightarrow> string \<Rightarrow> string list result" where
  "chunk_texts data content_type =
    require (strip_text (hd (split_on (CHR '';'') content_type)) \<in> {''text/plain'', ''text/markdown''})
      (AppError (Knowledge DocumentUnsupportedTypeError))
    (case text_content data of
       None \<Rightarrow> app_raise (Common ValidationError)
     | Some gs \<Rightarrow>
        require (gs \<noteq> [] \<and> [CHR 0x00] \<notin> set gs) (AppError (Common ValidationError)) (ok (slices gs)))"

section \<open>Queries\<close>

definition knowledge_merchant :: "principal \<Rightarrow> string \<Rightarrow> int result" where
  "knowledge_merchant who permission =
    bindE (require_permission who permission) (\<lambda>_.
    case p_merchant_id who of
      None \<Rightarrow> app_raise (Auth PermissionDeniedError)
    | Some m \<Rightarrow> require (p_data_scope who \<in> {Scope_MERCHANT, Scope_ALL}) (AppError (Auth PermissionDeniedError)) (ok m))"

definition get_base :: "'a library_scheme \<Rightarrow> int \<Rightarrow> int \<Rightarrow> knowledge_base option" where
  "get_base s base_id m = find (\<lambda>b. kb_id b = base_id \<and> kb_merchant_id b = m) (bases s)"

definition owned_base :: "'a library_scheme \<Rightarrow> int \<Rightarrow> int \<Rightarrow> knowledge_base result" where
  "owned_base s base_id m =
    (case get_base s base_id m of None \<Rightarrow> app_raise (Knowledge KnowledgeBaseNotFoundError) | Some b \<Rightarrow> ok b)"

definition list_bases :: "'a library_scheme \<Rightarrow> principal \<Rightarrow> (knowledge_base \<times> nat) list result" where
  "list_bases s who =
    bindE (knowledge_merchant who ''knowledge:read'') (\<lambda>m.
    ok (map (\<lambda>b. (b, length (filter (\<lambda>d. kd_base_id d = kb_id b) (documents s))))
      (sort_key (\<lambda>b. - kb_created_at b) (filter (\<lambda>b. kb_merchant_id b = m) (bases s)))))"

definition list_documents ::
  "'a library_scheme \<Rightarrow> principal \<Rightarrow> int \<Rightarrow> nat \<Rightarrow> nat \<Rightarrow> (knowledge_document list \<times> nat) result" where
  "list_documents s who base_id page page_size =
    bindE (knowledge_merchant who ''knowledge:read'') (\<lambda>m.
    bindE (owned_base s base_id m) (\<lambda>_.
    let rows = filter (\<lambda>d. kd_base_id d = base_id \<and> kd_merchant_id d = m) (documents s)
    in ok (take page_size (drop ((page - 1) * page_size)
         (sort_key (\<lambda>d. - kd_created_at d) (sort_key (\<lambda>d. - kd_id d) rows))), length rows)))"

definition get_document :: "'a library_scheme \<Rightarrow> int \<Rightarrow> int \<Rightarrow> knowledge_document option" where
  "get_document s document_id m = find (\<lambda>d. kd_id d = document_id \<and> kd_merchant_id d = m) (documents s)"

text \<open>The rows the search finds, before its limit.\<close>

definition matching_chunks ::
  "(string \<Rightarrow> string \<Rightarrow> bool) \<Rightarrow> 'a library_scheme \<Rightarrow> int \<Rightarrow> int \<Rightarrow> string \<Rightarrow> (knowledge_chunk \<times> knowledge_document) list" where
  "matching_chunks contains s base_id m query =
    concat (map (\<lambda>c. map (\<lambda>d. (c, d)) (filter (\<lambda>d. kd_id d = kc_document_id c \<and> kd_base_id d = base_id \<and>
        kd_merchant_id d = m \<and> kd_status d = Doc_READY) (documents s)))
      (sort_key kc_id (filter (\<lambda>c. contains query (kc_text c)) (chunks s))))"

definition search_chunks ::
  "(string \<Rightarrow> string \<Rightarrow> bool) \<Rightarrow> 'a library_scheme \<Rightarrow> int \<Rightarrow> int \<Rightarrow> string \<Rightarrow> nat \<Rightarrow> (knowledge_chunk \<times> knowledge_document) list" where
  "search_chunks contains s base_id m query limit = take limit (matching_chunks contains s base_id m query)"

record evidence =
  ke_index :: nat
  ke_doc_id :: string
  ke_doc_name :: string
  ke_chunk_id :: string
  ke_snippet :: string

definition debug_retrieval ::
  "(string \<Rightarrow> string \<Rightarrow> bool) \<Rightarrow> 'a library_scheme \<Rightarrow> principal \<Rightarrow> string \<Rightarrow> int \<Rightarrow> nat \<Rightarrow> evidence list result" where
  "debug_retrieval contains s who query base_id top_k =
    bindE (knowledge_merchant who ''knowledge:read'') (\<lambda>m.
    bindE (owned_base s base_id m) (\<lambda>_.
    let hits = search_chunks contains s base_id m query top_k
    in ok (map (\<lambda>(k, (c, d)). \<lparr>ke_index = k, ke_doc_id = int_text (kd_id d), ke_doc_name = kd_file_name d,
         ke_chunk_id = int_text (kc_id c), ke_snippet = kc_text c\<rparr>) (zip [1..<Suc (length hits)] hits))))"

section \<open>Changes\<close>

definition create_base ::
  "'a library_scheme \<Rightarrow> principal \<Rightarrow> string \<Rightarrow> string option \<Rightarrow> string \<Rightarrow> (knowledge_base \<times> 'a library_scheme) result" where
  "create_base s who name description embedding_model =
    bindE (knowledge_merchant who ''knowledge:write'') (\<lambda>m.
    let b = \<lparr>kb_id = fresh_id kb_id (bases s), kb_merchant_id = m, kb_name = name, kb_description = description,
          kb_embedding_model = embedding_model, kb_created_at = db_now s\<rparr>
    in if list_ex (\<lambda>r. kb_merchant_id r = m \<and> kb_name r = name) (bases s)
       then raise (IntegrityError ''knowledge_bases'')
       else ok (b, s\<lparr>bases := bases s @ [b]\<rparr>))"

text \<open>The chunk rows of a document, with ids from the given one on.\<close>

definition chunk_rows :: "int \<Rightarrow> int \<Rightarrow> string \<Rightarrow> string list \<Rightarrow> knowledge_chunk list" where
  "chunk_rows first document_id checksum texts =
    map (\<lambda>(k, t). \<lparr>kc_id = first + int k, kc_document_id = document_id, kc_text = t, kc_index = k,
      kc_checksum = checksum\<rparr>) (zip [0..<length texts] texts)"

definition document_draft ::
  "'a library_scheme \<Rightarrow> int \<Rightarrow> int \<Rightarrow> principal \<Rightarrow> string \<Rightarrow> string \<Rightarrow> string \<Rightarrow> string \<Rightarrow> string \<Rightarrow> nat \<Rightarrow> knowledge_document" where
  "document_draft s m base_id who file_name content_type data checksum key count =
    \<lparr>kd_id = fresh_id kd_id (documents s), kd_merchant_id = m, kd_base_id = base_id,
     kd_file_name = clip 255 file_name, kd_object_key = key, kd_content_type = content_type,
     kd_size_bytes = int (length data), kd_checksum = checksum, kd_status = Doc_READY, kd_chunk_count = count,
     kd_error_message = None, kd_uploaded_by = p_user_id who, kd_processed_at = Some (db_now s),
     kd_created_at = db_now s\<rparr>"

text \<open>A failure after the object was written leaves it in the store.\<close>

definition knowledge_upload ::
  "store_settings \<Rightarrow> string \<Rightarrow> 's store_port \<Rightarrow> 'a library_scheme \<Rightarrow> 's \<Rightarrow> principal \<Rightarrow> int \<Rightarrow> string \<Rightarrow> string \<Rightarrow>
   string \<Rightarrow> string \<Rightarrow> knowledge_document result \<times> 'a library_scheme \<times> 's" where
  "knowledge_upload cf bucket sp s st who base_id file_name content_type data uuid =
    (case bindE (knowledge_merchant who ''knowledge:ingest'') (\<lambda>m.
        bindE (owned_base s base_id m) (\<lambda>b.
        require (data \<noteq> []) (AppError (Common ValidationError))
        (bindE (chunk_texts data content_type) (\<lambda>texts.
         bindE (build_object_key (ss_env cf) ''knowledge'' file_name (Some (int_text m)) (Some uuid)) (\<lambda>key.
         bindE (sp_put sp st bucket key data (Some content_type)) (\<lambda>(stored, st').
         ok (m, b, texts, so_object_key stored, st'))))))) of
       Inl e \<Rightarrow> (Inl e, s, st)
     | Inr (m, b, texts, key, st') \<Rightarrow>
        let d = document_draft s m (kb_id b) who file_name content_type data (ss_sha256 cf data) key (length texts) in
        if list_ex (\<lambda>r. kd_object_key r = key) (documents s)
        then (raise (IntegrityError ''knowledge_documents''), s, st')
        else (ok d, s\<lparr>documents := documents s @ [d],
          chunks := chunks s @ chunk_rows (fresh_id kc_id (chunks s)) (kd_id d) (kd_checksum d) texts\<rparr>, st'))"

definition put_document :: "knowledge_document \<Rightarrow> 'a library_scheme \<Rightarrow> 'a library_scheme" where
  "put_document d s = s\<lparr>documents := put_row kd_id d (documents s)\<rparr>"

definition document_transition ::
  "store_settings \<Rightarrow> (string \<Rightarrow> string result) \<Rightarrow> 'a library_scheme \<Rightarrow> principal \<Rightarrow> int \<Rightarrow> document_status \<Rightarrow>
   (knowledge_document \<times> 'a library_scheme) result" where
  "document_transition cf stored s who document_id status =
    bindE (knowledge_merchant who ''knowledge:write'') (\<lambda>m.
    case get_document s document_id m of
      None \<Rightarrow> app_raise (Knowledge DocumentNotFoundError)
    | Some d \<Rightarrow>
       require (kd_status d \<noteq> Doc_ARCHIVED) (AppError (Knowledge DocumentStateInvalidError))
       (if status = Doc_ARCHIVED
        then (let d' = d\<lparr>kd_status := Doc_ARCHIVED\<rparr> in ok (d', put_document d' s))
        else if status = Doc_PROCESSING
        then bindE (stored (kd_object_key d)) (\<lambda>data.
          require (ss_sha256 cf data = kd_checksum d) (AppError (Common ValidationError))
          (bindE (chunk_texts data (kd_content_type d)) (\<lambda>texts.
           let d' = d\<lparr>kd_chunk_count := length texts, kd_status := Doc_READY, kd_error_message := None,
                 kd_processed_at := Some (db_now s)\<rparr>
           in ok (d', (put_document d' s)\<lparr>chunks := filter (\<lambda>c. kc_document_id c \<noteq> kd_id d) (chunks s) @
                chunk_rows (fresh_id kc_id (chunks s)) (kd_id d) (kd_checksum d) texts\<rparr>))))
        else app_raise (Knowledge DocumentStateInvalidError)))"

end
