(* ===== verification/Knowledge_Properties.thy ===== *)
theory Knowledge_Properties
  imports Knowledge Catalog_Properties
begin

text \<open>
  What retrieval promises: the chunks overlap enough that a short query that occurs in a document is
  found in it.
\<close>

section \<open>Chunks\<close>

lemma slice_covers:
  assumes "0 < l" and "l \<le> 101" and "i + l \<le> length gs"
  obtains t pre post where "t \<in> set (slices gs)" "t = pre @ concat (take l (drop i gs)) @ post"
proof -
  define k where "k = i div 900"
  have k: "900 * k \<le> i" "i < 900 * k + 900" by (auto simp: k_def)
  have "900 * k < length gs" using k assms by linarith
  then have "900 * Suc k div 900 \<le> (length gs + 899) div 900" by (intro div_le_mono) simp
  then have "k < (length gs + 899) div 900" by simp
  then have member: "concat (take 1000 (drop (900 * k) gs)) \<in> set (slices gs)" by (auto simp: slices_def)
  let ?w = "take 1000 (drop (900 * k) gs)" and ?j = "i - 900 * k"
  have part: "take l (drop ?j ?w) = take l (drop i gs)"
    using k assms by (simp add: drop_take min_def)
  have "?w = take ?j ?w @ take l (drop ?j ?w) @ drop l (drop ?j ?w)"
    by (simp only: append_take_drop_id)
  then have "?w = take ?j ?w @ take l (drop i gs) @ drop l (drop ?j ?w)" by (simp only: part)
  then have "concat ?w = concat (take ?j ?w) @ concat (take l (drop i gs)) @ concat (drop l (drop ?j ?w))"
    by (metis concat_append)
  with member show ?thesis by (rule that)
qed

lemma chunk_row_texts:
  assumes "t \<in> set ts"
  obtains c where "c \<in> set (chunk_rows first i checksum ts)" "kc_text c = t" "kc_document_id c = i"
proof -
  have "map kc_text (chunk_rows first i checksum ts) = ts"
    by (simp add: chunk_rows_def comp_def case_prod_unfold)
  then have "t \<in> kc_text ` set (chunk_rows first i checksum ts)" using assms by (metis set_map)
  moreover have "\<forall>c \<in> set (chunk_rows first i checksum ts). kc_document_id c = i" by (auto simp: chunk_rows_def)
  ultimately show ?thesis using that by blast
qed

section \<open>Uploads\<close>

lemma upload_ok:
  assumes "knowledge_upload cf bucket sp s st who base_id file_name content_type data uuid = (ok d, s', st')"
  obtains m texts where "p_merchant_id who = Some m" "chunk_texts data content_type = ok texts"
    and "kd_base_id d = base_id" "kd_merchant_id d = m" "kd_status d = Doc_READY"
    and "documents s' = documents s @ [d]"
    and "chunks s' = chunks s @ chunk_rows (fresh_id kc_id (chunks s)) (kd_id d) (kd_checksum d) texts"
proof -
  show ?thesis
    using assms
    by (auto simp: knowledge_upload_def rsimps knowledge_merchant_def owned_base_def get_base_def Let_def
        document_draft_def split: sum.splits if_splits option.splits prod.splits dest!: find_SomeD intro!: that)
qed

text \<open>
  A query of at most 101 characters that occurs in an uploaded document finds it: whatever the match
  of the database finds besides substrings, one of the document's chunks is among the rows of the search
  in its base, for its merchant, right after the upload.
\<close>

theorem short_queries_found:
  assumes "knowledge_upload cf bucket sp s st who base_id file_name content_type data uuid = (ok d, s', st')"
    and "text_content data = Some gs" and "0 < l" and "l \<le> 101" and "i + l \<le> length gs"
    and "query = concat (take l (drop i gs))" and "\<And>pre post. contains query (pre @ query @ post)"
  shows "\<exists>c. (c, d) \<in> set (matching_chunks contains s' base_id (the (p_merchant_id who)) query) \<and>
    kc_document_id c = kd_id d"
proof -
  obtain m texts where u: "p_merchant_id who = Some m" "chunk_texts data content_type = ok texts"
      "kd_base_id d = base_id" "kd_merchant_id d = m" "kd_status d = Doc_READY"
      "documents s' = documents s @ [d]"
      "chunks s' = chunks s @ chunk_rows (fresh_id kc_id (chunks s)) (kd_id d) (kd_checksum d) texts"
    by (rule upload_ok [OF assms(1)])
  have "texts = slices gs" using u(2) assms(2) by (auto simp: chunk_texts_def rsimps)
  then obtain t where t: "t \<in> set texts" "contains query t"
    using slice_covers [OF assms(3-5)] assms(6,7) by metis
  obtain c where c: "c \<in> set (chunk_rows (fresh_id kc_id (chunks s)) (kd_id d) (kd_checksum d) texts)"
      "kc_text c = t" "kc_document_id c = kd_id d"
    by (rule chunk_row_texts [OF t(1)])
  have "c \<in> set (chunks s')" "d \<in> set (documents s')" by (simp_all add: u(6,7) c(1))
  then have "(c, d) \<in> set (matching_chunks contains s' base_id m query)"
    using t(2) c(2,3) u(3-5) by (auto simp: matching_chunks_def)
  with c(3) u(1) show ?thesis by auto
qed

section \<open>Witness\<close>

definition sample_library :: library where
  "sample_library = shop.extend sample_shop
    \<lparr>categories = [], brands = [], promotion_products = [], pending_actions = [],
     bases = [\<lparr>kb_id = 4, kb_merchant_id = 1, kb_name = ''Care'', kb_description = None,
       kb_embedding_model = ''none'', kb_created_at = 0\<rparr>], documents = [], chunks = []\<rparr>"

definition sample_librarian :: principal where
  "sample_librarian = \<lparr>p_user_id = 2, p_merchant_id = Some 1, p_permissions = {''knowledge:ingest''},
    p_data_scope = Scope_MERCHANT, p_is_staff = True\<rparr>"

lemma sample_document_key:
  "build_object_key picture_env ''knowledge'' ''a.txt'' (Some (int_text 1)) (Some ''aa'') =
    ok ''knowledge/1/aa_a.txt''"
proof -
  have "unquote ''knowledge'' = ''knowledge''" by (simp add: decode_name)
  then have "(unquote ^^ 6) ''knowledge'' = ''knowledge''" by (simp add: eval_nat_numeral)
  then have "validate_object_key ''knowledge'' = ok ''knowledge''"
    by (subst validate_decoded) (assumption, code_simp)
  moreover have "sanitise_filename picture_env ''a.txt'' ''upload'' = ''a.txt''"
    "sanitise_filename picture_env ''aa'' ''v'' = ''aa''" "int_text 1 = ''1''" by code_simp+
  then have "uploaded_key picture_env ''knowledge'' 1 ''aa'' ''a.txt'' = ''knowledge/1/aa_a.txt''"
    by (simp add: uploaded_key_def)
  moreover have "char_count ''knowledge/1/aa_a.txt'' \<le> max_key_length" by code_simp
  ultimately show ?thesis by (simp add: built_key)
qed

lemma sample_content: "text_content ''hot tea '' = Some [''h'', ''o'', ''t'', '' '', ''t'', ''e'', ''a'']"
proof -
  have "utf8_replace ''hot tea '' = ''hot tea ''" by (rule utf8_replace_ascii) code_simp
  moreover have "\<not> prefix byte_order_mark ''hot tea ''"
    "strip_glyphs (glyphs ''hot tea '') = [''h'', ''o'', ''t'', '' '', ''t'', ''e'', ''a'']" by code_simp+
  ultimately show ?thesis by (simp add: text_content_def)
qed

lemma sample_upload:
  "\<exists>d s' st. knowledge_upload picture_store ''docs'' \<lparr>sp_put = \<lambda>st b k data t. ok (\<lparr>so_object_key = k, so_bucket = b,
      so_checksum = data, so_content_type = ''text/plain'', so_size = int (length data), so_etag = None\<rparr>, st),
      sp_delete = \<lambda>st b k. ok st\<rparr> sample_library () sample_librarian 4 ''a.txt'' ''text/plain'' ''hot tea '' ''aa'' = (ok d, s', st)"
proof -
  have "strip_text (hd (split_on (CHR '';'') ''text/plain'')) = ''text/plain''" by code_simp
  then have "chunk_texts ''hot tea '' ''text/plain'' = ok (slices [''h'', ''o'', ''t'', '' '', ''t'', ''e'', ''a''])"
    by (simp add: chunk_texts_def sample_content require_def)
  moreover have "knowledge_merchant sample_librarian ''knowledge:ingest'' = ok 1" by code_simp
  moreover have "owned_base sample_library 4 1 = ok (hd (bases sample_library))" "documents sample_library = []"
    by code_simp+
  moreover have "ss_env picture_store = picture_env" by (simp add: picture_store_def)
  ultimately show ?thesis
    by (simp add: knowledge_upload_def sample_document_key require_def Let_def)
qed

theorem short_queries_found_witness:
  "\<exists>(s' :: library) c d. (c, d) \<in> set (matching_chunks sublist s' 4 1 ''tea'') \<and> kd_file_name d = clip 255 ''a.txt''"
proof -
  obtain d s' st where u: "knowledge_upload picture_store ''docs'' \<lparr>sp_put = \<lambda>st b k data t. ok (\<lparr>so_object_key = k,
      so_bucket = b, so_checksum = data, so_content_type = ''text/plain'', so_size = int (length data),
      so_etag = None\<rparr>, st), sp_delete = \<lambda>st b k. ok st\<rparr> sample_library () sample_librarian 4 ''a.txt'' ''text/plain''
      ''hot tea '' ''aa'' = (ok d, s', st)"
    using sample_upload by blast
  have "sublist ''tea'' (pre @ ''tea'' @ post)" for pre post :: string by (auto simp: sublist_def)
  from short_queries_found [OF u sample_content, of 3 4 "''tea''" sublist, OF _ _ _ _ this]
  obtain c where "(c, d) \<in> set (matching_chunks sublist s' 4 1 ''tea'')"
    by (auto simp: sample_librarian_def)
  moreover have "kd_file_name d = clip 255 ''a.txt''"
    using u by (auto simp: knowledge_upload_def Let_def document_draft_def split: sum.splits if_splits)
  ultimately show ?thesis by blast
qed

end
