(* ===== verification/Knowledge_Evaluation.thy ===== *)
theory Knowledge_Evaluation
  imports Complex_Main Knowledge Shop_Sample
begin

text \<open>
  \<open>KnowledgeService.run_evaluation\<close> and \<open>evaluations\<close>: the four scores of a retrieval over labelled
  queries. A Python float is the real number it stands for: its rounding is not modelled.
\<close>

section \<open>Requests and rows\<close>

record evaluation_sample =
  es_query :: string
  es_relevant_chunk_ids :: "int set"

record evaluation_scores =
  sc_recall_at_k :: real
  sc_precision_at_k :: real
  sc_mrr :: real
  sc_ndcg :: real

record evaluation_row =
  kv_id :: int
  kv_base_id :: int
  kv_dataset_name :: string
  kv_sample_count :: nat
  kv_metrics :: evaluation_scores
  kv_top_k :: nat
  kv_samples :: "(string \<times> int list \<times> int list) list"
  kv_created_at :: int

record evaluated_library = library +
  evaluations :: "evaluation_row list"

text \<open>What the schema of the request lets through.\<close>

definition evaluation_request_valid :: "nat \<Rightarrow> evaluation_sample list \<Rightarrow> bool" where
  "evaluation_request_valid top_k samples \<longleftrightarrow> 1 \<le> top_k \<and> top_k \<le> 20 \<and> samples \<noteq> [] \<and> length samples \<le> 500 \<and>
    list_all (\<lambda>x. es_query x \<noteq> [] \<and> 1 \<le> card (es_relevant_chunk_ids x) \<and> card (es_relevant_chunk_ids x) \<le> 100) samples"

section \<open>Scores\<close>

text \<open>The ranks, from one on, at which a relevant chunk was retrieved.\<close>

definition ranks_from :: "nat \<Rightarrow> int set \<Rightarrow> int list \<Rightarrow> nat list" where
  "ranks_from first relevant retrieved =
    map fst (filter (\<lambda>(k, c). c \<in> relevant) (zip [first..<first + length retrieved] retrieved))"

definition gain :: "nat \<Rightarrow> real" where
  "gain r = 1 / log 2 (real r + 1)"

definition sample_scores :: "nat \<Rightarrow> int set \<Rightarrow> int list \<Rightarrow> evaluation_scores" where
  "sample_scores top_k relevant retrieved =
    (let ranks = ranks_from 1 relevant retrieved;
         ideal = sum_list (map gain [1..<Suc (min top_k (card relevant))])
     in \<lparr>sc_recall_at_k = real (length ranks) / real (card relevant),
         sc_precision_at_k = real (length ranks) / real top_k,
         sc_mrr = (case ranks of [] \<Rightarrow> 0 | r # rs \<Rightarrow> 1 / real r),
         sc_ndcg = sum_list (map gain ranks) / ideal\<rparr>)"

definition mean :: "('a \<Rightarrow> real) \<Rightarrow> 'a list \<Rightarrow> real" where
  "mean f xs = sum_list (map f xs) / real (length xs)"

definition mean_scores :: "evaluation_scores list \<Rightarrow> evaluation_scores" where
  "mean_scores xs = \<lparr>sc_recall_at_k = mean sc_recall_at_k xs, sc_precision_at_k = mean sc_precision_at_k xs,
    sc_mrr = mean sc_mrr xs, sc_ndcg = mean sc_ndcg xs\<rparr>"

section \<open>Operations\<close>

definition ready_chunk_ids :: "'a library_scheme \<Rightarrow> int \<Rightarrow> int \<Rightarrow> int set" where
  "ready_chunk_ids s base_id m =
    kc_id ` set (filter (\<lambda>c. list_ex (\<lambda>d. kd_id d = kc_document_id c \<and> kd_base_id d = base_id \<and>
      kd_merchant_id d = m \<and> kd_status d = Doc_READY) (documents s)) (chunks s))"

definition retrieved_ids ::
  "(string \<Rightarrow> string \<Rightarrow> bool) \<Rightarrow> 'a library_scheme \<Rightarrow> int \<Rightarrow> int \<Rightarrow> nat \<Rightarrow> string \<Rightarrow> int list" where
  "retrieved_ids contains s base_id m top_k query =
    map (\<lambda>(c, d). kc_id c) (search_chunks contains s base_id m query top_k)"

text \<open>The samples are scored in turn; the first with a label outside the ready chunks refuses the request.\<close>

definition run_evaluation ::
  "(string \<Rightarrow> string \<Rightarrow> bool) \<Rightarrow> 'a evaluated_library_scheme \<Rightarrow> principal \<Rightarrow> int \<Rightarrow> string \<Rightarrow> nat \<Rightarrow>
   evaluation_sample list \<Rightarrow> (evaluation_row \<times> 'a evaluated_library_scheme) result" where
  "run_evaluation contains s who base_id dataset_name top_k samples =
    bindE (knowledge_merchant who ''knowledge:write'') (\<lambda>m.
    bindE (require_permission who ''knowledge:read'') (\<lambda>_.
    bindE (owned_base s base_id m) (\<lambda>_.
    require (list_all (\<lambda>x. es_relevant_chunk_ids x \<subseteq> ready_chunk_ids s base_id m) samples)
      (AppError (Common ValidationError))
    (let found = map (\<lambda>x. (x, retrieved_ids contains s base_id m top_k (es_query x))) samples;
         row = \<lparr>kv_id = fresh_id kv_id (evaluations s), kv_base_id = base_id, kv_dataset_name = dataset_name,
           kv_sample_count = length samples,
           kv_metrics = mean_scores (map (\<lambda>(x, ids). sample_scores top_k (es_relevant_chunk_ids x) ids) found),
           kv_top_k = top_k,
           kv_samples = map (\<lambda>(x, ids). (es_query x, sorted_list_of_set (es_relevant_chunk_ids x), ids)) found,
           kv_created_at = db_now s\<rparr>
     in ok (row, s\<lparr>evaluations := evaluations s @ [row]\<rparr>)))))"

definition list_evaluations :: "'a evaluated_library_scheme \<Rightarrow> principal \<Rightarrow> int \<Rightarrow> evaluation_row list result" where
  "list_evaluations s who base_id =
    bindE (knowledge_merchant who ''knowledge:read'') (\<lambda>m.
    bindE (owned_base s base_id m) (\<lambda>_.
    ok (take 100 (sort_key (\<lambda>r. - kv_id r) (filter (\<lambda>r. kv_base_id r = base_id) (evaluations s))))))"

section \<open>Ranks\<close>

lemma ranks_from_Nil [simp]: "ranks_from k R [] = []"
  by (simp add: ranks_from_def)

lemma ranks_from_Cons [simp]:
  "ranks_from k R (c # cs) = (if c \<in> R then [k] else []) @ ranks_from (Suc k) R cs"
  by (simp add: ranks_from_def upt_conv_Cons del: upt_Suc)

lemma ranks_length: "distinct ids \<Longrightarrow> length (ranks_from k R ids) = card (R \<inter> set ids)"
proof (induction ids arbitrary: k)
  case (Cons c cs)
  then show ?case by (cases "c \<in> R") (auto simp: Int_insert_right)
qed simp

lemma ranks_positive: "r \<in> set (ranks_from k R ids) \<Longrightarrow> k \<le> r"
  by (induction ids arbitrary: k) (auto split: if_splits dest: Suc_leD)

lemma ranks_bounded: "length (ranks_from k R ids) \<le> length ids"
  by (induction ids arbitrary: k) (auto simp: le_SucI)

lemma gain_positive: "1 \<le> r \<Longrightarrow> 0 < gain r"
  by (simp add: gain_def)

lemma gain_antitone: "1 \<le> r \<Longrightarrow> r \<le> q \<Longrightarrow> gain q \<le> gain r"
  by (auto simp: gain_def intro!: divide_left_mono mult_pos_pos)

lemma shift_gain:
  "1 \<le> k \<Longrightarrow> sum_list (map gain [Suc k..<Suc k + n]) \<le> sum_list (map gain [k..<k + n])"
proof (induction n)
  case (Suc n)
  then show ?case using gain_antitone [of "k + n" "Suc (k + n)"] by (cases n) auto
qed simp

lemma ranks_gain:
  "1 \<le> k \<Longrightarrow> sum_list (map gain (ranks_from k R ids)) \<le> sum_list (map gain [k..<k + length (ranks_from k R ids)])"
proof (induction ids arbitrary: k)
  case (Cons c cs)
  let ?n = "length (ranks_from (Suc k) R cs)"
  have tail: "sum_list (map gain (ranks_from (Suc k) R cs)) \<le> sum_list (map gain [Suc k..<Suc k + ?n])"
    by (rule Cons.IH) simp
  show ?case
  proof (cases "c \<in> R")
    case True
    with tail show ?thesis by (simp add: upt_conv_Cons del: upt_Suc)
  next
    case False
    with tail shift_gain [OF Cons.prems, of ?n] show ?thesis by (simp del: upt_Suc)
  qed
qed simp

lemma gains_mono: "n \<le> m \<Longrightarrow> sum_list (map gain [1..<Suc n]) \<le> sum_list (map gain [1..<Suc m])"
proof (induction rule: dec_induct)
  case (step i)
  then show ?case using gain_positive [of "Suc i"] by simp
qed simp

section \<open>Bounds\<close>

definition unit_interval :: "real \<Rightarrow> bool" where
  "unit_interval x \<longleftrightarrow> 0 \<le> x \<and> x \<le> 1"

lemma mean_bounded: "xs \<noteq> [] \<Longrightarrow> \<forall>x \<in> set xs. unit_interval (f x) \<Longrightarrow> unit_interval (mean f xs)"
proof -
  assume xs: "xs \<noteq> []" and each: "\<forall>x \<in> set xs. unit_interval (f x)"
  have "0 \<le> sum_list (map f xs) \<and> sum_list (map f xs) \<le> real (length xs)"
    using each by (induction xs) (auto simp: unit_interval_def)
  with xs show ?thesis by (simp add: mean_def unit_interval_def divide_le_eq)
qed

lemma mean_full:
  assumes "xs \<noteq> []" and "\<forall>x \<in> set xs. f x \<le> 1"
  shows "mean f xs = 1 \<longleftrightarrow> (\<forall>x \<in> set xs. f x = 1)"
proof -
  have "sum_list (map f xs) \<le> real (length xs) \<and> (sum_list (map f xs) = real (length xs) \<longleftrightarrow> (\<forall>x \<in> set xs. f x = 1))"
    using assms(2)
  proof (induction xs)
    case (Cons x xs)
    then have x: "f x \<le> 1" and rest: "sum_list (map f xs) \<le> real (length xs)"
        "sum_list (map f xs) = real (length xs) \<longleftrightarrow> (\<forall>x \<in> set xs. f x = 1)"
      by auto
    have "f x + sum_list (map f xs) = 1 + real (length xs) \<longleftrightarrow>
        f x = 1 \<and> sum_list (map f xs) = real (length xs)"
      using x rest(1) by linarith
    then show ?case using x rest by simp
  qed simp
  with assms(1) show ?thesis by (auto simp: mean_def)
qed

lemma scores_bounded:
  assumes "distinct ids" and "length ids \<le> k" and "1 \<le> k" and "1 \<le> card R"
  shows "unit_interval (sc_recall_at_k (sample_scores k R ids))" "unit_interval (sc_precision_at_k (sample_scores k R ids))"
    "unit_interval (sc_mrr (sample_scores k R ids))" "unit_interval (sc_ndcg (sample_scores k R ids))"
    "sc_recall_at_k (sample_scores k R ids) = 1 \<longleftrightarrow> R \<subseteq> set ids"
proof -
  let ?ranks = "ranks_from 1 R ids" and ?m = "min k (card R)"
  have fin: "finite R" using assms(4) by (intro card_ge_0_finite) simp
  have n: "length ?ranks = card (R \<inter> set ids)" by (rule ranks_length) (rule assms(1))
  then have few: "length ?ranks \<le> card R" using fin by (simp add: card_mono)
  then have some: "length ?ranks \<le> ?m" using ranks_bounded [of 1 R ids] assms(2) by simp
  show "unit_interval (sc_recall_at_k (sample_scores k R ids))" "unit_interval (sc_precision_at_k (sample_scores k R ids))"
    using few some assms(3,4) by (simp_all add: sample_scores_def unit_interval_def Let_def divide_le_eq)
  have "1 \<le> r" if "r \<in> set ?ranks" for r using ranks_positive [OF that] .
  then show "unit_interval (sc_mrr (sample_scores k R ids))"
    by (auto simp: sample_scores_def unit_interval_def Let_def divide_le_eq split: list.split)
  have "sum_list (map gain ?ranks) \<le> sum_list (map gain [1..<Suc ?m])"
    using ranks_gain [of 1 R ids] gains_mono [OF some] by simp
  moreover have "0 \<le> sum_list (map gain ?ranks)"
    by (intro sum_list_nonneg) (auto simp: gain_def)
  moreover have "gain 1 \<le> sum_list (map gain [1..<Suc ?m])"
    using gains_mono [of 1 ?m] assms(3,4) by simp
  ultimately show "unit_interval (sc_ndcg (sample_scores k R ids))"
    using gain_positive [of 1] by (simp add: sample_scores_def unit_interval_def Let_def divide_le_eq)
  have "card (R \<inter> set ids) = card R \<longleftrightarrow> R \<inter> set ids = R"
    using fin by (metis card_subset_eq inf_le1)
  then show "sc_recall_at_k (sample_scores k R ids) = 1 \<longleftrightarrow> R \<subseteq> set ids"
    using assms(4) by (auto simp: sample_scores_def Let_def n [simplified])
qed

section \<open>What a query retrieves\<close>

lemma one_document: "distinct (map kd_id ds) \<Longrightarrow> length (filter (\<lambda>d. kd_id d = i \<and> P d) ds) \<le> 1"
proof (induction ds)
  case (Cons d ds)
  then have "filter (\<lambda>e. kd_id e = i \<and> P e) ds = []" if "kd_id d = i"
    using that by (auto simp: filter_empty_conv image_iff)
  with Cons show ?case by auto
qed simp

lemma paired_distinct:
  assumes "distinct (map f cs)" and "\<And>c. length (g c) \<le> 1"
  shows "distinct (map (f \<circ> fst) (concat (map (\<lambda>c. map (Pair c) (g c)) cs)))"
  using assms(1)
proof (induction cs)
  case (Cons c cs)
  have "g c = [] \<or> (\<exists>d. g c = [d])" using assms(2) [of c] by (cases "g c") auto
  with Cons show ?case by (auto simp: image_iff)
qed simp

lemma retrieved_distinct:
  assumes "distinct (map kc_id (chunks s))" and "distinct (map kd_id (documents s))"
  shows "distinct (retrieved_ids contains s base_id m k query)" "length (retrieved_ids contains s base_id m k query) \<le> k"
proof -
  have "distinct (map kc_id (sort_key kc_id (filter (\<lambda>c. contains query (kc_text c)) (chunks s))))"
    using assms(1) by (simp add: distinct_map inj_on_def)
  from paired_distinct [OF this one_document [OF assms(2)]]
  have "distinct (map (kc_id \<circ> fst) (matching_chunks contains s base_id m query))"
    by (simp add: matching_chunks_def)
  then show "distinct (retrieved_ids contains s base_id m k query)"
    by (simp add: retrieved_ids_def search_chunks_def case_prod_unfold comp_def flip: take_map)
  show "length (retrieved_ids contains s base_id m k query) \<le> k"
    by (simp add: retrieved_ids_def search_chunks_def)
qed

lemma run_evaluation_ok:
  assumes "run_evaluation contains s who base_id name top_k samples = ok (row, s')"
  obtains m where "\<forall>x \<in> set samples. es_relevant_chunk_ids x \<subseteq> ready_chunk_ids s base_id m"
    and "kv_metrics row = mean_scores (map (\<lambda>x. sample_scores top_k (es_relevant_chunk_ids x)
      (retrieved_ids contains s base_id m top_k (es_query x))) samples)"
    and "kv_samples row = map (\<lambda>x. (es_query x, sorted_list_of_set (es_relevant_chunk_ids x),
      retrieved_ids contains s base_id m top_k (es_query x))) samples"
    and "s' = s\<lparr>evaluations := evaluations s @ [row]\<rparr>"
  using assms by (auto simp: run_evaluation_def rsimps Let_def comp_def list_all_iff)

text \<open>
  C39: The four scores of an evaluation that was stored lie between zero and one, whatever substring match
  the database uses; and the recall is one exactly when every labelled chunk of every sample is among the
  chunks that the row records as retrieved for its query. The ids of chunks and documents are keys.
\<close>

theorem evaluation_scores_bounded:
  assumes "run_evaluation contains s who base_id name top_k samples = ok (row, s')"
    and "evaluation_request_valid top_k samples"
    and "distinct (map kc_id (chunks s))" and "distinct (map kd_id (documents s))"
  shows "0 \<le> sc_recall_at_k (kv_metrics row) \<and> sc_recall_at_k (kv_metrics row) \<le> 1 \<and>
    0 \<le> sc_precision_at_k (kv_metrics row) \<and> sc_precision_at_k (kv_metrics row) \<le> 1 \<and>
    0 \<le> sc_mrr (kv_metrics row) \<and> sc_mrr (kv_metrics row) \<le> 1 \<and>
    0 \<le> sc_ndcg (kv_metrics row) \<and> sc_ndcg (kv_metrics row) \<le> 1 \<and>
    (sc_recall_at_k (kv_metrics row) = 1 \<longleftrightarrow>
      list_all (\<lambda>(query, relevant, retrieved). set relevant \<subseteq> set retrieved) (kv_samples row)) \<and>
    s' = s\<lparr>evaluations := evaluations s @ [row]\<rparr>"
proof -
  obtain m where metrics: "kv_metrics row = mean_scores (map (\<lambda>x. sample_scores top_k (es_relevant_chunk_ids x)
      (retrieved_ids contains s base_id m top_k (es_query x))) samples)" (is "_ = mean_scores (map ?f samples)")
    and stored: "kv_samples row = map (\<lambda>x. (es_query x, sorted_list_of_set (es_relevant_chunk_ids x),
      retrieved_ids contains s base_id m top_k (es_query x))) samples"
    and s': "s' = s\<lparr>evaluations := evaluations s @ [row]\<rparr>"
    by (rule run_evaluation_ok [OF assms(1)])
  have valid: "samples \<noteq> []" "1 \<le> top_k" "\<And>x. x \<in> set samples \<Longrightarrow> 1 \<le> card (es_relevant_chunk_ids x)"
    using assms(2) by (auto simp: evaluation_request_valid_def list_all_iff)
  note each = scores_bounded [OF retrieved_distinct [OF assms(3,4)] valid(2,3)]
  have "unit_interval (mean sc_recall_at_k (map ?f samples))" "unit_interval (mean sc_precision_at_k (map ?f samples))"
    "unit_interval (mean sc_mrr (map ?f samples))" "unit_interval (mean sc_ndcg (map ?f samples))"
    using valid(1) each(1-4) by (auto intro!: mean_bounded)
  moreover have "mean sc_recall_at_k (map ?f samples) = 1 \<longleftrightarrow> (\<forall>y \<in> set (map ?f samples). sc_recall_at_k y = 1)"
    using valid(1) each(1) by (intro mean_full) (auto simp: unit_interval_def)
  then have "mean sc_recall_at_k (map ?f samples) = 1 \<longleftrightarrow> (\<forall>x \<in> set samples. es_relevant_chunk_ids x \<subseteq>
      set (retrieved_ids contains s base_id m top_k (es_query x)))"
    using each(5) by simp
  moreover have "finite (es_relevant_chunk_ids x)" if "x \<in> set samples" for x
    using valid(3) [OF that] by (intro card_ge_0_finite) simp
  then have "list_all (\<lambda>(query, relevant, retrieved). set relevant \<subseteq> set retrieved) (kv_samples row) \<longleftrightarrow>
      (\<forall>x \<in> set samples. es_relevant_chunk_ids x \<subseteq> set (retrieved_ids contains s base_id m top_k (es_query x)))"
    by (auto simp: stored list_all_iff)
  ultimately show ?thesis
    using s' by (simp add: metrics mean_scores_def unit_interval_def)
qed

text \<open>One query, whose only labelled chunk is found.\<close>

definition scored_library :: evaluated_library where
  "scored_library = shop.extend sample_shop
    \<lparr>categories = [], brands = [], promotion_products = [], pending_actions = [],
     bases = [\<lparr>kb_id = 4, kb_merchant_id = 1, kb_name = ''Care'', kb_description = None,
       kb_embedding_model = ''none'', kb_created_at = 0\<rparr>],
     documents = [\<lparr>kd_id = 1, kd_merchant_id = 1, kd_base_id = 4, kd_file_name = ''a.txt'', kd_object_key = ''k'',
       kd_content_type = ''text/plain'', kd_size_bytes = 3, kd_checksum = ''c'', kd_status = Doc_READY,
       kd_chunk_count = 2, kd_error_message = None, kd_uploaded_by = 2, kd_processed_at = Some 0, kd_created_at = 0\<rparr>],
     chunks = chunk_rows 1 1 ''c'' [''pot'', ''tea''], evaluations = []\<rparr>"

definition sample_scorer :: principal where
  "sample_scorer = \<lparr>p_user_id = 2, p_merchant_id = Some 1, p_permissions = {''knowledge:read'', ''knowledge:write''},
    p_data_scope = Scope_MERCHANT, p_is_staff = True\<rparr>"

theorem evaluation_scores_bounded_witness:
  "\<exists>row s'. run_evaluation (=) scored_library sample_scorer 4 ''daily'' 5
      [\<lparr>es_query = ''tea'', es_relevant_chunk_ids = {2}\<rparr>] = ok (row, s') \<and>
    sc_recall_at_k (kv_metrics row) = 1 \<and> sc_ndcg (kv_metrics row) \<le> 1 \<and> evaluations s' = [row]"
proof -
  let ?run = "run_evaluation (=) scored_library sample_scorer 4 ''daily'' 5 [\<lparr>es_query = ''tea'', es_relevant_chunk_ids = {2}\<rparr>]"
  have may: "knowledge_merchant sample_scorer ''knowledge:write'' = ok 1" "require_permission sample_scorer ''knowledge:read'' = ok ()"
    "owned_base scored_library 4 1 = ok (hd (bases scored_library))" by code_simp+
  have found: "ready_chunk_ids scored_library 4 1 = {1, 2}" "retrieved_ids (=) scored_library 4 1 5 ''tea'' = [2]"
    by code_simp+
  obtain row s' where run: "?run = ok (row, s')" and rows: "kv_samples row = [(''tea'', [2], [2])]"
    by (simp add: run_evaluation_def may found require_def Let_def)
  have keys: "distinct (map kc_id (chunks scored_library))" "distinct (map kd_id (documents scored_library))"
    "evaluations scored_library = []" by code_simp+
  have "evaluation_request_valid 5 [\<lparr>es_query = ''tea'', es_relevant_chunk_ids = {2}\<rparr>]"
    by (simp add: evaluation_request_valid_def)
  from evaluation_scores_bounded [OF run this keys(1,2)] rows keys(3) run show ?thesis by auto
qed

end
