(* ===== verification/Mcp_Tools.thy ===== *)
theory Mcp_Tools
  imports Mcp_Policy Analytics Knowledge Fulfillment After_Sale_Service
begin

text \<open>
  \<open>app/mcp/tools.py\<close>: what each tool does with the services for the caller of a verified token. The
  arguments arrive parsed; the scrubbing of free text and the two substring matches of the database are
  functions of \<open>tool_env\<close>.
\<close>

section \<open>Environment and arguments\<close>

record tool_env =
  te_preview :: preview_env
  te_scrub :: "string \<Rightarrow> string"
  te_contains :: "string \<Rightarrow> string \<Rightarrow> bool"
  te_times :: stock_times
  te_nonce :: string
  te_proposal_ttl_seconds :: int

record order_query =
  oq_order_status :: "string option"
  oq_payment_status :: "string option"
  oq_fulfillment_status :: "string option"
  oq_order_no :: "string option"
  oq_page :: nat
  oq_page_size :: nat

record window_query =
  wq_from_day :: string
  wq_to_day :: string
  wq_granularity :: string

text \<open>A draft is \<open>None\<close> when its fields do not even have the types of the promotion's own schema.\<close>

datatype tool_args =
    Args_product_search "string option" "string option" nat nat
  | Args_product_get int
  | Args_sku_get "int option" "string option" "int option"
  | Args_order_get string
  | Args_order_search order_query
  | Args_fulfillment_get string
  | Args_after_sale_get string
  | Args_inventory_get bool nat
  | Args_analytics_sales string window_query
  | Args_analytics_inventory window_query
  | Args_analytics_product_performance window_query
  | Args_analytics_refunds window_query
  | Args_analytics_anomalies window_query
  | Args_knowledge_search string int nat
  | Args_promotion_preview "promotion_draft option"
  | Args_promotion_propose "promotion_draft option" string

fun tool_of :: "tool_args \<Rightarrow> string" where
  "tool_of (Args_product_search k st p n) = ''nova.product.search''"
| "tool_of (Args_product_get i) = ''nova.product.get''"
| "tool_of (Args_sku_get i c p) = ''nova.sku.get''"
| "tool_of (Args_order_get n) = ''nova.order.get''"
| "tool_of (Args_order_search q) = ''nova.order.search''"
| "tool_of (Args_fulfillment_get n) = ''nova.fulfillment.get''"
| "tool_of (Args_after_sale_get n) = ''nova.after_sale.get''"
| "tool_of (Args_inventory_get l n) = ''nova.inventory.get''"
| "tool_of (Args_analytics_sales m w) = ''nova.analytics.sales''"
| "tool_of (Args_analytics_inventory w) = ''nova.analytics.inventory''"
| "tool_of (Args_analytics_product_performance w) = ''nova.analytics.product_performance''"
| "tool_of (Args_analytics_refunds w) = ''nova.analytics.refunds''"
| "tool_of (Args_analytics_anomalies w) = ''nova.analytics.anomalies''"
| "tool_of (Args_knowledge_search q b k) = ''nova.knowledge.search''"
| "tool_of (Args_promotion_preview d) = ''nova.promotion.preview''"
| "tool_of (Args_promotion_propose d t) = ''nova.promotion.propose''"

section \<open>Outputs\<close>

record product_summary_out =
  ps_id :: int
  ps_product_no :: string
  ps_name :: string
  ps_status :: string
  ps_min_price_amount :: int
  ps_max_price_amount :: int
  ps_sales_count :: int
  ps_category_name :: "string option"

record sku_out =
  ko_id :: int
  ko_sku_no :: string
  ko_sku_code :: string
  ko_name :: string
  ko_product_id :: int
  ko_price_amount :: int
  ko_market_price_amount :: int
  ko_status :: string
  ko_attribute_snapshot :: "string option"

record product_get_out = product_summary_out +
  pg_subtitle :: "string option"
  pg_description :: "string option"
  pg_skus :: "sku_out list"

record order_summary_out =
  os_id :: int
  os_order_no :: string
  os_order_status :: order_status
  os_payment_status :: payment_status
  os_fulfillment_status :: fulfillment_status
  os_payable_amount :: int
  os_paid_amount :: int
  os_refunded_amount :: int
  os_item_count :: int
  os_created_at :: int

record order_get_out = order_summary_out +
  og_expires_at :: "int option"
  og_paid_at :: "int option"

record fulfillment_out =
  fo_id :: int
  fo_fulfillment_no :: string
  fo_order_id :: int
  fo_fulfillment_status :: fulfillment_status
  fo_carrier :: "string option"
  fo_tracking_no :: "string option"
  fo_shipped_at :: "int option"

record after_sale_get_out =
  ao_id :: int
  ao_after_sale_no :: string
  ao_order_no :: string
  ao_claim_status :: claim_status
  ao_type :: after_sale_type
  ao_requested_amount :: int
  ao_approved_amount :: int
  ao_refunded_amount :: int
  ao_reason :: string
  ao_created_at :: int

record inventory_position_out =
  io_sku_id :: int
  io_product_id :: int
  io_sku_code :: string
  io_sku_name :: string
  io_warehouse_id :: int
  io_available_qty :: int
  io_locked_qty :: int
  io_safety_stock :: int
  io_below_safety_stock :: bool

record analytics_window_out =
  aw_metric :: string
  aw_unit :: string
  aw_from_day :: string
  aw_to_day :: string
  aw_granularity :: string
  aw_total :: "rat option"
  aw_previous_total :: "rat option"
  aw_series :: "(string \<times> rat option) list"
  aw_dimensions :: "(string \<times> string \<times> string) list"

record anomaly_out =
  an_from_day :: string
  an_to_day :: string
  an_granularity :: string
  an_baseline_days :: int
  an_order_count :: "rat option"
  an_previous_order_count :: "rat option"
  an_refund_rate :: "rat option"
  an_order_count_change_ratio :: "rat option"
  an_anomaly_suspected :: bool

record propose_out =
  pq_pending_action_id :: int
  pq_status :: action_status
  pq_risk_level :: risk_level
  pq_action_type :: string
  pq_approval_required :: bool
  pq_promotion_created :: bool
  pq_expires_at :: int

datatype tool_output =
    Product_search_out nat "product_summary_out list"
  | Product_get_out product_get_out
  | Sku_get_out sku_out
  | Order_get_out order_get_out
  | Order_search_out nat "order_summary_out list"
  | Fulfillment_get_out string "fulfillment_out list"
  | After_sale_get_out after_sale_get_out
  | Inventory_get_out nat nat bool "inventory_position_out list"
  | Analytics_window_out analytics_window_out
  | Anomaly_out anomaly_out
  | Knowledge_search_out string int nat "evidence list"
  | Promotion_preview_out "(int \<times> string) list" promotion_impact bool
  | Promotion_propose_out propose_out

section \<open>Errors\<close>

text \<open>A service's own code leaves with its error; what is no \<open>AppError\<close> crashes the call.\<close>

fun tool_failure :: "exn \<Rightarrow> mcp_failure" where
  "tool_failure (AppError e) = Tool_Error (error_code e)"
| "tool_failure e = Crash e"

definition tool_result :: "'a result \<Rightarrow> mcp_failure + 'a" where
  "tool_result r = (case r of Inl e \<Rightarrow> Inl (tool_failure e) | Inr x \<Rightarrow> Inr x)"

definition tool_fail :: "string \<Rightarrow> mcp_failure + 'a" where
  "tool_fail name = Inl (Tool_Error (code_of name))"

section \<open>Catalogue\<close>

definition product_summary_of :: "'a library_scheme \<Rightarrow> product \<Rightarrow> product_summary_out" where
  "product_summary_of s p =
    \<lparr>ps_id = pd_id p, ps_product_no = pd_no p, ps_name = pd_name p, ps_status = pd_status p,
     ps_min_price_amount = pd_min_price p, ps_max_price_amount = pd_max_price p,
     ps_sales_count = pd_sales_count p,
     ps_category_name = (case pd_category_id p of None \<Rightarrow> None
       | Some c \<Rightarrow> map_option cg_name (find (\<lambda>g. cg_id g = c) (categories s)))\<rparr>"

definition sku_out_of :: "product_sku \<Rightarrow> sku_out" where
  "sku_out_of k =
    \<lparr>ko_id = sk_id k, ko_sku_no = sk_no k, ko_sku_code = sk_code k, ko_name = sk_name k,
     ko_product_id = sk_product_id k, ko_price_amount = sk_price_amount k,
     ko_market_price_amount = sk_market_price_amount k, ko_status = sk_status k,
     ko_attribute_snapshot = sk_attribute_snapshot k\<rparr>"

definition tool_product_search ::
  "tool_env \<Rightarrow> 'a library_scheme \<Rightarrow> principal \<Rightarrow> string option \<Rightarrow> string option \<Rightarrow> nat \<Rightarrow> nat \<Rightarrow> mcp_failure + tool_output" where
  "tool_product_search te s who keyword status page page_size =
    tool_result (bindE (catalog_list_admin (te_contains te) s who page page_size keyword status)
      (\<lambda>(rows, n). ok (Product_search_out n (map (product_summary_of s) rows))))"

definition tool_product_get :: "'a library_scheme \<Rightarrow> principal \<Rightarrow> int \<Rightarrow> mcp_failure + tool_output" where
  "tool_product_get s who product_id =
    tool_result (bindE (catalog_detail s who product_id) (\<lambda>p.
      ok (Product_get_out (product_summary_out.extend (product_summary_of s p)
        \<lparr>pg_subtitle = pd_subtitle p, pg_description = pd_description p,
         pg_skus = map sku_out_of (sort_key sk_sort_order (sort_key sk_id (skus_of s (pd_id p))))\<rparr>))))"

text \<open>Both paths go through the product, whose read checks the merchant.\<close>

definition find_sku_out ::
  "'a library_scheme \<Rightarrow> principal \<Rightarrow> int \<Rightarrow> (product_sku \<Rightarrow> bool) \<Rightarrow> mcp_failure + tool_output" where
  "find_sku_out s who product_id wanted =
    (case catalog_detail s who product_id of
       Inl e \<Rightarrow> Inl (tool_failure e)
     | Inr p \<Rightarrow>
        (case find wanted (skus_of s (pd_id p)) of
           None \<Rightarrow> tool_fail ''SKU_NOT_FOUND''
         | Some k \<Rightarrow> Inr (Sku_get_out (sku_out_of k))))"

definition tool_sku_get ::
  "'a library_scheme \<Rightarrow> principal \<Rightarrow> int option \<Rightarrow> string option \<Rightarrow> int option \<Rightarrow> mcp_failure + tool_output" where
  "tool_sku_get s who sku_id sku_code product_id =
    (if sku_id = None \<and> sku_code = None then tool_fail ''VALIDATION_ERROR''
     else if sku_id \<noteq> None \<and> product_id \<noteq> None then tool_fail ''VALIDATION_ERROR''
     else case (product_id, sku_code, sku_id) of
       (Some p, Some c, _) \<Rightarrow> find_sku_out s who p (\<lambda>k. sk_code k = c)
     | (_, _, Some i) \<Rightarrow>
        (case find (\<lambda>k. sk_id k = i) (skus s) of
           None \<Rightarrow> tool_fail ''SKU_NOT_FOUND''
         | Some k \<Rightarrow> find_sku_out s who (sk_product_id k) (\<lambda>k'. sk_id k' = i))
     | _ \<Rightarrow> tool_fail ''VALIDATION_ERROR'')"

section \<open>Orders, packages, claims\<close>

definition reads_as_staff :: "principal \<Rightarrow> bool" where
  "reads_as_staff who \<longleftrightarrow> p_is_staff who \<and> p_data_scope who \<noteq> Scope_SELF"

definition order_summary_of :: "order \<Rightarrow> order_summary_out" where
  "order_summary_of ord =
    \<lparr>os_id = o_id ord, os_order_no = o_order_no ord, os_order_status = o_order_status ord,
     os_payment_status = o_payment_status ord, os_fulfillment_status = o_fulfillment_status ord,
     os_payable_amount = o_payable_amount ord, os_paid_amount = o_paid_amount ord,
     os_refunded_amount = o_refunded_amount ord, os_item_count = o_item_count ord,
     os_created_at = o_created_at ord\<rparr>"

definition tool_order_get :: "'a library_scheme \<Rightarrow> principal \<Rightarrow> string \<Rightarrow> mcp_failure + tool_output" where
  "tool_order_get s who order_no =
    tool_result (bindE (if reads_as_staff who then get_admin_order s who order_no else get_customer_order s who order_no)
      (\<lambda>ord. ok (Order_get_out (order_summary_out.extend (order_summary_of ord)
        \<lparr>og_expires_at = o_expires_at ord, og_paid_at = o_paid_at ord\<rparr>))))"

definition given :: "string option \<Rightarrow> bool" where
  "given t \<longleftrightarrow> t \<noteq> None \<and> t \<noteq> Some []"

definition tool_order_search :: "'a library_scheme \<Rightarrow> principal \<Rightarrow> order_query \<Rightarrow> mcp_failure + tool_output" where
  "tool_order_search s who q =
    (if \<not> reads_as_staff who \<and> (given (oq_payment_status q) \<or> given (oq_fulfillment_status q) \<or> given (oq_order_no q))
     then tool_fail ''VALIDATION_ERROR''
     else tool_result (bindE
       (if reads_as_staff who
        then service_list_admin_orders s who (oq_order_status q) (oq_payment_status q) (oq_fulfillment_status q)
          (oq_order_no q) (int (oq_page q)) (oq_page_size q)
        else service_list_customer_orders s who (oq_order_status q) (int (oq_page q)) (oq_page_size q))
       (\<lambda>(rows, n). ok (Order_search_out n (map order_summary_of rows)))))"

definition fulfillment_out_of :: "fulfillment \<Rightarrow> fulfillment_out" where
  "fulfillment_out_of f =
    \<lparr>fo_id = fu_id f, fo_fulfillment_no = fu_fulfillment_no f, fo_order_id = fu_order_id f,
     fo_fulfillment_status = fu_status f, fo_carrier = fu_carrier f, fo_tracking_no = fu_tracking_no f,
     fo_shipped_at = fu_shipped_at f\<rparr>"

definition tool_fulfillment_get :: "'a library_scheme \<Rightarrow> principal \<Rightarrow> string \<Rightarrow> mcp_failure + tool_output" where
  "tool_fulfillment_get s who order_no =
    tool_result (bindE (get_for_order_no s who order_no) (\<lambda>rows.
      ok (Fulfillment_get_out order_no (map fulfillment_out_of rows))))"

definition tool_after_sale_get :: "tool_env \<Rightarrow> 'a library_scheme \<Rightarrow> principal \<Rightarrow> string \<Rightarrow> mcp_failure + tool_output" where
  "tool_after_sale_get te s who after_sale_no =
    tool_result (bindE (if reads_as_staff who then get_admin_claim s who after_sale_no
        else get_customer_claim s who after_sale_no)
      (\<lambda>c. ok (After_sale_get_out
        \<lparr>ao_id = af_id c, ao_after_sale_no = af_after_sale_no c, ao_order_no = af_order_no c,
         ao_claim_status = af_claim_status c, ao_type = af_type c, ao_requested_amount = af_requested_amount c,
         ao_approved_amount = af_approved_amount c, ao_refunded_amount = af_refunded_amount c,
         ao_reason = te_scrub te (af_reason c), ao_created_at = af_created_at c\<rparr>)))"

section \<open>Inventory\<close>

definition position_out :: "'a library_scheme \<Rightarrow> inventory \<Rightarrow> inventory_position_out" where
  "position_out s i =
    (let sku = find (\<lambda>k. sk_id k = inv_sku_id i) (skus s) in
     \<lparr>io_sku_id = inv_sku_id i, io_product_id = (case sku of None \<Rightarrow> 0 | Some k \<Rightarrow> sk_product_id k),
      io_sku_code = (case sku of None \<Rightarrow> [] | Some k \<Rightarrow> sk_code k),
      io_sku_name = (case sku of None \<Rightarrow> [] | Some k \<Rightarrow> sk_name k), io_warehouse_id = inv_warehouse_id i,
      io_available_qty = available_qty i, io_locked_qty = locked_qty i, io_safety_stock = safety_stock i,
      io_below_safety_stock = (available_qty i \<le> safety_stock i)\<rparr>)"

definition tool_inventory_get :: "'a library_scheme \<Rightarrow> principal \<Rightarrow> bool \<Rightarrow> nat \<Rightarrow> mcp_failure + tool_output" where
  "tool_inventory_get s who low_stock_only limit =
    tool_result (bindE (list_positions s (p_merchant_id who) None low_stock_only 0 limit) (\<lambda>(rows, n).
      ok (Inventory_get_out n (length rows) low_stock_only (map (position_out s) rows))))"

section \<open>Analytics\<close>

definition two_digits :: "string \<Rightarrow> int option" where
  "two_digits t = (if length t = 2 \<and> list_all is_digit t then Some (digits_int t) else None)"

definition leap :: "int \<Rightarrow> bool" where
  "leap y \<longleftrightarrow> 4 dvd y \<and> \<not> 100 dvd y \<or> 400 dvd y"

definition month_days :: "int \<Rightarrow> int \<Rightarrow> int" where
  "month_days y m = (if m = 2 then (if leap y then 29 else 28) else if m \<in> {4, 6, 9, 11} then 30 else 31)"

definition civil_day :: "int \<Rightarrow> int \<Rightarrow> int \<Rightarrow> int option" where
  "civil_day y m d =
    (if 1 \<le> y \<and> 1 \<le> m \<and> m \<le> 12 \<and> 1 \<le> d \<and> d \<le> month_days y m then Some (days_from_civil y m d) else None)"

text \<open>The day of an ISO week: the week of the year's first Thursday is the first.\<close>

definition iso_week_day :: "int \<Rightarrow> int \<Rightarrow> int \<Rightarrow> int option" where
  "iso_week_day y w d =
    (let jan1 = days_from_civil y 1 1;
         first = jan1 - weekday jan1 + (if weekday jan1 > 3 then 7 else 0);
         long = (weekday jan1 = 3 \<or> weekday jan1 = 2 \<and> leap y);
         day = first + (w - 1) * 7 + d - 1
     in if 1 \<le> y \<and> 1 \<le> w \<and> (w \<le> 52 \<or> w = 53 \<and> long) \<and> 1 \<le> d \<and> d \<le> 7 \<and> min_day \<le> day \<and> day \<le> max_day
        then Some day else None)"

text \<open>\<open>date.fromisoformat\<close>: a calendar date or a week date, with or without dashes.\<close>

definition from_isoformat :: "string \<Rightarrow> int option" where
  "from_isoformat t =
    (let year = take 4 t; dashed = (take 1 (drop 4 t) = ''-''); rest = drop (if dashed then 5 else 4) t in
     if \<not> (length year = 4 \<and> list_all is_digit year) then None
     else if take 1 rest = ''W''
     then (let day = drop 3 rest; day' = (if dashed then drop 1 day else day) in
       Option.bind (two_digits (take 2 (drop 1 rest))) (\<lambda>w.
       if day = [] then iso_week_day (digits_int year) w 1
       else if (dashed \<longrightarrow> take 1 day = ''-'') \<and> length day' = 1 \<and> list_all is_digit day'
       then iso_week_day (digits_int year) w (digits_int day') else None))
     else (let tail = drop 2 rest; day = (if dashed then drop 1 tail else tail) in
       Option.bind (two_digits (take 2 rest)) (\<lambda>m.
       if dashed \<and> take 1 tail \<noteq> ''-'' then None
       else Option.bind (two_digits day) (civil_day (digits_int year) m))))"

fun granularity_of :: "string \<Rightarrow> granularity option" where
  "granularity_of t = map_of [(''day'', By_day), (''week'', By_week), (''month'', By_month)] t"

definition tool_window :: "window_query \<Rightarrow> (int \<times> int \<times> granularity) option" where
  "tool_window w =
    (case (from_isoformat (wq_from_day w), from_isoformat (wq_to_day w)) of
       (Some f, Some t) \<Rightarrow> if f > t then None else map_option (\<lambda>g. (f, t, g)) (granularity_of (wq_granularity w))
     | _ \<Rightarrow> None)"

text \<open>Both refusals of the service for a scope leave with codes of the platform.\<close>

definition analytics_result :: "'a result \<Rightarrow> mcp_failure + 'a" where
  "analytics_result r =
    (if r = app_raise (Auth PermissionDeniedError) then tool_fail ''INSUFFICIENT_PERMISSION''
     else if r = app_raise (Auth DataScopeViolationError) then tool_fail ''DATA_SCOPE_VIOLATION''
     else tool_result r)"

definition tool_metric :: "tool_env \<Rightarrow> 'a library_scheme \<Rightarrow> principal \<Rightarrow> window_query \<Rightarrow> metric \<Rightarrow> mcp_failure + tool_output" where
  "tool_metric te s who w metric =
    (case tool_window w of
       None \<Rightarrow> tool_fail ''VALIDATION_ERROR''
     | Some (f, t, g) \<Rightarrow>
        map_sum id (\<lambda>r. Analytics_window_out
            \<lparr>aw_metric = metric_text (mr_metric r), aw_unit = mr_unit r, aw_from_day = mr_from r, aw_to_day = mr_to r,
             aw_granularity = granularity_text (mr_granularity r), aw_total = mr_total r, aw_previous_total = None,
             aw_series = mr_series r, aw_dimensions = mr_dimensions r\<rparr>)
          (analytics_result (read_metric (te_times te) s who metric f t g)))"

definition tool_analytics_sales ::
  "tool_env \<Rightarrow> 'a library_scheme \<Rightarrow> principal \<Rightarrow> string \<Rightarrow> window_query \<Rightarrow> mcp_failure + tool_output" where
  "tool_analytics_sales te s who name w =
    (if name = ''sales.gmv'' then tool_metric te s who w Sales_gmv
     else if name = ''sales.order_count'' then tool_metric te s who w Sales_order_count
     else tool_fail ''VALIDATION_ERROR'')"

definition change_of :: "rat option \<Rightarrow> rat option \<Rightarrow> rat option" where
  "change_of current reference =
    (case reference of
       None \<Rightarrow> None
     | Some b \<Rightarrow> if b = 0 then None else Some (((case current of None \<Rightarrow> 0 | Some c \<Rightarrow> c) - b) / b))"

text \<open>The three reads run in one session; the first that fails ends the call.\<close>

definition tool_anomalies :: "tool_env \<Rightarrow> 'a library_scheme \<Rightarrow> principal \<Rightarrow> window_query \<Rightarrow> mcp_failure + tool_output" where
  "tool_anomalies te s who w =
    (case tool_window w of
       None \<Rightarrow> tool_fail ''VALIDATION_ERROR''
     | Some (f, t, g) \<Rightarrow>
        let n = t - f + 1; read = (\<lambda>metric a b. analytics_result (read_metric (te_times te) s who metric a b g)) in
        if f - n < min_day then Inl (Crash (PythonError ''OverflowError''))
        else case read Sales_order_count f t of
          Inl e \<Rightarrow> Inl e
        | Inr current \<Rightarrow>
           (case read Sales_order_count (f - n) (f - 1) of
              Inl e \<Rightarrow> Inl e
            | Inr previous \<Rightarrow>
               (case read Refund_rate f t of
                  Inl e \<Rightarrow> Inl e
                | Inr refunded \<Rightarrow>
                   let change = change_of (mr_total current) (mr_total previous) in
                   Inr (Anomaly_out \<lparr>an_from_day = iso_text f, an_to_day = iso_text t,
                     an_granularity = granularity_text g, an_baseline_days = n,
                     an_order_count = mr_total current, an_previous_order_count = mr_total previous,
                     an_refund_rate = mr_total refunded, an_order_count_change_ratio = change,
                     an_anomaly_suspected = (case change of None \<Rightarrow> False | Some c \<Rightarrow> \<bar>c\<bar> \<ge> 1 / 2)\<rparr>))))"

section \<open>Knowledge\<close>

definition tool_knowledge_search ::
  "tool_env \<Rightarrow> 'a library_scheme \<Rightarrow> principal \<Rightarrow> string \<Rightarrow> int \<Rightarrow> nat \<Rightarrow> mcp_failure + tool_output" where
  "tool_knowledge_search te s who query base_id top_k =
    tool_result (bindE (debug_retrieval (te_contains te) s who query base_id top_k) (\<lambda>es.
      ok (Knowledge_search_out query base_id (length es) (map (\<lambda>e. e\<lparr>ke_snippet := te_scrub te (ke_snippet e)\<rparr>) es))))"

section \<open>Promotions\<close>

definition tool_draft :: "promotion_draft option \<Rightarrow> mcp_failure + promotion_draft" where
  "tool_draft d =
    (case d of
       None \<Rightarrow> tool_fail ''PROMOTION_RULE_INVALID''
     | Some x \<Rightarrow> if draft_valid x then Inr x else tool_fail ''PROMOTION_RULE_INVALID'')"

text \<open>The token of the preview stays in the process.\<close>

definition tool_promotion_preview ::
  "tool_env \<Rightarrow> 'a library_scheme \<Rightarrow> principal \<Rightarrow> promotion_draft option \<Rightarrow> mcp_failure + tool_output" where
  "tool_promotion_preview te s who arg =
    (case tool_draft arg of
       Inl e \<Rightarrow> Inl e
     | Inr d \<Rightarrow> tool_result (bindE (promotion_preview (te_preview te) s who d (te_nonce te)) (\<lambda>p.
         ok (Promotion_preview_out (pp_conflicts p) (pp_impact p) (pp_warned p)))))"

definition proposal_payload :: "promotion_draft \<Rightarrow> string \<Rightarrow> json" where
  "proposal_payload d summary = JObj [(''promotion'', promotion_draft_json d), (''summary'', JStr summary),
    (''proposed_via'', JStr ''mcp''), (''tool_name'', JStr ''nova.promotion.propose'')]"

definition proposed_action ::
  "tool_env \<Rightarrow> 'a library_scheme \<Rightarrow> principal \<Rightarrow> string \<Rightarrow> int \<Rightarrow> promotion_draft \<Rightarrow> string \<Rightarrow> pending_action" where
  "proposed_action te s who session m d summary =
    \<lparr>pa_id = fresh_id pa_id (pending_actions s), pa_merchant_id = m,
     pa_agent_run_id = ''mcp:'' @ (if session = [] then int_text (p_user_id who) else session),
     pa_action_type = ''PROMOTION_CREATE'', pa_tool_name = ''nova.promotion.propose'', pa_summary = summary,
     pa_risk_level = Risk_HIGH, pa_status = Action_PENDING, pa_payload = proposal_payload d summary,
     pa_payload_hash = payload_hash (pv_env (te_preview te)) (pv_number (te_preview te)) (proposal_payload d summary),
     pa_requested_by = p_user_id who, pa_decided_by = None, pa_decision_reason = None,
     pa_expires_at = db_now s + te_proposal_ttl_seconds te * 1000, pa_created_at = db_now s,
     pa_decided_at = None, pa_executed_at = None, pa_execution_receipt = None\<rparr>"

definition tool_promotion_propose ::
  "tool_env \<Rightarrow> 'a library_scheme \<Rightarrow> principal \<Rightarrow> string \<Rightarrow> promotion_draft option \<Rightarrow> string \<Rightarrow>
   (mcp_failure + tool_output) \<times> 'a library_scheme" where
  "tool_promotion_propose te s who session arg summary =
    (case tool_draft arg of
       Inl e \<Rightarrow> (Inl e, s)
     | Inr d \<Rightarrow>
        if \<not> has_permission who ''promotion:write'' then (tool_fail ''INSUFFICIENT_PERMISSION'', s)
        else case p_merchant_id who of
          None \<Rightarrow> (tool_fail ''MCP_WRITE_NOT_PERMITTED'', s)
        | Some m \<Rightarrow>
           let a = proposed_action te s who session m d summary in
           (Inr (Promotion_propose_out \<lparr>pq_pending_action_id = pa_id a, pq_status = pa_status a,
              pq_risk_level = pa_risk_level a, pq_action_type = pa_action_type a, pq_approval_required = True,
              pq_promotion_created = False, pq_expires_at = pa_expires_at a\<rparr>),
            s\<lparr>pending_actions := pending_actions s @ [a]\<rparr>))"

section \<open>Dispatch\<close>

fun run_tool ::
  "tool_env \<Rightarrow> 'a library_scheme \<Rightarrow> principal \<Rightarrow> string \<Rightarrow> tool_args \<Rightarrow> (mcp_failure + tool_output) \<times> 'a library_scheme" where
  "run_tool te s who session (Args_product_search k st p n) = (tool_product_search te s who k st p n, s)"
| "run_tool te s who session (Args_product_get i) = (tool_product_get s who i, s)"
| "run_tool te s who session (Args_sku_get i c p) = (tool_sku_get s who i c p, s)"
| "run_tool te s who session (Args_order_get n) = (tool_order_get s who n, s)"
| "run_tool te s who session (Args_order_search q) = (tool_order_search s who q, s)"
| "run_tool te s who session (Args_fulfillment_get n) = (tool_fulfillment_get s who n, s)"
| "run_tool te s who session (Args_after_sale_get n) = (tool_after_sale_get te s who n, s)"
| "run_tool te s who session (Args_inventory_get l n) = (tool_inventory_get s who l n, s)"
| "run_tool te s who session (Args_analytics_sales m w) = (tool_analytics_sales te s who m w, s)"
| "run_tool te s who session (Args_analytics_inventory w) = (tool_metric te s who w Inventory_turnover, s)"
| "run_tool te s who session (Args_analytics_product_performance w) = (tool_metric te s who w Product_performance, s)"
| "run_tool te s who session (Args_analytics_refunds w) = (tool_metric te s who w Refund_rate, s)"
| "run_tool te s who session (Args_analytics_anomalies w) = (tool_anomalies te s who w, s)"
| "run_tool te s who session (Args_knowledge_search q b k) = (tool_knowledge_search te s who q b k, s)"
| "run_tool te s who session (Args_promotion_preview d) = (tool_promotion_preview te s who d, s)"
| "run_tool te s who session (Args_promotion_propose d t) = tool_promotion_propose te s who session d t"

text \<open>A call over the wire, with its token: the wrapper of the tool around its body.\<close>

definition call_tool ::
  "mcp_settings \<Rightarrow> tool_env \<Rightarrow> 'a library_scheme \<Rightarrow> verified_token option \<Rightarrow> tool_args \<Rightarrow>
   (mcp_failure + tool_output) \<times> 'a library_scheme" where
  "call_tool st te s token args =
    (case find_spec (tool_of args) of
       None \<Rightarrow> (tool_fail ''MCP_TOOL_NOT_EXPOSED'', s)
     | Some t \<Rightarrow>
        (case authorized_handler st t Some
            (\<lambda>who session a. Inr (run_tool te s who session a)) token args of
           Inl e \<Rightarrow> (Inl e, s)
         | Inr answer \<Rightarrow> answer))"

end
