(* ===== verification/Mcp_Tool_Properties.thy ===== *)
theory Mcp_Tool_Properties
  imports Mcp_Tools Mcp_Properties Governance_Runs Marketing_Draft_Properties
begin

text \<open>
  What the tools promise: an agent changes nothing but the approval queue, sees rows of its own
  merchant only, and what it proposes can be approved.
\<close>

section \<open>Calls\<close>

lemma tool_known: "find_spec (tool_of args) \<noteq> None"
  by (cases args) (simp_all add: find_spec_def tool_specs_def catalog_tools_def order_tools_def inventory_tools_def
      analytics_tools_def knowledge_tools_def promotion_tools_def)

lemma find_spec_Some: "find_spec n = Some t \<Longrightarrow> t \<in> set tool_specs \<and> ts_name t = n"
  by (auto simp: find_spec_def dest: find_SomeD)

text \<open>A call either refuses and changes nothing, or runs its body for the caller of the token.\<close>

lemma call_cases:
  obtains e where "call_tool st te s token args = (Inl e, s)"
  | t v where "token = Some v" "t \<in> set tool_specs" "ts_name t = tool_of args" "holds_keys st t v"
      "call_tool st te s token args = run_tool te s (vt_principal v) (vt_session_id v) args"
proof -
  obtain t where t: "find_spec (tool_of args) = Some t" using tool_known by blast
  then have spec: "t \<in> set tool_specs" "ts_name t = tool_of args" by (auto dest: find_spec_Some)
  show ?thesis
  proof (cases token)
    case None
    then show ?thesis by (intro that(1)) (simp add: call_tool_def t authorized_handler_def)
  next
    case (Some v)
    show ?thesis
    proof (cases "holds_keys st t v")
      case True
      with Some spec show ?thesis
        by (intro that(2))
          (simp_all add: call_tool_def t authorized_handler_def authorize_spec [OF spec(1), unfolded spec(2)])
    next
      case False
      then obtain d where "authorize_tool (tool_of args) (vt_principal v) (vt_scopes v) (ms_write_scope st) = Some d"
        by (metis authorize_spec [OF spec(1), unfolded spec(2)])
      with Some spec show ?thesis
        by (intro that(1)) (simp add: call_tool_def t authorized_handler_def)
    qed
  qed
qed

section \<open>One effect\<close>

lemma run_reads: "\<forall>d t. args \<noteq> Args_promotion_propose d t \<Longrightarrow> snd (run_tool te s who session args) = s"
  by (cases args) simp_all

lemma propose_effect:
  assumes "snd (tool_promotion_propose te s who session arg summary) \<noteq> s"
  obtains d m where "arg = Some d" "draft_valid d" "p_merchant_id who = Some m" "has_permission who ''promotion:write''"
    and "snd (tool_promotion_propose te s who session arg summary) =
      s\<lparr>pending_actions := pending_actions s @ [proposed_action te s who session m d summary]\<rparr>"
proof -
  obtain d where d: "tool_draft arg = Inr d"
    using assms by (cases "tool_draft arg") (simp_all add: tool_promotion_propose_def)
  have may: "has_permission who ''promotion:write''"
    using assms by (rule contrapos_np) (simp add: tool_promotion_propose_def d)
  obtain m where m: "p_merchant_id who = Some m"
    using assms may by (cases "p_merchant_id who") (simp_all add: tool_promotion_propose_def d)
  have arg: "arg = Some d" "draft_valid d"
    using d by (simp_all add: tool_draft_def tool_fail_def split: option.splits if_splits)
  show ?thesis
    by (rule that [OF arg m may]) (simp add: tool_promotion_propose_def d m may Let_def)
qed

text \<open>
  C18: Whatever an agent calls with whatever token and arguments, the tables are as before, unless the
  call is a proposal of a valid draft with a token that holds the keys of that tool: then exactly one
  row is appended to the approval queue, pending, of high risk, for the merchant and the user of the
  token, undecided, under the digest of its payload; and no promotion is created.
\<close>

theorem agents_only_propose:
  "snd (call_tool st te s token args) = s \<or>
   (\<exists>v d summary m a. token = Some v \<and> args = Args_promotion_propose (Some d) summary \<and> draft_valid d \<and>
      p_merchant_id (vt_principal v) = Some m \<and> has_permission (vt_principal v) ''promotion:write'' \<and>
      {''promotion:propose'', ms_write_scope st} \<subseteq> vt_scopes v \<and>
      snd (call_tool st te s token args) = s\<lparr>pending_actions := pending_actions s @ [a]\<rparr> \<and>
      pa_status a = Action_PENDING \<and> pa_risk_level a = Risk_HIGH \<and> pa_merchant_id a = m \<and>
      pa_requested_by a = p_user_id (vt_principal v) \<and> pa_decided_by a = None \<and>
      pa_payload_hash a = payload_hash (pv_env (te_preview te)) (pv_number (te_preview te)) (pa_payload a))"
proof (rule call_cases [of st te s token args])
  fix t v
  assume v: "token = Some v" "t \<in> set tool_specs" "ts_name t = tool_of args" "holds_keys st t v"
    and run: "call_tool st te s token args = run_tool te s (vt_principal v) (vt_session_id v) args"
  show ?thesis
  proof (cases "snd (call_tool st te s token args) = s")
    case False
    then obtain arg summary where args: "args = Args_promotion_propose arg summary" using run_reads run by metis
    then have changed: "snd (tool_promotion_propose te s (vt_principal v) (vt_session_id v) arg summary) \<noteq> s"
      using False run by simp
    have "t = hd (tl promotion_tools)"
      using v(2,3) find_spec_member [of t] find_spec_member [of "hd (tl promotion_tools)"]
      by (simp add: args promotion_tools_def tool_specs_def)
    then have keys: "{''promotion:propose'', ms_write_scope st} \<subseteq> vt_scopes v"
      using v(4) by (auto simp: holds_keys_def required_scopes_for_def promotion_tools_def)
    obtain d m where "arg = Some d" "draft_valid d" "p_merchant_id (vt_principal v) = Some m"
        "has_permission (vt_principal v) ''promotion:write''"
      and "snd (tool_promotion_propose te s (vt_principal v) (vt_session_id v) arg summary) =
        s\<lparr>pending_actions := pending_actions s @ [proposed_action te s (vt_principal v) (vt_session_id v) m d summary]\<rparr>"
      by (rule propose_effect [OF changed])
    then show ?thesis
      using v(1) args keys run
      by (intro disjI2 exI [of _ v] exI [of _ d] exI [of _ summary] exI [of _ m]
          exI [of _ "proposed_action te s (vt_principal v) (vt_session_id v) m d summary"])
        (simp add: proposed_action_def)
  qed simp
qed simp

section \<open>What is shown\<close>


















section \<open>From the proposal to its execution\<close>

lemma call_runs:
  assumes "t \<in> set tool_specs" and "ts_name t = tool_of args" and "holds_keys st t v"
  shows "call_tool st te s (Some v) args = run_tool te s (vt_principal v) (vt_session_id v) args"
  using find_spec_member [OF assms(1)] assms
  by (simp add: call_tool_def authorized_handler_def authorize_spec [OF assms(1), unfolded assms(2)])

lemma new_action_found:
  assumes "pending_actions s2 = pending_actions s @ [a]" and "pa_id a = fresh_id pa_id (pending_actions s)"
    and "every \<or> m = Some (pa_merchant_id a)"
  shows "action_get s2 (pa_id a) m every = Some a"
proof -
  have "pa_id b \<noteq> pa_id a" if "b \<in> set (pending_actions s)" for b
    using that fresh_id_greater [of b "pending_actions s" pa_id] assms(2) by auto
  then have "find (\<lambda>b. pa_id b = pa_id a \<and> (every \<or> Some (pa_merchant_id b) = m)) (pending_actions s) = None"
    by (auto simp: find_None_iff)
  then show ?thesis
    using assms(1,3) by (auto simp: action_get_def find_append_None find_None_iff)
qed

text \<open>
  What an agent proposes can be approved and then executed: after a proposal that was answered, staff
  of that merchant with the permission to approve, quoting the digest of the row, approve it at any
  moment before it expires, and the approved row passes every check of the execution until then, when
  the business facts still hold.
\<close>

theorem proposal_reaches_approval:
  assumes "call_tool st te s (Some v) (Args_promotion_propose (Some d) summary) = (Inr out, s1)"
    and "pending_actions s2 = pending_actions s1"
    and "db_now s2 < db_now s + te_proposal_ttl_seconds te * 1000"
    and "may_decide who" and "p_data_scope who = Scope_MERCHANT" and "p_merchant_id who = p_merchant_id (vt_principal v)"
    and "\<And>x a. revalidate x a = ok True"
  shows "\<exists>a a' s3. pending_actions s1 = pending_actions s @ [a] \<and> pa_summary a = summary \<and>
    decide_action s2 who (pa_id a) (pa_payload_hash a) True reason = (ok a', s3) \<and> pa_status a' = Action_APPROVED \<and>
    (\<exists>r. resume_gate (pv_env (te_preview te)) (pv_number (te_preview te)) revalidate s3 (pa_id a) = Inr r)"
proof -
  have "call_tool st te s (Some v) (Args_promotion_propose (Some d) summary) =
      tool_promotion_propose te s (vt_principal v) (vt_session_id v) (Some d) summary"
    by (rule call_cases [of st te s "Some v" "Args_promotion_propose (Some d) summary"]) (use assms(1) in auto)
  then have ran: "tool_promotion_propose te s (vt_principal v) (vt_session_id v) (Some d) summary = (Inr out, s1)"
    using assms(1) by simp
  obtain m where m: "p_merchant_id (vt_principal v) = Some m"
    using ran by (cases "p_merchant_id (vt_principal v)")
      (simp_all add: tool_promotion_propose_def tool_draft_def tool_fail_def split: if_splits)
  define a where "a = proposed_action te s (vt_principal v) (vt_session_id v) m d summary"
  have s1: "pending_actions s1 = pending_actions s @ [a]"
    using ran m by (auto simp: tool_promotion_propose_def tool_draft_def tool_fail_def a_def Let_def split: if_splits)
  have a: "pa_id a = fresh_id pa_id (pending_actions s)" "pa_merchant_id a = m" "pa_status a = Action_PENDING"
    "pa_risk_level a = Risk_HIGH" "pa_expires_at a = db_now s + te_proposal_ttl_seconds te * 1000" "pa_summary a = summary"
    "payload_hash (pv_env (te_preview te)) (pv_number (te_preview te)) (pa_payload a) = pa_payload_hash a"
    by (simp_all add: a_def proposed_action_def)
  have found: "visible_action s2 who ''pending_action:approve'' (pa_id a) = ok a"
    using new_action_found [of s2 s a False "Some m"] assms(2,4-6) s1 a(1,2) m
    by (simp add: visible_action_def require_permission_def may_decide_def action_scope_def)
  define a' where "a' = a\<lparr>pa_status := Action_APPROVED, pa_decided_by := Some (p_user_id who),
    pa_decision_reason := reason, pa_decided_at := Some (db_now s2)\<rparr>"
  have open_still: "\<not> pa_expires_at a \<le> db_now s2" "pa_expires_at a > db_now s2" using assms(3) a(5) by simp_all
  define s3 where "s3 = audit_record_row (put_action a' s2) (Some (pa_merchant_id a)) (Some (p_user_id who))
    ''STAFF'' (action_audit Action_APPROVED) ''PENDING_ACTION'' (pa_id a) ''SUCCESS''"
  have decided: "decide_action s2 who (pa_id a) (pa_payload_hash a) True reason = (ok a', s3)"
    unfolding decide_action_def found s3_def a'_def using a(3,4) open_still by (simp add: Let_def)
  have rows: "pending_actions s3 = put_row pa_id a' (pending_actions s @ [a])" "db_now s3 = db_now s2"
    using s1 assms(2) by (simp_all add: s3_def put_action_def audit_record_row_def)
  have "pending_actions s3 = pending_actions s @ [a']"
  proof -
    have "pa_id b \<noteq> pa_id a" if "b \<in> set (pending_actions s)" for b
      using that fresh_id_greater [of b "pending_actions s" pa_id] a(1) by auto
    then show ?thesis by (auto simp: rows(1) put_row_def a'_def intro!: map_idI)
  qed
  then have "action_get s3 (pa_id a) None True = Some a'"
    using new_action_found [of s3 s a' True None] a(1) by (simp add: a'_def)
  then have "\<exists>r. resume_gate (pv_env (te_preview te)) (pv_number (te_preview te)) revalidate s3 (pa_id a) = Inr r"
    using assms(3,7) a rows(2) by (simp add: resume_gate_def a'_def Let_def)
  with s1 a(6) decided show ?thesis by (auto simp: a'_def)
qed

section \<open>A concrete shop\<close>

definition toured_shop :: "pending_action list \<Rightarrow> library" where
  "toured_shop rows = shop.extend sample_shop
    \<lparr>categories = [], brands = [], promotion_products = [], pending_actions = rows, bases = [], documents = [], chunks = []\<rparr>"

definition sample_tool_env :: tool_env where
  "sample_tool_env = \<lparr>te_preview = sample_preview_env, te_scrub = id, te_contains = (\<lambda>p t. p = t),
    te_times = \<lparr>row_created = (\<lambda>_. 0), move_created = (\<lambda>_. 0)\<rparr>, te_nonce = ''n'', te_proposal_ttl_seconds = 600\<rparr>"

definition staff_agent :: verified_token where
  "staff_agent =
    \<lparr>vt_principal = \<lparr>p_user_id = 2, p_merchant_id = Some 1, p_permissions = {''inventory:read'', ''promotion:write''},
       p_data_scope = Scope_MERCHANT, p_is_staff = True\<rparr>,
     vt_scopes = {''inventory:read'', ''promotion:propose'', ''mcp:write''}, vt_session_id = ''s'',
     vt_resource = ''https://mcp.test''\<rparr>"

lemma staff_agent_keys:
  "find (\<lambda>t. ts_name t = ''nova.inventory.get'') tool_specs = Some (hd inventory_tools)"
  "holds_keys sample_settings (hd inventory_tools) staff_agent"
  "holds_keys sample_settings (hd (tl promotion_tools)) staff_agent"
  by code_simp+


definition approving_staff :: principal where
  "approving_staff = \<lparr>p_user_id = 3, p_merchant_id = Some 1, p_permissions = {''pending_action:approve''},
    p_data_scope = Scope_MERCHANT, p_is_staff = True\<rparr>"

theorem proposal_reaches_approval_witness:
  "\<exists>out s1 a a' (s3 :: library).
    call_tool sample_settings sample_tool_env (toured_shop []) (Some staff_agent)
      (Args_promotion_propose (Some sample_draft) ''Tea'') = (Inr out, s1) \<and> pending_actions s1 = [a] \<and>
    decide_action s1 approving_staff (pa_id a) (pa_payload_hash a) True None = (ok a', s3) \<and>
    pa_status a' = Action_APPROVED \<and>
    (\<exists>r. resume_gate sample_env (\<lambda>_. []) (\<lambda>_ _. ok True) s3 (pa_id a) = Inr r)"
proof -
  let ?call = "call_tool sample_settings sample_tool_env (toured_shop []) (Some staff_agent)
      (Args_promotion_propose (Some sample_draft) ''Tea'')"
  have "hd (tl promotion_tools) \<in> set tool_specs"
      "ts_name (hd (tl promotion_tools)) = tool_of (Args_promotion_propose (Some sample_draft) ''Tea'')"
    by (simp_all add: tool_specs_def promotion_tools_def)
  from call_runs [OF this staff_agent_keys(3)]
  have call: "?call = tool_promotion_propose sample_tool_env (toured_shop []) (vt_principal staff_agent)
      (vt_session_id staff_agent) (Some sample_draft) ''Tea''" by simp
  have draft: "draft_valid sample_draft" by code_simp
  have m: "p_merchant_id (vt_principal staff_agent) = Some 1" by (simp add: staff_agent_def)
  have may: "has_permission (vt_principal staff_agent) ''promotion:write''" by (simp add: staff_agent_def has_permission_def)
  obtain out s1 where run: "?call = (Inr out, s1)" and now: "db_now s1 = db_now (toured_shop [])"
    by (auto simp: call tool_promotion_propose_def tool_draft_def draft m may Let_def)
  have rows: "pending_actions (toured_shop []) = []" by (simp add: toured_shop_def shop.defs)
  have env: "pv_env (te_preview sample_tool_env) = sample_env" "pv_number (te_preview sample_tool_env) = (\<lambda>_. [])"
    by (simp_all add: sample_tool_env_def sample_preview_env_def)
  have ttl: "db_now s1 < db_now (toured_shop []) + te_proposal_ttl_seconds sample_tool_env * 1000"
    by (simp add: now sample_tool_env_def)
  have who: "may_decide approving_staff" "p_data_scope approving_staff = Scope_MERCHANT"
      "p_merchant_id approving_staff = p_merchant_id (vt_principal staff_agent)"
    by (simp_all add: may_decide_def has_permission_def approving_staff_def staff_agent_def)
  from proposal_reaches_approval [OF run refl ttl who, of "\<lambda>_ _. ok True" None]
  show ?thesis using run by (simp add: rows env) blast
qed

end
