(* ===== verification/Spec2Isabelle.thy ===== *)
theory Spec2Isabelle
  imports Pricing_Properties Inventory_Properties Inventory_Concurrency Marketing_Properties Order_Codec
    Payment_Properties Payment_Guards Outbox_Properties Fulfillment_Properties
    Refund_Properties Identity_Families Identity_Address_Book Object_Store_Double
    Catalog_Properties Marketing_Draft_Properties Governance_Runs Mcp_Properties
    Analytics_Properties Knowledge_Properties Knowledge_Evaluation Mcp_Tool_Properties
begin

text \<open>
  A model of the backend of Nova Commerce (\<open>src/backend/app\<close>): a shop for one or more merchants
  with a customer storefront, a staff console and an external tool surface for agents, on one
  relational database, an object store and an outbox.

  \<^bold>\<open>The program and its parts.\<close> A request carries an authenticated caller (identity). A
  customer fills a cart that the price authority prices, places an order in one transaction that
  reserves stock, locks a coupon, takes promotion quota and queues an event, and pays it through a
  provider whose signed callbacks settle the payment. Packages are shipped and received; claims
  are filed, answered and refunded; a publisher drains the outbox. The console edits the catalogue,
  the promotions and the stock. Every service authorises its caller first and raises errors of
  one taxonomy, which the HTTP boundary maps to a status and a business code.

  \<^bold>\<open>Conventions.\<close> A table is the list of its rows, and the tables of a component are a record; the
  records extend one another (\<open>stock_db\<close>, \<open>shop\<close>, and what a later component adds). A call that may
  raise is a value of \<open>exn + 'a\<close>, sequenced by \<open>bindE\<close> and \<open>require\<close>; since a failed request rolls back,
  the new tables are part of a successful answer only. Where the code commits before it raises,
  the model says so (\<open>tx\<close> in \<open>Identity_Sessions\<close>, the answers that carry a state in \<open>Payment_Workflow\<close>).
  Money is an integer of minor units, time an integer of milliseconds (the database clock \<open>db_now\<close>),
  a text the list of its UTF-8 bytes. Python's integers are unbounded; the catalogue's columns are not,
  and their flush refuses what does not fit. A float of the reports is the rational or real it stands for.

  \<^bold>\<open>Theories, in the order of the code.\<close>
  \<^item> \<open>Nova_Errors\<close> (\<open>core/errors.py\<close>), \<open>Nova_Prelude\<close>, \<open>Nova_Text\<close>, \<open>Nova_Parse\<close>: errors, the result
    type and its rules, texts and the readers of numbers. \<open>Shop_Model\<close>, \<open>Shop_Repository\<close>, \<open>Shop_Facts\<close>,
    \<open>Shop_Frames\<close>: the shared tables, their repositories and the lemmas about totals and frames;
    \<open>Shop_Sample\<close> is the concrete shop of the witnesses.
  \<^item> \<open>Pricing_Values\<close>, \<open>Pricing_Allocation\<close>, \<open>Pricing_Service\<close> (\<open>modules/pricing\<close>): every branch of the
    price authority on dynamically typed arguments. \<open>Pricing_Invariants\<close> and \<open>Pricing_Properties\<close>:
    allocations are exact, priced carts add up. The contract of the allocation is a locale.
  \<^item> \<open>Inventory\<close> (\<open>modules/inventory\<close>), \<open>Inventory_Ledger\<close>, \<open>Inventory_Properties\<close>: the stock ledger, whose
    keyed operations share the locale \<open>keyed_stock_op\<close>; \<open>Inventory_Concurrency\<close>: reservations as
    transaction steps under every interleaving, with row locks and unique keys.
  \<^item> \<open>Identity_Access\<close>, \<open>Identity_Accounts\<close>, \<open>Identity_Security\<close>, \<open>Identity_Sessions\<close>,
    \<open>Identity_Addresses\<close> (\<open>modules/identity\<close>): accounts, tokens, sessions and addresses.
    \<open>Identity_Runs\<close>, \<open>Identity_Properties\<close>, \<open>Identity_Families\<close>, \<open>Identity_Address_Book\<close>: what every run of
    requests keeps; the three endpoints meet the locale \<open>session_request\<close>.
  \<^item> \<open>Marketing\<close>, \<open>Marketing_Properties\<close> (\<open>modules/marketing\<close>): the choice of promotions and the life of a
    coupon.
  \<^item> \<open>Order_State\<close>, \<open>Order_Create\<close>, \<open>Order_Codec\<close>, \<open>Order_Lifecycle\<close> (\<open>modules/order\<close>): the state
    machine, the creation workflow, the injectivity of its request digest and keys (the locale
    \<open>prefix_code\<close>), cancellation, receipt, expiry and the queries.
  \<^item> \<open>Outbox_Publisher\<close>, \<open>Outbox_Properties\<close> (\<open>shared/outbox\<close>): publication with retries.
  \<^item> \<open>Payment_Providers\<close>, \<open>Payment_Service\<close>, \<open>Payment_Workflow\<close>, \<open>Payment_Compensation\<close>
    (\<open>modules/payment\<close>), with \<open>Payment_Properties\<close> and \<open>Payment_Guards\<close>: callbacks, settlement and the
    refund of late payments.
  \<^item> \<open>Fulfillment\<close>, \<open>Fulfillment_Properties\<close> (\<open>modules/fulfillment\<close>): packages and the roll-up.
  \<^item> \<open>After_Sale_Claims\<close>, \<open>After_Sale_Service\<close>, \<open>Refund_Workflow\<close> (\<open>modules/aftersales\<close>), with \<open>Refund_Facts\<close>,
    \<open>After_Sale_Runs\<close>, \<open>After_Sale_Invariants\<close>, \<open>Refund_Sample\<close> and \<open>Refund_Properties\<close>: claims, refunds and
    the books they keep.
  \<^item> \<open>Storage_Port\<close>, \<open>Object_Store\<close> (\<open>shared/storage\<close>), with \<open>Storage_Keys\<close> and \<open>Object_Store_Double\<close>: object
    keys, uploads and the two backends, against the laws of the locale \<open>object_port\<close>.
  \<^item> \<open>Catalog\<close>, \<open>Catalog_Public\<close> (\<open>modules/catalog\<close>): the console's products, SKUs and images, with uploads
    that meet the tables other transactions left, and the storefront's reads. \<open>Catalog_Runs\<close>,
    \<open>Catalog_Properties\<close>: what every run keeps, and that the page shows what the checkout charges.
  \<^item> \<open>Marketing_Drafts\<close>, \<open>Marketing_Draft_Properties\<close> (\<open>modules/marketing\<close>): drafts, previews and their signed
    proof, creation; what a proof creates, and that it does so once.
  \<^item> \<open>Governance\<close>, \<open>Governance_Runs\<close> (\<open>modules/governance\<close>): the queue of actions that wait for a person, and
    the life of one action over every run. The state grows by record extension: \<open>shop\<close>, \<open>catalogue\<close>,
    \<open>offer_tables\<close>, \<open>governed\<close>, \<open>library\<close>, \<open>evaluated_library\<close>.
  \<^item> \<open>Mcp_Policy\<close>, \<open>Mcp_Properties\<close> (\<open>mcp/policy.py\<close>, \<open>auth.py\<close>, \<open>server.py\<close>): the tools for agents, who may use
    them, and that the listing is what may be called.
  \<^item> \<open>Analytics\<close>, \<open>Analytics_Properties\<close> (\<open>modules/analytics\<close>): the five metrics; their series add up, and the
    stock they divide by is the ledger's.
  \<^item> \<open>Knowledge\<close>, \<open>Knowledge_Evaluation\<close>, \<open>Knowledge_Properties\<close> (\<open>modules/knowledge\<close>): documents as overlapping
    chunks, retrieval and its scores; short queries are found, and scores are shares.
  \<^item> \<open>Mcp_Tools\<close>, \<open>Mcp_Tool_Properties\<close> (\<open>mcp/tools.py\<close>): the sixteen tools over the services; an agent changes
    nothing but the approval queue, sees its own merchant only, and what it proposes can be approved.

  \<^bold>\<open>Parameters.\<close> Code that is not in the repository is an argument: the digests SHA-256 and HMAC, the
  password hash Argon2 and the signed tokens of PyJWT (\<open>env\<close>, \<open>auth_env\<close>), random draws, the
  transport of the outbox, the providers' refund calls, the client of the object store, the Unicode
  and MIME tables, the substring match of the database, the scrubbing of free text (\<open>tool_env\<close>). Nothing is assumed of them in a definition; a theorem that needs a law (an
  injective digest, a decoder that gives back what was encoded) has it as a hypothesis.

  \<^bold>\<open>Bounds and fuel.\<close> No definition runs out of fuel that the code does not have: a rotation family
  is walked at most \<open>family_depth = 50\<close> steps each way because the code stops there, a key is decoded in
  \<open>max_decode_rounds = 6\<close> rounds, a stored body is filtered to depth \<open>max_depth = 8\<close>, and the publisher's
  retries end after its maximal number of attempts, within the cycles \<open>outbox_drains\<close> counts.

  \<^bold>\<open>Not modelled, and why.\<close> The routers, request schemas beyond the checks named above, and
  serializers only restate fields. Settings parsing, logging, tracing and middleware hold no
  state of the shop. Migrations are generated from the models, whose constraints are modelled; the
  scripts collect evidence. The conversations of the agent are calls of a language model,
  and redaction is a set of regular expressions. Column widths are modelled in the catalogue only;
  collations and the column \<open>updated_at\<close> are left out, and a
  deadlock or a lost connection is not an answer of the database. Requests of one service run one at a
  time, except reservations, whose transactions interleave step by step, and image uploads, which meet
  the tables of other transactions: the identity code takes no row locks, so two overlapping refreshes
  or address changes are outside what its theorems say.
\<close>

end
